(* ===== verification/Prelude.thy ===== *)
theory Prelude
  imports Complex_Main
begin

text \<open>
  Shared vocabulary of the development: the exceptions the payroll services raise, the result
  type that carries them, the two ways the services read a query result
  (\<open>scalar_one_or_none\<close> and \<open>first\<close>), identifiers, and the lemma collections
  the component theories extend.
\<close>

section \<open>Lemma collections\<close>

named_theorems dec_exact \<open>decimal operations that are exact on their operands\<close>
named_theorems money_pos \<open>monetary quantities that are never negative\<close>
named_theorems frame \<open>state components that an operation leaves alone\<close>

section \<open>Exceptions and results\<close>

text \<open>
  An exception carries what a caller can act on: the HTTP status code and the fixed part of the
  message. Identifiers that the source interpolates into a message are dropped.
\<close>

datatype exc =
    HTTPException int string
  | ForbiddenException string
  | ValueError string
  | LookupError string
  | MultipleResultsFound
  | InvalidOperation
  | DivisionByZero
  | IntegrityError
  | AttributeError string

type_synonym 'a result = "exc + 'a"

type_synonym uuid = nat

type_synonym timestamp = int

fun bind_res :: "'a result \<Rightarrow> ('a \<Rightarrow> 'b result) \<Rightarrow> 'b result" where
  "bind_res (Inl e) f = Inl e"
| "bind_res (Inr x) f = f x"

text \<open>
  For evaluation, a bind is a case distinction: the continuation is only entered with a value.
\<close>

lemma bind_res_case [code_unfold]:
  "bind_res r f = (case r of Inl e \<Rightarrow> Inl e | Inr x \<Rightarrow> f x)"
  by (cases r) auto

lemma bind_res_Inr_iff:
  "bind_res r f = Inr y \<longleftrightarrow> (\<exists>x. r = Inr x \<and> f x = Inr y)"
  by (cases r) auto

lemma bind_res_Inl_iff:
  "bind_res r f = Inl e \<longleftrightarrow> r = Inl e \<or> (\<exists>x. r = Inr x \<and> f x = Inl e)"
  by (cases r) auto

section \<open>Reading a query result\<close>

text \<open>
  SQLAlchemy's \<open>scalar_one_or_none()\<close>: no row gives None, one row gives it, and two or more
  rows raise \<open>MultipleResultsFound\<close>.
\<close>

fun scalar_one_or_none :: "'a list \<Rightarrow> 'a option result" where
  "scalar_one_or_none [] = Inr None"
| "scalar_one_or_none [x] = Inr (Some x)"
| "scalar_one_or_none (x # y # ys) = Inl MultipleResultsFound"

fun scalars_first :: "'a list \<Rightarrow> 'a option" where
  "scalars_first [] = None"
| "scalars_first (x # xs) = Some x"

lemma scalar_one_or_none_Inr_Some:
  "scalar_one_or_none xs = Inr (Some x) \<longleftrightarrow> xs = [x]"
  by (cases xs rule: scalar_one_or_none.cases) auto

lemma scalar_one_or_none_Inr_None:
  "scalar_one_or_none xs = Inr None \<longleftrightarrow> xs = []"
  by (cases xs rule: scalar_one_or_none.cases) auto

lemma scalar_one_or_none_Inl:
  "scalar_one_or_none xs = Inl e \<longleftrightarrow> e = MultipleResultsFound \<and> 2 \<le> length xs"
  by (cases xs rule: scalar_one_or_none.cases) auto

lemma scalars_first_Some: "scalars_first xs = Some x \<Longrightarrow> x \<in> set xs"
  by (cases xs) auto

section \<open>Rows keyed by an identifier\<close>

text \<open>
  A table is the list of its rows. \<open>update_where\<close> is the effect of assigning to the
  attributes of the row objects that a query returned.
\<close>

definition update_where :: "('a \<Rightarrow> bool) \<Rightarrow> ('a \<Rightarrow> 'a) \<Rightarrow> 'a list \<Rightarrow> 'a list" where
  "update_where P f xs = map (\<lambda>x. if P x then f x else x) xs"

lemma length_update_where [simp]: "length (update_where P f xs) = length xs"
  by (simp add: update_where_def)

lemma update_where_Nil [simp]: "update_where P f [] = []"
  by (simp add: update_where_def)

lemma update_where_Cons [simp]:
  "update_where P f (x # xs) = (if P x then f x else x) # update_where P f xs"
  by (simp add: update_where_def)

lemma update_where_none: "(\<And>x. x \<in> set xs \<Longrightarrow> \<not> P x) \<Longrightarrow> update_where P f xs = xs"
  by (induction xs) auto

lemma map_update_where:
  assumes "\<And>x. g (f x) = g x"
  shows "map g (update_where P f xs) = map g xs"
  using assms by (induction xs) auto

lemma filter_update_where:
  assumes "\<And>x. P x \<Longrightarrow> Q (f x) = Q x"
  shows "filter Q (update_where P f xs) = update_where P f (filter Q xs)"
  using assms by (induction xs) auto

lemma in_set_update_where:
  "y \<in> set (update_where P f xs) \<longleftrightarrow> (\<exists>x \<in> set xs. y = (if P x then f x else x))"
  by (auto simp: update_where_def)

section \<open>Sums over lists\<close>

lemma sum_list_nonneg_int:
  fixes f :: "'a \<Rightarrow> int"
  shows "(\<And>x. x \<in> set xs \<Longrightarrow> 0 \<le> f x) \<Longrightarrow> 0 \<le> (\<Sum>x\<leftarrow>xs. f x)"
  by (induction xs) auto

lemma sum_list_filter_split:
  fixes f :: "'a \<Rightarrow> int"
  shows "(\<Sum>x\<leftarrow>xs. f x) = (\<Sum>x\<leftarrow>filter P xs. f x) + (\<Sum>x\<leftarrow>filter (\<lambda>x. \<not> P x) xs. f x)"
  by (induction xs) auto

lemma foldl_add_sum:
  fixes f :: "'a \<Rightarrow> int"
  shows "foldl (\<lambda>t x. t + f x) a xs = a + (\<Sum>x\<leftarrow>xs. f x)"
  by (induction xs arbitrary: a) auto

end
