(* ===== verification/Decimal_Ctx.thy ===== *)
theory Decimal_Ctx
  imports Prelude
begin

text \<open>
  Python's \<open>decimal\<close> module as the payroll services use it: finite Decimals are rational
  numbers, and every arithmetic operation rounds its exact result to 28 significant digits with
  ROUND_HALF_EVEN (the default context). \<open>quantize(Decimal("1"), ROUND_HALF_UP)\<close> is
  \<open>half_up\<close>, and raises InvalidOperation when the result needs more than 28 digits
  (\<open>quantize_int\<close>). NaN and the infinities are not represented.
\<close>

section \<open>Rounding to integers\<close>

definition half_up :: "rat \<Rightarrow> int" where
  "half_up x = (if x < 0 then - \<lfloor>1 / 2 - x\<rfloor> else \<lfloor>x + 1 / 2\<rfloor>)"

definition half_even :: "rat \<Rightarrow> int" where
  "half_even x =
     (let f = \<lfloor>x\<rfloor>; d = x - of_int f
      in if d < 1 / 2 then f else if 1 / 2 < d then f + 1 else if even f then f else f + 1)"

definition dec_trunc :: "rat \<Rightarrow> int" where
  "dec_trunc x = (if x < 0 then - \<lfloor>- x\<rfloor> else \<lfloor>x\<rfloor>)"

lemma half_up_of_int [simp]: "half_up (of_int n) = n"
proof -
  have "\<lfloor>(of_int n :: rat) + 1 / 2\<rfloor> = n" "\<lfloor>1 / 2 - (of_int n :: rat)\<rfloor> = - n"
    by (simp_all add: floor_eq_iff)
  then show ?thesis by (simp add: half_up_def)
qed

lemma half_up_0 [simp]: "half_up 0 = 0"
  using half_up_of_int [of 0] by simp

lemma half_up_numeral [simp]: "half_up (numeral n) = numeral n"
  using half_up_of_int [of "numeral n"] by simp

lemma half_up_minus: "half_up (- x) = - half_up x"
proof (cases "x = 0")
  case True
  then show ?thesis using half_up_of_int [of 0] by simp
next
  case False
  then show ?thesis by (auto simp: half_up_def add.commute)
qed

lemma half_up_mono: "x \<le> y \<Longrightarrow> half_up x \<le> half_up y"
proof -
  assume le: "x \<le> y"
  consider "y < 0" | "x < 0" "0 \<le> y" | "0 \<le> x" by linarith
  then show ?thesis
  proof cases
    case 1
    then have "\<lfloor>1 / 2 - y\<rfloor> \<le> \<lfloor>1 / 2 - x\<rfloor>" using le by (intro floor_mono) simp
    then show ?thesis using 1 le by (simp add: half_up_def)
  next
    case 2
    then have "0 \<le> \<lfloor>1 / 2 - x\<rfloor>" "0 \<le> \<lfloor>y + 1 / 2\<rfloor>" by simp_all
    moreover have "half_up x = - \<lfloor>1 / 2 - x\<rfloor>" "half_up y = \<lfloor>y + 1 / 2\<rfloor>"
      using 2 by (simp_all add: half_up_def)
    ultimately show ?thesis by linarith
  next
    case 3
    then have "\<lfloor>x + 1 / 2\<rfloor> \<le> \<lfloor>y + 1 / 2\<rfloor>" using le by (intro floor_mono) simp
    then show ?thesis using 3 le by (simp add: half_up_def)
  qed
qed

lemma half_up_nonneg: "0 \<le> x \<Longrightarrow> 0 \<le> half_up x"
  using half_up_mono [of 0 x] by simp

lemma half_up_error: "\<bar>of_int (half_up x) - x\<bar> \<le> 1 / 2"
proof (cases "x < 0")
  case True
  have "of_int \<lfloor>1 / 2 - x\<rfloor> \<le> 1 / 2 - x" "1 / 2 - x < of_int \<lfloor>1 / 2 - x\<rfloor> + 1"
    by linarith+
  moreover have "of_int (half_up x) = - rat_of_int \<lfloor>1 / 2 - x\<rfloor>"
    using True by (simp add: half_up_def)
  ultimately show ?thesis by linarith
next
  case False
  have "of_int \<lfloor>x + 1 / 2\<rfloor> \<le> x + 1 / 2" "x + 1 / 2 < of_int \<lfloor>x + 1 / 2\<rfloor> + 1"
    by linarith+
  moreover have "of_int (half_up x) = rat_of_int \<lfloor>x + 1 / 2\<rfloor>"
    using False by (simp add: half_up_def)
  ultimately show ?thesis by linarith
qed

lemma half_up_le: "x \<le> of_int n \<Longrightarrow> half_up x \<le> n"
  using half_up_mono [of x "of_int n"] by simp

lemma half_up_ge: "of_int n \<le> x \<Longrightarrow> n \<le> half_up x"
  using half_up_mono [of "of_int n" x] by simp

lemma half_even_of_int [simp]: "half_even (of_int n) = n"
  by (simp add: half_even_def)

lemma half_even_bounds: "\<lfloor>x\<rfloor> \<le> half_even x \<and> half_even x \<le> \<lfloor>x\<rfloor> + 1"
  by (simp add: half_even_def Let_def)

lemma half_even_mono: "x \<le> y \<Longrightarrow> half_even x \<le> half_even y"
proof -
  assume le: "x \<le> y"
  then have fl: "\<lfloor>x\<rfloor> \<le> \<lfloor>y\<rfloor>" by (rule floor_mono)
  show ?thesis
  proof (cases "\<lfloor>x\<rfloor> = \<lfloor>y\<rfloor>")
    case True
    then show ?thesis using le by (auto simp: half_even_def Let_def)
  next
    case False
    then have "\<lfloor>x\<rfloor> + 1 \<le> \<lfloor>y\<rfloor>" using fl by simp
    then show ?thesis using half_even_bounds [of x] half_even_bounds [of y] by linarith
  qed
qed

lemma half_even_error: "\<bar>of_int (half_even x) - x\<bar> \<le> 1 / 2"
proof -
  have "of_int \<lfloor>x\<rfloor> \<le> x" "x < of_int \<lfloor>x\<rfloor> + 1" by linarith+
  then show ?thesis by (auto simp: half_even_def Let_def abs_le_iff)
qed

lemma half_even_minus: "half_even (- x) = - half_even x"
proof -
  define f where "f = \<lfloor>x\<rfloor>"
  define d where "d = x - of_int f"
  have x: "x = of_int f + d" and d: "0 \<le> d" "d < 1" unfolding d_def f_def by linarith+
  have fx: "\<lfloor>of_int f + d\<rfloor> = f" using d by (simp add: floor_eq_iff)
  show ?thesis
  proof (cases "d = 0")
    case True
    then have "- x = of_int (- f)" "x = of_int f" using x by simp_all
    then show ?thesis using half_even_of_int [of "- f"] half_even_of_int [of f] by metis
  next
    case False
    then have fm: "\<lfloor>- of_int f - d\<rfloor> = - f - 1" using d by (simp add: floor_eq_iff)
    show ?thesis using d False
      by (auto simp: half_even_def Let_def x fx fm)
  qed
qed

lemma half_even_le: "x \<le> of_int n \<Longrightarrow> half_even x \<le> n"
  using half_even_mono [of x "of_int n"] by simp

lemma half_even_ge: "of_int n \<le> x \<Longrightarrow> n \<le> half_even x"
  using half_even_mono [of "of_int n" x] by simp

section \<open>Scale and context rounding\<close>

fun ndigits :: "nat \<Rightarrow> nat" where
  "ndigits n = (if n < 10 then 1 else Suc (ndigits (n div 10)))"

declare ndigits.simps [simp del]

lemma ndigits_bounds: "0 < n \<Longrightarrow> 10 ^ (ndigits n - 1) \<le> n \<and> n < 10 ^ ndigits n"
proof (induction n rule: ndigits.induct)
  case (1 n)
  show ?case
  proof (cases "n < 10")
    case True
    then show ?thesis using "1.prems" by (simp add: ndigits.simps [of n])
  next
    case False
    then have pos: "0 < n div 10" by simp
    have ih: "10 ^ (ndigits (n div 10) - 1) \<le> n div 10" "n div 10 < 10 ^ ndigits (n div 10)"
      using "1.IH" [OF False pos] by auto
    have ge1: "1 \<le> ndigits (n div 10)" by (subst ndigits.simps) simp
    then have "(10::nat) ^ ndigits (n div 10) = 10 * 10 ^ (ndigits (n div 10) - 1)"
      by (cases "ndigits (n div 10)") simp_all
    then show ?thesis using False ih
      by (simp add: ndigits.simps [of n]) linarith
  qed
qed

lemma ndigits_ge1: "1 \<le> ndigits n"
  by (subst ndigits.simps) simp

definition dec_scale :: "rat \<Rightarrow> int" where
  "dec_scale x =
     (if 1 \<le> \<bar>x\<bar> then 28 - int (ndigits (nat \<lfloor>\<bar>x\<bar>\<rfloor>)) else 27 + int (ndigits (nat \<lfloor>1 / \<bar>x\<bar>\<rfloor>)))"

definition dec_ctx :: "rat \<Rightarrow> rat" where
  "dec_ctx x =
     (if x = 0 then 0
      else of_int (half_even (x * 10 powi dec_scale x)) / 10 powi dec_scale x)"

text \<open>The same count on integers, which is how the scale is evaluated.\<close>

function idigits :: "int \<Rightarrow> int" where
  "idigits n = (if n < 10 then 1 else 1 + idigits (n div 10))"
  by pat_completeness auto

termination
  by (relation "measure nat") auto

declare idigits.simps [simp del]

lemma idigits_ndigits: "idigits n = int (ndigits (nat n))"
proof (induction n rule: idigits.induct)
  case (1 n)
  show ?case
  proof (cases "n < 10")
    case True
    then show ?thesis by (subst idigits.simps, subst ndigits.simps) auto
  next
    case False
    then have "nat (n div 10) = nat n div 10" by (simp add: nat_div_distrib)
    then show ?thesis using "1.IH" [OF False] False
      by (subst idigits.simps, subst ndigits.simps) auto
  qed
qed

lemma dec_scale_code [code]:
  "dec_scale x = (if 1 \<le> \<bar>x\<bar> then 28 - idigits \<lfloor>\<bar>x\<bar>\<rfloor> else 27 + idigits \<lfloor>1 / \<bar>x\<bar>\<rfloor>)"
  by (simp add: dec_scale_def idigits_ndigits)

lemma pow10_powi: "(10::rat) ^ n = 10 powi int n"
  by simp

lemma dec_scale_bounds:
  assumes "x \<noteq> 0"
  shows "10 ^ 27 \<le> \<bar>x\<bar> * 10 powi dec_scale x \<and> \<bar>x\<bar> * 10 powi dec_scale x \<le> 10 ^ 28"
proof (cases "1 \<le> \<bar>x\<bar>")
  case True
  define n where "n = nat \<lfloor>\<bar>x\<bar>\<rfloor>"
  define d where "d = ndigits n"
  have n0: "0 < n" using True by (simp add: n_def)
  have d1: "1 \<le> d" using ndigits_ge1 by (simp add: d_def)
  have "(10::nat) ^ (d - 1) \<le> n" "n + 1 \<le> 10 ^ d"
    using ndigits_bounds [OF n0] by (auto simp: d_def)
  then have "rat_of_nat (10 ^ (d - 1)) \<le> rat_of_nat n" "rat_of_nat (n + 1) \<le> rat_of_nat (10 ^ d)"
    by (simp_all only: of_nat_le_iff)
  then have b: "(10::rat) ^ (d - 1) \<le> of_nat n" "of_nat n + 1 \<le> (10::rat) ^ d" by simp_all
  have fl: "of_nat n \<le> \<bar>x\<bar>" "\<bar>x\<bar> < of_nat n + 1"
    using True unfolding n_def by (simp_all add: of_nat_floor) linarith
  have x: "(10::rat) powi int (d - 1) \<le> \<bar>x\<bar>" "\<bar>x\<bar> \<le> 10 powi int d"
    using b fl by (simp_all only: pow10_powi)
  have sc: "dec_scale x = 28 - int d" using True by (simp add: dec_scale_def n_def d_def)
  have "(10::rat) powi int (d - 1) * 10 powi (28 - int d) = 10 powi 27"
    using d1 by (subst power_int_add [symmetric]) (simp_all add: of_nat_diff)
  moreover have "(10::rat) powi int d * 10 powi (28 - int d) = 10 powi 28"
    by (subst power_int_add [symmetric]) simp_all
  moreover have "(10::rat) powi int (d - 1) * 10 powi (28 - int d) \<le> \<bar>x\<bar> * 10 powi (28 - int d)"
    "\<bar>x\<bar> * 10 powi (28 - int d) \<le> (10::rat) powi int d * 10 powi (28 - int d)"
    using x by (intro mult_right_mono; simp)+
  ultimately show ?thesis unfolding sc by simp
next
  case False
  define a where "a = 1 / \<bar>x\<bar>"
  have a1: "1 < a" and xa: "\<bar>x\<bar> = 1 / a" using assms False by (simp_all add: a_def)
  define n where "n = nat \<lfloor>a\<rfloor>"
  define d where "d = ndigits n"
  have n0: "0 < n" using a1 by (simp add: n_def)
  have d1: "1 \<le> d" using ndigits_ge1 by (simp add: d_def)
  have "(10::nat) ^ (d - 1) \<le> n" "n + 1 \<le> 10 ^ d"
    using ndigits_bounds [OF n0] by (auto simp: d_def)
  then have "rat_of_nat (10 ^ (d - 1)) \<le> rat_of_nat n" "rat_of_nat (n + 1) \<le> rat_of_nat (10 ^ d)"
    by (simp_all only: of_nat_le_iff)
  then have b: "(10::rat) ^ (d - 1) \<le> of_nat n" "of_nat n + 1 \<le> (10::rat) ^ d" by simp_all
  have fl: "of_nat n \<le> a" "a < of_nat n + 1"
    using a1 unfolding n_def by (simp_all add: of_nat_floor) linarith
  have ax: "(10::rat) powi int (d - 1) \<le> a" "a \<le> 10 powi int d"
    using b fl by (simp_all only: pow10_powi)
  have sc: "dec_scale x = 27 + int d" using False by (simp add: dec_scale_def n_def d_def a_def)
  have e1: "(10::rat) powi (27 + int d) = 10 powi 27 * 10 powi int d"
    by (subst power_int_add [symmetric]) simp_all
  have e2: "(10::rat) powi (27 + int d) = 10 powi 28 * 10 powi int (d - 1)"
    using d1 by (subst power_int_add [symmetric]) (simp_all add: of_nat_diff)
  have "10 powi 27 * a \<le> 10 powi 27 * (10::rat) powi int d"
    "10 powi 28 * (10::rat) powi int (d - 1) \<le> 10 powi 28 * a"
    using ax by (intro mult_left_mono; simp)+
  then have "10 powi 27 \<le> 10 powi (27 + int d) / a" "10 powi (27 + int d) / a \<le> (10::rat) powi 28"
    using a1 by (simp_all only: e1 [symmetric] e2 [symmetric]) (simp_all add: pos_le_divide_eq pos_divide_le_eq)
  then show ?thesis unfolding sc xa by simp
qed

lemma dec_ctx_0 [simp]: "dec_ctx 0 = 0"
  by (simp add: dec_ctx_def)

lemma dec_scale_minus [simp]: "dec_scale (- x) = dec_scale x"
  by (simp add: dec_scale_def)

lemma dec_ctx_minus [simp]: "dec_ctx (- x) = - dec_ctx x"
  by (simp add: dec_ctx_def half_even_minus)

section \<open>Representable values\<close>

text \<open>A value is representable when its coefficient has at most 28 digits.\<close>

definition dec_rep :: "rat \<Rightarrow> bool" where
  "dec_rep x \<longleftrightarrow> (\<exists>c e. \<bar>c\<bar> < 10 ^ 28 \<and> x = of_int c * 10 powi e)"

lemma dec_ctx_rep: "dec_rep x \<Longrightarrow> dec_ctx x = x"
proof (cases "x = 0")
  case False
  assume "dec_rep x"
  then obtain c e where c: "\<bar>c\<bar> < 10 ^ 28" and x: "x = of_int c * 10 powi e"
    by (auto simp: dec_rep_def)
  define k where "k = dec_scale x"
  have lo: "10 ^ 27 \<le> \<bar>x\<bar> * 10 powi k" using dec_scale_bounds [OF False] by (simp add: k_def)
  have xk: "x * 10 powi k = of_int c * 10 powi (e + k)"
    by (simp add: x power_int_add)
  have "0 \<le> e + k"
  proof (rule ccontr)
    assume "\<not> 0 \<le> e + k"
    then have "(10::rat) powi (e + k) \<le> 10 powi (- 1)" by (intro power_int_increasing) auto
    then have "\<bar>rat_of_int c\<bar> * 10 powi (e + k) \<le> \<bar>rat_of_int c\<bar> * (1 / 10)"
      by (intro mult_left_mono) (simp_all add: power_int_minus)
    moreover have "\<bar>x\<bar> * 10 powi k = \<bar>rat_of_int c\<bar> * 10 powi (e + k)"
      by (simp add: x power_int_add abs_mult)
    moreover have "\<bar>rat_of_int c\<bar> < 10 ^ 28"
      using c by (metis of_int_abs of_int_less_iff of_int_numeral of_int_power)
    ultimately show False using lo by simp
  qed
  then have "x * 10 powi k = of_int (c * 10 ^ nat (e + k))"
    unfolding xk by (simp add: power_int_def)
  then obtain n :: int where n: "x * 10 powi k = of_int n" by blast
  then have "of_int (half_even (x * 10 powi k)) = x * 10 powi k"
    by (simp only: n half_even_of_int)
  then show ?thesis using False by (simp add: dec_ctx_def k_def [symmetric])
qed simp

lemma dec_rep_ctx: "dec_rep (dec_ctx x)"
proof (cases "x = 0")
  case True
  then show ?thesis unfolding dec_rep_def by (intro exI [of _ 0]) simp
next
  case False
  define k where "k = dec_scale x"
  define c where "c = half_even (x * 10 powi k)"
  have hi: "\<bar>x * 10 powi k\<bar> \<le> of_int (10 ^ 28)"
    using dec_scale_bounds [OF False] by (simp add: k_def abs_mult)
  then have "half_even (x * 10 powi k) \<le> 10 ^ 28" "- (10 ^ 28) \<le> half_even (x * 10 powi k)"
    by (intro half_even_le half_even_ge; simp add: abs_le_iff)+
  then have cb: "\<bar>c\<bar> \<le> 10 ^ 28" by (simp add: c_def abs_le_iff)
  have val: "dec_ctx x = of_int c * 10 powi (- k)"
    using False by (simp add: dec_ctx_def k_def c_def power_int_minus divide_inverse)
  have top: "(10::rat) ^ 28 * 10 powi (- k) = 10 ^ 27 * 10 powi (1 - k)"
    using power_int_add [of "10::rat" 1 "- k"] by simp
  consider "c = 10 ^ 28" | "c = - (10 ^ 28)" | "\<bar>c\<bar> < 10 ^ 28" using cb by linarith
  then show ?thesis
  proof cases
    case 1
    have "dec_ctx x = of_int (10 ^ 27) * 10 powi (1 - k)"
      unfolding val 1 of_int_power of_int_numeral by (rule top)
    moreover have "\<bar>10 ^ 27 :: int\<bar> < 10 ^ 28" by simp
    ultimately show ?thesis unfolding dec_rep_def by blast
  next
    case 2
    have "dec_ctx x = of_int (- (10 ^ 27)) * 10 powi (1 - k)"
      unfolding val 2 of_int_minus of_int_power of_int_numeral mult_minus_left
      by (rule arg_cong [where f = uminus, OF top])
    moreover have "\<bar>- (10 ^ 27) :: int\<bar> < 10 ^ 28" by simp
    ultimately show ?thesis unfolding dec_rep_def by blast
  next
    case 3
    then show ?thesis using val unfolding dec_rep_def by blast
  qed
qed

lemma dec_rep_of_int: "\<bar>n\<bar> < 10 ^ 28 \<Longrightarrow> dec_rep (of_int n)"
  unfolding dec_rep_def by (intro exI [of _ n] exI [of _ 0]) simp

lemma dec_rep_scaled: "dec_rep x \<Longrightarrow> dec_rep (x * 10 powi k)"
proof -
  assume "dec_rep x"
  then obtain c e where "\<bar>c\<bar> < 10 ^ 28" "x = of_int c * 10 powi e" by (auto simp: dec_rep_def)
  then show ?thesis unfolding dec_rep_def
    by (intro exI [of _ c] exI [of _ "e + k"]) (simp add: power_int_add)
qed

lemma dec_rep_div100: "dec_rep x \<Longrightarrow> dec_rep (x / 100)"
proof -
  assume "dec_rep x"
  then have "dec_rep (x * 10 powi (- 2))" by (rule dec_rep_scaled)
  moreover have "x * 10 powi (- 2) = x / 100" by (simp add: power_int_def power2_eq_square)
  ultimately show ?thesis by simp
qed

lemma dec_rep_mult100: "dec_rep x \<Longrightarrow> dec_rep (x * 100)"
  using dec_rep_scaled [of x 2] by simp

section \<open>Monotonicity and bounds\<close>

lemma dec_ctx_mono_pos:
  assumes "0 < x" "x \<le> y"
  shows "dec_ctx x \<le> dec_ctx y"
proof -
  define k l where "k = dec_scale x" and "l = dec_scale y"
  have bx: "10 ^ 27 \<le> x * 10 powi k" "x * 10 powi k \<le> 10 ^ 28"
    and by': "10 ^ 27 \<le> y * 10 powi l" "y * 10 powi l \<le> 10 ^ 28"
    using assms dec_scale_bounds [of x] dec_scale_bounds [of y] by (auto simp: k_def l_def)
  have vx: "dec_ctx x = of_int (half_even (x * 10 powi k)) / 10 powi k"
    and vy: "dec_ctx y = of_int (half_even (y * 10 powi l)) / 10 powi l"
    using assms by (auto simp: dec_ctx_def k_def l_def)
  consider "k = l" | "l < k" | "k < l" by linarith
  then show ?thesis
  proof cases
    case 1
    have "x * 10 powi k \<le> y * 10 powi k" using assms by (intro mult_right_mono) simp_all
    then have "half_even (x * 10 powi k) \<le> half_even (y * 10 powi l)"
      using 1 by (simp add: half_even_mono)
    then show ?thesis using 1 by (simp add: vx vy divide_right_mono)
  next
    case 2
    have "half_even (x * 10 powi k) \<le> 10 ^ 28"
      using bx by (intro half_even_le) simp
    then have "rat_of_int (half_even (x * 10 powi k)) \<le> of_int (10 ^ 28)" by (simp only: of_int_le_iff)
    then have "dec_ctx x \<le> 10 powi 28 / 10 powi k"
      unfolding vx by (intro divide_right_mono) simp_all
    also have "\<dots> = 10 powi (28 - k)" by (simp add: power_int_diff)
    also have "\<dots> \<le> 10 powi (27 - l)" using 2 by (intro power_int_increasing) auto
    also have "\<dots> = 10 powi 27 / 10 powi l" by (simp add: power_int_diff)
    also have "\<dots> \<le> dec_ctx y"
    proof -
      have "10 ^ 27 \<le> half_even (y * 10 powi l)"
        using by' by (intro half_even_ge) simp
      then have "of_int (10 ^ 27) \<le> rat_of_int (half_even (y * 10 powi l))" by (simp only: of_int_le_iff)
      then show ?thesis unfolding vy by (intro divide_right_mono) simp_all
    qed
    finally show ?thesis .
  next
    case 3
    have "(10::rat) powi (k + 1) \<le> 10 powi l" using 3 by (intro power_int_increasing) auto
    then have p: "10 powi k * 10 \<le> (10::rat) powi l" by (simp add: power_int_add)
    have "x * 10 powi k * 10 \<le> x * 10 powi l" using assms p by (simp add: mult.assoc mult_left_mono)
    moreover have "x * 10 powi l \<le> y * 10 powi l" using assms by (intro mult_right_mono) simp_all
    moreover have "b = d" if "a * 10 \<le> b" "b \<le> d" "10 ^ 27 \<le> a" "d \<le> 10 ^ 28" for a b d :: rat
      using that by simp
    ultimately have "x * 10 powi l = y * 10 powi l" using bx(1) by'(2) by blast
    then have "x = y" by simp
    then show ?thesis by simp
  qed
qed

lemma dec_ctx_nonneg: "0 \<le> x \<Longrightarrow> 0 \<le> dec_ctx x"
proof (cases "x = 0")
  case False
  assume "0 \<le> x"
  then have "0 \<le> x * 10 powi dec_scale x" by simp
  then have "0 \<le> half_even (x * 10 powi dec_scale x)"
    by (intro half_even_ge) simp
  then show ?thesis using False by (simp add: dec_ctx_def)
qed simp

lemma dec_ctx_mono: "x \<le> y \<Longrightarrow> dec_ctx x \<le> dec_ctx y"
proof -
  assume le: "x \<le> y"
  consider "0 < x" | "x \<le> 0" "0 \<le> y" | "y < 0" by linarith
  then show ?thesis
  proof cases
    case 1 then show ?thesis using le by (rule dec_ctx_mono_pos)
  next
    case 2
    then show ?thesis using dec_ctx_nonneg [of y] dec_ctx_nonneg [of "- x"] by simp
  next
    case 3
    then have "dec_ctx (- y) \<le> dec_ctx (- x)" using le by (intro dec_ctx_mono_pos) auto
    then show ?thesis by simp
  qed
qed

lemma dec_ctx_le: "x \<le> y \<Longrightarrow> dec_rep y \<Longrightarrow> dec_ctx x \<le> y"
  using dec_ctx_mono [of x y] by (simp add: dec_ctx_rep)

lemma dec_ctx_ge: "y \<le> x \<Longrightarrow> dec_rep y \<Longrightarrow> y \<le> dec_ctx x"
  using dec_ctx_mono [of y x] by (simp add: dec_ctx_rep)

lemma dec_ctx_error: "\<bar>dec_ctx x - x\<bar> \<le> \<bar>x\<bar> / (2 * 10 ^ 27)"
proof (cases "x = 0")
  case False
  define k where "k = dec_scale x"
  have lo: "10 ^ 27 \<le> \<bar>x\<bar> * 10 powi k" using dec_scale_bounds [OF False] by (simp add: k_def)
  have "dec_ctx x - x = (of_int (half_even (x * 10 powi k)) - x * 10 powi k) / 10 powi k"
    using False by (simp add: dec_ctx_def k_def diff_divide_distrib)
  then have "\<bar>dec_ctx x - x\<bar> = \<bar>of_int (half_even (x * 10 powi k)) - x * 10 powi k\<bar> / 10 powi k"
    by (simp add: abs_divide)
  also have "\<dots> \<le> (1 / 2) / 10 powi k"
    using half_even_error by (intro divide_right_mono) auto
  also have "\<dots> \<le> \<bar>x\<bar> / (2 * 10 ^ 27)"
    using lo by (simp add: field_simps)
  finally show ?thesis .
qed simp

section \<open>The operators\<close>

definition dadd :: "rat \<Rightarrow> rat \<Rightarrow> rat" where "dadd x y = dec_ctx (x + y)"
definition dsub :: "rat \<Rightarrow> rat \<Rightarrow> rat" where "dsub x y = dec_ctx (x - y)"
definition dmul :: "rat \<Rightarrow> rat \<Rightarrow> rat" where "dmul x y = dec_ctx (x * y)"
definition ddiv :: "rat \<Rightarrow> rat \<Rightarrow> rat" where "ddiv x y = dec_ctx (x / y)"

lemma dmul_0 [simp]: "dmul 0 y = 0" "dmul x 0 = 0"
  by (simp_all add: dmul_def)

lemma ddiv_0 [simp]: "ddiv 0 y = 0"
  by (simp add: ddiv_def)

lemma dmul_nonneg [money_pos]: "0 \<le> x \<Longrightarrow> 0 \<le> y \<Longrightarrow> 0 \<le> dmul x y"
  by (simp add: dmul_def dec_ctx_nonneg)

lemma ddiv_nonneg [money_pos]: "0 \<le> x \<Longrightarrow> 0 \<le> y \<Longrightarrow> 0 \<le> ddiv x y"
  by (simp add: ddiv_def dec_ctx_nonneg)

lemma dmul_mono: "0 \<le> x \<Longrightarrow> x \<le> x' \<Longrightarrow> 0 \<le> y \<Longrightarrow> y \<le> y' \<Longrightarrow> dmul x y \<le> dmul x' y'"
  unfolding dmul_def by (intro dec_ctx_mono mult_mono) auto

lemma dmul_rep [simp]: "dec_rep (dmul x y)" and ddiv_rep [simp]: "dec_rep (ddiv x y)"
  by (simp_all add: dmul_def ddiv_def dec_rep_ctx)

section \<open>Quantizing to an integer\<close>

text \<open>\<open>value.quantize(Decimal("1"), rounding=ROUND_HALF_UP)\<close> with its precision check.\<close>

definition quantize_int :: "rat \<Rightarrow> int result" where
  "quantize_int x = (if \<bar>half_up x\<bar> < 10 ^ 28 then Inr (half_up x) else Inl InvalidOperation)"

lemma quantize_int_ok: "\<bar>x\<bar> \<le> 10 ^ 27 \<Longrightarrow> quantize_int x = Inr (half_up x)"
proof -
  assume "\<bar>x\<bar> \<le> 10 ^ 27"
  then have "half_up x \<le> 10 ^ 27" "- (10 ^ 27) \<le> half_up x"
    by (intro half_up_le half_up_ge; simp add: abs_le_iff)+
  then show ?thesis by (simp add: quantize_int_def abs_less_iff)
qed

end
