(* ===== verification/Money.thy ===== *)
theory Money
  imports Decimal_Ctx
begin

text \<open>
  \<open>app/services/payroll/money.py\<close>: the rounding primitives every payroll amount goes
  through. The \<open>_checked\<close> functions are the code with the precision check of
  \<open>Decimal.quantize\<close>; on amounts below \<open>10 ^ 27\<close> (a BIGINT column holds less than
  \<open>10 ^ 19\<close>) they are the total functions that the calculators below use.
\<close>

section \<open>Operations\<close>

definition PAISE_PER_RUPEE :: rat where "PAISE_PER_RUPEE = 100"

fun as_decimal :: "rat option \<Rightarrow> rat" where
  "as_decimal None = 0"
| "as_decimal (Some x) = x"

definition round_paise_checked :: "rat \<Rightarrow> int result" where
  "round_paise_checked x = quantize_int x"

definition round_paise :: "rat \<Rightarrow> int" where
  "round_paise x = half_up x"

definition round_to_rupee_paise_checked :: "rat \<Rightarrow> int result" where
  "round_to_rupee_paise_checked x =
     bind_res (quantize_int (ddiv x PAISE_PER_RUPEE))
       (\<lambda>q. Inr (dec_trunc (dmul (of_int q) PAISE_PER_RUPEE)))"

definition round_to_rupee_paise :: "rat \<Rightarrow> int" where
  "round_to_rupee_paise x = half_up (ddiv x PAISE_PER_RUPEE) * 100"

definition rupees_to_paise :: "rat \<Rightarrow> int" where
  "rupees_to_paise x = round_paise (dmul x PAISE_PER_RUPEE)"

definition paise_to_rupees :: "rat \<Rightarrow> rat" where
  "paise_to_rupees x = of_int (half_up (ddiv x PAISE_PER_RUPEE * 100)) / 100"

section \<open>The precision check never fires on database amounts\<close>

lemma dec_trunc_of_int [simp]: "dec_trunc (of_int n) = n"
  by (simp add: dec_trunc_def)

lemma round_paise_checked_ok: "\<bar>x\<bar> \<le> 10 ^ 27 \<Longrightarrow> round_paise_checked x = Inr (round_paise x)"
  by (simp add: round_paise_checked_def round_paise_def quantize_int_ok)

lemma ddiv_100_bound: "\<bar>x\<bar> \<le> 10 ^ 27 \<Longrightarrow> \<bar>ddiv x 100\<bar> \<le> 10 ^ 25"
proof -
  assume a: "\<bar>x\<bar> \<le> 10 ^ 27"
  have r: "dec_rep (10 ^ 25)" using dec_rep_of_int [of "10 ^ 25"] by simp
  have "x / 100 \<le> 10 ^ 25" "- x / 100 \<le> 10 ^ 25" using a by (simp_all add: abs_le_iff)
  then have "dec_ctx (x / 100) \<le> 10 ^ 25" "dec_ctx (- x / 100) \<le> 10 ^ 25"
    by (simp_all only: dec_ctx_le [OF _ r])
  then show ?thesis by (simp add: ddiv_def abs_le_iff)
qed

lemma round_to_rupee_paise_checked_ok:
  assumes "\<bar>x\<bar> \<le> 10 ^ 27"
  shows "round_to_rupee_paise_checked x = Inr (round_to_rupee_paise x)"
proof -
  define q where "q = half_up (ddiv x 100)"
  have b: "\<bar>ddiv x 100\<bar> \<le> 10 ^ 25" using assms by (rule ddiv_100_bound)
  then have "q \<le> 10 ^ 25" "- (10 ^ 25) \<le> q" unfolding q_def
    by (intro half_up_le half_up_ge; simp add: abs_le_iff)+
  then have "\<bar>q * 100\<bar> < 10 ^ 28" by (simp add: abs_less_iff)
  then have "dec_rep (of_int (q * 100))" by (rule dec_rep_of_int)
  then have "dmul (of_int q) 100 = of_int (q * 100)" by (simp add: dmul_def dec_ctx_rep)
  then have "dec_trunc (dmul (of_int q) 100) = q * 100" by (simp only: dec_trunc_of_int)
  moreover have "quantize_int (ddiv x 100) = Inr q"
    unfolding q_def using b by (intro quantize_int_ok) simp
  ultimately show ?thesis
    by (simp add: round_to_rupee_paise_checked_def round_to_rupee_paise_def PAISE_PER_RUPEE_def q_def)
qed

section \<open>Rounding laws\<close>

lemma round_paise_of_int [simp]: "round_paise (of_int n) = n"
  by (simp add: round_paise_def)

lemma round_paise_0 [simp]: "round_paise 0 = 0"
  by (simp add: round_paise_def)

lemma round_paise_mono: "x \<le> y \<Longrightarrow> round_paise x \<le> round_paise y"
  by (simp add: round_paise_def half_up_mono)

lemma round_paise_nonneg [money_pos]: "0 \<le> x \<Longrightarrow> 0 \<le> round_paise x"
  by (simp add: round_paise_def half_up_nonneg)

lemma round_paise_le: "x \<le> of_int n \<Longrightarrow> round_paise x \<le> n"
  by (simp add: round_paise_def half_up_le)

lemma round_paise_ge: "of_int n \<le> x \<Longrightarrow> n \<le> round_paise x"
  by (simp add: round_paise_def half_up_ge)

lemma round_to_rupee_paise_dvd [simp]: "100 dvd round_to_rupee_paise x"
  by (simp add: round_to_rupee_paise_def)

lemma round_to_rupee_paise_nonneg [money_pos]: "0 \<le> x \<Longrightarrow> 0 \<le> round_to_rupee_paise x"
  by (simp add: round_to_rupee_paise_def PAISE_PER_RUPEE_def half_up_nonneg ddiv_nonneg)

lemma round_to_rupee_paise_0 [simp]: "round_to_rupee_paise 0 = 0"
  by (simp add: round_to_rupee_paise_def)

lemma ddiv_mono: "x \<le> y \<Longrightarrow> 0 < z \<Longrightarrow> ddiv x z \<le> ddiv y z"
  unfolding ddiv_def by (intro dec_ctx_mono divide_right_mono) auto

lemma round_to_rupee_paise_mono: "x \<le> y \<Longrightarrow> round_to_rupee_paise x \<le> round_to_rupee_paise y"
  by (simp add: round_to_rupee_paise_def PAISE_PER_RUPEE_def half_up_mono ddiv_mono)

lemma ddiv_100_exact [dec_exact]: "dec_rep x \<Longrightarrow> ddiv x 100 = x / 100"
  by (simp add: ddiv_def dec_ctx_rep dec_rep_div100)

lemma dmul_100_exact [dec_exact]: "dec_rep x \<Longrightarrow> dmul x 100 = x * 100"
  by (simp add: dmul_def dec_ctx_rep dec_rep_mult100)

lemma round_to_rupee_paise_error:
  "dec_rep x \<Longrightarrow> \<bar>of_int (round_to_rupee_paise x) - x\<bar> \<le> 50"
  using half_up_error [of "x / 100"]
  unfolding round_to_rupee_paise_def PAISE_PER_RUPEE_def abs_le_iff
  by (simp only: dec_exact of_int_mult of_int_numeral) linarith

text \<open>Half up, written out over integers: 50 paise more, without the remainder.\<close>

lemma half_up_div_100: "0 \<le> n \<Longrightarrow> half_up (rat_of_int n / 100) = (n + 50) div 100"
proof -
  assume n: "0 \<le> n"
  have eq: "rat_of_int n / 100 + 1 / 2 = of_int (n + 50) / of_int 100" by (simp add: field_simps)
  have "half_up (rat_of_int n / 100) = \<lfloor>rat_of_int n / 100 + 1 / 2\<rfloor>" using n by (simp add: half_up_def)
  also have "\<dots> = (n + 50) div 100" unfolding eq by (rule floor_divide_of_int_eq)
  finally show ?thesis .
qed

lemma round_to_rupee_paise_clamped:
  assumes "\<bar>n\<bar> < 10 ^ 28"
  shows "max 0 (round_to_rupee_paise (of_int n)) = max 0 ((n + 50) div 100 * 100)"
proof (cases "0 \<le> n")
  case True
  then show ?thesis using dec_rep_of_int [OF assms]
    by (simp add: round_to_rupee_paise_def PAISE_PER_RUPEE_def dec_exact half_up_div_100)
next
  case False
  then have "round_to_rupee_paise (rat_of_int n) \<le> round_to_rupee_paise 0" by (intro round_to_rupee_paise_mono) simp
  moreover have "(n + 50) div 100 \<le> 0" using False by linarith
  ultimately show ?thesis by simp
qed

lemma round_to_rupee_paise_whole:
  assumes "\<bar>n\<bar> < 10 ^ 28" "100 dvd n"
  shows "round_to_rupee_paise (of_int n) = n"
proof -
  obtain k where k: "n = 100 * k" using assms(2) by (auto elim: dvdE)
  have "rat_of_int n / 100 = of_int k" by (simp add: k)
  then show ?thesis
    using dec_rep_of_int [OF assms(1)]
    by (simp add: round_to_rupee_paise_def PAISE_PER_RUPEE_def dec_exact k)
qed

lemma paise_rupees_roundtrip:
  assumes "\<bar>n\<bar> < 10 ^ 28"
  shows "rupees_to_paise (paise_to_rupees (of_int n)) = n"
proof -
  have r: "dec_rep (of_int n)" using assms by (rule dec_rep_of_int)
  then have p: "paise_to_rupees (of_int n) = of_int n / 100"
    by (simp add: paise_to_rupees_def PAISE_PER_RUPEE_def dec_exact)
  have "dmul (rat_of_int n / 100) 100 = of_int n"
    using dec_rep_div100 [OF r] by (simp add: dec_exact)
  then show ?thesis
    by (simp only: rupees_to_paise_def PAISE_PER_RUPEE_def p round_paise_of_int)
qed

end
