(* ===== verification/Py_Strings.thy ===== *)
theory Py_Strings
  imports Prelude
begin

text \<open>
  The methods of Python's \<open>str\<close> that the payroll services use to normalise codes and
  states: \<open>strip\<close>, \<open>upper\<close>, \<open>lower\<close> and the truthiness of an optional string.
  Strings are lists of 8-bit characters and the case mappings act on ASCII letters, which is
  where every code, country, currency and state of the services lives.
\<close>

section \<open>Characters\<close>

definition is_space :: "char \<Rightarrow> bool" where
  "is_space c = (let n = of_char c :: nat in 9 \<le> n \<and> n \<le> 13 \<or> 28 \<le> n \<and> n \<le> 32)"

definition up_char :: "char \<Rightarrow> char" where
  "up_char c = (let n = of_char c :: nat in if 97 \<le> n \<and> n \<le> 122 then char_of (n - 32) else c)"

definition low_char :: "char \<Rightarrow> char" where
  "low_char c = (let n = of_char c :: nat in if 65 \<le> n \<and> n \<le> 90 then char_of (n + 32) else c)"

definition is_alpha :: "char \<Rightarrow> bool" where
  "is_alpha c = (let n = of_char c :: nat in 65 \<le> n \<and> n \<le> 90 \<or> 97 \<le> n \<and> n \<le> 122)"

lemma of_char_up_char:
  "(of_char (up_char c) :: nat) =
     (let n = of_char c in if 97 \<le> n \<and> n \<le> 122 then n - 32 else n)"
  by (auto simp: up_char_def Let_def)

lemma of_char_low_char:
  "(of_char (low_char c) :: nat) =
     (let n = of_char c in if 65 \<le> n \<and> n \<le> 90 then n + 32 else n)"
  by (auto simp: low_char_def Let_def)

lemma char_eqI: "(of_char c :: nat) = of_char d \<Longrightarrow> c = d"
  by (metis char_of_char)

lemma up_char_idem [simp]: "up_char (up_char c) = up_char c"
  by (rule char_eqI) (auto simp: of_char_up_char Let_def)

lemma is_space_up_char [simp]: "is_space (up_char c) = is_space c"
  unfolding is_space_def of_char_up_char by (auto simp: Let_def)

lemma low_char_up_char [simp]: "low_char (up_char c) = low_char c"
  by (rule char_eqI) (auto simp: of_char_low_char of_char_up_char Let_def)

lemma low_char_idem [simp]: "low_char (low_char c) = low_char c"
  by (rule char_eqI) (auto simp: of_char_low_char Let_def)

section \<open>Strings\<close>

definition py_upper :: "string \<Rightarrow> string" where "py_upper = map up_char"
definition py_lower :: "string \<Rightarrow> string" where "py_lower = map low_char"
definition py_strip :: "string \<Rightarrow> string" where
  "py_strip s = rev (dropWhile is_space (rev (dropWhile is_space s)))"

definition py_isalpha :: "string \<Rightarrow> bool" where
  "py_isalpha s \<longleftrightarrow> s \<noteq> [] \<and> list_all is_alpha s"

text \<open>\<open>value or default\<close> on an optional string: None and the empty string are both falsy.\<close>

fun or_str :: "string option \<Rightarrow> string \<Rightarrow> string" where
  "or_str None d = d"
| "or_str (Some s) d = (if s = [] then d else s)"

lemma py_upper_idem [simp]: "py_upper (py_upper s) = py_upper s"
  by (simp add: py_upper_def)

lemma length_py_upper [simp]: "length (py_upper s) = length s"
  by (simp add: py_upper_def)

lemma py_upper_Nil_iff [simp]: "py_upper s = [] \<longleftrightarrow> s = []"
  by (simp add: py_upper_def)

lemma dropWhile_map_up: "dropWhile is_space (map up_char s) = map up_char (dropWhile is_space s)"
  by (induction s) auto

lemma py_strip_upper: "py_strip (py_upper s) = py_upper (py_strip s)"
  unfolding py_strip_def py_upper_def
  by (simp only: dropWhile_map_up rev_map)

lemma dropWhile_rev_dropWhile:
  "dropWhile P (rev (dropWhile P (rev (dropWhile P s)))) = rev (dropWhile P (rev (dropWhile P s)))"
proof -
  define t where "t = dropWhile P s"
  have hd: "t = [] \<or> \<not> P (hd t)" unfolding t_def by (induction s) auto
  have u: "rev (dropWhile P (rev t)) @ rev (takeWhile P (rev t)) = t"
    by (metis rev_append rev_rev_ident takeWhile_dropWhile_id)
  show ?thesis
  proof (cases "rev (dropWhile P (rev t))")
    case Nil
    then show ?thesis unfolding t_def [symmetric] by (metis dropWhile.simps(1))
  next
    case (Cons a as)
    then have "t = a # as @ rev (takeWhile P (rev t))" using u by simp
    then have "\<not> P a" using hd by (metis list.distinct(1) list.sel(1))
    then show ?thesis unfolding t_def [symmetric] Cons by simp
  qed
qed

lemma py_strip_idem [simp]: "py_strip (py_strip s) = py_strip s"
  by (simp add: py_strip_def dropWhile_rev_dropWhile)

lemma py_strip_Nil [simp]: "py_strip [] = []"
  by (simp add: py_strip_def)

section \<open>Rows of text\<close>

text \<open>A row of a CSV or JSON source: a dictionary from column names to texts.\<close>

type_synonym dict = "(string \<times> string) list"

text \<open>\<open>row.get(k1) or row.get(k2) or ...\<close>: the first key with a value that is not empty.\<close>

fun first_key :: "dict \<Rightarrow> string list \<Rightarrow> string option" where
  "first_key row [] = None"
| "first_key row (k # ks) =
     (case map_of row k of Some v \<Rightarrow> if v = [] then first_key row ks else Some v | None \<Rightarrow> first_key row ks)"

section \<open>Integers as decimal text\<close>

text \<open>\<open>str\<close> of an integer, and the value of a sequence of digits.\<close>

fun nat_digits :: "nat \<Rightarrow> string" where
  "nat_digits n = (if n < 10 then [char_of (48 + n)] else nat_digits (n div 10) @ [char_of (48 + n mod 10)])"

declare nat_digits.simps [simp del]

definition int_str :: "int \<Rightarrow> string" where
  "int_str n = (if n < 0 then CHR ''-'' # nat_digits (nat (- n)) else nat_digits (nat n))"

definition digit_step :: "int \<Rightarrow> char \<Rightarrow> int" where
  "digit_step v c = 10 * v + (int (of_char c) - 48)"

lemma digit_char:
  fixes d :: nat
  assumes "d < 10"
  shows "digit_step v (char_of (48 + d)) = 10 * v + int d" "char_of (48 + d) \<noteq> CHR ''.''"
proof -
  have c: "(of_char (char_of (48 + d) :: char) :: nat) = 48 + d" using assms by simp
  then show "digit_step v (char_of (48 + d)) = 10 * v + int d" by (simp add: digit_step_def)
  show "char_of (48 + d) \<noteq> CHR ''.''"
  proof
    assume e: "(char_of (48 + d) :: char) = CHR ''.''"
    have "(of_char CHR ''.'' :: nat) = 46" by simp
    then show False using c unfolding e by simp
  qed
qed

lemma nat_digits_no_point: "filter (\<lambda>c. c \<noteq> CHR ''.'') (nat_digits n) = nat_digits n"
proof (induction n rule: nat_digits.induct)
  case (1 n)
  then show ?case using digit_char(2) [of n] digit_char(2) [of "n mod 10"]
    by (subst (1 2) nat_digits.simps) auto
qed

lemma nat_digits_value: "foldl digit_step 0 (nat_digits n) = int n"
proof (induction n rule: nat_digits.induct)
  case (1 n)
  then show ?case using digit_char(1) [of n 0] digit_char(1) [of "n mod 10" "int (n div 10)"]
    by (subst nat_digits.simps) (auto simp: zdiv_int zmod_int)
qed

lemma nat_digits_one: "d < 10 \<Longrightarrow> nat_digits d = [char_of (48 + d)]"
  by (subst nat_digits.simps) simp

end
