(* ===== verification/Pf.thy ===== *)
theory Pf
  imports Money Py_Strings
begin

text \<open>
  Provident fund: \<open>StatutoryService.calculate_pf\<close> of
  \<open>app/services/payroll/statutory_service.py\<close> with the PF columns of
  \<open>StatutoryComplianceConfig\<close> and the UAN check of the employee model. The keyword
  arguments that override a parameter (\<open>**kwargs\<close>) are optional fields of the input.
  The rate that the code reports as a float is kept as the Decimal it is made from.
\<close>

section \<open>Configuration and input\<close>

record pf_config =
  pf_enabled :: bool
  employee_pf_rate :: rat
  employer_pf_rate :: rat
  employer_eps_rate :: rat
  employer_edli_rate :: rat
  pf_admin_rate :: rat
  pf_wage_ceiling :: rat
  pf_on_full_basic :: bool

record pf_input =
  pi_basic_paise :: int
  pi_da_paise :: int
  pi_config :: "pf_config option"
  pi_on_full_basic :: "bool option"
  pi_is_pf_eligible :: bool
  pi_is_international_worker :: bool
  pi_wage_ceiling_applicable :: bool
  pi_age :: "int option"
  pi_vpf_rate :: rat
  pi_higher_wage_opted :: bool
  pi_membership_active :: bool
  pi_uan_number :: "string option"
  pi_require_uan :: bool
  pi_eps_rate :: "rat option"
  pi_edli_rate :: "rat option"
  pi_admin_rate :: "rat option"
  pi_kw_higher_wage_opted :: "bool option"
  pi_kw_vpf_percentage :: "rat option"
  pi_kw_is_active :: "bool option"

record pf_result =
  pf_wage_paise :: int
  eps_wage_paise :: int
  edli_wage_paise :: int
  employee_epf_paise :: int
  employee_vpf_paise :: int
  employee_pf_paise :: int
  employer_epf_paise :: int
  employer_eps_paise :: int
  employer_edli_paise :: int
  employer_admin_paise :: int
  total_employer_pf_paise :: int
  total_pf_liability_paise :: int
  pf_wage_ceiling_applied :: bool
  pf_is_active :: bool
  pf_uan_valid :: bool
  pf_uan_error :: "string option"
  pf_vpf_rate :: rat

section \<open>Operations\<close>

definition is_digit :: "char \<Rightarrow> bool" where
  "is_digit c = (let n = of_char c :: nat in 48 \<le> n \<and> n \<le> 57)"

definition validate_uan_format :: "string option \<Rightarrow> bool \<times> string" where
  "validate_uan_format uan =
     (if or_str uan [] = [] then (False, ''UAN is missing.'')
      else
        let clean = py_strip (or_str uan [])
        in if length clean \<noteq> 12 then (False, ''UAN must be exactly 12 numeric digits'')
           else if \<not> list_all is_digit clean then (False, ''UAN must contain only numeric digits.'')
           else (True, ''''))"

fun bool_of :: "bool option \<Rightarrow> bool \<Rightarrow> bool" where
  "bool_of None d = d"
| "bool_of (Some b) d = b"

definition zero_pf :: "bool \<Rightarrow> pf_result" where
  "zero_pf uan_valid =
     \<lparr> pf_wage_paise = 0, eps_wage_paise = 0, edli_wage_paise = 0, employee_epf_paise = 0,
       employee_vpf_paise = 0, employee_pf_paise = 0, employer_epf_paise = 0, employer_eps_paise = 0,
       employer_edli_paise = 0, employer_admin_paise = 0, total_employer_pf_paise = 0,
       total_pf_liability_paise = 0, pf_wage_ceiling_applied = False, pf_is_active = False,
       pf_uan_valid = uan_valid, pf_uan_error = None, pf_vpf_rate = 0 \<rparr>"

definition vpf_fraction :: "rat \<Rightarrow> rat" where
  "vpf_fraction v = max 0 (min (if 1 < v then ddiv v 100 else v) 1)"

definition pf_wages :: "pf_input \<Rightarrow> int" where
  "pf_wages i = max 0 (pi_basic_paise i + pi_da_paise i)"

definition pf_ceiling_paise :: "pf_input \<Rightarrow> int" where
  "pf_ceiling_paise i =
     max 0 (dec_trunc (dmul (case pi_config i of None \<Rightarrow> 15000 | Some c \<Rightarrow> pf_wage_ceiling c) 100))"

definition pf_full_basic :: "pf_input \<Rightarrow> bool" where
  "pf_full_basic i =
     (case pi_on_full_basic i of
        Some b \<Rightarrow> b
      | None \<Rightarrow> (case pi_config i of None \<Rightarrow> False | Some c \<Rightarrow> pf_on_full_basic c))"

definition rate_or :: "rat option \<Rightarrow> pf_config option \<Rightarrow> (pf_config \<Rightarrow> rat) \<Rightarrow> rat \<Rightarrow> rat" where
  "rate_or arg cfg field d =
     (case arg of Some r \<Rightarrow> r | None \<Rightarrow> (case cfg of None \<Rightarrow> d | Some c \<Rightarrow> field c))"

definition pf_wage_of :: "pf_input \<Rightarrow> bool \<Rightarrow> int" where
  "pf_wage_of i higher =
     (if pi_is_international_worker i \<or> higher \<or> \<not> pi_wage_ceiling_applicable i \<or> pf_full_basic i
      then pf_wages i else min (pf_wages i) (pf_ceiling_paise i))"

definition eps_wage_of :: "pf_input \<Rightarrow> bool \<Rightarrow> int" where
  "eps_wage_of i higher =
     (if pi_is_international_worker i \<or> higher then pf_wages i else min (pf_wages i) (pf_ceiling_paise i))"

definition edli_wage_of :: "pf_input \<Rightarrow> int" where
  "edli_wage_of i = min (pf_wages i) (pf_ceiling_paise i)"

definition employee_rate_of :: "pf_input \<Rightarrow> rat" where
  "employee_rate_of i = rate_or None (pi_config i) employee_pf_rate (12 / 100)"

definition employer_rate_of :: "pf_input \<Rightarrow> rat" where
  "employer_rate_of i = rate_or None (pi_config i) employer_pf_rate (12 / 100)"

definition pension_rate_of :: "pf_input \<Rightarrow> rat" where
  "pension_rate_of i = rate_or (pi_eps_rate i) (pi_config i) employer_eps_rate (833 / 10000)"

definition edli_rate_of :: "pf_input \<Rightarrow> rat" where
  "edli_rate_of i = rate_or (pi_edli_rate i) (pi_config i) employer_edli_rate (5 / 1000)"

definition admin_rate_of :: "pf_input \<Rightarrow> rat" where
  "admin_rate_of i = rate_or (pi_admin_rate i) (pi_config i) pf_admin_rate (5 / 1000)"

definition eps_of :: "pf_input \<Rightarrow> bool \<Rightarrow> int" where
  "eps_of i higher =
     (if (case pi_age i of None \<Rightarrow> False | Some a \<Rightarrow> 58 \<le> a) then 0
      else
        let raw = round_to_rupee_paise (dmul (of_int (eps_wage_of i higher)) (pension_rate_of i))
        in if \<not> (pi_is_international_worker i \<or> higher) then min 125000 raw else raw)"

definition total12_of :: "pf_input \<Rightarrow> bool \<Rightarrow> int" where
  "total12_of i higher = round_to_rupee_paise (dmul (of_int (pf_wage_of i higher)) (employer_rate_of i))"

definition head_of :: "int \<Rightarrow> rat \<Rightarrow> int" where
  "head_of wage rate = round_to_rupee_paise (dmul (of_int wage) rate)"

definition pf_compute :: "pf_input \<Rightarrow> bool \<Rightarrow> rat \<Rightarrow> bool \<Rightarrow> string option \<Rightarrow> pf_result" where
  "pf_compute i higher vpf uan_valid uan_error =
     (let pf_wage = pf_wage_of i higher;
          epf = head_of pf_wage (employee_rate_of i);
          vpf_amount = head_of pf_wage (vpf_fraction vpf);
          eps = eps_of i higher;
          employer_epf = max 0 (total12_of i higher - eps);
          edli = head_of (edli_wage_of i) (edli_rate_of i);
          admin = head_of pf_wage (admin_rate_of i)
      in \<lparr> pf_wage_paise = pf_wage, eps_wage_paise = eps_wage_of i higher,
           edli_wage_paise = edli_wage_of i,
           employee_epf_paise = epf, employee_vpf_paise = vpf_amount,
           employee_pf_paise = epf + vpf_amount, employer_epf_paise = employer_epf,
           employer_eps_paise = eps, employer_edli_paise = edli, employer_admin_paise = admin,
           total_employer_pf_paise = employer_epf + eps,
           total_pf_liability_paise = epf + vpf_amount + (employer_epf + eps) + edli + admin,
           pf_wage_ceiling_applied = pf_wage < pf_wages i, pf_is_active = True, pf_uan_valid = uan_valid,
           pf_uan_error = uan_error, pf_vpf_rate = vpf_fraction vpf \<rparr>)"

definition effective_vpf :: "pf_input \<Rightarrow> rat" where
  "effective_vpf i =
     (case pi_kw_vpf_percentage i of
        Some v \<Rightarrow> if pi_vpf_rate i = 0 then v else pi_vpf_rate i
      | None \<Rightarrow> pi_vpf_rate i)"

definition effective_higher :: "pf_input \<Rightarrow> bool" where
  "effective_higher i = bool_of (pi_kw_higher_wage_opted i) (pi_higher_wage_opted i)"

definition calculate_pf :: "pf_input \<Rightarrow> pf_result result" where
  "calculate_pf i =
     (let active = bool_of (pi_kw_is_active i) (pi_membership_active i);
          checked = (pi_uan_number i \<noteq> None \<or> pi_require_uan i);
          uan = validate_uan_format (pi_uan_number i);
          uan_valid = (if checked then fst uan else True);
          uan_error = (if checked then Some (snd uan) else None);
          enabled = (case pi_config i of None \<Rightarrow> True | Some c \<Rightarrow> pf_enabled c)
      in if checked \<and> pi_require_uan i \<and> \<not> uan_valid then Inl (ValueError (snd uan))
         else if \<not> enabled \<or> \<not> pi_is_pf_eligible i \<or> \<not> active \<or> pf_wages i \<le> 0
         then Inr (zero_pf uan_valid)
         else Inr (pf_compute i (effective_higher i) (effective_vpf i) uan_valid uan_error))"

section \<open>Bounds and shape\<close>

definition pf_rates_nonneg :: "pf_input \<Rightarrow> bool" where
  "pf_rates_nonneg i \<longleftrightarrow>
     0 \<le> employee_rate_of i \<and> 0 \<le> employer_rate_of i \<and> 0 \<le> pension_rate_of i \<and>
     0 \<le> edli_rate_of i \<and> 0 \<le> admin_rate_of i"

lemma pf_wages_nonneg [money_pos]: "0 \<le> pf_wages i"
  by (simp add: pf_wages_def)

lemma pf_ceiling_nonneg [money_pos]: "0 \<le> pf_ceiling_paise i"
  by (simp add: pf_ceiling_paise_def)

lemma pf_wage_of_nonneg [money_pos]: "0 \<le> pf_wage_of i h" "0 \<le> eps_wage_of i h" "0 \<le> edli_wage_of i"
  by (simp_all add: pf_wage_of_def eps_wage_of_def edli_wage_of_def money_pos)

lemma vpf_fraction_bounds: "0 \<le> vpf_fraction v" "vpf_fraction v \<le> 1"
  by (auto simp: vpf_fraction_def)

lemma head_of_nonneg [money_pos]: "0 \<le> n \<Longrightarrow> 0 \<le> r \<Longrightarrow> 0 \<le> head_of n r"
  unfolding head_of_def by (intro round_to_rupee_paise_nonneg dmul_nonneg) auto

lemma head_of_dvd [simp]: "100 dvd head_of n r"
  by (simp add: head_of_def)

lemma head_of_mono: "0 \<le> n \<Longrightarrow> n \<le> m \<Longrightarrow> 0 \<le> r \<Longrightarrow> head_of n r \<le> head_of m r"
  unfolding head_of_def by (intro round_to_rupee_paise_mono dmul_mono) auto

lemma eps_of_eq:
  "eps_of i h =
     (if \<exists>a. pi_age i = Some a \<and> 58 \<le> a then 0
      else if pi_is_international_worker i \<or> h then head_of (eps_wage_of i h) (pension_rate_of i)
      else min 125000 (head_of (eps_wage_of i h) (pension_rate_of i)))"
  by (simp add: eps_of_def head_of_def Let_def split: option.splits)

lemma total12_eq: "total12_of i h = head_of (pf_wage_of i h) (employer_rate_of i)"
  by (simp add: total12_of_def head_of_def)

lemma pf_compute_sel [simp]:
  "pf_wage_paise (pf_compute i h v u e) = pf_wage_of i h"
  "employee_epf_paise (pf_compute i h v u e) = head_of (pf_wage_of i h) (employee_rate_of i)"
  "employee_vpf_paise (pf_compute i h v u e) = head_of (pf_wage_of i h) (vpf_fraction v)"
  "employee_pf_paise (pf_compute i h v u e) =
     head_of (pf_wage_of i h) (employee_rate_of i) + head_of (pf_wage_of i h) (vpf_fraction v)"
  "employer_epf_paise (pf_compute i h v u e) = max 0 (total12_of i h - eps_of i h)"
  "employer_eps_paise (pf_compute i h v u e) = eps_of i h"
  "employer_edli_paise (pf_compute i h v u e) = head_of (edli_wage_of i) (edli_rate_of i)"
  "employer_admin_paise (pf_compute i h v u e) = head_of (pf_wage_of i h) (admin_rate_of i)"
  "total_employer_pf_paise (pf_compute i h v u e) = max 0 (total12_of i h - eps_of i h) + eps_of i h"
  "pf_is_active (pf_compute i h v u e)"
  by (simp_all add: pf_compute_def Let_def)

lemma pf_compute_liability:
  "total_pf_liability_paise (pf_compute i h v u e) =
     employee_epf_paise (pf_compute i h v u e) + employee_vpf_paise (pf_compute i h v u e) +
     employer_epf_paise (pf_compute i h v u e) + employer_eps_paise (pf_compute i h v u e) +
     employer_edli_paise (pf_compute i h v u e) + employer_admin_paise (pf_compute i h v u e)"
  by (simp add: pf_compute_def Let_def)

lemma zero_pf_inactive [simp]: "\<not> pf_is_active (zero_pf u)"
  by (simp add: zero_pf_def)

lemma calculate_pf_cases:
  assumes "calculate_pf i = Inr r"
  shows "(\<exists>u. r = zero_pf u) \<or> (\<exists>u e. r = pf_compute i (effective_higher i) (effective_vpf i) u e)"
  using assms unfolding calculate_pf_def Let_def
  by (simp split: if_split_asm; blast)

lemma calculate_pf_active:
  assumes "calculate_pf i = Inr r" "pf_is_active r"
  obtains u e where "r = pf_compute i (effective_higher i) (effective_vpf i) u e"
  using calculate_pf_cases [OF assms(1)] assms(2) by auto

section \<open>Properties\<close>

text \<open>
  C32: the employer's provident fund contribution is split, never inflated or lost. For an active
  member the EPF and EPS parts add up to the employer's share of the PF wage, or to the pension
  part alone where that is larger; the liability is the sum of the six heads; every head is a
  nonnegative whole-rupee amount; and outside higher-wage pension the EPS part stays within the
  statutory 1250 rupees and vanishes from age 58.
\<close>

theorem pf_employer_split:
  assumes "calculate_pf i = Inr r" "pf_is_active r" "pf_rates_nonneg i"
  shows "employer_epf_paise r + employer_eps_paise r =
           max (round_to_rupee_paise (dmul (of_int (pf_wage_paise r)) (employer_rate_of i)))
               (employer_eps_paise r) \<and>
         total_pf_liability_paise r =
           employee_epf_paise r + employee_vpf_paise r + employer_epf_paise r + employer_eps_paise r +
           employer_edli_paise r + employer_admin_paise r \<and>
         (\<forall>x \<in> {employee_epf_paise r, employee_vpf_paise r, employer_epf_paise r, employer_eps_paise r,
                 employer_edli_paise r, employer_admin_paise r}. 0 \<le> x \<and> 100 dvd x) \<and>
         (\<not> pi_is_international_worker i \<and> \<not> effective_higher i \<longrightarrow> employer_eps_paise r \<le> 125000) \<and>
         (\<forall>a. pi_age i = Some a \<and> 58 \<le> a \<longrightarrow> employer_eps_paise r = 0)"
proof -
  obtain u e where r: "r = pf_compute i (effective_higher i) (effective_vpf i) u e"
    using calculate_pf_active [OF assms(1,2)] .
  define h where "h = effective_higher i"
  have eps: "0 \<le> eps_of i h" "100 dvd eps_of i h"
    using assms(3) by (auto simp: eps_of_eq money_pos pf_rates_nonneg_def min_def)
  have t: "100 dvd total12_of i h" by (simp add: total12_eq)
  have "employee_epf_paise r + employee_vpf_paise r \<ge> 0" and
    nn: "0 \<le> employee_epf_paise r" "0 \<le> employee_vpf_paise r" "0 \<le> employer_edli_paise r"
      "0 \<le> employer_admin_paise r"
    using assms(3) vpf_fraction_bounds by (simp_all add: r money_pos pf_rates_nonneg_def)
  have liability: "total_pf_liability_paise r =
      employee_epf_paise r + employee_vpf_paise r + employer_epf_paise r + employer_eps_paise r +
      employer_edli_paise r + employer_admin_paise r"
    unfolding r by (rule pf_compute_liability)
  have "100 dvd max 0 (total12_of i h - eps_of i h)" using eps t by (simp add: max_def)
  then have dvd: "\<forall>x \<in> {employee_epf_paise r, employee_vpf_paise r, employer_epf_paise r,
      employer_eps_paise r, employer_edli_paise r, employer_admin_paise r}. 0 \<le> x \<and> 100 dvd x"
    using nn eps by (simp add: r h_def [symmetric])
  have split: "employer_epf_paise r + employer_eps_paise r =
      max (round_to_rupee_paise (dmul (of_int (pf_wage_paise r)) (employer_rate_of i)))
          (employer_eps_paise r)"
    by (simp add: r total12_of_def)
  have cap: "\<not> pi_is_international_worker i \<and> \<not> effective_higher i \<longrightarrow> employer_eps_paise r \<le> 125000"
    "\<forall>a. pi_age i = Some a \<and> 58 \<le> a \<longrightarrow> employer_eps_paise r = 0"
    by (auto simp: r eps_of_eq)
  show ?thesis using split liability dvd cap by blast
qed

definition sample_pf :: "int \<Rightarrow> pf_input" where
  "sample_pf basic =
     \<lparr> pi_basic_paise = basic, pi_da_paise = 0, pi_config = None, pi_on_full_basic = None,
       pi_is_pf_eligible = True, pi_is_international_worker = False, pi_wage_ceiling_applicable = True,
       pi_age = Some 40, pi_vpf_rate = 0, pi_higher_wage_opted = False, pi_membership_active = True,
       pi_uan_number = Some ''100200300400'', pi_require_uan = True, pi_eps_rate = None,
       pi_edli_rate = None, pi_admin_rate = None, pi_kw_higher_wage_opted = None,
       pi_kw_vpf_percentage = Some 5, pi_kw_is_active = None \<rparr>"

definition sample_pf_result :: pf_result where
  "sample_pf_result =
     \<lparr> pf_wage_paise = 1500000, eps_wage_paise = 1500000, edli_wage_paise = 1500000,
       employee_epf_paise = 180000, employee_vpf_paise = 75000, employee_pf_paise = 255000,
       employer_epf_paise = 55000, employer_eps_paise = 125000, employer_edli_paise = 7500,
       employer_admin_paise = 7500, total_employer_pf_paise = 180000, total_pf_liability_paise = 450000,
       pf_wage_ceiling_applied = True, pf_is_active = True, pf_uan_valid = True, pf_uan_error = Some '''',
       pf_vpf_rate = 1 / 20 \<rparr>"

lemma sample_pf_run: "calculate_pf (sample_pf 4000000) = Inr sample_pf_result"
  by code_simp

lemma sample_pf_rates: "pf_rates_nonneg (sample_pf b)"
  by (simp add: pf_rates_nonneg_def sample_pf_def rate_or_def employee_rate_of_def employer_rate_of_def
        pension_rate_of_def edli_rate_of_def admin_rate_of_def)

theorem pf_employer_split_witness:
  "employer_epf_paise sample_pf_result + employer_eps_paise sample_pf_result = 180000 \<and>
   employer_eps_paise sample_pf_result \<le> 125000"
  using pf_employer_split [OF sample_pf_run _ sample_pf_rates]
  by (simp add: sample_pf_result_def sample_pf_def effective_higher_def)

lemma pf_wage_mono:
  assumes "pi_basic_paise i \<le> b"
  shows "pf_wage_of i h \<le> pf_wage_of (i\<lparr>pi_basic_paise := b\<rparr>) h"
proof -
  have "pf_wages i \<le> pf_wages (i\<lparr>pi_basic_paise := b\<rparr>)" using assms by (simp add: pf_wages_def)
  moreover have "pf_ceiling_paise (i\<lparr>pi_basic_paise := b\<rparr>) = pf_ceiling_paise i"
    "pf_full_basic (i\<lparr>pi_basic_paise := b\<rparr>) = pf_full_basic i"
    by (simp_all add: pf_ceiling_paise_def pf_full_basic_def split: option.splits)
  ultimately show ?thesis by (auto simp: pf_wage_of_def min_def)
qed

text \<open>
  A higher basic wage never lowers the employee's provident fund deduction, with everything
  else unchanged.
\<close>

theorem pf_employee_monotone:
  assumes "calculate_pf i = Inr r" "calculate_pf (i\<lparr>pi_basic_paise := b\<rparr>) = Inr r'"
    "pi_basic_paise i \<le> b" "pf_rates_nonneg i" "pf_is_active r'"
  shows "employee_pf_paise r \<le> employee_pf_paise r'"
proof -
  define i' where "i' = i\<lparr>pi_basic_paise := b\<rparr>"
  define h v where "h = effective_higher i" and "v = effective_vpf i"
  have same: "employee_rate_of i' = employee_rate_of i" "effective_higher i' = h" "effective_vpf i' = v"
    by (simp_all add: i'_def h_def v_def employee_rate_of_def effective_higher_def effective_vpf_def
          split: option.splits)
  obtain u' e' where r': "r' = pf_compute i' h v u' e'"
    using calculate_pf_active [OF assms(2,5), folded i'_def] unfolding same .
  have rates: "0 \<le> employee_rate_of i" "0 \<le> vpf_fraction v"
    using assms(4) by (auto simp: pf_rates_nonneg_def vpf_fraction_bounds)
  have wage: "0 \<le> pf_wage_of i h" "pf_wage_of i h \<le> pf_wage_of i' h" "0 \<le> pf_wage_of i' h"
    using pf_wage_mono [OF assms(3)] by (simp_all add: i'_def money_pos)
  show ?thesis
    using calculate_pf_cases [OF assms(1)]
  proof
    assume "\<exists>u. r = zero_pf u"
    then show ?thesis using rates wage by (auto simp: zero_pf_def r' same head_of_nonneg)
  next
    assume "\<exists>u e. r = pf_compute i (effective_higher i) (effective_vpf i) u e"
    then show ?thesis using rates wage
      by (auto simp: r' same h_def [symmetric] v_def [symmetric] intro!: add_mono head_of_mono)
  qed
qed

definition sample_pf_low :: pf_result where
  "sample_pf_low =
     \<lparr> pf_wage_paise = 900000, eps_wage_paise = 900000, edli_wage_paise = 900000,
       employee_epf_paise = 108000, employee_vpf_paise = 45000, employee_pf_paise = 153000,
       employer_epf_paise = 33000, employer_eps_paise = 75000, employer_edli_paise = 4500,
       employer_admin_paise = 4500, total_employer_pf_paise = 108000, total_pf_liability_paise = 270000,
       pf_wage_ceiling_applied = False, pf_is_active = True, pf_uan_valid = True, pf_uan_error = Some '''',
       pf_vpf_rate = 1 / 20 \<rparr>"

theorem pf_employee_monotone_witness:
  "employee_pf_paise sample_pf_low \<le> employee_pf_paise sample_pf_result"
proof (rule pf_employee_monotone)
  show "calculate_pf (sample_pf 900000) = Inr sample_pf_low" by code_simp
  show "calculate_pf ((sample_pf 900000)\<lparr>pi_basic_paise := 4000000\<rparr>) = Inr sample_pf_result"
    using sample_pf_run by (simp add: sample_pf_def)
  show "pi_basic_paise (sample_pf 900000) \<le> 4000000" by (simp add: sample_pf_def)
  show "pf_rates_nonneg (sample_pf 900000)" by (rule sample_pf_rates)
  show "pf_is_active sample_pf_result" by (simp add: sample_pf_result_def)
qed

end
