(* ===== verification/Esi.thy ===== *)
theory Esi
  imports Money Dates
begin

text \<open>
  Employee state insurance: \<open>StatutoryService.esi_contribution_period\<close> and
  \<open>calculate_esi\<close> with the ESI columns of \<open>StatutoryComplianceConfig\<close>. The
  keyword arguments that override a parameter are optional fields of the input, and today's date
  is a parameter.
\<close>

section \<open>Configuration and input\<close>

record esi_config =
  esi_enabled :: bool
  employee_esi_rate :: rat
  employer_esi_rate :: rat
  esi_wage_ceiling :: rat
  esi_pwd_wage_ceiling :: rat

record esi_input =
  ei_gross_monthly_paise :: int
  ei_config :: "esi_config option"
  ei_contribution_wage_paise :: "int option"
  ei_is_pwd :: bool
  ei_covered_at_period_start :: "bool option"
  ei_as_of_date :: "date option"
  ei_contribution_period_start :: "date option"
  ei_period_start :: "date option"
  ei_previously_covered :: "bool option"
  ei_kw_pwd :: "bool option"
  ei_kw_is_person_with_disability :: "bool option"
  ei_kw_covered_aliases :: "bool option list"

record esi_result =
  er_is_applicable :: bool
  er_gross_paise :: int
  er_contribution_wage_paise :: int
  er_employee_esi_paise :: int
  er_employer_esi_paise :: int
  er_total_esi_liability_paise :: int
  er_ceiling_paise :: int
  er_is_pwd :: bool
  er_contribution_period_lock :: bool
  er_covered_at_period_start :: bool
  er_contribution_period_start :: date
  er_contribution_period_end :: date
  er_reason :: string

section \<open>Operations\<close>

definition esi_contribution_period :: "date \<Rightarrow> date \<times> date" where
  "esi_contribution_period value =
     (if 10 \<le> month value then (Date (year value) 10 1, Date (year value + 1) 3 31)
      else if 4 \<le> month value then (Date (year value) 4 1, Date (year value) 9 30)
      else (Date (year value - 1) 10 1, Date (year value) 3 31))"

fun first_some :: "'a option list \<Rightarrow> 'a option" where
  "first_some [] = None"
| "first_some (None # xs) = first_some xs"
| "first_some (Some x # xs) = Some x"

text \<open>
  The parameter, then the four keyword aliases in the order the code tries them, then
  \<open>previously_covered\<close>.
\<close>

definition esi_covered_at_start :: "esi_input \<Rightarrow> bool option" where
  "esi_covered_at_start i =
     first_some (ei_covered_at_period_start i # ei_kw_covered_aliases i @ [ei_previously_covered i])"

definition esi_is_pwd :: "esi_input \<Rightarrow> bool" where
  "esi_is_pwd i =
     (case ei_kw_is_person_with_disability i of
        Some b \<Rightarrow> b
      | None \<Rightarrow> (case ei_kw_pwd i of Some b \<Rightarrow> b | None \<Rightarrow> ei_is_pwd i))"

definition esi_ceiling :: "esi_input \<Rightarrow> int" where
  "esi_ceiling i =
     (if esi_is_pwd i
      then dec_trunc (dmul (case ei_config i of None \<Rightarrow> 25000 | Some c \<Rightarrow> esi_pwd_wage_ceiling c) 100)
      else dec_trunc (dmul (case ei_config i of None \<Rightarrow> 21000 | Some c \<Rightarrow> esi_wage_ceiling c) 100))"

definition esi_current_date :: "date \<Rightarrow> esi_input \<Rightarrow> date" where
  "esi_current_date today i =
     (case first_some [ei_as_of_date i, ei_contribution_period_start i, ei_period_start i] of
        Some d \<Rightarrow> d | None \<Rightarrow> today)"

definition esi_lock_matches :: "date \<Rightarrow> esi_input \<Rightarrow> bool" where
  "esi_lock_matches today i =
     (case (ei_as_of_date i, first_some [ei_contribution_period_start i, ei_period_start i]) of
        (Some d, Some supplied) \<Rightarrow>
          fst (esi_contribution_period supplied) = fst (esi_contribution_period (esi_current_date today i))
      | _ \<Rightarrow> True)"

definition esi_locked :: "date \<Rightarrow> esi_input \<Rightarrow> bool" where
  "esi_locked today i \<longleftrightarrow> esi_covered_at_start i = Some True \<and> esi_lock_matches today i"

definition calculate_esi :: "date \<Rightarrow> esi_input \<Rightarrow> esi_result" where
  "calculate_esi today i =
     (let gross = max 0 (ei_gross_monthly_paise i);
          enabled = (case ei_config i of None \<Rightarrow> True | Some c \<Rightarrow> esi_enabled c);
          ceiling = esi_ceiling i;
          period = esi_contribution_period (esi_current_date today i);
          locked = esi_locked today i;
          covered = (gross \<le> ceiling \<or> locked);
          wage_base = max 0 (case ei_contribution_wage_paise i of Some w \<Rightarrow> w | None \<Rightarrow> gross);
          pays = (enabled \<and> 0 < gross \<and> covered);
          emp_rate = (case ei_config i of None \<Rightarrow> 75 / 10000 | Some c \<Rightarrow> employee_esi_rate c);
          empr_rate = (case ei_config i of None \<Rightarrow> 325 / 10000 | Some c \<Rightarrow> employer_esi_rate c);
          employee = (if pays then round_to_rupee_paise (dmul (of_int wage_base) emp_rate) else 0);
          employer = (if pays then round_to_rupee_paise (dmul (of_int wage_base) empr_rate) else 0)
      in \<lparr> er_is_applicable = pays, er_gross_paise = gross, er_contribution_wage_paise = wage_base,
           er_employee_esi_paise = employee, er_employer_esi_paise = employer,
           er_total_esi_liability_paise = employee + employer, er_ceiling_paise = ceiling,
           er_is_pwd = esi_is_pwd i, er_contribution_period_lock = locked,
           er_covered_at_period_start =
             (case esi_covered_at_start i of Some b \<Rightarrow> b | None \<Rightarrow> gross \<le> ceiling),
           er_contribution_period_start = fst period, er_contribution_period_end = snd period,
           er_reason =
             (if locked \<and> ceiling < gross
              then ''Covered at contribution-period start; six-month lock applies''
              else if \<not> covered \<and> ceiling < gross then ''Exceeds gross wage ceiling''
              else if \<not> enabled \<or> gross \<le> 0 then ''ESI disabled or zero gross''
              else ''Eligible under gross wage ceiling'') \<rparr>)"

section \<open>Properties\<close>

lemma valid_date_month: "valid_date d \<Longrightarrow> 1 \<le> month d \<and> month d \<le> 12 \<and> 1 \<le> day d \<and> day d \<le> 31"
  by (auto simp: valid_date_def days_in_month_def split: if_splits)

text \<open>
  The ESI contribution periods partition the calendar. A date lies in the period the function
  returns for it, and every date inside that period has the same period, so the lock key of a
  six-month period is the same for all its months.
\<close>

theorem esi_period_partition:
  assumes "valid_date d" "valid_date d'" "esi_contribution_period d = (s, e)"
  shows "s \<le> d \<and> d \<le> e \<and> (s \<le> d' \<and> d' \<le> e \<longrightarrow> esi_contribution_period d' = (s, e))"
proof -
  obtain y m k where d: "d = Date y m k" by (cases d)
  obtain y' m' k' where d': "d' = Date y' m' k'" by (cases d')
  have r: "1 \<le> m" "m \<le> 12" "1 \<le> k" "k \<le> 31" "1 \<le> m'" "m' \<le> 12" "1 \<le> k'" "k' \<le> 31"
    using valid_date_month [OF assms(1)] valid_date_month [OF assms(2)] by (simp_all add: d d')
  have sep: "m' = 9 \<Longrightarrow> k' \<le> 30" using assms(2) by (auto simp: d' valid_date_def days_in_month_def)
  have sep1: "m = 9 \<Longrightarrow> k \<le> 30" using assms(1) by (auto simp: d valid_date_def days_in_month_def)
  consider "10 \<le> m" "s = Date y 10 1" "e = Date (y + 1) 3 31"
    | "4 \<le> m" "m < 10" "s = Date y 4 1" "e = Date y 9 30"
    | "m < 4" "s = Date (y - 1) 10 1" "e = Date y 3 31"
    using assms(3) by (auto simp: esi_contribution_period_def d split: if_splits)
  then show ?thesis
    by cases (use r sep sep1 in \<open>auto simp: esi_contribution_period_def d d'\<close>)
qed

theorem esi_period_partition_witness:
  "Date 2024 10 1 \<le> Date 2025 2 28 \<and> esi_contribution_period (Date 2024 12 31) = (Date 2024 10 1, Date 2025 3 31)"
proof -
  have "valid_date (Date 2025 2 28)" "valid_date (Date 2024 12 31)"
    by (simp_all add: valid_date_def days_in_month_def)
  moreover have "esi_contribution_period (Date 2025 2 28) = (Date 2024 10 1, Date 2025 3 31)"
    by (simp add: esi_contribution_period_def)
  ultimately show ?thesis
    using esi_period_partition [of "Date 2025 2 28" "Date 2024 12 31" "Date 2024 10 1" "Date 2025 3 31"]
    by simp
qed

definition esi_rates :: "esi_input \<Rightarrow> rat \<times> rat" where
  "esi_rates i =
     (case ei_config i of
        None \<Rightarrow> (75 / 10000, 325 / 10000)
      | Some c \<Rightarrow> (employee_esi_rate c, employer_esi_rate c))"

text \<open>
  Coverage and its six-month lock decide ESI. Contributions are due exactly when ESI is
  enabled, the gross is positive and either the gross is within the ceiling or the employee was
  covered at the start of the same contribution period, so a salary increase inside the period
  does not switch them off. When due, both are the rate's share of the contribution wage rounded
  to whole rupees; otherwise both are zero.
\<close>

theorem esi_six_month_lock:
  "let r = calculate_esi today i;
       due = ((case ei_config i of None \<Rightarrow> True | Some c \<Rightarrow> esi_enabled c) \<and>
              0 < ei_gross_monthly_paise i \<and>
              (ei_gross_monthly_paise i \<le> esi_ceiling i \<or>
               esi_covered_at_start i = Some True \<and> esi_lock_matches today i));
       share = (\<lambda>rate. if due then round_to_rupee_paise (dmul (of_int (er_contribution_wage_paise r)) rate)
                        else 0)
   in er_is_applicable r = due \<and>
      er_employee_esi_paise r = share (fst (esi_rates i)) \<and>
      er_employer_esi_paise r = share (snd (esi_rates i)) \<and>
      er_total_esi_liability_paise r = er_employee_esi_paise r + er_employer_esi_paise r \<and>
      100 dvd er_employee_esi_paise r \<and> 100 dvd er_employer_esi_paise r"
  by (cases "ei_config i")
    (auto simp: calculate_esi_def Let_def esi_locked_def esi_rates_def max_def)

end
