(* ===== verification/Labour_Code.thy ===== *)
theory Labour_Code
  imports Money Py_Strings "HOL-Library.AList"
begin

text \<open>
  The wage definition of the Code on Wages, 2019:
  \<open>StatutoryService.apply_labour_code_wage_rule\<close> with the labour-code columns of
  \<open>StatutoryComplianceConfig\<close>. Excluded allowances above a share of the gross remuneration
  are folded back into the wages that PF, ESI and gratuity are computed on.
\<close>

section \<open>Configuration\<close>

datatype raw_codes = NoCodes | OneCode string | Codes "string list"

record labour_config =
  lc_labour_code_enabled :: bool
  lc_min_basic_wage_ratio :: "rat option"
  lc_excluded_allowance_components :: raw_codes

record wage_rule =
  wr_labour_code_enabled :: bool
  wr_applied :: bool
  wr_min_basic_wage_ratio :: "rat option"
  wr_excluded_components :: "string list"
  wr_excluded_allowances_paise :: int
  wr_max_excluded_paise :: "int option"
  wr_excess_paise :: int
  wr_basic_da_paise :: int
  wr_statutory_wages_paise :: int
  wr_gross_remuneration_paise :: int

section \<open>Operations\<close>

definition ALWAYS_WAGE_COMPONENTS :: "string list" where
  "ALWAYS_WAGE_COMPONENTS = [''BASIC'', ''DA'', ''DEARNESS_ALLOWANCE'', ''RETAINING_ALLOWANCE'']"

definition DEFAULT_EXCLUDED_ALLOWANCES :: "string list" where
  "DEFAULT_EXCLUDED_ALLOWANCES = [''HRA'', ''CONVEYANCE'', ''OVERTIME'', ''STATUTORY_BONUS'', ''COMMISSION'']"

definition excluded_allowance_codes :: "labour_config option \<Rightarrow> string list" where
  "excluded_allowance_codes config =
     (let raw = (case config of None \<Rightarrow> NoCodes | Some c \<Rightarrow> lc_excluded_allowance_components c);
          items = (case raw of
              NoCodes \<Rightarrow> DEFAULT_EXCLUDED_ALLOWANCES
            | OneCode s \<Rightarrow> if s = [] then DEFAULT_EXCLUDED_ALLOWANCES else [s]
            | Codes xs \<Rightarrow> if xs = [] then DEFAULT_EXCLUDED_ALLOWANCES else xs)
      in filter (\<lambda>code. code \<noteq> []) (map (\<lambda>item. py_upper (py_strip item)) items))"

definition allowance_map :: "(string \<times> int option) list \<Rightarrow> (string \<times> int) list" where
  "allowance_map allowances =
     foldl (\<lambda>m kv. AList.update (py_upper (py_strip (fst kv)))
                     (case snd kv of None \<Rightarrow> 0 | Some v \<Rightarrow> v) m) [] allowances"

definition excluded_paise :: "labour_config option \<Rightarrow> (string \<times> int option) list \<Rightarrow> int" where
  "excluded_paise config allowances =
     (\<Sum>kv\<leftarrow>filter (\<lambda>kv. fst kv \<in> set (excluded_allowance_codes config) \<and>
                          fst kv \<notin> set ALWAYS_WAGE_COMPONENTS) (allowance_map allowances). snd kv)"

definition clamped_ratio :: "labour_config \<Rightarrow> rat" where
  "clamped_ratio c =
     (let ratio = (case lc_min_basic_wage_ratio c of Some r \<Rightarrow> r | None \<Rightarrow> 1 / 2)
      in if ratio < 0 then 0 else if 1 < ratio then 1 else ratio)"

definition apply_labour_code_wage_rule ::
  "int \<Rightarrow> int \<Rightarrow> int \<Rightarrow> (string \<times> int option) list \<Rightarrow> labour_config option \<Rightarrow> wage_rule"
where
  "apply_labour_code_wage_rule gross basic da allowances config =
     (let base_wages = basic + da;
          excluded = excluded_paise config allowances
      in case config of
           Some c \<Rightarrow>
             if lc_labour_code_enabled c then
               let ratio = clamped_ratio c;
                   max_excluded = round_paise (dmul (of_int gross) (dsub 1 ratio));
                   excess = max 0 (excluded - max_excluded)
               in \<lparr> wr_labour_code_enabled = True, wr_applied = 0 < excess,
                    wr_min_basic_wage_ratio = Some ratio,
                    wr_excluded_components = excluded_allowance_codes config,
                    wr_excluded_allowances_paise = excluded, wr_max_excluded_paise = Some max_excluded,
                    wr_excess_paise = excess, wr_basic_da_paise = base_wages,
                    wr_statutory_wages_paise = base_wages + excess, wr_gross_remuneration_paise = gross \<rparr>
             else
               \<lparr> wr_labour_code_enabled = False, wr_applied = False, wr_min_basic_wage_ratio = None,
                 wr_excluded_components = excluded_allowance_codes config,
                 wr_excluded_allowances_paise = excluded, wr_max_excluded_paise = None, wr_excess_paise = 0,
                 wr_basic_da_paise = base_wages, wr_statutory_wages_paise = base_wages,
                 wr_gross_remuneration_paise = gross \<rparr>
         | None \<Rightarrow>
             \<lparr> wr_labour_code_enabled = False, wr_applied = False, wr_min_basic_wage_ratio = None,
               wr_excluded_components = excluded_allowance_codes config,
               wr_excluded_allowances_paise = excluded, wr_max_excluded_paise = None, wr_excess_paise = 0,
               wr_basic_da_paise = base_wages, wr_statutory_wages_paise = base_wages,
               wr_gross_remuneration_paise = gross \<rparr>)"

section \<open>Lemmas\<close>

lemma clamped_ratio_bounds: "0 \<le> clamped_ratio c" "clamped_ratio c \<le> 1"
  by (auto simp: clamped_ratio_def Let_def)

lemma dec_rep_one: "dec_rep 1"
  using dec_rep_of_int [of 1] by simp

lemma dsub_one_bounds: "0 \<le> r \<Longrightarrow> r \<le> 1 \<Longrightarrow> 0 \<le> dsub 1 r \<and> dsub 1 r \<le> 1"
  unfolding dsub_def using dec_ctx_le [OF _ dec_rep_one, of "1 - r"] by (simp add: dec_ctx_nonneg)

text \<open>The rounded cap on excluded allowances is within one paisa of its exact value.\<close>

lemma max_excluded_close:
  assumes "0 \<le> gross" "gross < 10 ^ 20" "0 \<le> r" "r \<le> 1"
  shows "of_int (round_paise (dmul (of_int gross) (dsub 1 r))) \<le> of_int gross * (1 - r) + 1"
proof -
  define g where "g = rat_of_int gross"
  have g: "0 \<le> g" "g \<le> 10 ^ 20" using assms by (simp_all add: g_def)
  have "dsub 1 r - (1 - r) \<le> (1 - r) / (2 * 10 ^ 27)"
    using dec_ctx_error [of "1 - r"] assms(4) by (simp only: dsub_def abs_le_iff abs_of_nonneg)
  also have "\<dots> \<le> 1 / (2 * 10 ^ 27)" using assms(3) by (intro divide_right_mono) auto
  finally have d: "dsub 1 r \<le> (1 - r) + 1 / (2 * 10 ^ 27)" "0 \<le> dsub 1 r" "dsub 1 r \<le> 1"
    using dsub_one_bounds [OF assms(3,4)] by auto
  have p0: "0 \<le> g * dsub 1 r" "g * dsub 1 r \<le> 10 ^ 20"
    using g d mult_mono [of g "10 ^ 20" "dsub 1 r" 1] by auto
  have p1: "g * dsub 1 r \<le> g * (1 - r) + 10 ^ 20 / (2 * 10 ^ 27)"
  proof -
    have "g * dsub 1 r \<le> g * ((1 - r) + 1 / (2 * 10 ^ 27))" using d g by (intro mult_left_mono) auto
    also have "\<dots> = g * (1 - r) + g / (2 * 10 ^ 27)" by (simp only: distrib_left times_divide_eq_right mult_1_right)
    also have "\<dots> \<le> g * (1 - r) + 10 ^ 20 / (2 * 10 ^ 27)" using g by (simp add: divide_right_mono)
    finally show ?thesis .
  qed
  have "dmul g (dsub 1 r) - g * dsub 1 r \<le> (g * dsub 1 r) / (2 * 10 ^ 27)"
    using dec_ctx_error [of "g * dsub 1 r"] p0(1) by (simp only: dmul_def abs_le_iff abs_of_nonneg)
  also have "\<dots> \<le> 10 ^ 20 / (2 * 10 ^ 27)" using p0(2) by (intro divide_right_mono) auto
  finally have "dmul g (dsub 1 r) \<le> g * dsub 1 r + 10 ^ 20 / (2 * 10 ^ 27)" by linarith
  moreover have "of_int (round_paise (dmul g (dsub 1 r))) \<le> dmul g (dsub 1 r) + 1 / 2"
    using half_up_error [of "dmul g (dsub 1 r)"] unfolding round_paise_def abs_le_iff by linarith
  ultimately show ?thesis using p1 unfolding g_def [symmetric] by simp
qed

section \<open>Properties\<close>

text \<open>
  With the labour code enabled, the statutory wages reach the configured share of the
  remuneration. When the whole gross consists of wages and excluded allowances, the statutory
  wages are at least the minimum ratio times the gross, up to one paisa of rounding, and they lie
  between the basic wages and the gross.
\<close>

theorem labour_code_minimum_wage_share:
  assumes "lc_labour_code_enabled c" "0 \<le> gross" "gross < 10 ^ 20" "0 \<le> basic + da"
    "basic + da + excluded_paise (Some c) allowances = gross"
  shows "clamped_ratio c * of_int gross - 1 \<le>
           of_int (wr_statutory_wages_paise (apply_labour_code_wage_rule gross basic da allowances (Some c))) \<and>
         basic + da \<le>
           wr_statutory_wages_paise (apply_labour_code_wage_rule gross basic da allowances (Some c)) \<and>
         (0 \<le> excluded_paise (Some c) allowances \<longrightarrow>
           wr_statutory_wages_paise (apply_labour_code_wage_rule gross basic da allowances (Some c)) \<le> gross)"
proof -
  define m where "m = round_paise (dmul (of_int gross) (dsub 1 (clamped_ratio c)))"
  define w where
    "w = wr_statutory_wages_paise (apply_labour_code_wage_rule gross basic da allowances (Some c))"
  have w: "w = basic + da + max 0 (excluded_paise (Some c) allowances - m)"
    using assms(1) by (simp add: w_def m_def apply_labour_code_wage_rule_def Let_def)
  have "of_int m \<le> rat_of_int gross * (1 - clamped_ratio c) + 1"
    unfolding m_def by (intro max_excluded_close assms clamped_ratio_bounds)
  moreover have "gross - m \<le> w" using w assms(5) by linarith
  then have "rat_of_int gross - of_int m \<le> of_int w" by (metis of_int_diff of_int_le_iff)
  ultimately have "clamped_ratio c * of_int gross - 1 \<le> of_int w" by (simp add: algebra_simps)
  moreover have "0 \<le> m"
    unfolding m_def using assms(2) dsub_one_bounds [OF clamped_ratio_bounds]
    by (intro round_paise_nonneg dmul_nonneg) auto
  ultimately show ?thesis using w assms(5) unfolding w_def [symmetric] by auto
qed

definition sample_labour :: labour_config where
  "sample_labour = \<lparr> lc_labour_code_enabled = True, lc_min_basic_wage_ratio = None,
     lc_excluded_allowance_components = Codes ['' hra ''] \<rparr>"

theorem labour_code_minimum_wage_share_witness:
  "clamped_ratio sample_labour * of_int 5000001 - 1 \<le>
     of_int (wr_statutory_wages_paise
       (apply_labour_code_wage_rule 5000001 1500000 0 [(''Hra'', Some 3500001)] (Some sample_labour)))"
proof -
  have "excluded_paise (Some sample_labour) [(''Hra'', Some 3500001)] = 3500001" by code_simp
  then show ?thesis
    using labour_code_minimum_wage_share [of sample_labour 5000001 1500000 0 "[(''Hra'', Some 3500001)]"]
    by (simp add: sample_labour_def)
qed
section \<open>Gratuity provision\<close>

text \<open>\<open>calculate_gratuity\<close>: the wage base, the monthly provision and the annual one.\<close>

record gratuity =
  gr_wage_base_paise :: int
  gr_monthly_provision_paise :: int
  gr_annual_provision_paise :: int

definition calculate_gratuity :: "int \<Rightarrow> int option \<Rightarrow> gratuity" where
  "calculate_gratuity basic_monthly statutory_wage =
     (let base = max 0 (case statutory_wage of Some w \<Rightarrow> w | None \<Rightarrow> basic_monthly);
          provision = round_paise (ddiv (dmul (ddiv 15 26) (of_int base)) 12)
      in \<lparr> gr_wage_base_paise = base, gr_monthly_provision_paise = provision,
           gr_annual_provision_paise = provision * 12 \<rparr>)"

lemma calculate_gratuity_nonneg [money_pos]: "0 \<le> gr_monthly_provision_paise (calculate_gratuity b w)"
  by (simp add: calculate_gratuity_def Let_def round_paise_nonneg ddiv_nonneg dmul_nonneg)

end
