(* ===== verification/Tds.thy ===== *)
theory Tds
  imports Money Py_Strings "HOL-Library.AList"
begin

text \<open>
  Income tax withholding: \<open>StatutoryService.calculate_tds\<close> with the default tax rules, the
  slab normalisation, the declaration lookups and the HRA exemption of
  \<open>app/services/payroll/statutory_service.py\<close>. A JSON object of numbers is an association
  list; the fields of a supplied rule, each under the aliases the code tries in order, are the
  optional fields of a \<open>rule_override\<close>. The keyword overrides of a preview call take the
  same form. The floats of the result repeat two integer fields and are left out.
\<close>

section \<open>Tax rules\<close>

record raw_slab =
  rs_up_to_paise :: "rat option"
  rs_up_to_rupees :: "rat option"
  rs_rate :: rat

record surcharge_slab =
  ss_above_paise :: "rat option"
  ss_above_rupees :: rat
  ss_rate :: rat

datatype limit_value = LNone | LInt int | LDec rat

record tax_rule =
  tr_standard_deduction_paise :: "rat option"
  tr_slabs :: "raw_slab list"
  tr_rebate_87a_limit_paise :: int
  tr_rebate_87a_max_paise :: int
  tr_chapter_via_limits :: "(string \<times> limit_value) list"
  tr_cess_rate :: rat
  tr_surcharge_slabs :: "surcharge_slab list"

definition slab_paise :: "rat option \<Rightarrow> rat \<Rightarrow> raw_slab" where
  "slab_paise up rate = \<lparr> rs_up_to_paise = up, rs_up_to_rupees = None, rs_rate = rate \<rparr>"

definition surcharge_above :: "rat \<Rightarrow> rat \<Rightarrow> surcharge_slab" where
  "surcharge_above threshold rate = \<lparr> ss_above_paise = Some threshold, ss_above_rupees = 0, ss_rate = rate \<rparr>"

text \<open>\<open>_fy_start_year\<close>: the first substring \<open>20dd\<close>, read as a year.\<close>

definition digit_of :: "char \<Rightarrow> int option" where
  "digit_of c = (let n = of_char c :: int in if 48 \<le> n \<and> n \<le> 57 then Some (n - 48) else None)"

fun fy_search :: "string \<Rightarrow> int option" where
  "fy_search (a # b # c # d # rest) =
     (case (digit_of c, digit_of d) of
        (Some x, Some y) \<Rightarrow>
          if a = CHR ''2'' \<and> b = CHR ''0'' then Some (2000 + 10 * x + y) else fy_search (b # c # d # rest)
      | _ \<Rightarrow> fy_search (b # c # d # rest))"
| "fy_search _ = None"

definition fy_start_year :: "string \<Rightarrow> int" where
  "fy_start_year financial_year = (case fy_search financial_year of Some y \<Rightarrow> y | None \<Rightarrow> 2024)"

definition old_regime_rule :: tax_rule where
  "old_regime_rule =
     \<lparr> tr_standard_deduction_paise = Some 5000000,
       tr_slabs = [slab_paise (Some 25000000) 0, slab_paise (Some 50000000) (5 / 100),
                   slab_paise (Some 100000000) (20 / 100), slab_paise None (30 / 100)],
       tr_rebate_87a_limit_paise = 50000000, tr_rebate_87a_max_paise = 1250000,
       tr_chapter_via_limits = [(''80C'', LInt 15000000), (''80D'', LInt 5000000),
         (''80CCD1B'', LInt 5000000), (''80TTA'', LInt 1000000), (''24B'', LInt 20000000)],
       tr_cess_rate = 4 / 100,
       tr_surcharge_slabs = [surcharge_above 500000000 (10 / 100), surcharge_above 1000000000 (15 / 100),
                             surcharge_above 2000000000 (25 / 100), surcharge_above 5000000000 (37 / 100)] \<rparr>"

definition new_regime_slabs :: "int \<Rightarrow> raw_slab list" where
  "new_regime_slabs start_year =
     (if 2025 \<le> start_year
      then [slab_paise (Some 40000000) 0, slab_paise (Some 80000000) (5 / 100),
            slab_paise (Some 120000000) (10 / 100), slab_paise (Some 160000000) (15 / 100),
            slab_paise (Some 200000000) (20 / 100), slab_paise (Some 240000000) (25 / 100),
            slab_paise None (30 / 100)]
      else [slab_paise (Some 30000000) 0, slab_paise (Some 70000000) (5 / 100),
            slab_paise (Some 100000000) (10 / 100), slab_paise (Some 120000000) (15 / 100),
            slab_paise (Some 150000000) (20 / 100), slab_paise None (30 / 100)])"

definition new_regime_rule :: "int \<Rightarrow> tax_rule" where
  "new_regime_rule start_year =
     \<lparr> tr_standard_deduction_paise = Some (if 2024 \<le> start_year then 7500000 else 5000000),
       tr_slabs = new_regime_slabs start_year,
       tr_rebate_87a_limit_paise = (if 2025 \<le> start_year then 120000000 else 70000000),
       tr_rebate_87a_max_paise = (if 2025 \<le> start_year then 6000000 else 2500000),
       tr_chapter_via_limits = [(''80CCD2'', LNone)], tr_cess_rate = 4 / 100,
       tr_surcharge_slabs = [surcharge_above 500000000 (10 / 100), surcharge_above 1000000000 (15 / 100),
                             surcharge_above 2000000000 (25 / 100)] \<rparr>"

definition default_tax_rule :: "string \<Rightarrow> string \<Rightarrow> tax_rule" where
  "default_tax_rule financial_year regime =
     (if regime = ''OLD'' then old_regime_rule else new_regime_rule (fy_start_year financial_year))"

section \<open>Overrides\<close>

text \<open>\<open>_amount_paise\<close>\<close>

definition amount_paise :: "rat option \<Rightarrow> bool \<Rightarrow> int" where
  "amount_paise value paise =
     (case value of None \<Rightarrow> 0 | Some v \<Rightarrow> if paise then round_paise v else round_paise (dmul v 100))"

record rule_override =
  ro_slabs :: "raw_slab list option"
  ro_standard_deduction_paise :: "rat option"
  ro_rebate_87a_limit_paise :: "int option"
  ro_rebate_87a_max_paise :: "int option"
  ro_chapter_via_limits :: "(string \<times> limit_value) list option"
  ro_surcharge_slabs :: "surcharge_slab list option"
  ro_cess_rate :: "rat option"
  ro_standard_deduction_rupees :: "rat option"
  ro_rebate_limit_rupees :: "rat option"
  ro_rebate_max_rupees :: "rat option"
  ro_chapter_via_limits_paise :: "(string \<times> rat option) list"
  ro_chapter_via_limits_inr :: "(string \<times> rat option) list"

fun or_else :: "'a option \<Rightarrow> 'a \<Rightarrow> 'a" where
  "or_else None d = d"
| "or_else (Some x) d = x"

definition no_override :: rule_override where
  "no_override =
     \<lparr> ro_slabs = None, ro_standard_deduction_paise = None, ro_rebate_87a_limit_paise = None,
       ro_rebate_87a_max_paise = None, ro_chapter_via_limits = None, ro_surcharge_slabs = None,
       ro_cess_rate = None, ro_standard_deduction_rupees = None, ro_rebate_limit_rupees = None,
       ro_rebate_max_rupees = None, ro_chapter_via_limits_paise = [], ro_chapter_via_limits_inr = [] \<rparr>"

definition apply_paise_fields :: "rule_override \<Rightarrow> tax_rule \<Rightarrow> tax_rule" where
  "apply_paise_fields ro r =
     r\<lparr> tr_slabs := or_else (ro_slabs ro) (tr_slabs r),
        tr_standard_deduction_paise :=
          (case ro_standard_deduction_paise ro of Some v \<Rightarrow> Some v | None \<Rightarrow> tr_standard_deduction_paise r),
        tr_rebate_87a_limit_paise := or_else (ro_rebate_87a_limit_paise ro) (tr_rebate_87a_limit_paise r),
        tr_rebate_87a_max_paise := or_else (ro_rebate_87a_max_paise ro) (tr_rebate_87a_max_paise r),
        tr_chapter_via_limits := or_else (ro_chapter_via_limits ro) (tr_chapter_via_limits r),
        tr_surcharge_slabs := or_else (ro_surcharge_slabs ro) (tr_surcharge_slabs r),
        tr_cess_rate := or_else (ro_cess_rate ro) (tr_cess_rate r) \<rparr>"

definition apply_standard_rupees :: "rule_override \<Rightarrow> tax_rule \<Rightarrow> tax_rule" where
  "apply_standard_rupees ro r =
     (case ro_standard_deduction_rupees ro of
        None \<Rightarrow> r
      | Some v \<Rightarrow> r\<lparr> tr_standard_deduction_paise := Some (of_int (amount_paise (Some v) False)) \<rparr>)"

definition apply_rebate_rupees :: "rule_override \<Rightarrow> tax_rule \<Rightarrow> tax_rule" where
  "apply_rebate_rupees ro r =
     r\<lparr> tr_rebate_87a_limit_paise :=
          (case ro_rebate_limit_rupees ro of
             None \<Rightarrow> tr_rebate_87a_limit_paise r | Some v \<Rightarrow> amount_paise (Some v) False),
        tr_rebate_87a_max_paise :=
          (case ro_rebate_max_rupees ro of
             None \<Rightarrow> tr_rebate_87a_max_paise r | Some v \<Rightarrow> amount_paise (Some v) False) \<rparr>"

definition tax_rule_dict :: "rule_override option \<Rightarrow> string \<Rightarrow> string \<Rightarrow> tax_rule" where
  "tax_rule_dict rule financial_year regime =
     (let defaults = default_tax_rule financial_year regime
      in case rule of
           None \<Rightarrow> defaults
         | Some ro \<Rightarrow> apply_rebate_rupees ro (apply_standard_rupees ro (apply_paise_fields ro defaults)))"

section \<open>Slabs\<close>

record slab =
  sl_up_to :: "int option"
  sl_rate :: rat

definition percent_rate :: "rat \<Rightarrow> rat" where
  "percent_rate r = (if 1 < r then ddiv r 100 else r)"

definition normalise_slab :: "raw_slab \<Rightarrow> slab" where
  "normalise_slab s =
     \<lparr> sl_up_to =
         (case rs_up_to_paise s of
            Some v \<Rightarrow> Some (amount_paise (Some v) True)
          | None \<Rightarrow> (case rs_up_to_rupees s of None \<Rightarrow> None | Some v \<Rightarrow> Some (amount_paise (Some v) False))),
       sl_rate = max 0 (percent_rate (rs_rate s)) \<rparr>"

text \<open>
  The Python sort key is the pair of "has no bound" and the bound, and the sort is stable: the
  bounded slabs by their bound, then the unbounded ones in order.
\<close>

definition normalise_slabs :: "raw_slab list \<Rightarrow> raw_slab list \<Rightarrow> slab list" where
  "normalise_slabs raw defaults =
     (let normalized = map normalise_slab (if raw = [] then defaults else raw)
      in if raw = [] then normalized
         else sort_key (\<lambda>s. the (sl_up_to s)) (filter (\<lambda>s. sl_up_to s \<noteq> None) normalized)
              @ filter (\<lambda>s. sl_up_to s = None) normalized)"

fun slab_tax :: "int \<Rightarrow> int \<Rightarrow> slab list \<Rightarrow> int" where
  "slab_tax taxable previous [] = 0"
| "slab_tax taxable previous (s # rest) =
     (let band_end = (case sl_up_to s of None \<Rightarrow> taxable | Some upper \<Rightarrow> min taxable upper);
          band = (if previous < band_end
                  then round_paise (dmul (of_int (band_end - previous)) (sl_rate s)) else 0)
      in band + (case sl_up_to s of
                   None \<Rightarrow> 0
                 | Some upper \<Rightarrow> if taxable \<le> upper then 0 else slab_tax taxable upper rest))"

fun surcharge_rate :: "int \<Rightarrow> rat \<Rightarrow> surcharge_slab list \<Rightarrow> rat" where
  "surcharge_rate taxable rate [] = rate"
| "surcharge_rate taxable rate (s # rest) =
     (let threshold = (case ss_above_paise s of
                         Some v \<Rightarrow> amount_paise (Some v) True
                       | None \<Rightarrow> amount_paise (Some (ss_above_rupees s)) False)
      in surcharge_rate taxable (if threshold < taxable then percent_rate (ss_rate s) else rate) rest)"

section \<open>Declarations\<close>

type_synonym declarations = "(string \<times> rat option) list"

definition dget :: "declarations \<Rightarrow> string \<Rightarrow> rat option" where
  "dget d key = (case map_of d key of Some (Some v) \<Rightarrow> Some v | _ \<Rightarrow> None)"

fun dfirst :: "declarations \<Rightarrow> string list \<Rightarrow> rat option" where
  "dfirst d [] = None"
| "dfirst d (k # ks) = (case dget d k of Some v \<Rightarrow> Some v | None \<Rightarrow> dfirst d ks)"

definition declaration_paise :: "declarations \<Rightarrow> string \<Rightarrow> int \<Rightarrow> int" where
  "declaration_paise d name dflt =
     (case dfirst d [name @ ''_paise'', name @ ''_amount_paise''] of
        Some v \<Rightarrow> max 0 (amount_paise (Some v) True)
      | None \<Rightarrow>
          (case dfirst d [name, name @ ''_inr'', name @ ''_amount''] of
             Some v \<Rightarrow> max 0 (amount_paise (Some v) False)
           | None \<Rightarrow> dflt))"

definition decl_aliases :: "(string \<times> string) list" where
  "decl_aliases =
     [(''80C'', ''section_80c''), (''80D'', ''section_80d''), (''80CCD1B'', ''section_80ccd1b_nps''),
      (''80CCD(1B)'', ''section_80ccd1b_nps''), (''80G'', ''section_80g''), (''80TTA'', ''section_80tta''),
      (''24B'', ''home_loan_interest_24b''), (''24b'', ''home_loan_interest_24b''), (''HRA'', ''hra_claimed'')]"

definition canonical_declarations :: "declarations \<Rightarrow> declarations" where
  "canonical_declarations d0 =
     foldl (\<lambda>d ac. case map_of d (fst ac) of
              Some v \<Rightarrow> if map_of d (snd ac) = None then d @ [(snd ac, v)] else d
            | None \<Rightarrow> d) d0 decl_aliases"

definition calculate_hra_exemption :: "int \<Rightarrow> int \<Rightarrow> int \<Rightarrow> bool \<Rightarrow> int" where
  "calculate_hra_exemption actual_hra rent basic metro =
     (if actual_hra \<le> 0 \<or> basic \<le> 0 then 0
      else
        let city_limit = dec_trunc (dmul (of_int basic) (if metro then 50 / 100 else 40 / 100));
            rent_excess = max 0 (rent - dec_trunc (dmul (of_int basic) (10 / 100)))
        in max 0 (min actual_hra (min rent_excess city_limit)))"

section \<open>Chapter VI-A limits\<close>

definition ends_with :: "string \<Rightarrow> string \<Rightarrow> bool" where
  "ends_with s suffix \<longleftrightarrow> drop (length s - length suffix) s = suffix"

definition limit_paise :: "string \<Rightarrow> limit_value \<Rightarrow> int option" where
  "limit_paise key value =
     (case value of
        LNone \<Rightarrow> None
      | LInt n \<Rightarrow>
          if ends_with (py_upper key) ''_PAISE'' then Some (amount_paise (Some (of_int n)) True)
          else Some (amount_paise (Some (of_int n)) (1000000 \<le> n))
      | LDec q \<Rightarrow>
          if ends_with (py_upper key) ''_PAISE'' then Some (amount_paise (Some q) True)
          else Some (amount_paise (Some q) False))"

definition tds_limits ::
  "tax_rule \<Rightarrow> (string \<times> rat option) list \<Rightarrow> (string \<times> rat option) list \<Rightarrow> (string \<times> int option) list"
where
  "tds_limits rule custom_paise custom_inr =
     (let l0 = foldl (\<lambda>m kv. AList.update (py_upper (fst kv)) (limit_paise (fst kv) (snd kv)) m) []
                 (tr_chapter_via_limits rule);
          l1 = foldl (\<lambda>m kv. AList.update (py_upper (fst kv)) (Some (amount_paise (snd kv) True)) m) l0
                 custom_paise
      in foldl (\<lambda>m kv. AList.update (py_upper (fst kv)) (Some (amount_paise (snd kv) False)) m) l1 custom_inr)"

text \<open>\<open>limits.get(section)\<close>: an absent and a None limit both mean no cap.\<close>

definition capped :: "(string \<times> int option) list \<Rightarrow> string \<Rightarrow> int \<Rightarrow> int" where
  "capped limits section value =
     (case map_of limits section of Some (Some cap) \<Rightarrow> min value cap | _ \<Rightarrow> value)"

section \<open>The projection\<close>

record tds_input =
  ti_annual_gross_paise :: int
  ti_tax_regime :: "string option"
  ti_declarations :: declarations
  ti_remaining_months :: int
  ti_financial_year :: string
  ti_tax_rule :: "rule_override option"
  ti_verified_declarations :: "declarations option"
  ti_proof_cutoff_passed :: bool
  ti_use_verified_declarations :: "bool option"
  ti_ytd_tds_paise :: int
  ti_previous_employer_tds_paise :: int
  ti_previous_employer_income_paise :: int
  ti_current_month :: "int option"
  ti_one_time_bonus_paise :: int
  ti_variable_pay_paise :: int
  ti_bonus_paise :: "int option"
  ti_basic_annual_paise :: int
  ti_hra_annual_paise :: int
  ti_rent_paid_annual_paise :: int
  ti_metro :: bool
  ti_kw :: rule_override
  ti_kw_already_deducted_tds_paise :: "int option"
  ti_kw_previous_tds_paise :: "int option"
  ti_kw_previous_employer_income :: "rat option"
  ti_kw_ytd_tds :: "rat option"

record tds_breakup =
  tb_standard :: int
  tb_exemption :: int
  tb_hra :: int
  tb_sec_24b :: int
  tb_chapter_via :: int
  tb_professional :: int
  tb_taxable :: int
  tb_tax_before :: int
  tb_rebate :: int
  tb_marginal_relief :: int
  tb_after_rebate :: int
  tb_surcharge :: int
  tb_cess :: int
  tb_annual :: int

definition starts_with :: "string \<Rightarrow> string \<Rightarrow> bool" where
  "starts_with s p \<longleftrightarrow> take (length p) s = p"

definition tds_regime :: "tds_input \<Rightarrow> string" where
  "tds_regime i =
     (if starts_with (py_strip (py_upper (or_str (ti_tax_regime i) ''NEW''))) ''OLD'' then ''OLD'' else ''NEW'')"

definition tds_rule :: "tds_input \<Rightarrow> tax_rule" where
  "tds_rule i =
     apply_standard_rupees (ti_kw i)
       (apply_paise_fields (ti_kw i) (tax_rule_dict (ti_tax_rule i) (ti_financial_year i) (tds_regime i)))"

definition tds_uses_verified :: "tds_input \<Rightarrow> bool" where
  "tds_uses_verified i \<longleftrightarrow>
     (case ti_use_verified_declarations i of
        Some b \<Rightarrow> b
      | None \<Rightarrow> ti_proof_cutoff_passed i \<and> ti_verified_declarations i \<noteq> None) \<and>
     ti_verified_declarations i \<noteq> None"

definition tds_declarations :: "tds_input \<Rightarrow> declarations" where
  "tds_declarations i =
     canonical_declarations
       (if tds_uses_verified i then the (ti_verified_declarations i) else ti_declarations i)"

definition or_int :: "int \<Rightarrow> int \<Rightarrow> int" where
  "or_int a b = (if a = 0 then b else a)"

definition old_hra_exemption :: "tds_input \<Rightarrow> declarations \<Rightarrow> int" where
  "old_hra_exemption i decl =
     (let actual_hra = or_int (ti_hra_annual_paise i) (declaration_paise decl ''hra_annual'' 0);
          basic = or_int (ti_basic_annual_paise i) (declaration_paise decl ''basic_annual'' 0);
          rent = or_int (ti_rent_paid_annual_paise i) (declaration_paise decl ''rent_paid_annual'' 0);
          computed = calculate_hra_exemption actual_hra rent basic (ti_metro i);
          claimed = declaration_paise decl ''hra_exemption'' (declaration_paise decl ''hra_claimed'' 0);
          hra = or_int computed claimed
      in if actual_hra \<noteq> 0 then min hra actual_hra else hra)"

definition old_chapter_via :: "declarations \<Rightarrow> (string \<times> int option) list \<Rightarrow> int" where
  "old_chapter_via decl limits =
     capped limits ''80C'' (declaration_paise decl ''section_80c'' 0) +
     capped limits ''80D'' (declaration_paise decl ''section_80d'' 0) +
     capped limits ''80CCD1B''
       (declaration_paise decl ''section_80ccd1b_nps'' (declaration_paise decl ''section_80ccd1b'' 0)) +
     capped limits ''80G'' (declaration_paise decl ''section_80g'' 0) +
     capped limits ''80TTA'' (declaration_paise decl ''section_80tta'' 0) +
     capped limits ''80TTB'' (declaration_paise decl ''section_80ttb'' 0) +
     declaration_paise decl ''other_deductions'' 0"

definition old_section_24b :: "declarations \<Rightarrow> (string \<times> int option) list \<Rightarrow> int" where
  "old_section_24b decl limits =
     (let claimed = declaration_paise decl ''home_loan_interest_24b'' (declaration_paise decl ''section_24b'' 0)
      in case map_of limits ''24B'' of
           None \<Rightarrow> min claimed 20000000
         | Some None \<Rightarrow> claimed
         | Some (Some cap) \<Rightarrow> min claimed cap)"

text \<open>Tax on a taxable income: slabs, the 87A rebate with its marginal relief, surcharge, cess.\<close>

definition after_rebate_of :: "tax_rule \<Rightarrow> int \<Rightarrow> int \<Rightarrow> int \<times> int \<times> int" where
  "after_rebate_of rule taxable tax_before =
     (let limit = tr_rebate_87a_limit_paise rule;
          rebate = (if taxable \<le> limit then min tax_before (tr_rebate_87a_max_paise rule) else 0);
          after = max 0 (tax_before - rebate)
      in if limit < taxable \<and> 0 < limit \<and> taxable - limit < after
         then (rebate, after - (taxable - limit), taxable - limit)
         else (rebate, 0, after))"

definition surcharge_of :: "tax_rule \<Rightarrow> int \<Rightarrow> int \<Rightarrow> int" where
  "surcharge_of rule taxable after =
     round_paise (dmul (of_int after) (surcharge_rate taxable 0 (tr_surcharge_slabs rule)))"

definition cess_of :: "tax_rule \<Rightarrow> int \<Rightarrow> int" where
  "cess_of rule base = round_paise (dmul (of_int base) (percent_rate (tr_cess_rate rule)))"

definition tds_compute ::
  "tax_rule \<Rightarrow> raw_slab list \<Rightarrow> int \<Rightarrow> int \<Rightarrow> int \<Rightarrow> int \<Rightarrow> int \<Rightarrow> int \<Rightarrow> int \<Rightarrow> tds_breakup"
where
  "tds_compute rule default_slabs gross exemption hra sec_24b chapter_via professional deduction =
     (let standard = amount_paise (tr_standard_deduction_paise rule) True;
          taxable = max 0 (gross - standard - exemption - deduction);
          tax_before = slab_tax taxable 0 (normalise_slabs (tr_slabs rule) default_slabs);
          (rebate, relief, after) = after_rebate_of rule taxable tax_before;
          surcharge = surcharge_of rule taxable after;
          cess = cess_of rule (after + surcharge)
      in \<lparr> tb_standard = standard, tb_exemption = exemption + standard, tb_hra = hra,
           tb_sec_24b = sec_24b, tb_chapter_via = chapter_via, tb_professional = professional,
           tb_taxable = taxable, tb_tax_before = tax_before, tb_rebate = rebate,
           tb_marginal_relief = relief, tb_after_rebate = after, tb_surcharge = surcharge,
           tb_cess = cess, tb_annual = after + surcharge + cess \<rparr>)"

definition tds_breakup_of :: "tds_input \<Rightarrow> int \<Rightarrow> tds_breakup" where
  "tds_breakup_of i gross =
     (let rule = tds_rule i;
          decl = tds_declarations i;
          custom = (case ti_tax_rule i of None \<Rightarrow> no_override | Some ro \<Rightarrow> ro);
          limits = tds_limits rule
            (if ro_chapter_via_limits_paise (ti_kw i) \<noteq> [] then ro_chapter_via_limits_paise (ti_kw i)
             else ro_chapter_via_limits_paise custom)
            (ro_chapter_via_limits_inr custom);
          default_slabs = tr_slabs (default_tax_rule (ti_financial_year i) (tds_regime i))
      in if tds_regime i = ''OLD'' then
           let hra = old_hra_exemption i decl;
               exemption = hra + declaration_paise decl ''lta_claimed'' 0;
               sec_24b = old_section_24b decl limits;
               chapter_via = old_chapter_via decl limits;
               professional = min (declaration_paise decl ''professional_tax'' 0) 250000
           in tds_compute rule default_slabs gross exemption hra sec_24b chapter_via professional
                (chapter_via + sec_24b + professional)
         else
           tds_compute rule default_slabs gross 0 0 0 0 0 (declaration_paise decl ''section_80ccd2'' 0))"

record tds_result =
  td_tax_regime :: string
  td_annual_gross_paise :: int
  td_breakup :: tds_breakup
  td_base_annual_tax_paise :: int
  td_one_time_bonus_tax_paise :: int
  td_already_deducted_tds_paise :: int
  td_balance_tax_payable_paise :: int
  td_remaining_months :: int
  td_monthly_tds_paise :: int
  td_recurring_monthly_tds_paise :: int
  td_one_time_tds_paise :: int
  td_current_month_tds_paise :: int
  td_verified_source :: bool

definition tds_remaining :: "tds_input \<Rightarrow> int" where
  "tds_remaining i =
     (case ti_current_month i of
        Some m \<Rightarrow> max 1 (min 12 (12 - ((m - 4) mod 12)))
      | None \<Rightarrow> max 1 (min 12 (or_int (ti_remaining_months i) 12)))"

definition tds_already :: "tds_input \<Rightarrow> int" where
  "tds_already i =
     (let ytd0 = or_else (ti_kw_already_deducted_tds_paise i) (ti_ytd_tds_paise i);
          ytd = (case ti_kw_ytd_tds i of
                   Some v \<Rightarrow> if ytd0 = 0 then amount_paise (Some v) False else ytd0 | None \<Rightarrow> ytd0);
          previous = or_else (ti_kw_previous_tds_paise i) (ti_previous_employer_tds_paise i)
      in max 0 ytd + max 0 previous)"

definition tds_base_gross :: "tds_input \<Rightarrow> int" where
  "tds_base_gross i =
     max 0 (ti_annual_gross_paise i) +
     max 0 (case ti_kw_previous_employer_income i of
              Some v \<Rightarrow> if ti_previous_employer_income_paise i = 0 then amount_paise (Some v) False
                        else ti_previous_employer_income_paise i
            | None \<Rightarrow> ti_previous_employer_income_paise i)"

definition tds_one_time :: "tds_input \<Rightarrow> int" where
  "tds_one_time i =
     max 0 (or_else (ti_bonus_paise i) (ti_one_time_bonus_paise i)) + max 0 (ti_variable_pay_paise i)"

definition calculate_tds :: "tds_input \<Rightarrow> tds_result" where
  "calculate_tds i =
     (let base_gross = tds_base_gross i;
          one_time = tds_one_time i;
          total_gross = base_gross + one_time;
          result = tds_breakup_of i total_gross;
          base_result = (if one_time \<noteq> 0 then tds_breakup_of i base_gross else result);
          rem = tds_remaining i;
          already = tds_already i;
          balance = max 0 (tb_annual result - already);
          recurring = round_paise (ddiv (of_int (max 0 (tb_annual base_result - already))) (of_int rem));
          bonus_tax = max 0 (tb_annual result - tb_annual base_result);
          one_time_due = min balance bonus_tax
      in \<lparr> td_tax_regime = tds_regime i, td_annual_gross_paise = total_gross, td_breakup = result,
           td_base_annual_tax_paise = tb_annual base_result, td_one_time_bonus_tax_paise = bonus_tax,
           td_already_deducted_tds_paise = already, td_balance_tax_payable_paise = balance,
           td_remaining_months = rem,
           td_monthly_tds_paise = round_paise (ddiv (of_int balance) (of_int rem)),
           td_recurring_monthly_tds_paise = recurring, td_one_time_tds_paise = one_time_due,
           td_current_month_tds_paise = recurring + one_time_due, td_verified_source = tds_uses_verified i \<rparr>)"

section \<open>Slab tax is monotone\<close>

definition band_tax :: "int \<Rightarrow> int \<Rightarrow> rat \<Rightarrow> int" where
  "band_tax previous band_end rate =
     (if previous < band_end then round_paise (dmul (of_int (band_end - previous)) rate) else 0)"

lemma band_tax_nonneg [money_pos]: "0 \<le> r \<Longrightarrow> 0 \<le> band_tax p e r"
  by (auto simp: band_tax_def intro!: round_paise_nonneg dmul_nonneg)

lemma band_tax_mono: "0 \<le> r \<Longrightarrow> e \<le> e' \<Longrightarrow> band_tax p e r \<le> band_tax p e' r"
  by (auto simp: band_tax_def intro!: round_paise_mono dmul_mono round_paise_nonneg dmul_nonneg)

lemma slab_tax_Cons:
  "slab_tax t p (s # ss) =
     (case sl_up_to s of
        None \<Rightarrow> band_tax p t (sl_rate s)
      | Some u \<Rightarrow> if t \<le> u then band_tax p t (sl_rate s)
                  else band_tax p u (sl_rate s) + slab_tax t u ss)"
  by (simp add: band_tax_def Let_def min_def split: option.splits)

declare slab_tax.simps(2) [simp del]

definition rates_ok :: "slab list \<Rightarrow> bool" where
  "rates_ok ss \<longleftrightarrow> (\<forall>s \<in> set ss. 0 \<le> sl_rate s)"

lemma rates_ok_Cons [simp]: "rates_ok (s # ss) \<longleftrightarrow> 0 \<le> sl_rate s \<and> rates_ok ss"
  by (simp add: rates_ok_def)

lemma slab_tax_nonneg [money_pos]: "rates_ok ss \<Longrightarrow> 0 \<le> slab_tax t p ss"
  by (induction ss arbitrary: p) (auto simp: slab_tax_Cons band_tax_nonneg split: option.splits)

lemma slab_tax_mono: "rates_ok ss \<Longrightarrow> t \<le> t' \<Longrightarrow> slab_tax t p ss \<le> slab_tax t' p ss"
proof (induction ss arbitrary: p)
  case (Cons s ss)
  show ?case
  proof (cases "sl_up_to s")
    case None
    then show ?thesis using Cons.prems by (simp add: slab_tax_Cons band_tax_mono)
  next
    case (Some u)
    have rest: "0 \<le> slab_tax t' u ss" "slab_tax t u ss \<le> slab_tax t' u ss"
      using Cons by (auto simp: slab_tax_nonneg)
    have up: "band_tax p t (sl_rate s) \<le> band_tax p u (sl_rate s) + slab_tax t' u ss" if "t \<le> u"
      using band_tax_mono [of "sl_rate s" t u p] that Cons.prems rest by simp
    show ?thesis
    proof (cases "t \<le> u")
      case True
      then show ?thesis using Some up Cons.prems by (simp add: slab_tax_Cons band_tax_mono)
    next
      case False
      then show ?thesis using Some rest Cons.prems by (simp add: slab_tax_Cons)
    qed
  qed
qed simp

lemma rates_ok_normalise: "rates_ok (normalise_slabs raw d)"
  by (auto simp: rates_ok_def normalise_slabs_def Let_def normalise_slab_def)

section \<open>Annual tax as a function of taxable income\<close>

definition annual_tax :: "tax_rule \<Rightarrow> slab list \<Rightarrow> int \<Rightarrow> int" where
  "annual_tax rule slabs taxable =
     (let after = snd (snd (after_rebate_of rule taxable (slab_tax taxable 0 slabs)));
          surcharge = surcharge_of rule taxable after
      in after + surcharge + cess_of rule (after + surcharge))"

lemma tds_compute_annual:
  "tb_annual (tds_compute rule d gross ex hra s24 via prof ded) =
     annual_tax rule (normalise_slabs (tr_slabs rule) d)
       (tb_taxable (tds_compute rule d gross ex hra s24 via prof ded))"
  by (simp add: tds_compute_def annual_tax_def Let_def split: prod.splits)

lemma tds_compute_taxable:
  "tb_taxable (tds_compute rule d gross ex hra s24 via prof ded) =
     max 0 (gross - amount_paise (tr_standard_deduction_paise rule) True - ex - ded)"
  by (simp add: tds_compute_def Let_def split: prod.splits)

text \<open>
  A rule is progressive when the rebate cancels all tax up to its limit and neither the surcharge
  nor the cess rate falls as income grows.
\<close>

definition progressive :: "tax_rule \<Rightarrow> slab list \<Rightarrow> bool" where
  "progressive rule slabs \<longleftrightarrow>
     rates_ok slabs \<and> 0 < tr_rebate_87a_limit_paise rule \<and>
     slab_tax (tr_rebate_87a_limit_paise rule) 0 slabs \<le> tr_rebate_87a_max_paise rule \<and>
     0 \<le> percent_rate (tr_cess_rate rule) \<and>
     (\<forall>t. 0 \<le> surcharge_rate t 0 (tr_surcharge_slabs rule)) \<and>
     (\<forall>t t'. t \<le> t' \<longrightarrow>
        surcharge_rate t 0 (tr_surcharge_slabs rule) \<le> surcharge_rate t' 0 (tr_surcharge_slabs rule))"

lemma after_rebate_progressive:
  assumes "progressive rule slabs"
  shows "snd (snd (after_rebate_of rule t (slab_tax t 0 slabs))) =
    (if t \<le> tr_rebate_87a_limit_paise rule then 0
     else min (slab_tax t 0 slabs) (t - tr_rebate_87a_limit_paise rule))"
proof (cases "t \<le> tr_rebate_87a_limit_paise rule")
  case True
  then have "slab_tax t 0 slabs \<le> tr_rebate_87a_max_paise rule"
    using assms slab_tax_mono [of slabs t "tr_rebate_87a_limit_paise rule" 0]
    by (simp add: progressive_def)
  then show ?thesis using True by (simp add: after_rebate_of_def Let_def)
next
  case False
  have "0 \<le> slab_tax t 0 slabs" using assms by (simp add: progressive_def slab_tax_nonneg)
  then show ?thesis using False assms by (auto simp: after_rebate_of_def Let_def progressive_def)
qed

lemma after_rebate_nonneg:
  assumes "progressive rule slabs"
  shows "0 \<le> snd (snd (after_rebate_of rule t (slab_tax t 0 slabs)))"
  using assms unfolding after_rebate_progressive [OF assms]
  by (auto simp: progressive_def slab_tax_nonneg)

lemma after_rebate_mono:
  assumes "progressive rule slabs" "t \<le> t'"
  shows "snd (snd (after_rebate_of rule t (slab_tax t 0 slabs))) \<le>
         snd (snd (after_rebate_of rule t' (slab_tax t' 0 slabs)))"
proof -
  have "slab_tax t 0 slabs \<le> slab_tax t' 0 slabs" "0 \<le> slab_tax t' 0 slabs"
    using assms by (auto simp: progressive_def slab_tax_mono slab_tax_nonneg)
  then show ?thesis using assms(2) unfolding after_rebate_progressive [OF assms(1)] by auto
qed

lemma annual_tax_mono:
  assumes "progressive rule slabs" "t \<le> t'"
  shows "annual_tax rule slabs t \<le> annual_tax rule slabs t'"
proof -
  define a a' where "a = snd (snd (after_rebate_of rule t (slab_tax t 0 slabs)))"
    and "a' = snd (snd (after_rebate_of rule t' (slab_tax t' 0 slabs)))"
  have a: "0 \<le> a" "a \<le> a'" unfolding a_def a'_def
    by (rule after_rebate_nonneg [OF assms(1)], rule after_rebate_mono [OF assms])
  define s s' where "s = surcharge_of rule t a" and "s' = surcharge_of rule t' a'"
  have s: "0 \<le> s" "s \<le> s'" unfolding s_def s'_def surcharge_of_def using a assms
    by (auto simp: progressive_def intro!: round_paise_mono dmul_mono round_paise_nonneg dmul_nonneg)
  have "cess_of rule (a + s) \<le> cess_of rule (a' + s')" unfolding cess_of_def using a s assms(1)
    by (intro round_paise_mono dmul_mono) (auto simp: progressive_def)
  then show ?thesis using a s
    by (simp add: annual_tax_def Let_def a_def [symmetric] a'_def [symmetric] s_def [symmetric] s'_def [symmetric])
qed

lemma annual_tax_nonneg:
  assumes "progressive rule slabs"
  shows "0 \<le> annual_tax rule slabs t"
proof -
  define a where "a = snd (snd (after_rebate_of rule t (slab_tax t 0 slabs)))"
  have a: "0 \<le> a" unfolding a_def by (rule after_rebate_nonneg [OF assms])
  have s: "0 \<le> surcharge_of rule t a" unfolding surcharge_of_def using a assms
    by (intro round_paise_nonneg dmul_nonneg) (auto simp: progressive_def)
  then have "0 \<le> cess_of rule (a + surcharge_of rule t a)" unfolding cess_of_def using a assms
    by (intro round_paise_nonneg dmul_nonneg) (auto simp: progressive_def)
  then show ?thesis using a s by (simp add: annual_tax_def Let_def a_def [symmetric])
qed

lemma annual_tax_rebated:
  assumes "progressive rule slabs" "t \<le> tr_rebate_87a_limit_paise rule"
  shows "annual_tax rule slabs t = 0"
  using assms(2) by (simp add: annual_tax_def Let_def after_rebate_progressive [OF assms(1)]
      surcharge_of_def cess_of_def)

section \<open>The default rules are progressive\<close>

definition default_slabs :: "string \<Rightarrow> string \<Rightarrow> slab list" where
  "default_slabs fy regime =
     normalise_slabs (tr_slabs (default_tax_rule fy regime)) (tr_slabs (default_tax_rule fy regime))"

lemma surcharge_default_ok:
  "0 \<le> surcharge_rate t 0 (tr_surcharge_slabs (default_tax_rule fy regime))"
  "t \<le> t' \<Longrightarrow> surcharge_rate t 0 (tr_surcharge_slabs (default_tax_rule fy regime)) \<le>
                surcharge_rate t' 0 (tr_surcharge_slabs (default_tax_rule fy regime))"
proof -
  have "amount_paise (Some n) True = round_paise n" for n by (simp add: amount_paise_def)
  moreover have "round_paise 500000000 = 500000000" "round_paise 1000000000 = 1000000000"
    "round_paise 2000000000 = 2000000000" "round_paise 5000000000 = 5000000000"
    by (simp_all add: round_paise_def)
  ultimately show "0 \<le> surcharge_rate t 0 (tr_surcharge_slabs (default_tax_rule fy regime))"
    "t \<le> t' \<Longrightarrow> surcharge_rate t 0 (tr_surcharge_slabs (default_tax_rule fy regime)) \<le>
                surcharge_rate t' 0 (tr_surcharge_slabs (default_tax_rule fy regime))"
    by (auto simp: default_tax_rule_def old_regime_rule_def new_regime_rule_def surcharge_above_def
          percent_rate_def Let_def)
qed

lemma default_slab_tax_at_limit:
  "slab_tax 50000000 0 (normalise_slabs (tr_slabs old_regime_rule) (tr_slabs old_regime_rule)) \<le> 1250000"
  "slab_tax 120000000 0 (normalise_slabs (new_regime_slabs 2025) (new_regime_slabs 2025)) \<le> 6000000"
  "slab_tax 70000000 0 (normalise_slabs (new_regime_slabs 2024) (new_regime_slabs 2024)) \<le> 2500000"
  by code_simp+

lemma new_regime_slabs_cases:
  "new_regime_slabs y = new_regime_slabs (if 2025 \<le> y then 2025 else 2024)"
  by (simp add: new_regime_slabs_def)

lemma default_progressive:
  "progressive (default_tax_rule fy regime) (default_slabs fy regime)"
proof -
  have cess: "0 \<le> percent_rate (tr_cess_rate (default_tax_rule fy regime))"
    by (simp add: default_tax_rule_def old_regime_rule_def new_regime_rule_def percent_rate_def)
  have limit: "0 < tr_rebate_87a_limit_paise (default_tax_rule fy regime)"
    by (simp add: default_tax_rule_def old_regime_rule_def new_regime_rule_def)
  have top: "slab_tax (tr_rebate_87a_limit_paise (default_tax_rule fy regime)) 0 (default_slabs fy regime)
      \<le> tr_rebate_87a_max_paise (default_tax_rule fy regime)"
  proof (cases "regime = ''OLD''")
    case True
    then show ?thesis using default_slab_tax_at_limit(1)
      by (simp add: default_slabs_def default_tax_rule_def) (simp add: old_regime_rule_def)
  next
    case False
    then show ?thesis
      using default_slab_tax_at_limit(2,3) new_regime_slabs_cases [of "fy_start_year fy"]
      by (simp add: default_slabs_def default_tax_rule_def new_regime_rule_def)
  qed
  show ?thesis unfolding progressive_def
    using cess limit top surcharge_default_ok rates_ok_normalise by (auto simp: default_slabs_def)
qed

section \<open>Inputs without rule overrides\<close>

definition default_rules :: "tds_input \<Rightarrow> bool" where
  "default_rules i \<longleftrightarrow> ti_tax_rule i = None \<and> ti_kw i = no_override"

lemma tds_rule_default:
  "default_rules i \<Longrightarrow> tds_rule i = default_tax_rule (ti_financial_year i) (tds_regime i)"
  by (simp add: default_rules_def tds_rule_def tax_rule_dict_def apply_standard_rupees_def
      apply_paise_fields_def no_override_def)

lemma tds_breakup_taxable:
  "\<exists>c. \<forall>gross. tb_taxable (tds_breakup_of i gross) = max 0 (gross - c)"
proof (cases "tds_regime i = ''OLD''")
  case True
  then show ?thesis
    by (simp add: tds_breakup_of_def Let_def tds_compute_taxable diff_diff_eq) blast
next
  case False
  then show ?thesis
    by (simp add: tds_breakup_of_def Let_def tds_compute_taxable diff_diff_eq) blast
qed

lemma tds_breakup_annual:
  assumes "default_rules i"
  shows "tb_annual (tds_breakup_of i gross) =
    annual_tax (default_tax_rule (ti_financial_year i) (tds_regime i))
      (default_slabs (ti_financial_year i) (tds_regime i)) (tb_taxable (tds_breakup_of i gross))"
  by (simp add: tds_breakup_of_def Let_def tds_compute_annual tds_rule_default [OF assms] default_slabs_def)

lemma tds_breakup_mono:
  assumes "default_rules i" "g \<le> g'"
  shows "tb_annual (tds_breakup_of i g) \<le> tb_annual (tds_breakup_of i g')"
proof -
  obtain c where c: "\<forall>gross. tb_taxable (tds_breakup_of i gross) = max 0 (gross - c)"
    using tds_breakup_taxable by blast
  show ?thesis unfolding tds_breakup_annual [OF assms(1)] c [rule_format]
    using assms(2) by (intro annual_tax_mono default_progressive) auto
qed

lemma tds_breakup_nonneg: "default_rules i \<Longrightarrow> 0 \<le> tb_annual (tds_breakup_of i g)"
  by (simp add: tds_breakup_annual annual_tax_nonneg default_progressive)

lemma tds_remaining_bounds: "1 \<le> tds_remaining i" "tds_remaining i \<le> 12"
  by (auto simp: tds_remaining_def split: option.splits)

lemma instalment_bounds:
  assumes "0 \<le> n" "n < 10 ^ 28" "1 \<le> (k::int)"
  shows "0 \<le> round_paise (ddiv (of_int n) (of_int k))" "round_paise (ddiv (of_int n) (of_int k)) \<le> n"
proof -
  have k: "(1::rat) \<le> of_int k" using assms(3) by simp
  show "0 \<le> round_paise (ddiv (of_int n) (of_int k))"
    using assms(1) k by (intro round_paise_nonneg ddiv_nonneg) auto
  have "rat_of_int n / of_int k \<le> of_int n / 1"
    using assms(1) k by (intro divide_left_mono) auto
  then have "ddiv (of_int n) (of_int k) \<le> of_int n"
    unfolding ddiv_def using assms(1,2) by (intro dec_ctx_le dec_rep_of_int) auto
  then show "round_paise (ddiv (of_int n) (of_int k)) \<le> n" by (rule round_paise_le)
qed

lemma tds_gross_update [frame]:
  "tds_regime (i\<lparr>ti_annual_gross_paise := g\<rparr>) = tds_regime i"
  "tds_uses_verified (i\<lparr>ti_annual_gross_paise := g\<rparr>) = tds_uses_verified i"
  "tds_one_time (i\<lparr>ti_annual_gross_paise := g\<rparr>) = tds_one_time i"
  "old_hra_exemption (i\<lparr>ti_annual_gross_paise := g\<rparr>) d = old_hra_exemption i d"
  by (simp_all add: tds_regime_def tds_uses_verified_def tds_one_time_def old_hra_exemption_def
      split: option.splits)

lemma tds_gross_update2 [frame]:
  "tds_rule (i\<lparr>ti_annual_gross_paise := g\<rparr>) = tds_rule i"
  "tds_declarations (i\<lparr>ti_annual_gross_paise := g\<rparr>) = tds_declarations i"
  by (simp_all add: tds_rule_def tds_declarations_def frame)

lemma tds_breakup_of_gross [simp]:
  "tds_breakup_of (i\<lparr>ti_annual_gross_paise := g\<rparr>) = tds_breakup_of i"
proof -
  have "ti_tax_rule (i\<lparr>ti_annual_gross_paise := g\<rparr>) = ti_tax_rule i"
    "ti_kw (i\<lparr>ti_annual_gross_paise := g\<rparr>) = ti_kw i"
    "ti_financial_year (i\<lparr>ti_annual_gross_paise := g\<rparr>) = ti_financial_year i" by simp_all
  then show ?thesis by (intro ext) (simp only: tds_breakup_of_def tds_gross_update tds_gross_update2)
qed

section \<open>Properties\<close>

text \<open>
  C33: under the default tax rules of either regime and any financial year, a higher annual gross
  never means a lower annual tax, and the tax is never negative. The rebate limit and the
  surcharge thresholds cause no inversion.
\<close>

theorem tds_annual_tax_monotone:
  assumes "default_rules i" "ti_annual_gross_paise i \<le> g"
  shows "0 \<le> tb_annual (td_breakup (calculate_tds i)) \<and>
         tb_annual (td_breakup (calculate_tds i)) \<le>
           tb_annual (td_breakup (calculate_tds (i\<lparr>ti_annual_gross_paise := g\<rparr>)))"
proof -
  have "tds_base_gross i + tds_one_time i \<le>
      tds_base_gross (i\<lparr>ti_annual_gross_paise := g\<rparr>) + tds_one_time (i\<lparr>ti_annual_gross_paise := g\<rparr>)"
    using assms(2) by (auto simp: tds_base_gross_def frame split: option.splits)
  then show ?thesis
    using tds_breakup_mono [OF assms(1)] tds_breakup_nonneg [OF assms(1)]
    by (simp add: calculate_tds_def Let_def)
qed

definition sample_tds :: tds_input where
  "sample_tds =
     \<lparr> ti_annual_gross_paise = 127500000, ti_tax_regime = Some ''new'', ti_declarations = [],
       ti_remaining_months = 12, ti_financial_year = ''2025-2026'', ti_tax_rule = None,
       ti_verified_declarations = None, ti_proof_cutoff_passed = False,
       ti_use_verified_declarations = Some False, ti_ytd_tds_paise = 0, ti_previous_employer_tds_paise = 0,
       ti_previous_employer_income_paise = 0, ti_current_month = Some 4, ti_one_time_bonus_paise = 0,
       ti_variable_pay_paise = 0, ti_bonus_paise = None, ti_basic_annual_paise = 0,
       ti_hra_annual_paise = 0, ti_rent_paid_annual_paise = 0, ti_metro = False, ti_kw = no_override,
       ti_kw_already_deducted_tds_paise = None, ti_kw_previous_tds_paise = None,
       ti_kw_previous_employer_income = None, ti_kw_ytd_tds = None \<rparr>"

theorem tds_annual_tax_monotone_witness:
  "tb_annual (td_breakup (calculate_tds sample_tds)) \<le>
     tb_annual (td_breakup (calculate_tds (sample_tds\<lparr>ti_annual_gross_paise := 130000000\<rparr>)))"
proof -
  have "default_rules sample_tds" "ti_annual_gross_paise sample_tds \<le> 130000000"
    by (simp_all add: default_rules_def sample_tds_def)
  from tds_annual_tax_monotone [OF this] show ?thesis by blast
qed

text \<open>
  The section 87A rebate and its marginal relief. Under the default new-regime rules of a
  financial year from 2025 on, an income of at most 12,75,000 rupees carries no tax and no TDS,
  and just above the 12,00,000 rupee limit the tax before surcharge and cess is at most the income
  in excess of that limit.
\<close>

theorem tds_rebate_87a:
  assumes "default_rules i" "tds_regime i = ''NEW''" "2025 \<le> fy_start_year (ti_financial_year i)"
  shows "(tds_base_gross i + tds_one_time i \<le> 127500000 \<and>
            0 \<le> declaration_paise (tds_declarations i) ''section_80ccd2'' 0
          \<longrightarrow> tb_annual (td_breakup (calculate_tds i)) = 0 \<and> td_monthly_tds_paise (calculate_tds i) = 0) \<and>
         tb_after_rebate (td_breakup (calculate_tds i)) \<le>
           max 0 (tb_taxable (td_breakup (calculate_tds i)) - 120000000)"
proof -
  define total_gross where "total_gross = tds_base_gross i + tds_one_time i"
  define rule where "rule = default_tax_rule (ti_financial_year i) ''NEW''"
  define b where "b = tds_breakup_of i total_gross"
  have bre: "td_breakup (calculate_tds i) = b"
    by (simp add: calculate_tds_def Let_def b_def total_gross_def)
  have rule: "tds_rule i = rule" using assms(1,2) by (simp add: tds_rule_default rule_def)
  have limit: "tr_rebate_87a_limit_paise rule = 120000000"
    and standard: "amount_paise (tr_standard_deduction_paise rule) True = 7500000"
    using assms(3) by (simp_all add: rule_def default_tax_rule_def new_regime_rule_def amount_paise_def
        round_paise_def)
  define nps where "nps = declaration_paise (tds_declarations i) ''section_80ccd2'' 0"
  have b: "b = tds_compute rule (tr_slabs rule) total_gross 0 0 0 0 0 nps"
    using assms(2) by (simp add: b_def tds_breakup_of_def Let_def rule nps_def rule_def)
  have prog: "progressive rule (normalise_slabs (tr_slabs rule) (tr_slabs rule))"
    using default_progressive [of "ti_financial_year i" "''NEW''"] by (simp add: rule_def default_slabs_def)
  have taxable: "tb_taxable b = max 0 (total_gross - 7500000 - nps)"
    by (simp add: b tds_compute_taxable standard)
  have after: "tb_after_rebate b = snd (snd (after_rebate_of rule (tb_taxable b)
      (slab_tax (tb_taxable b) 0 (normalise_slabs (tr_slabs rule) (tr_slabs rule)))))"
    by (simp add: b tds_compute_def Let_def split: prod.splits)
  have "tb_after_rebate b \<le> max 0 (tb_taxable b - 120000000)"
    unfolding after after_rebate_progressive [OF prog] limit by auto
  moreover have "tb_annual b = 0" if "total_gross \<le> 127500000" "0 \<le> nps"
    unfolding b tds_compute_annual [of rule]
    using that by (intro annual_tax_rebated [OF prog])
      (simp add: tds_compute_taxable standard limit)
  moreover have "td_monthly_tds_paise (calculate_tds i) = 0" if "tb_annual b = 0"
  proof -
    have "tds_already i \<ge> 0" by (simp add: tds_already_def Let_def)
    then show ?thesis
      using that by (simp add: calculate_tds_def Let_def b_def total_gross_def)
  qed
  ultimately show ?thesis unfolding bre total_gross_def nps_def by blast
qed

theorem tds_rebate_87a_witness:
  "tb_annual (td_breakup (calculate_tds sample_tds)) = 0 \<and> td_monthly_tds_paise (calculate_tds sample_tds) = 0"
proof -
  have "default_rules sample_tds" by (simp add: default_rules_def sample_tds_def)
  moreover have "tds_regime sample_tds = ''NEW''" by code_simp
  moreover have "2025 \<le> fy_start_year (ti_financial_year sample_tds)" by code_simp
  moreover have "tds_base_gross sample_tds + tds_one_time sample_tds \<le> 127500000"
    "0 \<le> declaration_paise (tds_declarations sample_tds) ''section_80ccd2'' 0" by code_simp+
  ultimately show ?thesis using tds_rebate_87a [of sample_tds] by blast
qed

text \<open>
  Withholding stays within what is owed. Under the default rules the deduction of a month,
  recurring instalment plus the tax on one-time pay, is nonnegative and never exceeds the balance
  of the year's tax after what was already deducted; the divisor is a month count from 1 to 12.
\<close>

theorem tds_within_balance:
  assumes "default_rules i" "tb_annual (td_breakup (calculate_tds i)) < 10 ^ 28"
  shows "0 \<le> td_current_month_tds_paise (calculate_tds i) \<and>
         td_current_month_tds_paise (calculate_tds i) \<le> td_balance_tax_payable_paise (calculate_tds i) \<and>
         td_balance_tax_payable_paise (calculate_tds i) =
           max 0 (tb_annual (td_breakup (calculate_tds i)) - td_already_deducted_tds_paise (calculate_tds i)) \<and>
         1 \<le> td_remaining_months (calculate_tds i) \<and> td_remaining_months (calculate_tds i) \<le> 12"
proof -
  define annual where "annual = tb_annual (tds_breakup_of i (tds_base_gross i + tds_one_time i))"
  define base where
    "base = (if tds_one_time i \<noteq> 0 then tb_annual (tds_breakup_of i (tds_base_gross i)) else annual)"
  define already where "already = tds_already i"
  define r where "r = round_paise (ddiv (of_int (max 0 (base - already))) (of_int (tds_remaining i)))"
  have al: "0 \<le> already" by (simp add: already_def tds_already_def Let_def)
  have "0 \<le> tds_one_time i" by (simp add: tds_one_time_def)
  then have ba: "base \<le> annual" unfolding base_def annual_def
    using tds_breakup_mono [OF assms(1)] by simp
  have "annual < 10 ^ 28" using assms(2) by (simp add: calculate_tds_def Let_def annual_def)
  then have big: "max 0 (base - already) < 10 ^ 28" using ba al by simp
  have r: "0 \<le> r" "r \<le> max 0 (base - already)"
    unfolding r_def using big by (intro instalment_bounds tds_remaining_bounds; simp)+
  have bal: "td_balance_tax_payable_paise (calculate_tds i) = max 0 (annual - already)"
    by (simp add: calculate_tds_def Let_def annual_def already_def)
  have "td_one_time_bonus_tax_paise (calculate_tds i) = max 0 (annual - base)"
    by (simp add: calculate_tds_def Let_def annual_def base_def if_distrib [of tb_annual])
  have cur: "td_current_month_tds_paise (calculate_tds i) = r + min (max 0 (annual - already)) (max 0 (annual - base))"
    unfolding r_def base_def annual_def already_def
    by (simp add: calculate_tds_def Let_def if_distrib [of tb_annual])
  have "td_breakup (calculate_tds i) = tds_breakup_of i (tds_base_gross i + tds_one_time i)"
    "td_already_deducted_tds_paise (calculate_tds i) = already"
    "td_remaining_months (calculate_tds i) = tds_remaining i"
    by (simp_all add: calculate_tds_def Let_def already_def)
  then show ?thesis
    using r ba tds_remaining_bounds unfolding cur bal by (auto simp: annual_def [symmetric])
qed

theorem tds_within_balance_witness:
  "td_current_month_tds_paise (calculate_tds (sample_tds\<lparr>ti_annual_gross_paise := 200000000\<rparr>)) \<le>
     td_balance_tax_payable_paise (calculate_tds (sample_tds\<lparr>ti_annual_gross_paise := 200000000\<rparr>))"
proof -
  have "default_rules (sample_tds\<lparr>ti_annual_gross_paise := 200000000\<rparr>)"
    by (simp add: default_rules_def sample_tds_def)
  moreover have
    "tb_annual (td_breakup (calculate_tds (sample_tds\<lparr>ti_annual_gross_paise := 200000000\<rparr>))) < 10 ^ 28"
    by code_simp
  ultimately show ?thesis using tds_within_balance by blast
qed

end
