(* ===== verification/State_Rules.thy ===== *)
theory State_Rules
  imports Money Py_Strings Dates
begin

text \<open>
  Professional tax and labour welfare fund by state: \<open>_state_code\<close>,
  \<open>DEFAULT_STATE_RULES\<close>, \<open>calculate_pt\<close> and \<open>calculate_lwf\<close> of
  \<open>app/services/payroll/statutory_service.py\<close>, and the selection of the effective
  \<open>StateStatutoryRule\<close> row. A slab's keys, each under the aliases the code tries, are the
  optional fields of a \<open>pt_slab\<close>; the keys of \<open>monthly_amounts\<close> are month numbers.
\<close>

section \<open>Slabs and rules\<close>

record pt_slab =
  ps_gender :: "string option"
  ps_months :: "int list option"
  ps_month :: "int option"
  ps_min_gross_paise :: "rat option"
  ps_min_gross_rupees :: rat
  ps_max_gross_paise :: "rat option option"
  ps_max_gross_rupees :: "rat option"
  ps_monthly_amounts :: "(int \<times> rat option) list"
  ps_february_amount_paise :: "rat option"
  ps_amount_paise :: "rat option option"
  ps_amount_rupees :: rat

record default_rule =
  dr_state_name :: string
  dr_pt_slabs :: "pt_slab list"
  dr_lwf_employee_paise :: rat
  dr_lwf_employer_paise :: rat
  dr_lwf_frequency :: string
  dr_lwf_applicable_months :: "int list"
  dr_lwf_employee_rate :: "rat option"
  dr_lwf_employee_cap_paise :: "rat option"
  dr_lwf_employer_cap_paise :: "rat option"

text \<open>A rule row: \<open>StateStatutoryRule\<close>, or a dictionary with some of its keys.\<close>

record state_rule =
  sr_id :: "string option"
  sr_company_id :: "uuid option"
  sr_state_code :: string
  sr_effective_from :: date
  sr_effective_to :: "date option"
  sr_is_active :: bool
  sr_pt_slabs :: "pt_slab list option"
  sr_lwf_employee_paise :: "rat option"
  sr_lwf_employer_paise :: "rat option"
  sr_lwf_frequency :: "string option"
  sr_lwf_applicable_months :: "int list option"
  sr_lwf_employee_rate :: "rat option"
  sr_lwf_employee_cap_paise :: "rat option"
  sr_lwf_employer_cap_paise :: "rat option"
  sr_needs_ca_validation :: bool

definition pt_slab_of :: "rat \<Rightarrow> rat option \<Rightarrow> rat \<Rightarrow> string option \<Rightarrow> (int \<times> rat) list \<Rightarrow> pt_slab" where
  "pt_slab_of lo hi amount gender monthly =
     \<lparr> ps_gender = gender, ps_months = None, ps_month = None, ps_min_gross_paise = Some lo,
       ps_min_gross_rupees = 0, ps_max_gross_paise = Some hi, ps_max_gross_rupees = None,
       ps_monthly_amounts = map (\<lambda>(m, a). (m, Some a)) monthly, ps_february_amount_paise = None,
       ps_amount_paise = Some (Some amount), ps_amount_rupees = 0 \<rparr>"

definition default_rule_of ::
  "string \<Rightarrow> pt_slab list \<Rightarrow> rat \<Rightarrow> rat \<Rightarrow> string \<Rightarrow> int list \<Rightarrow> rat option \<Rightarrow> rat option \<Rightarrow> rat option
    \<Rightarrow> default_rule"
where
  "default_rule_of name slabs employee employer frequency months rate cap employer_cap =
     \<lparr> dr_state_name = name, dr_pt_slabs = slabs, dr_lwf_employee_paise = employee,
       dr_lwf_employer_paise = employer, dr_lwf_frequency = frequency,
       dr_lwf_applicable_months = months, dr_lwf_employee_rate = rate,
       dr_lwf_employee_cap_paise = cap, dr_lwf_employer_cap_paise = employer_cap \<rparr>"

definition STATE_ALIASES :: "(string \<times> string) list" where
  "STATE_ALIASES = [
     (''MAHARASHTRA'', ''MH''), (''MH'', ''MH''), (''KARNATAKA'', ''KA''), (''KA'', ''KA''),
     (''TAMIL NADU'', ''TN''), (''TAMILNADU'', ''TN''), (''TN'', ''TN''), (''TELANGANA'', ''TS''),
     (''TS'', ''TS''), (''TG'', ''TS''), (''DELHI'', ''DL''), (''DL'', ''DL''),
     (''HARYANA'', ''HR''), (''HR'', ''HR''), (''UTTAR PRADESH'', ''UP''), (''UP'', ''UP''),
     (''WEST BENGAL'', ''WB''), (''WB'', ''WB''), (''GUJARAT'', ''GJ''), (''GJ'', ''GJ''),
     (''RAJASTHAN'', ''RJ''), (''RJ'', ''RJ''), (''MADHYA PRADESH'', ''MP''), (''MP'', ''MP''),
     (''ANDHRA PRADESH'', ''AP''), (''AP'', ''AP''), (''MUMBAI'', ''MH''), (''PUNE'', ''MH''),
     (''NAGPUR'', ''MH''), (''BENGALURU'', ''KA''), (''BANGALORE'', ''KA''), (''CHENNAI'', ''TN''),
     (''HYDERABAD'', ''TS''), (''NEW DELHI'', ''DL''), (''GURUGRAM'', ''HR''),
     (''GURGAON'', ''HR''), (''FARIDABAD'', ''HR''), (''NOIDA'', ''UP''), (''LUCKNOW'', ''UP''),
     (''KOLKATA'', ''WB''), (''AHMEDABAD'', ''GJ''), (''SURAT'', ''GJ''), (''JAIPUR'', ''RJ''),
     (''INDORE'', ''MP''), (''BHOPAL'', ''MP'')]"

definition DEFAULT_STATE_RULES :: "(string \<times> default_rule) list" where
  "DEFAULT_STATE_RULES =
    [(''MH'', default_rule_of ''Maharashtra''
      [pt_slab_of 0 (Some 750000) 0 (Some ''MALE'') [],
       pt_slab_of 750001 (Some 1000000) 17500 (Some ''MALE'') [],
       pt_slab_of 0 (Some 1000000) 0 (Some ''FEMALE'') [],
       pt_slab_of 1000001 (None) 20000 (None) [(2, 30000)]]
      1200 3600 ''SEMI_ANNUAL'' [6, 12] (None) (None) (None)),
     (''KA'', default_rule_of ''Karnataka''
      [pt_slab_of 0 (Some 1499999) 0 (None) [],
       pt_slab_of 1500000 (None) 20000 (None) []]
      2000 4000 ''ANNUAL'' [12] (None) (None) (None)),
     (''TN'', default_rule_of ''Tamil Nadu''
      [pt_slab_of 0 (Some 2100000) 0 (None) [],
       pt_slab_of 2100001 (Some 3000000) 10000 (None) [],
       pt_slab_of 3000001 (Some 4500000) 23500 (None) [],
       pt_slab_of 4500001 (Some 6000000) 51000 (None) [],
       pt_slab_of 6000001 (Some 7500000) 76000 (None) [],
       pt_slab_of 7500001 (None) 102500 (None) []]
      0 0 ''ANNUAL'' [12] (None) (None) (None)),
     (''TS'', default_rule_of ''Telangana''
      [pt_slab_of 0 (Some 1500000) 0 (None) [],
       pt_slab_of 1500001 (Some 2000000) 15000 (None) [],
       pt_slab_of 2000001 (None) 20000 (None) []]
      0 0 ''ANNUAL'' [12] (None) (None) (None)),
     (''DL'', default_rule_of ''Delhi''
      []
      100 300 ''SEMI_ANNUAL'' [6, 12] (None) (None) (None)),
     (''HR'', default_rule_of ''Haryana''
      []
      2500 5000 ''MONTHLY'' [1, 2, 3, 4, 5, 6, 7, 8, 9, 10, 11, 12] (Some (2 / 1000)) (Some 2500) (Some 5000)),
     (''UP'', default_rule_of ''Uttar Pradesh''
      []
      0 0 ''MONTHLY'' [] (None) (None) (None)),
     (''WB'', default_rule_of ''West Bengal''
      [pt_slab_of 0 (Some 1000000) 0 (None) [],
       pt_slab_of 1000001 (Some 1500000) 11000 (None) [],
       pt_slab_of 1500001 (Some 2500000) 13000 (None) [],
       pt_slab_of 2500001 (Some 4000000) 15000 (None) [],
       pt_slab_of 4000001 (None) 20000 (None) []]
      0 0 ''SEMI_ANNUAL'' [6, 12] (None) (None) (None)),
     (''GJ'', default_rule_of ''Gujarat''
      [pt_slab_of 0 (Some 1200000) 0 (None) [],
       pt_slab_of 1200001 (None) 20000 (None) []]
      600 1200 ''SEMI_ANNUAL'' [6, 12] (None) (None) (None)),
     (''RJ'', default_rule_of ''Rajasthan''
      []
      0 0 ''MONTHLY'' [] (None) (None) (None)),
     (''MP'', default_rule_of ''Madhya Pradesh''
      [pt_slab_of 0 (Some 1875000) 0 (None) [],
       pt_slab_of 1875001 (Some 2500000) 12500 (None) [],
       pt_slab_of 2500001 (Some 3333300) 16700 (None) [],
       pt_slab_of 3333301 (None) 20800 (None) [(3, 21200)]]
      0 0 ''SEMI_ANNUAL'' [6, 12] (None) (None) (None))]"

section \<open>State codes\<close>

text \<open>\<open>re.sub(r"\s+", " ", s)\<close>\<close>

fun collapse_spaces :: "string \<Rightarrow> string" where
  "collapse_spaces [] = []"
| "collapse_spaces [c] = [if is_space c then CHR '' '' else c]"
| "collapse_spaces (c # d # s) =
     (if is_space c then if is_space d then collapse_spaces (d # s) else CHR '' '' # collapse_spaces (d # s)
      else c # collapse_spaces (d # s))"

definition is_word :: "char \<Rightarrow> bool" where
  "is_word c \<longleftrightarrow> is_alpha c \<or> (let n = of_char c :: nat in 48 \<le> n \<and> n \<le> 57 \<or> n = 95)"

text \<open>
  \<open>re.search(r"\bLABEL\b", raw)\<close> for a label of word characters: the label occurs and is
  neither preceded nor followed by a word character. The flag says whether the character before
  the current position is one.
\<close>

fun word_search :: "string \<Rightarrow> bool \<Rightarrow> string \<Rightarrow> bool" where
  "word_search label before s =
     (\<not> before \<and> take (length label) s = label \<and>
        (case drop (length label) s of [] \<Rightarrow> True | c # _ \<Rightarrow> \<not> is_word c) \<or>
      (case s of [] \<Rightarrow> False | c # rest \<Rightarrow> word_search label (is_word c) rest))"

declare word_search.simps [simp del]

definition sorted_aliases :: "(string \<times> string) list" where
  "sorted_aliases = sort_key (\<lambda>lc. - int (length (fst lc))) STATE_ALIASES"

definition state_code :: "string option \<Rightarrow> string" where
  "state_code state =
     (let raw = collapse_spaces (py_upper (py_strip (or_str state ''MAHARASHTRA'')))
      in case map_of STATE_ALIASES raw of
           Some code \<Rightarrow> code
         | None \<Rightarrow>
             (case filter (\<lambda>lc. 2 < length (fst lc) \<and> word_search (fst lc) False raw) sorted_aliases of
                lc # _ \<Rightarrow> snd lc
              | [] \<Rightarrow> raw))"

definition state_default_rule :: "string \<Rightarrow> default_rule" where
  "state_default_rule state =
     (let code = state_code (Some state)
      in case map_of DEFAULT_STATE_RULES code of
           Some r \<Rightarrow> r
         | None \<Rightarrow> default_rule_of code
             [pt_slab_of 0 (Some 1000000) 0 None [], pt_slab_of 1000001 None 20000 None []]
             1000 2000 ''MONTHLY'' [1, 2, 3, 4, 5, 6, 7, 8, 9, 10, 11, 12] None None None)"

text \<open>
  \<open>get_state_statutory_rule\<close>: the active rows effective on the date, the tenant's rows before
  the shared ones and later effective dates first.
\<close>

definition rule_matches :: "string \<Rightarrow> uuid option \<Rightarrow> date \<Rightarrow> state_rule \<Rightarrow> bool" where
  "rule_matches code company on_date r \<longleftrightarrow>
     sr_state_code r = code \<and> sr_is_active r \<and> sr_effective_from r \<le> on_date \<and>
     (case sr_effective_to r of None \<Rightarrow> True | Some e \<Rightarrow> on_date \<le> e) \<and>
     (case company of
        Some c \<Rightarrow> sr_company_id r = Some c \<or> sr_company_id r = None
      | None \<Rightarrow> sr_company_id r = None)"

definition rule_before :: "uuid option \<Rightarrow> state_rule \<Rightarrow> state_rule \<Rightarrow> bool" where
  "rule_before company a b \<longleftrightarrow>
     (let own = (\<lambda>r. company \<noteq> None \<and> sr_company_id r = company)
      in own a \<and> \<not> own b \<or> own a = own b \<and> sr_effective_from b < sr_effective_from a)"

fun best_rule :: "uuid option \<Rightarrow> state_rule option \<Rightarrow> state_rule list \<Rightarrow> state_rule option" where
  "best_rule company best [] = best"
| "best_rule company None (r # rs) = best_rule company (Some r) rs"
| "best_rule company (Some b) (r # rs) = best_rule company (Some (if rule_before company r b then r else b)) rs"

definition get_state_statutory_rule ::
  "state_rule list \<Rightarrow> string option \<Rightarrow> uuid option \<Rightarrow> date option \<Rightarrow> date \<Rightarrow> state_rule option" where
  "get_state_statutory_rule rows state company as_of today =
     best_rule company None
       (filter (rule_matches (state_code state) company (case as_of of Some d \<Rightarrow> d | None \<Rightarrow> today)) rows)"

section \<open>Professional tax\<close>

definition pt_amount :: "rat option \<Rightarrow> bool \<Rightarrow> int" where
  "pt_amount value paise =
     (case value of None \<Rightarrow> 0 | Some v \<Rightarrow> if paise then round_paise v else round_paise (dmul v 100))"

definition gender_code_of :: "string \<Rightarrow> string" where
  "gender_code_of gender =
     (let g = py_upper (py_strip (if gender = [] then ''MALE'' else gender))
      in if g \<in> {''M'', ''MALE''} then ''MALE''
         else if g \<in> {''F'', ''FEMALE'', ''W'', ''WOMAN''} then ''FEMALE'' else g)"

definition slab_gender :: "pt_slab \<Rightarrow> string" where
  "slab_gender s = py_upper (case ps_gender s of Some g \<Rightarrow> g | None \<Rightarrow> ''ALL'')"

definition slab_min :: "pt_slab \<Rightarrow> int" where
  "slab_min s =
     (case ps_min_gross_paise s of
        Some v \<Rightarrow> pt_amount (Some v) True
      | None \<Rightarrow> pt_amount (Some (ps_min_gross_rupees s)) False)"

definition slab_max :: "pt_slab \<Rightarrow> int option" where
  "slab_max s =
     (case ps_max_gross_paise s of
        Some None \<Rightarrow> None
      | Some (Some v) \<Rightarrow> Some (pt_amount (Some v) True)
      | None \<Rightarrow> (case ps_max_gross_rupees s of None \<Rightarrow> None | Some v \<Rightarrow> Some (pt_amount (Some v) False)))"

definition slab_applies :: "int \<Rightarrow> string \<Rightarrow> int \<Rightarrow> pt_slab \<Rightarrow> bool" where
  "slab_applies gross gender mon s \<longleftrightarrow>
     slab_gender s \<in> {''ALL'', ''ANY'', ''BOTH'', gender} \<and>
     (case ps_months s of None \<Rightarrow> True | Some ms \<Rightarrow> ms = [] \<or> mon \<in> set ms) \<and>
     (case ps_month s of None \<Rightarrow> True | Some m \<Rightarrow> m = mon) \<and>
     slab_min s \<le> gross \<and>
     (case slab_max s of None \<Rightarrow> True | Some hi \<Rightarrow> gross \<le> hi)"

text \<open>\<open>max(candidates, key=...)\<close> keeps the first of the maximal candidates.\<close>

definition slab_less :: "string \<Rightarrow> pt_slab \<Rightarrow> pt_slab \<Rightarrow> bool" where
  "slab_less gender a b \<longleftrightarrow>
     (let own = (\<lambda>s. slab_gender s = gender)
      in \<not> own a \<and> own b \<or> own a = own b \<and> slab_min a < slab_min b)"

fun pick_slab :: "string \<Rightarrow> pt_slab option \<Rightarrow> pt_slab list \<Rightarrow> pt_slab option" where
  "pick_slab gender best [] = best"
| "pick_slab gender None (s # ss) = pick_slab gender (Some s) ss"
| "pick_slab gender (Some b) (s # ss) = pick_slab gender (Some (if slab_less gender b s then s else b)) ss"

definition slab_amount :: "int \<Rightarrow> pt_slab \<Rightarrow> int" where
  "slab_amount mon s =
     (case map_of (ps_monthly_amounts s) mon of
        Some v \<Rightarrow> pt_amount v True
      | None \<Rightarrow>
          if mon = 2 \<and> ps_february_amount_paise s \<noteq> None then pt_amount (ps_february_amount_paise s) True
          else (case ps_amount_paise s of
                  Some v \<Rightarrow> pt_amount v True
                | None \<Rightarrow> pt_amount (Some (ps_amount_rupees s)) False))"

record pt_result =
  pr_state_code :: string
  pr_gross_paise :: int
  pr_pt_paise :: int
  pr_month :: int
  pr_gender :: string
  pr_rule_id :: "string option"
  pr_needs_ca_validation :: bool
  pr_slab :: "pt_slab option"

definition calculate_pt ::
  "int \<Rightarrow> string option \<Rightarrow> int \<Rightarrow> string \<Rightarrow> state_rule option \<Rightarrow> pt_slab list option \<Rightarrow> pt_result"
where
  "calculate_pt gross_monthly state mon gender rule pt_slabs =
     (let code = state_code state;
          slabs =
            (case pt_slabs of
               Some ss \<Rightarrow> ss
             | None \<Rightarrow> (case (case rule of None \<Rightarrow> None | Some r \<Rightarrow> sr_pt_slabs r) of
                          Some ss \<Rightarrow> ss | None \<Rightarrow> dr_pt_slabs (state_default_rule code)));
          gross = max 0 gross_monthly;
          g = gender_code_of gender;
          selected = pick_slab g None (filter (slab_applies gross g mon) slabs);
          amount = (case selected of None \<Rightarrow> 0 | Some s \<Rightarrow> slab_amount mon s)
      in \<lparr> pr_state_code = code, pr_gross_paise = gross, pr_pt_paise = max 0 amount, pr_month = mon,
           pr_gender = g,
           pr_rule_id = (case rule of None \<Rightarrow> None | Some r \<Rightarrow> (case sr_id r of Some [] \<Rightarrow> None | i \<Rightarrow> i)),
           pr_needs_ca_validation = (case rule of None \<Rightarrow> True | Some r \<Rightarrow> sr_needs_ca_validation r),
           pr_slab = selected \<rparr>)"

section \<open>Labour welfare fund\<close>

record lwf_result =
  lr_employee_lwf_paise :: int
  lr_employer_lwf_paise :: int
  lr_is_applicable :: bool
  lr_state_code :: string
  lr_month :: int
  lr_frequency :: string
  lr_applicable_months :: "int list"

definition rule_or :: "state_rule option \<Rightarrow> (state_rule \<Rightarrow> 'a option) \<Rightarrow> 'a option \<Rightarrow> 'a option" where
  "rule_or rule field d =
     (case rule of None \<Rightarrow> d | Some r \<Rightarrow> (case field r of Some v \<Rightarrow> Some v | None \<Rightarrow> d))"

definition lwf_months :: "state_rule option \<Rightarrow> default_rule \<Rightarrow> string \<Rightarrow> int list" where
  "lwf_months rule defaults frequency =
     (case rule_or rule sr_lwf_applicable_months (Some (dr_lwf_applicable_months defaults)) of
        Some (m # ms) \<Rightarrow> m # ms
      | _ \<Rightarrow> if frequency = ''MONTHLY'' then [1, 2, 3, 4, 5, 6, 7, 8, 9, 10, 11, 12]
             else if frequency = ''ANNUAL'' then [12] else [6, 12])"

definition cap_at :: "rat option \<Rightarrow> int \<Rightarrow> int" where
  "cap_at cap n = (case cap of None \<Rightarrow> n | Some c \<Rightarrow> min n (pt_amount (Some c) True))"

definition lwf_amounts :: "state_rule option \<Rightarrow> default_rule \<Rightarrow> int \<Rightarrow> int \<times> int" where
  "lwf_amounts rule defaults gross =
     (case rule_or rule sr_lwf_employee_rate (dr_lwf_employee_rate defaults) of
        None \<Rightarrow>
          (pt_amount (rule_or rule sr_lwf_employee_paise (Some (dr_lwf_employee_paise defaults))) True,
           pt_amount (rule_or rule sr_lwf_employer_paise (Some (dr_lwf_employer_paise defaults))) True)
      | Some rate \<Rightarrow>
          let employee = cap_at (rule_or rule sr_lwf_employee_cap_paise (dr_lwf_employee_cap_paise defaults))
                           (round_to_rupee_paise (dmul (of_int gross) rate))
          in (employee, cap_at (rule_or rule sr_lwf_employer_cap_paise (dr_lwf_employer_cap_paise defaults))
                          (employee * 2)))"

definition calculate_lwf :: "int \<Rightarrow> string option \<Rightarrow> int \<Rightarrow> state_rule option \<Rightarrow> lwf_result" where
  "calculate_lwf gross_monthly state mon rule =
     (let code = state_code state;
          defaults = state_default_rule code;
          gross = max 0 gross_monthly;
          frequency = py_upper (case rule_or rule sr_lwf_frequency (Some (dr_lwf_frequency defaults)) of
                                  Some f \<Rightarrow> f | None \<Rightarrow> ''MONTHLY'');
          months = lwf_months rule defaults frequency;
          pays = (0 < gross \<and> mon \<in> set months);
          amounts = (if pays then lwf_amounts rule defaults gross else (0, 0))
      in \<lparr> lr_employee_lwf_paise = fst amounts, lr_employer_lwf_paise = snd amounts,
           lr_is_applicable = (fst amounts + snd amounts \<noteq> 0), lr_state_code = code, lr_month = mon,
           lr_frequency = frequency, lr_applicable_months = sort (remdups months) \<rparr>)"

section \<open>Lemmas\<close>

lemma pick_slab_in:
  "pick_slab g b ss = Some s \<Longrightarrow> s \<in> set ss \<or> b = Some s"
  by (induction g b ss rule: pick_slab.induct) (auto split: if_splits)

definition slab_cap :: "int \<Rightarrow> pt_slab list \<Rightarrow> int" where
  "slab_cap mon ss = foldr (\<lambda>s m. max (slab_amount mon s) m) ss 0"

lemma slab_cap_nonneg [simp]: "0 \<le> slab_cap mon ss"
  unfolding slab_cap_def by (induction ss) auto

lemma slab_cap_ge: "s \<in> set ss \<Longrightarrow> slab_amount mon s \<le> slab_cap mon ss"
  unfolding slab_cap_def by (induction ss) auto

lemma calculate_pt_default_le:
  "pr_pt_paise (calculate_pt gross state mon gender None None)
     \<le> slab_cap mon (dr_pt_slabs (state_default_rule (state_code state)))"
proof -
  define ss where "ss = dr_pt_slabs (state_default_rule (state_code state))"
  define g where "g = gender_code_of gender"
  define selected where "selected = pick_slab g None (filter (slab_applies (max 0 gross) g mon) ss)"
  have "(case selected of None \<Rightarrow> 0 | Some s \<Rightarrow> slab_amount mon s) \<le> slab_cap mon ss"
  proof (cases selected)
    case (Some s)
    then have "s \<in> set (filter (slab_applies (max 0 gross) g mon) ss)"
      using pick_slab_in [of g None _ s] unfolding selected_def by blast
    then have "s \<in> set ss" by simp
    then show ?thesis using Some by (simp add: slab_cap_ge)
  qed simp
  then show ?thesis
    by (simp add: calculate_pt_def Let_def ss_def selected_def g_def)
qed

lemma default_rules_pt_cap:
  "list_all (\<lambda>cr. fst cr = ''TN'' \<or>
     (\<Sum>m\<leftarrow>[1, 2, 3, 4, 5, 6, 7, 8, 9, 10, 11, 12]. slab_cap m (dr_pt_slabs (snd cr))) \<le> 250000)
   DEFAULT_STATE_RULES"
  by code_simp

lemma fallback_rule_pt_cap:
  "(\<Sum>m\<leftarrow>[1, 2, 3, 4, 5, 6, 7, 8, 9, 10, 11, 12].
      slab_cap m [pt_slab_of 0 (Some 1000000) 0 None [], pt_slab_of 1000001 None 20000 None []]) \<le> 250000"
  by code_simp

lemma default_rule_pt_cap:
  assumes "state_code (Some state) \<noteq> ''TN''"
  shows "(\<Sum>m\<leftarrow>[1, 2, 3, 4, 5, 6, 7, 8, 9, 10, 11, 12]. slab_cap m (dr_pt_slabs (state_default_rule state))) \<le> 250000"
proof (cases "map_of DEFAULT_STATE_RULES (state_code (Some state))")
  case None
  then show ?thesis using fallback_rule_pt_cap by (simp add: state_default_rule_def Let_def default_rule_of_def)
next
  case (Some r)
  then have "(state_code (Some state), r) \<in> set DEFAULT_STATE_RULES" by (rule map_of_SomeD)
  then have "fst (state_code (Some state), r) = ''TN'' \<or>
      (\<Sum>m\<leftarrow>[1, 2, 3, 4, 5, 6, 7, 8, 9, 10, 11, 12]. slab_cap m (dr_pt_slabs (snd (state_code (Some state), r)))) \<le> 250000"
    using default_rules_pt_cap unfolding list_all_iff by blast
  then show ?thesis using Some assms by (simp add: state_default_rule_def Let_def)
qed

section \<open>Properties\<close>

text \<open>
  With the built-in state rules, professional tax stays within the constitutional ceiling of
  2,500 rupees a year in every state except Tamil Nadu: whatever the gross of each month and the
  gender, the twelve monthly amounts add up to at most 250000 paise.
\<close>

theorem pt_annual_ceiling:
  assumes "state_code (Some (state_code state)) \<noteq> ''TN''"
  shows "(\<Sum>m\<leftarrow>[1, 2, 3, 4, 5, 6, 7, 8, 9, 10, 11, 12].
            pr_pt_paise (calculate_pt (gross m) state m gender None None)) \<le> 250000"
proof -
  have "(\<Sum>m\<leftarrow>[1, 2, 3, 4, 5, 6, 7, 8, 9, 10, 11, 12].
            pr_pt_paise (calculate_pt (gross m) state m gender None None))
        \<le> (\<Sum>m\<leftarrow>[1, 2, 3, 4, 5, 6, 7, 8, 9, 10, 11, 12].
            slab_cap m (dr_pt_slabs (state_default_rule (state_code state))))"
    by (intro sum_list_mono calculate_pt_default_le)
  also have "\<dots> \<le> 250000" by (rule default_rule_pt_cap [OF assms])
  finally show ?thesis .
qed

theorem pt_annual_ceiling_witness:
  "(\<Sum>m\<leftarrow>[1, 2, 3, 4, 5, 6, 7, 8, 9, 10, 11, 12].
      pr_pt_paise (calculate_pt 5000000 (Some ''Pune, India'') m ''female'' None None)) \<le> 250000"
proof -
  have "state_code (Some (state_code (Some ''Pune, India''))) \<noteq> ''TN''" by code_simp
  from pt_annual_ceiling [OF this, of "\<lambda>_. 5000000"] show ?thesis by simp
qed

text \<open>
  The built-in Tamil Nadu slabs hold half-yearly amounts but are charged every month: a
  monthly gross of 80,000 rupees pays 12,300 rupees in twelve months, almost five times the
  2,500 rupee annual ceiling that the income-tax code itself caps the professional tax deduction at.
\<close>

theorem pt_tamil_nadu_exceeds_ceiling:
  "(\<Sum>m\<leftarrow>[1, 2, 3, 4, 5, 6, 7, 8, 9, 10, 11, 12].
      pr_pt_paise (calculate_pt 8000000 (Some ''Chennai'') m ''MALE'' None None)) = 1230000"
  by code_simp

text \<open>
  Labour welfare fund. Nothing is charged outside the applicable months or on a gross that is
  not positive. Under the built-in Haryana rule the employee pays 0.2 percent of the gross rounded
  to whole rupees but at most 25 rupees, and the employer twice that, at most 50 rupees.
\<close>

theorem lwf_due_and_capped:
  "(lr_employee_lwf_paise (calculate_lwf gross state mon rule),
    lr_employer_lwf_paise (calculate_lwf gross state mon rule)) =
     (if 0 < gross \<and> mon \<in> set (lr_applicable_months (calculate_lwf gross state mon rule))
      then lwf_amounts rule (state_default_rule (state_code state)) gross else (0, 0)) \<and>
   (let h = calculate_lwf gross (Some ''HR'') mon None in
      lr_employee_lwf_paise h =
        (if 0 < gross \<and> 1 \<le> mon \<and> mon \<le> 12
         then min (round_to_rupee_paise (dmul (of_int gross) (2 / 1000))) 2500 else 0) \<and>
      lr_employer_lwf_paise h = min (lr_employee_lwf_paise h * 2) 5000)"
proof -
  have hr: "state_code (Some ''HR'') = ''HR''" by code_simp
  have rule: "map_of DEFAULT_STATE_RULES ''HR'' = Some (default_rule_of ''Haryana'' [] 2500 5000 ''MONTHLY''
      [1, 2, 3, 4, 5, 6, 7, 8, 9, 10, 11, 12] (Some (2 / 1000)) (Some 2500) (Some 5000))"
    by (simp add: DEFAULT_STATE_RULES_def)
  have caps: "pt_amount (Some 2500) True = 2500" "pt_amount (Some 5000) True = 5000"
    by (simp_all add: pt_amount_def round_paise_def)
  have months: "mon \<in> {1, 2, 3, 4, 5, 6, 7, 8, 9, 10, 11, 12} \<longleftrightarrow> 1 \<le> mon \<and> mon \<le> 12" by simp presburger
  have up: "py_upper ''MONTHLY'' = ''MONTHLY''" by code_simp
  have "let h = calculate_lwf gross (Some ''HR'') mon None in
      lr_employee_lwf_paise h =
        (if 0 < gross \<and> 1 \<le> mon \<and> mon \<le> 12
         then min (round_to_rupee_paise (dmul (of_int gross) (2 / 1000))) 2500 else 0) \<and>
      lr_employer_lwf_paise h = min (lr_employee_lwf_paise h * 2) 5000"
    using months
    by (simp add: calculate_lwf_def Let_def hr rule state_default_rule_def default_rule_of_def rule_or_def
        lwf_months_def lwf_amounts_def cap_at_def caps up)
  moreover have "(lr_employee_lwf_paise (calculate_lwf gross state mon rule),
      lr_employer_lwf_paise (calculate_lwf gross state mon rule)) =
     (if 0 < gross \<and> mon \<in> set (lr_applicable_months (calculate_lwf gross state mon rule))
      then lwf_amounts rule (state_default_rule (state_code state)) gross else (0, 0))"
    by (cases "0 < gross") (simp_all add: calculate_lwf_def Let_def)
  ultimately show ?thesis by blast
qed

end
