(* ===== verification/Global_Payroll.thy ===== *)
theory Global_Payroll
  imports Money Py_Strings "HOL-Library.AList"
begin

text \<open>
  \<open>app/services/payroll/global_payroll.py\<close>: currencies, FX conversion of minor units, the
  FX snapshot of a run, and the configurable statutory calculators of the countries other than
  India, with the registry that selects one by country code. A value the code reads with
  \<open>Decimal(str(value))\<close> is a \<open>dec_input\<close>: a finite number, an infinity or NaN, or
  something that does not parse. The clock is a parameter.
\<close>

section \<open>Currencies and countries\<close>

definition SUPPORTED_CURRENCIES :: "string list" where
  "SUPPORTED_CURRENCIES = [''INR'', ''USD'', ''GBP'', ''EUR'', ''AED'', ''SGD'']"

definition CURRENCY_DEFAULT_COUNTRY :: "(string \<times> string) list" where
  "CURRENCY_DEFAULT_COUNTRY =
     [(''INR'', ''IN''), (''USD'', ''US''), (''GBP'', ''GB''), (''EUR'', ''EU''), (''AED'', ''AE''),
      (''SGD'', ''SG'')]"

definition SUPPORTED_COUNTRIES :: "string list" where
  "SUPPORTED_COUNTRIES = map snd CURRENCY_DEFAULT_COUNTRY"

definition normalize_currency :: "string option \<Rightarrow> string \<Rightarrow> string result" where
  "normalize_currency value dflt =
     (let currency = py_upper (py_strip (or_str value dflt))
      in if currency \<in> set SUPPORTED_CURRENCIES then Inr currency
         else Inl (ValueError ''Unsupported currency''))"

definition normalize_country :: "string option \<Rightarrow> string \<Rightarrow> string result" where
  "normalize_country value currency =
     bind_res
       (case value of
          Some v \<Rightarrow>
            if v \<noteq> [] then Inr v
            else (case map_of CURRENCY_DEFAULT_COUNTRY currency of
                    None \<Rightarrow> Inl (LookupError ''KeyError'') | Some d \<Rightarrow> Inr d)
        | None \<Rightarrow>
            (case map_of CURRENCY_DEFAULT_COUNTRY currency of
               None \<Rightarrow> Inl (LookupError ''KeyError'') | Some d \<Rightarrow> Inr d))
       (\<lambda>v. let country = py_upper (py_strip v)
            in if country \<in> set SUPPORTED_COUNTRIES then Inr country
               else Inl (ValueError ''Unsupported payroll country''))"

section \<open>FX rates\<close>

datatype dec_input = Finite rat | NonFinite | Unparsable

definition positive_fx_rate :: "dec_input \<Rightarrow> rat result" where
  "positive_fx_rate value =
     (case value of
        Unparsable \<Rightarrow> Inl (ValueError ''FX rate must be a positive decimal number.'')
      | NonFinite \<Rightarrow> Inl (ValueError ''FX rate must be a positive finite decimal number.'')
      | Finite rate \<Rightarrow>
          if rate \<le> 0 then Inl (ValueError ''FX rate must be a positive finite decimal number.'')
          else bind_res (quantize_int (rate * 10 ^ 8)) (\<lambda>n. Inr (of_int n / 10 ^ 8)))"

definition convert_minor_units :: "int \<Rightarrow> dec_input \<Rightarrow> int result" where
  "convert_minor_units amount rate_to_base =
     bind_res (positive_fx_rate rate_to_base) (\<lambda>rate. quantize_int (dmul (of_int amount) rate))"

definition dec_div :: "rat \<Rightarrow> rat \<Rightarrow> rat result" where
  "dec_div x y =
     (if y = 0 then Inl (if x = 0 then InvalidOperation else DivisionByZero) else Inr (ddiv x y))"

definition convert_via_inr_minor_units :: "int \<Rightarrow> dec_input \<Rightarrow> dec_input \<Rightarrow> int result" where
  "convert_via_inr_minor_units amount source_fx_to_inr target_fx_to_inr =
     bind_res (positive_fx_rate source_fx_to_inr) (\<lambda>source.
     bind_res (positive_fx_rate target_fx_to_inr) (\<lambda>target.
     bind_res (dec_div (dmul (of_int amount) source) target) quantize_int))"

record fx_snapshot =
  snap_currency :: string
  snap_base_currency :: string
  snap_rate_to_base :: rat
  snap_source :: string
  snap_rate_as_of :: timestamp
  snap_locked_at :: timestamp
  snap_minor_unit_precision :: int

definition build_fx_snapshot ::
  "string option \<Rightarrow> string option \<Rightarrow> dec_input \<Rightarrow> string option \<Rightarrow> timestamp option \<Rightarrow> timestamp option
    \<Rightarrow> timestamp \<Rightarrow> fx_snapshot result"
where
  "build_fx_snapshot currency base_currency rate_to_base source rate_as_of locked_at now =
     bind_res (normalize_currency currency ''INR'') (\<lambda>cur.
     bind_res (normalize_currency base_currency ''INR'') (\<lambda>base.
     bind_res (positive_fx_rate rate_to_base) (\<lambda>rate.
       if cur = base \<and> rate \<noteq> 1
       then Inl (ValueError ''Same-currency payroll runs must use an FX rate of 1.'')
       else
         let locked = (case locked_at of None \<Rightarrow> now | Some t \<Rightarrow> t);
             effective = (case rate_as_of of None \<Rightarrow> locked | Some t \<Rightarrow> t)
         in Inr \<lparr> snap_currency = cur, snap_base_currency = base, snap_rate_to_base = rate,
                  snap_source = take 100 (or_str source ''MANUAL''), snap_rate_as_of = effective,
                  snap_locked_at = locked, snap_minor_unit_precision = 2 \<rparr>)))"

section \<open>Country statutory calculators\<close>

text \<open>
  One entry of a rules list as it comes out of the tenant's JSON: \<open>None\<close> in an entry list is
  an element that is not an object; absent keys are None.
\<close>

record component_entry =
  ce_code :: "string option"
  ce_wage_ceiling_paise :: "int option"
  ce_amount_paise :: "int option"
  ce_rate :: "dec_input option"

datatype component_list = Missing | NotAList | Entries "component_entry option list"

record country_rules =
  cr_version :: "string option"
  cr_employee_components :: component_list
  cr_employer_components :: component_list

record CountryStatutoryInput =
  csi_country_code :: string
  csi_currency :: string
  csi_gross_paise :: int
  csi_basic_paise :: int
  csi_period_month :: int
  csi_period_year :: int
  csi_rules :: country_rules

record CountryStatutoryResult =
  csr_employee_deductions_paise :: int
  csr_employer_contributions_paise :: int
  csr_components :: "(string \<times> int) list"
  csr_rule_version :: string
  csr_review_required :: bool
  csr_warnings :: "string list"

definition india_calculate :: "CountryStatutoryInput \<Rightarrow> CountryStatutoryResult result" where
  "india_calculate context =
     Inr \<lparr> csr_employee_deductions_paise = 0, csr_employer_contributions_paise = 0, csr_components = [],
           csr_rule_version = ''IN_LEGACY_STATUTORY_SERVICE'', csr_review_required = False,
           csr_warnings = [] \<rparr>"

definition component_amount :: "component_entry \<Rightarrow> int \<Rightarrow> int result" where
  "component_amount entry taxable =
     (case ce_amount_paise entry of
        Some amount \<Rightarrow>
          if amount < 0 then Inl (ValueError ''Statutory component amounts cannot be negative.'')
          else Inr amount
      | None \<Rightarrow>
          (case (case ce_rate entry of None \<Rightarrow> Finite 0 | Some r \<Rightarrow> r) of
             Unparsable \<Rightarrow> Inl InvalidOperation
           | NonFinite \<Rightarrow> Inl (ValueError ''Statutory component rates must be between 0 and 1.'')
           | Finite rate \<Rightarrow>
               if \<not> (0 \<le> rate \<and> rate \<le> 1)
               then Inl (ValueError ''Statutory component rates must be between 0 and 1.'')
               else quantize_int (dmul (of_int taxable) rate)))"

fun components_loop ::
  "component_entry option list \<Rightarrow> int \<Rightarrow> string \<Rightarrow> string list \<Rightarrow> int \<Rightarrow> (string \<times> int) list
    \<Rightarrow> (int \<times> (string \<times> int) list) result"
where
  "components_loop [] gross prefix seen tot output = Inr (tot, output)"
| "components_loop (None # rest) gross prefix seen tot output =
     Inl (ValueError ''item requires a component code.'')"
| "components_loop (Some entry # rest) gross prefix seen tot output =
     (if or_str (ce_code entry) [] = [] then Inl (ValueError ''item requires a component code.'')
      else
        let code = take 40 (py_upper (py_strip (or_str (ce_code entry) [])));
            ceiling = (case ce_wage_ceiling_paise entry of None \<Rightarrow> gross | Some c \<Rightarrow> c)
        in if code \<in> set seen then Inl (ValueError ''Duplicate statutory component'')
           else if ceiling < 0 then Inl (ValueError ''Statutory wage ceilings cannot be negative.'')
           else bind_res (component_amount entry (min (max 0 gross) ceiling))
                  (\<lambda>amount. components_loop rest gross prefix (code # seen) (tot + amount)
                              (AList.update (prefix @ '':'' @ code) amount output)))"

definition components ::
  "component_list \<Rightarrow> int \<Rightarrow> string \<Rightarrow> (string \<times> int) list \<Rightarrow> (int \<times> (string \<times> int) list) result"
where
  "components entries gross prefix output =
     (case entries of
        Missing \<Rightarrow> Inr (0, output)
      | NotAList \<Rightarrow> Inl (ValueError ''must be a list of statutory components.'')
      | Entries es \<Rightarrow> components_loop es gross prefix [] 0 output)"

definition configurable_calculate :: "CountryStatutoryInput \<Rightarrow> CountryStatutoryResult result" where
  "configurable_calculate context =
     (let rules = csi_rules context;
          version = or_str (cr_version rules) ''UNCONFIGURED_REVIEW_REQUIRED'';
          configured = (cr_employee_components rules \<noteq> Missing \<or> cr_employer_components rules \<noteq> Missing)
      in if configured \<and> or_str (cr_version rules) [] = []
         then Inl (ValueError ''Configured country statutory rules require an explicit version.'')
         else
           bind_res (components (cr_employee_components rules) (csi_gross_paise context) ''EMPLOYEE'' [])
             (\<lambda>(employee, out1).
           bind_res (components (cr_employer_components rules) (csi_gross_paise context) ''EMPLOYER'' out1)
             (\<lambda>(employer, out2).
             Inr \<lparr> csr_employee_deductions_paise = employee, csr_employer_contributions_paise = employer,
                   csr_components = out2, csr_rule_version = version, csr_review_required = \<not> configured,
                   csr_warnings =
                     (if configured then []
                      else [''Country statutory rules are unconfigured; zero statutory contributions are an estimate requiring local payroll review.'']) \<rparr>)))"

type_synonym calculator = "CountryStatutoryInput \<Rightarrow> CountryStatutoryResult result"

definition CALCULATORS :: "(string \<times> calculator) list" where
  "CALCULATORS =
     [(''IN'', india_calculate), (''US'', configurable_calculate), (''GB'', configurable_calculate),
      (''EU'', configurable_calculate), (''AE'', configurable_calculate), (''SG'', configurable_calculate)]"

definition get_country_statutory_calculator ::
  "(string \<times> calculator) list \<Rightarrow> string \<Rightarrow> calculator result" where
  "get_country_statutory_calculator registry country_code =
     (case map_of registry (py_upper (py_strip country_code)) of
        Some calc \<Rightarrow> Inr calc
      | None \<Rightarrow> Inl (ValueError ''No statutory calculator is registered''))"

definition register_country_statutory_calculator ::
  "string \<Rightarrow> calculator \<Rightarrow> (string \<times> calculator) list \<Rightarrow> (string \<times> calculator) list result" where
  "register_country_statutory_calculator country_code calculator registry =
     (let country = py_upper (py_strip country_code)
      in if length country \<noteq> 2 \<or> \<not> py_isalpha country
         then Inl (ValueError ''Country calculator keys must be two-letter codes.'')
         else Inr (AList.update country calculator registry))"

section \<open>FX laws\<close>

lemma positive_fx_rate_Inr:
  "positive_fx_rate v = Inr r \<Longrightarrow>
     \<exists>x. v = Finite x \<and> 0 < x \<and> r = of_int (half_up (x * 10 ^ 8)) / 10 ^ 8"
  by (auto simp: positive_fx_rate_def quantize_int_def bind_res_Inr_iff split: dec_input.splits if_splits)

lemma positive_fx_rate_nonneg: "positive_fx_rate v = Inr r \<Longrightarrow> 0 \<le> r"
  by (auto dest!: positive_fx_rate_Inr simp: half_up_nonneg)

lemma quantize_int_Inr: "quantize_int x = Inr n \<longleftrightarrow> n = half_up x \<and> \<bar>n\<bar> < 10 ^ 28"
  by (auto simp: quantize_int_def)

lemma convert_minor_units_Inr:
  "convert_minor_units a v = Inr n \<longleftrightarrow>
     (\<exists>r. positive_fx_rate v = Inr r \<and> n = half_up (dmul (of_int a) r) \<and> \<bar>n\<bar> < 10 ^ 28)"
  by (auto simp: convert_minor_units_def bind_res_Inr_iff quantize_int_Inr)

lemma positive_fx_rate_one: "positive_fx_rate (Finite 1) = Inr 1"
  using half_up_of_int [of "10 ^ 8"] by (simp add: positive_fx_rate_def quantize_int_def)

section \<open>Component totals\<close>

lemma update_new_key:
  "k \<notin> fst ` set al \<Longrightarrow> AList.update k v al = al @ [(k, v)]"
  by (induction al) auto

lemma component_amount_nonneg [money_pos]:
  "component_amount e t = Inr a \<Longrightarrow> 0 \<le> t \<Longrightarrow> 0 \<le> a"
  by (auto simp: component_amount_def quantize_int_Inr half_up_nonneg dmul_nonneg
        split: option.splits dec_input.splits if_splits)

lemma component_amount_le:
  assumes "component_amount e t = Inr a" "ce_amount_paise e = None" "0 \<le> t" "t < 10 ^ 28"
  shows "a \<le> t"
proof -
  have "\<exists>r. 0 \<le> r \<and> r \<le> 1 \<and> a = half_up (dmul (of_int t) r)"
    using assms(1,2)
    by (auto simp: component_amount_def quantize_int_Inr
          split: option.splits dec_input.splits if_splits intro: exI [of _ 0])
  then obtain r where r: "0 \<le> r" "r \<le> 1" and a: "a = half_up (dmul (of_int t) r)" by blast
  have "of_int t * r \<le> of_int t * 1" using r assms(3) by (intro mult_left_mono) auto
  then have "dmul (of_int t) r \<le> of_int t"
    using dec_ctx_le [of "of_int t * r" "of_int t"] dec_rep_of_int [of t] assms(3,4)
    by (simp add: dmul_def)
  then show ?thesis unfolding a by (rule half_up_le)
qed

lemma components_loop_appends:
  assumes "components_loop es gross p seen t out = Inr (t', out')" "0 \<le> gross"
    "\<And>c. p @ '':'' @ c \<in> fst ` set out \<Longrightarrow> c \<in> set seen"
  shows "\<exists>new. out' = out @ new \<and> t' = t + (\<Sum>kv\<leftarrow>new. snd kv) \<and>
           (\<forall>kv \<in> set new. 0 \<le> snd kv \<and> (\<exists>c. fst kv = p @ '':'' @ c)) \<and>
           (distinct (map fst out) \<longrightarrow> distinct (map fst out'))"
  using assms
proof (induction es gross p seen t out rule: components_loop.induct)
  case (3 entry rest gross p seen tot out)
  define code where "code = take 40 (py_upper (py_strip (or_str (ce_code entry) [])))"
  define ceiling where "ceiling = (case ce_wage_ceiling_paise entry of None \<Rightarrow> gross | Some c \<Rightarrow> c)"
  from "3.prems"(1) obtain a where ne: "or_str (ce_code entry) [] \<noteq> []" and fresh: "code \<notin> set seen"
    and ceil: "\<not> ceiling < 0" and a: "component_amount entry (min (max 0 gross) ceiling) = Inr a"
    and rec: "components_loop rest gross p (code # seen) (tot + a)
                (AList.update (p @ '':'' @ code) a out) = Inr (t', out')"
    by (auto simp: Let_def bind_res_Inr_iff code_def ceiling_def split: if_splits)
  have key: "p @ '':'' @ code \<notin> fst ` set out" using fresh "3.prems"(3) by auto
  have a0: "0 \<le> a" using a ceil "3.prems"(2) by (intro component_amount_nonneg [OF a]) simp
  have upd: "AList.update (p @ '':'' @ code) a out = out @ [(p @ '':'' @ code, a)]"
    by (rule update_new_key [OF key])
  have inv: "c \<in> set (code # seen)"
    if "p @ '':'' @ c \<in> fst ` set (AList.update (p @ '':'' @ code) a out)" for c
  proof -
    have "p @ '':'' @ c \<in> fst ` set out \<or> p @ '':'' @ c = p @ '':'' @ code"
      using that by (auto simp only: upd set_append image_Un Un_iff list.set image_insert image_empty
                       insert_iff empty_iff fst_conv)
    then show ?thesis using "3.prems"(3) [of c] by auto
  qed
  obtain new where new: "out' = AList.update (p @ '':'' @ code) a out @ new"
    "t' = tot + a + (\<Sum>kv\<leftarrow>new. snd kv)"
    "\<forall>kv \<in> set new. 0 \<le> snd kv \<and> (\<exists>c. fst kv = p @ '':'' @ c)"
    "distinct (map fst (AList.update (p @ '':'' @ code) a out)) \<longrightarrow> distinct (map fst out')"
    using "3.IH" [OF ne code_def ceiling_def fresh ceil rec "3.prems"(2) inv] by blast
  show ?case
    using new [unfolded upd] a0 key
    by (intro exI [of _ "(p @ '':'' @ code, a) # new"]) simp
qed auto

definition component_sum :: "string \<Rightarrow> (string \<times> int) list \<Rightarrow> int" where
  "component_sum prefix out = (\<Sum>kv\<leftarrow>filter (\<lambda>kv. take 9 (fst kv) = prefix @ '':'') out. snd kv)"

lemma component_sum_Nil [simp]: "component_sum p [] = 0"
  by (simp add: component_sum_def)

lemma component_sum_append [simp]: "component_sum p (xs @ ys) = component_sum p xs + component_sum p ys"
  by (simp add: component_sum_def)

lemma component_sum_all:
  assumes "\<forall>kv \<in> set new. \<exists>c. fst kv = p @ '':'' @ c" "length p = 8" "length q = 8"
  shows "component_sum q new = (if p = q then (\<Sum>kv\<leftarrow>new. snd kv) else 0)"
proof -
  have t: "take 9 (fst kv) = p @ '':''" if "kv \<in> set new" for kv
    using assms(1,2) that by auto
  then have "filter (\<lambda>kv. take 9 (fst kv) = q @ '':'') new = (if p = q then new else [])"
    by (auto simp: filter_id_conv filter_empty_conv)
  then show ?thesis by (simp add: component_sum_def)
qed

lemma components_appends:
  assumes "components es gross p out = Inr (t, out')" "0 \<le> gross"
    "\<And>c. p @ '':'' @ c \<notin> fst ` set out"
  shows "\<exists>new. out' = out @ new \<and> t = (\<Sum>kv\<leftarrow>new. snd kv) \<and>
           (\<forall>kv \<in> set new. 0 \<le> snd kv \<and> (\<exists>c. fst kv = p @ '':'' @ c)) \<and>
           (distinct (map fst out) \<longrightarrow> distinct (map fst out'))"
  using assms components_loop_appends [of _ gross p "[]" 0 out t out']
  by (auto simp: components_def split: component_list.splits)

lemma configurable_calculate_totals:
  assumes "configurable_calculate context = Inr r" "0 \<le> csi_gross_paise context"
  shows "component_sum ''EMPLOYEE'' (csr_components r) = csr_employee_deductions_paise r"
    and "component_sum ''EMPLOYER'' (csr_components r) = csr_employer_contributions_paise r"
    and "\<forall>kv \<in> set (csr_components r). 0 \<le> snd kv"
    and "distinct (map fst (csr_components r))"
proof -
  obtain employee out1 employer out2 where
    c1: "components (cr_employee_components (csi_rules context)) (csi_gross_paise context) ''EMPLOYEE'' []
           = Inr (employee, out1)" and
    c2: "components (cr_employer_components (csi_rules context)) (csi_gross_paise context) ''EMPLOYER'' out1
           = Inr (employer, out2)" and
    r: "csr_employee_deductions_paise r = employee" "csr_employer_contributions_paise r = employer"
       "csr_components r = out2"
    using assms(1)
    by (auto simp: configurable_calculate_def Let_def bind_res_Inr_iff split: if_splits)
  obtain n1 where n1: "out1 = n1" "employee = (\<Sum>kv\<leftarrow>n1. snd kv)"
    "\<forall>kv \<in> set n1. 0 \<le> snd kv \<and> (\<exists>c. fst kv = ''EMPLOYEE'' @ '':'' @ c)" "distinct (map fst out1)"
    using components_appends [OF c1 assms(2)] by auto
  have "''EMPLOYER'' @ '':'' @ c \<notin> fst ` set out1" for c using n1(1,3) by fastforce
  then obtain n2 where n2: "out2 = out1 @ n2" "employer = (\<Sum>kv\<leftarrow>n2. snd kv)"
    "\<forall>kv \<in> set n2. 0 \<le> snd kv \<and> (\<exists>c. fst kv = ''EMPLOYER'' @ '':'' @ c)" "distinct (map fst out2)"
    using components_appends [OF c2 assms(2)] n1(4) by auto
  have s1: "component_sum q n1 = (if ''EMPLOYEE'' = q then employee else 0)" if "length q = 8" for q
    unfolding n1(2) by (rule component_sum_all) (use n1(3) that in auto)
  have s2: "component_sum q n2 = (if ''EMPLOYER'' = q then employer else 0)" if "length q = 8" for q
    unfolding n2(2) by (rule component_sum_all) (use n2(3) that in auto)
  show "component_sum ''EMPLOYEE'' (csr_components r) = csr_employee_deductions_paise r"
    "component_sum ''EMPLOYER'' (csr_components r) = csr_employer_contributions_paise r"
    by (simp_all add: r n2(1) n1(1) s1 s2)
  show "\<forall>kv \<in> set (csr_components r). 0 \<le> snd kv" using n1(1,3) n2(1,3) r by auto
  show "distinct (map fst (csr_components r))" using n2(4) r by simp
qed

section \<open>The calculator interface\<close>

text \<open>
  What the run engine relies on when it adds the result of a country's calculator to an
  employee's deductions and to the employer's cost: neither is negative, and the components
  shown on the payslip add up to the two totals.
\<close>

locale country_calculator =
  fixes calc :: calculator
  assumes calc_totals: "calc context = Inr r \<Longrightarrow> 0 \<le> csi_gross_paise context \<Longrightarrow>
      component_sum ''EMPLOYEE'' (csr_components r) = csr_employee_deductions_paise r \<and>
      component_sum ''EMPLOYER'' (csr_components r) = csr_employer_contributions_paise r"
    and calc_pos: "calc context = Inr r \<Longrightarrow> 0 \<le> csi_gross_paise context \<Longrightarrow>
      kv \<in> set (csr_components r) \<Longrightarrow> 0 \<le> snd kv"
begin

lemma deductions_nonneg:
  assumes "calc context = Inr r" "0 \<le> csi_gross_paise context"
  shows "0 \<le> csr_employee_deductions_paise r" and "0 \<le> csr_employer_contributions_paise r"
proof -
  have "0 \<le> component_sum p (csr_components r)" for p
    unfolding component_sum_def
    by (rule sum_list_nonneg_int) (auto intro: calc_pos [OF assms])
  then show "0 \<le> csr_employee_deductions_paise r" "0 \<le> csr_employer_contributions_paise r"
    using calc_totals [OF assms] by metis+
qed

end

interpretation india: country_calculator india_calculate
  by unfold_locales (auto simp: india_calculate_def)

interpretation configurable: country_calculator configurable_calculate
  by unfold_locales (auto simp: configurable_calculate_totals)

lemma registry_default_ok:
  assumes "get_country_statutory_calculator CALCULATORS country = Inr calc"
  shows "country_calculator calc"
  using assms india.country_calculator_axioms configurable.country_calculator_axioms
  by (auto simp: get_country_statutory_calculator_def CALCULATORS_def split: option.splits if_splits)

section \<open>Properties\<close>

text \<open>
  When a configured country calculator returns on a nonnegative gross, the payslip components
  carry distinct keys, none is negative, and the EMPLOYEE and EMPLOYER components add up to the
  employee deductions and employer contributions that the run engine books.
\<close>

theorem country_components_balance:
  assumes "configurable_calculate context = Inr r" "0 \<le> csi_gross_paise context"
  shows "component_sum ''EMPLOYEE'' (csr_components r) = csr_employee_deductions_paise r \<and>
         component_sum ''EMPLOYER'' (csr_components r) = csr_employer_contributions_paise r \<and>
         (\<forall>kv \<in> set (csr_components r). 0 \<le> snd kv) \<and> distinct (map fst (csr_components r))"
  using configurable_calculate_totals [OF assms] by blast

definition sample_country_input :: CountryStatutoryInput where
  "sample_country_input =
     \<lparr> csi_country_code = ''US'', csi_currency = ''USD'', csi_gross_paise = 100050, csi_basic_paise = 50000,
       csi_period_month = 4, csi_period_year = 2025,
       csi_rules = \<lparr> cr_version = Some ''v1'',
         cr_employee_components = Entries [Some \<lparr> ce_code = Some '' fica '', ce_wage_ceiling_paise = None,
           ce_amount_paise = None, ce_rate = Some (Finite (62 / 1000)) \<rparr>],
         cr_employer_components = Entries [Some \<lparr> ce_code = Some ''futa'', ce_wage_ceiling_paise = Some 7000,
           ce_amount_paise = None, ce_rate = Some (Finite (6 / 1000)) \<rparr>] \<rparr> \<rparr>"

definition sample_country_result :: CountryStatutoryResult where
  "sample_country_result =
     \<lparr> csr_employee_deductions_paise = 6203, csr_employer_contributions_paise = 42,
       csr_components = [(''EMPLOYEE:FICA'', 6203), (''EMPLOYER:FUTA'', 42)], csr_rule_version = ''v1'',
       csr_review_required = False, csr_warnings = [] \<rparr>"

lemma sample_country_run: "configurable_calculate sample_country_input = Inr sample_country_result"
  by code_simp

theorem country_components_balance_witness:
  "component_sum ''EMPLOYEE'' (csr_components sample_country_result) =
     csr_employee_deductions_paise sample_country_result"
  using country_components_balance [OF sample_country_run]
  by (simp add: sample_country_input_def)

text \<open>
  In a run whose currency is its base currency the FX snapshot holds the rate one, and
  converting an amount with the snapshot's rate returns the amount unchanged.
\<close>

theorem same_currency_snapshot_identity:
  assumes "build_fx_snapshot cur base rate source as_of locked now = Inr snap"
    "snap_currency snap = snap_base_currency snap" "\<bar>amount\<bar> < 10 ^ 28"
  shows "snap_rate_to_base snap = 1 \<and>
         convert_minor_units amount (Finite (snap_rate_to_base snap)) = Inr amount"
proof -
  have one: "snap_rate_to_base snap = 1"
    using assms(1,2) by (auto simp: build_fx_snapshot_def bind_res_Inr_iff Let_def split: if_splits)
  have "dmul (of_int amount) 1 = of_int amount"
    using dec_rep_of_int [OF assms(3)] by (simp add: dmul_def dec_ctx_rep)
  then show ?thesis using one assms(3) by (simp add: convert_minor_units_Inr positive_fx_rate_one)
qed

definition sample_snapshot :: fx_snapshot where
  "sample_snapshot =
     \<lparr> snap_currency = ''INR'', snap_base_currency = ''INR'', snap_rate_to_base = 1, snap_source = ''MANUAL'',
       snap_rate_as_of = 7, snap_locked_at = 7, snap_minor_unit_precision = 2 \<rparr>"

theorem same_currency_snapshot_identity_witness:
  "convert_minor_units 12345 (Finite (snap_rate_to_base sample_snapshot)) = Inr 12345"
proof -
  have "build_fx_snapshot (Some '' inr'') None (Finite 1) None None None 7 = Inr sample_snapshot"
    by code_simp
  moreover have "snap_currency sample_snapshot = snap_base_currency sample_snapshot"
    by (simp add: sample_snapshot_def)
  ultimately have "snap_rate_to_base sample_snapshot = 1 \<and>
      convert_minor_units 12345 (Finite (snap_rate_to_base sample_snapshot)) = Inr 12345"
    by (rule same_currency_snapshot_identity) simp
  then show ?thesis by blast
qed

text \<open>
  With one rate, converting a larger amount never gives a smaller result, and the sign of the
  amount is kept.
\<close>

theorem convert_minor_units_monotone:
  assumes "convert_minor_units a rate = Inr m" "convert_minor_units b rate = Inr n" "a \<le> b"
  shows "m \<le> n \<and> (0 \<le> a \<longrightarrow> 0 \<le> m)"
proof -
  obtain r where r: "positive_fx_rate rate = Inr r" and m: "m = half_up (dmul (of_int a) r)"
    using assms(1) by (auto simp: convert_minor_units_Inr)
  have n: "n = half_up (dmul (of_int b) r)" using assms(2) r by (auto simp: convert_minor_units_Inr)
  have r0: "0 \<le> r" using r by (rule positive_fx_rate_nonneg)
  have "dmul (of_int a) r \<le> dmul (of_int b) r"
    unfolding dmul_def using r0 assms(3) by (intro dec_ctx_mono mult_right_mono) auto
  then have "m \<le> n" unfolding m n by (rule half_up_mono)
  moreover have "0 \<le> m" if "0 \<le> a"
    unfolding m using that r0 by (intro half_up_nonneg dmul_nonneg) auto
  ultimately show ?thesis by blast
qed

theorem convert_minor_units_monotone_witness:
  "convert_minor_units 100 (Finite 83) = Inr 8300 \<and> convert_minor_units 101 (Finite 83) = Inr 8383 \<and>
   (8300 :: int) \<le> 8383 \<and> (0::int) \<le> 8300"
proof -
  have "convert_minor_units 100 (Finite 83) = Inr 8300" "convert_minor_units 101 (Finite 83) = Inr 8383"
    by code_simp+
  with convert_minor_units_monotone [of 100 "Finite 83" 8300 101 8383] show ?thesis by simp
qed

text \<open>
  A positive rate below half of the eighth decimal is quantized to zero, although the function
  promises a positive rate: amounts convert to nothing, and a conversion towards that currency
  divides by zero.
\<close>

theorem tiny_fx_rate_is_zero:
  "positive_fx_rate (Finite (1 / 10 ^ 9)) = Inr 0 \<and>
   convert_minor_units 500000 (Finite (1 / 10 ^ 9)) = Inr 0 \<and>
   convert_via_inr_minor_units 500000 (Finite 1) (Finite (1 / 10 ^ 9)) = Inl DivisionByZero"
  by code_simp

end
