(* ===== verification/Models.thy ===== *)
theory Models
  imports Pf Esi Labour_Code Tds State_Rules Global_Payroll
begin

text \<open>
  The rows that the payroll services read and write: the SQLAlchemy classes of
  \<open>app/models/payroll.py\<close>, \<open>payroll_models.py\<close> and \<open>company.py\<close> as
  records of the columns the modelled code uses, the audit log, and the database as one list per
  table. Times and dates of "now" are parameters of the operations, and a fresh identifier is one
  above all identifiers in use.
\<close>

section \<open>Configuration and organisation\<close>

record compliance_config =
  cc_id :: uuid
  cc_company_id :: "uuid option"
  cc_is_active :: bool
  cc_maker_checker_enforced :: bool
  cc_pf :: pf_config
  cc_esi :: esi_config
  cc_labour :: labour_config
  cc_pt_state :: "string option"
  cc_default_tax_regime :: "string option"
  cc_needs_ca_validation :: "(string \<times> bool) list"
  cc_ca_verified_by :: "uuid option"
  cc_ca_verified_at :: "timestamp option"
  cc_ca_certificate_ref :: "string option"
  cc_formula_version :: "string option"

record company =
  co_id :: uuid
  co_currency :: "string option"

record legal_entity =
  le_id :: uuid
  le_company_id :: "uuid option"
  le_code :: string
  le_state_code :: "string option"
  le_is_active :: bool

record branch =
  br_id :: uuid
  br_company_id :: "uuid option"
  br_legal_entity_id :: uuid
  br_name :: string
  br_state_code :: "string option"
  br_is_active :: bool

record employee =
  em_id :: uuid
  em_user_id :: "uuid option"
  em_first_name :: string
  em_last_name :: string
  em_role :: string
  em_reporting_manager_id :: "uuid option"
  em_manager_id :: "uuid option"
  em_company_id :: "uuid option"
  em_legal_entity_id :: "uuid option"
  em_branch_id :: "uuid option"
  em_branch :: "string option"
  em_state_code :: "string option"
  em_work_location :: "string option"
  em_is_deleted :: bool
  em_has_pan :: bool
  em_has_bank_account :: bool
  em_gender :: "string option"
  em_date_of_birth :: "date option"
  em_professional_tax :: rat
  em_is_pf_eligible :: bool
  em_pf_membership_active :: bool
  em_is_international_worker :: bool
  em_pf_wage_ceiling_applicable :: bool
  em_pf_higher_wage_opted :: bool
  em_vpf_rate :: rat
  em_is_pwd :: bool
  em_esi_covered_at_period_start :: bool

section \<open>Periods and runs\<close>

record payroll_period =
  pp_id :: uuid
  pp_company_id :: "uuid option"
  pp_legal_entity_id :: "uuid option"
  pp_name :: string
  pp_start_date :: date
  pp_end_date :: date
  pp_pay_date :: date
  pp_processing_date :: "date option"
  pp_payment_date :: "date option"
  pp_month :: int
  pp_year :: int
  pp_status :: string
  pp_is_locked :: bool
  pp_locked_by :: "uuid option"
  pp_locked_at :: "timestamp option"
  pp_regularisation_deadline :: "timestamp option"
  pp_attendance_locked_at :: "timestamp option"
  pp_attendance_locked_by :: "uuid option"
  pp_unlock_reason :: "string option"
  pp_remarks :: "string option"

datatype run_status =
    DRAFT | VALIDATED | PROCESSING | PROCESSED | PENDING_APPROVAL | APPROVED | LOCKED | PAID
  | FINALIZED | REJECTED | CANCELLED | VOID | FAILED

record payroll_run =
  run_id :: uuid
  run_company_id :: "uuid option"
  run_legal_entity_id :: "uuid option"
  run_period_id :: "uuid option"
  run_period_month :: int
  run_period_year :: int
  run_currency :: string
  run_country_code :: string
  run_fx_rate_to_base :: rat
  run_fx_snapshot :: "fx_snapshot option"
  run_statutory_rules :: country_rules
  run_statutory_rule_version :: string
  run_status :: run_status
  run_total_employees :: int
  run_total_gross_paise :: int
  run_total_deductions_paise :: int
  run_total_net_paise :: int
  run_total_gross_base_paise :: int
  run_total_deductions_base_paise :: int
  run_total_net_base_paise :: int
  run_total_gross :: rat
  run_total_deductions :: rat
  run_total_net :: rat
  run_validation_status :: string
  run_validation_errors :: "(uuid option \<times> string list) list"
  run_is_locked :: bool
  run_notes :: "string option"
  run_comments :: "string option"
  run_by :: "uuid option"
  run_created_by :: "uuid option"
  run_processed_by :: "uuid option"
  run_approved_by :: "uuid option"
  run_approved_at :: "timestamp option"
  run_finalized_by :: "uuid option"
  run_finalized_at :: "timestamp option"
  run_rejected_by :: "uuid option"
  run_rejected_at :: "timestamp option"
  run_rejection_reason :: "string option"
  run_sent_back_by :: "uuid option"
  run_sent_back_at :: "timestamp option"
  run_sent_back_reason :: "string option"
  run_paid_at :: "timestamp option"

section \<open>Pay\<close>

record compensation =
  cp_id :: uuid
  cp_employee_id :: uuid
  cp_company_id :: "uuid option"
  cp_status :: string
  cp_ctc_annual_paise :: int
  cp_basic_monthly_paise :: int
  cp_hra_monthly_paise :: int
  cp_special_allowance_monthly_paise :: int
  cp_currency :: string
  cp_fx_rate_to_inr :: rat
  cp_effective_date :: date
  cp_remarks :: "string option"

text \<open>
  A value of the JSON object \<open>other_allowances\<close>: a number or null, or an object with
  numbers under its keys.
\<close>

datatype allowance = Amount "rat option" | Parts "(string \<times> rat option) list"

record salary_structure =
  ss_id :: uuid
  ss_employee_id :: uuid
  ss_company_id :: "uuid option"
  ss_is_active :: bool
  ss_annual_ctc :: rat
  ss_basic_monthly :: rat
  ss_hra_monthly :: rat
  ss_special_allowance_monthly :: rat
  ss_conveyance_monthly :: rat
  ss_other_allowances :: "(string \<times> allowance) list"
  ss_annual_bonus :: rat
  ss_currency :: string
  ss_fx_rate_to_inr :: rat

record attendance_input =
  ai_employee_id :: uuid
  ai_period_month :: int
  ai_period_year :: int
  ai_paid_days :: rat
  ai_lop_days :: rat
  ai_arrears :: rat
  ai_one_time_bonus :: rat

record variable_input =
  vi_id :: uuid
  vi_employee_id :: uuid
  vi_period_id :: "uuid option"
  vi_company_id :: "uuid option"
  vi_type :: string
  vi_amount_paise :: int
  vi_units :: "rat option"
  vi_rate_per_unit_paise :: "int option"
  vi_description :: string
  vi_source :: "string option"
  vi_remarks :: "string option"
  vi_status :: string
  vi_is_locked :: bool
  vi_approved_by :: "uuid option"
  vi_approved_at :: "timestamp option"
  vi_rejected_by :: "uuid option"
  vi_rejected_at :: "timestamp option"
  vi_rejection_reason :: "string option"

record pay_component =
  pc_company_id :: "uuid option"
  pc_code :: string
  pc_type :: string
  pc_calculation_method :: string
  pc_default_percentage :: "rat option"
  pc_formula_expr :: "string option"
  pc_is_active :: bool

record advance_loan =
  al_id :: uuid
  al_company_id :: "uuid option"
  al_employee_id :: uuid
  al_outstanding_balance :: rat
  al_emi_amount :: rat
  al_total_installments :: int
  al_installments_paid :: int
  al_start_from_month :: int
  al_start_from_year :: int
  al_status :: string

record loan_installment =
  li_id :: uuid
  li_loan_id :: uuid
  li_period_month :: int
  li_period_year :: int
  li_emi_amount :: rat
  li_balance_after :: rat
  li_status :: string

record arrear =
  ar_id :: uuid
  ar_company_id :: "uuid option"
  ar_employee_id :: uuid
  ar_source_period_id :: "uuid option"
  ar_target_period_id :: "uuid option"
  ar_type :: string
  ar_delta_days :: rat
  ar_amount_paise :: int
  ar_status :: string
  ar_applied_run_id :: "uuid option"
  ar_applied_at :: "timestamp option"
  ar_cancellation_reason :: "string option"
  ar_created_by :: "uuid option"

record investment_declaration =
  id_employee_id :: uuid
  id_financial_year :: string
  id_tax_regime :: "string option"
  id_section_80c :: rat
  id_section_80d :: rat
  id_section_80ccd1b_nps :: rat
  id_home_loan_interest_24b :: rat
  id_section_80g :: rat
  id_hra_claimed :: rat
  id_lta_claimed :: rat
  id_other_deductions :: rat
  id_proof_cutoff_date :: "date option"
  id_use_verified_amounts :: bool
  id_verified_details :: declarations
  id_previous_employer_income_paise :: int
  id_previous_employer_tds_paise :: int
  id_ytd_tds_paise :: int
  id_one_time_bonus_paise :: int
  id_variable_pay_paise :: int

record ytd_salary =
  ys_employee_id :: uuid
  ys_company_id :: "uuid option"
  ys_period_month :: int
  ys_period_year :: int
  ys_gross_earnings_paise :: int
  ys_tds_paise :: int

record run_employee =
  re_run_id :: uuid
  re_employee_id :: uuid
  re_company_id :: "uuid option"
  re_gross_earnings_paise :: int
  re_total_deductions_paise :: int
  re_net_pay_paise :: int
  re_gross_base_paise :: int
  re_total_deductions_base_paise :: int
  re_net_base_paise :: int
  re_paid_days :: rat
  re_lop_days :: rat
  re_status :: string
  re_validation_status :: string
  re_earnings_breakup :: "(string \<times> int) list"
  re_deductions_breakup :: "(string \<times> int) list"

record payslip =
  ps_id :: uuid
  ps_company_id :: "uuid option"
  ps_run_id :: uuid
  ps_employee_id :: uuid
  ps_salary_structure_id :: "uuid option"
  ps_currency :: string
  ps_period_month :: int
  ps_period_year :: int
  ps_basic :: rat
  ps_hra :: rat
  ps_special_allowance :: rat
  ps_conveyance :: rat
  ps_other_allowances_total :: rat
  ps_arrears :: rat
  ps_bonus :: rat
  ps_lop_deduction :: rat
  ps_other_deductions :: rat
  ps_gross_earnings :: rat
  ps_employee_pf :: rat
  ps_employer_pf :: rat
  ps_employee_esi :: rat
  ps_employer_esi :: rat
  ps_professional_tax :: rat
  ps_tds :: rat
  ps_total_deductions :: rat
  ps_net_pay :: rat
  ps_gross_base_paise :: int
  ps_total_deductions_base_paise :: int
  ps_net_base_paise :: int
  ps_payment_status :: string
  ps_payment_date :: "timestamp option"
  ps_payment_reference :: "string option"

section \<open>Salary revisions, payment batches and settlements\<close>

record compensation_revision =
  rv_id :: uuid
  rv_employee_id :: uuid
  rv_company_id :: "uuid option"
  rv_current_ctc_annual_paise :: int
  rv_new_ctc_annual_paise :: int
  rv_effective_date :: date
  rv_reason :: string
  rv_notes :: "string option"
  rv_status :: string
  rv_approved_by :: "uuid option"
  rv_approved_at :: "timestamp option"
  rv_remarks :: "string option"
  rv_rejected_by :: "uuid option"
  rv_rejected_at :: "timestamp option"
  rv_rejection_reason :: "string option"

record payment_batch =
  pb_id :: uuid
  pb_company_id :: "uuid option"
  pb_run_id :: uuid
  pb_batch_number :: string
  pb_source_account_id :: string
  pb_payment_mode :: string
  pb_status :: string
  pb_total_amount_paise :: int
  pb_total_records :: int
  pb_bank_reference_number :: "string option"
  pb_submission_date :: "date option"
  pb_notes :: "string option"
  pb_created_by :: "uuid option"
  pb_processed_by :: "uuid option"
  pb_approved_by :: "uuid option"
  pb_approved_at :: "timestamp option"
  pb_remarks :: "string option"
  pb_rejected_by :: "uuid option"
  pb_rejected_at :: "timestamp option"
  pb_rejection_reason :: "string option"
  pb_retry_of_batch_id :: "uuid option"

record batch_item =
  bi_id :: uuid
  bi_batch_id :: uuid
  bi_employee_id :: uuid
  bi_company_id :: "uuid option"
  bi_amount_paise :: int
  bi_status :: string
  bi_hold_reason :: "string option"
  bi_account_number :: "string option"
  bi_ifsc_code :: "string option"
  bi_account_holder_name :: "string option"
  bi_transaction_ref :: "string option"
  bi_utr_number :: "string option"
  bi_reconciled_at :: "timestamp option"
  bi_repayout_batch_id :: "uuid option"
  bi_error_message :: "string option"
  bi_remarks :: "string option"
  bi_retry_count :: int

text \<open>The content of a bank file is kept as the rows of fields handed to the CSV writer.\<close>

record bank_file =
  bf_id :: uuid
  bf_batch_id :: uuid
  bf_company_id :: "uuid option"
  bf_file_format :: string
  bf_file_name :: string
  bf_rows :: "string list list"
  bf_status :: string

record settlement =
  fs_id :: uuid
  fs_employee_id :: uuid
  fs_company_id :: "uuid option"
  fs_resignation_date :: date
  fs_last_working_date :: date
  fs_exit_type :: string
  fs_reason :: string
  fs_notice_period_days_required :: int
  fs_notice_period_days_served :: int
  fs_shortfall_days :: int
  fs_status :: string
  fs_net_payable_paise :: int
  fs_settlement_breakup :: "(string \<times> int) list"
  fs_remarks :: "string option"
  fs_notes :: "string option"
  fs_created_by :: "uuid option"
  fs_processed_by :: "uuid option"
  fs_approved_by :: "uuid option"
  fs_approved_at :: "timestamp option"
  fs_finalized_by :: "uuid option"
  fs_finalized_at :: "timestamp option"
  fs_rejected_by :: "uuid option"
  fs_rejected_at :: "timestamp option"
  fs_rejection_reason :: "string option"

section \<open>Leave, attendance and overtime\<close>

record leave_request =
  lq_id :: uuid
  lq_employee_id :: uuid
  lq_leave_type :: string
  lq_start_date :: date
  lq_end_date :: date
  lq_total_days :: rat
  lq_reason :: string
  lq_status :: string
  lq_approved_by_id :: "uuid option"
  lq_rejection_reason :: "string option"
  lq_reviewed_by_id :: "uuid option"
  lq_reviewed_at :: "timestamp option"

record leave_policy =
  lp_id :: uuid
  lp_employee_id :: uuid
  lp_leave_type :: string
  lp_total_days :: rat
  lp_used_days :: rat
  lp_carry_forward :: bool
  lp_effective_from :: "date option"
  lp_effective_to :: "date option"

record pay_cycle =
  pk_id :: uuid
  pk_company_id :: "uuid option"
  pk_period_month :: int
  pk_period_year :: int
  pk_status :: string
  pk_start_date :: "date option"
  pk_end_date :: "date option"
  pk_is_locked :: bool
  pk_regularisation_deadline :: "timestamp option"
  pk_attendance_locked_at :: "timestamp option"

record overtime_entry =
  oe_id :: uuid
  oe_company_id :: "uuid option"
  oe_employee_id :: uuid
  oe_period_month :: int
  oe_period_year :: int
  oe_ot_hours :: rat
  oe_adjusted_hours :: "rat option"
  oe_status :: string

record overtime_policy =
  op_id :: uuid
  op_company_id :: "uuid option"
  op_applicable_role :: "string option"
  op_applicable_grade :: "string option"
  op_rate_multiplier :: rat
  op_rate_base :: string
  op_is_active :: bool

record attendance_day =
  ad_employee_id :: uuid
  ad_company_id :: "uuid option"
  ad_date :: date
  ad_status :: string
  ad_shift_id :: "uuid option"
  ad_shift_name :: "string option"
  ad_is_off_day_work :: bool
  ad_is_holiday_work :: bool

record shift =
  sh_id :: uuid
  sh_code :: string
  sh_name :: string
  sh_is_night_shift :: bool

record shift_policy =
  sp_id :: uuid
  sp_company_id :: "uuid option"
  sp_shift_id :: "uuid option"
  sp_shift_type :: string
  sp_allowance_paise :: int
  sp_is_active :: bool
  sp_effective_from :: "date option"
  sp_effective_to :: "date option"

record comp_off =
  cf_employee_id :: uuid
  cf_company_id :: "uuid option"
  cf_worked_date :: date
  cf_credit_days :: rat
  cf_status :: string
  cf_encashment_amount_paise :: int
  cf_encashed_on :: "date option"

section \<open>Calendars and transfers of legal entities\<close>

record entity_calendar =
  ec_id :: uuid
  ec_company_id :: "uuid option"
  ec_legal_entity_id :: uuid
  ec_payroll_period_id :: "uuid option"
  ec_period_month :: int
  ec_period_year :: int
  ec_start_date :: date
  ec_end_date :: date
  ec_processing_date :: date
  ec_pay_date :: date
  ec_attendance_cutoff_date :: "date option"

record entity_transfer =
  et_id :: uuid
  et_company_id :: "uuid option"
  et_employee_id :: uuid
  et_from_legal_entity_id :: "uuid option"
  et_to_legal_entity_id :: uuid
  et_from_branch_id :: "uuid option"
  et_to_branch_id :: "uuid option"
  et_effective_date :: date
  et_reason :: string
  et_status :: string
  et_requested_by :: "uuid option"
  et_completed_at :: "timestamp option"

section \<open>Audit log and database\<close>

record audit_entry =
  ae_entity_type :: string
  ae_entity_id :: "uuid option"
  ae_action :: string
  ae_company_id :: "uuid option"
  ae_actor_id :: "uuid option"
  ae_actor_role :: "string option"
  ae_old_status :: "string option"
  ae_new_status :: "string option"
  ae_reason :: "string option"

record payroll_db =
  db_configs :: "compliance_config list"
  db_companies :: "company list"
  db_entities :: "legal_entity list"
  db_branches :: "branch list"
  db_employees :: "employee list"
  db_periods :: "payroll_period list"
  db_runs :: "payroll_run list"
  db_compensations :: "compensation list"
  db_salaries :: "salary_structure list"
  db_attendance :: "attendance_input list"
  db_variables :: "variable_input list"
  db_components :: "pay_component list"
  db_loans :: "advance_loan list"
  db_installments :: "loan_installment list"
  db_arrears :: "arrear list"
  db_declarations :: "investment_declaration list"
  db_ytd :: "ytd_salary list"
  db_state_rules :: "state_rule list"
  db_run_employees :: "run_employee list"
  db_payslips :: "payslip list"
  db_revisions :: "compensation_revision list"
  db_batches :: "payment_batch list"
  db_batch_items :: "batch_item list"
  db_bank_files :: "bank_file list"
  db_settlements :: "settlement list"
  db_leaves :: "leave_request list"
  db_leave_policies :: "leave_policy list"
  db_pay_cycles :: "pay_cycle list"
  db_overtime :: "overtime_entry list"
  db_overtime_policies :: "overtime_policy list"
  db_attendance_days :: "attendance_day list"
  db_shifts :: "shift list"
  db_shift_policies :: "shift_policy list"
  db_comp_offs :: "comp_off list"
  db_calendars :: "entity_calendar list"
  db_transfers :: "entity_transfer list"
  db_audit :: "audit_entry list"

definition fresh_id :: "uuid list \<Rightarrow> uuid" where
  "fresh_id ids = Suc (foldr max ids 0)"

lemma fresh_id_notin: "fresh_id ids \<notin> set ids"
proof -
  have "x \<in> set ids \<Longrightarrow> x \<le> foldr max ids 0" for x by (induction ids) auto
  then show ?thesis by (force simp: fresh_id_def)
qed

end
