(* ===== verification/Maker_Checker.thy ===== *)
theory Maker_Checker
  imports Models
begin

text \<open>
  The audit log and the dual-control policy: \<open>PayrollAuditService.log_event\<close>,
  \<open>is_maker_checker_enforced\<close>, \<open>enforce_maker_checker\<close> and the role checks of
  \<open>app/api/payroll/permissions.py\<close>, and the configuration lookup and CA sign-off of
  \<open>statutory_service.py\<close>. An operation returns its result with the committed database:
  what an exception rolls back is not in it, what was committed before the exception is.
\<close>

section \<open>Audit log\<close>

definition log_event ::
  "string \<Rightarrow> uuid option \<Rightarrow> string \<Rightarrow> uuid option \<Rightarrow> uuid option \<Rightarrow> string option \<Rightarrow> string option
    \<Rightarrow> string option \<Rightarrow> string option \<Rightarrow> payroll_db \<Rightarrow> payroll_db"
where
  "log_event entity_type entity_id action company_id actor_id actor_role before_status after_status reason db =
     db\<lparr> db_audit := db_audit db @
       [\<lparr> ae_entity_type = entity_type, ae_entity_id = entity_id, ae_action = py_upper action,
          ae_company_id = company_id, ae_actor_id = actor_id, ae_actor_role = actor_role,
          ae_old_status = before_status, ae_new_status = after_status, ae_reason = reason \<rparr>] \<rparr>"

section \<open>Roles\<close>

datatype role = SUPER_ADMIN | HR_ADMIN | IT_ADMIN | EXECUTIVE | MANAGER | OTHER_ROLE string

text \<open>
  A token's claims: None for claims that are missing or not an object. The role string is already
  parsed by \<open>RoleEnum.from_str\<close>; permissions are None when neither claim key is present.
\<close>

record claims =
  cl_role :: "role option"
  cl_permissions :: "string list option"

definition ADMIN_ROLES :: "role list" where
  "ADMIN_ROLES = [SUPER_ADMIN, HR_ADMIN, IT_ADMIN]"

definition ADMIN_OR_MANAGER_ROLES :: "role list" where
  "ADMIN_OR_MANAGER_ROLES = [SUPER_ADMIN, HR_ADMIN, IT_ADMIN, EXECUTIVE, MANAGER]"

definition require_role :: "role list \<Rightarrow> string \<Rightarrow> claims option \<Rightarrow> unit result" where
  "require_role allowed message cl =
     (case cl of
        None \<Rightarrow> Inr ()
      | Some c \<Rightarrow>
          (case cl_role c of
             None \<Rightarrow> Inr ()
           | Some r \<Rightarrow> if r \<notin> set allowed then Inl (ForbiddenException message) else Inr ()))"

definition require_admin_or_manager :: "claims option \<Rightarrow> unit result" where
  "require_admin_or_manager = require_role ADMIN_OR_MANAGER_ROLES ''Admin or Manager role required.''"

definition require_admin :: "claims option \<Rightarrow> unit result" where
  "require_admin = require_role ADMIN_ROLES ''Admin role required.''"

definition is_admin_or_manager :: "claims option \<Rightarrow> bool" where
  "is_admin_or_manager cl =
     (case cl of None \<Rightarrow> True
      | Some c \<Rightarrow> (case cl_role c of None \<Rightarrow> True | Some r \<Rightarrow> r \<in> set ADMIN_OR_MANAGER_ROLES))"

definition require_payroll_permission :: "claims option \<Rightarrow> string \<Rightarrow> unit result" where
  "require_payroll_permission cl permission =
     (case cl of
        None \<Rightarrow> Inr ()
      | Some c \<Rightarrow>
          (case cl_permissions c of
             Some ps \<Rightarrow>
               if permission \<notin> set ps \<and> ''*'' \<notin> set ps \<and> ''payroll:*'' \<notin> set ps
               then Inl (ForbiddenException ''Permission required.'') else Inr ()
           | None \<Rightarrow> require_admin_or_manager cl))"

section \<open>Maker-checker\<close>

definition is_maker_checker_enforced :: "uuid option \<Rightarrow> payroll_db \<Rightarrow> bool result" where
  "is_maker_checker_enforced company_id db =
     (case company_id of
        None \<Rightarrow> Inr False
      | Some c \<Rightarrow>
          bind_res
            (scalar_one_or_none (filter (\<lambda>cc. cc_company_id cc = Some c \<and> cc_is_active cc) (db_configs db)))
            (\<lambda>config. Inr (case config of None \<Rightarrow> False | Some cc \<Rightarrow> cc_maker_checker_enforced cc)))"

definition enforce_maker_checker ::
  "string \<Rightarrow> uuid \<Rightarrow> uuid option \<Rightarrow> uuid list \<Rightarrow> uuid option \<Rightarrow> string option \<Rightarrow> string \<Rightarrow> string option
    \<Rightarrow> payroll_db \<Rightarrow> bool result \<times> payroll_db"
where
  "enforce_maker_checker entity_type entity_id company_id maker_ids approver_id actor_role action
       before_status db =
     (case is_maker_checker_enforced company_id db of
        Inl e \<Rightarrow> (Inl e, db)
      | Inr False \<Rightarrow> (Inr False, db)
      | Inr True \<Rightarrow>
          (case approver_id of
             Some approver \<Rightarrow>
               if approver \<in> set maker_ids
               then (Inl (ForbiddenException ''MAKER_CHECKER_VIOLATION''),
                     log_event entity_type (Some entity_id) (action @ ''_REJECTED_MAKER_CHECKER'') company_id
                       (Some approver) actor_role before_status before_status
                       (Some ''Maker-checker violation'') db)
               else (Inr True,
                     log_event entity_type (Some entity_id) (action @ ''_MAKER_CHECKER_OK'') company_id
                       (Some approver) actor_role before_status before_status
                       (Some ''Dual control satisfied: approver differs from maker/processor.'') db)
           | None \<Rightarrow>
               (Inr True,
                log_event entity_type (Some entity_id) (action @ ''_MAKER_CHECKER_OK'') company_id
                  None actor_role before_status before_status
                  (Some ''Dual control satisfied: approver differs from maker/processor.'') db)))"

section \<open>Configuration\<close>

text \<open>
  \<open>get_config\<close>: the active row of the tenant or the shared row; when there is none, a row
  with the column defaults is created for the tenant.
\<close>

definition default_config :: "uuid \<Rightarrow> uuid option \<Rightarrow> compliance_config" where
  "default_config i company_id =
     \<lparr> cc_id = i, cc_company_id = company_id, cc_is_active = True, cc_maker_checker_enforced = True,
       cc_pf = \<lparr> pf_enabled = True, employee_pf_rate = 12 / 100, employer_pf_rate = 12 / 100,
         employer_eps_rate = 833 / 10000, employer_edli_rate = 5 / 1000, pf_admin_rate = 5 / 1000,
         pf_wage_ceiling = 15000, pf_on_full_basic = False \<rparr>,
       cc_esi = \<lparr> esi_enabled = True, employee_esi_rate = 75 / 10000, employer_esi_rate = 325 / 10000,
         esi_wage_ceiling = 21000, esi_pwd_wage_ceiling = 25000 \<rparr>,
       cc_labour = \<lparr> lc_labour_code_enabled = False, lc_min_basic_wage_ratio = Some (1 / 2),
         lc_excluded_allowance_components =
           Codes [''HRA'', ''CONVEYANCE'', ''OVERTIME'', ''STATUTORY_BONUS'', ''COMMISSION''] \<rparr>,
       cc_pt_state = Some ''TELANGANA'', cc_default_tax_regime = Some ''NEW'',
       cc_needs_ca_validation =
         [(''pf_rates'', True), (''esi_rates'', True), (''pt_slabs'', True), (''tds_slabs'', True),
          (''gratuity'', True), (''lwf'', True), (''labour_codes'', True)],
       cc_ca_verified_by = None, cc_ca_verified_at = None, cc_ca_certificate_ref = None,
       cc_formula_version = None \<rparr>"

definition config_visible :: "uuid option \<Rightarrow> compliance_config \<Rightarrow> bool" where
  "config_visible company_id cc \<longleftrightarrow>
     cc_is_active cc \<and>
     (case company_id of
        None \<Rightarrow> True
      | Some c \<Rightarrow> cc_company_id cc = Some c \<or> cc_company_id cc = None)"

definition get_config :: "uuid option \<Rightarrow> payroll_db \<Rightarrow> compliance_config result \<times> payroll_db" where
  "get_config company_id db =
     (case scalar_one_or_none (filter (config_visible company_id) (db_configs db)) of
        Inl e \<Rightarrow> (Inl e, db)
      | Inr (Some cc) \<Rightarrow> (Inr cc, db)
      | Inr None \<Rightarrow>
          let cc = default_config (fresh_id (map cc_id (db_configs db))) company_id
          in (Inr cc, db\<lparr> db_configs := db_configs db @ [cc] \<rparr>))"

definition CA_VALIDATION_SCOPES :: "string list" where
  "CA_VALIDATION_SCOPES =
     [''pf_rates'', ''esi_rates'', ''pt_slabs'', ''tds_slabs'', ''gratuity'', ''lwf'', ''labour_codes'']"

definition requested_scopes :: "string list \<Rightarrow> string list" where
  "requested_scopes scopes =
     (if scopes = [] then CA_VALIDATION_SCOPES else map (\<lambda>s. py_lower (py_strip s)) scopes)"

definition signed_off ::
  "uuid option \<Rightarrow> string option \<Rightarrow> string option \<Rightarrow> string list \<Rightarrow> timestamp \<Rightarrow> compliance_config
    \<Rightarrow> compliance_config"
where
  "signed_off verified_by certificate_ref formula_version requested now cc =
     cc\<lparr> cc_needs_ca_validation :=
           map (\<lambda>(scope, flag). (scope, if scope \<in> set requested then False else flag))
             (cc_needs_ca_validation cc),
         cc_ca_verified_by := (case verified_by of None \<Rightarrow> cc_ca_verified_by cc | Some u \<Rightarrow> Some u),
         cc_ca_verified_at := Some now,
         cc_ca_certificate_ref :=
           (if or_str certificate_ref [] = [] then cc_ca_certificate_ref cc
            else Some (py_strip (or_str certificate_ref []))),
         cc_formula_version :=
           (if or_str formula_version [] = [] then cc_formula_version cc
            else Some (py_strip (or_str formula_version []))) \<rparr>"

definition ca_signoff ::
  "uuid option \<Rightarrow> uuid option \<Rightarrow> string option \<Rightarrow> string option \<Rightarrow> string list \<Rightarrow> string option
    \<Rightarrow> string option \<Rightarrow> timestamp \<Rightarrow> payroll_db \<Rightarrow> compliance_config result \<times> payroll_db"
where
  "ca_signoff company_id verified_by certificate_ref formula_version scopes remarks actor_role now db =
     (let missing = HTTPException 404 ''Statutory configuration not found for this organization.''
      in case company_id of
           None \<Rightarrow> (Inl missing, db)
         | Some c \<Rightarrow>
             (case scalar_one_or_none
                     (filter (\<lambda>cc. cc_company_id cc = Some c \<and> cc_is_active cc) (db_configs db)) of
                Inl e \<Rightarrow> (Inl e, db)
              | Inr None \<Rightarrow> (Inl missing, db)
              | Inr (Some cfg) \<Rightarrow>
                  let requested = requested_scopes scopes
                  in if filter (\<lambda>s. s \<notin> set CA_VALIDATION_SCOPES) requested \<noteq> []
                     then (Inl (HTTPException 422 ''Unknown validation scope(s)''), db)
                     else
                       let cfg' = signed_off verified_by certificate_ref formula_version requested now cfg;
                           db1 = db\<lparr> db_configs :=
                                   update_where (\<lambda>cc. cc_id cc = cc_id cfg) (\<lambda>_. cfg') (db_configs db) \<rparr>
                       in (Inr cfg',
                           log_event ''StatutoryComplianceConfig'' (Some (cc_id cfg)) ''CA_SIGNOFF''
                             (cc_company_id cfg) verified_by actor_role None None
                             (Some (or_str remarks
                                      ''CA / payroll expert validation sign-off recorded'')) db1)))"

end
