(* ===== verification/Run_Lifecycle.thy ===== *)
theory Run_Lifecycle
  imports Maker_Checker
begin

text \<open>
  The life of a payroll run: \<open>app/services/payroll/run_service.py\<close> up to the calculation
  engine. Every handler is the whole method, its lookups and status guard, the maker-checker
  check, the attributes it sets and the audit row it adds. Handlers return their result with the
  committed database.
\<close>

section \<open>Lookups and updates\<close>

fun status_str :: "run_status \<Rightarrow> string" where
  "status_str DRAFT = ''DRAFT''"
| "status_str VALIDATED = ''VALIDATED''"
| "status_str PROCESSING = ''PROCESSING''"
| "status_str PROCESSED = ''PROCESSED''"
| "status_str PENDING_APPROVAL = ''PENDING_APPROVAL''"
| "status_str APPROVED = ''APPROVED''"
| "status_str LOCKED = ''LOCKED''"
| "status_str PAID = ''PAID''"
| "status_str FINALIZED = ''FINALIZED''"
| "status_str REJECTED = ''REJECTED''"
| "status_str CANCELLED = ''CANCELLED''"
| "status_str VOID = ''VOID''"
| "status_str FAILED = ''FAILED''"

definition get_run :: "uuid \<Rightarrow> uuid option \<Rightarrow> payroll_db \<Rightarrow> payroll_run result" where
  "get_run rid company_id db =
     bind_res
       (scalar_one_or_none
          (filter (\<lambda>r. run_id r = rid \<and>
             (case company_id of None \<Rightarrow> True | Some c \<Rightarrow> run_company_id r = Some c)) (db_runs db)))
       (\<lambda>run. case run of
           None \<Rightarrow> Inl (HTTPException 404 ''Payroll run not found.'')
         | Some r \<Rightarrow> Inr r)"

definition update_run :: "uuid \<Rightarrow> (payroll_run \<Rightarrow> payroll_run) \<Rightarrow> payroll_db \<Rightarrow> payroll_db" where
  "update_run rid f db = db\<lparr> db_runs := update_where (\<lambda>r. run_id r = rid) f (db_runs db) \<rparr>"

definition maker_ids_for_run :: "payroll_run \<Rightarrow> uuid list" where
  "maker_ids_for_run run =
     foldl (\<lambda>makers v. case v of None \<Rightarrow> makers
              | Some u \<Rightarrow> if u \<in> set makers then makers else makers @ [u])
       [] [run_created_by run, run_processed_by run, run_by run]"

definition log_run ::
  "payroll_run \<Rightarrow> string \<Rightarrow> uuid option \<Rightarrow> string option \<Rightarrow> run_status \<Rightarrow> string option \<Rightarrow> payroll_db \<Rightarrow> payroll_db"
where
  "log_run run action user_id user_role after_status reason db =
     log_event ''PayrollRun'' (Some (run_id run)) action (run_company_id run) user_id user_role
       (Some (status_str (run_status run))) (Some (status_str after_status)) reason db"

definition check_maker_checker ::
  "payroll_run \<Rightarrow> uuid option \<Rightarrow> string option \<Rightarrow> string \<Rightarrow> payroll_db \<Rightarrow> bool result \<times> payroll_db" where
  "check_maker_checker run user_id user_role action db =
     enforce_maker_checker ''PayrollRun'' (run_id run) (run_company_id run) (maker_ids_for_run run)
       user_id user_role action (Some (status_str (run_status run))) db"

section \<open>Transitions\<close>

definition submit_for_approval ::
  "uuid \<Rightarrow> uuid option \<Rightarrow> string option \<Rightarrow> uuid option \<Rightarrow> payroll_db \<Rightarrow> payroll_run result \<times> payroll_db"
where
  "submit_for_approval rid user_id user_role company_id db =
     (case get_run rid company_id db of
        Inl e \<Rightarrow> (Inl e, db)
      | Inr run \<Rightarrow>
          if run_status run \<noteq> PROCESSED
          then (Inl (HTTPException 409 ''Run must be PROCESSED before submission''), db)
          else
            let run' = run\<lparr> run_status := PENDING_APPROVAL \<rparr>
            in (Inr run',
                log_run run ''SUBMIT_FOR_APPROVAL'' user_id user_role PENDING_APPROVAL
                  (Some ''Payroll run submitted for approval'') (update_run rid (\<lambda>_. run') db)))"

definition mark_paid ::
  "uuid \<Rightarrow> uuid option \<Rightarrow> string option \<Rightarrow> uuid option \<Rightarrow> timestamp \<Rightarrow> payroll_db
    \<Rightarrow> payroll_run result \<times> payroll_db"
where
  "mark_paid rid user_id user_role company_id now db =
     (case get_run rid company_id db of
        Inl e \<Rightarrow> (Inl e, db)
      | Inr run \<Rightarrow>
          if run_status run \<noteq> LOCKED
          then (Inl (HTTPException 409 ''Run must be LOCKED before payment''), db)
          else
            let run' = run\<lparr> run_status := PAID, run_paid_at := Some now \<rparr>;
                db1 = update_run rid (\<lambda>_. run') db;
                db2 = db1\<lparr> db_payslips :=
                        update_where (\<lambda>p. ps_run_id p = rid)
                          (\<lambda>p. p\<lparr> ps_payment_status := ''PAID'', ps_payment_date := Some now \<rparr>)
                          (db_payslips db1) \<rparr>
            in (Inr run',
                log_run run ''MARK_PAID'' user_id user_role PAID (Some ''Payroll run marked as paid'') db2))"

definition approve_run ::
  "uuid \<Rightarrow> string option \<Rightarrow> uuid option \<Rightarrow> string option \<Rightarrow> bool \<Rightarrow> uuid option \<Rightarrow> timestamp \<Rightarrow> payroll_db
    \<Rightarrow> payroll_run result \<times> payroll_db"
where
  "approve_run rid comments user_id user_role allow_legacy company_id now db =
     (case get_run rid company_id db of
        Inl e \<Rightarrow> (Inl e, db)
      | Inr run \<Rightarrow>
          if run_status run \<notin>
               set (PENDING_APPROVAL # (if allow_legacy then [DRAFT, VALIDATED, PROCESSED] else []))
          then (Inl (HTTPException 409 ''Run must be PENDING_APPROVAL before approval''), db)
          else
            (case check_maker_checker run user_id user_role ''APPROVE'' db of
               (Inl e, db1) \<Rightarrow> (Inl e, db1)
             | (Inr _, db1) \<Rightarrow>
                 let run' = run\<lparr> run_status := APPROVED, run_approved_by := user_id,
                                 run_approved_at := Some now, run_comments := comments \<rparr>
                 in (Inr run',
                     log_run run ''APPROVE'' user_id user_role APPROVED
                       (Some (or_str comments ''Approved payroll run''))
                       (update_run rid (\<lambda>_. run') db1))))"

definition finalize_run ::
  "uuid \<Rightarrow> string option \<Rightarrow> bool \<Rightarrow> uuid option \<Rightarrow> string option \<Rightarrow> bool \<Rightarrow> uuid option \<Rightarrow> timestamp \<Rightarrow> payroll_db
    \<Rightarrow> payroll_run result \<times> payroll_db"
where
  "finalize_run rid notes lock user_id user_role legacy company_id now db =
     (case get_run rid company_id db of
        Inl e \<Rightarrow> (Inl e, db)
      | Inr run \<Rightarrow>
          if run_status run \<notin>
               set (if legacy then [APPROVED, PROCESSED, DRAFT, VALIDATED, PENDING_APPROVAL] else [APPROVED])
          then (Inl (HTTPException 409 ''Run must be APPROVED before locking''), db)
          else
            let action = (if legacy then ''FINALIZE'' else ''LOCK'')
            in case check_maker_checker run user_id user_role action db of
                 (Inl e, db1) \<Rightarrow> (Inl e, db1)
               | (Inr _, db1) \<Rightarrow>
                   let st = (if legacy then FINALIZED else if lock then LOCKED else APPROVED);
                       run' = run\<lparr> run_status := st, run_is_locked := lock, run_finalized_by := user_id,
                                   run_finalized_at := Some now, run_notes := notes \<rparr>
                   in (Inr run',
                       log_run run action user_id user_role st
                         (Some (or_str notes ''Finalized payroll run'')) (update_run rid (\<lambda>_. run') db1)))"

definition lock_run ::
  "uuid \<Rightarrow> string option \<Rightarrow> uuid option \<Rightarrow> string option \<Rightarrow> bool \<Rightarrow> uuid option \<Rightarrow> timestamp \<Rightarrow> payroll_db
    \<Rightarrow> payroll_run result \<times> payroll_db"
where
  "lock_run rid notes user_id user_role legacy company_id now db =
     finalize_run rid notes True user_id user_role legacy company_id now db"

definition closed_status :: "run_status \<Rightarrow> bool" where
  "closed_status s \<longleftrightarrow> s \<in> {FINALIZED, LOCKED, PAID}"

definition reject_run ::
  "uuid \<Rightarrow> string \<Rightarrow> string option \<Rightarrow> uuid option \<Rightarrow> string option \<Rightarrow> timestamp \<Rightarrow> payroll_db
    \<Rightarrow> payroll_run result \<times> payroll_db"
where
  "reject_run rid reason comments user_id user_role now db =
     (case get_run rid None db of
        Inl e \<Rightarrow> (Inl e, db)
      | Inr run \<Rightarrow>
          if closed_status (run_status run)
          then (Inl (HTTPException 400 ''Finalized, locked, or disbursed runs cannot be rejected.''), db)
          else
            let run' = run\<lparr> run_status := REJECTED, run_rejected_by := user_id,
                            run_rejected_at := Some now, run_rejection_reason := Some reason,
                            run_comments := comments \<rparr>
            in (Inr run',
                log_run run ''REJECT'' user_id user_role REJECTED (Some reason)
                  (update_run rid (\<lambda>_. run') db)))"

definition cancel_run ::
  "uuid \<Rightarrow> uuid option \<Rightarrow> string option \<Rightarrow> payroll_db \<Rightarrow> payroll_run result \<times> payroll_db"
where
  "cancel_run rid user_id user_role db =
     (case get_run rid None db of
        Inl e \<Rightarrow> (Inl e, db)
      | Inr run \<Rightarrow>
          if closed_status (run_status run)
          then (Inl (HTTPException 400
                       ''Finalized, locked, or disbursed payroll runs cannot be cancelled.''), db)
          else
            let run' = run\<lparr> run_status := CANCELLED \<rparr>
            in (Inr run',
                log_run run ''CANCEL'' user_id user_role CANCELLED None (update_run rid (\<lambda>_. run') db)))"

definition send_back_run ::
  "uuid \<Rightarrow> string option \<Rightarrow> string option \<Rightarrow> uuid option \<Rightarrow> string option \<Rightarrow> timestamp \<Rightarrow> payroll_db
    \<Rightarrow> payroll_run result \<times> payroll_db"
where
  "send_back_run rid reason comments user_id user_role now db =
     (case get_run rid None db of
        Inl e \<Rightarrow> (Inl e, db)
      | Inr run \<Rightarrow>
          if closed_status (run_status run)
          then (Inl (HTTPException 400 ''Finalized or locked runs cannot be sent back.''), db)
          else
            let run' = run\<lparr> run_status := DRAFT, run_sent_back_by := user_id,
                            run_sent_back_at := Some now, run_sent_back_reason := reason,
                            run_comments := comments \<rparr>
            in (Inr run',
                log_run run ''SEND_BACK'' user_id user_role DRAFT reason (update_run rid (\<lambda>_. run') db)))"

text \<open>
  The database cascades the deletion to the run's employees, payslips and payment batches, with the
  items and bank files of these; references of other rows to what is gone become null.
\<close>

definition or_gone :: "uuid set \<Rightarrow> uuid option \<Rightarrow> uuid option" where
  "or_gone gone ref = (case ref of None \<Rightarrow> None | Some i \<Rightarrow> if i \<in> gone then None else Some i)"

definition cascade_run :: "uuid \<Rightarrow> payroll_db \<Rightarrow> payroll_db" where
  "cascade_run rid db =
     (let gone = set (map pb_id (filter (\<lambda>b. pb_run_id b = rid) (db_batches db)))
      in db\<lparr> db_runs := filter (\<lambda>r. run_id r \<noteq> rid) (db_runs db),
             db_run_employees := filter (\<lambda>e. re_run_id e \<noteq> rid) (db_run_employees db),
             db_payslips := filter (\<lambda>p. ps_run_id p \<noteq> rid) (db_payslips db),
             db_batches := map (\<lambda>b. b\<lparr> pb_retry_of_batch_id := or_gone gone (pb_retry_of_batch_id b) \<rparr>)
               (filter (\<lambda>b. pb_run_id b \<noteq> rid) (db_batches db)),
             db_batch_items := map (\<lambda>i. i\<lparr> bi_repayout_batch_id := or_gone gone (bi_repayout_batch_id i) \<rparr>)
               (filter (\<lambda>i. bi_batch_id i \<notin> gone) (db_batch_items db)),
             db_bank_files := filter (\<lambda>f. bf_batch_id f \<notin> gone) (db_bank_files db),
             db_arrears := map (\<lambda>a. a\<lparr> ar_applied_run_id := or_gone {rid} (ar_applied_run_id a) \<rparr>) (db_arrears db) \<rparr>)"

definition delete_run :: "uuid \<Rightarrow> payroll_db \<Rightarrow> unit result \<times> payroll_db" where
  "delete_run rid db =
     (case get_run rid None db of
        Inl e \<Rightarrow> (Inl e, db)
      | Inr run \<Rightarrow>
          if closed_status (run_status run)
          then (Inl (HTTPException 400
                       ''Finalized, locked, or disbursed payroll runs cannot be deleted.''), db)
          else (Inr (), cascade_run rid db))"

lemma cascade_run_frame:
  "db_runs (cascade_run rid db) = filter (\<lambda>r. run_id r \<noteq> rid) (db_runs db)"
  "db_run_employees (cascade_run rid db) = filter (\<lambda>e. re_run_id e \<noteq> rid) (db_run_employees db)"
  "db_payslips (cascade_run rid db) = filter (\<lambda>p. ps_run_id p \<noteq> rid) (db_payslips db)"
  "db_audit (cascade_run rid db) = db_audit db" "db_configs (cascade_run rid db) = db_configs db"
  by (simp_all add: cascade_run_def Let_def)

text \<open>Deletion does not release the arrears of a run: they stay as they are, without a run.\<close>

lemma delete_keeps_arrears_applied:
  "map ar_status (db_arrears (snd (delete_run rid db))) = map ar_status (db_arrears db)"
  by (simp add: delete_run_def cascade_run_def Let_def comp_def split: sum.split)

section \<open>Validation and creation\<close>

definition run_employees_of :: "payroll_run \<Rightarrow> payroll_db \<Rightarrow> employee list" where
  "run_employees_of run db =
     filter (\<lambda>e. \<not> em_is_deleted e \<and>
        (case run_company_id run of None \<Rightarrow> True | Some c \<Rightarrow> em_company_id e = Some c) \<and>
        (case run_legal_entity_id run of None \<Rightarrow> True | Some l \<Rightarrow> em_legal_entity_id e = Some l))
       (db_employees db)"

definition active_compensation :: "uuid \<Rightarrow> payroll_db \<Rightarrow> compensation option result" where
  "active_compensation eid db =
     scalar_one_or_none (filter (\<lambda>c. cp_employee_id c = eid \<and> cp_status c = ''ACTIVE'') (db_compensations db))"

definition active_salary :: "uuid \<Rightarrow> payroll_db \<Rightarrow> salary_structure option result" where
  "active_salary eid db =
     scalar_one_or_none (filter (\<lambda>s. ss_employee_id s = eid \<and> ss_is_active s) (db_salaries db))"

definition employee_issues :: "employee \<Rightarrow> payroll_db \<Rightarrow> string list result" where
  "employee_issues emp db =
     bind_res (active_compensation (em_id emp) db) (\<lambda>comp.
     bind_res (case comp of Some _ \<Rightarrow> Inr True
               | None \<Rightarrow> bind_res (active_salary (em_id emp) db) (\<lambda>s. Inr (s \<noteq> None)))
       (\<lambda>has_pay.
         Inr ((if em_has_pan emp then [] else [''Missing PAN number'']) @
              (if em_has_bank_account emp then [] else [''Missing primary bank account'']) @
              (if has_pay then [] else [''No active Compensation or Salary Structure defined'']))))"

fun collect_issues :: "employee list \<Rightarrow> payroll_db \<Rightarrow> (uuid option \<times> string list) list result" where
  "collect_issues [] db = Inr []"
| "collect_issues (e # es) db =
     bind_res (employee_issues e db) (\<lambda>iss.
     bind_res (collect_issues es db) (\<lambda>rest.
       Inr (if iss = [] then rest else (Some (em_id e), iss) # rest)))"

definition validate_run :: "uuid \<Rightarrow> payroll_db \<Rightarrow> payroll_run result \<times> payroll_db" where
  "validate_run rid db =
     (case get_run rid None db of
        Inl e \<Rightarrow> (Inl e, db)
      | Inr run \<Rightarrow>
          (case collect_issues (run_employees_of run db) db of
             Inl e \<Rightarrow> (Inl e, db)
           | Inr issues \<Rightarrow>
               let run' = run\<lparr> run_validation_status := (if issues \<noteq> [] then ''WARNING'' else ''VALID''),
                               run_validation_errors := issues,
                               run_status := (if run_status run = DRAFT then VALIDATED else run_status run) \<rparr>
               in (Inr run', update_run rid (\<lambda>_. run') db)))"

record create_request =
  rq_period_id :: uuid
  rq_company_id :: "uuid option"
  rq_user_id :: "uuid option"
  rq_user_role :: "string option"
  rq_legal_entity_id :: "uuid option"
  rq_currency :: "string option"
  rq_country_code :: "string option"
  rq_fx_rate_to_base :: "dec_input option"
  rq_fx_rate_source :: "string option"
  rq_fx_rate_as_of :: "timestamp option"
  rq_statutory_rules :: country_rules

fun as_422 :: "'a result \<Rightarrow> 'a result" where
  "as_422 (Inl (ValueError m)) = Inl (HTTPException 422 m)"
| "as_422 r = r"

text \<open>The currency, country, FX rate, snapshot and rule version of a new run.\<close>

definition run_currency_terms ::
  "create_request \<Rightarrow> payroll_period \<Rightarrow> company option \<Rightarrow> timestamp
    \<Rightarrow> (string \<times> string \<times> rat \<times> fx_snapshot \<times> string) result"
where
  "run_currency_terms rq period cpny now =
     (let base = (case cpny of None \<Rightarrow> Some ''INR'' | Some c \<Rightarrow> co_currency c);
          picked = (if or_str (rq_currency rq) [] = [] then base else rq_currency rq)
      in as_422
        (bind_res (normalize_currency picked ''INR'') (\<lambda>cur.
         bind_res (normalize_country (rq_country_code rq) cur) (\<lambda>country.
         if cur \<noteq> ''INR'' \<and> rq_fx_rate_to_base rq = None
         then Inl (ValueError ''An explicit FX rate to INR is required for non-INR payroll runs.'')
         else
         bind_res (positive_fx_rate (case rq_fx_rate_to_base rq of None \<Rightarrow> Finite 1 | Some v \<Rightarrow> v)) (\<lambda>rate.
         bind_res (build_fx_snapshot (Some cur) (Some ''INR'') (Finite rate) (rq_fx_rate_source rq)
                     (rq_fx_rate_as_of rq) (Some now) now) (\<lambda>snap.
         bind_res (get_country_statutory_calculator CALCULATORS country) (\<lambda>calc.
         bind_res (calc \<lparr> csi_country_code = country, csi_currency = cur, csi_gross_paise = 0,
                          csi_basic_paise = 0, csi_period_month = pp_month period,
                          csi_period_year = pp_year period, csi_rules = rq_statutory_rules rq \<rparr>) (\<lambda>res.
           Inr (cur, country, rate, snap, csr_rule_version res)))))))))"

definition same_run_key :: "payroll_run \<Rightarrow> payroll_run \<Rightarrow> bool" where
  "same_run_key a b \<longleftrightarrow>
     run_company_id a = run_company_id b \<and> run_legal_entity_id a = run_legal_entity_id b \<and>
     run_period_month a = run_period_month b \<and> run_period_year a = run_period_year b"

definition new_run ::
  "create_request \<Rightarrow> payroll_period \<Rightarrow> uuid option \<Rightarrow> uuid option \<Rightarrow> string \<times> string \<times> rat \<times> fx_snapshot \<times> string
    \<Rightarrow> uuid \<Rightarrow> payroll_run"
where
  "new_run rq period target_company target_entity terms rid =
     (case terms of (cur, country, rate, snap, version) \<Rightarrow>
       \<lparr> run_id = rid, run_company_id = target_company, run_legal_entity_id = target_entity,
         run_period_id = Some (pp_id period), run_period_month = pp_month period,
         run_period_year = pp_year period, run_currency = cur, run_country_code = country,
         run_fx_rate_to_base = rate, run_fx_snapshot = Some snap,
         run_statutory_rules = rq_statutory_rules rq, run_statutory_rule_version = version,
         run_status = DRAFT, run_total_employees = 0, run_total_gross_paise = 0,
         run_total_deductions_paise = 0, run_total_net_paise = 0, run_total_gross_base_paise = 0,
         run_total_deductions_base_paise = 0, run_total_net_base_paise = 0, run_total_gross = 0,
         run_total_deductions = 0, run_total_net = 0, run_validation_status = ''PENDING'',
         run_validation_errors = [], run_is_locked = False, run_notes = None, run_comments = None,
         run_by = rq_user_id rq, run_created_by = rq_user_id rq, run_processed_by = None,
         run_approved_by = None, run_approved_at = None, run_finalized_by = None,
         run_finalized_at = None, run_rejected_by = None, run_rejected_at = None,
         run_rejection_reason = None, run_sent_back_by = None, run_sent_back_at = None,
         run_sent_back_reason = None, run_paid_at = None \<rparr>)"

definition create_run :: "create_request \<Rightarrow> timestamp \<Rightarrow> payroll_db \<Rightarrow> payroll_run result \<times> payroll_db" where
  "create_run rq now db =
     (case scalar_one_or_none (filter (\<lambda>p. pp_id p = rq_period_id rq) (db_periods db)) of
        Inl e \<Rightarrow> (Inl e, db)
      | Inr None \<Rightarrow> (Inl (HTTPException 404 ''Payroll period not found.''), db)
      | Inr (Some period) \<Rightarrow>
          let target_company =
                (case rq_company_id rq of Some c \<Rightarrow> Some c | None \<Rightarrow> pp_company_id period);
              target_entity =
                (case rq_legal_entity_id rq of Some l \<Rightarrow> Some l | None \<Rightarrow> pp_legal_entity_id period);
              cpny = scalars_first (filter (\<lambda>c. Some (co_id c) = target_company) (db_companies db));
              entity_ok =
                (case target_entity of
                   None \<Rightarrow> True
                 | Some l \<Rightarrow>
                     (case scalars_first (filter (\<lambda>en. le_id en = l) (db_entities db)) of
                        None \<Rightarrow> False
                      | Some en \<Rightarrow> le_company_id en = target_company \<and> le_is_active en))
          in if rq_company_id rq \<noteq> None \<and> pp_company_id period \<noteq> rq_company_id rq
             then (Inl (HTTPException 404 ''Payroll period not found.''), db)
             else if rq_legal_entity_id rq \<noteq> None \<and> pp_legal_entity_id period \<noteq> rq_legal_entity_id rq
             then (Inl (HTTPException 409 ''Payroll period belongs to a different legal entity.''), db)
             else if \<not> entity_ok
             then (Inl (HTTPException 404 ''Legal entity not found for this tenant.''), db)
             else if rq_currency rq = None \<and> (case cpny of None \<Rightarrow> Some ''INR'' | Some c \<Rightarrow> co_currency c) \<noteq> Some ''INR''
                     \<and> rq_fx_rate_to_base rq = None
             then (Inl (HTTPException 422
                          ''An explicit FX rate to INR is required for non-INR payroll runs.''), db)
             else
               (case run_currency_terms rq period cpny now of
                  Inl e \<Rightarrow> (Inl e, db)
                | Inr terms \<Rightarrow>
                    let run = new_run rq period target_company target_entity terms
                                (fresh_id (map run_id (db_runs db)))
                    in if list_ex (same_run_key run) (db_runs db) then (Inl IntegrityError, db)
                       else
                         let db1 = db\<lparr> db_runs := db_runs db @ [run] \<rparr>;
                             db2 = log_event ''PayrollRun'' (Some (run_id run)) ''CREATE''
                                     (run_company_id run) (rq_user_id rq) (rq_user_role rq) None
                                     (Some ''DRAFT'') (Some ''Created payroll run'') db1
                         in case validate_run (run_id run) db2 of
                              (Inl e, _) \<Rightarrow> (Inl e, db1)
                            | (Inr run', db3) \<Rightarrow> (Inr run', db3)))"

section \<open>A sample run and the empty database\<close>

definition sample_run_row :: "uuid \<Rightarrow> run_status \<Rightarrow> payroll_run" where
  "sample_run_row i st =
     \<lparr> run_id = i, run_company_id = Some 1, run_legal_entity_id = None, run_period_id = Some 9,
       run_period_month = 5, run_period_year = 2025, run_currency = ''INR'', run_country_code = ''IN'',
       run_fx_rate_to_base = 1, run_fx_snapshot = None,
       run_statutory_rules = \<lparr> cr_version = None, cr_employee_components = Missing,
         cr_employer_components = Missing \<rparr>,
       run_statutory_rule_version = ''IN_LEGACY_STATUTORY_SERVICE'', run_status = st,
       run_total_employees = 0, run_total_gross_paise = 0, run_total_deductions_paise = 0,
       run_total_net_paise = 0, run_total_gross_base_paise = 0, run_total_deductions_base_paise = 0,
       run_total_net_base_paise = 0, run_total_gross = 0, run_total_deductions = 0, run_total_net = 0,
       run_validation_status = ''PENDING'', run_validation_errors = [], run_is_locked = False,
       run_notes = None, run_comments = None, run_by = Some 7, run_created_by = Some 7,
       run_processed_by = None, run_approved_by = None, run_approved_at = None, run_finalized_by = None,
       run_finalized_at = None, run_rejected_by = None, run_rejected_at = None,
       run_rejection_reason = None, run_sent_back_by = None, run_sent_back_at = None,
       run_sent_back_reason = None, run_paid_at = None \<rparr>"

definition empty_db :: payroll_db where
  "empty_db =
     \<lparr> db_configs = [], db_companies = [], db_entities = [], db_branches = [], db_employees = [],
       db_periods = [], db_runs = [], db_compensations = [], db_salaries = [], db_attendance = [],
       db_variables = [], db_components = [], db_loans = [], db_installments = [], db_arrears = [],
       db_declarations = [], db_ytd = [], db_state_rules = [], db_run_employees = [], db_payslips = [],
       db_revisions = [], db_batches = [], db_batch_items = [], db_bank_files = [], db_settlements = [],
       db_leaves = [], db_leave_policies = [], db_pay_cycles = [], db_overtime = [],
       db_overtime_policies = [], db_attendance_days = [], db_shifts = [], db_shift_policies = [],
       db_comp_offs = [], db_calendars = [], db_transfers = [], db_audit = [] \<rparr>"

end
