(* ===== verification/Arrear.thy ===== *)
theory Arrear
  imports Run_Lifecycle
begin

text \<open>
  The arrear ledger: \<open>app/services/payroll/arrear_service.py\<close>. Retroactive adjustments are
  created PENDING against the next open period, claimed by the run of their period, applied by it,
  or cancelled.
\<close>

section \<open>Operations\<close>

definition ARREAR_TYPES :: "string list" where
  "ARREAR_TYPES = [''ATTENDANCE_RETRO'', ''LEAVE_REVERSAL'', ''SALARY_REVISION'']"

definition get_period :: "uuid option \<Rightarrow> payroll_db \<Rightarrow> payroll_period option" where
  "get_period pid db =
     (case pid of None \<Rightarrow> None | Some p \<Rightarrow> scalars_first (filter (\<lambda>x. pp_id x = p) (db_periods db)))"

definition period_before :: "payroll_period \<Rightarrow> payroll_period \<Rightarrow> bool" where
  "period_before a b \<longleftrightarrow> pp_year a < pp_year b \<or> pp_year a = pp_year b \<and> pp_month a < pp_month b"

fun earliest_period :: "payroll_period option \<Rightarrow> payroll_period list \<Rightarrow> payroll_period option" where
  "earliest_period best [] = best"
| "earliest_period None (p # ps) = earliest_period (Some p) ps"
| "earliest_period (Some b) (p # ps) = earliest_period (Some (if period_before p b then p else b)) ps"

definition next_open_period :: "uuid option \<Rightarrow> uuid option \<Rightarrow> payroll_db \<Rightarrow> payroll_period option" where
  "next_open_period company_id source_period_id db =
     earliest_period None
       (filter (\<lambda>p. pp_status p = ''OPEN'' \<and>
          (case company_id of None \<Rightarrow> True | Some c \<Rightarrow> pp_company_id p = Some c) \<and>
          (case get_period source_period_id db of None \<Rightarrow> True | Some src \<Rightarrow> period_before src p))
         (db_periods db))"

definition daily_rate_paise :: "uuid \<Rightarrow> payroll_db \<Rightarrow> int" where
  "daily_rate_paise eid db =
     (let monthly =
            (case scalars_first (filter (\<lambda>c. cp_employee_id c = eid \<and> cp_status c = ''ACTIVE'')
                                   (db_compensations db)) of
               None \<Rightarrow> 0
             | Some c \<Rightarrow> cp_basic_monthly_paise c + cp_hra_monthly_paise c + cp_special_allowance_monthly_paise c)
      in if monthly \<noteq> 0 then round_paise (ddiv (of_int monthly) 30)
         else
           (case scalars_first (filter (\<lambda>s. ss_employee_id s = eid \<and> ss_is_active s) (db_salaries db)) of
              None \<Rightarrow> 0
            | Some s \<Rightarrow>
                round_paise (ddiv
                  (dmul (dadd (dadd (dadd (dadd 0 (ss_basic_monthly s)) (ss_hra_monthly s))
                           (ss_special_allowance_monthly s)) (ss_conveyance_monthly s)) 100) 30)))"

record arrear_request =
  aq_employee_id :: uuid
  aq_company_id :: "uuid option"
  aq_source_period_id :: "uuid option"
  aq_target_period_id :: "uuid option"
  aq_type :: string
  aq_delta_days :: rat
  aq_amount_paise :: "int option"
  aq_daily_rate_paise :: "int option"
  aq_created_by :: "uuid option"

definition create_arrear :: "arrear_request \<Rightarrow> payroll_db \<Rightarrow> arrear result \<times> payroll_db" where
  "create_arrear q db =
     (let typ = py_upper (aq_type q)
      in if typ \<notin> set ARREAR_TYPES
         then (Inl (HTTPException 422 ''Unsupported arrear type.''), db)
         else
           let amount =
                 (case aq_amount_paise q of
                    Some a \<Rightarrow> a
                  | None \<Rightarrow>
                      round_paise (dmul (of_int (case aq_daily_rate_paise q of
                                                   Some r \<Rightarrow> r
                                                 | None \<Rightarrow> daily_rate_paise (aq_employee_id q) db))
                                     (aq_delta_days q)));
               target =
                 (case aq_target_period_id q of
                    Some t \<Rightarrow> Some t
                  | None \<Rightarrow> (case next_open_period (aq_company_id q) (aq_source_period_id q) db of
                               None \<Rightarrow> None | Some p \<Rightarrow> Some (pp_id p)));
               row = \<lparr> ar_id = fresh_id (map ar_id (db_arrears db)), ar_company_id = aq_company_id q,
                       ar_employee_id = aq_employee_id q, ar_source_period_id = aq_source_period_id q,
                       ar_target_period_id = target, ar_type = typ, ar_delta_days = aq_delta_days q,
                       ar_amount_paise = amount, ar_status = ''PENDING'', ar_applied_run_id = None,
                       ar_applied_at = None, ar_cancellation_reason = None,
                       ar_created_by = aq_created_by q \<rparr>
           in (Inr row, db\<lparr> db_arrears := db_arrears db @ [row] \<rparr>))"

text \<open>
  \<open>pending_for_run\<close> claims its rows by writing the run's period into them. A row without a
  target waits while its source period is not earlier than the run's.
\<close>

definition source_not_before :: "payroll_run \<Rightarrow> payroll_db \<Rightarrow> arrear \<Rightarrow> bool" where
  "source_not_before run db a \<longleftrightarrow>
     ar_target_period_id a = None \<and>
     (case get_period (ar_source_period_id a) db of
        None \<Rightarrow> False
      | Some src \<Rightarrow>
          run_period_year run < pp_year src \<or>
          run_period_year run = pp_year src \<and> run_period_month run \<le> pp_month src)"

definition claimable :: "payroll_run \<Rightarrow> payroll_db \<Rightarrow> arrear \<Rightarrow> bool" where
  "claimable run db a \<longleftrightarrow>
     run_period_id run \<noteq> None \<and> ar_status a = ''PENDING'' \<and>
     (ar_target_period_id a = run_period_id run \<or> ar_target_period_id a = None) \<and>
     (case run_company_id run of None \<Rightarrow> True | Some c \<Rightarrow> ar_company_id a = Some c) \<and>
     \<not> source_not_before run db a"

definition pending_for_run :: "payroll_run \<Rightarrow> payroll_db \<Rightarrow> arrear list \<times> payroll_db" where
  "pending_for_run run db =
     (let claim = (\<lambda>a. a\<lparr> ar_target_period_id := run_period_id run \<rparr>)
      in (map claim (filter (claimable run db) (db_arrears db)),
          db\<lparr> db_arrears := update_where (claimable run db) claim (db_arrears db) \<rparr>))"

definition applied :: "uuid \<Rightarrow> timestamp \<Rightarrow> arrear \<Rightarrow> arrear" where
  "applied rid now a =
     a\<lparr> ar_status := ''APPLIED'', ar_applied_run_id := Some rid, ar_applied_at := Some now \<rparr>"

definition mark_applied :: "arrear list \<Rightarrow> uuid \<Rightarrow> timestamp \<Rightarrow> payroll_db \<Rightarrow> payroll_db" where
  "mark_applied rows rid now db =
     db\<lparr> db_arrears := update_where (\<lambda>a. ar_id a \<in> ar_id ` set rows) (applied rid now) (db_arrears db) \<rparr>"

definition cancel_arrear :: "uuid \<Rightarrow> string \<Rightarrow> payroll_db \<Rightarrow> arrear result \<times> payroll_db" where
  "cancel_arrear aid reason db =
     (case scalars_first (filter (\<lambda>a. ar_id a = aid) (db_arrears db)) of
        None \<Rightarrow> (Inl (HTTPException 404 ''Arrear entry not found.''), db)
      | Some a \<Rightarrow>
          if ar_status a \<noteq> ''PENDING''
          then (Inl (HTTPException 409 ''Only pending arrears can be cancelled.''), db)
          else
            let a' = a\<lparr> ar_status := ''CANCELLED'', ar_cancellation_reason := Some reason \<rparr>
            in (Inr a', db\<lparr> db_arrears := update_where (\<lambda>x. ar_id x = aid) (\<lambda>_. a') (db_arrears db) \<rparr>))"

section \<open>Lemmas\<close>

lemma claim_id [simp]: "ar_id (a\<lparr>ar_target_period_id := t\<rparr>) = ar_id a"
  by simp

lemma applied_sel [simp]:
  "ar_id (applied r n a) = ar_id a" "ar_status (applied r n a) = ''APPLIED''"
  "ar_applied_run_id (applied r n a) = Some r" "ar_amount_paise (applied r n a) = ar_amount_paise a"
  "ar_employee_id (applied r n a) = ar_employee_id a"
  by (simp_all add: applied_def)

lemma pending_ids:
  "ar_id ` set (fst (pending_for_run run db)) = ar_id ` {a \<in> set (db_arrears db). claimable run db a}"
  by (auto simp: pending_for_run_def Let_def image_image)

lemma pending_amounts:
  "(\<Sum>a\<leftarrow>fst (pending_for_run run db). ar_amount_paise a) =
     (\<Sum>a\<leftarrow>filter (claimable run db) (db_arrears db). ar_amount_paise a)"
  by (simp add: pending_for_run_def Let_def comp_def)

definition settle_arrears :: "payroll_run \<Rightarrow> timestamp \<Rightarrow> payroll_db \<Rightarrow> payroll_db" where
  "settle_arrears run now db =
     mark_applied (fst (pending_for_run run db)) (run_id run) now (snd (pending_for_run run db))"

lemma settle_arrears_rows:
  assumes "distinct (map ar_id (db_arrears db))"
  shows "db_arrears (settle_arrears run now db) =
    map (\<lambda>a. if claimable run db a
              then applied (run_id run) now (a\<lparr>ar_target_period_id := run_period_id run\<rparr>) else a)
      (db_arrears db)"
proof -
  have key: "ar_id a \<in> ar_id ` {b \<in> set (db_arrears db). claimable run db b} \<longleftrightarrow> claimable run db a"
    if "a \<in> set (db_arrears db)" for a
    using that assms by (auto simp: distinct_map inj_on_def)
  show ?thesis
    unfolding settle_arrears_def mark_applied_def pending_ids
    by (auto simp: pending_for_run_def Let_def update_where_def key)
qed

section \<open>Properties\<close>

text \<open>
  An arrear is paid by at most one run. Once a run has claimed and applied its pending
  arrears, none of them can be claimed again by any run, each records the run that applied it with
  its amount unchanged, and every other row of the ledger is untouched.
\<close>

theorem arrears_applied_once:
  assumes "distinct (map ar_id (db_arrears db))" "a \<in> set (db_arrears db)"
  shows "(claimable run db a \<longrightarrow>
            (\<exists>b \<in> set (db_arrears (settle_arrears run now db)).
               ar_id b = ar_id a \<and> ar_status b = ''APPLIED'' \<and> ar_applied_run_id b = Some (run_id run) \<and>
               ar_amount_paise b = ar_amount_paise a)) \<and>
         (\<not> claimable run db a \<longrightarrow> a \<in> set (db_arrears (settle_arrears run now db))) \<and>
         (\<forall>b \<in> set (db_arrears (settle_arrears run now db)).
            ar_id b = ar_id a \<and> claimable run db a \<longrightarrow>
            \<not> claimable run' (settle_arrears run now db) b)"
proof -
  note rows = settle_arrears_rows [OF assms(1), of run now]
  have same: "c = a" if "c \<in> set (db_arrears db)" "ar_id c = ar_id a" for c
    using that assms by (auto simp: distinct_map inj_on_def)
  have 1: "\<exists>b \<in> set (db_arrears (settle_arrears run now db)).
      ar_id b = ar_id a \<and> ar_status b = ''APPLIED'' \<and> ar_applied_run_id b = Some (run_id run) \<and>
      ar_amount_paise b = ar_amount_paise a" if "claimable run db a"
    using that assms(2) unfolding rows
    by (intro bexI [of _ "applied (run_id run) now (a\<lparr>ar_target_period_id := run_period_id run\<rparr>)"])
      (auto simp: image_iff intro!: bexI [of _ a])
  have 2: "a \<in> set (db_arrears (settle_arrears run now db))" if "\<not> claimable run db a"
    using that assms(2) unfolding rows by (auto simp: image_iff intro!: bexI [of _ a])
  have 3: "\<not> claimable run' (settle_arrears run now db) b"
    if b: "b \<in> set (db_arrears (settle_arrears run now db))" "ar_id b = ar_id a" "claimable run db a" for b
  proof -
    obtain c where c: "c \<in> set (db_arrears db)" "b = (if claimable run db c
        then applied (run_id run) now (c\<lparr>ar_target_period_id := run_period_id run\<rparr>) else c)"
      using b(1) unfolding rows by auto
    then have "ar_id c = ar_id a" using b(2) by (auto split: if_splits)
    then have "c = a" using c(1) by (rule same [rotated])
    then have "ar_status b = ''APPLIED''" using c(2) b(3) by simp
    then show ?thesis by (simp add: claimable_def)
  qed
  show ?thesis using 1 2 3 by blast
qed

definition sample_arrear :: arrear where
  "sample_arrear =
     \<lparr> ar_id = 5, ar_company_id = Some 1, ar_employee_id = 4, ar_source_period_id = None,
       ar_target_period_id = None, ar_type = ''SALARY_REVISION'', ar_delta_days = 0,
       ar_amount_paise = 70000, ar_status = ''PENDING'', ar_applied_run_id = None, ar_applied_at = None,
       ar_cancellation_reason = None, ar_created_by = None \<rparr>"

lemma arrears_applied_once_witness:
  "\<exists>b \<in> set (db_arrears (settle_arrears (sample_run_row 1 VALIDATED) 50 (empty_db\<lparr> db_arrears := [sample_arrear] \<rparr>))).
     ar_id b = 5 \<and> ar_status b = ''APPLIED'' \<and> ar_applied_run_id b = Some 1 \<and> ar_amount_paise b = 70000"
proof -
  let ?run = "sample_run_row 1 VALIDATED" and ?db = "empty_db\<lparr> db_arrears := [sample_arrear] \<rparr>"
  have "claimable ?run ?db sample_arrear"
    by (simp add: claimable_def source_not_before_def sample_run_row_def sample_arrear_def get_period_def)
  then show ?thesis
    using arrears_applied_once [of ?db sample_arrear ?run 50]
    by (auto simp: sample_arrear_def sample_run_row_def)
qed

end
