(* ===== verification/Advance.thy ===== *)
theory Advance
  imports Run_Lifecycle
begin

text \<open>
  Recovery of salary advances and loans: \<open>_advance_deduction_for_employee\<close> of
  \<open>app/services/payroll/run_service.py\<close>. A loan is charged at most once per period; the
  instalment row, the balance, the counter and the loan's status change together.
\<close>

section \<open>Operations\<close>

definition loan_visible :: "payroll_run \<Rightarrow> uuid \<Rightarrow> advance_loan \<Rightarrow> bool" where
  "loan_visible run eid l \<longleftrightarrow>
     al_employee_id l = eid \<and> al_status l = ''ACTIVE'' \<and>
     (case run_company_id run of
        None \<Rightarrow> True
      | Some c \<Rightarrow> al_company_id l = Some c \<or> al_company_id l = None)"

definition period_installments :: "payroll_run \<Rightarrow> advance_loan \<Rightarrow> payroll_db \<Rightarrow> loan_installment list" where
  "period_installments run l db =
     filter (\<lambda>i. li_loan_id i = al_id l \<and> li_period_month i = run_period_month run \<and>
                  li_period_year i = run_period_year run) (db_installments db)"

definition before_start :: "payroll_run \<Rightarrow> advance_loan \<Rightarrow> bool" where
  "before_start run l \<longleftrightarrow>
     run_period_year run < al_start_from_year l \<or>
     run_period_year run = al_start_from_year l \<and> run_period_month run < al_start_from_month l"

text \<open>The amount to charge; None is each of the \<open>continue\<close>s.\<close>

definition loan_charge :: "payroll_run \<Rightarrow> advance_loan \<Rightarrow> loan_installment option \<Rightarrow> rat option" where
  "loan_charge run l inst =
     (if before_start run l then None
      else if al_total_installments l \<le> al_installments_paid l then None
      else if (case inst of None \<Rightarrow> False | Some i \<Rightarrow> py_upper (li_status i) = ''DEDUCTED'') then None
      else
        let outstanding = al_outstanding_balance l;
            amount0 = (case inst of Some i \<Rightarrow> li_emi_amount i | None \<Rightarrow> min (al_emi_amount l) outstanding);
            amount = (if 0 < outstanding then min amount0 outstanding else 0)
        in if amount \<le> 0 then None else Some amount)"

definition charged_loan :: "advance_loan \<Rightarrow> rat \<Rightarrow> advance_loan" where
  "charged_loan l amount =
     (let balance = max 0 (dsub (al_outstanding_balance l) amount);
          paid = al_installments_paid l + 1
      in l\<lparr> al_outstanding_balance := balance, al_installments_paid := paid,
            al_status := (if balance \<le> 0 \<or> al_total_installments l \<le> paid then ''CLOSED'' else al_status l) \<rparr>)"

definition charged_installment :: "advance_loan \<Rightarrow> rat \<Rightarrow> loan_installment \<Rightarrow> loan_installment" where
  "charged_installment l amount i =
     i\<lparr> li_emi_amount := amount, li_balance_after := max 0 (dsub (al_outstanding_balance l) amount),
        li_status := ''DEDUCTED'' \<rparr>"

definition apply_charge ::
  "payroll_run \<Rightarrow> advance_loan \<Rightarrow> loan_installment option \<Rightarrow> rat \<Rightarrow> payroll_db \<Rightarrow> payroll_db" where
  "apply_charge run l inst amount db =
     db\<lparr> db_installments :=
           (case inst of
              Some i \<Rightarrow> update_where (\<lambda>x. li_id x = li_id i) (charged_installment l amount) (db_installments db)
            | None \<Rightarrow> db_installments db @
                [charged_installment l amount
                   \<lparr> li_id = fresh_id (map li_id (db_installments db)), li_loan_id = al_id l,
                     li_period_month = run_period_month run, li_period_year = run_period_year run,
                     li_emi_amount = amount, li_balance_after = 0, li_status = ''PENDING'' \<rparr>]),
         db_loans := update_where (\<lambda>x. al_id x = al_id l) (\<lambda>x. charged_loan x amount) (db_loans db) \<rparr>"

definition charge_loan :: "payroll_run \<Rightarrow> advance_loan \<Rightarrow> payroll_db \<Rightarrow> (int \<times> payroll_db) result" where
  "charge_loan run l db =
     (if before_start run l \<or> al_total_installments l \<le> al_installments_paid l
      then Inr (0, db)
      else bind_res (scalar_one_or_none (period_installments run l db)) (\<lambda>inst.
        case loan_charge run l inst of
          None \<Rightarrow> Inr (0, db)
        | Some amount \<Rightarrow> Inr (round_paise (dmul amount 100), apply_charge run l inst amount db)))"

fun charge_loans :: "payroll_run \<Rightarrow> advance_loan list \<Rightarrow> payroll_db \<Rightarrow> (int \<times> payroll_db) result" where
  "charge_loans run [] db = Inr (0, db)"
| "charge_loans run (l # ls) db =
     bind_res (charge_loan run l db) (\<lambda>(a, db1).
     bind_res (charge_loans run ls db1) (\<lambda>(b, db2). Inr (a + b, db2)))"

definition advance_deduction_for_employee ::
  "payroll_run \<Rightarrow> uuid \<Rightarrow> payroll_db \<Rightarrow> (int \<times> payroll_db) result" where
  "advance_deduction_for_employee run eid db =
     charge_loans run (filter (loan_visible run eid) (db_loans db)) db"

section \<open>A charge touches one loan\<close>

definition loans_wf :: "payroll_db \<Rightarrow> bool" where
  "loans_wf db \<longleftrightarrow> distinct (map al_id (db_loans db)) \<and> distinct (map li_id (db_installments db))"

lemma charged_sel [simp]:
  "al_id (charged_loan l a) = al_id l" "al_employee_id (charged_loan l a) = al_employee_id l"
  "al_company_id (charged_loan l a) = al_company_id l" "al_emi_amount (charged_loan l a) = al_emi_amount l"
  "li_id (charged_installment l a i) = li_id i" "li_loan_id (charged_installment l a i) = li_loan_id i"
  "li_period_month (charged_installment l a i) = li_period_month i"
  "li_period_year (charged_installment l a i) = li_period_year i"
  "li_status (charged_installment l a i) = ''DEDUCTED''"
  "li_emi_amount (charged_installment l a i) = a"
  by (simp_all add: charged_loan_def charged_installment_def Let_def)

lemma loans_wf_apply: "loans_wf db \<Longrightarrow> loans_wf (apply_charge run l inst a db)"
  using fresh_id_notin [of "map li_id (db_installments db)"]
  by (auto simp: loans_wf_def apply_charge_def map_update_where split: option.splits)

lemma scalar_in: "scalar_one_or_none xs = Inr (Some x) \<Longrightarrow> x \<in> set xs"
  by (simp add: scalar_one_or_none_Inr_Some)

lemma period_installments_apply_same:
  assumes "scalar_one_or_none (period_installments run l db) = Inr inst" "al_id x = al_id l"
  shows "\<exists>i. period_installments run x (apply_charge run l inst a db) = [i] \<and> li_status i = ''DEDUCTED''"
proof (cases inst)
  case None
  then have "period_installments run x db = []"
    using assms by (simp add: scalar_one_or_none_Inr_None period_installments_def)
  then show ?thesis using None assms(2) by (simp add: period_installments_def apply_charge_def)
next
  case (Some i)
  then have "period_installments run x db = [i]"
    using assms by (simp add: scalar_one_or_none_Inr_Some period_installments_def)
  moreover have "period_installments run x (apply_charge run l inst a db) =
      update_where (\<lambda>y. li_id y = li_id i) (charged_installment l a) (period_installments run x db)"
    using Some by (simp add: period_installments_def apply_charge_def filter_update_where)
  ultimately show ?thesis by simp
qed

lemma period_installments_apply_other:
  assumes "scalar_one_or_none (period_installments run l db) = Inr inst" "al_id x \<noteq> al_id l" "loans_wf db"
  shows "period_installments run x (apply_charge run l inst a db) = period_installments run x db"
proof (cases inst)
  case None
  then show ?thesis using assms(2) by (simp add: period_installments_def apply_charge_def)
next
  case (Some i)
  have "i \<in> set (period_installments run l db)" by (rule scalar_in) (use assms(1) Some in simp)
  then have i: "i \<in> set (db_installments db)" "li_loan_id i = al_id l"
    by (auto simp: period_installments_def)
  have "li_id y \<noteq> li_id i" if "y \<in> set (period_installments run x db)" for y
  proof
    assume "li_id y = li_id i"
    moreover have "y \<in> set (db_installments db)" using that by (simp add: period_installments_def)
    ultimately have "y = i" using i(1) assms(3) by (auto simp: loans_wf_def distinct_map inj_on_def)
    then show False using that i(2) assms(2) by (simp add: period_installments_def)
  qed
  moreover have "period_installments run x (apply_charge run l inst a db) =
      update_where (\<lambda>y. li_id y = li_id i) (charged_installment l a) (period_installments run x db)"
    using Some by (simp add: period_installments_def apply_charge_def filter_update_where)
  ultimately show ?thesis by (simp add: update_where_none)
qed

section \<open>A second pass is quiet\<close>

definition quiet :: "payroll_run \<Rightarrow> advance_loan \<Rightarrow> payroll_db \<Rightarrow> bool" where
  "quiet run x db \<longleftrightarrow>
     before_start run x \<or> al_total_installments x \<le> al_installments_paid x \<or>
     (\<exists>inst. scalar_one_or_none (period_installments run x db) = Inr inst \<and> loan_charge run x inst = None)"

lemma quiet_charge: "quiet run x db \<Longrightarrow> charge_loan run x db = Inr (0, db)"
  by (auto simp: quiet_def charge_loan_def)

lemma charge_loan_cases:
  assumes "charge_loan run l db = Inr (a, db1)"
  shows "a = 0 \<and> db1 = db \<and> quiet run l db \<or>
    (\<exists>inst amount. scalar_one_or_none (period_installments run l db) = Inr inst \<and>
       loan_charge run l inst = Some amount \<and> a = round_paise (dmul amount 100) \<and>
       db1 = apply_charge run l inst amount db)"
proof (cases "before_start run l \<or> al_total_installments l \<le> al_installments_paid l")
  case True
  then show ?thesis using assms by (auto simp: charge_loan_def quiet_def)
next
  case False
  then have "bind_res (scalar_one_or_none (period_installments run l db)) (\<lambda>inst.
      case loan_charge run l inst of None \<Rightarrow> Inr (0, db)
       | Some amount \<Rightarrow> Inr (round_paise (dmul amount 100), apply_charge run l inst amount db)) = Inr (a, db1)"
    using assms by (simp add: charge_loan_def)
  note step = this
  show ?thesis
  proof (cases "scalar_one_or_none (period_installments run l db)")
    case (Inl e)
    then show ?thesis using step by simp
  next
    case (Inr inst)
    show ?thesis
    proof (cases "loan_charge run l inst")
      case None
      then show ?thesis using step Inr by (auto simp: quiet_def)
    next
      case (Some amount)
      then show ?thesis using step Inr by auto
    qed
  qed
qed

lemma charge_loan_effect:
  assumes "charge_loan run l db = Inr (a, db1)" "loans_wf db" "l \<in> set (db_loans db)"
  shows "loans_wf db1 \<and> map al_id (db_loans db1) = map al_id (db_loans db) \<and>
    (\<forall>x \<in> set (db_loans db1). al_id x = al_id l \<longrightarrow> quiet run x db1) \<and>
    (\<forall>x \<in> set (db_loans db1). al_id x \<noteq> al_id l \<longrightarrow> x \<in> set (db_loans db)) \<and>
    (\<forall>x \<in> set (db_loans db). al_id x \<noteq> al_id l \<longrightarrow> x \<in> set (db_loans db1)) \<and>
    (\<forall>x. al_id x \<noteq> al_id l \<longrightarrow> quiet run x db1 = quiet run x db)"
  using charge_loan_cases [OF assms(1)]
proof
  assume same: "a = 0 \<and> db1 = db \<and> quiet run l db"
  have "x = l" if "x \<in> set (db_loans db)" "al_id x = al_id l" for x
    using that assms(2,3) by (auto simp: loans_wf_def distinct_map inj_on_def)
  then show ?thesis using same assms(2) by auto
next
  assume "\<exists>inst amount. scalar_one_or_none (period_installments run l db) = Inr inst \<and>
     loan_charge run l inst = Some amount \<and> a = round_paise (dmul amount 100) \<and>
     db1 = apply_charge run l inst amount db"
  then obtain inst amount where inst: "scalar_one_or_none (period_installments run l db) = Inr inst"
    and db1: "db1 = apply_charge run l inst amount db" by blast
  have loans: "db_loans db1 = update_where (\<lambda>x. al_id x = al_id l) (\<lambda>x. charged_loan x amount) (db_loans db)"
    by (simp add: db1 apply_charge_def)
  have "quiet run x db1" if x: "al_id x = al_id l" for x
  proof -
    obtain i where "period_installments run x db1 = [i]" "li_status i = ''DEDUCTED''"
      using period_installments_apply_same [OF inst x] unfolding db1 by blast
    moreover have "py_upper ''DEDUCTED'' = ''DEDUCTED''" by code_simp
    ultimately show ?thesis unfolding quiet_def
      by (intro disjI2 exI [of _ "Some i"]) (simp add: loan_charge_def)
  qed
  moreover have "quiet run x db1 = quiet run x db" if "al_id x \<noteq> al_id l" for x
    using period_installments_apply_other [OF inst that assms(2)] unfolding db1 quiet_def by simp
  moreover have "loans_wf db1" unfolding db1 by (rule loans_wf_apply [OF assms(2)])
  ultimately show ?thesis
    by (auto simp: loans map_update_where in_set_update_where)
qed

lemma charge_loans_quiet:
  assumes "charge_loans run ls db = Inr (t, db')" "loans_wf db" "set ls \<subseteq> set (db_loans db)"
    "distinct (map al_id ls)"
  shows "loans_wf db' \<and> map al_id (db_loans db') = map al_id (db_loans db) \<and>
    (\<forall>x \<in> set (db_loans db'). al_id x \<in> al_id ` set ls \<longrightarrow> quiet run x db') \<and>
    (\<forall>x \<in> set (db_loans db'). al_id x \<notin> al_id ` set ls \<longrightarrow> x \<in> set (db_loans db)) \<and>
    (\<forall>x. al_id x \<notin> al_id ` set ls \<longrightarrow> quiet run x db' = quiet run x db)"
  using assms
proof (induction ls arbitrary: db t)
  case (Cons l ls)
  then obtain a db1 b where a: "charge_loan run l db = Inr (a, db1)"
    and b: "charge_loans run ls db1 = Inr (b, db')" by (auto simp: bind_res_Inr_iff)
  have l: "l \<in> set (db_loans db)" and nl: "al_id l \<notin> al_id ` set ls" using Cons.prems by auto
  note e = charge_loan_effect [OF a Cons.prems(2) l]
  have "set ls \<subseteq> set (db_loans db1)"
  proof
    fix x assume x: "x \<in> set ls"
    then have "al_id x \<noteq> al_id l" using nl by (metis image_eqI)
    then show "x \<in> set (db_loans db1)" using x e Cons.prems(3) by auto
  qed
  then have ih: "loans_wf db' \<and> map al_id (db_loans db') = map al_id (db_loans db1) \<and>
    (\<forall>x \<in> set (db_loans db'). al_id x \<in> al_id ` set ls \<longrightarrow> quiet run x db') \<and>
    (\<forall>x \<in> set (db_loans db'). al_id x \<notin> al_id ` set ls \<longrightarrow> x \<in> set (db_loans db1)) \<and>
    (\<forall>x. al_id x \<notin> al_id ` set ls \<longrightarrow> quiet run x db' = quiet run x db1)"
    using Cons.IH [OF b] e Cons.prems(4) by auto
  have q: "quiet run x db'" if "x \<in> set (db_loans db')" "al_id x = al_id l" for x
    using ih e that nl by metis
  show ?case
  proof (intro conjI ballI allI impI)
    show "loans_wf db'" using ih by blast
    show "map al_id (db_loans db') = map al_id (db_loans db)" using ih e by simp
    fix x :: advance_loan assume x: "x \<in> set (db_loans db')"
    { assume "al_id x \<in> al_id ` set (l # ls)"
      then show "quiet run x db'" using q ih x by auto }
    { assume "al_id x \<notin> al_id ` set (l # ls)"
      then show "x \<in> set (db_loans db)" using ih e x by auto }
  next
    fix x :: advance_loan assume "al_id x \<notin> al_id ` set (l # ls)"
    then show "quiet run x db' = quiet run x db" using ih e by auto
  qed
qed auto

lemma charge_loans_all_quiet: "\<forall>x \<in> set ls. quiet run x db \<Longrightarrow> charge_loans run ls db = Inr (0, db)"
  by (induction ls) (auto simp: quiet_charge)

lemma visible_other_filter:
  "distinct (map al_id (db_loans db)) \<Longrightarrow> x \<in> set (db_loans db) \<Longrightarrow> loan_visible run e x \<Longrightarrow>
     al_id x \<in> al_id ` set (filter (loan_visible run e) (db_loans db))"
  by simp

section \<open>Properties\<close>

text \<open>
  C34: an advance or loan is recovered at most once per period. Running the deduction a second time
  for the same run and employee, as a retried calculation does, charges nothing and changes nothing.
\<close>

theorem advance_charged_once_per_period:
  assumes "advance_deduction_for_employee run e db = Inr (t, db')" "loans_wf db"
  shows "advance_deduction_for_employee run e db' = Inr (0, db')"
proof -
  define ls where "ls = filter (loan_visible run e) (db_loans db)"
  have ls: "set ls \<subseteq> set (db_loans db)" "distinct (map al_id ls)"
    using assms(2) by (auto simp: ls_def loans_wf_def distinct_map_filter)
  have c: "charge_loans run ls db = Inr (t, db')"
    using assms(1) by (simp add: advance_deduction_for_employee_def ls_def)
  note q = charge_loans_quiet [OF c assms(2) ls]
  have "quiet run x db'" if x: "x \<in> set (db_loans db')" "loan_visible run e x" for x
  proof (cases "al_id x \<in> al_id ` set ls")
    case True
    then show ?thesis using q x by blast
  next
    case False
    then have "x \<in> set (db_loans db)" using q x by blast
    then have "x \<in> set ls" using x(2) by (simp add: ls_def)
    then show ?thesis using False by blast
  qed
  then show ?thesis unfolding advance_deduction_for_employee_def by (intro charge_loans_all_quiet) auto
qed

definition sample_loan :: advance_loan where
  "sample_loan =
     \<lparr> al_id = 3, al_company_id = Some 1, al_employee_id = 4, al_outstanding_balance = 2500,
       al_emi_amount = 100050 / 100, al_total_installments = 5, al_installments_paid = 1,
       al_start_from_month = 4, al_start_from_year = 2025, al_status = ''ACTIVE'' \<rparr>"

definition sample_loan_db :: payroll_db where
  "sample_loan_db = empty_db\<lparr> db_loans := [sample_loan] \<rparr>"

definition sample_loan_db' :: payroll_db where
  "sample_loan_db' = snd (projr (advance_deduction_for_employee (sample_run_row 1 VALIDATED) 4 sample_loan_db))"

lemma sample_loan_run:
  "advance_deduction_for_employee (sample_run_row 1 VALIDATED) 4 sample_loan_db = Inr (100050, sample_loan_db')"
proof -
  have "isl (advance_deduction_for_employee (sample_run_row 1 VALIDATED) 4 sample_loan_db) = False"
    "fst (projr (advance_deduction_for_employee (sample_run_row 1 VALIDATED) 4 sample_loan_db)) = 100050"
    by code_simp+
  then show ?thesis unfolding sample_loan_db'_def
    by (cases "advance_deduction_for_employee (sample_run_row 1 VALIDATED) 4 sample_loan_db") auto
qed

theorem advance_charged_once_per_period_witness:
  "advance_deduction_for_employee (sample_run_row 1 VALIDATED) 4 sample_loan_db' = Inr (0, sample_loan_db')"
  by (rule advance_charged_once_per_period [OF sample_loan_run])
    (simp add: loans_wf_def sample_loan_db_def empty_db_def)

section \<open>Conservation\<close>

text \<open>Amounts of the loan tables are whole paise below \<open>10 ^ 22\<close> (Numeric(14, 2) columns).\<close>

definition whole_paise :: "rat \<Rightarrow> bool" where
  "whole_paise x \<longleftrightarrow> (\<exists>n. x = of_int n / 100 \<and> \<bar>n\<bar> < 10 ^ 24)"

definition loans_paise :: "payroll_db \<Rightarrow> bool" where
  "loans_paise db \<longleftrightarrow>
     (\<forall>l \<in> set (db_loans db). whole_paise (al_outstanding_balance l) \<and> 0 \<le> al_outstanding_balance l \<and>
                               whole_paise (al_emi_amount l)) \<and>
     (\<forall>i \<in> set (db_installments db). whole_paise (li_emi_amount i))"

definition total_outstanding :: "payroll_db \<Rightarrow> rat" where
  "total_outstanding db = (\<Sum>l\<leftarrow>db_loans db. al_outstanding_balance l)"

lemma whole_paise_min: "whole_paise x \<Longrightarrow> whole_paise y \<Longrightarrow> whole_paise (min x y)"
  by (simp add: min_def)

lemma whole_paise_rep: "\<bar>n\<bar> < 10 ^ 28 \<Longrightarrow> dec_rep (of_int n / 100)"
  by (intro dec_rep_div100 dec_rep_of_int)

lemma loan_charge_amount:
  assumes "loan_charge run l inst = Some a" "whole_paise (al_outstanding_balance l)"
    "whole_paise (al_emi_amount l)" "\<And>i. inst = Some i \<Longrightarrow> whole_paise (li_emi_amount i)"
  shows "0 < a" "a \<le> al_outstanding_balance l" "whole_paise a"
  using assms
  by (auto simp: loan_charge_def Let_def whole_paise_min split: if_splits option.splits)

lemma charge_exact:
  assumes "whole_paise x" "whole_paise a" "0 < a" "a \<le> x"
  shows "max 0 (dsub x a) = x - a" "whole_paise (x - a)" "rat_of_int (round_paise (dmul a 100)) / 100 = a"
proof -
  obtain m n where m: "x = of_int m / 100" "\<bar>m\<bar> < 10 ^ 24" and n: "a = of_int n / 100" "\<bar>n\<bar> < 10 ^ 24"
    using assms by (auto simp: whole_paise_def)
  have d: "x - a = of_int (m - n) / 100" by (simp add: m n diff_divide_distrib)
  have n0: "0 < n" "n \<le> m" using assms(3,4) by (simp_all add: m n divide_right_mono divide_le_cancel)
  then have b: "\<bar>m - n\<bar> < 10 ^ 24" using m n by linarith
  show "whole_paise (x - a)" using d b unfolding whole_paise_def by blast
  have "dsub x a = x - a"
    unfolding dsub_def by (rule dec_ctx_rep, unfold d, rule whole_paise_rep) (use b in simp)
  then show "max 0 (dsub x a) = x - a" using assms(4) by simp
  have "dec_rep (of_int n / 100)" using n(2) by (intro whole_paise_rep) simp
  then have "dmul a 100 = of_int n" unfolding n(1) by (simp add: dmul_100_exact)
  then show "rat_of_int (round_paise (dmul a 100)) / 100 = a" by (simp add: n)
qed

lemma sum_update_one:
  fixes f :: "'a \<Rightarrow> rat"
  assumes "distinct (map k xs)" "l \<in> set xs"
  shows "(\<Sum>x\<leftarrow>update_where (\<lambda>x. k x = k l) g xs. f x) = (\<Sum>x\<leftarrow>xs. f x) - f l + f (g l)"
  using assms
proof (induction xs)
  case (Cons y ys)
  show ?case
  proof (cases "y = l")
    case True
    have "k x \<noteq> k l" if "x \<in> set ys" for x
      using that Cons.prems(1) True by (metis distinct.simps(2) image_eqI list.set_map list.simps(9))
    then have "update_where (\<lambda>x. k x = k l) g ys = ys" by (rule update_where_none)
    then show ?thesis using True by simp
  next
    case False
    then have "k y \<noteq> k l" "l \<in> set ys" using Cons.prems by (auto simp: image_iff)
    then show ?thesis using Cons by simp
  qed
qed simp

lemma charge_loan_conserves:
  assumes "charge_loan run l db = Inr (t, db1)" "loans_wf db" "loans_paise db" "l \<in> set (db_loans db)"
  shows "loans_paise db1 \<and> 0 \<le> t \<and> total_outstanding db - total_outstanding db1 = of_int t / 100"
  using charge_loan_cases [OF assms(1)]
proof
  assume "t = 0 \<and> db1 = db \<and> quiet run l db"
  then show ?thesis using assms(3) by simp
next
  assume "\<exists>inst amount. scalar_one_or_none (period_installments run l db) = Inr inst \<and>
     loan_charge run l inst = Some amount \<and> t = round_paise (dmul amount 100) \<and>
     db1 = apply_charge run l inst amount db"
  then obtain inst a where inst: "scalar_one_or_none (period_installments run l db) = Inr inst"
    and a: "loan_charge run l inst = Some a" and t: "t = round_paise (dmul a 100)"
    and db1: "db1 = apply_charge run l inst a db" by blast
  have wi: "whole_paise (li_emi_amount i)" if "inst = Some i" for i
  proof -
    have "i \<in> set (period_installments run l db)" by (rule scalar_in) (use inst that in simp)
    then show ?thesis using assms(3) by (simp add: period_installments_def loans_paise_def)
  qed
  have wl: "whole_paise (al_outstanding_balance l)" "whole_paise (al_emi_amount l)"
    using assms(3,4) by (auto simp: loans_paise_def)
  note am = loan_charge_amount [OF a wl wi]
  note ex = charge_exact [OF wl(1) am(3,1,2)]
  have out: "al_outstanding_balance (charged_loan l a) = al_outstanding_balance l - a"
    using ex(1) by (simp add: charged_loan_def Let_def)
  have loans: "db_loans db1 = update_where (\<lambda>x. al_id x = al_id l) (\<lambda>x. charged_loan x a) (db_loans db)"
    by (simp add: db1 apply_charge_def)
  have only: "x = l" if "x \<in> set (db_loans db)" "al_id x = al_id l" for x
    using that assms(2,4) by (auto simp: loans_wf_def distinct_map inj_on_def)
  have "total_outstanding db1 = total_outstanding db - al_outstanding_balance l + (al_outstanding_balance l - a)"
    unfolding total_outstanding_def loans
    using assms(2,4) by (subst sum_update_one) (auto simp: loans_wf_def out)
  moreover have "rat_of_int t / 100 = a" using ex(3) by (simp add: t)
  moreover have "0 \<le> t" using am(1) unfolding t by (intro round_paise_nonneg dmul_nonneg) auto
  moreover have "loans_paise db1"
  proof -
    have "whole_paise (al_outstanding_balance y) \<and> 0 \<le> al_outstanding_balance y \<and> whole_paise (al_emi_amount y)"
      if y: "y \<in> set (db_loans db1)" for y
    proof -
      obtain x where x: "x \<in> set (db_loans db)" "y = (if al_id x = al_id l then charged_loan x a else x)"
        using y unfolding loans in_set_update_where by blast
      show ?thesis
      proof (cases "al_id x = al_id l")
        case True
        then have "y = charged_loan l a" using x only by auto
        then show ?thesis using out ex(2) wl am by simp
      next
        case False
        then show ?thesis using x assms(3) by (simp add: loans_paise_def)
      qed
    qed
    moreover have "whole_paise (li_emi_amount i)" if "i \<in> set (db_installments db1)" for i
      using that assms(3) am(3)
      by (auto simp: db1 apply_charge_def in_set_update_where loans_paise_def split: option.splits if_splits)
    ultimately show ?thesis by (simp add: loans_paise_def)
  qed
  ultimately show ?thesis by simp
qed

lemma charge_loans_conserves:
  assumes "charge_loans run ls db = Inr (t, db')" "loans_wf db" "loans_paise db"
    "set ls \<subseteq> set (db_loans db)" "distinct (map al_id ls)"
  shows "loans_paise db' \<and> 0 \<le> t \<and> total_outstanding db - total_outstanding db' = of_int t / 100"
  using assms
proof (induction ls arbitrary: db t)
  case (Cons l ls)
  then obtain a db1 b where a: "charge_loan run l db = Inr (a, db1)"
    and b: "charge_loans run ls db1 = Inr (b, db')" and t: "t = a + b" by (auto simp: bind_res_Inr_iff)
  have l: "l \<in> set (db_loans db)" and nl: "al_id l \<notin> al_id ` set ls" using Cons.prems by auto
  note e = charge_loan_effect [OF a Cons.prems(2) l]
  note c = charge_loan_conserves [OF a Cons.prems(2,3) l]
  have "set ls \<subseteq> set (db_loans db1)"
  proof
    fix x assume x: "x \<in> set ls"
    then have "al_id x \<noteq> al_id l" using nl by (metis image_eqI)
    then show "x \<in> set (db_loans db1)" using x e Cons.prems(4) by auto
  qed
  then have "loans_paise db' \<and> 0 \<le> b \<and> total_outstanding db1 - total_outstanding db' = of_int b / 100"
    using Cons.IH [OF b] e c Cons.prems(5) by auto
  then show ?case using c by (simp add: t add_divide_distrib)
qed simp

text \<open>
  C35: recovery conserves money. What a run deducts from an employee for advances and loans is
  never negative and is, to the paisa, the amount by which the outstanding balances fall; no
  balance becomes negative.
\<close>

theorem advance_recovery_conserves:
  assumes "advance_deduction_for_employee run e db = Inr (t, db')" "loans_wf db" "loans_paise db"
  shows "0 \<le> t \<and> total_outstanding db - total_outstanding db' = of_int t / 100 \<and>
         (\<forall>l \<in> set (db_loans db'). 0 \<le> al_outstanding_balance l)"
proof -
  define ls where "ls = filter (loan_visible run e) (db_loans db)"
  have ls: "set ls \<subseteq> set (db_loans db)" "distinct (map al_id ls)"
    using assms(2) by (auto simp: ls_def loans_wf_def distinct_map_filter)
  have c: "charge_loans run ls db = Inr (t, db')"
    using assms(1) by (simp add: advance_deduction_for_employee_def ls_def)
  show ?thesis using charge_loans_conserves [OF c assms(2,3) ls] by (simp add: loans_paise_def)
qed

theorem advance_recovery_conserves_witness:
  "total_outstanding sample_loan_db - total_outstanding sample_loan_db' = of_int 100050 / 100"
proof -
  have "whole_paise 2500" "whole_paise (100050 / 100)"
    unfolding whole_paise_def by (rule exI [of _ 250000], simp) (rule exI [of _ 100050], simp)
  then have "loans_paise sample_loan_db"
    by (simp add: loans_paise_def sample_loan_db_def sample_loan_def empty_db_def)
  moreover have "loans_wf sample_loan_db" by (simp add: loans_wf_def sample_loan_db_def empty_db_def)
  ultimately show ?thesis using advance_recovery_conserves [OF sample_loan_run] by blast
qed

end
