(* ===== verification/Formula.thy ===== *)
theory Formula
  imports Money Py_Strings
begin

text \<open>
  \<open>app/services/payroll/formula_evaluator.py\<close>: the sandboxed evaluator of component
  formulas. The parser is Python's \<open>ast.parse\<close>; an expression here is the tree it returns,
  with the operators and node kinds that the whitelist refuses kept as \<open>OtherOp\<close> and
  \<open>OtherNode\<close>. \<open>operator.pow\<close> on Decimals is a parameter (\<open>pw\<close>).
  Infinite float literals and Python's recursion limit are not represented.
\<close>

section \<open>Syntax trees\<close>

datatype binop = Add | Sub | Mult | Div | FloorDiv | Mod | Pow | OtherOp string

datatype unop = UAdd | USub | OtherUnary string

datatype const = CNum rat | COther string

datatype expr =
    Constant const
  | Name string
  | BinOp expr binop expr
  | UnaryOp unop expr
  | Call string "expr list" bool
  | OtherNode string

type_synonym ctx = "string \<Rightarrow> rat option"

section \<open>Decimal operators\<close>

text \<open>
  The outcome of an operator on Decimals: a value, \<open>ZeroDivisionError\<close> (which
  \<open>decimal.DivisionByZero\<close> subclasses), or another \<open>ArithmeticError\<close> or
  \<open>TypeError\<close>. A nonzero number divided by zero is the first; zero divided by zero, any
  remainder by zero and an integer quotient of more than 28 digits are
  \<open>InvalidOperation\<close>, which is the second.
\<close>

datatype arith = Value rat | ZeroDivision | ArithError

definition dec_truediv :: "rat \<Rightarrow> rat \<Rightarrow> arith" where
  "dec_truediv x y =
     (if y = 0 then if x = 0 then ArithError else ZeroDivision else Value (ddiv x y))"

definition dec_floordiv :: "rat \<Rightarrow> rat \<Rightarrow> arith" where
  "dec_floordiv x y =
     (if y = 0 then if x = 0 then ArithError else ZeroDivision
      else if \<bar>dec_trunc (x / y)\<bar> < 10 ^ 28 then Value (of_int (dec_trunc (x / y))) else ArithError)"

definition dec_mod :: "rat \<Rightarrow> rat \<Rightarrow> arith" where
  "dec_mod x y =
     (if y = 0 then ArithError
      else if \<bar>dec_trunc (x / y)\<bar> < 10 ^ 28 then Value (dec_ctx (x - y * of_int (dec_trunc (x / y))))
      else ArithError)"

text \<open>\<open>ALLOWED_OPERATORS\<close>: None is an operator the table does not hold.\<close>

fun ALLOWED_BINOP :: "(rat \<Rightarrow> rat \<Rightarrow> arith) \<Rightarrow> binop \<Rightarrow> (rat \<Rightarrow> rat \<Rightarrow> arith) option" where
  "ALLOWED_BINOP pw Add = Some (\<lambda>x y. Value (dadd x y))"
| "ALLOWED_BINOP pw Sub = Some (\<lambda>x y. Value (dsub x y))"
| "ALLOWED_BINOP pw Mult = Some (\<lambda>x y. Value (dmul x y))"
| "ALLOWED_BINOP pw Div = Some dec_truediv"
| "ALLOWED_BINOP pw FloorDiv = Some dec_floordiv"
| "ALLOWED_BINOP pw Mod = Some dec_mod"
| "ALLOWED_BINOP pw Pow = Some pw"
| "ALLOWED_BINOP pw (OtherOp t) = None"

fun ALLOWED_UNOP :: "unop \<Rightarrow> (rat \<Rightarrow> rat) option" where
  "ALLOWED_UNOP UAdd = Some dec_ctx"
| "ALLOWED_UNOP USub = Some (\<lambda>x. dec_ctx (- x))"
| "ALLOWED_UNOP (OtherUnary t) = None"

text \<open>\<open>_round_decimal\<close>: quantize to \<open>10 ^ (- int(digits))\<close>, half up.\<close>

definition round_decimal :: "rat \<Rightarrow> rat \<Rightarrow> arith" where
  "round_decimal value digits =
     (let k = dec_trunc digits; c = half_up (value * 10 powi k)
      in if \<bar>c\<bar> < 10 ^ 28 then Value (of_int c / 10 powi k) else ArithError)"

text \<open>
  \<open>ALLOWED_FUNCTIONS\<close>: None is a name the table does not hold; a wrong number of arguments
  is a \<open>TypeError\<close> (\<open>min\<close> and \<open>max\<close> of a single Decimal iterate over it).
\<close>

definition fn_min :: "rat list \<Rightarrow> arith" where
  "fn_min args = (if length args < 2 then ArithError else Value (fold min (tl args) (hd args)))"

definition fn_max :: "rat list \<Rightarrow> arith" where
  "fn_max args = (if length args < 2 then ArithError else Value (fold max (tl args) (hd args)))"

fun fn_round :: "rat list \<Rightarrow> arith" where
  "fn_round [x] = round_decimal x 0"
| "fn_round [x, d] = round_decimal x d"
| "fn_round _ = ArithError"

fun fn_unary :: "(rat \<Rightarrow> rat) \<Rightarrow> rat list \<Rightarrow> arith" where
  "fn_unary f [x] = Value (f x)"
| "fn_unary f _ = ArithError"

definition ALLOWED_FUNCTIONS :: "string \<Rightarrow> (rat list \<Rightarrow> arith) option" where
  "ALLOWED_FUNCTIONS name =
     (if name = ''min'' then Some fn_min
      else if name = ''max'' then Some fn_max
      else if name = ''round'' then Some fn_round
      else if name = ''abs'' then Some (fn_unary (\<lambda>x. dec_ctx \<bar>x\<bar>))
      else if name = ''ceil'' then Some (fn_unary (\<lambda>x. of_int \<lceil>x\<rceil>))
      else if name = ''floor'' then Some (fn_unary (\<lambda>x. of_int \<lfloor>x\<rfloor>))
      else None)"

section \<open>The evaluator\<close>

fun catch_binop :: "arith \<Rightarrow> rat result" where
  "catch_binop (Value v) = Inr v"
| "catch_binop ZeroDivision = Inr 0"
| "catch_binop ArithError = Inl (ValueError ''Invalid formula arithmetic'')"

fun catch_call :: "arith \<Rightarrow> rat result" where
  "catch_call (Value v) = Inr v"
| "catch_call ZeroDivision = Inl (ValueError ''Invalid formula function'')"
| "catch_call ArithError = Inl (ValueError ''Invalid formula function'')"

fun eval_node :: "(rat \<Rightarrow> rat \<Rightarrow> arith) \<Rightarrow> ctx \<Rightarrow> expr \<Rightarrow> rat result"
  and eval_args :: "(rat \<Rightarrow> rat \<Rightarrow> arith) \<Rightarrow> ctx \<Rightarrow> expr list \<Rightarrow> rat list result" where
  "eval_node pw c (Constant (CNum q)) = Inr q"
| "eval_node pw c (Constant (COther t)) = Inl (ValueError ''Disallowed constant type'')"
| "eval_node pw c (Name x) =
     (case c (py_lower x) of
        None \<Rightarrow> Inl (ValueError ''Unknown variable in formula'')
      | Some v \<Rightarrow> Inr v)"
| "eval_node pw c (BinOp l op r) =
     (case ALLOWED_BINOP pw op of
        None \<Rightarrow> Inl (ValueError ''Disallowed operator'')
      | Some f \<Rightarrow>
          bind_res (eval_node pw c l) (\<lambda>x. bind_res (eval_node pw c r) (\<lambda>y. catch_binop (f x y))))"
| "eval_node pw c (UnaryOp op e) =
     (case ALLOWED_UNOP op of
        None \<Rightarrow> Inl (ValueError ''Disallowed operator'')
      | Some f \<Rightarrow> bind_res (eval_node pw c e) (\<lambda>x. Inr (f x)))"
| "eval_node pw c (Call name args kwargs) =
     (case ALLOWED_FUNCTIONS (py_lower name) of
        None \<Rightarrow> Inl (ValueError ''Disallowed function call'')
      | Some f \<Rightarrow>
          if kwargs then Inl (ValueError ''Disallowed function call'')
          else bind_res (eval_args pw c args) (\<lambda>xs. catch_call (f xs)))"
| "eval_node pw c (OtherNode t) = Inl (ValueError ''Disallowed expression element'')"
| "eval_args pw c [] = Inr []"
| "eval_args pw c (e # es) =
     bind_res (eval_node pw c e) (\<lambda>x. bind_res (eval_args pw c es) (\<lambda>xs. Inr (x # xs)))"

definition build_ctx :: "(string \<times> rat option) list \<Rightarrow> ctx" where
  "build_ctx context =
     foldl (\<lambda>m kv. m(py_lower (fst kv) \<mapsto> as_decimal (snd kv))) (\<lambda>_. None) context"

definition evaluate_decimal ::
  "(rat \<Rightarrow> rat \<Rightarrow> arith) \<Rightarrow> (string \<Rightarrow> expr option) \<Rightarrow> string \<Rightarrow> (string \<times> rat option) list \<Rightarrow> rat result"
where
  "evaluate_decimal pw parse expression context =
     (if py_strip expression = [] then Inr 0
      else case parse (py_strip expression) of
             None \<Rightarrow> Inl (ValueError ''Invalid formula syntax'')
           | Some tree \<Rightarrow> eval_node pw (build_ctx context) tree)"

definition evaluate_paise ::
  "(rat \<Rightarrow> rat \<Rightarrow> arith) \<Rightarrow> (string \<Rightarrow> expr option) \<Rightarrow> string \<Rightarrow> (string \<times> rat option) list \<Rightarrow> int result"
where
  "evaluate_paise pw parse expression context =
     bind_res (evaluate_decimal pw parse expression context) round_paise_checked"

definition sample_ctx :: "string list \<Rightarrow> (string \<times> rat option) list" where
  "sample_ctx sample_variables =
     [(''basic'', Some 10000), (''ctc'', Some 50000), (''gross'', Some 20000), (''hra'', Some 4000),
      (''special'', Some 2000), (''paid_days'', Some 30), (''lop_days'', Some 0), (''total_days'', Some 30)]
     @ map (\<lambda>v. (py_lower v, Some 100)) sample_variables"

definition validate_formula ::
  "(rat \<Rightarrow> rat \<Rightarrow> arith) \<Rightarrow> (string \<Rightarrow> expr option) \<Rightarrow> string \<Rightarrow> string list \<Rightarrow> bool \<times> exc option"
where
  "validate_formula pw parse expression sample_variables =
     (if py_strip expression = [] then (False, Some (ValueError ''Formula expression cannot be empty''))
      else case evaluate_decimal pw parse expression (sample_ctx sample_variables) of
             Inr v \<Rightarrow> (True, None)
           | Inl e \<Rightarrow> (False, Some e))"

section \<open>The whitelist\<close>

text \<open>The trees the whitelist admits, and the names a tree reads.\<close>

fun whitelisted :: "expr \<Rightarrow> bool" where
  "whitelisted (Constant (CNum q)) = True"
| "whitelisted (Constant (COther t)) = False"
| "whitelisted (Name x) = True"
| "whitelisted (BinOp l op r) = ((\<forall>t. op \<noteq> OtherOp t) \<and> whitelisted l \<and> whitelisted r)"
| "whitelisted (UnaryOp op e) = ((\<forall>t. op \<noteq> OtherUnary t) \<and> whitelisted e)"
| "whitelisted (Call name args kwargs) =
     (py_lower name \<in> {''min'', ''max'', ''round'', ''abs'', ''ceil'', ''floor''} \<and> \<not> kwargs \<and>
      (\<forall>e \<in> set args. whitelisted e))"
| "whitelisted (OtherNode t) = False"

fun vars :: "expr \<Rightarrow> string set" where
  "vars (Constant c) = {}"
| "vars (Name x) = {py_lower x}"
| "vars (BinOp l op r) = vars l \<union> vars r"
| "vars (UnaryOp op e) = vars e"
| "vars (Call name args kwargs) = (\<Union>e \<in> set args. vars e)"
| "vars (OtherNode t) = {}"

lemma ALLOWED_BINOP_Some: "ALLOWED_BINOP pw op = Some f \<Longrightarrow> op \<noteq> OtherOp t"
  by (cases op) auto

lemma ALLOWED_UNOP_Some: "ALLOWED_UNOP op = Some f \<Longrightarrow> op \<noteq> OtherUnary t"
  by (cases op) auto

lemma ALLOWED_FUNCTIONS_Some:
  "ALLOWED_FUNCTIONS n = Some f \<Longrightarrow> n \<in> {''min'', ''max'', ''round'', ''abs'', ''ceil'', ''floor''}"
  by (auto simp: ALLOWED_FUNCTIONS_def split: if_splits)

lemma eval_whitelisted:
  shows "eval_node pw c e = Inr v \<Longrightarrow> whitelisted e \<and> vars e \<subseteq> dom c"
    and "eval_args pw c es = Inr vs \<Longrightarrow>
           (\<forall>e \<in> set es. whitelisted e \<and> vars e \<subseteq> dom c) \<and> length vs = length es"
proof (induction pw c e and pw c es arbitrary: v and vs rule: eval_node_eval_args.induct)
  case (4 pw c l op r)
  then show ?case
    by (fastforce simp: bind_res_Inr_iff split: option.splits dest: ALLOWED_BINOP_Some)
next
  case (5 pw c op e)
  then show ?case
    by (fastforce simp: bind_res_Inr_iff split: option.splits dest: ALLOWED_UNOP_Some)
next
  case (6 pw c name args kwargs)
  then obtain f xs where f: "ALLOWED_FUNCTIONS (py_lower name) = Some f" and k: "\<not> kwargs"
    and xs: "eval_args pw c args = Inr xs"
    by (auto simp: bind_res_Inr_iff split: option.splits if_splits)
  have "\<forall>e \<in> set args. whitelisted e \<and> vars e \<subseteq> dom c" using "6.IH" [OF f k xs] by blast
  then show ?case using ALLOWED_FUNCTIONS_Some [OF f] k by auto
next
  case (9 pw c e es)
  then obtain x xs where "eval_node pw c e = Inr x" "eval_args pw c es = Inr xs" "vs = x # xs"
    by (auto simp: bind_res_Inr_iff)
  then show ?case using "9.IH" by simp
qed (auto simp: bind_res_Inr_iff split: option.splits)

definition is_ValueError :: "exc \<Rightarrow> bool" where
  "is_ValueError e \<longleftrightarrow> (\<exists>m. e = ValueError m)"

lemma catch_binop_error: "catch_binop a = Inl e \<Longrightarrow> is_ValueError e"
  by (cases a) (auto simp: is_ValueError_def)

lemma catch_call_error: "catch_call a = Inl e \<Longrightarrow> is_ValueError e"
  by (cases a) (auto simp: is_ValueError_def)

lemma eval_error:
  shows "eval_node pw c e = Inl x \<Longrightarrow> is_ValueError x"
    and "eval_args pw c es = Inl x \<Longrightarrow> is_ValueError x"
proof (induction pw c e and pw c es rule: eval_node_eval_args.induct)
  case (4 pw c l op r)
  then show ?case
    by (auto simp: bind_res_Inl_iff split: option.splits dest: catch_binop_error)
      (auto simp: is_ValueError_def)
next
  case (6 pw c name args kwargs)
  then show ?case
    by (auto simp: bind_res_Inl_iff split: option.splits if_splits dest: catch_call_error)
      (auto simp: is_ValueError_def)
qed (auto simp: bind_res_Inl_iff is_ValueError_def split: option.splits)

lemma eval_cong_vars:
  shows "(\<forall>x \<in> vars e. c x = c' x) \<Longrightarrow> eval_node pw c e = eval_node pw c' e"
    and "(\<forall>e \<in> set es. \<forall>x \<in> vars e. c x = c' x) \<Longrightarrow> eval_args pw c es = eval_args pw c' es"
proof (induction pw c e and pw c es rule: eval_node_eval_args.induct)
  case (4 pw c l op r)
  then have "eval_node pw c l = eval_node pw c' l" "eval_node pw c r = eval_node pw c' r" if
    "ALLOWED_BINOP pw op = Some f" for f using that
    by (cases "eval_node pw c l"; simp)+
  then show ?case by (auto split: option.splits)
qed (auto split: option.splits)

section \<open>Exact evaluation\<close>

text \<open>
  The mathematical value of a formula over the rationals, for the operators that a component
  formula is made of, and the condition under which no intermediate result is rounded.
\<close>

fun exact_value :: "ctx \<Rightarrow> expr \<Rightarrow> rat" where
  "exact_value c (Constant (CNum q)) = q"
| "exact_value c (Name x) = the (c (py_lower x))"
| "exact_value c (BinOp l Add r) = exact_value c l + exact_value c r"
| "exact_value c (BinOp l Sub r) = exact_value c l - exact_value c r"
| "exact_value c (BinOp l Mult r) = exact_value c l * exact_value c r"
| "exact_value c (BinOp l Div r) = exact_value c l / exact_value c r"
| "exact_value c (UnaryOp USub e) = - exact_value c e"
| "exact_value c (UnaryOp UAdd e) = exact_value c e"
| "exact_value c _ = 0"

fun fits :: "ctx \<Rightarrow> expr \<Rightarrow> bool" where
  "fits c (Constant (CNum q)) = True"
| "fits c (Name x) = (c (py_lower x) \<noteq> None)"
| "fits c (BinOp l op r) =
     (fits c l \<and> fits c r \<and> dec_rep (exact_value c (BinOp l op r)) \<and>
      (op \<in> {Add, Sub, Mult} \<or> op = Div \<and> exact_value c r \<noteq> 0))"
| "fits c (UnaryOp op e) = (fits c e \<and> op \<in> {USub, UAdd} \<and> dec_rep (exact_value c e))"
| "fits c _ = False"

lemma eval_exact: "fits c e \<Longrightarrow> eval_node pw c e = Inr (exact_value c e)"
proof (induction c e rule: fits.induct)
  case (4 c op e)
  then show ?case by (auto simp: dec_ctx_rep)
next
  case (3 c l op r)
  then show ?case by (cases op) (auto simp: dadd_def dsub_def dmul_def ddiv_def dec_truediv_def dec_ctx_rep)
qed auto

section \<open>Properties\<close>

text \<open>
  C36: the evaluator is a sandbox. It returns an amount only for the empty formula or for a tree
  made of whitelisted nodes, operators and functions whose names are all bound in the context,
  and whatever it refuses, it refuses with a ValueError.
\<close>

theorem formula_sandbox:
  assumes "evaluate_decimal pw parse s context = r"
  shows "(\<forall>v. r = Inr v \<longrightarrow> py_strip s = [] \<and> v = 0 \<or>
             (\<exists>e. parse (py_strip s) = Some e \<and> whitelisted e \<and> vars e \<subseteq> dom (build_ctx context))) \<and>
         (\<forall>x. r = Inl x \<longrightarrow> is_ValueError x)"
  using assms eval_whitelisted(1) eval_error(1)
  by (fastforce simp: evaluate_decimal_def is_ValueError_def split: if_splits option.splits)

definition sample_parse :: "string \<Rightarrow> expr option" where
  "sample_parse s =
     (if s = ''Basic * 0.40 + 1000''
      then Some (BinOp (BinOp (Name ''Basic'') Mult (Constant (CNum (2 / 5)))) Add (Constant (CNum 1000)))
      else None)"

definition sample_pow :: "rat \<Rightarrow> rat \<Rightarrow> arith" where
  "sample_pow x y = (if y = 2 then Value (dmul x x) else ArithError)"

theorem formula_sandbox_witness:
  "\<exists>e. sample_parse (py_strip '' Basic * 0.40 + 1000'') = Some e \<and> whitelisted e \<and>
       vars e \<subseteq> dom (build_ctx [(''basic'', Some 1000050)])"
proof -
  have "evaluate_decimal sample_pow sample_parse '' Basic * 0.40 + 1000'' [(''basic'', Some 1000050)]
          = Inr 401020" by code_simp
  from formula_sandbox [OF this] show ?thesis
    by auto
qed

text \<open>
  A formula of names, constants, the four arithmetic operators and signs whose intermediate
  values have at most 28 significant digits evaluates to its exact rational value, and its amount
  in paise is that value rounded half up; nothing is lost to the decimal context.
\<close>

theorem formula_exact:
  assumes "parse (py_strip s) = Some e" "py_strip s \<noteq> []" "fits (build_ctx context) e"
    "\<bar>exact_value (build_ctx context) e\<bar> \<le> 10 ^ 27"
  shows "evaluate_decimal pw parse s context = Inr (exact_value (build_ctx context) e) \<and>
         evaluate_paise pw parse s context = Inr (round_paise (exact_value (build_ctx context) e))"
proof -
  have "evaluate_decimal pw parse s context = Inr (exact_value (build_ctx context) e)"
    using assms(1-3) by (simp add: evaluate_decimal_def eval_exact)
  then show ?thesis using assms(4) by (simp add: evaluate_paise_def round_paise_checked_ok)
qed

theorem formula_exact_witness:
  "evaluate_paise sample_pow sample_parse ''Basic * 0.40 + 1000'' [(''basic'', Some 1000051)] = Inr 401020"
proof -
  define e where
    "e = BinOp (BinOp (Name ''Basic'') Mult (Constant (CNum (2 / 5)))) Add (Constant (CNum 1000))"
  define cx where "cx = build_ctx [(''basic'', Some 1000051)]"
  have strip: "py_strip ''Basic * 0.40 + 1000'' = ''Basic * 0.40 + 1000''" by code_simp
  have ctx: "cx (py_lower ''Basic'') = Some 1000051" unfolding cx_def by code_simp
  have val: "exact_value cx e = 4010204 / 10" by (simp add: e_def ctx)
  have rep: "dec_rep (4010204 / 10)" "dec_rep (4000204 / 10)"
    unfolding dec_rep_def
    by (rule exI [of _ 4010204], rule exI [of _ "-1"], simp)
      (rule exI [of _ 4000204], rule exI [of _ "-1"], simp)
  have "fits cx e" using rep by (simp add: e_def ctx)
  moreover have "sample_parse (py_strip ''Basic * 0.40 + 1000'') = Some e"
    by (simp add: strip sample_parse_def e_def)
  moreover have "\<bar>exact_value cx e\<bar> \<le> 10 ^ 27" by (simp add: val)
  ultimately have "evaluate_paise sample_pow sample_parse ''Basic * 0.40 + 1000'' [(''basic'', Some 1000051)]
        = Inr (round_paise (exact_value cx e))"
    unfolding cx_def by (intro formula_exact [THEN conjunct2]) (auto simp: strip)
  moreover have "round_paise (4010204 / 10) = 401020" by code_simp
  ultimately show ?thesis by (simp add: val)
qed

text \<open>
  Only the variables a formula names matter. Two contexts that agree on them give the same
  amount or the same error.
\<close>

theorem formula_depends_on_its_variables:
  assumes "parse (py_strip s) = Some e" "\<forall>x \<in> vars e. build_ctx c x = build_ctx c' x"
  shows "evaluate_paise pw parse s c = evaluate_paise pw parse s c'"
  using eval_cong_vars(1) [OF assms(2)] assms(1) by (simp add: evaluate_paise_def evaluate_decimal_def)

theorem formula_depends_on_its_variables_witness:
  "evaluate_paise sample_pow sample_parse ''Basic * 0.40 + 1000'' [(''basic'', Some 5), (''hra'', None)] =
   evaluate_paise sample_pow sample_parse ''Basic * 0.40 + 1000'' [(''HRA'', Some 7), (''BASIC'', Some 5)]"
proof (rule formula_depends_on_its_variables)
  show "sample_parse (py_strip ''Basic * 0.40 + 1000'') =
      Some (BinOp (BinOp (Name ''Basic'') Mult (Constant (CNum (2 / 5)))) Add (Constant (CNum 1000)))"
    by code_simp
  show "\<forall>x \<in> vars (BinOp (BinOp (Name ''Basic'') Mult (Constant (CNum (2 / 5)))) Add (Constant (CNum 1000))).
      build_ctx [(''basic'', Some 5), (''hra'', None)] x = build_ctx [(''HRA'', Some 7), (''BASIC'', Some 5)] x"
    by code_simp
qed

text \<open>
  Dividing a nonzero amount by zero counts as zero in a formula, while zero divided by zero
  and any remainder by zero raise ValueError.
\<close>

theorem formula_division_by_zero:
  "eval_node pw c (BinOp (Constant (CNum 7)) Div (Constant (CNum 0))) = Inr 0 \<and>
   eval_node pw c (BinOp (Constant (CNum 7)) FloorDiv (Constant (CNum 0))) = Inr 0 \<and>
   eval_node pw c (BinOp (Constant (CNum 0)) Div (Constant (CNum 0))) =
     Inl (ValueError ''Invalid formula arithmetic'') \<and>
   eval_node pw c (BinOp (Constant (CNum 7)) Mod (Constant (CNum 0))) =
     Inl (ValueError ''Invalid formula arithmetic'')"
  by (simp add: dec_truediv_def dec_floordiv_def dec_mod_def)

end
