(* ===== verification/Pay_Heads.thy ===== *)
theory Pay_Heads
  imports Arrear Advance Formula
begin

text \<open>
  The earnings side of \<open>PayrollRunService.execute_run_calculation\<close>: the fixed monthly
  heads of an employee from the compensation or the salary structure, their conversion into the
  run's currency, attendance and loss of pay, variable inputs, proration, and the tenant's custom
  pay components with the formula context. Amounts are integer paise throughout.
\<close>

section \<open>Named allowances\<close>

text \<open>\<open>key.strip().lower().replace(" ", "_").replace("-", "_")\<close>\<close>

definition allowance_key :: "string \<Rightarrow> string" where
  "allowance_key key =
     map (\<lambda>c. if c = CHR '' '' \<or> c = CHR ''-'' then CHR ''_'' else c) (py_lower (py_strip key))"

definition allowance_paise :: "allowance \<Rightarrow> int" where
  "allowance_paise v =
     (let x = (case v of
                 Amount a \<Rightarrow> a
               | Parts ps \<Rightarrow>
                   (case map_of ps ''monthly'' of
                      Some a \<Rightarrow> a
                    | None \<Rightarrow> (case map_of ps ''amount'' of
                                 Some a \<Rightarrow> a
                               | None \<Rightarrow> (case map_of ps ''value'' of Some a \<Rightarrow> a | None \<Rightarrow> Some 0))))
      in round_paise (dmul (as_decimal x) 100))"

definition allowance_named :: "(string \<times> allowance) list \<Rightarrow> string list \<Rightarrow> int" where
  "allowance_named others names =
     (case scalars_first (filter (\<lambda>kv. allowance_key (fst kv) \<in> set names) others) of
        None \<Rightarrow> 0 | Some kv \<Rightarrow> allowance_paise (snd kv))"

definition known_allowance_names :: "string list" where
  "known_allowance_names =
     [''conveyance'', ''conveyance_allowance'', ''lta'', ''leave_travel_allowance'',
      ''leave_travel_concession'', ''statutory_bonus'', ''bonus'', ''reimbursement'', ''reimbursements'']"

section \<open>Fixed monthly heads\<close>

record pay_heads =
  ph_basic :: int
  ph_hra :: int
  ph_special :: int
  ph_conveyance :: int
  ph_lta :: int
  ph_statutory_bonus :: int
  ph_reimbursement :: int
  ph_other :: "(string \<times> int) list"

definition compensation_heads :: "compensation \<Rightarrow> int \<times> int \<times> int" where
  "compensation_heads c =
     (let monthly_ctc = ddiv (of_int (cp_ctc_annual_paise c)) 12;
          basic = or_int (cp_basic_monthly_paise c) (round_paise (dmul monthly_ctc (1 / 2)));
          hra = or_int (cp_hra_monthly_paise c) (round_paise (dmul (of_int basic) (2 / 5)));
          special = or_int (cp_special_allowance_monthly_paise c)
                      (max 0 (round_paise monthly_ctc - basic - hra))
      in (basic, hra, special))"

definition core_heads :: "compensation option \<Rightarrow> salary_structure option \<Rightarrow> int \<times> int \<times> int \<times> int" where
  "core_heads cmp sal =
     (case cmp of
        Some c \<Rightarrow> (case compensation_heads c of (basic, hra, special) \<Rightarrow> (basic, hra, special, 0))
      | None \<Rightarrow>
          (case sal of
             Some s \<Rightarrow> (round_paise (dmul (ss_basic_monthly s) 100), round_paise (dmul (ss_hra_monthly s) 100),
                        round_paise (dmul (ss_special_allowance_monthly s) 100),
                        round_paise (dmul (ss_conveyance_monthly s) 100))
           | None \<Rightarrow> (25000 * 100, 10000 * 100, 5000 * 100, 0)))"

definition monthly_heads :: "compensation option \<Rightarrow> salary_structure option \<Rightarrow> pay_heads" where
  "monthly_heads cmp sal =
     (let others = (case sal of None \<Rightarrow> [] | Some s \<Rightarrow> ss_other_allowances s);
          bonus = allowance_named others [''statutory_bonus'', ''bonus'']
      in case core_heads cmp sal of (basic, hra, special, conveyance) \<Rightarrow>
         \<lparr> ph_basic = basic, ph_hra = hra, ph_special = special,
           ph_conveyance = or_int conveyance
             (allowance_named others [''conveyance'', ''conveyance_allowance'']),
           ph_lta = allowance_named others [''lta'', ''leave_travel_allowance'', ''leave_travel_concession''],
           ph_statutory_bonus =
             (case sal of
                Some s \<Rightarrow> if bonus = 0 \<and> ss_annual_bonus s \<noteq> 0
                          then round_paise (ddiv (dmul (ss_annual_bonus s) 100) 12) else bonus
              | None \<Rightarrow> bonus),
           ph_reimbursement = allowance_named others [''reimbursement'', ''reimbursements''],
           ph_other = map (\<lambda>kv. (fst kv, allowance_paise (snd kv)))
             (filter (\<lambda>kv. allowance_key (fst kv) \<notin> set known_allowance_names) others) \<rparr>)"

section \<open>Conversion into the run's currency\<close>

fun map_values_res :: "('v \<Rightarrow> 'w result) \<Rightarrow> ('k \<times> 'v) list \<Rightarrow> ('k \<times> 'w) list result" where
  "map_values_res f [] = Inr []"
| "map_values_res f ((k, v) # rest) =
     bind_res (f v) (\<lambda>w. bind_res (map_values_res f rest) (\<lambda>ws. Inr ((k, w) # ws)))"

definition map_heads :: "(int \<Rightarrow> int result) \<Rightarrow> pay_heads \<Rightarrow> pay_heads result" where
  "map_heads f h =
     bind_res (f (ph_basic h)) (\<lambda>basic.
     bind_res (f (ph_hra h)) (\<lambda>hra.
     bind_res (f (ph_special h)) (\<lambda>special.
     bind_res (f (ph_conveyance h)) (\<lambda>conveyance.
     bind_res (f (ph_lta h)) (\<lambda>lta.
     bind_res (f (ph_statutory_bonus h)) (\<lambda>bonus.
     bind_res (f (ph_reimbursement h)) (\<lambda>reimbursement.
     bind_res (map_values_res f (ph_other h)) (\<lambda>other.
       Inr \<lparr> ph_basic = basic, ph_hra = hra, ph_special = special, ph_conveyance = conveyance,
             ph_lta = lta, ph_statutory_bonus = bonus, ph_reimbursement = reimbursement,
             ph_other = other \<rparr>))))))))"

text \<open>The currency and the FX rate of the pay source.\<close>

definition source_terms :: "compensation option \<Rightarrow> salary_structure option \<Rightarrow> (string \<times> rat) result" where
  "source_terms cmp sal =
     bind_res (normalize_currency
                 (Some (case cmp of Some c \<Rightarrow> cp_currency c
                        | None \<Rightarrow> (case sal of Some s \<Rightarrow> ss_currency s | None \<Rightarrow> ''INR''))) ''INR'')
       (\<lambda>cur.
     bind_res (positive_fx_rate
                 (Finite (case cmp of Some c \<Rightarrow> cp_fx_rate_to_inr c
                          | None \<Rightarrow> (case sal of Some s \<Rightarrow> ss_fx_rate_to_inr s | None \<Rightarrow> 1))))
       (\<lambda>rate. Inr (cur, rate)))"

definition to_run_currency :: "string \<times> rat \<Rightarrow> string \<Rightarrow> rat \<Rightarrow> int \<Rightarrow> int result" where
  "to_run_currency source cur rate amount =
     (if fst source \<noteq> cur
      then convert_via_inr_minor_units amount (Finite (snd source)) (Finite rate)
      else Inr amount)"

definition source_heads ::
  "compensation option \<Rightarrow> salary_structure option \<Rightarrow> string \<times> rat \<Rightarrow> string \<Rightarrow> rat \<Rightarrow> pay_heads result" where
  "source_heads cmp sal source cur rate =
     map_heads (to_run_currency source cur rate) (monthly_heads cmp sal)"

definition annual_ctc_of ::
  "compensation option \<Rightarrow> salary_structure option \<Rightarrow> string \<times> rat \<Rightarrow> string \<Rightarrow> rat \<Rightarrow> int result" where
  "annual_ctc_of cmp sal source cur rate =
     (let annual = (case cmp of
                      Some c \<Rightarrow> cp_ctc_annual_paise c
                    | None \<Rightarrow> (case sal of Some s \<Rightarrow> round_paise (dmul (ss_annual_ctc s) 100) | None \<Rightarrow> 0))
      in if annual \<noteq> 0 then to_run_currency source cur rate annual else Inr annual)"

definition monthly_ctc_of :: "int \<Rightarrow> pay_heads \<Rightarrow> int" where
  "monthly_ctc_of annual h =
     (if annual \<noteq> 0 then round_paise (ddiv (of_int annual) 12)
      else ph_basic h + ph_hra h + ph_special h + ph_conveyance h)"

section \<open>Attendance and proration\<close>

definition attendance_of :: "payroll_run \<Rightarrow> uuid \<Rightarrow> payroll_db \<Rightarrow> attendance_input option result" where
  "attendance_of run eid db =
     scalar_one_or_none
       (filter (\<lambda>a. ai_employee_id a = eid \<and> ai_period_month a = run_period_month run \<and>
                    ai_period_year a = run_period_year run) (db_attendance db))"

text \<open>Only loss-of-pay days given: the paid days follow from the 30-day policy.\<close>

definition effective_paid_days :: "rat \<Rightarrow> rat \<Rightarrow> rat" where
  "effective_paid_days paid lop = (if 0 < lop then min paid (max 0 (dsub 30 lop)) else paid)"

definition day_ratio :: "rat \<Rightarrow> rat" where
  "day_ratio paid = max 0 (min 1 (ddiv paid 30))"

definition prorated :: "rat \<Rightarrow> int \<Rightarrow> int" where
  "prorated ratio value = round_paise (dmul (of_int value) ratio)"

definition prorated_heads :: "rat \<Rightarrow> pay_heads \<Rightarrow> pay_heads" where
  "prorated_heads ratio h =
     \<lparr> ph_basic = prorated ratio (ph_basic h), ph_hra = prorated ratio (ph_hra h),
       ph_special = prorated ratio (ph_special h), ph_conveyance = prorated ratio (ph_conveyance h),
       ph_lta = prorated ratio (ph_lta h), ph_statutory_bonus = prorated ratio (ph_statutory_bonus h),
       ph_reimbursement = ph_reimbursement h,
       ph_other = map (\<lambda>kv. (fst kv, prorated ratio (snd kv))) (ph_other h) \<rparr>"

definition heads_total :: "pay_heads \<Rightarrow> int" where
  "heads_total h =
     ph_basic h + ph_hra h + ph_special h + ph_conveyance h + ph_lta h + ph_statutory_bonus h +
     ph_reimbursement h + (\<Sum>kv\<leftarrow>ph_other h. snd kv)"

section \<open>Variable inputs\<close>

definition deduction_types :: "string list" where
  "deduction_types =
     [''deduction'', ''advance_recovery'', ''advance'', ''loan_emi'', ''loan_recovery'', ''recovery'', ''lop'']"

definition earning_types :: "string list" where
  "earning_types =
     [''overtime'', ''bonus'', ''one_time_bonus'', ''incentive'', ''commission'', ''reimbursement'',
      ''shift_allowance'', ''shift'', ''comp_off_encashment'', ''comp_off'', ''lta'', ''statutory_bonus'',
      ''other'']"

definition VARIABLE_TYPE_TO_COMPONENT :: "(string \<times> string) list" where
  "VARIABLE_TYPE_TO_COMPONENT =
     [(''overtime'', ''OVERTIME''), (''bonus'', ''STATUTORY_BONUS''), (''commission'', ''COMMISSION''),
      (''incentive'', ''INCENTIVE''), (''reimbursement'', ''REIMBURSEMENT''),
      (''shift_allowance'', ''SHIFT_ALLOWANCE''), (''comp_off_encashment'', ''COMP_OFF_ENCASHMENT''),
      (''lta'', ''LTA''), (''statutory_bonus'', ''STATUTORY_BONUS'')]"

definition variable_inputs_of :: "payroll_run \<Rightarrow> uuid \<Rightarrow> payroll_db \<Rightarrow> variable_input list" where
  "variable_inputs_of run eid db =
     filter (\<lambda>v. vi_employee_id v = eid \<and> vi_period_id v = run_period_id run \<and>
                 vi_status v \<in> {''APPROVED'', ''PENDING''}) (db_variables db)"

definition sum_of_types :: "string list \<Rightarrow> variable_input list \<Rightarrow> int" where
  "sum_of_types types vs =
     (\<Sum>v\<leftarrow>filter (\<lambda>v. py_lower (vi_type v) \<in> set types) vs. vi_amount_paise v)"

definition component_of_type :: "string \<Rightarrow> string" where
  "component_of_type t =
     (case map_of VARIABLE_TYPE_TO_COMPONENT t of Some c \<Rightarrow> c | None \<Rightarrow> py_upper t)"

definition add_to :: "string \<Rightarrow> int \<Rightarrow> (string \<times> int) list \<Rightarrow> (string \<times> int) list" where
  "add_to code n m = AList.update code ((case map_of m code of Some k \<Rightarrow> k | None \<Rightarrow> 0) + n) m"

definition var_component_paise :: "variable_input list \<Rightarrow> (string \<times> int) list" where
  "var_component_paise vs =
     foldl (\<lambda>m v. let t = py_lower (vi_type v)
                   in if t \<in> set earning_types then add_to (component_of_type t) (vi_amount_paise v) m else m)
       [] vs"

section \<open>Custom pay components\<close>

definition core_codes :: "string list" where
  "core_codes =
     [''BASIC'', ''HRA'', ''SPECIAL_ALLOWANCE'', ''CONVEYANCE'', ''LTA'', ''STATUTORY_BONUS'',
      ''REIMBURSEMENT'', ''PF'', ''ESI'', ''PT'', ''LWF'', ''TDS'', ''PF_EMPLOYEE'', ''PF_EMPLOYER'',
      ''ESI_EMPLOYEE'', ''ESI_EMPLOYER'']"

text \<open>
  The external parts of formula evaluation: Python's expression parser and Decimal exponentiation.
\<close>

record formula_env =
  fe_power :: "rat \<Rightarrow> rat \<Rightarrow> arith"
  fe_parse :: "string \<Rightarrow> expr option"

record component_base =
  cb_basic :: int
  cb_monthly_ctc :: int
  cb_ratio :: rat
  cb_base_gross :: int

text \<open>The value of one component; None is the \<open>continue\<close> of a flat catalogue entry.\<close>

definition component_value ::
  "formula_env \<Rightarrow> component_base \<Rightarrow> (string \<times> rat option) list \<Rightarrow> pay_component \<Rightarrow> int option result" where
  "component_value fe b context pc =
     (let calc = py_lower (if pc_calculation_method pc = [] then ''flat'' else pc_calculation_method pc);
          expr = or_str (pc_formula_expr pc) []
      in if calc = ''formula'' \<and> expr \<noteq> []
         then as_422 (bind_res (evaluate_paise (fe_power fe) (fe_parse fe) expr context) (\<lambda>n. Inr (Some n)))
         else
           (case (calc, pc_default_percentage pc) of
              (m, Some pct) \<Rightarrow>
                if m = ''percentage_of_basic''
                then Inr (Some (round_paise (dmul (of_int (cb_basic b)) pct)))
                else if m = ''percentage_of_ctc''
                then Inr (Some (round_paise (dmul (dmul (of_int (cb_monthly_ctc b)) (cb_ratio b)) pct)))
                else Inr None
            | (m, None) \<Rightarrow> Inr None))"

record custom_pay =
  cu_earning_breakup :: "(string \<times> int) list"
  cu_deduction_breakup :: "(string \<times> int) list"
  cu_earnings :: int
  cu_deductions :: int
  cu_employer :: int

definition no_custom_pay :: custom_pay where
  "no_custom_pay =
     \<lparr> cu_earning_breakup = [], cu_deduction_breakup = [], cu_earnings = 0, cu_deductions = 0,
       cu_employer = 0 \<rparr>"

definition add_custom ::
  "int \<Rightarrow> pay_component \<Rightarrow> int \<Rightarrow> custom_pay \<times> (string \<times> rat option) list
    \<Rightarrow> custom_pay \<times> (string \<times> rat option) list" where
  "add_custom base_gross pc n st =
     (let code = py_upper (pc_code pc); typ = py_lower (pc_type pc); cu = fst st
      in if typ = ''earning'' then
           (cu\<lparr> cu_earning_breakup := add_to code n (cu_earning_breakup cu),
                cu_earnings := cu_earnings cu + n \<rparr>,
            AList.update ''gross'' (Some (of_int (base_gross + (cu_earnings cu + n))))
              (AList.update (py_lower code) (Some (of_int n)) (snd st)))
         else if typ = ''deduction'' then
           (cu\<lparr> cu_deduction_breakup := add_to code n (cu_deduction_breakup cu),
                cu_deductions := cu_deductions cu + n \<rparr>, snd st)
         else if typ = ''employer_contribution'' then
           (cu\<lparr> cu_employer := cu_employer cu + n \<rparr>, snd st)
         else st)"

fun custom_loop ::
  "formula_env \<Rightarrow> component_base \<Rightarrow> pay_component list \<Rightarrow> custom_pay \<times> (string \<times> rat option) list
    \<Rightarrow> (custom_pay \<times> (string \<times> rat option) list) result" where
  "custom_loop fe b [] st = Inr st"
| "custom_loop fe b (pc # pcs) st =
     (if py_upper (pc_code pc) \<in> set core_codes then custom_loop fe b pcs st
      else bind_res (component_value fe b (snd st) pc) (\<lambda>value.
        case value of
          None \<Rightarrow> custom_loop fe b pcs st
        | Some n \<Rightarrow> custom_loop fe b pcs (add_custom (cb_base_gross b) pc n st)))"

definition pay_components_of :: "payroll_run \<Rightarrow> payroll_db \<Rightarrow> pay_component list" where
  "pay_components_of run db =
     filter (\<lambda>c. pc_is_active c \<and>
        (case run_company_id run of
           None \<Rightarrow> True | Some cid \<Rightarrow> pc_company_id c = Some cid \<or> pc_company_id c = None)) (db_components db)"

end
