(* ===== verification/Run_Statutory.thy ===== *)
theory Run_Statutory
  imports Pay_Heads
begin

text \<open>
  The statutory side of \<open>PayrollRunService.execute_run_calculation\<close> for one employee:
  the configuration of the run, the employee's jurisdiction, ESI coverage from the earliest payslip
  of the contribution period, the inputs of the TDS projection with the pay already reported in the
  financial year, and the country adapter that replaces the Indian deductions of a non-Indian run.
\<close>

section \<open>The earnings of one employee\<close>

record earnings =
  ea_monthly :: pay_heads
  ea_heads :: pay_heads
  ea_paid_days :: rat
  ea_lop_days :: rat
  ea_variables :: "variable_input list"
  ea_ledger_arrears :: int
  ea_attendance_arrears :: int
  ea_one_time_bonus :: int
  ea_custom :: custom_pay
  ea_gross :: int

definition ea_variable_earnings :: "earnings \<Rightarrow> int" where
  "ea_variable_earnings ea = sum_of_types earning_types (ea_variables ea)"

definition ea_variable_deductions :: "earnings \<Rightarrow> int" where
  "ea_variable_deductions ea = sum_of_types deduction_types (ea_variables ea)"

definition ea_arrears :: "earnings \<Rightarrow> int" where
  "ea_arrears ea = ea_ledger_arrears ea + ea_attendance_arrears ea"

section \<open>Configuration and jurisdiction\<close>

text \<open>
  \<open>scalar_one_or_none() or StatutoryComplianceConfig()\<close>: without a row the code goes on with
  an object that was never flushed, whose attributes are all None. None is falsy and reads as the
  amount 0.
\<close>

definition transient_config :: compliance_config where
  "transient_config =
     \<lparr> cc_id = 0, cc_company_id = None, cc_is_active = False, cc_maker_checker_enforced = False,
       cc_pf = \<lparr> pf_enabled = False, employee_pf_rate = 0, employer_pf_rate = 0, employer_eps_rate = 0,
         employer_edli_rate = 0, pf_admin_rate = 0, pf_wage_ceiling = 0, pf_on_full_basic = False \<rparr>,
       cc_esi = \<lparr> esi_enabled = False, employee_esi_rate = 0, employer_esi_rate = 0,
         esi_wage_ceiling = 0, esi_pwd_wage_ceiling = 0 \<rparr>,
       cc_labour = \<lparr> lc_labour_code_enabled = False, lc_min_basic_wage_ratio = None,
         lc_excluded_allowance_components = NoCodes \<rparr>,
       cc_pt_state = None, cc_default_tax_regime = None, cc_needs_ca_validation = [],
       cc_ca_verified_by = None, cc_ca_verified_at = None, cc_ca_certificate_ref = None,
       cc_formula_version = None \<rparr>"

definition run_config :: "payroll_run \<Rightarrow> payroll_db \<Rightarrow> compliance_config result" where
  "run_config run db =
     bind_res (scalar_one_or_none (filter (config_visible (run_company_id run)) (db_configs db)))
       (\<lambda>config. Inr (case config of Some c \<Rightarrow> c | None \<Rightarrow> transient_config))"

fun first_nonempty :: "string option list \<Rightarrow> string \<Rightarrow> string" where
  "first_nonempty [] d = d"
| "first_nonempty (s # ss) d = (if or_str s [] = [] then first_nonempty ss d else or_str s [])"

definition resolve_employee_statutory_state :: "employee \<Rightarrow> string option \<Rightarrow> payroll_db \<Rightarrow> string" where
  "resolve_employee_statutory_state emp fallback_state db =
     (let br = (case em_branch_id emp of None \<Rightarrow> None
                | Some b \<Rightarrow> scalars_first (filter (\<lambda>x. br_id x = b) (db_branches db)));
          en = (case em_legal_entity_id emp of None \<Rightarrow> None
                | Some l \<Rightarrow> scalars_first (filter (\<lambda>x. le_id x = l) (db_entities db)));
          branch_state = (case br of None \<Rightarrow> []
            | Some b \<Rightarrow> if br_company_id b = em_company_id emp then or_str (br_state_code b) [] else []);
          entity_state = (case en of None \<Rightarrow> []
            | Some l \<Rightarrow> if le_company_id l = em_company_id emp then or_str (le_state_code l) [] else [])
      in if branch_state \<noteq> [] then state_code (Some branch_state)
         else if entity_state \<noteq> [] then state_code (Some entity_state)
         else state_code (Some (first_nonempty
                [em_state_code emp, em_branch emp, em_work_location emp, fallback_state] ''MAHARASHTRA'')))"

section \<open>ESI coverage\<close>

text \<open>The months from the start of a contribution period to its end; a period has six.\<close>

definition period_months :: "date \<times> date \<Rightarrow> (int \<times> int) list" where
  "period_months p =
     (if month (fst p) = 4 then map (\<lambda>m. (m, year (fst p))) [4, 5, 6, 7, 8, 9]
      else map (\<lambda>m. (m, year (fst p))) [10, 11, 12] @ map (\<lambda>m. (m, year (fst p) + 1)) [1, 2, 3])"

definition slip_before :: "payslip \<Rightarrow> payslip \<Rightarrow> bool" where
  "slip_before a b \<longleftrightarrow>
     ps_period_year a < ps_period_year b \<or>
     ps_period_year a = ps_period_year b \<and> ps_period_month a < ps_period_month b"

fun earliest_slip :: "payslip option \<Rightarrow> payslip list \<Rightarrow> payslip option" where
  "earliest_slip best [] = best"
| "earliest_slip None (p # ps) = earliest_slip (Some p) ps"
| "earliest_slip (Some b) (p # ps) = earliest_slip (Some (if slip_before p b then p else b)) ps"

definition rupees_trunc :: "rat \<Rightarrow> int" where
  "rupees_trunc x = dec_trunc (dmul x 100)"

definition employee_esi_ceiling :: "employee \<Rightarrow> esi_config \<Rightarrow> int" where
  "employee_esi_ceiling emp c =
     rupees_trunc (if em_is_pwd emp then esi_pwd_wage_ceiling c else esi_wage_ceiling c)"

definition get_esi_coverage_at_period_start ::
  "employee \<Rightarrow> payroll_period \<Rightarrow> esi_config \<Rightarrow> uuid option \<Rightarrow> payroll_db \<Rightarrow> bool \<times> date" where
  "get_esi_coverage_at_period_start emp period c company db =
     (let cp = esi_contribution_period (pp_start_date period);
          first_slip = earliest_slip None
            (filter (\<lambda>p. ps_employee_id p = em_id emp \<and>
                         (ps_period_month p, ps_period_year p) \<in> set (period_months cp) \<and>
                         (case company of None \<Rightarrow> True | Some cid \<Rightarrow> ps_company_id p = Some cid))
               (db_payslips db))
      in (em_esi_covered_at_period_start emp \<or>
            (case first_slip of
               None \<Rightarrow> False
             | Some p \<Rightarrow> rupees_trunc (ps_gross_earnings p) \<le> employee_esi_ceiling emp c),
          fst cp))"

section \<open>PF and ESI of the run\<close>

definition first_of_month :: "payroll_run \<Rightarrow> date" where
  "first_of_month run = Date (run_period_year run) (run_period_month run) 1"

definition employee_age :: "payroll_run \<Rightarrow> employee \<Rightarrow> int option" where
  "employee_age run emp =
     (case em_date_of_birth emp of
        None \<Rightarrow> None
      | Some b \<Rightarrow>
          let d = first_of_month run
          in Some (year d - year b -
                   (if month d < month b \<or> month d = month b \<and> day d < day b then 1 else 0)))"

definition run_pf_input :: "payroll_run \<Rightarrow> compliance_config \<Rightarrow> employee \<Rightarrow> int \<Rightarrow> pf_input" where
  "run_pf_input run config emp wages =
     \<lparr> pi_basic_paise = wages, pi_da_paise = 0, pi_config = Some (cc_pf config), pi_on_full_basic = None,
       pi_is_pf_eligible = em_is_pf_eligible emp, pi_is_international_worker = em_is_international_worker emp,
       pi_wage_ceiling_applicable = em_pf_wage_ceiling_applicable emp, pi_age = employee_age run emp,
       pi_vpf_rate = em_vpf_rate emp, pi_higher_wage_opted = em_pf_higher_wage_opted emp,
       pi_membership_active = em_pf_membership_active emp, pi_uan_number = None, pi_require_uan = False,
       pi_eps_rate = None, pi_edli_rate = None, pi_admin_rate = None, pi_kw_higher_wage_opted = None,
       pi_kw_vpf_percentage = None, pi_kw_is_active = None \<rparr>"

definition run_esi_input ::
  "payroll_run \<Rightarrow> compliance_config \<Rightarrow> payroll_period option \<Rightarrow> employee \<Rightarrow> int \<Rightarrow> int \<Rightarrow> payroll_db \<Rightarrow> esi_input"
where
  "run_esi_input run config period emp gross wages db =
     (let coverage = (case period of None \<Rightarrow> None
            | Some p \<Rightarrow> Some (get_esi_coverage_at_period_start emp p (cc_esi config) (run_company_id run) db))
      in \<lparr> ei_gross_monthly_paise = gross, ei_config = Some (cc_esi config),
           ei_contribution_wage_paise = Some wages, ei_is_pwd = em_is_pwd emp,
           ei_covered_at_period_start =
             Some ((case coverage of Some cv \<Rightarrow> fst cv | None \<Rightarrow> em_esi_covered_at_period_start emp) \<or>
                   gross \<le> employee_esi_ceiling emp (cc_esi config)),
           ei_as_of_date = Some (first_of_month run),
           ei_contribution_period_start = (case coverage of Some cv \<Rightarrow> Some (snd cv) | None \<Rightarrow> None),
           ei_period_start = None, ei_previously_covered = None, ei_kw_pwd = None,
           ei_kw_is_person_with_disability = None, ei_kw_covered_aliases = [] \<rparr>)"

section \<open>The TDS projection's inputs\<close>

definition fy_start :: "payroll_run \<Rightarrow> int" where
  "fy_start run = (if 4 \<le> run_period_month run then run_period_year run else run_period_year run - 1)"

definition fy_label :: "payroll_run \<Rightarrow> string" where
  "fy_label run = int_str (fy_start run) @ ''-'' @ int_str (fy_start run + 1)"

definition remaining_months_of :: "int \<Rightarrow> int" where
  "remaining_months_of m = (if 4 \<le> m then 16 - m else 4 - m)"

text \<open>The months of the financial year, April to March, that precede the run's.\<close>

definition elapsed_pairs :: "payroll_run \<Rightarrow> (int \<times> int) list" where
  "elapsed_pairs run =
     (let y = fy_start run; m = run_period_month run
      in take (nat (if 4 \<le> m then m - 4 else m + 8))
           (map (\<lambda>k. (k, y)) [4, 5, 6, 7, 8, 9, 10, 11, 12] @ map (\<lambda>k. (k, y + 1)) [1, 2, 3]))"

definition declaration_of :: "payroll_run \<Rightarrow> uuid \<Rightarrow> payroll_db \<Rightarrow> investment_declaration option result" where
  "declaration_of run eid db =
     scalar_one_or_none
       (filter (\<lambda>d. id_employee_id d = eid \<and> id_financial_year d = fy_label run) (db_declarations db))"

definition decl_dict :: "employee \<Rightarrow> investment_declaration option \<Rightarrow> declarations" where
  "decl_dict emp decl =
     (case decl of
        None \<Rightarrow> [(''professional_tax'', Some (em_professional_tax emp * 12))]
      | Some d \<Rightarrow>
          [(''section_80c'', Some (id_section_80c d)), (''section_80d'', Some (id_section_80d d)),
           (''section_80ccd1b_nps'', Some (id_section_80ccd1b_nps d)),
           (''home_loan_interest_24b'', Some (id_home_loan_interest_24b d)),
           (''section_80g'', Some (id_section_80g d)), (''hra_claimed'', Some (id_hra_claimed d)),
           (''lta_claimed'', Some (id_lta_claimed d)),
           (''professional_tax'', Some (em_professional_tax emp * 12)),
           (''other_deductions'', Some (id_other_deductions d))])"

record prior_pay =
  pr_prior_tds :: int
  pr_prior_gross :: int
  pr_has_history :: bool

text \<open>
  What the year has already paid: the payslips of the elapsed months, and the imported rows of the
  months that have no payslip.
\<close>

definition prior_pay_of :: "payroll_run \<Rightarrow> uuid \<Rightarrow> payroll_db \<Rightarrow> prior_pay" where
  "prior_pay_of run eid db =
     (let pairs = elapsed_pairs run;
          slips = filter (\<lambda>p. ps_employee_id p = eid \<and> ps_company_id p = run_company_id run \<and>
                              (ps_period_month p, ps_period_year p) \<in> set pairs) (db_payslips db);
          imported = filter (\<lambda>y. ys_employee_id y = eid \<and>
                              (ys_period_month y, ys_period_year y) \<in> set pairs \<and>
                              (case run_company_id run of None \<Rightarrow> True | Some c \<Rightarrow> ys_company_id y = Some c) \<and>
                              \<not> list_ex (\<lambda>p. ps_employee_id p = ys_employee_id y \<and>
                                             ps_period_month p = ys_period_month y \<and>
                                             ps_period_year p = ys_period_year y) (db_payslips db)) (db_ytd db)
      in \<lparr> pr_prior_tds = rupees_trunc (\<Sum>p\<leftarrow>slips. ps_tds p) + (\<Sum>y\<leftarrow>imported. ys_tds_paise y),
           pr_prior_gross =
             rupees_trunc (\<Sum>p\<leftarrow>slips. ps_gross_earnings p) + (\<Sum>y\<leftarrow>imported. ys_gross_earnings_paise y),
           pr_has_history = (slips \<noteq> [] \<or> imported \<noteq> []) \<rparr>)"

definition one_time_types :: "string list" where
  "one_time_types = [''bonus'', ''one_time_bonus'', ''incentive'', ''commission'']"

definition current_one_time :: "earnings \<Rightarrow> int" where
  "current_one_time ea = ea_one_time_bonus ea + sum_of_types one_time_types (ea_variables ea)"

definition recurring_annual_gross :: "payroll_run \<Rightarrow> earnings \<Rightarrow> prior_pay \<Rightarrow> int" where
  "recurring_annual_gross run ea prior =
     (let recurring = max 0 (ea_gross ea - current_one_time ea)
      in if pr_has_history prior
         then recurring * remaining_months_of (run_period_month run) + pr_prior_gross prior
         else recurring * 12)"

definition decl_int :: "investment_declaration option \<Rightarrow> (investment_declaration \<Rightarrow> int) \<Rightarrow> int" where
  "decl_int decl f = (case decl of None \<Rightarrow> 0 | Some d \<Rightarrow> f d)"

definition cutoff_passed :: "date \<Rightarrow> investment_declaration option \<Rightarrow> bool" where
  "cutoff_passed today decl \<longleftrightarrow>
     (case decl of None \<Rightarrow> False
      | Some d \<Rightarrow> (case id_proof_cutoff_date d of None \<Rightarrow> False | Some c \<Rightarrow> c \<le> today))"

definition employee_regime :: "compliance_config \<Rightarrow> investment_declaration option \<Rightarrow> string" where
  "employee_regime config decl =
     first_nonempty [case decl of None \<Rightarrow> None | Some d \<Rightarrow> id_tax_regime d, cc_default_tax_regime config] ''NEW''"

definition run_tds_input ::
  "payroll_run \<Rightarrow> compliance_config \<Rightarrow> employee \<Rightarrow> earnings \<Rightarrow> investment_declaration option \<Rightarrow> prior_pay
    \<Rightarrow> date \<Rightarrow> tds_input"
where
  "run_tds_input run config emp ea decl prior today =
     \<lparr> ti_annual_gross_paise = recurring_annual_gross run ea prior,
       ti_tax_regime = Some (employee_regime config decl),
       ti_declarations = decl_dict emp decl,
       ti_remaining_months = remaining_months_of (run_period_month run),
       ti_financial_year = fy_label run, ti_tax_rule = None,
       ti_verified_declarations =
         (case decl of None \<Rightarrow> None
          | Some d \<Rightarrow> if id_verified_details d = [] then None else Some (id_verified_details d)),
       ti_proof_cutoff_passed = cutoff_passed today decl,
       ti_use_verified_declarations =
         Some ((case decl of None \<Rightarrow> False | Some d \<Rightarrow> id_use_verified_amounts d) \<and> cutoff_passed today decl),
       ti_ytd_tds_paise = max (decl_int decl id_ytd_tds_paise) (pr_prior_tds prior),
       ti_previous_employer_tds_paise = decl_int decl id_previous_employer_tds_paise,
       ti_previous_employer_income_paise = decl_int decl id_previous_employer_income_paise,
       ti_current_month = Some (run_period_month run),
       ti_one_time_bonus_paise = current_one_time ea + decl_int decl id_one_time_bonus_paise,
       ti_variable_pay_paise = decl_int decl id_variable_pay_paise, ti_bonus_paise = None,
       ti_basic_annual_paise = ph_basic (ea_heads ea) * 12, ti_hra_annual_paise = ph_hra (ea_heads ea) * 12,
       ti_rent_paid_annual_paise = 0, ti_metro = False, ti_kw = no_override,
       ti_kw_already_deducted_tds_paise = None, ti_kw_previous_tds_paise = None,
       ti_kw_previous_employer_income = None, ti_kw_ytd_tds = None \<rparr>"

end
