(* ===== verification/Run_Calc.thy ===== *)
theory Run_Calc
  imports Run_Statutory
begin

text \<open>
  The calculation engine: \<open>PayrollRunService.execute_run_calculation\<close>. The run is committed
  as PROCESSING before the calculation starts, so a failure leaves it there; everything after that
  is one transaction.
\<close>

section \<open>The earnings of an employee\<close>

definition formula_context ::
  "pay_heads \<Rightarrow> int \<Rightarrow> int \<Rightarrow> int \<Rightarrow> rat \<Rightarrow> rat \<Rightarrow> int \<Rightarrow> int \<Rightarrow> (string \<times> rat option) list" where
  "formula_context h base_gross annual monthly paid lop arrears one_time =
     [(''basic'', Some (of_int (ph_basic h))), (''hra'', Some (of_int (ph_hra h))),
      (''special'', Some (of_int (ph_special h))), (''special_allowance'', Some (of_int (ph_special h))),
      (''conveyance'', Some (of_int (ph_conveyance h))), (''lta'', Some (of_int (ph_lta h))),
      (''gross'', Some (of_int base_gross)), (''ctc'', Some (of_int annual)),
      (''monthly_ctc'', Some (of_int monthly)), (''paid_days'', Some paid), (''lop_days'', Some lop),
      (''total_days'', Some 30), (''arrears'', Some (of_int arrears)),
      (''one_time_bonus'', Some (of_int one_time))]"

record pay_source =
  src_compensation :: "compensation option"
  src_salary :: "salary_structure option"
  src_terms :: "string \<times> rat"
  src_heads :: pay_heads
  src_attendance :: "attendance_input option"

definition load_pay_source :: "payroll_run \<Rightarrow> string \<Rightarrow> rat \<Rightarrow> uuid \<Rightarrow> payroll_db \<Rightarrow> pay_source result" where
  "load_pay_source run cur rate eid db =
     bind_res (active_compensation eid db) (\<lambda>cmp.
     bind_res (active_salary eid db) (\<lambda>sal.
     bind_res (source_terms cmp sal) (\<lambda>terms.
     bind_res (source_heads cmp sal terms cur rate) (\<lambda>heads.
     bind_res (attendance_of run eid db) (\<lambda>att.
       Inr \<lparr> src_compensation = cmp, src_salary = sal, src_terms = terms, src_heads = heads,
             src_attendance = att \<rparr>)))))"

definition base_gross_of :: "pay_heads \<Rightarrow> variable_input list \<Rightarrow> int \<Rightarrow> int \<Rightarrow> int" where
  "base_gross_of h vs arrears one_time =
     heads_total h + sum_of_types earning_types vs + arrears + one_time"

definition employee_earnings ::
  "formula_env \<Rightarrow> pay_component list \<Rightarrow> pay_source \<Rightarrow> variable_input list \<Rightarrow> int \<Rightarrow> string \<Rightarrow> rat
    \<Rightarrow> earnings result"
where
  "employee_earnings fe pcs src vs ledger cur rate =
     (let att = src_attendance src;
          lop = (case att of None \<Rightarrow> 0 | Some a \<Rightarrow> ai_lop_days a);
          paid = effective_paid_days (case att of None \<Rightarrow> 30 | Some a \<Rightarrow> ai_paid_days a) lop;
          ratio = day_ratio paid;
          heads = prorated_heads ratio (src_heads src);
          att_arrears = round_paise (dmul (case att of None \<Rightarrow> 0 | Some a \<Rightarrow> ai_arrears a) 100);
          one_time = round_paise (dmul (case att of None \<Rightarrow> 0 | Some a \<Rightarrow> ai_one_time_bonus a) 100);
          base_gross = base_gross_of heads vs (ledger + att_arrears) one_time
      in bind_res (annual_ctc_of (src_compensation src) (src_salary src) (src_terms src) cur rate) (\<lambda>annual.
         let monthly = monthly_ctc_of annual (src_heads src)
         in bind_res
              (custom_loop fe
                 \<lparr> cb_basic = ph_basic heads, cb_monthly_ctc = monthly, cb_ratio = ratio,
                   cb_base_gross = base_gross \<rparr> pcs
                 (no_custom_pay,
                  formula_context heads base_gross annual monthly paid lop (ledger + att_arrears) one_time))
              (\<lambda>st. Inr \<lparr> ea_monthly = src_heads src, ea_heads = heads, ea_paid_days = paid,
                          ea_lop_days = lop, ea_variables = vs, ea_ledger_arrears = ledger,
                          ea_attendance_arrears = att_arrears, ea_one_time_bonus = one_time,
                          ea_custom = fst st,
                          ea_gross = max 0 (base_gross + cu_earnings (fst st)) \<rparr>)))"

definition statutory_wages :: "earnings \<Rightarrow> compliance_config \<Rightarrow> int" where
  "statutory_wages ea config =
     wr_statutory_wages_paise
       (apply_labour_code_wage_rule (ea_gross ea) (ph_basic (ea_heads ea)) 0
          (map (\<lambda>kv. (fst kv, Some (snd kv)))
             (foldl (\<lambda>m kv. AList.update (fst kv) (snd kv) m)
                [(''HRA'', ph_hra (ea_heads ea)), (''CONVEYANCE'', ph_conveyance (ea_heads ea)),
                 (''SPECIAL_ALLOWANCE'', ph_special (ea_heads ea))]
                (var_component_paise (ea_variables ea))))
          (Some (cc_labour config)))"

section \<open>Statutory charges\<close>

record charges =
  ch_employee_pf :: int
  ch_employer_pf :: int
  ch_edli :: int
  ch_admin :: int
  ch_employee_esi :: int
  ch_employer_esi :: int
  ch_pt :: int
  ch_employee_lwf :: int
  ch_employer_lwf :: int
  ch_tds :: int
  ch_gratuity :: int
  ch_country_employee :: int
  ch_country_employer :: int
  ch_review_required :: bool
  ch_rule_version :: "string option"

definition india_charges ::
  "payroll_run \<Rightarrow> compliance_config \<Rightarrow> payroll_period option \<Rightarrow> employee \<Rightarrow> earnings
    \<Rightarrow> investment_declaration option \<Rightarrow> pf_result \<Rightarrow> date \<Rightarrow> payroll_db \<Rightarrow> charges"
where
  "india_charges run config period emp ea decl pf today db =
     (let wages = statutory_wages ea config;
          esi = calculate_esi today (run_esi_input run config period emp (ea_gross ea) wages db);
          state = resolve_employee_statutory_state emp (cc_pt_state config) db;
          rule = get_state_statutory_rule (db_state_rules db) (Some state) (run_company_id run)
                   (Some (case period of Some p \<Rightarrow> pp_start_date p | None \<Rightarrow> first_of_month run)) today;
          pt = calculate_pt (ea_gross ea) (Some state) (run_period_month run)
                 (or_str (em_gender emp) ''MALE'') rule None;
          lwf = calculate_lwf (ea_gross ea) (Some state) (run_period_month run) rule;
          tds = calculate_tds (run_tds_input run config emp ea decl (prior_pay_of run (em_id emp) db) today);
          gratuity = calculate_gratuity (ph_basic (ea_heads ea)) (Some wages)
      in \<lparr> ch_employee_pf = employee_pf_paise pf, ch_employer_pf = total_employer_pf_paise pf,
           ch_edli = employer_edli_paise pf, ch_admin = employer_admin_paise pf,
           ch_employee_esi = er_employee_esi_paise esi, ch_employer_esi = er_employer_esi_paise esi,
           ch_pt = pr_pt_paise pt, ch_employee_lwf = lr_employee_lwf_paise lwf,
           ch_employer_lwf = lr_employer_lwf_paise lwf, ch_tds = td_current_month_tds_paise tds,
           ch_gratuity = gr_monthly_provision_paise gratuity, ch_country_employee = 0,
           ch_country_employer = 0, ch_review_required = False, ch_rule_version = None \<rparr>)"

text \<open>Outside India the country adapter replaces every Indian charge.\<close>

definition country_charges :: "payroll_run \<Rightarrow> string \<Rightarrow> string \<Rightarrow> calculator \<Rightarrow> earnings \<Rightarrow> charges result" where
  "country_charges run country cur calc ea =
     bind_res
       (as_422 (calc \<lparr> csi_country_code = country, csi_currency = cur, csi_gross_paise = ea_gross ea,
                       csi_basic_paise = ph_basic (ea_heads ea), csi_period_month = run_period_month run,
                       csi_period_year = run_period_year run, csi_rules = run_statutory_rules run \<rparr>))
       (\<lambda>r. Inr \<lparr> ch_employee_pf = 0, ch_employer_pf = 0, ch_edli = 0, ch_admin = 0, ch_employee_esi = 0,
                  ch_employer_esi = 0, ch_pt = 0, ch_employee_lwf = 0, ch_employer_lwf = 0, ch_tds = 0,
                  ch_gratuity = 0, ch_country_employee = csr_employee_deductions_paise r,
                  ch_country_employer = csr_employer_contributions_paise r,
                  ch_review_required = csr_review_required r,
                  ch_rule_version = Some (csr_rule_version r) \<rparr>)"

definition deductions_of :: "charges \<Rightarrow> earnings \<Rightarrow> int \<Rightarrow> int" where
  "deductions_of ch ea advance =
     ch_employee_pf ch + ch_employee_esi ch + ch_pt ch + ch_employee_lwf ch + ch_tds ch +
     ch_country_employee ch + ea_variable_deductions ea + advance + cu_deductions (ea_custom ea)"

definition net_of :: "int \<Rightarrow> int \<Rightarrow> int" where
  "net_of gross deductions = max 0 (round_to_rupee_paise (of_int (gross - deductions)))"

definition employer_cost_of :: "charges \<Rightarrow> earnings \<Rightarrow> int" where
  "employer_cost_of ch ea =
     ea_gross ea + ch_employer_pf ch + ch_edli ch + ch_admin ch + ch_employer_esi ch +
     ch_employer_lwf ch + ch_gratuity ch + ch_country_employer ch + cu_employer (ea_custom ea)"

text \<open>The declaration remembers the year-to-date TDS, this month included.\<close>

definition remember_ytd ::
  "payroll_run \<Rightarrow> uuid \<Rightarrow> investment_declaration option \<Rightarrow> int \<Rightarrow> payroll_db \<Rightarrow> payroll_db" where
  "remember_ytd run eid decl tds db =
     (case decl of
        None \<Rightarrow> db
      | Some d \<Rightarrow>
          db\<lparr> db_declarations :=
                update_where (\<lambda>x. id_employee_id x = eid \<and> id_financial_year x = fy_label run)
                  (\<lambda>x. x\<lparr> id_ytd_tds_paise :=
                            max (id_ytd_tds_paise d) (pr_prior_tds (prior_pay_of run eid db) + tds) \<rparr>)
                  (db_declarations db) \<rparr>)"


section \<open>Rows written for an employee\<close>

record line =
  ln_run :: payroll_run
  ln_employee :: employee
  ln_salary :: "salary_structure option"
  ln_currency :: string
  ln_earnings :: earnings
  ln_charges :: charges
  ln_advance :: int
  ln_gross_base :: int
  ln_deductions_base :: int
  ln_net_base :: int

definition ln_gross :: "line \<Rightarrow> int" where
  "ln_gross l = ea_gross (ln_earnings l)"

definition ln_deductions :: "line \<Rightarrow> int" where
  "ln_deductions l = deductions_of (ln_charges l) (ln_earnings l) (ln_advance l)"

definition ln_net :: "line \<Rightarrow> int" where
  "ln_net l = net_of (ln_gross l) (ln_deductions l)"

text \<open>
  The two breakups keep the exact integer entries of the JSON objects; the rupee floats beside them
  are the same amounts for display.
\<close>

definition earnings_breakup :: "line \<Rightarrow> (string \<times> int) list" where
  "earnings_breakup l =
     (let ea = ln_earnings l; h = ea_heads ea
      in [(''basic_paise'', ph_basic h), (''hra_paise'', ph_hra h), (''special_paise'', ph_special h),
          (''conveyance_paise'', ph_conveyance h), (''lta_paise'', ph_lta h),
          (''statutory_bonus_paise'', ph_statutory_bonus h), (''reimbursement_paise'', ph_reimbursement h),
          (''variable_paise'', ea_variable_earnings ea), (''arrears_paise'', ea_arrears ea),
          (''ledger_arrears_paise'', ea_ledger_arrears ea),
          (''attendance_arrears_paise'', ea_attendance_arrears ea),
          (''one_time_bonus_paise'', ea_one_time_bonus ea), (''gross_paise'', ea_gross ea)])"

definition deductions_breakup :: "line \<Rightarrow> (string \<times> int) list" where
  "deductions_breakup l =
     (let ea = ln_earnings l; ch = ln_charges l
      in [(''pf_paise'', ch_employee_pf ch), (''esi_paise'', ch_employee_esi ch), (''pt_paise'', ch_pt ch),
          (''lwf_paise'', ch_employee_lwf ch), (''tds_paise'', ch_tds ch),
          (''advance_recovery_paise'', ln_advance l),
          (''variable_deductions_paise'', ea_variable_deductions ea),
          (''custom_deductions_paise'', cu_deductions (ea_custom ea)),
          (''country_employee_deductions_paise'', ch_country_employee ch),
          (''country_employer_contributions_paise'', ch_country_employer ch),
          (''total_deductions_paise'', ln_deductions l)])"

definition fill_run_employee :: "line \<Rightarrow> run_employee \<Rightarrow> run_employee" where
  "fill_run_employee l row =
     row\<lparr> re_gross_earnings_paise := ln_gross l, re_total_deductions_paise := ln_deductions l,
          re_net_pay_paise := ln_net l, re_gross_base_paise := ln_gross_base l,
          re_total_deductions_base_paise := ln_deductions_base l, re_net_base_paise := ln_net_base l,
          re_paid_days := ea_paid_days (ln_earnings l), re_lop_days := ea_lop_days (ln_earnings l),
          re_status := ''PROCESSED'', re_validation_status := ''VALID'',
          re_earnings_breakup := earnings_breakup l, re_deductions_breakup := deductions_breakup l \<rparr>"

definition new_run_employee :: "line \<Rightarrow> run_employee" where
  "new_run_employee l =
     \<lparr> re_run_id = run_id (ln_run l), re_employee_id = em_id (ln_employee l),
       re_company_id = run_company_id (ln_run l), re_gross_earnings_paise = 0,
       re_total_deductions_paise = 0, re_net_pay_paise = 0, re_gross_base_paise = 0,
       re_total_deductions_base_paise = 0, re_net_base_paise = 0, re_paid_days = 0, re_lop_days = 0,
       re_status = ''PENDING'', re_validation_status = ''PENDING'', re_earnings_breakup = [],
       re_deductions_breakup = [] \<rparr>"

definition own_row :: "line \<Rightarrow> run_employee \<Rightarrow> bool" where
  "own_row l r \<longleftrightarrow> re_run_id r = run_id (ln_run l) \<and> re_employee_id r = em_id (ln_employee l)"

definition save_run_employee :: "line \<Rightarrow> payroll_db \<Rightarrow> payroll_db result" where
  "save_run_employee l db =
     bind_res (scalar_one_or_none (filter (own_row l) (db_run_employees db))) (\<lambda>found.
       Inr (db\<lparr> db_run_employees :=
         (case found of
            Some _ \<Rightarrow> update_where (own_row l) (fill_run_employee l) (db_run_employees db)
          | None \<Rightarrow> db_run_employees db @ [fill_run_employee l (new_run_employee l)]) \<rparr>))"

definition fill_payslip :: "line \<Rightarrow> payslip \<Rightarrow> payslip" where
  "fill_payslip l p =
     (let ea = ln_earnings l; h = ea_heads ea; m = ea_monthly ea; ch = ln_charges l;
          rupees = (\<lambda>n::int. paise_to_rupees (of_int n))
      in p\<lparr> ps_basic := rupees (ph_basic h), ps_hra := rupees (ph_hra h),
            ps_special_allowance := rupees (ph_special h), ps_conveyance := rupees (ph_conveyance h),
            ps_other_allowances_total :=
              rupees (ph_lta h + (\<Sum>kv\<leftarrow>ph_other h. snd kv) + ph_reimbursement h + cu_earnings (ea_custom ea)),
            ps_arrears := rupees (ea_arrears ea),
            ps_bonus := rupees (ph_statutory_bonus h + ea_one_time_bonus ea),
            ps_lop_deduction :=
              rupees (max 0 ((ph_basic m + ph_hra m + ph_special m + ph_conveyance m) -
                             (ph_basic h + ph_hra h + ph_special h + ph_conveyance h))),
            ps_other_deductions :=
              rupees (ea_variable_deductions ea + ln_advance l + cu_deductions (ea_custom ea) +
                      ch_country_employee ch),
            ps_salary_structure_id :=
              (case ln_salary l of Some s \<Rightarrow> Some (ss_id s) | None \<Rightarrow> ps_salary_structure_id p),
            ps_gross_earnings := rupees (ln_gross l), ps_employee_pf := rupees (ch_employee_pf ch),
            ps_employer_pf := rupees (ch_employer_pf ch), ps_employee_esi := rupees (ch_employee_esi ch),
            ps_employer_esi := rupees (ch_employer_esi ch), ps_professional_tax := rupees (ch_pt ch),
            ps_tds := rupees (ch_tds ch), ps_total_deductions := rupees (ln_deductions l),
            ps_net_pay := rupees (ln_net l), ps_currency := ln_currency l,
            ps_gross_base_paise := ln_gross_base l, ps_total_deductions_base_paise := ln_deductions_base l,
            ps_net_base_paise := ln_net_base l, ps_payment_status := ''PENDING'' \<rparr>)"

definition new_payslip :: "line \<Rightarrow> uuid \<Rightarrow> payslip" where
  "new_payslip l i =
     \<lparr> ps_id = i, ps_company_id = run_company_id (ln_run l), ps_run_id = run_id (ln_run l),
       ps_employee_id = em_id (ln_employee l), ps_salary_structure_id = None, ps_currency = ''INR'',
       ps_period_month = run_period_month (ln_run l), ps_period_year = run_period_year (ln_run l),
       ps_basic = 0, ps_hra = 0, ps_special_allowance = 0, ps_conveyance = 0,
       ps_other_allowances_total = 0, ps_arrears = 0, ps_bonus = 0, ps_lop_deduction = 0,
       ps_other_deductions = 0, ps_gross_earnings = 0, ps_employee_pf = 0, ps_employer_pf = 0,
       ps_employee_esi = 0, ps_employer_esi = 0, ps_professional_tax = 0, ps_tds = 0,
       ps_total_deductions = 0, ps_net_pay = 0, ps_gross_base_paise = 0,
       ps_total_deductions_base_paise = 0, ps_net_base_paise = 0, ps_payment_status = ''PENDING'',
       ps_payment_date = None, ps_payment_reference = None \<rparr>"

definition own_slip :: "line \<Rightarrow> payslip \<Rightarrow> bool" where
  "own_slip l p \<longleftrightarrow> ps_run_id p = run_id (ln_run l) \<and> ps_employee_id p = em_id (ln_employee l)"

text \<open>
  A new payslip collides with the unique constraint on employee, month and year when another run
  has already written one for the same month.
\<close>

definition save_payslip :: "line \<Rightarrow> payroll_db \<Rightarrow> payroll_db result" where
  "save_payslip l db =
     bind_res (scalar_one_or_none (filter (own_slip l) (db_payslips db))) (\<lambda>found.
       case found of
         Some _ \<Rightarrow> Inr (db\<lparr> db_payslips := update_where (own_slip l) (fill_payslip l) (db_payslips db) \<rparr>)
       | None \<Rightarrow>
           if list_ex (\<lambda>p. ps_employee_id p = em_id (ln_employee l) \<and>
                           ps_period_month p = run_period_month (ln_run l) \<and>
                           ps_period_year p = run_period_year (ln_run l)) (db_payslips db)
           then Inl IntegrityError
           else Inr (db\<lparr> db_payslips := db_payslips db @
                  [fill_payslip l (new_payslip l (fresh_id (map ps_id (db_payslips db))))] \<rparr>))"

section \<open>One employee\<close>

record calc_env =
  env_formula :: formula_env
  env_config :: compliance_config
  env_period :: "payroll_period option"
  env_components :: "pay_component list"
  env_arrears :: "arrear list"
  env_currency :: string
  env_country :: string
  env_rate :: rat
  env_calculator :: calculator
  env_today :: date

definition ledger_arrears :: "arrear list \<Rightarrow> uuid \<Rightarrow> int" where
  "ledger_arrears rows eid = (\<Sum>a\<leftarrow>filter (\<lambda>a. ar_employee_id a = eid) rows. ar_amount_paise a)"

definition employee_charges ::
  "calc_env \<Rightarrow> payroll_run \<Rightarrow> employee \<Rightarrow> earnings \<Rightarrow> investment_declaration option \<Rightarrow> pf_result \<Rightarrow> payroll_db
    \<Rightarrow> charges result" where
  "employee_charges env run emp ea decl pf db =
     (if env_country env = ''IN''
      then Inr (india_charges run (env_config env) (env_period env) emp ea decl pf (env_today env) db)
      else country_charges run (env_country env) (env_currency env) (env_calculator env) ea)"

definition process_employee :: "calc_env \<Rightarrow> payroll_run \<Rightarrow> employee \<Rightarrow> payroll_db \<Rightarrow> (line \<times> payroll_db) result" where
  "process_employee env run emp db =
     (let eid = em_id emp; rate = Finite (env_rate env)
      in bind_res (load_pay_source run (env_currency env) (env_rate env) eid db) (\<lambda>src.
         bind_res (advance_deduction_for_employee run eid db) (\<lambda>(advance, db1).
         bind_res (employee_earnings (env_formula env) (env_components env) src
                     (variable_inputs_of run eid db) (ledger_arrears (env_arrears env) eid)
                     (env_currency env) (env_rate env)) (\<lambda>ea.
         bind_res (calculate_pf (run_pf_input run (env_config env) emp
                     (statutory_wages ea (env_config env)))) (\<lambda>pf.
         bind_res (declaration_of run eid db1) (\<lambda>decl.
         bind_res (employee_charges env run emp ea decl pf db1) (\<lambda>ch.
         let db2 = (if env_country env = ''IN'' then remember_ytd run eid decl (ch_tds ch) db1 else db1);
             deductions = deductions_of ch ea advance
         in bind_res (convert_minor_units (ea_gross ea) rate) (\<lambda>gross_base.
         bind_res (convert_minor_units deductions rate) (\<lambda>deductions_base.
         bind_res (convert_minor_units (net_of (ea_gross ea) deductions) rate) (\<lambda>net_base.
         let l = \<lparr> ln_run = run, ln_employee = emp, ln_salary = src_salary src,
                   ln_currency = env_currency env, ln_earnings = ea, ln_charges = ch, ln_advance = advance,
                   ln_gross_base = gross_base, ln_deductions_base = deductions_base,
                   ln_net_base = net_base \<rparr>
         in bind_res (save_run_employee l db2) (\<lambda>db3.
            bind_res (save_payslip l db3) (\<lambda>db4. Inr (l, db4)))))))))))))"

fun process_employees ::
  "calc_env \<Rightarrow> payroll_run \<Rightarrow> employee list \<Rightarrow> payroll_db \<Rightarrow> (line list \<times> payroll_db) result" where
  "process_employees env run [] db = Inr ([], db)"
| "process_employees env run (emp # rest) db =
     bind_res (process_employee env run emp db) (\<lambda>(l, db1).
     bind_res (process_employees env run rest db1) (\<lambda>(ls, db2). Inr (l # ls, db2)))"

section \<open>The run\<close>

fun last_version :: "string \<Rightarrow> line list \<Rightarrow> string" where
  "last_version v [] = v"
| "last_version v (l # ls) =
     last_version (case ch_rule_version (ln_charges l) of Some w \<Rightarrow> w | None \<Rightarrow> v) ls"

definition review_required :: "line list \<Rightarrow> bool" where
  "review_required ls = list_ex (\<lambda>l. ch_review_required (ln_charges l)) ls"

definition finish_run :: "payroll_run \<Rightarrow> line list \<Rightarrow> int \<times> int \<times> int \<Rightarrow> payroll_run" where
  "finish_run run ls base =
     (let gross = (\<Sum>l\<leftarrow>ls. ln_gross l); deductions = (\<Sum>l\<leftarrow>ls. ln_deductions l); net = (\<Sum>l\<leftarrow>ls. ln_net l)
      in run\<lparr> run_statutory_rule_version := last_version (run_statutory_rule_version run) ls,
              run_total_employees := int (length ls),
              run_total_gross_paise := gross, run_total_deductions_paise := deductions,
              run_total_net_paise := net,
              run_total_gross_base_paise := fst base,
              run_total_deductions_base_paise := fst (snd base),
              run_total_net_base_paise := snd (snd base),
              run_total_gross := paise_to_rupees (of_int gross),
              run_total_deductions := paise_to_rupees (of_int deductions),
              run_total_net := paise_to_rupees (of_int net),
              run_status := PROCESSED,
              run_validation_status := (if review_required ls then ''WARNING'' else ''VALID''),
              run_validation_errors := run_validation_errors run @
                (if review_required ls then [(None, [''COUNTRY_STATUTORY_REVIEW_REQUIRED''])] else []) \<rparr>)"

definition calculate_run ::
  "formula_env \<Rightarrow> payroll_run \<Rightarrow> timestamp \<Rightarrow> date \<Rightarrow> payroll_db \<Rightarrow> (payroll_run \<times> payroll_db) result" where
  "calculate_run fe run now today db =
     bind_res (run_config run db) (\<lambda>config.
     let claimed = pending_for_run run db; db1 = snd claimed
     in bind_res (normalize_currency (Some (run_currency run)) ''INR'') (\<lambda>cur.
        bind_res (normalize_country (Some (run_country_code run)) cur) (\<lambda>country.
        bind_res (positive_fx_rate (Finite (run_fx_rate_to_base run))) (\<lambda>rate.
        bind_res (get_country_statutory_calculator CALCULATORS country) (\<lambda>calc.
        bind_res
          (process_employees
             \<lparr> env_formula = fe, env_config = config, env_period = get_period (run_period_id run) db,
               env_components = pay_components_of run db, env_arrears = fst claimed, env_currency = cur,
               env_country = country, env_rate = rate, env_calculator = calc, env_today = today \<rparr>
             run (run_employees_of run db) db1) (\<lambda>(ls, db2).
        let db3 = mark_applied (fst claimed) (run_id run) now db2
        in bind_res (convert_minor_units (\<Sum>l\<leftarrow>ls. ln_gross l) (Finite rate)) (\<lambda>g.
           bind_res (convert_minor_units (\<Sum>l\<leftarrow>ls. ln_deductions l) (Finite rate)) (\<lambda>d.
           bind_res (convert_minor_units (\<Sum>l\<leftarrow>ls. ln_net l) (Finite rate)) (\<lambda>n.
             let run' = finish_run run ls (g, d, n)
             in Inr (run', update_run (run_id run) (\<lambda>_. run') db3))))))))))"

definition processing :: "uuid option \<Rightarrow> payroll_run \<Rightarrow> payroll_run" where
  "processing user_id run =
     (case user_id of
        None \<Rightarrow> run\<lparr> run_status := PROCESSING \<rparr>
      | Some u \<Rightarrow> run\<lparr> run_status := PROCESSING, run_processed_by := Some u,
                       run_created_by := (case run_created_by run of None \<Rightarrow> Some u | Some c \<Rightarrow> Some c) \<rparr>)"

definition execute_run_calculation ::
  "formula_env \<Rightarrow> uuid \<Rightarrow> uuid option \<Rightarrow> uuid option \<Rightarrow> timestamp \<Rightarrow> date \<Rightarrow> payroll_db
    \<Rightarrow> payroll_run result \<times> payroll_db"
where
  "execute_run_calculation fe rid user_id company_id now today db =
     (case get_run rid company_id db of
        Inl e \<Rightarrow> (Inl e, db)
      | Inr run \<Rightarrow>
          if run_status run \<noteq> VALIDATED
          then (Inl (HTTPException 409 ''Run must be VALIDATED before processing''), db)
          else
            let run1 = processing user_id run;
                db1 = update_run rid (\<lambda>_. run1) db
            in (case calculate_run fe run1 now today db1 of
                  Inl e \<Rightarrow> (Inl e, db1)
                | Inr (run2, db2) \<Rightarrow> (Inr run2, db2)))"


section \<open>What a calculation leaves alone\<close>

lemma apply_charge_frame [simp]:
  "db_run_employees (apply_charge run l inst a db) = db_run_employees db"
  "db_payslips (apply_charge run l inst a db) = db_payslips db"
  "db_runs (apply_charge run l inst a db) = db_runs db"
  "db_audit (apply_charge run l inst a db) = db_audit db"
  by (simp_all add: apply_charge_def)

lemma charge_loan_frame:
  assumes "charge_loan run l db = Inr (t, db')"
  shows "db_run_employees db' = db_run_employees db \<and> db_payslips db' = db_payslips db \<and>
     db_runs db' = db_runs db \<and> db_audit db' = db_audit db"
  using charge_loan_cases [OF assms] by auto

lemma charge_loans_frame:
  "charge_loans run ls db = Inr (t, db') \<Longrightarrow>
     db_run_employees db' = db_run_employees db \<and> db_payslips db' = db_payslips db \<and>
     db_runs db' = db_runs db \<and> db_audit db' = db_audit db"
proof (induction ls arbitrary: db t)
  case (Cons l ls)
  then show ?case by (auto simp: bind_res_Inr_iff dest!: charge_loan_frame)
qed simp

lemma advance_frame:
  "advance_deduction_for_employee run e db = Inr (t, db') \<Longrightarrow>
     db_run_employees db' = db_run_employees db \<and> db_payslips db' = db_payslips db \<and>
     db_runs db' = db_runs db \<and> db_audit db' = db_audit db"
  unfolding advance_deduction_for_employee_def by (rule charge_loans_frame)

lemma remember_ytd_frame [simp]:
  "db_run_employees (remember_ytd run e d t db) = db_run_employees db"
  "db_payslips (remember_ytd run e d t db) = db_payslips db"
  "db_runs (remember_ytd run e d t db) = db_runs db"
  "db_audit (remember_ytd run e d t db) = db_audit db"
  by (simp_all add: remember_ytd_def split: option.splits)

lemma save_run_employee_cases:
  assumes "save_run_employee l db = Inr db'"
  shows "(\<exists>r. filter (own_row l) (db_run_employees db) = [r] \<and>
            db' = db\<lparr> db_run_employees := update_where (own_row l) (fill_run_employee l) (db_run_employees db) \<rparr>) \<or>
         filter (own_row l) (db_run_employees db) = [] \<and>
            db' = db\<lparr> db_run_employees := db_run_employees db @ [fill_run_employee l (new_run_employee l)] \<rparr>"
proof -
  obtain found where f: "scalar_one_or_none (filter (own_row l) (db_run_employees db)) = Inr found"
    using assms by (auto simp: save_run_employee_def bind_res_Inr_iff)
  show ?thesis
  proof (cases found)
    case None
    then have "filter (own_row l) (db_run_employees db) = []"
      using f by (simp only: scalar_one_or_none_Inr_None)
    then show ?thesis using assms None f by (simp add: save_run_employee_def)
  next
    case (Some r)
    then have "filter (own_row l) (db_run_employees db) = [r]"
      using f by (simp only: scalar_one_or_none_Inr_Some)
    then show ?thesis using assms Some f by (simp add: save_run_employee_def)
  qed
qed

lemma save_payslip_cases:
  assumes "save_payslip l db = Inr db'"
  shows "(\<exists>p. filter (own_slip l) (db_payslips db) = [p] \<and>
            db' = db\<lparr> db_payslips := update_where (own_slip l) (fill_payslip l) (db_payslips db) \<rparr>) \<or>
         filter (own_slip l) (db_payslips db) = [] \<and>
            db' = db\<lparr> db_payslips := db_payslips db @
                  [fill_payslip l (new_payslip l (fresh_id (map ps_id (db_payslips db))))] \<rparr>"
proof -
  obtain found where f: "scalar_one_or_none (filter (own_slip l) (db_payslips db)) = Inr found"
    using assms by (auto simp: save_payslip_def bind_res_Inr_iff)
  show ?thesis
  proof (cases found)
    case None
    then have "filter (own_slip l) (db_payslips db) = []"
      using f by (simp only: scalar_one_or_none_Inr_None)
    then show ?thesis using assms None f by (simp add: save_payslip_def split: if_split_asm)
  next
    case (Some r)
    then have "filter (own_slip l) (db_payslips db) = [r]"
      using f by (simp only: scalar_one_or_none_Inr_Some)
    then show ?thesis using assms Some f by (simp add: save_payslip_def)
  qed
qed

lemma save_run_employee_frame:
  "save_run_employee l db = Inr db' \<Longrightarrow>
     db_payslips db' = db_payslips db \<and> db_runs db' = db_runs db \<and> db_audit db' = db_audit db"
  by (drule save_run_employee_cases) (elim disjE exE conjE; simp)

lemma save_payslip_frame:
  "save_payslip l db = Inr db' \<Longrightarrow>
     db_run_employees db' = db_run_employees db \<and> db_runs db' = db_runs db \<and> db_audit db' = db_audit db"
  by (drule save_payslip_cases) (elim disjE exE conjE; simp)

section \<open>The rows of an employee\<close>

definition row_of :: "line \<Rightarrow> run_employee \<Rightarrow> bool" where
  "row_of l r \<longleftrightarrow>
     re_gross_earnings_paise r = ln_gross l \<and> re_total_deductions_paise r = ln_deductions l \<and>
     re_net_pay_paise r = ln_net l"

definition slip_of :: "line \<Rightarrow> payslip \<Rightarrow> bool" where
  "slip_of l p \<longleftrightarrow>
     ps_gross_earnings p = paise_to_rupees (of_int (ln_gross l)) \<and>
     ps_total_deductions p = paise_to_rupees (of_int (ln_deductions l)) \<and>
     ps_net_pay p = paise_to_rupees (of_int (ln_net l))"

lemma fill_run_employee_sel [simp]:
  "re_run_id (fill_run_employee l r) = re_run_id r" "re_employee_id (fill_run_employee l r) = re_employee_id r"
  "row_of l (fill_run_employee l r)"
  by (simp_all add: fill_run_employee_def row_of_def)

lemma own_row_fill [simp]: "own_row m (fill_run_employee l r) = own_row m r"
  by (simp add: own_row_def)

lemma fill_payslip_sel [simp]:
  "ps_run_id (fill_payslip l p) = ps_run_id p" "ps_employee_id (fill_payslip l p) = ps_employee_id p"
  "slip_of l (fill_payslip l p)"
  by (simp_all add: fill_payslip_def slip_of_def Let_def)

lemma own_slip_fill [simp]: "own_slip m (fill_payslip l p) = own_slip m p"
  by (simp add: own_slip_def)

lemma own_new [simp]:
  "own_row m (new_run_employee l) \<longleftrightarrow>
     run_id (ln_run l) = run_id (ln_run m) \<and> em_id (ln_employee l) = em_id (ln_employee m)"
  "own_slip m (new_payslip l i) \<longleftrightarrow>
     run_id (ln_run l) = run_id (ln_run m) \<and> em_id (ln_employee l) = em_id (ln_employee m)"
  by (simp_all add: own_row_def own_slip_def new_run_employee_def new_payslip_def)

lemma filter_update_other:
  assumes "\<And>x. P x \<Longrightarrow> \<not> Q x" "\<And>x. Q (f x) = Q x"
  shows "filter Q (update_where P f xs) = filter Q xs"
  using assms by (induction xs) auto

lemma save_run_employee_own:
  assumes "save_run_employee l db = Inr db'"
  shows "\<exists>r. filter (own_row l) (db_run_employees db') = [r] \<and> row_of l r"
  using save_run_employee_cases [OF assms]
proof (elim disjE exE conjE)
  fix r assume "filter (own_row l) (db_run_employees db) = [r]"
    and d: "db' = db\<lparr> db_run_employees := update_where (own_row l) (fill_run_employee l) (db_run_employees db) \<rparr>"
  moreover from this have "own_row l r" by (auto simp: filter_eq_Cons_iff)
  ultimately show ?thesis by (simp add: filter_update_where)
qed simp

lemma save_run_employee_other:
  assumes "save_run_employee l db = Inr db'" "run_id (ln_run l) \<noteq> run_id (ln_run m) \<or>
    em_id (ln_employee l) \<noteq> em_id (ln_employee m)"
  shows "filter (own_row m) (db_run_employees db') = filter (own_row m) (db_run_employees db)"
proof -
  have "\<not> own_row m r" if "own_row l r" for r using assms(2) that unfolding own_row_def by metis
  then have "filter (own_row m) (update_where (own_row l) (fill_run_employee l) xs) =
    filter (own_row m) xs" for xs by (intro filter_update_other) auto
  then show ?thesis using save_run_employee_cases [OF assms(1)] assms(2) by auto
qed

lemma save_payslip_own:
  assumes "save_payslip l db = Inr db'"
  shows "\<exists>p. filter (own_slip l) (db_payslips db') = [p] \<and> slip_of l p"
  using save_payslip_cases [OF assms]
proof (elim disjE exE conjE)
  fix r assume "filter (own_slip l) (db_payslips db) = [r]"
    and d: "db' = db\<lparr> db_payslips := update_where (own_slip l) (fill_payslip l) (db_payslips db) \<rparr>"
  moreover from this have "own_slip l r" by (auto simp: filter_eq_Cons_iff)
  ultimately show ?thesis by (simp add: filter_update_where)
qed simp

lemma save_payslip_other:
  assumes "save_payslip l db = Inr db'" "run_id (ln_run l) \<noteq> run_id (ln_run m) \<or>
    em_id (ln_employee l) \<noteq> em_id (ln_employee m)"
  shows "filter (own_slip m) (db_payslips db') = filter (own_slip m) (db_payslips db)"
proof -
  have "\<not> own_slip m r" if "own_slip l r" for r using assms(2) that unfolding own_slip_def by metis
  then have "filter (own_slip m) (update_where (own_slip l) (fill_payslip l) xs) =
    filter (own_slip m) xs" for xs by (intro filter_update_other) auto
  then show ?thesis using save_payslip_cases [OF assms(1)] assms(2) by auto
qed

text \<open>The inputs of a line and the database between the recovery of advances and the saving of rows.\<close>

lemma process_employee_cases:
  assumes "process_employee env run emp db = Inr (l, db')"
  obtains src advance db1 ea pf decl ch db2 db3 where
    "advance_deduction_for_employee run (em_id emp) db = Inr (advance, db1)"
    "employee_earnings (env_formula env) (env_components env) src (variable_inputs_of run (em_id emp) db)
       (ledger_arrears (env_arrears env) (em_id emp)) (env_currency env) (env_rate env) = Inr ea"
    "employee_charges env run emp ea decl pf db1 = Inr ch"
    "ln_run l = run" "ln_employee l = emp" "ln_earnings l = ea" "ln_charges l = ch" "ln_advance l = advance"
    "db2 = db1 \<or> db2 = remember_ytd run (em_id emp) decl (ch_tds ch) db1"
    "save_run_employee l db2 = Inr db3" "save_payslip l db3 = Inr db'"
proof -
  let ?eid = "em_id emp" and ?rate = "Finite (env_rate env)"
  obtain src where src: "load_pay_source run (env_currency env) (env_rate env) ?eid db = Inr src"
    using assms unfolding process_employee_def Let_def by (auto simp only: bind_res_Inr_iff)
  note a1 = assms [unfolded process_employee_def Let_def src bind_res.simps]
  obtain advance db1 where adv: "advance_deduction_for_employee run ?eid db = Inr (advance, db1)"
    using a1 by (auto simp only: bind_res_Inr_iff)
  note a2 = a1 [unfolded adv bind_res.simps prod.case]
  obtain ea where ea: "employee_earnings (env_formula env) (env_components env) src
      (variable_inputs_of run ?eid db) (ledger_arrears (env_arrears env) ?eid)
      (env_currency env) (env_rate env) = Inr ea"
    using a2 by (auto simp only: bind_res_Inr_iff)
  note a3 = a2 [unfolded ea bind_res.simps]
  obtain pf where pf: "calculate_pf (run_pf_input run (env_config env) emp
      (statutory_wages ea (env_config env))) = Inr pf"
    using a3 by (auto simp only: bind_res_Inr_iff)
  note a4 = a3 [unfolded pf bind_res.simps]
  obtain decl where decl: "declaration_of run ?eid db1 = Inr decl"
    using a4 by (auto simp only: bind_res_Inr_iff)
  note a5 = a4 [unfolded decl bind_res.simps]
  obtain ch where ch: "employee_charges env run emp ea decl pf db1 = Inr ch"
    using a5 by (auto simp only: bind_res_Inr_iff)
  note a6 = a5 [unfolded ch bind_res.simps]
  obtain g d n where "convert_minor_units (ea_gross ea) ?rate = Inr g"
    "convert_minor_units (deductions_of ch ea advance) ?rate = Inr d"
    "convert_minor_units (net_of (ea_gross ea) (deductions_of ch ea advance)) ?rate = Inr n"
    using a6 by (auto simp only: bind_res_Inr_iff)
  note a7 = a6 [unfolded this bind_res.simps]
  define db2 where "db2 = (if env_country env = ''IN'' then remember_ytd run ?eid decl (ch_tds ch) db1 else db1)"
  define m where "m = \<lparr> ln_run = run, ln_employee = emp, ln_salary = src_salary src,
    ln_currency = env_currency env, ln_earnings = ea, ln_charges = ch, ln_advance = advance,
    ln_gross_base = g, ln_deductions_base = d, ln_net_base = n \<rparr>"
  note a8 = a7 [folded db2_def, folded m_def]
  obtain db3 where db3: "save_run_employee m db2 = Inr db3"
    using a8 by (auto simp only: bind_res_Inr_iff)
  note a9 = a8 [unfolded db3 bind_res.simps]
  obtain db4 where db4: "save_payslip m db3 = Inr db4" using a9 by (auto simp only: bind_res_Inr_iff)
  have "l = m" "db' = db4" using a9 [unfolded db4 bind_res.simps] by simp_all
  then have sv: "save_run_employee l db2 = Inr db3" "save_payslip l db3 = Inr db'" using db3 db4 by simp_all
  have ln: "ln_run l = run" "ln_employee l = emp" "ln_earnings l = ea" "ln_charges l = ch" "ln_advance l = advance"
    by (simp_all add: \<open>l = m\<close> m_def)
  have d2: "db2 = db1 \<or> db2 = remember_ytd run ?eid decl (ch_tds ch) db1" by (simp add: db2_def)
  show ?thesis by (rule that [OF adv ea ch ln d2 sv])
qed

end
