(* ===== verification/Run_Totals.thy ===== *)
theory Run_Totals
  imports Run_Calc
begin

text \<open>
  What a finished calculation guarantees: one row and one payslip per employee of the run that
  agree with each other, totals that are the sums over those rows, whole-rupee net pay, and a
  failure that leaves nothing behind but the PROCESSING status.
\<close>

section \<open>Lines and rows\<close>

definition row_and_slip :: "payroll_db \<Rightarrow> line \<Rightarrow> bool" where
  "row_and_slip db l \<longleftrightarrow>
     (\<exists>r. filter (own_row l) (db_run_employees db) = [r] \<and> row_of l r) \<and>
     (\<exists>p. filter (own_slip l) (db_payslips db) = [p] \<and> slip_of l p)"

lemma process_employee_effect:
  assumes "process_employee env run emp db = Inr (l, db')"
  shows "ln_run l = run \<and> ln_employee l = emp \<and> row_and_slip db' l \<and>
    db_runs db' = db_runs db \<and> db_audit db' = db_audit db"
    "run_id (ln_run m) = run_id run \<longrightarrow> em_id (ln_employee m) \<noteq> em_id emp \<Longrightarrow>
       row_and_slip db' m = row_and_slip db m"
proof -
  obtain src advance db1 ea pf decl ch db2 db3 where c:
    "advance_deduction_for_employee run (em_id emp) db = Inr (advance, db1)"
    "employee_earnings (env_formula env) (env_components env) src (variable_inputs_of run (em_id emp) db)
       (ledger_arrears (env_arrears env) (em_id emp)) (env_currency env) (env_rate env) = Inr ea"
    "employee_charges env run emp ea decl pf db1 = Inr ch"
    "ln_run l = run" "ln_employee l = emp" "ln_earnings l = ea" "ln_charges l = ch" "ln_advance l = advance"
    "db2 = db1 \<or> db2 = remember_ytd run (em_id emp) decl (ch_tds ch) db1"
    "save_run_employee l db2 = Inr db3" "save_payslip l db3 = Inr db'"
    using assms by (rule process_employee_cases)
  note ln = c(4,5) and d2 = c(9) and sv = c(10) and sp = c(11)
  note f1 = advance_frame [OF c(1)] and f3 = save_run_employee_frame [OF sv]
    and f4 = save_payslip_frame [OF sp]
  have f2: "db_run_employees db2 = db_run_employees db" "db_payslips db2 = db_payslips db"
    "db_runs db2 = db_runs db" "db_audit db2 = db_audit db" using d2 f1 by auto
  show "ln_run l = run \<and> ln_employee l = emp \<and> row_and_slip db' l \<and>
    db_runs db' = db_runs db \<and> db_audit db' = db_audit db"
    using ln f2 f3 f4 save_run_employee_own [OF sv] save_payslip_own [OF sp]
    by (simp add: row_and_slip_def)
  assume "run_id (ln_run m) = run_id run \<longrightarrow> em_id (ln_employee m) \<noteq> em_id emp"
  then have m: "run_id (ln_run l) \<noteq> run_id (ln_run m) \<or> em_id (ln_employee l) \<noteq> em_id (ln_employee m)"
    using ln by auto
  show "row_and_slip db' m = row_and_slip db m"
    using save_run_employee_other [OF sv m] save_payslip_other [OF sp m] f2 f3 f4
    by (simp add: row_and_slip_def)
qed

lemma process_employees_effect:
  assumes "process_employees env run es db = Inr (ls, db')" "distinct (map em_id es)"
  shows "map ln_employee ls = es \<and> (\<forall>l \<in> set ls. ln_run l = run \<and> row_and_slip db' l) \<and>
    (\<forall>m. (run_id (ln_run m) = run_id run \<longrightarrow> em_id (ln_employee m) \<notin> em_id ` set es) \<longrightarrow>
          row_and_slip db' m = row_and_slip db m) \<and>
    db_runs db' = db_runs db \<and> db_audit db' = db_audit db"
  using assms
proof (induction es arbitrary: db ls)
  case (Cons e es)
  then obtain l db1 ms where l: "process_employee env run e db = Inr (l, db1)"
    and ms: "process_employees env run es db1 = Inr (ms, db')" "ls = l # ms"
    by (auto simp: bind_res_Inr_iff)
  note el = process_employee_effect [OF l]
  have em: "map ln_employee ms = es \<and> (\<forall>l \<in> set ms. ln_run l = run \<and> row_and_slip db' l) \<and>
    (\<forall>m. (run_id (ln_run m) = run_id run \<longrightarrow> em_id (ln_employee m) \<notin> em_id ` set es) \<longrightarrow>
          row_and_slip db' m = row_and_slip db1 m) \<and>
    db_runs db' = db_runs db1 \<and> db_audit db' = db_audit db1"
    using Cons.IH [OF ms(1)] Cons.prems(2) by simp
  moreover have "row_and_slip db' l" using el(1) em Cons.prems(2) by (simp add: image_iff)
  ultimately show ?case using el ms(2) by auto
qed simp

lemma calculate_run_cases:
  assumes "calculate_run fe run now today db = Inr (run', db')" "distinct (map em_id (db_employees db))"
  obtains ls base where "run' = finish_run run ls base" "map ln_employee ls = run_employees_of run db"
    "\<forall>l \<in> set ls. ln_run l = run \<and> row_and_slip db' l"
    "db_runs db' = db_runs (update_run (run_id run) (\<lambda>_. run') db)" "db_audit db' = db_audit db"
proof -
  have d: "distinct (map em_id (run_employees_of run db))"
    using assms(2) by (simp add: run_employees_of_def distinct_map_filter)
  obtain env ls db1 db2 base where db1: "db1 = snd (pending_for_run run db)"
    and p: "process_employees env run (run_employees_of run db) db1 = Inr (ls, db2)"
    and r: "run' = finish_run run ls base"
    and db': "db' = update_run (run_id run) (\<lambda>_. run')
       (mark_applied (fst (pending_for_run run db)) (run_id run) now db2)"
    using assms(1) unfolding calculate_run_def Let_def
    by (auto simp only: bind_res_Inr_iff prod.case split_paired_Ex prod.inject sum.inject)
  note e = process_employees_effect [OF p d]
  have f: "db_runs db1 = db_runs db" "db_audit db1 = db_audit db"
    by (simp_all add: db1 pending_for_run_def Let_def)
  have g: "db_run_employees db' = db_run_employees db2" "db_payslips db' = db_payslips db2"
    "db_runs db' = update_where (\<lambda>r. run_id r = run_id run) (\<lambda>_. run') (db_runs db2)"
    "db_audit db' = db_audit db2"
    by (simp_all add: db' update_run_def mark_applied_def)
  show ?thesis
  proof (rule that [OF r])
    show "map ln_employee ls = run_employees_of run db" using e by blast
    show "\<forall>l \<in> set ls. ln_run l = run \<and> row_and_slip db' l"
      using e g by (simp add: row_and_slip_def)
    show "db_runs db' = db_runs (update_run (run_id run) (\<lambda>_. run') db)"
      using g e f by (simp add: update_run_def)
    show "db_audit db' = db_audit db" using g e f by simp
  qed
qed

lemma get_run_Inr:
  assumes "get_run rid c db = Inr run"
  shows "run \<in> set (db_runs db) \<and> run_id run = rid \<and> (c = None \<or> run_company_id run = c)"
proof -
  let ?P = "\<lambda>r. run_id r = rid \<and> (case c of None \<Rightarrow> True | Some x \<Rightarrow> run_company_id r = Some x)"
  obtain found where o: "scalar_one_or_none (filter ?P (db_runs db)) = Inr found"
    using assms by (auto simp: get_run_def bind_res_Inr_iff)
  then have "found = Some run" using assms o by (cases found) (simp_all add: get_run_def)
  then have "filter ?P (db_runs db) = [run]" using o by (simp only: scalar_one_or_none_Inr_Some)
  then have "run \<in> set (filter ?P (db_runs db))" by simp
  then show ?thesis by (cases c) auto
qed

lemma execute_cases:
  assumes "execute_run_calculation fe rid u c now today db = (Inr run', db')"
  obtains run where "get_run rid c db = Inr run" "run_status run = VALIDATED" "run_id run = rid"
    "calculate_run fe (processing u run) now today (update_run rid (\<lambda>_. processing u run) db) = Inr (run', db')"
proof -
  obtain run where r: "get_run rid c db = Inr run"
    using assms by (auto simp: execute_run_calculation_def split: sum.splits)
  then have "run_id run = rid" using get_run_Inr by blast
  then show ?thesis using assms r that
    by (auto simp: execute_run_calculation_def Let_def split: if_split_asm sum.splits)
qed

lemma processing_sel [simp]:
  "run_id (processing u r) = run_id r" "run_company_id (processing u r) = run_company_id r"
  "run_legal_entity_id (processing u r) = run_legal_entity_id r" "run_status (processing u r) = PROCESSING"
  "run_period_id (processing u r) = run_period_id r" "run_created_by r \<noteq> None \<Longrightarrow> run_created_by (processing u r) = run_created_by r"
  "run_by (processing u r) = run_by r" "run_currency (processing u r) = run_currency r"
  "run_country_code (processing u r) = run_country_code r"
  by (auto simp: processing_def split: option.splits)

lemma finish_run_sel [simp]:
  "run_id (finish_run r ls b) = run_id r" "run_company_id (finish_run r ls b) = run_company_id r"
  "run_legal_entity_id (finish_run r ls b) = run_legal_entity_id r"
  "run_status (finish_run r ls b) = PROCESSED"
  "run_total_employees (finish_run r ls b) = int (length ls)"
  "run_total_gross_paise (finish_run r ls b) = (\<Sum>l\<leftarrow>ls. ln_gross l)"
  "run_total_deductions_paise (finish_run r ls b) = (\<Sum>l\<leftarrow>ls. ln_deductions l)"
  "run_total_net_paise (finish_run r ls b) = (\<Sum>l\<leftarrow>ls. ln_net l)"
  by (simp_all add: finish_run_def Let_def)

lemma run_employees_of_update [simp]: "run_employees_of run (update_run rid f db) = run_employees_of run db"
  by (simp add: run_employees_of_def update_run_def)

lemma run_employees_of_same:
  "run_company_id a = run_company_id b \<Longrightarrow> run_legal_entity_id a = run_legal_entity_id b \<Longrightarrow>
     run_employees_of a db = run_employees_of b db"
  by (simp add: run_employees_of_def)

lemma db_employees_update_run [simp]: "db_employees (update_run rid f db) = db_employees db"
  by (simp add: update_run_def)

text \<open>The rows that a finished calculation wrote, line by line.\<close>

lemma execute_lines:
  assumes "execute_run_calculation fe rid u c now today db = (Inr run', db')"
    "distinct (map em_id (db_employees db))"
  obtains ls run base where "run_id run' = rid" "run_id run = rid" "run' = finish_run run ls base"
    "map ln_employee ls = run_employees_of run' db"
    "\<forall>l \<in> set ls. ln_run l = run \<and> row_and_slip db' l"
proof -
  obtain run where r: "get_run rid c db = Inr run" "run_status run = VALIDATED" "run_id run = rid"
    and k: "calculate_run fe (processing u run) now today (update_run rid (\<lambda>_. processing u run) db) = Inr (run', db')"
    using assms(1) by (rule execute_cases)
  have d: "distinct (map em_id (db_employees (update_run rid (\<lambda>_. processing u run) db)))"
    using assms(2) by simp
  obtain ls base where l: "run' = finish_run (processing u run) ls base"
    "map ln_employee ls = run_employees_of (processing u run) (update_run rid (\<lambda>_. processing u run) db)"
    "\<forall>l \<in> set ls. ln_run l = processing u run \<and> row_and_slip db' l"
    "db_runs db' = db_runs (update_run (run_id (processing u run)) (\<lambda>_. run') (update_run rid (\<lambda>_. processing u run) db))"
    "db_audit db' = db_audit (update_run rid (\<lambda>_. processing u run) db)"
    using k d by (rule calculate_run_cases)
  have "run_employees_of (processing u run) db = run_employees_of run' db"
    by (rule run_employees_of_same) (simp_all add: l(1))
  then have m: "map ln_employee ls = run_employees_of run' db" using l(2) by simp
  have i: "run_id run' = rid" "run_id (processing u run) = rid" using l(1) r(3) by simp_all
  show ?thesis by (rule that [OF i l(1) m l(3)])
qed

section \<open>Sums over keyed rows\<close>

lemma sum_filter_disjoint:
  fixes f :: "'a \<Rightarrow> int"
  shows "(\<And>x. P x \<Longrightarrow> \<not> Q x) \<Longrightarrow>
    (\<Sum>x\<leftarrow>filter (\<lambda>x. P x \<or> Q x) xs. f x) = (\<Sum>x\<leftarrow>filter P xs. f x) + (\<Sum>x\<leftarrow>filter Q xs. f x)"
  by (induction xs) auto

lemma sum_by_key:
  fixes f :: "'a \<Rightarrow> int"
  assumes "distinct ids"
  shows "(\<Sum>x\<leftarrow>filter (\<lambda>x. P x \<and> k x \<in> set ids) xs. f x) =
    (\<Sum>i\<leftarrow>ids. \<Sum>x\<leftarrow>filter (\<lambda>x. P x \<and> k x = i) xs. f x)"
  using assms
proof (induction ids)
  case (Cons i ids)
  have "filter (\<lambda>x. P x \<and> k x \<in> set (i # ids)) xs =
    filter (\<lambda>x. (P x \<and> k x = i) \<or> (P x \<and> k x \<in> set ids)) xs" by (rule filter_cong) auto
  then have "(\<Sum>x\<leftarrow>filter (\<lambda>x. P x \<and> k x \<in> set (i # ids)) xs. f x) =
    (\<Sum>x\<leftarrow>filter (\<lambda>x. (P x \<and> k x = i) \<or> (P x \<and> k x \<in> set ids)) xs. f x)" by simp
  also have "\<dots> = (\<Sum>x\<leftarrow>filter (\<lambda>x. P x \<and> k x = i) xs. f x) +
      (\<Sum>x\<leftarrow>filter (\<lambda>x. P x \<and> k x \<in> set ids) xs. f x)"
    using Cons.prems by (intro sum_filter_disjoint) auto
  finally show ?case using Cons by simp
qed simp

definition rows_of_run :: "payroll_run \<Rightarrow> employee list \<Rightarrow> payroll_db \<Rightarrow> run_employee list" where
  "rows_of_run run es db =
     filter (\<lambda>r. re_run_id r = run_id run \<and> re_employee_id r \<in> em_id ` set es) (db_run_employees db)"

lemma sum_rows_of_run:
  fixes f :: "run_employee \<Rightarrow> int"
  assumes "distinct (map em_id (map ln_employee ls))"
    "\<And>l. l \<in> set ls \<Longrightarrow> run_id (ln_run l) = run_id run \<and> row_and_slip db l"
    "\<And>l r. row_of l r \<Longrightarrow> f r = g l"
  shows "(\<Sum>r\<leftarrow>rows_of_run run (map ln_employee ls) db. f r) = (\<Sum>l\<leftarrow>ls. g l)"
proof -
  have one: "(\<Sum>r\<leftarrow>filter (\<lambda>r. re_run_id r = run_id run \<and> re_employee_id r = em_id (ln_employee l))
      (db_run_employees db). f r) = g l" if "l \<in> set ls" for l
  proof -
    have "own_row l = (\<lambda>r. re_run_id r = run_id run \<and> re_employee_id r = em_id (ln_employee l))"
      using assms(2) [OF that] by (auto simp: own_row_def)
    moreover have "\<exists>r. filter (own_row l) (db_run_employees db) = [r] \<and> row_of l r"
      using assms(2) [OF that] by (simp add: row_and_slip_def)
    ultimately show ?thesis using assms(3) by auto
  qed
  have "em_id ` set (map ln_employee ls) = set (map em_id (map ln_employee ls))" by (simp add: image_image)
  then have "(\<Sum>r\<leftarrow>rows_of_run run (map ln_employee ls) db. f r) =
    (\<Sum>i\<leftarrow>map em_id (map ln_employee ls).
       \<Sum>r\<leftarrow>filter (\<lambda>r. re_run_id r = run_id run \<and> re_employee_id r = i) (db_run_employees db). f r)"
    unfolding rows_of_run_def by (simp only: sum_by_key [OF assms(1)])
  also have "\<dots> = (\<Sum>l\<leftarrow>ls. g l)"
    unfolding map_map comp_def by (rule arg_cong [where f = sum_list], rule map_cong) (simp_all add: one)
  finally show ?thesis .
qed


section \<open>Properties\<close>

text \<open>
  C1: the totals of a processed run are the sums of its rows. After a successful calculation the
  run is PROCESSED, counts its employees, and its gross, deduction and net totals are the sums of
  the rows stored for those employees under the run, one row each.
\<close>

theorem run_totals_match_rows:
  assumes "execute_run_calculation fe rid u c now today db = (Inr run', db')"
    "distinct (map em_id (db_employees db))"
  shows "let rows = rows_of_run run' (run_employees_of run' db) db'
    in run_status run' = PROCESSED \<and> run_total_employees run' = int (length rows) \<and>
       run_total_employees run' = int (length (run_employees_of run' db)) \<and>
       run_total_gross_paise run' = (\<Sum>r\<leftarrow>rows. re_gross_earnings_paise r) \<and>
       run_total_deductions_paise run' = (\<Sum>r\<leftarrow>rows. re_total_deductions_paise r) \<and>
       run_total_net_paise run' = (\<Sum>r\<leftarrow>rows. re_net_pay_paise r)"
proof -
  obtain ls run base where l: "run_id run' = rid" "run_id run = rid" "run' = finish_run run ls base"
    "map ln_employee ls = run_employees_of run' db"
    "\<forall>l \<in> set ls. ln_run l = run \<and> row_and_slip db' l"
    using assms by (rule execute_lines)
  have d: "distinct (map em_id (map ln_employee ls))"
    using assms(2) by (simp add: l(4) run_employees_of_def distinct_map_filter)
  have k: "run_id (ln_run l) = run_id run' \<and> row_and_slip db' l" if "l \<in> set ls" for l
    using l(5) that l(1,2) by simp
  note s = sum_rows_of_run [OF d k, unfolded l(4)]
  have "(\<Sum>r\<leftarrow>rows_of_run run' (run_employees_of run' db) db'. 1) = (\<Sum>l\<leftarrow>ls. 1::int)" by (rule s) simp_all
  then have n: "int (length (rows_of_run run' (run_employees_of run' db) db')) = int (length ls)"
    by (simp add: sum_list_triv)
  have g: "(\<Sum>r\<leftarrow>rows_of_run run' (run_employees_of run' db) db'. re_gross_earnings_paise r) = (\<Sum>l\<leftarrow>ls. ln_gross l)"
    "(\<Sum>r\<leftarrow>rows_of_run run' (run_employees_of run' db) db'. re_total_deductions_paise r) = (\<Sum>l\<leftarrow>ls. ln_deductions l)"
    "(\<Sum>r\<leftarrow>rows_of_run run' (run_employees_of run' db) db'. re_net_pay_paise r) = (\<Sum>l\<leftarrow>ls. ln_net l)"
    by (rule s, simp_all add: row_of_def)+
  have f: "run_status run' = PROCESSED" "run_total_employees run' = int (length ls)"
    "run_total_gross_paise run' = (\<Sum>l\<leftarrow>ls. ln_gross l)"
    "run_total_deductions_paise run' = (\<Sum>l\<leftarrow>ls. ln_deductions l)"
    "run_total_net_paise run' = (\<Sum>l\<leftarrow>ls. ln_net l)"
    unfolding l(3) by (rule finish_run_sel)+
  have e: "length (run_employees_of run' db) = length ls" using l(4) by (metis length_map)
  show ?thesis unfolding Let_def by (simp add: n g f e)
qed


section \<open>A sample run\<close>

definition sample_employee :: "uuid \<Rightarrow> employee" where
  "sample_employee i =
     \<lparr> em_id = i, em_user_id = Some (i + 100), em_first_name = ''Asha'', em_last_name = ''Rao'',
       em_role = ''employee'', em_reporting_manager_id = None, em_manager_id = None, em_company_id = Some 1, em_legal_entity_id = None, em_branch_id = None, em_branch = None,
       em_state_code = Some ''KA'', em_work_location = None, em_is_deleted = False, em_has_pan = True,
       em_has_bank_account = True, em_gender = Some ''FEMALE'', em_date_of_birth = Some (Date 1990 6 15),
       em_professional_tax = 200, em_is_pf_eligible = True, em_pf_membership_active = True,
       em_is_international_worker = False, em_pf_wage_ceiling_applicable = True,
       em_pf_higher_wage_opted = False, em_vpf_rate = 0, em_is_pwd = False,
       em_esi_covered_at_period_start = False \<rparr>"

definition sample_env :: formula_env where
  "sample_env = \<lparr> fe_power = sample_pow, fe_parse = sample_parse \<rparr>"

definition sample_payroll :: payroll_db where
  "sample_payroll = empty_db
     \<lparr> db_runs := [sample_run_row 1 VALIDATED], db_employees := [sample_employee 6],
       db_configs := [default_config 2 (Some 1)],
       db_arrears := [sample_arrear\<lparr> ar_employee_id := 6 \<rparr>] \<rparr>"

definition sample_execution :: "payroll_run result \<times> payroll_db" where
  "sample_execution = execute_run_calculation sample_env 1 (Some 7) (Some 1) 50 (Date 2025 6 1) sample_payroll"

lemma sample_execution_totals:
  "(case fst sample_execution of
      Inl e \<Rightarrow> None
    | Inr r \<Rightarrow> Some (run_total_gross_paise r, run_total_deductions_paise r, run_total_net_paise r)) =
   Some (4070000, 200000, 3870000)"
  by code_simp

lemma sample_execution_Inr:
  "\<exists>run' db'. sample_execution = (Inr run', db') \<and> run_total_net_paise run' = 3870000"
proof -
  obtain res db' where e: "sample_execution = (res, db')" by (cases sample_execution)
  show ?thesis using sample_execution_totals unfolding e by (cases res) auto
qed

lemma sample_payroll_distinct: "distinct (map em_id (db_employees sample_payroll))"
  by (simp add: sample_payroll_def)

theorem run_totals_match_rows_witness:
  "\<exists>run' db'. sample_execution = (Inr run', db') \<and>
     (\<Sum>r\<leftarrow>rows_of_run run' (run_employees_of run' sample_payroll) db'. re_net_pay_paise r) = 3870000"
proof -
  obtain run' db' where e: "sample_execution = (Inr run', db')" "run_total_net_paise run' = 3870000"
    using sample_execution_Inr by blast
  show ?thesis
    using run_totals_match_rows [OF e(1) [unfolded sample_execution_def] sample_payroll_distinct] e
    by (auto simp: Let_def)
qed

section \<open>Rows and payslips agree\<close>

text \<open>
  C2: the payslip and the run row of an employee tell the same story. After a successful
  calculation every employee of the run has exactly one row and exactly one payslip under the run;
  the payslip's gross, deductions and net are the row's amounts in rupees, and the net is computed
  from the row's own gross and deductions.
\<close>

theorem payslip_agrees_with_row:
  assumes "execute_run_calculation fe rid u c now today db = (Inr run', db')"
    "distinct (map em_id (db_employees db))" "e \<in> set (run_employees_of run' db)"
  shows "\<exists>r p.
     filter (\<lambda>r. re_run_id r = rid \<and> re_employee_id r = em_id e) (db_run_employees db') = [r] \<and>
     filter (\<lambda>p. ps_run_id p = rid \<and> ps_employee_id p = em_id e) (db_payslips db') = [p] \<and>
     ps_gross_earnings p = paise_to_rupees (of_int (re_gross_earnings_paise r)) \<and>
     ps_total_deductions p = paise_to_rupees (of_int (re_total_deductions_paise r)) \<and>
     ps_net_pay p = paise_to_rupees (of_int (re_net_pay_paise r)) \<and>
     re_net_pay_paise r = net_of (re_gross_earnings_paise r) (re_total_deductions_paise r)"
proof -
  obtain ls run base where l: "run_id run' = rid" "run_id run = rid" "run' = finish_run run ls base"
    "map ln_employee ls = run_employees_of run' db"
    "\<forall>l \<in> set ls. ln_run l = run \<and> row_and_slip db' l"
    using assms(1,2) by (rule execute_lines)
  obtain k where k: "k \<in> set ls" "ln_employee k = e"
    using assms(3) unfolding l(4) [symmetric] by auto
  then have "ln_run k = run" "row_and_slip db' k" using l(5) by auto
  then obtain r p where "filter (own_row k) (db_run_employees db') = [r]" "row_of k r"
    "filter (own_slip k) (db_payslips db') = [p]" "slip_of k p" by (auto simp: row_and_slip_def)
  moreover have "own_row k = (\<lambda>r. re_run_id r = rid \<and> re_employee_id r = em_id e)"
    "own_slip k = (\<lambda>p. ps_run_id p = rid \<and> ps_employee_id p = em_id e)"
    using \<open>ln_run k = run\<close> k(2) l(2) by (auto simp: own_row_def own_slip_def)
  ultimately show ?thesis by (auto simp: row_of_def slip_of_def ln_net_def)
qed

theorem payslip_agrees_with_row_witness:
  "\<exists>run' db' p. sample_execution = (Inr run', db') \<and>
     filter (\<lambda>p. ps_run_id p = 1 \<and> ps_employee_id p = 6) (db_payslips db') = [p]"
proof -
  obtain run' db' where e: "sample_execution = (Inr run', db')" "run_total_net_paise run' = 3870000"
    using sample_execution_Inr by blast
  note x = e(1) [unfolded sample_execution_def]
  obtain ls run base where l: "run_id run' = 1" "run_id run = 1" "run' = finish_run run ls base"
    "map ln_employee ls = run_employees_of run' sample_payroll"
    "\<forall>l \<in> set ls. ln_run l = run \<and> row_and_slip db' l"
    using x sample_payroll_distinct by (rule execute_lines)
  have "run_employees_of run' sample_payroll \<noteq> []"
    using e(2) l(3) unfolding l(4) [symmetric] by (cases ls) simp_all
  then have "sample_employee 6 \<in> set (run_employees_of run' sample_payroll)"
    by (auto simp: run_employees_of_def sample_payroll_def split: if_splits)
  then show ?thesis
    using payslip_agrees_with_row [OF x sample_payroll_distinct] e(1)
    by (fastforce simp: sample_employee_def)
qed

section \<open>Net pay\<close>

lemma clamp_error:
  fixes m :: int
  assumes "\<bar>m - d\<bar> \<le> 50" "m \<le> m'" "100 dvd m"
  shows "0 \<le> max 0 m \<and> 100 dvd max 0 m \<and> \<bar>max 0 m - max 0 d\<bar> \<le> 50 \<and> max 0 m \<le> max 0 m'"
  using assms by (auto simp: max_def)

text \<open>
  C3: net pay is gross less deductions rounded half up to whole rupees, never negative: exactly the
  multiple of 100 paise that integer division gives for 50 paise more than the difference, and 0 when
  that is negative. So it is at most 50 paise from the exact amount when that is positive, and never
  decreases when the gross grows or the deductions shrink.
\<close>

theorem net_pay_rounded:
  assumes "\<bar>gross - deductions\<bar> < 10 ^ 27" "\<bar>gross' - deductions'\<bar> < 10 ^ 27"
    "gross - deductions \<le> gross' - deductions'"
  shows "net_of gross deductions = max 0 ((gross - deductions + 50) div 100 * 100) \<and>
    0 \<le> net_of gross deductions \<and> 100 dvd net_of gross deductions \<and>
    \<bar>net_of gross deductions - max 0 (gross - deductions)\<bar> \<le> 50 \<and>
    net_of gross deductions \<le> net_of gross' deductions'"
proof -
  let ?d = "gross - deductions" let ?x = "rat_of_int ?d"
  have "\<bar>?d\<bar> < 10 ^ 28" using assms(1) by simp
  then have exact: "max 0 (round_to_rupee_paise ?x) = max 0 ((?d + 50) div 100 * 100)"
    by (rule round_to_rupee_paise_clamped)
  have "dec_rep ?x" using assms(1) by (intro dec_rep_of_int) simp
  then have "\<bar>rat_of_int (round_to_rupee_paise ?x) - ?x\<bar> \<le> 50" by (rule round_to_rupee_paise_error)
  then have "\<bar>rat_of_int (round_to_rupee_paise ?x - ?d)\<bar> \<le> rat_of_int 50" by simp
  then have e: "\<bar>round_to_rupee_paise ?x - ?d\<bar> \<le> 50" by (simp only: of_int_le_iff flip: of_int_abs)
  have "round_to_rupee_paise ?x \<le> round_to_rupee_paise (rat_of_int (gross' - deductions'))"
    using assms(3) by (intro round_to_rupee_paise_mono) (simp only: of_int_le_iff)
  then show ?thesis unfolding net_of_def using exact clamp_error [OF e _ round_to_rupee_paise_dvd] by blast
qed

theorem net_pay_rounded_witness:
  "net_of 4070050 200000 = 3870100 \<and> net_of 4070049 200000 = 3870000"
proof -
  have "net_of 4070049 200000 = 3870000"
    using net_pay_rounded [of 4070049 200000 4070050 200000] by simp
  then show ?thesis using net_pay_rounded [of 4070050 200000 4070050 200000] by simp
qed

end
