(* ===== verification/Run_Pay.thy ===== *)
theory Run_Pay
  imports Run_Totals
begin

text \<open>
  Properties of the pieces a calculation is made of: proration by paid days, custom components,
  the financial year's months, ESI coverage carried through the contribution period, and the
  replacement of Indian charges outside India.
\<close>

section \<open>Proration\<close>

lemma day_ratio_bounds: "0 \<le> day_ratio p" "day_ratio p \<le> 1"
  by (simp_all add: day_ratio_def)

lemma day_ratio_full: "30 \<le> p \<Longrightarrow> day_ratio p = 1"
proof -
  assume p: "30 \<le> p"
  have "1 \<le> ddiv p 30" unfolding ddiv_def
    by (rule dec_ctx_ge) (use p dec_rep_of_int [of 1] in \<open>simp_all add: le_divide_eq\<close>)
  then show ?thesis by (simp add: day_ratio_def)
qed

lemma day_ratio_mono: "p \<le> q \<Longrightarrow> day_ratio p \<le> day_ratio q"
  using ddiv_mono [of p q 30] by (auto simp: day_ratio_def max_def min_def)

definition amount_ok :: "int \<Rightarrow> bool" where
  "amount_ok n \<longleftrightarrow> 0 \<le> n \<and> n < 10 ^ 27"

lemma amount_dec_rep: "amount_ok n \<Longrightarrow> dec_rep (of_int n)"
  by (rule dec_rep_of_int) (simp add: amount_ok_def)

lemma prorated_bounds:
  assumes "amount_ok n" "0 \<le> r" "r \<le> 1"
  shows "0 \<le> prorated r n" "prorated r n \<le> n"
proof -
  have n: "0 \<le> rat_of_int n" using assms(1) by (simp add: amount_ok_def)
  show "0 \<le> prorated r n" unfolding prorated_def
    by (intro round_paise_nonneg dmul_nonneg) (use assms(2) n in simp_all)
  have "dmul (of_int n) r \<le> of_int n" unfolding dmul_def
    by (rule dec_ctx_le) (use n assms(3) amount_dec_rep [OF assms(1)] in \<open>simp_all add: mult_left_le\<close>)
  then show "prorated r n \<le> n" unfolding prorated_def by (rule round_paise_le)
qed


lemma prorated_full: "amount_ok n \<Longrightarrow> prorated 1 n = n"
  using amount_dec_rep [of n] by (simp add: prorated_def dmul_def dec_ctx_rep)

lemma prorated_mono: "amount_ok n \<Longrightarrow> r \<le> s \<Longrightarrow> prorated r n \<le> prorated s n"
  unfolding prorated_def dmul_def
  by (intro round_paise_mono dec_ctx_mono mult_left_mono) (simp_all add: amount_ok_def)

definition heads_ok :: "pay_heads \<Rightarrow> bool" where
  "heads_ok h \<longleftrightarrow>
     amount_ok (ph_basic h) \<and> amount_ok (ph_hra h) \<and> amount_ok (ph_special h) \<and>
     amount_ok (ph_conveyance h) \<and> amount_ok (ph_lta h) \<and> amount_ok (ph_statutory_bonus h) \<and>
     list_all (\<lambda>kv. amount_ok (snd kv)) (ph_other h)"

lemma prorated_other_mono:
  assumes "list_all (\<lambda>kv. amount_ok (snd kv)) xs" "0 \<le> r" "r \<le> s" "s \<le> 1"
  shows "0 \<le> (\<Sum>kv\<leftarrow>xs. prorated r (snd kv))"
    "(\<Sum>kv\<leftarrow>xs. prorated r (snd kv)) \<le> (\<Sum>kv\<leftarrow>xs. prorated s (snd kv))"
    "(\<Sum>kv\<leftarrow>xs. prorated s (snd kv)) \<le> (\<Sum>kv\<leftarrow>xs. snd kv)"
  using assms by (induction xs) (auto intro!: add_mono add_nonneg_nonneg prorated_mono prorated_bounds)

lemma heads_total_prorated:
  "heads_total (prorated_heads r h) =
     prorated r (ph_basic h) + prorated r (ph_hra h) + prorated r (ph_special h) +
     prorated r (ph_conveyance h) + prorated r (ph_lta h) + prorated r (ph_statutory_bonus h) +
     ph_reimbursement h + (\<Sum>kv\<leftarrow>ph_other h. prorated r (snd kv))"
  by (simp add: heads_total_def prorated_heads_def comp_def)

text \<open>
  Loss of pay only ever reduces fixed pay. For heads that are not negative, the prorated fixed
  pay lies between the reimbursement, which is never prorated, and the full monthly pay; it grows
  with the paid days; and 30 or more paid days give exactly the full pay.
\<close>

theorem proration_bounds:
  assumes "heads_ok h" "p \<le> q"
  shows "ph_reimbursement h \<le> heads_total (prorated_heads (day_ratio p) h) \<and>
    heads_total (prorated_heads (day_ratio p) h) \<le> heads_total (prorated_heads (day_ratio q) h) \<and>
    heads_total (prorated_heads (day_ratio q) h) \<le> heads_total h \<and>
    (30 \<le> q \<longrightarrow> heads_total (prorated_heads (day_ratio q) h) = heads_total h)"
proof -
  let ?r = "day_ratio p" and ?s = "day_ratio q"
  note r = day_ratio_bounds(1) [of p] day_ratio_mono [OF assms(2)] day_ratio_bounds(2) [of q]
  note ok = assms(1) [unfolded heads_ok_def]
  have h: "0 \<le> prorated ?r n \<and> prorated ?r n \<le> prorated ?s n \<and> prorated ?s n \<le> n" if "amount_ok n" for n
    using prorated_bounds [OF that] prorated_mono [OF that] r by force
  have o: "0 \<le> (\<Sum>kv\<leftarrow>ph_other h. prorated ?r (snd kv))"
    "(\<Sum>kv\<leftarrow>ph_other h. prorated ?r (snd kv)) \<le> (\<Sum>kv\<leftarrow>ph_other h. prorated ?s (snd kv))"
    "(\<Sum>kv\<leftarrow>ph_other h. prorated ?s (snd kv)) \<le> (\<Sum>kv\<leftarrow>ph_other h. snd kv)"
    by (rule prorated_other_mono; use ok r in simp)+
  have f: "heads_total (prorated_heads ?s h) = heads_total h" if "30 \<le> q"
  proof -
    have "map (\<lambda>kv. prorated 1 (snd kv)) (ph_other h) = map snd (ph_other h)"
      using ok by (auto simp: list_all_iff prorated_full)
    note m = arg_cong [OF this, of sum_list]
    show ?thesis
      using ok unfolding day_ratio_full [OF that] heads_total_prorated m
      by (simp add: prorated_full heads_total_def)
  qed
  show ?thesis
    using ok h [of "ph_basic h"] h [of "ph_hra h"] h [of "ph_special h"] h [of "ph_conveyance h"]
      h [of "ph_lta h"] h [of "ph_statutory_bonus h"] o f
    unfolding heads_total_prorated by (simp add: heads_total_def)
qed

definition sample_heads :: pay_heads where
  "sample_heads =
     \<lparr> ph_basic = 5000000, ph_hra = 2000000, ph_special = 1000001, ph_conveyance = 160000, ph_lta = 0,
       ph_statutory_bonus = 0, ph_reimbursement = 77700, ph_other = [(''shift'', 333)] \<rparr>"

theorem proration_bounds_witness:
  "heads_total (prorated_heads (day_ratio (25 / 2)) sample_heads) \<le>
     heads_total (prorated_heads (day_ratio 31) sample_heads) \<and>
   heads_total (prorated_heads (day_ratio 31) sample_heads) = heads_total sample_heads"
  using proration_bounds [of sample_heads "25 / 2" 31]
  by (simp add: heads_ok_def amount_ok_def sample_heads_def)

section \<open>Custom components\<close>

definition custom_ok :: "custom_pay \<Rightarrow> bool" where
  "custom_ok cu \<longleftrightarrow>
     cu_earnings cu = (\<Sum>kv\<leftarrow>cu_earning_breakup cu. snd kv) \<and>
     cu_deductions cu = (\<Sum>kv\<leftarrow>cu_deduction_breakup cu. snd kv) \<and>
     distinct (map fst (cu_earning_breakup cu)) \<and> distinct (map fst (cu_deduction_breakup cu)) \<and>
     fst ` set (cu_earning_breakup cu) \<inter> set core_codes = {} \<and>
     fst ` set (cu_deduction_breakup cu) \<inter> set core_codes = {}"

lemma sum_update:
  fixes m :: "(string \<times> int) list"
  assumes "distinct (map fst m)"
  shows "(\<Sum>kv\<leftarrow>AList.update k v m. snd kv) =
    (\<Sum>kv\<leftarrow>m. snd kv) - (case map_of m k of Some w \<Rightarrow> w | None \<Rightarrow> 0) + v"
  using assms
proof (induction m)
  case (Cons kv m)
  have "map_of m k = None" if "fst kv = k" using Cons.prems that by (simp add: map_of_eq_None_iff)
  then show ?case using Cons by (cases kv) (auto split: option.splits)
qed simp

lemma add_to_sum:
  "distinct (map fst m) \<Longrightarrow> (\<Sum>kv\<leftarrow>add_to k n m. snd kv) = (\<Sum>kv\<leftarrow>m. snd kv) + n"
  by (simp add: add_to_def sum_update split: option.splits)

lemma add_to_keys:
  "distinct (map fst m) \<Longrightarrow> distinct (map fst (add_to k n m))"
  "fst ` set (add_to k n m) = insert k (fst ` set m)"
  by (simp_all add: add_to_def distinct_update dom_update)

lemma add_custom_ok:
  assumes "custom_ok (fst st)" "py_upper (pc_code pc) \<notin> set core_codes"
  shows "custom_ok (fst (add_custom g pc n st))"
  using assms by (simp add: custom_ok_def add_custom_def Let_def add_to_sum add_to_keys)

lemma custom_loop_ok:
  "custom_loop fe b pcs st = Inr st' \<Longrightarrow> custom_ok (fst st) \<Longrightarrow> custom_ok (fst st')"
proof (induction pcs arbitrary: st)
  case (Cons pc pcs)
  show ?case
  proof (cases "py_upper (pc_code pc) \<in> set core_codes")
    case True
    then show ?thesis using Cons by simp
  next
    case False
    then obtain v where "component_value fe b (snd st) pc = Inr v"
      and "(case v of None \<Rightarrow> custom_loop fe b pcs st
            | Some n \<Rightarrow> custom_loop fe b pcs (add_custom (cb_base_gross b) pc n st)) = Inr st'"
      using Cons.prems(1) by (auto simp: bind_res_Inr_iff)
    then show ?thesis
      using Cons.IH add_custom_ok [OF Cons.prems(2) False] Cons.prems(2) by (cases v) auto
  qed
qed simp

text \<open>
  Custom components are itemised exactly and never double a core head. The custom earnings and
  deductions of an employee are the sums of their itemised breakups, every component code is
  itemised once, and no code owned by the core or statutory engines appears, whatever the tenant's
  catalogue holds.
\<close>

theorem custom_components_itemised:
  assumes "employee_earnings fe pcs src vs ledger cur rate = Inr ea"
  shows "cu_earnings (ea_custom ea) = (\<Sum>kv\<leftarrow>cu_earning_breakup (ea_custom ea). snd kv) \<and>
    cu_deductions (ea_custom ea) = (\<Sum>kv\<leftarrow>cu_deduction_breakup (ea_custom ea). snd kv) \<and>
    distinct (map fst (cu_earning_breakup (ea_custom ea))) \<and>
    fst ` set (cu_earning_breakup (ea_custom ea)) \<inter> set core_codes = {} \<and>
    fst ` set (cu_deduction_breakup (ea_custom ea)) \<inter> set core_codes = {}"
proof -
  obtain b ctx st where "custom_loop fe b pcs (no_custom_pay, ctx) = Inr st" "ea_custom ea = fst st"
    using assms unfolding employee_earnings_def Let_def
    by (auto simp only: bind_res_Inr_iff sum.inject earnings.simps)
  then have "custom_ok (ea_custom ea)"
    using custom_loop_ok [of fe b pcs "(no_custom_pay, ctx)" st] by (simp add: custom_ok_def no_custom_pay_def)
  then show ?thesis by (simp add: custom_ok_def)
qed

definition sample_source :: pay_source where
  "sample_source =
     \<lparr> src_compensation = None, src_salary = None, src_terms = (''INR'', 1), src_heads = sample_heads,
       src_attendance = None \<rparr>"

definition sample_component :: "string \<Rightarrow> string \<Rightarrow> pay_component" where
  "sample_component code typ =
     \<lparr> pc_company_id = None, pc_code = code, pc_type = typ, pc_calculation_method = ''PERCENTAGE_OF_BASIC'',
       pc_default_percentage = Some (1 / 10), pc_formula_expr = None, pc_is_active = True \<rparr>"

definition sample_catalogue :: "pay_component list" where
  "sample_catalogue =
     [sample_component ''hra'' ''earning'', sample_component ''Meal'' ''earning'',
      sample_component ''club'' ''deduction'']"

definition sample_custom :: "custom_pay option" where
  "sample_custom =
     (case employee_earnings sample_env sample_catalogue sample_source [] 0 ''INR'' 1 of
        Inl e \<Rightarrow> None | Inr ea \<Rightarrow> Some (ea_custom ea))"

lemma sample_custom_value:
  "sample_custom = Some \<lparr> cu_earning_breakup = [(''MEAL'', 500000)],
     cu_deduction_breakup = [(''CLUB'', 500000)], cu_earnings = 500000, cu_deductions = 500000,
     cu_employer = 0 \<rparr>"
  by code_simp

theorem custom_components_itemised_witness:
  "\<exists>ea. employee_earnings sample_env sample_catalogue sample_source [] 0 ''INR'' 1 = Inr ea \<and>
     cu_earnings (ea_custom ea) = 500000 \<and>
     fst ` set (cu_earning_breakup (ea_custom ea)) \<inter> set core_codes = {}"
proof -
  obtain ea where ea: "employee_earnings sample_env sample_catalogue sample_source [] 0 ''INR'' 1 = Inr ea"
    "cu_earnings (ea_custom ea) = 500000"
    using sample_custom_value unfolding sample_custom_def by (auto split: sum.splits)
  then show ?thesis using custom_components_itemised [OF ea(1)] by blast
qed

section \<open>The financial year\<close>

text \<open>
  A run splits its financial year in two. For every month from January to December the months
  already elapsed and the months remaining, the current one included, are twelve together; the
  elapsed months are distinct, lie in the year that starts in April, and all precede the run.
\<close>

theorem financial_year_split:
  assumes "1 \<le> run_period_month run" "run_period_month run \<le> 12"
  shows "int (length (elapsed_pairs run)) + remaining_months_of (run_period_month run) = 12 \<and>
    distinct (elapsed_pairs run) \<and>
    (\<forall>(m, y) \<in> set (elapsed_pairs run).
       (if 4 \<le> m then y else y - 1) = fy_start run \<and>
       (y < run_period_year run \<or> y = run_period_year run \<and> m < run_period_month run))"
proof -
  have "run_period_month run \<in> set [1, 2, 3, 4, 5, 6, 7, 8, 9, 10, 11, 12]" using assms by simp presburger
  then show ?thesis
    by (auto simp: elapsed_pairs_def remaining_months_of_def fy_start_def Let_def)
qed

theorem financial_year_split_witness:
  "(5::int) \<le> 12 \<and> int (length (elapsed_pairs (sample_run_row 1 VALIDATED))) + 11 = 12"
  using financial_year_split [of "sample_run_row 1 VALIDATED"]
  by (simp add: sample_run_row_def remaining_months_of_def)

section \<open>Outside India\<close>

text \<open>
  An employee of a run outside India pays no Indian charge. PF, ESI, professional tax, labour
  welfare fund, TDS and the gratuity provision are all 0, the deductions are the country adapter's
  plus variable, advance and custom deductions, and no investment declaration is touched.
\<close>

theorem foreign_run_has_no_indian_charges:
  assumes "process_employee env run emp db = Inr (l, db')" "env_country env \<noteq> ''IN''"
  shows "ch_employee_pf (ln_charges l) = 0 \<and> ch_employee_esi (ln_charges l) = 0 \<and>
    ch_pt (ln_charges l) = 0 \<and> ch_employee_lwf (ln_charges l) = 0 \<and> ch_tds (ln_charges l) = 0 \<and>
    ch_employer_pf (ln_charges l) = 0 \<and> ch_employer_esi (ln_charges l) = 0 \<and>
    ch_gratuity (ln_charges l) = 0 \<and>
    ln_deductions l = ch_country_employee (ln_charges l) + ea_variable_deductions (ln_earnings l) +
      ln_advance l + cu_deductions (ea_custom (ln_earnings l))"
proof -
  obtain src advance db1 ea pf decl ch db2 db3 where c:
    "advance_deduction_for_employee run (em_id emp) db = Inr (advance, db1)"
    "employee_earnings (env_formula env) (env_components env) src (variable_inputs_of run (em_id emp) db)
       (ledger_arrears (env_arrears env) (em_id emp)) (env_currency env) (env_rate env) = Inr ea"
    "employee_charges env run emp ea decl pf db1 = Inr ch"
    "ln_run l = run" "ln_employee l = emp" "ln_earnings l = ea" "ln_charges l = ch" "ln_advance l = advance"
    "db2 = db1 \<or> db2 = remember_ytd run (em_id emp) decl (ch_tds ch) db1"
    "save_run_employee l db2 = Inr db3" "save_payslip l db3 = Inr db'"
    using assms(1) by (rule process_employee_cases)
  have "country_charges run (env_country env) (env_currency env) (env_calculator env) ea = Inr ch"
    using c(3) assms(2) by (simp add: employee_charges_def)
  then have "ch_employee_pf ch = 0 \<and> ch_employee_esi ch = 0 \<and> ch_pt ch = 0 \<and> ch_employee_lwf ch = 0 \<and>
    ch_tds ch = 0 \<and> ch_employer_pf ch = 0 \<and> ch_employer_esi ch = 0 \<and> ch_gratuity ch = 0"
    by (auto simp: country_charges_def bind_res_Inr_iff)
  then show ?thesis using c(7) by (simp add: ln_deductions_def deductions_of_def)
qed


definition foreign_env :: calc_env where
  "foreign_env =
     \<lparr> env_formula = sample_env, env_config = transient_config, env_period = None, env_components = [],
       env_arrears = [], env_currency = ''INR'', env_country = ''AE'', env_rate = 1,
       env_calculator = configurable_calculate, env_today = Date 2025 6 1 \<rparr>"

definition foreign_line :: "(int \<times> int \<times> string option) option" where
  "foreign_line =
     (case process_employee foreign_env (sample_run_row 1 PROCESSING) (sample_employee 6) empty_db of
        Inl e \<Rightarrow> None
      | Inr (l, db') \<Rightarrow> Some (ln_gross l, ln_net l, ch_rule_version (ln_charges l)))"

lemma foreign_line_value:
  "foreign_line = Some (4000000, 4000000, Some ''UNCONFIGURED_REVIEW_REQUIRED'')"
  by code_simp

theorem foreign_run_has_no_indian_charges_witness:
  "\<exists>l db'. process_employee foreign_env (sample_run_row 1 PROCESSING) (sample_employee 6) empty_db = Inr (l, db') \<and>
     ln_gross l = 4000000 \<and> ch_tds (ln_charges l) = 0"
proof -
  obtain l db' where l: "process_employee foreign_env (sample_run_row 1 PROCESSING) (sample_employee 6) empty_db = Inr (l, db')"
    "ln_gross l = 4000000"
    using foreign_line_value unfolding foreign_line_def by (auto split: sum.splits prod.splits)
  show ?thesis using foreign_run_has_no_indian_charges [OF l(1)] l by (simp add: foreign_env_def)
qed

section \<open>ESI coverage through the contribution period\<close>

definition first_slip_of_period :: "employee \<Rightarrow> payroll_period \<Rightarrow> uuid option \<Rightarrow> payroll_db \<Rightarrow> payslip option" where
  "first_slip_of_period emp period company db =
     earliest_slip None
       (filter (\<lambda>p. ps_employee_id p = em_id emp \<and>
                    (ps_period_month p, ps_period_year p)
                      \<in> set (period_months (esi_contribution_period (pp_start_date period))) \<and>
                    (case company of None \<Rightarrow> True | Some cid \<Rightarrow> ps_company_id p = Some cid))
          (db_payslips db))"

lemma coverage_from_first_slip:
  assumes "first_slip_of_period emp period company db = Some p"
    "rupees_trunc (ps_gross_earnings p) \<le> employee_esi_ceiling emp c"
  shows "get_esi_coverage_at_period_start emp period c company db =
    (True, fst (esi_contribution_period (pp_start_date period)))"
  using assms by (simp add: get_esi_coverage_at_period_start_def first_slip_of_period_def Let_def)

text \<open>
  Coverage earned at the start of an ESI contribution period lasts. When the earliest payslip of
  the period stayed within the ceiling, the run charges ESI at the configured rates on the
  statutory wage in every month of that period, even after the gross has crossed the ceiling.
\<close>

theorem esi_continues_in_period:
  assumes "first_slip_of_period emp period (run_company_id run) db = Some p"
    "rupees_trunc (ps_gross_earnings p) \<le> employee_esi_ceiling emp (cc_esi config)"
    "esi_contribution_period (first_of_month run) = esi_contribution_period (pp_start_date period)"
    "esi_enabled (cc_esi config)" "0 < gross" "0 \<le> wages"
  shows "let r = calculate_esi today (run_esi_input run config (Some period) emp gross wages db)
    in er_is_applicable r \<and>
       er_employee_esi_paise r = round_to_rupee_paise (dmul (of_int wages) (employee_esi_rate (cc_esi config))) \<and>
       er_employer_esi_paise r = round_to_rupee_paise (dmul (of_int wages) (employer_esi_rate (cc_esi config)))"
proof -
  define i where "i = run_esi_input run config (Some period) emp gross wages db"
  have i: "ei_gross_monthly_paise i = gross" "ei_config i = Some (cc_esi config)"
    "ei_contribution_wage_paise i = Some wages" "ei_covered_at_period_start i = Some True"
    "ei_as_of_date i = Some (first_of_month run)"
    "ei_contribution_period_start i = Some (fst (esi_contribution_period (pp_start_date period)))"
    by (simp_all add: i_def run_esi_input_def coverage_from_first_slip [OF assms(1,2)])
  have "esi_contribution_period (fst (esi_contribution_period d)) = esi_contribution_period d" for d
    by (simp add: esi_contribution_period_def)
  then have "esi_locked today i"
    by (simp add: esi_locked_def esi_covered_at_start_def esi_lock_matches_def esi_current_date_def i assms(3))
  then show ?thesis
    using assms(4,5,6) by (fold i_def) (simp add: calculate_esi_def Let_def i)
qed


definition sample_period :: payroll_period where
  "sample_period =
     \<lparr> pp_id = 9, pp_company_id = Some 1, pp_legal_entity_id = None, pp_name = ''May 2025'', pp_start_date = Date 2025 5 1,
       pp_end_date = Date 2025 5 31, pp_pay_date = Date 2025 5 31, pp_processing_date = None, pp_payment_date = None,
       pp_month = 5, pp_year = 2025, pp_status = ''OPEN'', pp_is_locked = False, pp_locked_by = None,
       pp_locked_at = None, pp_regularisation_deadline = None, pp_attendance_locked_at = None,
       pp_attendance_locked_by = None, pp_unlock_reason = None, pp_remarks = None \<rparr>"

definition april_slip :: payslip where
  "april_slip =
     \<lparr> ps_id = 1, ps_company_id = Some 1, ps_run_id = 0, ps_employee_id = 6,
       ps_salary_structure_id = None, ps_currency = ''INR'', ps_period_month = 4, ps_period_year = 2025,
       ps_basic = 12000, ps_hra = 0, ps_special_allowance = 0, ps_conveyance = 0,
       ps_other_allowances_total = 0, ps_arrears = 0, ps_bonus = 0, ps_lop_deduction = 0,
       ps_other_deductions = 0, ps_gross_earnings = 20000, ps_employee_pf = 0, ps_employer_pf = 0,
       ps_employee_esi = 0, ps_employer_esi = 0, ps_professional_tax = 0, ps_tds = 0,
       ps_total_deductions = 0, ps_net_pay = 20000, ps_gross_base_paise = 0,
       ps_total_deductions_base_paise = 0, ps_net_base_paise = 0, ps_payment_status = ''PAID'',
       ps_payment_date = None, ps_payment_reference = None \<rparr>"

theorem esi_continues_in_period_witness:
  "er_employee_esi_paise (calculate_esi (Date 2025 6 1)
     (run_esi_input (sample_run_row 1 PROCESSING) (default_config 2 (Some 1)) (Some sample_period)
        (sample_employee 6) 4000000 2500000 (empty_db\<lparr> db_payslips := [april_slip] \<rparr>))) =
   round_to_rupee_paise (dmul 2500000 (75 / 10000))"
proof -
  let ?db = "empty_db\<lparr> db_payslips := [april_slip] \<rparr>" and ?run = "sample_run_row 1 PROCESSING"
  have 1: "first_slip_of_period (sample_employee 6) sample_period (run_company_id ?run) ?db = Some april_slip"
    by code_simp
  have 2: "rupees_trunc (ps_gross_earnings april_slip) \<le>
      employee_esi_ceiling (sample_employee 6) (cc_esi (default_config 2 (Some 1)))"
    by code_simp
  have 3: "esi_contribution_period (first_of_month ?run) = esi_contribution_period (pp_start_date sample_period)"
    by code_simp
  show ?thesis
    using esi_continues_in_period [OF 1 2 3, of 4000000 2500000 "Date 2025 6 1"]
    by (simp add: default_config_def Let_def)
qed

end
