(* ===== verification/Machines.thy ===== *)
theory Machines
  imports Prelude
begin

text \<open>
  Systems of operations: what every operation keeps, every trace of operations keeps. The payroll
  runs, the payment batches and the leave requests are such systems.
\<close>

text \<open>A property of states that every operation of a system keeps holds along every trace.\<close>

locale transition_system =
  fixes act :: "'op \<Rightarrow> 's \<Rightarrow> 's" and inv :: "'s \<Rightarrow> bool"
  assumes keeps: "inv s \<Longrightarrow> inv (act a s)"
begin

lemma trace_keeps: "inv s \<Longrightarrow> inv (foldl (\<lambda>s a. act a s) s ops)"
  by (induction ops arbitrary: s) (simp_all add: keeps)

text \<open>A property that a trace establishes is established by one of its operations.\<close>

lemma entering_step:
  assumes "inv s" "\<not> Q s" "Q (foldl (\<lambda>s a. act a s) s ops)"
  obtains before a after where "ops = before @ a # after" "inv (foldl (\<lambda>s a. act a s) s before)"
    "\<not> Q (foldl (\<lambda>s a. act a s) s before)" "Q (act a (foldl (\<lambda>s a. act a s) s before))"
proof -
  have "\<exists>before a after. ops = before @ a # after \<and> inv (foldl (\<lambda>s a. act a s) s before) \<and>
      \<not> Q (foldl (\<lambda>s a. act a s) s before) \<and> Q (act a (foldl (\<lambda>s a. act a s) s before))"
    using assms
  proof (induction ops rule: rev_induct)
    case (snoc a ops)
    show ?case
    proof (cases "Q (foldl (\<lambda>s a. act a s) s ops)")
      case True
      then obtain b x c where b: "ops = b @ x # c" and rest: "inv (foldl (\<lambda>s a. act a s) s b)"
        "\<not> Q (foldl (\<lambda>s a. act a s) s b)" "Q (act x (foldl (\<lambda>s a. act a s) s b))"
        using snoc by blast
      then have "ops @ [a] = b @ x # (c @ [a])" by simp
      then show ?thesis using rest by blast
    next
      case False
      then show ?thesis using snoc.prems trace_keeps [OF snoc.prems(1), of ops] by auto
    qed
  qed simp
  then show ?thesis using that by blast
qed

end

end
