(* ===== verification/Run_Machine.thy ===== *)
theory Run_Machine
  imports Run_Pay Machines
begin

text \<open>
  Payroll runs as a state machine. The handlers of \<open>PayrollRunService\<close> are the operations
  of a transition system over the database; a trace is a list of operations, so every interleaving
  of requests on all runs of all tenants is one. The section starts with the retry handler, which
  calls the calculation engine, then states what every handler has in common as a locale, and the
  abstract life cycle that the handlers implement.
\<close>

section \<open>Retry\<close>

text \<open>\<open>retry_run\<close> commits the reset to VALIDATED before it calls the engine.\<close>

definition retry_run ::
  "formula_env \<Rightarrow> uuid \<Rightarrow> uuid option \<Rightarrow> string option \<Rightarrow> timestamp \<Rightarrow> date \<Rightarrow> payroll_db
    \<Rightarrow> payroll_run result \<times> payroll_db"
where
  "retry_run fe rid user_id user_role now today db =
     (case get_run rid None db of
        Inl e \<Rightarrow> (Inl e, db)
      | Inr run \<Rightarrow>
          let run' = run\<lparr> run_status := VALIDATED \<rparr>
          in execute_run_calculation fe rid user_id None now today
               (log_run run ''RETRY'' user_id user_role VALIDATED None (update_run rid (\<lambda>_. run') db)))"

section \<open>Operations and traces\<close>

datatype run_request =
    OpCreate create_request timestamp
  | OpValidate uuid
  | OpExecute uuid "uuid option" "uuid option" timestamp date
  | OpSubmit uuid "uuid option" "string option" "uuid option"
  | OpApprove uuid "string option" "uuid option" "string option" bool "uuid option" timestamp
  | OpFinalize uuid "string option" bool "uuid option" "string option" bool "uuid option" timestamp
  | OpMarkPaid uuid "uuid option" "string option" "uuid option" timestamp
  | OpReject uuid string "string option" "uuid option" "string option" timestamp
  | OpCancel uuid "uuid option" "string option"
  | OpSendBack uuid "string option" "string option" "uuid option" "string option" timestamp
  | OpRetry uuid "uuid option" "string option" timestamp date
  | OpDelete uuid

fun perform :: "formula_env \<Rightarrow> run_request \<Rightarrow> payroll_db \<Rightarrow> payroll_db" where
  "perform fe (OpCreate rq now) db = snd (create_run rq now db)"
| "perform fe (OpValidate rid) db = snd (validate_run rid db)"
| "perform fe (OpExecute rid u c now today) db = snd (execute_run_calculation fe rid u c now today db)"
| "perform fe (OpSubmit rid u r c) db = snd (submit_for_approval rid u r c db)"
| "perform fe (OpApprove rid cm u r legacy c now) db = snd (approve_run rid cm u r legacy c now db)"
| "perform fe (OpFinalize rid notes lck u r legacy c now) db =
     snd (finalize_run rid notes lck u r legacy c now db)"
| "perform fe (OpMarkPaid rid u r c now) db = snd (mark_paid rid u r c now db)"
| "perform fe (OpReject rid reason cm u r now) db = snd (reject_run rid reason cm u r now db)"
| "perform fe (OpCancel rid u r) db = snd (cancel_run rid u r db)"
| "perform fe (OpSendBack rid reason cm u r now) db = snd (send_back_run rid reason cm u r now db)"
| "perform fe (OpRetry rid u r now today) db = snd (retry_run fe rid u r now today db)"
| "perform fe (OpDelete rid) db = snd (delete_run rid db)"

definition run_trace :: "formula_env \<Rightarrow> run_request list \<Rightarrow> payroll_db \<Rightarrow> payroll_db" where
  "run_trace fe ops db = foldl (\<lambda>d a. perform fe a d) db ops"

lemma run_trace_simps [simp]:
  "run_trace fe [] db = db"
  "run_trace fe (a # ops) db = run_trace fe ops (perform fe a db)"
  "run_trace fe (ops @ ops') db = run_trace fe ops' (run_trace fe ops db)"
  by (simp_all add: run_trace_def)

fun op_run :: "run_request \<Rightarrow> uuid option" where
  "op_run (OpCreate rq now) = None"
| "op_run (OpValidate rid) = Some rid"
| "op_run (OpExecute rid u c now today) = Some rid"
| "op_run (OpSubmit rid u r c) = Some rid"
| "op_run (OpApprove rid cm u r legacy c now) = Some rid"
| "op_run (OpFinalize rid notes lck u r legacy c now) = Some rid"
| "op_run (OpMarkPaid rid u r c now) = Some rid"
| "op_run (OpReject rid reason cm u r now) = Some rid"
| "op_run (OpCancel rid u r) = Some rid"
| "op_run (OpSendBack rid reason cm u r now) = Some rid"
| "op_run (OpRetry rid u r now today) = Some rid"
| "op_run (OpDelete rid) = Some rid"

section \<open>The part of the database that belongs to a run\<close>

definition runs_at :: "uuid \<Rightarrow> payroll_db \<Rightarrow> payroll_run list" where
  "runs_at k db = filter (\<lambda>r. run_id r = k) (db_runs db)"

definition run_part :: "uuid \<Rightarrow> payroll_db \<Rightarrow> payroll_run list \<times> run_employee list \<times> payslip list" where
  "run_part k db =
     (runs_at k db, filter (\<lambda>e. re_run_id e = k) (db_run_employees db),
      filter (\<lambda>p. ps_run_id p = k) (db_payslips db))"

definition status_of :: "uuid \<Rightarrow> payroll_db \<Rightarrow> run_status option" where
  "status_of k db = map_option run_status (scalars_first (runs_at k db))"

definition run_key :: "payroll_run \<Rightarrow> uuid option \<times> uuid option \<times> int \<times> int" where
  "run_key r = (run_company_id r, run_legal_entity_id r, run_period_month r, run_period_year r)"

definition runs_wf :: "payroll_db \<Rightarrow> bool" where
  "runs_wf db \<longleftrightarrow> distinct (map run_id (db_runs db)) \<and> distinct (map run_key (db_runs db))"

lemma run_part_same:
  "db_runs a = db_runs b \<Longrightarrow> db_run_employees a = db_run_employees b \<Longrightarrow> db_payslips a = db_payslips b
    \<Longrightarrow> run_part k a = run_part k b"
  by (simp add: run_part_def runs_at_def)

lemma log_event_frame [simp]:
  "db_runs (log_event et ei a c ai ar os ns rs db) = db_runs db"
  "db_run_employees (log_event et ei a c ai ar os ns rs db) = db_run_employees db"
  "db_payslips (log_event et ei a c ai ar os ns rs db) = db_payslips db"
  "db_configs (log_event et ei a c ai ar os ns rs db) = db_configs db"
  by (simp_all add: log_event_def)

lemma log_run_frame [simp]:
  "db_runs (log_run run a u r st rs db) = db_runs db"
  "db_run_employees (log_run run a u r st rs db) = db_run_employees db"
  "db_payslips (log_run run a u r st rs db) = db_payslips db"
  "db_configs (log_run run a u r st rs db) = db_configs db"
  by (simp_all add: log_run_def)

lemma update_run_frame [simp]:
  "db_run_employees (update_run k f db) = db_run_employees db"
  "db_payslips (update_run k f db) = db_payslips db"
  "db_audit (update_run k f db) = db_audit db"
  "db_configs (update_run k f db) = db_configs db"
  by (simp_all add: update_run_def)

lemma run_part_frame [simp]:
  "run_part k (log_event et ei a c ai ar os ns rs db) = run_part k db"
  "run_part k (log_run run a u r st rs db) = run_part k db"
  by (simp_all add: run_part_def runs_at_def)

lemma runs_at_update_run:
  "run_id run' = rid \<Longrightarrow>
     runs_at k (update_run rid (\<lambda>_. run') db) = (if k = rid then map (\<lambda>_. run') (runs_at k db) else runs_at k db)"
proof -
  assume i: "run_id run' = rid"
  have "filter (\<lambda>r. run_id r = k) (update_where (\<lambda>r. run_id r = rid) (\<lambda>_. run') xs) =
    (if k = rid then map (\<lambda>_. run') (filter (\<lambda>r. run_id r = k) xs) else filter (\<lambda>r. run_id r = k) xs)" for xs
    using i by (induction xs) auto
  then show ?thesis by (simp add: runs_at_def update_run_def)
qed

lemma run_part_update_run [simp]:
  "run_id run' = rid \<Longrightarrow> k \<noteq> rid \<Longrightarrow> run_part k (update_run rid (\<lambda>_. run') db) = run_part k db"
  by (simp add: run_part_def runs_at_update_run)

section \<open>What a calculation changes\<close>

lemma filter_update_where_other:
  assumes "\<And>x. P x \<Longrightarrow> \<not> Q x" "\<And>x. P x \<Longrightarrow> \<not> Q (f x)"
  shows "filter Q (update_where P f xs) = filter Q xs"
  using assms by (induction xs) auto

lemma process_employee_isolated:
  assumes "process_employee env run emp db = Inr (l, db')"
  shows "(k \<noteq> run_id run \<longrightarrow> run_part k db' = run_part k db) \<and> db_runs db' = db_runs db \<and>
    db_audit db' = db_audit db \<and> ln_run l = run"
proof -
  obtain src advance db1 ea pf decl ch db2 db3 where c:
    "advance_deduction_for_employee run (em_id emp) db = Inr (advance, db1)"
    "employee_earnings (env_formula env) (env_components env) src (variable_inputs_of run (em_id emp) db)
       (ledger_arrears (env_arrears env) (em_id emp)) (env_currency env) (env_rate env) = Inr ea"
    "employee_charges env run emp ea decl pf db1 = Inr ch"
    "ln_run l = run" "ln_employee l = emp" "ln_earnings l = ea" "ln_charges l = ch" "ln_advance l = advance"
    "db2 = db1 \<or> db2 = remember_ytd run (em_id emp) decl (ch_tds ch) db1"
    "save_run_employee l db2 = Inr db3" "save_payslip l db3 = Inr db'"
    using assms by (rule process_employee_cases)
  note f1 = advance_frame [OF c(1)] and f3 = save_run_employee_frame [OF c(10)]
    and f4 = save_payslip_frame [OF c(11)]
  have f2: "db_run_employees db2 = db_run_employees db" "db_payslips db2 = db_payslips db"
    "db_runs db2 = db_runs db" "db_audit db2 = db_audit db" using c(9) f1 by auto
  have rows: "filter (\<lambda>e. re_run_id e = k) (db_run_employees db3) = filter (\<lambda>e. re_run_id e = k) (db_run_employees db2)"
    if "k \<noteq> run_id run"
  proof -
    have "filter (\<lambda>e. re_run_id e = k) (update_where (own_row l) (fill_run_employee l) xs) =
      filter (\<lambda>e. re_run_id e = k) xs" for xs
      using that c(4) by (intro filter_update_where_other) (auto simp: own_row_def)
    moreover have "re_run_id (fill_run_employee l (new_run_employee l)) \<noteq> k"
      using that c(4) by (simp add: new_run_employee_def)
    ultimately show ?thesis using save_run_employee_cases [OF c(10)] by auto
  qed
  have slips: "filter (\<lambda>p. ps_run_id p = k) (db_payslips db') = filter (\<lambda>p. ps_run_id p = k) (db_payslips db3)"
    if "k \<noteq> run_id run"
  proof -
    have "filter (\<lambda>p. ps_run_id p = k) (update_where (own_slip l) (fill_payslip l) xs) =
      filter (\<lambda>p. ps_run_id p = k) xs" for xs
      using that c(4) by (intro filter_update_where_other) (auto simp: own_slip_def)
    moreover have "ps_run_id (fill_payslip l (new_payslip l i)) \<noteq> k" for i
      using that c(4) by (simp add: new_payslip_def)
    ultimately show ?thesis using save_payslip_cases [OF c(11)] by auto
  qed
  show ?thesis using f2 f3 f4 rows slips c(4) by (auto simp: run_part_def runs_at_def)
qed

lemma process_employees_isolated:
  "process_employees env run es db = Inr (ls, db') \<Longrightarrow>
    (k \<noteq> run_id run \<longrightarrow> run_part k db' = run_part k db) \<and> db_runs db' = db_runs db \<and>
    db_audit db' = db_audit db"
proof (induction es arbitrary: db ls)
  case (Cons e es)
  then obtain l db1 ms where l: "process_employee env run e db = Inr (l, db1)"
    and ms: "process_employees env run es db1 = Inr (ms, db')"
    by (auto simp: bind_res_Inr_iff)
  show ?case using process_employee_isolated [OF l, of k] Cons.IH [OF ms] by auto
qed simp

lemma calculate_run_isolated:
  assumes "calculate_run fe run now today db = Inr (run', db')"
  obtains ls base where "run' = finish_run run ls base"
    "db_runs db' = db_runs (update_run (run_id run) (\<lambda>_. run') db)" "db_audit db' = db_audit db"
    "\<forall>k. k \<noteq> run_id run \<longrightarrow> run_part k db' = run_part k db"
proof -
  obtain env ls db1 db2 base where db1: "db1 = snd (pending_for_run run db)"
    and p: "process_employees env run (run_employees_of run db) db1 = Inr (ls, db2)"
    and r: "run' = finish_run run ls base"
    and db': "db' = update_run (run_id run) (\<lambda>_. run')
       (mark_applied (fst (pending_for_run run db)) (run_id run) now db2)"
    using assms unfolding calculate_run_def Let_def
    by (auto simp only: bind_res_Inr_iff prod.case split_paired_Ex prod.inject sum.inject)
  have f: "run_part k db1 = run_part k db" "db_runs db1 = db_runs db" "db_audit db1 = db_audit db" for k
    by (simp_all add: db1 pending_for_run_def Let_def run_part_def runs_at_def)
  have m: "run_part k (mark_applied rs rid now d) = run_part k d" "db_runs (mark_applied rs rid now d) = db_runs d"
    "db_audit (mark_applied rs rid now d) = db_audit d" for k rs rid d
    by (simp_all add: mark_applied_def run_part_def runs_at_def)
  have i: "run_id run' = run_id run" by (simp add: r)
  note e = process_employees_isolated [OF p]
  show ?thesis
  proof (rule that [OF r])
    show "db_runs db' = db_runs (update_run (run_id run) (\<lambda>_. run') db)"
      using e f m by (simp add: db' update_run_def)
    show "db_audit db' = db_audit db" using e f m by (simp add: db')
    show "\<forall>k. k \<noteq> run_id run \<longrightarrow> run_part k db' = run_part k db"
      using e f m i by (simp add: db')
  qed
qed

text \<open>
  The three ways an execution ends: refused before anything is written, failed with the run left in
  PROCESSING and nothing else written, or finished.
\<close>

lemma execute_effect:
  assumes "execute_run_calculation fe rid u c now today db = (res, db')"
  obtains (refused) e where "res = Inl e" "db' = db"
      "(\<exists>e. get_run rid c db = Inl e) \<or> (\<exists>run. get_run rid c db = Inr run \<and> run_status run \<noteq> VALIDATED)"
    | (failed) run e where "get_run rid c db = Inr run" "run_status run = VALIDATED" "res = Inl e"
      "db' = update_run rid (\<lambda>_. processing u run) db"
    | (finished) run run' ls base where "get_run rid c db = Inr run" "run_status run = VALIDATED"
      "res = Inr run'" "run' = finish_run (processing u run) ls base"
      "db_runs db' = db_runs (update_run rid (\<lambda>_. run') db)" "db_audit db' = db_audit db"
      "\<forall>k. k \<noteq> rid \<longrightarrow> run_part k db' = run_part k db"
proof (cases "get_run rid c db")
  case (Inl e)
  then have "res = Inl e" "db' = db" using assms by (simp_all add: execute_run_calculation_def)
  then show ?thesis using refused [of e] Inl by blast
next
  case (Inr run)
  then have i: "run_id run = rid" using get_run_Inr by blast
  let ?db1 = "update_run rid (\<lambda>_. processing u run) db"
  show ?thesis
  proof (cases "run_status run = VALIDATED")
    case False
    then have "res = Inl (HTTPException 409 ''Run must be VALIDATED before processing'')" "db' = db"
      using assms Inr by (simp_all add: execute_run_calculation_def)
    then show ?thesis using refused False Inr by blast
  next
    case True
    show ?thesis
    proof (cases "calculate_run fe (processing u run) now today ?db1")
      case (Inl e)
      then show ?thesis using assms failed [OF Inr True] Inr True by (auto simp: execute_run_calculation_def Let_def)
    next
      case c: (Inr p)
      obtain run' d where p: "p = (run', d)" by (cases p)
      then have r: "res = Inr run'" "d = db'" using assms Inr True c by (auto simp: execute_run_calculation_def Let_def)
      obtain ls base where l: "run' = finish_run (processing u run) ls base"
        "db_runs db' = db_runs (update_run (run_id (processing u run)) (\<lambda>_. run') ?db1)"
        "db_audit db' = db_audit ?db1" "\<forall>k. k \<noteq> run_id (processing u run) \<longrightarrow> run_part k db' = run_part k ?db1"
        using c [unfolded p r(2)] by (rule calculate_run_isolated)
      have "db_runs db' = db_runs (update_run rid (\<lambda>_. run') db)"
        using l(1,2) i by (simp add: update_run_def update_where_def comp_def if_distrib cong: if_cong)
      moreover have "\<forall>k. k \<noteq> rid \<longrightarrow> run_part k db' = run_part k db" using l(4) i by simp
      ultimately show ?thesis using finished [OF Inr True r(1) l(1)] l(3) by simp
    qed
  qed
qed

section \<open>The contract of a handler\<close>

text \<open>
  What every handler of one run promises: it appends to the audit log, leaves the configuration and
  everything that belongs to other runs alone, and changes the row of its run, if at all, from
  \<open>run\<close> to a \<open>run'\<close> that the handler's relation allows, keeping identifier and key.
\<close>

definition run_change ::
  "uuid \<Rightarrow> (payroll_run \<Rightarrow> payroll_run \<Rightarrow> bool) \<Rightarrow> payroll_db \<Rightarrow> payroll_db \<Rightarrow> bool" where
  "run_change rid R db db' \<longleftrightarrow>
     (\<exists>es. db_audit db' = db_audit db @ es) \<and> db_configs db' = db_configs db \<and>
     (\<forall>k. k \<noteq> rid \<longrightarrow> run_part k db' = run_part k db) \<and>
     (db_runs db' = db_runs db \<or>
      (\<exists>run run'. run \<in> set (db_runs db) \<and> run_id run = rid \<and> R run run' \<and> run_id run' = rid \<and>
         run_key run' = run_key run \<and> db_runs db' = db_runs (update_run rid (\<lambda>_. run') db)))"

lemma run_change_same:
  "db_runs db' = db_runs db \<Longrightarrow> db_run_employees db' = db_run_employees db \<Longrightarrow> db_payslips db' = db_payslips db
    \<Longrightarrow> db_configs db' = db_configs db \<Longrightarrow> \<exists>es. db_audit db' = db_audit db @ es \<Longrightarrow> run_change rid R db db'"
  unfolding run_change_def by (blast intro: run_part_same)

lemma run_change_update:
  assumes "get_run rid c db = Inr run" "R run run'" "run_id run' = run_id run" "run_key run' = run_key run"
    "db_runs db' = db_runs (update_run rid (\<lambda>_. run') db)" "db_configs db' = db_configs db"
    "\<exists>es. db_audit db' = db_audit db @ es" "\<And>k. k \<noteq> rid \<Longrightarrow> run_part k db' = run_part k db"
  shows "run_change rid R db db'"
proof -
  have r: "run \<in> set (db_runs db)" "run_id run = rid" using get_run_Inr [OF assms(1)] by auto
  have "run_id run' = rid" using r(2) assms(3) by simp
  then have "\<exists>run run'. run \<in> set (db_runs db) \<and> run_id run = rid \<and> R run run' \<and> run_id run' = rid \<and>
      run_key run' = run_key run \<and> db_runs db' = db_runs (update_run rid (\<lambda>_. run') db)"
    using r assms(2,4,5) by blast
  moreover have "\<forall>k. k \<noteq> rid \<longrightarrow> run_part k db' = run_part k db" using assms(8) by blast
  ultimately show ?thesis unfolding run_change_def using assms(6,7) by blast
qed

text \<open>Assigning to a run, or to its payslips, and adding audit rows is such a change.\<close>

lemma run_change_assign:
  assumes "get_run rid c db = Inr run" "R run run'" "run_id run' = run_id run" "run_key run' = run_key run"
    "db_audit db1 = db_audit db @ es" "db_runs db1 = db_runs db" "db_run_employees db1 = db_run_employees db"
    "db_payslips db1 = db_payslips db" "db_configs db1 = db_configs db"
  shows "run_change rid R db (log_run run a u r st rs (update_run rid (\<lambda>_. run') db1))"
proof (rule run_change_update [of rid c db run R run'])
  have i: "run_id run' = rid" using get_run_Inr [OF assms(1)] assms(3) by simp
  show "db_runs (log_run run a u r st rs (update_run rid (\<lambda>_. run') db1)) = db_runs (update_run rid (\<lambda>_. run') db)"
    using assms(6) by (simp add: update_run_def)
  show "\<exists>e. db_audit (log_run run a u r st rs (update_run rid (\<lambda>_. run') db1)) = db_audit db @ e"
    using assms(5) by (simp add: log_run_def log_event_def)
  show "run_part k (log_run run a u r st rs (update_run rid (\<lambda>_. run') db1)) = run_part k db" if "k \<noteq> rid" for k
    using that i assms(6-8) run_part_same [of db1 db k] by simp
qed (use assms in simp_all)

lemma check_maker_checker_frame:
  assumes "check_maker_checker run u r a db = (res, db1)"
  shows "\<exists>es. db_audit db1 = db_audit db @ es" "db_runs db1 = db_runs db"
    "db_run_employees db1 = db_run_employees db" "db_payslips db1 = db_payslips db" "db_configs db1 = db_configs db"
  using assms unfolding check_maker_checker_def enforce_maker_checker_def
  by (auto simp: log_event_def split: sum.splits bool.splits option.splits if_splits)

text \<open>Dual control: a passed check on an enforcing tenant means the actor made nothing of the run.\<close>

lemma check_maker_checker_passed:
  assumes "check_maker_checker run (Some u) r a db = (Inr b, db1)"
    "is_maker_checker_enforced (run_company_id run) db = Inr True"
  shows "u \<notin> set (maker_ids_for_run run)"
  using assms unfolding check_maker_checker_def enforce_maker_checker_def
  by (auto split: if_splits)

lemma maker_ids_set:
  "set (maker_ids_for_run run) =
     {u. run_created_by run = Some u \<or> run_processed_by run = Some u \<or> run_by run = Some u}"
  by (auto simp: maker_ids_for_run_def split: option.splits)

section \<open>The relations of the handlers\<close>

definition same_makers :: "payroll_run \<Rightarrow> payroll_run \<Rightarrow> bool" where
  "same_makers a b \<longleftrightarrow>
     run_created_by b = run_created_by a \<and> run_processed_by b = run_processed_by a \<and> run_by b = run_by a"

lemma log_run_append: "\<exists>es. db_audit (log_run run a u r st rs db) = db_audit db @ es"
  by (simp add: log_run_def log_event_def)

lemma submit_change:
  "run_change rid (\<lambda>run run'. run_status run = PROCESSED \<and> run' = run\<lparr> run_status := PENDING_APPROVAL \<rparr>) db
     (snd (submit_for_approval rid u r c db))"
proof (cases "get_run rid c db")
  case (Inr run)
  show ?thesis
  proof (cases "run_status run = PROCESSED")
    case True
    then show ?thesis using Inr
      by (simp add: submit_for_approval_def Let_def)
        (rule run_change_assign [where es = "[]" and db = db]; simp add: run_key_def)
  qed (simp add: submit_for_approval_def Inr run_change_same)
qed (simp add: submit_for_approval_def run_change_same)

lemma mark_paid_change:
  "run_change rid (\<lambda>run run'. run_status run = LOCKED \<and> run' = run\<lparr> run_status := PAID, run_paid_at := Some now \<rparr>) db
     (snd (mark_paid rid u r c now db))"
proof (cases "get_run rid c db")
  case (Inr run)
  let ?run' = "run\<lparr> run_status := PAID, run_paid_at := Some now \<rparr>"
  let ?db2 = "(update_run rid (\<lambda>_. ?run') db)\<lparr> db_payslips :=
     update_where (\<lambda>p. ps_run_id p = rid) (\<lambda>p. p\<lparr> ps_payment_status := ''PAID'', ps_payment_date := Some now \<rparr>)
       (db_payslips db) \<rparr>"
  have id: "run_id run = rid" using Inr get_run_Inr by blast
  have "run_part k ?db2 = run_part k db" if "k \<noteq> rid" for k
  proof -
    have "filter (\<lambda>p. ps_run_id p = k) (update_where (\<lambda>p. ps_run_id p = rid)
        (\<lambda>p. p\<lparr> ps_payment_status := ''PAID'', ps_payment_date := Some now \<rparr>) (db_payslips db)) =
      filter (\<lambda>p. ps_run_id p = k) (db_payslips db)"
      using that by (intro filter_update_where_other) auto
    moreover have "runs_at k (update_run rid (\<lambda>_. ?run') db) = runs_at k db"
      using that id by (simp add: runs_at_update_run)
    ultimately show ?thesis by (simp add: run_part_def runs_at_def)
  qed
  moreover have "db_runs ?db2 = db_runs (update_run rid (\<lambda>_. ?run') db)" by simp
  moreover have "\<exists>es. db_audit (log_run run ''MARK_PAID'' u r PAID (Some ''Payroll run marked as paid'') ?db2)
      = db_audit db @ es"
    by (simp add: log_run_def log_event_def)
  ultimately have "run_status run = LOCKED \<Longrightarrow> ?thesis"
    using Inr by (simp add: mark_paid_def Let_def)
      (rule run_change_update [where run = run and run' = ?run' and c = c]; simp add: run_key_def)
  moreover have "run_status run \<noteq> LOCKED \<Longrightarrow> ?thesis"
    using Inr by (simp add: mark_paid_def run_change_same)
  ultimately show ?thesis by blast
qed (simp add: mark_paid_def run_change_same)

text \<open>The actor of a checked operation, on a tenant that enforces dual control.\<close>

definition dual_control :: "payroll_db \<Rightarrow> uuid option \<Rightarrow> payroll_run \<Rightarrow> bool" where
  "dual_control db u run \<longleftrightarrow>
     (\<forall>x. u = Some x \<longrightarrow> is_maker_checker_enforced (run_company_id run) db = Inr True \<longrightarrow>
        x \<notin> set (maker_ids_for_run run))"

lemma check_dual_control:
  "check_maker_checker run u r a db = (Inr b, db1) \<Longrightarrow> dual_control db u run"
  unfolding dual_control_def using check_maker_checker_passed by blast

lemma approve_change:
  "run_change rid (\<lambda>run run'. run_status run \<in> set (PENDING_APPROVAL # (if legacy then [DRAFT, VALIDATED, PROCESSED] else []))
       \<and> dual_control db u run
       \<and> run' = run\<lparr> run_status := APPROVED, run_approved_by := u, run_approved_at := Some now, run_comments := cm \<rparr>) db
     (snd (approve_run rid cm u r legacy c now db))" (is "run_change rid ?R db _")
proof (cases "get_run rid c db")
  case (Inr run)
  let ?run' = "run\<lparr> run_status := APPROVED, run_approved_by := u, run_approved_at := Some now, run_comments := cm \<rparr>"
  obtain res db1 where k: "check_maker_checker run u r ''APPROVE'' db = (res, db1)" by fastforce
  note fr = check_maker_checker_frame [OF k]
  obtain es where es: "db_audit db1 = db_audit db @ es" using fr(1) by blast
  show ?thesis
  proof (cases "run_status run \<in> set (PENDING_APPROVAL # (if legacy then [DRAFT, VALIDATED, PROCESSED] else [])) \<and> isl res = False")
    case True
    then obtain b where b: "res = Inr b" by (cases res) auto
    have eq: "snd (approve_run rid cm u r legacy c now db) =
      log_run run ''APPROVE'' u r APPROVED (Some (or_str cm ''Approved payroll run''))
        (update_run rid (\<lambda>_. ?run') db1)"
      using True Inr k b by (simp add: approve_run_def Let_def del: set_simps)
    show ?thesis unfolding eq
    proof (rule run_change_assign [OF Inr _ _ _ es fr(2-5)])
      show "?R run ?run'" using True check_dual_control [OF k [unfolded b]] by blast
    qed (simp_all add: run_key_def)
  next
    case False
    then have "snd (approve_run rid cm u r legacy c now db) = db \<or> snd (approve_run rid cm u r legacy c now db) = db1"
      using Inr k by (cases res) (auto simp: approve_run_def)
    then show ?thesis using fr by (auto intro!: run_change_same)
  qed
qed (simp add: approve_run_def run_change_same)

lemma finalize_change:
  "run_change rid (\<lambda>run run'.
       run_status run \<in> set (if legacy then [APPROVED, PROCESSED, DRAFT, VALIDATED, PENDING_APPROVAL] else [APPROVED])
       \<and> dual_control db u run
       \<and> run' = run\<lparr> run_status := (if legacy then FINALIZED else if lck then LOCKED else APPROVED),
                     run_is_locked := lck, run_finalized_by := u, run_finalized_at := Some now, run_notes := notes \<rparr>) db
     (snd (finalize_run rid notes lck u r legacy c now db))" (is "run_change rid ?R db _")
proof (cases "get_run rid c db")
  case (Inr run)
  let ?run' = "run\<lparr> run_status := (if legacy then FINALIZED else if lck then LOCKED else APPROVED),
     run_is_locked := lck, run_finalized_by := u, run_finalized_at := Some now, run_notes := notes \<rparr>"
  let ?a = "if legacy then ''FINALIZE'' else ''LOCK''"
  let ?S = "set (if legacy then [APPROVED, PROCESSED, DRAFT, VALIDATED, PENDING_APPROVAL] else [APPROVED])"
  obtain res db1 where k: "check_maker_checker run u r ?a db = (res, db1)" by fastforce
  note fr = check_maker_checker_frame [OF k]
  obtain es where es: "db_audit db1 = db_audit db @ es" using fr(1) by blast
  show ?thesis
  proof (cases "run_status run \<in> ?S \<and> isl res = False")
    case True
    then obtain b where b: "res = Inr b" by (cases res) auto
    have eq: "snd (finalize_run rid notes lck u r legacy c now db) =
      log_run run ?a u r (if legacy then FINALIZED else if lck then LOCKED else APPROVED)
        (Some (or_str notes ''Finalized payroll run''))
        (update_run rid (\<lambda>_. ?run') db1)"
      using True Inr k b unfolding finalize_run_def Let_def by (simp only: sum.case prod.case if_False not_not snd_conv not_True_eq_False)
    show ?thesis unfolding eq
    proof (rule run_change_assign [OF Inr _ _ _ es fr(2-5)])
      show "?R run ?run'" using True check_dual_control [OF k [unfolded b]] by blast
    qed (simp_all add: run_key_def)
  next
    case False
    then have "snd (finalize_run rid notes lck u r legacy c now db) = db \<or>
      snd (finalize_run rid notes lck u r legacy c now db) = db1"
      using Inr k unfolding finalize_run_def Let_def by (cases res) auto
    then show ?thesis using fr by (auto intro!: run_change_same)
  qed
qed (simp add: finalize_run_def run_change_same)

lemma reject_change:
  "run_change rid (\<lambda>run run'. \<not> closed_status (run_status run) \<and>
       run' = run\<lparr> run_status := REJECTED, run_rejected_by := u, run_rejected_at := Some now,
                   run_rejection_reason := Some reason, run_comments := cm \<rparr>) db
     (snd (reject_run rid reason cm u r now db))"
proof (cases "get_run rid None db")
  case (Inr run)
  show ?thesis
  proof (cases "closed_status (run_status run)")
    case False
    then show ?thesis using Inr
      by (simp add: reject_run_def Let_def)
        (rule run_change_assign [where es = "[]" and db = db]; simp add: run_key_def)
  qed (simp add: reject_run_def Inr run_change_same)
qed (simp add: reject_run_def run_change_same)

lemma cancel_change:
  "run_change rid (\<lambda>run run'. \<not> closed_status (run_status run) \<and> run' = run\<lparr> run_status := CANCELLED \<rparr>) db
     (snd (cancel_run rid u r db))"
proof (cases "get_run rid None db")
  case (Inr run)
  show ?thesis
  proof (cases "closed_status (run_status run)")
    case False
    then show ?thesis using Inr
      by (simp add: cancel_run_def Let_def)
        (rule run_change_assign [where es = "[]" and db = db]; simp add: run_key_def)
  qed (simp add: cancel_run_def Inr run_change_same)
qed (simp add: cancel_run_def run_change_same)

lemma send_back_change:
  "run_change rid (\<lambda>run run'. \<not> closed_status (run_status run) \<and>
       run' = run\<lparr> run_status := DRAFT, run_sent_back_by := u, run_sent_back_at := Some now,
                   run_sent_back_reason := reason, run_comments := cm \<rparr>) db
     (snd (send_back_run rid reason cm u r now db))"
proof (cases "get_run rid None db")
  case (Inr run)
  show ?thesis
  proof (cases "closed_status (run_status run)")
    case False
    then show ?thesis using Inr
      by (simp add: send_back_run_def Let_def)
        (rule run_change_assign [where es = "[]" and db = db]; simp add: run_key_def)
  qed (simp add: send_back_run_def Inr run_change_same)
qed (simp add: send_back_run_def run_change_same)

lemma validate_change:
  "run_change rid (\<lambda>run run'. \<exists>issues. run' = run\<lparr> run_validation_status := (if issues \<noteq> [] then ''WARNING'' else ''VALID''),
       run_validation_errors := issues,
       run_status := (if run_status run = DRAFT then VALIDATED else run_status run) \<rparr>) db
     (snd (validate_run rid db))"
proof (cases "get_run rid None db")
  case (Inr run)
  show ?thesis
  proof (cases "collect_issues (run_employees_of run db) db")
    case iss: (Inr issues)
    let ?run' = "run\<lparr> run_validation_status := (if issues \<noteq> [] then ''WARNING'' else ''VALID''),
       run_validation_errors := issues,
       run_status := (if run_status run = DRAFT then VALIDATED else run_status run) \<rparr>"
    have "run_id ?run' = rid" using get_run_Inr [OF Inr] by simp
    moreover have "snd (validate_run rid db) = update_run rid (\<lambda>_. ?run') db"
      using Inr iss by (simp add: validate_run_def Let_def)
    ultimately show ?thesis
      by (simp only:) (rule run_change_update [OF Inr]; (rule exI [of _ issues])?; simp add: run_key_def)
  qed (simp add: validate_run_def Inr run_change_same)
qed (simp add: validate_run_def run_change_same)

text \<open>The relation of the engine: left in PROCESSING or finished.\<close>

definition executed :: "uuid option \<Rightarrow> payroll_run \<Rightarrow> payroll_run \<Rightarrow> bool" where
  "executed u run run' \<longleftrightarrow>
     run_status run = VALIDATED \<and> (run' = processing u run \<or> (\<exists>ls base. run' = finish_run (processing u run) ls base))"

lemma run_key_processing [simp]: "run_key (processing u run) = run_key run"
  by (simp add: run_key_def processing_def split: option.splits)

lemma run_key_finish [simp]: "run_key (finish_run run ls base) = run_key run"
  by (simp add: run_key_def finish_run_def Let_def)

lemma executed_sel:
  "executed u run run' \<Longrightarrow> run_id run' = run_id run \<and> run_key run' = run_key run \<and>
     run_status run = VALIDATED \<and> run_status run' \<in> {PROCESSING, PROCESSED}"
  unfolding executed_def by (elim conjE disjE exE; simp)

lemma charge_loans_configs:
  "charge_loans run ls db = Inr (t, db') \<Longrightarrow> db_configs db' = db_configs db"
proof (induction ls arbitrary: db t)
  case (Cons l ls)
  then obtain a db1 b where a: "charge_loan run l db = Inr (a, db1)" and b: "charge_loans run ls db1 = Inr (b, db')"
    by (auto simp: bind_res_Inr_iff)
  have "db_configs db1 = db_configs db"
    using charge_loan_cases [OF a] by (auto simp: apply_charge_def)
  then show ?case using Cons.IH [OF b] by simp
qed simp

lemma process_employee_configs:
  assumes "process_employee env run emp db = Inr (l, db')"
  shows "db_configs db' = db_configs db"
proof -
  obtain src advance db1 ea pf decl ch db2 db3 where c:
    "advance_deduction_for_employee run (em_id emp) db = Inr (advance, db1)"
    "employee_earnings (env_formula env) (env_components env) src (variable_inputs_of run (em_id emp) db)
       (ledger_arrears (env_arrears env) (em_id emp)) (env_currency env) (env_rate env) = Inr ea"
    "employee_charges env run emp ea decl pf db1 = Inr ch"
    "ln_run l = run" "ln_employee l = emp" "ln_earnings l = ea" "ln_charges l = ch" "ln_advance l = advance"
    "db2 = db1 \<or> db2 = remember_ytd run (em_id emp) decl (ch_tds ch) db1"
    "save_run_employee l db2 = Inr db3" "save_payslip l db3 = Inr db'"
    using assms by (rule process_employee_cases)
  have "db_configs db1 = db_configs db"
    using c(1) unfolding advance_deduction_for_employee_def by (rule charge_loans_configs)
  moreover have "db_configs db2 = db_configs db1"
    using c(9) by (auto simp: remember_ytd_def split: option.splits)
  moreover have "db_configs db3 = db_configs db2" using save_run_employee_cases [OF c(10)] by auto
  moreover have "db_configs db' = db_configs db3" using save_payslip_cases [OF c(11)] by auto
  ultimately show ?thesis by simp
qed

lemma process_employees_configs:
  "process_employees env run es db = Inr (ls, db') \<Longrightarrow> db_configs db' = db_configs db"
  by (induction es arbitrary: db ls)
    (auto simp: bind_res_Inr_iff dest!: process_employee_configs)

lemma calculate_run_configs:
  assumes "calculate_run fe run now today db = Inr (run', db')"
  shows "db_configs db' = db_configs db"
proof -
  obtain env ls db2 where p: "process_employees env run (run_employees_of run db) (snd (pending_for_run run db)) = Inr (ls, db2)"
    and db': "db' = update_run (run_id run) (\<lambda>_. run')
       (mark_applied (fst (pending_for_run run db)) (run_id run) now db2)"
    using assms unfolding calculate_run_def Let_def
    by (auto simp only: bind_res_Inr_iff prod.case split_paired_Ex prod.inject sum.inject)
  show ?thesis using process_employees_configs [OF p]
    by (simp add: db' mark_applied_def pending_for_run_def Let_def)
qed

lemma execute_configs: "db_configs (snd (execute_run_calculation fe rid u c now today db)) = db_configs db"
proof (cases "get_run rid c db")
  case (Inr run)
  show ?thesis
  proof (cases "calculate_run fe (processing u run) now today (update_run rid (\<lambda>_. processing u run) db)")
    case (Inr p)
    then show ?thesis using \<open>get_run rid c db = Inr run\<close> calculate_run_configs
      by (cases p) (fastforce simp: execute_run_calculation_def Let_def)
  qed (simp add: execute_run_calculation_def Let_def \<open>get_run rid c db = Inr run\<close>)
qed (simp add: execute_run_calculation_def)

lemma execute_change:
  "run_change rid (executed u) db (snd (execute_run_calculation fe rid u c now today db))"
proof -
  obtain res db' where e: "execute_run_calculation fe rid u c now today db = (res, db')" by fastforce
  have conf: "db_configs db' = db_configs db"
    using execute_configs [of fe rid u c now today db] by (simp add: e)
  from e show ?thesis
  proof (cases rule: execute_effect)
    case (failed run x)
    then have i: "run_id run = rid" using get_run_Inr by blast
    show ?thesis unfolding e snd_conv
    proof (rule run_change_update [OF failed(1), where run' = "processing u run"])
      show "executed u run (processing u run)" using failed(2) by (simp add: executed_def)
    qed (simp_all add: failed(4) i)
  next
    case (finished run run' ls base)
    show ?thesis unfolding e snd_conv
    proof (rule run_change_update [OF finished(1), where run' = run'])
      show "executed u run run'" unfolding executed_def using finished(2,4) by blast
      show "\<exists>es. db_audit db' = db_audit db @ es" using finished(6) by simp
    qed (use finished conf in simp_all)
  qed (simp add: e run_change_same)
qed

definition retried :: "uuid option \<Rightarrow> payroll_run \<Rightarrow> payroll_run \<Rightarrow> bool" where
  "retried u run run' \<longleftrightarrow>
     run' = run\<lparr> run_status := VALIDATED \<rparr> \<or> executed u (run\<lparr> run_status := VALIDATED \<rparr>) run'"

lemma run_key_status [simp]: "run_key (run\<lparr> run_status := s \<rparr>) = run_key run"
  by (simp add: run_key_def)

lemma retried_sel:
  "retried u run run' \<Longrightarrow> run_id run' = run_id run \<and> run_key run' = run_key run \<and>
     run_status run' \<in> {VALIDATED, PROCESSING, PROCESSED}"
  unfolding retried_def using executed_sel by fastforce

lemma get_run_at:
  assumes "get_run rid c db = Inr run"
  shows "run \<in> set (runs_at rid db)" "c = None \<Longrightarrow> runs_at rid db = [run]"
proof -
  show "run \<in> set (runs_at rid db)" using get_run_Inr [OF assms] by (simp add: runs_at_def)
  assume "c = None"
  obtain found where o: "scalar_one_or_none (runs_at rid db) = Inr found"
    using assms \<open>c = None\<close> by (auto simp: get_run_def runs_at_def bind_res_Inr_iff)
  then have "found = Some run" using assms \<open>c = None\<close> by (cases found) (simp_all add: get_run_def runs_at_def)
  then show "runs_at rid db = [run]" using o by (simp only: scalar_one_or_none_Inr_Some)
qed

lemma update_run_twice:
  "run_id a = rid \<Longrightarrow> db_runs d = db_runs (update_run rid (\<lambda>_. a) db) \<Longrightarrow>
     db_runs (update_run rid (\<lambda>_. b) d) = db_runs (update_run rid (\<lambda>_. b) db)"
  by (simp add: update_run_def update_where_def comp_def if_distrib cong: if_cong)

lemma retry_change: "run_change rid (retried u) db (snd (retry_run fe rid u r now today db))"
proof (cases "get_run rid None db")
  case (Inr run)
  let ?run1 = "run\<lparr> run_status := VALIDATED \<rparr>"
  let ?db1 = "log_run run ''RETRY'' u r VALIDATED None (update_run rid (\<lambda>_. ?run1) db)"
  let ?db2 = "snd (execute_run_calculation fe rid u None now today ?db1)"
  have i: "run_id run = rid" "run_id ?run1 = rid" using get_run_Inr [OF Inr] by simp_all
  have at: "runs_at rid ?db1 = [?run1]"
    using get_run_at(2) [OF Inr] i by (simp add: runs_at_def [of _ "log_run _ _ _ _ _ _ _"])
      (simp add: runs_at_update_run [unfolded runs_at_def] runs_at_def)
  have e: "snd (retry_run fe rid u r now today db) = ?db2" using Inr by (simp add: retry_run_def Let_def)
  have ch: "run_change rid (executed u) ?db1 ?db2" by (rule execute_change)
  obtain es es' where a: "db_audit ?db1 = db_audit db @ es" "db_audit ?db2 = db_audit ?db1 @ es'"
    using ch by (auto simp: run_change_def log_run_def log_event_def)
  have part: "run_part k ?db2 = run_part k db" if "k \<noteq> rid" for k
  proof -
    have "run_part k ?db2 = run_part k ?db1" using ch that by (simp add: run_change_def)
    then show ?thesis using that i by simp
  qed
  have conf: "db_configs ?db2 = db_configs db" by (simp add: execute_configs)
  have aud: "\<exists>es. db_audit ?db2 = db_audit db @ es" using a by simp
  have "db_runs ?db2 = db_runs ?db1 \<or> (\<exists>run'. executed u ?run1 run' \<and> db_runs ?db2 = db_runs (update_run rid (\<lambda>_. run') ?db1))"
  proof -
    have "x = ?run1" if "x \<in> set (db_runs ?db1)" "run_id x = rid" for x
    proof -
      have "x \<in> set (runs_at rid ?db1)" using that by (simp add: runs_at_def)
      then show ?thesis by (simp add: at)
    qed
    then show ?thesis using ch unfolding run_change_def by blast
  qed
  then obtain run' where "retried u run run'" "db_runs ?db2 = db_runs (update_run rid (\<lambda>_. run') db)"
  proof (elim disjE exE conjE)
    assume "db_runs ?db2 = db_runs ?db1"
    then show ?thesis using that [of ?run1] by (simp add: retried_def)
  next
    fix run' assume "executed u ?run1 run'" "db_runs ?db2 = db_runs (update_run rid (\<lambda>_. run') ?db1)"
    then show ?thesis using that [of run'] update_run_twice [OF i(2), of ?db1 db run']
      by (simp add: retried_def)
  qed
  then show ?thesis unfolding e
    using run_change_update [OF Inr, of "retried u" run' ?db2] retried_sel conf aud part by blast
qed (simp add: retry_run_def run_change_same)

section \<open>Interfaces\<close>

text \<open>
  An operation on the runs of the database: identifiers and keys stay distinct, the audit log only
  grows, and every row afterwards is an old one, one that the operation created, or the successor
  of an old one.
\<close>

locale run_operation =
  fixes effect :: "payroll_db \<Rightarrow> payroll_db"
    and born :: "payroll_db \<Rightarrow> payroll_run \<Rightarrow> bool"
    and rel :: "payroll_db \<Rightarrow> payroll_run \<Rightarrow> payroll_run \<Rightarrow> bool"
  assumes wf: "runs_wf db \<Longrightarrow> runs_wf (effect db)"
    and audit_grows: "\<exists>es. db_audit (effect db) = db_audit db @ es"
    and configs: "db_configs (effect db) = db_configs db"
    and rows: "r' \<in> set (db_runs (effect db)) \<Longrightarrow>
      r' \<in> set (db_runs db) \<or> born db r' \<or>
      (\<exists>r \<in> set (db_runs db). rel db r r' \<and> run_id r' = run_id r \<and> run_key r' = run_key r)"
begin

lemma row_invariant:
  assumes "\<And>r. born db r \<Longrightarrow> P r"
    "\<And>r r'. rel db r r' \<Longrightarrow> run_key r' = run_key r \<Longrightarrow> P r \<Longrightarrow> P r'"
    "\<forall>r \<in> set (db_runs db). P r"
  shows "\<forall>r \<in> set (db_runs (effect db)). P r"
  using assms rows by blast

end

text \<open>A handler of one run is such an operation, and it leaves the other runs alone.\<close>

locale run_handler =
  fixes effect :: "payroll_db \<Rightarrow> payroll_db" and rid :: uuid
    and rel :: "payroll_db \<Rightarrow> payroll_run \<Rightarrow> payroll_run \<Rightarrow> bool"
  assumes change: "run_change rid (rel db) db (effect db)"
begin

lemma isolated: "k \<noteq> rid \<Longrightarrow> run_part k (effect db) = run_part k db"
  using change [of db] by (simp add: run_change_def)

lemma update_wf:
  assumes "runs_wf db" "r \<in> set (db_runs db)" "run_id r = rid" "run_id r' = rid" "run_key r' = run_key r"
  shows "runs_wf (update_run rid (\<lambda>_. r') db)"
proof -
  have "run_key (if run_id x = rid then r' else x) = run_key x" if "x \<in> set (db_runs db)" for x
    using assms that unfolding runs_wf_def distinct_map by (auto dest: inj_onD)
  then have "map run_key (update_where (\<lambda>x. run_id x = rid) (\<lambda>_. r') (db_runs db)) = map run_key (db_runs db)"
    by (simp add: update_where_def)
  moreover have "map run_id (update_where (\<lambda>x. run_id x = rid) (\<lambda>_. r') (db_runs db)) = map run_id (db_runs db)"
    using assms(4) by (simp add: update_where_def)
  ultimately show ?thesis using assms(1) by (simp add: runs_wf_def update_run_def)
qed

end

sublocale run_handler \<subseteq> run_operation effect "\<lambda>_ _. False" rel
proof
  fix db
  consider (same) "db_runs (effect db) = db_runs db"
    | (new) r r' where "r \<in> set (db_runs db)" "run_id r = rid" "rel db r r'" "run_id r' = rid"
        "run_key r' = run_key r" "db_runs (effect db) = db_runs (update_run rid (\<lambda>_. r') db)"
    using change [of db] unfolding run_change_def by blast
  note ch = this
  show "runs_wf (effect db)" if "runs_wf db"
    using that update_wf [OF that] by (cases rule: ch) (simp_all add: runs_wf_def)
  show "\<exists>es. db_audit (effect db) = db_audit db @ es" "db_configs (effect db) = db_configs db"
    using change [of db] by (simp_all add: run_change_def)
  show "x \<in> set (db_runs db) \<or> False \<or> (\<exists>r \<in> set (db_runs db). rel db r x \<and> run_id x = run_id r \<and> run_key x = run_key r)"
    if "x \<in> set (db_runs (effect db))" for x
  proof (cases rule: ch)
    case (new r r')
    have "x \<in> insert r' (set (db_runs db))"
      using that by (auto simp: new(6) update_run_def in_set_update_where split: if_splits)
    then show ?thesis using new by force
  qed (use that in simp)
qed

context run_handler
begin

lemma operation: "run_operation effect (\<lambda>_ _. False) rel"
  by unfold_locales

end

section \<open>The handlers as operations\<close>

interpretation submission: run_handler "\<lambda>db. snd (submit_for_approval rid u r c db)" rid
    "\<lambda>_ run run'. run_status run = PROCESSED \<and> run' = run\<lparr> run_status := PENDING_APPROVAL \<rparr>"
  for rid u r c by unfold_locales (rule submit_change)

interpretation payment: run_handler "\<lambda>db. snd (mark_paid rid u r c now db)" rid
    "\<lambda>_ run run'. run_status run = LOCKED \<and> run' = run\<lparr> run_status := PAID, run_paid_at := Some now \<rparr>"
  for rid u r c now by unfold_locales (rule mark_paid_change)

text \<open>What each request may do to the row of its run.\<close>

fun step_rel :: "run_request \<Rightarrow> payroll_db \<Rightarrow> payroll_run \<Rightarrow> payroll_run \<Rightarrow> bool" where
  "step_rel (OpCreate rq now) db run run' = False"
| "step_rel (OpValidate rid) db run run' =
     (\<exists>issues. run' = run\<lparr> run_validation_status := (if issues \<noteq> [] then ''WARNING'' else ''VALID''),
        run_validation_errors := issues,
        run_status := (if run_status run = DRAFT then VALIDATED else run_status run) \<rparr>)"
| "step_rel (OpExecute rid u c now today) db run run' = executed u run run'"
| "step_rel (OpSubmit rid u r c) db run run' =
     (run_status run = PROCESSED \<and> run' = run\<lparr> run_status := PENDING_APPROVAL \<rparr>)"
| "step_rel (OpApprove rid cm u r legacy c now) db run run' =
     (run_status run \<in> set (PENDING_APPROVAL # (if legacy then [DRAFT, VALIDATED, PROCESSED] else []))
       \<and> dual_control db u run
       \<and> run' = run\<lparr> run_status := APPROVED, run_approved_by := u, run_approved_at := Some now, run_comments := cm \<rparr>)"
| "step_rel (OpFinalize rid notes lck u r legacy c now) db run run' =
     (run_status run \<in> set (if legacy then [APPROVED, PROCESSED, DRAFT, VALIDATED, PENDING_APPROVAL] else [APPROVED])
       \<and> dual_control db u run
       \<and> run' = run\<lparr> run_status := (if legacy then FINALIZED else if lck then LOCKED else APPROVED),
                     run_is_locked := lck, run_finalized_by := u, run_finalized_at := Some now, run_notes := notes \<rparr>)"
| "step_rel (OpMarkPaid rid u r c now) db run run' =
     (run_status run = LOCKED \<and> run' = run\<lparr> run_status := PAID, run_paid_at := Some now \<rparr>)"
| "step_rel (OpReject rid reason cm u r now) db run run' =
     (\<not> closed_status (run_status run) \<and>
       run' = run\<lparr> run_status := REJECTED, run_rejected_by := u, run_rejected_at := Some now,
                   run_rejection_reason := Some reason, run_comments := cm \<rparr>)"
| "step_rel (OpCancel rid u r) db run run' =
     (\<not> closed_status (run_status run) \<and> run' = run\<lparr> run_status := CANCELLED \<rparr>)"
| "step_rel (OpSendBack rid reason cm u r now) db run run' =
     (\<not> closed_status (run_status run) \<and>
       run' = run\<lparr> run_status := DRAFT, run_sent_back_by := u, run_sent_back_at := Some now,
                   run_sent_back_reason := reason, run_comments := cm \<rparr>)"
| "step_rel (OpRetry rid u r now today) db run run' = retried u run run'"
| "step_rel (OpDelete rid) db run run' = False"

text \<open>The row that a creation adds: new identifier, DRAFT or already validated.\<close>

definition fresh_run :: "payroll_db \<Rightarrow> payroll_run \<Rightarrow> bool" where
  "fresh_run db run \<longleftrightarrow> run_id run \<notin> run_id ` set (db_runs db) \<and> run_status run \<in> {DRAFT, VALIDATED}"

lemma run_operation_weaken:
  assumes "run_operation effect b rel" "\<And>db r. b db r \<Longrightarrow> b' db r"
  shows "run_operation effect b' rel"
  using assms unfolding run_operation_def by meson

lemma handler_operation:
  assumes "\<And>db. run_change rid (rel db) db (effect db)"
  shows "run_operation effect b rel"
  by (rule run_operation_weaken [OF run_handler.operation, of effect rid rel])
    (use assms in \<open>simp_all add: run_handler_def\<close>)

lemma delete_operation: "run_operation (\<lambda>db. snd (delete_run rid db)) b rel"
proof
  fix db
  have c: "db_runs (snd (delete_run rid db)) = db_runs db \<or>
      db_runs (snd (delete_run rid db)) = filter (\<lambda>r. run_id r \<noteq> rid) (db_runs db)"
    "db_audit (snd (delete_run rid db)) = db_audit db" "db_configs (snd (delete_run rid db)) = db_configs db"
    by (auto simp: delete_run_def cascade_run_frame split: sum.splits if_splits)
  show "runs_wf (snd (delete_run rid db))" if "runs_wf db"
    using that c(1) by (auto simp: runs_wf_def distinct_map_filter)
  show "\<exists>es. db_audit (snd (delete_run rid db)) = db_audit db @ es" using c(2) by simp
  show "db_configs (snd (delete_run rid db)) = db_configs db" by (rule c(3))
  show "x \<in> set (db_runs db) \<or> b db x \<or> (\<exists>r \<in> set (db_runs db). rel db r x \<and> run_id x = run_id r \<and> run_key x = run_key r)"
    if "x \<in> set (db_runs (snd (delete_run rid db)))" for x
    using that c(1) by (metis filter_is_subset subsetD)
qed

text \<open>
  A creation adds at most one row, with a new identifier and a new key. The validation that follows
  may fail, which leaves the row without its audit entry.
\<close>

lemma same_run_key_iff: "same_run_key a b \<longleftrightarrow> run_key a = run_key b"
  by (auto simp: same_run_key_def run_key_def)

lemma new_run_sel [simp]:
  "run_id (new_run rq period c l terms i) = i" "run_status (new_run rq period c l terms i) = DRAFT"
  by (auto simp: new_run_def split: prod.splits)

lemma branch_snd:
  "\<lbrakk>a \<Longrightarrow> P (snd x); \<not> a \<Longrightarrow> P (snd y)\<rbrakk> \<Longrightarrow> P (snd (if a then x else y))"
  "\<lbrakk>\<And>e. r = Inl e \<Longrightarrow> P (snd (f e)); \<And>v. r = Inr v \<Longrightarrow> P (snd (g v))\<rbrakk> \<Longrightarrow>
     P (snd (case r of Inl e \<Rightarrow> f e | Inr v \<Rightarrow> g v))"
  "\<lbrakk>v = None \<Longrightarrow> P (snd x); \<And>w. v = Some w \<Longrightarrow> P (snd (h w))\<rbrakk> \<Longrightarrow>
     P (snd (case v of None \<Rightarrow> x | Some w \<Rightarrow> h w))"
  by (simp_all split: sum.split option.split)

lemma validate_rows:
  "db_run_employees (snd (validate_run rid db)) = db_run_employees db"
  "db_payslips (snd (validate_run rid db)) = db_payslips db"
  by (simp_all add: validate_run_def Let_def split: sum.split)

text \<open>Validating the row that was just added changes only that row.\<close>

lemma validate_new_row:
  assumes "validate_run (run_id run) db = (res, d)" "run_id run \<notin> run_id ` set rs" "db_runs db = rs @ [run]"
    "run_status run = DRAFT"
  shows "\<exists>run'. db_runs d = rs @ [run'] \<and> run_id run' = run_id run \<and> run_key run' = run_key run \<and>
    run_status run' \<in> {DRAFT, VALIDATED}"
proof -
  have u: "db_runs (update_run (run_id run) (\<lambda>_. r') db) = rs @ [r']" for r'
    using assms(2,3) by (auto simp: update_run_def update_where_def image_iff intro!: map_idI)
  have eq: "x = run" if "x \<in> set (db_runs db)" "run_id x = run_id run" for x
    using that assms(2,3) by (auto simp: image_iff)
  consider "db_runs d = db_runs db"
    | run' issues where "run_id run' = run_id run" "run_key run' = run_key run"
        "run' = run\<lparr> run_validation_status := (if issues \<noteq> [] then ''WARNING'' else ''VALID''),
           run_validation_errors := issues,
           run_status := (if run_status run = DRAFT then VALIDATED else run_status run) \<rparr>"
        "db_runs d = db_runs (update_run (run_id run) (\<lambda>_. run') db)"
    using validate_change [of "run_id run" db] eq unfolding run_change_def assms(1) snd_conv by metis
  then show ?thesis
  proof cases
    case 1
    then show ?thesis using assms(3,4) by auto
  next
    case (2 run' issues)
    then show ?thesis using u assms(4) by auto
  qed
qed

lemma create_effect:
  obtains (nothing) "snd (create_run rq now db) = db"
    | (added) run es where "run_id run \<notin> run_id ` set (db_runs db)" "run_key run \<notin> run_key ` set (db_runs db)"
      "run_status run \<in> {DRAFT, VALIDATED}" "db_runs (snd (create_run rq now db)) = db_runs db @ [run]"
      "db_audit (snd (create_run rq now db)) = db_audit db @ es"
      "db_configs (snd (create_run rq now db)) = db_configs db"
      "db_run_employees (snd (create_run rq now db)) = db_run_employees db"
      "db_payslips (snd (create_run rq now db)) = db_payslips db"
proof -
  let ?added = "\<lambda>d run es. run_id run \<notin> run_id ` set (db_runs db) \<and> run_key run \<notin> run_key ` set (db_runs db) \<and>
    run_status run \<in> {DRAFT, VALIDATED} \<and> db_runs d = db_runs db @ [run] \<and> db_audit d = db_audit db @ es \<and>
    db_configs d = db_configs db \<and> db_run_employees d = db_run_employees db \<and> db_payslips d = db_payslips db"
  define Q where "Q d \<longleftrightarrow> d = db \<or> (\<exists>run es. ?added d run es)" for d
  have "Q (snd (create_run rq now db))"
    unfolding create_run_def Let_def
  proof (intro branch_snd [where P = Q])
    fix period terms l c
    let ?i = "fresh_id (map run_id (db_runs db))"
    let ?run = "new_run rq period l c terms ?i"
    let ?db1 = "db\<lparr> db_runs := db_runs db @ [?run] \<rparr>"
    let ?db2 = "log_event ''PayrollRun'' (Some (run_id ?run)) ''CREATE'' (run_company_id ?run) (rq_user_id rq)
                   (rq_user_role rq) None (Some ''DRAFT'') (Some ''Created payroll run'') ?db1"
    assume "\<not> list_ex (same_run_key ?run) (db_runs db)"
    then have key: "run_key ?run \<notin> run_key ` set (db_runs db)" by (auto simp: same_run_key_iff list_ex_iff)
    have id: "run_id ?run \<notin> run_id ` set (db_runs db)" using fresh_id_notin [of "map run_id (db_runs db)"] by simp
    have one: "Q ?db1" unfolding Q_def using key id by (intro disjI2 exI [of _ ?run] exI [of _ "[]"]) simp
    obtain res d where v: "validate_run (run_id ?run) ?db2 = (res, d)" by fastforce
    note ch = validate_change [of "run_id ?run" ?db2, unfolded v snd_conv]
    obtain es where es: "db_audit d = db_audit ?db2 @ es" using ch unfolding run_change_def by blast
    have cf: "db_configs d = db_configs ?db2" using ch unfolding run_change_def by blast
    note rows = validate_rows [of "run_id ?run" ?db2, unfolded v snd_conv]
    obtain run' where r: "db_runs d = db_runs db @ [run']" "run_id run' = run_id ?run" "run_key run' = run_key ?run"
      "run_status run' \<in> {DRAFT, VALIDATED}"
      using validate_new_row [OF v id] by auto
    have "Q d" unfolding Q_def
      using key id es cf rows r
      by (intro disjI2 exI [of _ run'] exI [of _ "[_] @ es"]) (simp add: log_event_def)
    then show "Q (snd (case validate_run (run_id ?run) ?db2 of (Inl e, _) \<Rightarrow> (Inl e, ?db1) | (Inr run', db3) \<Rightarrow> (Inr run', db3)))"
      using one v by (cases res) simp_all
  qed (simp_all add: Q_def)
  then show ?thesis unfolding Q_def
  proof (elim disjE exE conjE)
    assume "snd (create_run rq now db) = db"
    then show ?thesis by (rule nothing)
  qed (rule added)
qed

lemma create_operation: "run_operation (\<lambda>db. snd (create_run rq now db)) fresh_run rel"
proof
  fix db
  show "runs_wf (snd (create_run rq now db))" if w: "runs_wf db"
    by (cases rule: create_effect [of rq now db]) (use w in \<open>auto simp: runs_wf_def\<close>)
  show "\<exists>es. db_audit (snd (create_run rq now db)) = db_audit db @ es"
    by (cases rule: create_effect [of rq now db]) simp_all
  show "db_configs (snd (create_run rq now db)) = db_configs db"
    by (cases rule: create_effect [of rq now db]) simp_all
  show "x \<in> set (db_runs db) \<or> fresh_run db x \<or>
      (\<exists>r \<in> set (db_runs db). rel db r x \<and> run_id x = run_id r \<and> run_key x = run_key r)"
    if "x \<in> set (db_runs (snd (create_run rq now db)))" for x
    by (cases rule: create_effect [of rq now db]) (use that in \<open>auto simp: fresh_run_def\<close>)
qed

lemma run_change_mono:
  "run_change rid R db db' \<Longrightarrow> (\<And>r r'. R r r' \<Longrightarrow> R' r r') \<Longrightarrow> run_change rid R' db db'"
  unfolding run_change_def by blast

lemmas handler_changes =
  validate_change execute_change submit_change approve_change finalize_change mark_paid_change
  reject_change cancel_change send_back_change retry_change

lemma perform_change:
  "op_run a = Some rid \<Longrightarrow> a \<noteq> OpDelete rid \<Longrightarrow> run_change rid (step_rel a db) db (perform fe a db)"
proof (induction a)
  case (OpCreate rq now)
  then show ?case by simp
next
  case (OpDelete k)
  then show ?case by simp
qed (simp only: op_run.simps option.inject perform.simps; hypsubst;
     rule handler_changes [THEN run_change_mono]; simp only: step_rel.simps not_False_eq_True simp_thms)+

lemma perform_operation: "run_operation (perform fe a) fresh_run (step_rel a)"
proof (cases "op_run a")
  case None
  then obtain rq now where "a = OpCreate rq now" by (cases a) auto
  then have "perform fe a = (\<lambda>db. snd (create_run rq now db))" by (intro ext) simp
  then show ?thesis by (simp only: create_operation)
next
  case (Some rid)
  show ?thesis
  proof (cases "a = OpDelete rid")
    case True
    then have "perform fe a = (\<lambda>db. snd (delete_run rid db))" by (intro ext) simp
    then show ?thesis by (simp only: delete_operation)
  next
    case False
    show ?thesis by (rule handler_operation [of rid "step_rel a"]) (rule perform_change [OF Some False])
  qed
qed

interpretation machine: run_operation "perform fe a" fresh_run "step_rel a" for fe a
  by (rule perform_operation)

interpretation well_formed: transition_system "perform fe" runs_wf for fe
  by unfold_locales (rule machine.wf)

section \<open>The abstract life cycle\<close>

text \<open>The statuses that may follow a status, apart from a retry.\<close>

fun lifecycle :: "run_status \<Rightarrow> run_status list" where
  "lifecycle DRAFT = [VALIDATED, APPROVED, FINALIZED, REJECTED, CANCELLED]"
| "lifecycle VALIDATED = [PROCESSING, PROCESSED, APPROVED, FINALIZED, REJECTED, CANCELLED, DRAFT]"
| "lifecycle PROCESSING = [REJECTED, CANCELLED, DRAFT]"
| "lifecycle PROCESSED = [PENDING_APPROVAL, APPROVED, FINALIZED, REJECTED, CANCELLED, DRAFT]"
| "lifecycle PENDING_APPROVAL = [APPROVED, FINALIZED, REJECTED, CANCELLED, DRAFT]"
| "lifecycle APPROVED = [LOCKED, FINALIZED, REJECTED, CANCELLED, DRAFT]"
| "lifecycle LOCKED = [PAID]"
| "lifecycle PAID = []"
| "lifecycle FINALIZED = []"
| "lifecycle REJECTED = [CANCELLED, DRAFT]"
| "lifecycle CANCELLED = [REJECTED, DRAFT]"
| "lifecycle VOID = [REJECTED, CANCELLED, DRAFT]"
| "lifecycle FAILED = [REJECTED, CANCELLED, DRAFT]"

fun is_retry :: "run_request \<Rightarrow> bool" where
  "is_retry (OpRetry rid u r now today) = True"
| "is_retry a = False"

lemma open_lifecycle:
  "\<not> closed_status s \<Longrightarrow> t \<in> {REJECTED, CANCELLED, DRAFT} \<Longrightarrow> s = t \<or> t \<in> set (lifecycle s)"
  by (cases s) (auto simp: closed_status_def)

lemma step_lifecycle:
  assumes "step_rel a db r r'" "\<not> is_retry a"
  shows "run_status r = run_status r' \<or> run_status r' \<in> set (lifecycle (run_status r))"
proof (cases a)
  case (OpExecute rid u c now today)
  then show ?thesis using assms(1) executed_sel [of u r r'] by auto
next
  case (OpApprove rid cm u ro legacy c now)
  then show ?thesis using assms(1) by (auto split: if_splits)
next
  case (OpFinalize rid nts lck u ro legacy c now)
  then show ?thesis using assms(1) by (auto split: if_splits)
qed (use assms open_lifecycle [of "run_status r" "run_status r'"] in auto)

lemma in_runs_at: "r \<in> set (runs_at k db) \<longleftrightarrow> r \<in> set (db_runs db) \<and> run_id r = k"
  by (auto simp: runs_at_def)

lemma runs_at_cases:
  assumes "runs_wf db"
  shows "runs_at k db = [] \<or> (\<exists>r. runs_at k db = [r])"
proof -
  have "length (filter (\<lambda>r. run_id r = k) xs) \<le> 1" if "distinct (map run_id xs)" for xs
    using that by (induction xs) (auto simp: filter_empty_conv image_iff le_Suc_eq)
  then have "length (runs_at k db) \<le> 1" using assms unfolding runs_at_def runs_wf_def by blast
  then show ?thesis by (cases "runs_at k db") auto
qed

lemma status_of_Some:
  "runs_wf db \<Longrightarrow> status_of k db = Some s \<longleftrightarrow> (\<exists>r. runs_at k db = [r] \<and> run_status r = s)"
  using runs_at_cases [of db k] by (auto simp: status_of_def)

lemma run_unique:
  "runs_wf db \<Longrightarrow> r \<in> set (db_runs db) \<Longrightarrow> r' \<in> set (db_runs db) \<Longrightarrow> run_id r = run_id r' \<Longrightarrow> r = r'"
  unfolding runs_wf_def distinct_map by (blast dest: inj_onD)

text \<open>A step of a run that exists before and after.\<close>

lemma step_of_run:
  assumes "runs_wf db" "runs_at k db = [r]" "runs_at k (perform fe a db) = [r']"
  shows "r' = r \<or> step_rel a db r r'"
proof -
  have r: "r \<in> set (db_runs db)" "run_id r = k" using in_runs_at [of r k db] assms(2) by simp_all
  have r': "r' \<in> set (db_runs (perform fe a db))" "run_id r' = k"
    using in_runs_at [of r' k "perform fe a db"] assms(3) by simp_all
  show ?thesis using machine.rows [OF r'(1)]
  proof (elim disjE bexE conjE)
    assume "r' \<in> set (db_runs db)"
    then show ?thesis using run_unique [OF assms(1) _ r(1)] r r' by simp
  next
    assume "fresh_run db r'"
    then show ?thesis using r r' by (auto simp: fresh_run_def image_iff)
  next
    fix x assume "x \<in> set (db_runs db)" "step_rel a db x r'" "run_id r' = run_id x"
    then show ?thesis using run_unique [OF assms(1) _ r(1), of x] r r' by simp
  qed
qed

section \<open>Properties of the state machine\<close>

text \<open>
  C9: at most one run per company, legal entity and month, whatever is requested. Identifiers and
  keys of the runs stay distinct along every sequence of requests.
\<close>

theorem one_run_per_period:
  assumes "runs_wf db"
  shows "runs_wf (run_trace fe ops db)"
  using well_formed.trace_keeps [OF assms] by (simp add: run_trace_def)

theorem one_run_per_period_witness:
  "runs_wf (run_trace sample_env [OpValidate 1, OpCancel 1 None None, OpDelete 1]
     (empty_db\<lparr> db_runs := [sample_run_row 1 DRAFT] \<rparr>))"
  by (rule one_run_per_period) (simp add: runs_wf_def)

text \<open>
  C5: the handlers implement the abstract life cycle. Every request but a retry either leaves the
  status of a run as it was or moves it along an edge of \<open>lifecycle\<close>; in particular PAID
  and FINALIZED are final, and the only way out of LOCKED is payment.
\<close>

theorem run_lifecycle_refined:
  assumes "runs_wf db" "\<not> is_retry a" "status_of k db = Some s" "status_of k (perform fe a db) = Some t"
  shows "s = t \<or> t \<in> set (lifecycle s)"
proof -
  obtain r where r: "runs_at k db = [r]" "run_status r = s"
    using assms(3) by (auto simp: status_of_Some [OF assms(1)])
  obtain r' where r': "runs_at k (perform fe a db) = [r']" "run_status r' = t"
    using assms(4) by (auto simp: status_of_Some [OF machine.wf [OF assms(1)]])
  show ?thesis using step_of_run [OF assms(1) r(1) r'(1)] step_lifecycle [OF _ assms(2)] r(2) r'(2) by auto
qed

theorem run_lifecycle_refined_witness:
  "LOCKED = PAID \<or> PAID \<in> set (lifecycle LOCKED)"
proof (rule run_lifecycle_refined)
  let ?db = "empty_db\<lparr> db_runs := [sample_run_row 1 LOCKED] \<rparr>"
  show "runs_wf ?db" by (simp add: runs_wf_def)
  show "\<not> is_retry (OpMarkPaid 1 None None None 3)" by simp
  show "status_of 1 ?db = Some LOCKED" by code_simp
  show "status_of 1 (perform sample_env (OpMarkPaid 1 None None None 3) ?db) = Some PAID" by code_simp
qed

text \<open>Approver and locker of a run took no part in making it.\<close>

definition four_eyes :: "uuid \<Rightarrow> payroll_run \<Rightarrow> bool" where
  "four_eyes c r \<longleftrightarrow> run_company_id r = Some c \<longrightarrow>
     (\<forall>x \<in> set (maker_ids_for_run r).
        (run_status r \<in> {APPROVED, LOCKED, PAID} \<longrightarrow> run_approved_by r \<noteq> Some x) \<and>
        (run_status r \<in> {LOCKED, PAID} \<longrightarrow> run_finalized_by r \<noteq> Some x))"

lemma four_eyes_other: "run_status r \<notin> {APPROVED, LOCKED, PAID} \<Longrightarrow> four_eyes c r"
  by (simp add: four_eyes_def)

lemma makers_same: "same_makers r r' \<Longrightarrow> maker_ids_for_run r' = maker_ids_for_run r"
  by (simp add: maker_ids_for_run_def same_makers_def)

lemma company_of_key: "run_key r' = run_key r \<Longrightarrow> run_company_id r' = run_company_id r"
  by (simp add: run_key_def)

lemma dual_control_company:
  "dual_control db u r \<Longrightarrow> is_maker_checker_enforced (Some c) db = Inr True \<Longrightarrow> run_company_id r = Some c
    \<Longrightarrow> x \<in> set (maker_ids_for_run r) \<Longrightarrow> u \<noteq> Some x"
  unfolding dual_control_def by auto

lemma step_four_eyes:
  assumes "step_rel a db r r'" "is_maker_checker_enforced (Some c) db = Inr True" "four_eyes c r"
  shows "four_eyes c r'"
proof (cases a)
  case (OpExecute rid u co now today)
  then have "run_status r' \<notin> {APPROVED, LOCKED, PAID}" using assms(1) executed_sel [of u r r'] by auto
  then show ?thesis by (rule four_eyes_other)
next
  case (OpRetry rid u ro now today)
  then have "run_status r' \<notin> {APPROVED, LOCKED, PAID}" using assms(1) retried_sel [of u r r'] by auto
  then show ?thesis by (rule four_eyes_other)
next
  case (OpApprove rid cm u ro legacy co now)
  then have d: "dual_control db u r" and r': "run_status r' = APPROVED" "run_approved_by r' = u"
    "same_makers r r'" "run_company_id r' = run_company_id r"
    using assms(1) by (auto simp: same_makers_def)
  show ?thesis using dual_control_company [OF d assms(2)] r' makers_same [OF r'(3)] by (simp add: four_eyes_def)
next
  case (OpFinalize rid nts lck u ro legacy co now)
  then have d: "dual_control db u r" and m: "same_makers r r'"
    "run_company_id r' = run_company_id r" "run_finalized_by r' = u" "run_approved_by r' = run_approved_by r"
    and s: "run_status r' = FINALIZED \<or> run_status r = APPROVED"
    using assms(1) by (auto simp: same_makers_def)
  show ?thesis using dual_control_company [OF d assms(2)] m s assms(3) makers_same [OF m(1)] by (auto simp: four_eyes_def)
next
  case (OpMarkPaid rid u ro co now)
  then have "run_status r = LOCKED" "same_makers r r'"
    "run_company_id r' = run_company_id r" "run_finalized_by r' = run_finalized_by r"
    "run_approved_by r' = run_approved_by r"
    using assms(1) by (auto simp: same_makers_def)
  then show ?thesis using assms(3) makers_same [of r r'] by (simp add: four_eyes_def)
next
  case (OpValidate rid)
  then have "run_status r = DRAFT \<or> run_status r' = run_status r" "run_status r = DRAFT \<Longrightarrow> run_status r' = VALIDATED"
    "same_makers r r'"
    "run_company_id r' = run_company_id r" "run_finalized_by r' = run_finalized_by r"
    "run_approved_by r' = run_approved_by r"
    using assms(1) by (auto simp: same_makers_def split: if_split_asm)
  then show ?thesis using assms(3) makers_same [of r r'] by (auto simp: four_eyes_def)
qed (use assms(1) in \<open>auto intro!: four_eyes_other\<close>)

definition supervised :: "uuid \<Rightarrow> payroll_db \<Rightarrow> bool" where
  "supervised c db \<longleftrightarrow>
     is_maker_checker_enforced (Some c) db = Inr True \<and> (\<forall>r \<in> set (db_runs db). four_eyes c r)"

lemma enforced_configs:
  "db_configs a = db_configs b \<Longrightarrow> is_maker_checker_enforced c a = is_maker_checker_enforced c b"
  by (simp add: is_maker_checker_enforced_def split: option.split)

lemma perform_supervised:
  assumes "supervised c db"
  shows "supervised c (perform fe a db)"
proof -
  have e: "is_maker_checker_enforced (Some c) db = Inr True" and r: "\<forall>r \<in> set (db_runs db). four_eyes c r"
    using assms by (simp_all add: supervised_def)
  have "\<forall>r \<in> set (db_runs (perform fe a db)). four_eyes c r"
  proof (rule machine.row_invariant [OF _ _ r])
    show "four_eyes c x" if "fresh_run db x" for x
      using that by (auto simp: fresh_run_def intro: four_eyes_other)
    show "four_eyes c r'" if "step_rel a db r r'" "four_eyes c r" for r r'
      by (rule step_four_eyes [OF that(1) e that(2)])
  qed
  then show ?thesis using e enforced_configs [OF machine.configs] by (simp add: supervised_def)
qed

interpretation supervision: transition_system "perform fe" "supervised c" for fe c
  by unfold_locales (rule perform_supervised)

text \<open>
  C4: segregation of duties. On a tenant that enforces maker-checker, along every sequence of
  requests on its runs, a run that is approved, locked or paid was approved by nobody who created,
  ran or processed it, and one that is locked or paid was locked by none of them either.
\<close>

theorem four_eyes_invariant:
  assumes "is_maker_checker_enforced (Some c) db = Inr True" "\<forall>r \<in> set (db_runs db). four_eyes c r"
    "r \<in> set (db_runs (run_trace fe ops db))" "run_company_id r = Some c" "x \<in> set (maker_ids_for_run r)"
  shows "(run_status r \<in> {APPROVED, LOCKED, PAID} \<longrightarrow> run_approved_by r \<noteq> Some x) \<and>
    (run_status r \<in> {LOCKED, PAID} \<longrightarrow> run_finalized_by r \<noteq> Some x)"
proof -
  have "supervised c (run_trace fe ops db)"
    using supervision.trace_keeps [of c db fe ops] assms(1,2) by (simp add: supervised_def run_trace_def)
  then show ?thesis using assms(3-) by (simp add: supervised_def four_eyes_def)
qed

text \<open>A run made by user 7, approved and locked by user 8; user 7's own attempts are refused.\<close>

definition sample_requests :: "run_request list" where
  "sample_requests =
     [OpSubmit 1 (Some 7) None None, OpApprove 1 None (Some 7) None False None 10,
      OpApprove 1 None (Some 8) None False None 11, OpFinalize 1 None True (Some 7) None False None 12,
      OpFinalize 1 None True (Some 8) None False None 13, OpMarkPaid 1 (Some 7) None None 14]"

definition sample_office :: payroll_db where
  "sample_office = empty_db\<lparr> db_runs := [sample_run_row 1 PROCESSED], db_configs := [default_config 2 (Some 1)] \<rparr>"

lemma sample_requests_run:
  "map (\<lambda>r. (run_id r, run_status r, run_approved_by r, run_finalized_by r))
     (db_runs (run_trace sample_env sample_requests sample_office)) = [(1, PAID, Some 8, Some 8)]"
  by code_simp

theorem four_eyes_invariant_witness:
  "\<exists>r \<in> set (db_runs (run_trace sample_env sample_requests sample_office)).
     run_status r = PAID \<and> run_approved_by r \<noteq> Some 7 \<and> run_finalized_by r \<noteq> Some 7"
proof -
  obtain r where r: "r \<in> set (db_runs (run_trace sample_env sample_requests sample_office))"
    "run_status r = PAID" using sample_requests_run by (auto simp: map_eq_Cons_conv)
  have m: "list_all (\<lambda>r. run_company_id r = Some 1 \<and> 7 \<in> set (maker_ids_for_run r))
    (db_runs (run_trace sample_env sample_requests sample_office))" by code_simp
  have e: "is_maker_checker_enforced (Some 1) sample_office = Inr True" by code_simp
  have "\<forall>r \<in> set (db_runs sample_office). four_eyes 1 r"
    by (simp add: sample_office_def four_eyes_def sample_run_row_def)
  from four_eyes_invariant [OF e this r(1), of 7] show ?thesis
    using r m by (auto simp: list_all_iff)
qed

text \<open>How a run can come into a status beyond DRAFT and VALIDATED.\<close>

lemma delete_isolated: "k \<noteq> rid \<Longrightarrow> run_part k (snd (delete_run rid db)) = run_part k db"
proof -
  assume "k \<noteq> rid"
  then have "filter (\<lambda>r. run_id r \<noteq> rid \<and> run_id r = k) (db_runs db) = filter (\<lambda>r. run_id r = k) (db_runs db)"
    "filter (\<lambda>e. re_run_id e \<noteq> rid \<and> re_run_id e = k) (db_run_employees db) = filter (\<lambda>e. re_run_id e = k) (db_run_employees db)"
    "filter (\<lambda>p. ps_run_id p \<noteq> rid \<and> ps_run_id p = k) (db_payslips db) = filter (\<lambda>p. ps_run_id p = k) (db_payslips db)"
    by (auto intro!: filter_cong)
  then show ?thesis by (simp add: delete_run_def cascade_run_frame run_part_def runs_at_def split: sum.split)
qed

lemma perform_isolated:
  assumes "op_run a = Some rid" "k \<noteq> rid"
  shows "run_part k (perform fe a db) = run_part k db"
proof (cases "a = OpDelete rid")
  case True
  then show ?thesis using delete_isolated [OF assms(2)] by simp
next
  case False
  then show ?thesis using perform_change [OF assms(1) False, of db fe] assms(2) by (simp add: run_change_def)
qed

lemma enter_status:
  assumes "runs_wf db" "status_of k (perform fe a db) = Some t" "t \<notin> {DRAFT, VALIDATED}" "status_of k db \<noteq> Some t"
  obtains r r' where "op_run a = Some k" "runs_at k db = [r]" "run_status r' = t" "step_rel a db r r'"
proof -
  obtain r' where r': "runs_at k (perform fe a db) = [r']" "run_status r' = t"
    using assms(2) by (auto simp: status_of_Some [OF machine.wf [OF assms(1)]])
  then have m: "r' \<in> set (db_runs (perform fe a db))" "run_id r' = k"
    using in_runs_at [of r' k "perform fe a db"] by simp_all
  have old: "r' \<notin> set (db_runs db)"
  proof
    assume "r' \<in> set (db_runs db)"
    then have "r' \<in> set (runs_at k db)" using m(2) by (simp add: in_runs_at)
    then have "runs_at k db = [r']" using runs_at_cases [OF assms(1), of k] by auto
    then show False using assms(4) r'(2) by (simp add: status_of_def)
  qed
  then obtain r where r: "r \<in> set (db_runs db)" "step_rel a db r r'" "run_id r = k"
    using machine.rows [OF m(1)] r'(2) m(2) assms(3) by (auto simp: fresh_run_def)
  then have "r \<in> set (runs_at k db)" by (simp add: in_runs_at)
  then have at: "runs_at k db = [r]" using runs_at_cases [OF assms(1), of k] by auto
  have "op_run a = Some k"
  proof (cases "op_run a")
    case None
    then show ?thesis using r(2) by (cases a) auto
  next
    case (Some rid)
    then show ?thesis using perform_isolated [OF Some, of k fe db] at r' old r
      by (cases "k = rid") (auto simp: run_part_def in_runs_at dest: in_runs_at [THEN iffD1])
  qed
  then show ?thesis using at r'(2) r(2) by (rule that)
qed

lemma enter_paid:
  assumes "runs_wf db" "status_of k (perform fe a db) = Some PAID" "status_of k db \<noteq> Some PAID"
  shows "status_of k db = Some LOCKED \<and> (\<exists>u ro c now. a = OpMarkPaid k u ro c now)"
proof -
  obtain r r' where e: "op_run a = Some k" "runs_at k db = [r]" "run_status r' = PAID" "step_rel a db r r'"
    using enter_status [OF assms(1,2) _ assms(3)] by auto
  have s: "status_of k db = Some (run_status r)" "run_status r \<noteq> PAID" using e(2) assms(3) by (auto simp: status_of_def)
  show ?thesis
  proof (cases a)
    case (OpExecute rid u c now today)
    then show ?thesis using e(3,4) executed_sel [of u r r'] by auto
  next
    case (OpRetry rid u ro now today)
    then show ?thesis using e(3,4) retried_sel [of u r r'] by auto
  qed (use e s in \<open>auto split: if_splits\<close>)
qed

lemma enter_locked:
  assumes "runs_wf db" "status_of k (perform fe a db) = Some LOCKED" "status_of k db \<noteq> Some LOCKED"
  shows "status_of k db = Some APPROVED \<and> (\<exists>nts u ro c now. a = OpFinalize k nts True u ro False c now)"
proof -
  obtain r r' where e: "op_run a = Some k" "runs_at k db = [r]" "run_status r' = LOCKED" "step_rel a db r r'"
    using enter_status [OF assms(1,2) _ assms(3)] by auto
  have s: "status_of k db = Some (run_status r)" "run_status r \<noteq> LOCKED" using e(2) assms(3) by (auto simp: status_of_def)
  show ?thesis
  proof (cases a)
    case (OpExecute rid u c now today)
    then show ?thesis using e(3,4) executed_sel [of u r r'] by auto
  next
    case (OpRetry rid u ro now today)
    then show ?thesis using e(3,4) retried_sel [of u r r'] by auto
  qed (use e s in \<open>auto split: if_splits\<close>)
qed

lemma enter_approved:
  assumes "runs_wf db" "status_of k (perform fe a db) = Some APPROVED" "status_of k db \<noteq> Some APPROVED"
  shows "\<exists>cm u ro legacy c now. a = OpApprove k cm u ro legacy c now"
proof -
  obtain r r' where e: "op_run a = Some k" "runs_at k db = [r]" "run_status r' = APPROVED" "step_rel a db r r'"
    using enter_status [OF assms(1,2) _ assms(3)] by auto
  have s: "status_of k db = Some (run_status r)" "run_status r \<noteq> APPROVED" using e(2) assms(3) by (auto simp: status_of_def)
  show ?thesis
  proof (cases a)
    case (OpExecute rid u c now today)
    then show ?thesis using e(3,4) executed_sel [of u r r'] by auto
  next
    case (OpRetry rid u ro now today)
    then show ?thesis using e(3,4) retried_sel [of u r r'] by auto
  qed (use e s in \<open>auto split: if_splits\<close>)
qed

text \<open>
  C6: nothing is paid that was not approved and then locked. If a run that is not yet approved,
  locked or paid is PAID after a sequence of requests, the sequence contains, in this order, an
  approval, a lock and a payment of that very run, whatever other requests are interleaved.
\<close>

theorem paid_run_history:
  assumes "runs_wf db" "status_of k db \<notin> {Some APPROVED, Some LOCKED, Some PAID}"
    "status_of k (run_trace fe ops db) = Some PAID"
  shows "\<exists>o1 cm ua ra legacy ca na o2 nts ul rl cl nl o3 up rp cp np o4.
    ops = o1 @ OpApprove k cm ua ra legacy ca na # o2 @ OpFinalize k nts True ul rl False cl nl # o3 @
      OpMarkPaid k up rp cp np # o4"
proof -
  let ?tr = "\<lambda>xs. foldl (\<lambda>s a. perform fe a s) db xs"
  obtain b3 p o4 where 3: "ops = b3 @ p # o4" "runs_wf (?tr b3)" "status_of k (?tr b3) \<noteq> Some PAID"
    "status_of k (perform fe p (?tr b3)) = Some PAID"
    using well_formed.entering_step [OF assms(1), of "\<lambda>d. status_of k d = Some PAID" fe ops] assms(2,3)
    by (auto simp: run_trace_def)
  obtain up rp cp np where p: "status_of k (?tr b3) = Some LOCKED" "p = OpMarkPaid k up rp cp np"
    using enter_paid [OF 3(2,4,3)] by blast
  obtain b2 f o3 where 2: "b3 = b2 @ f # o3" "runs_wf (?tr b2)" "status_of k (?tr b2) \<noteq> Some LOCKED"
    "status_of k (perform fe f (?tr b2)) = Some LOCKED"
    using well_formed.entering_step [OF assms(1), of "\<lambda>d. status_of k d = Some LOCKED" fe b3] assms(2) p(1) by auto
  obtain nts ul rl cl nl where f: "status_of k (?tr b2) = Some APPROVED" "f = OpFinalize k nts True ul rl False cl nl"
    using enter_locked [OF 2(2,4,3)] by blast
  obtain b1 q o2 where 1: "b2 = b1 @ q # o2" "runs_wf (?tr b1)" "status_of k (?tr b1) \<noteq> Some APPROVED"
    "status_of k (perform fe q (?tr b1)) = Some APPROVED"
    using well_formed.entering_step [OF assms(1), of "\<lambda>d. status_of k d = Some APPROVED" fe b2] assms(2) f(1) by auto
  obtain cm ua ra legacy ca na where "q = OpApprove k cm ua ra legacy ca na"
    using enter_approved [OF 1(2,4,3)] by blast
  then have "ops = b1 @ OpApprove k cm ua ra legacy ca na # o2 @ OpFinalize k nts True ul rl False cl nl # o3 @
      OpMarkPaid k up rp cp np # o4" using 1(1) 2(1) 3(1) p(2) f(2) by simp
  then show ?thesis by blast
qed

theorem paid_run_history_witness:
  "\<exists>o1 cm ua ra legacy ca na o2 nts ul rl cl nl o3 up rp cp np o4.
    sample_requests = o1 @ OpApprove 1 cm ua ra legacy ca na # o2 @ OpFinalize 1 nts True ul rl False cl nl # o3 @
      OpMarkPaid 1 up rp cp np # o4"
proof (rule paid_run_history)
  show "runs_wf sample_office" by (simp add: runs_wf_def sample_office_def)
  show "status_of 1 sample_office \<notin> {Some APPROVED, Some LOCKED, Some PAID}" by code_simp
  show "status_of 1 (run_trace sample_env sample_requests sample_office) = Some PAID" by code_simp
qed

text \<open>A run that is paid or finalized refuses every request of its own but validation and retry.\<close>

lemma get_run_only:
  assumes "runs_at k db = [r]" "get_run k c db = Inr x"
  shows "x = r"
  using get_run_at(1) [OF assms(2)] assms(1) by simp

lemma final_refuses:
  assumes "runs_at k db = [r]" "run_status r \<in> {PAID, FINALIZED}" "op_run a = Some k" "\<not> is_retry a"
    "a \<noteq> OpValidate k"
  shows "perform fe a db = db"
proof -
  have g: "(\<exists>e. get_run k c db = Inl e) \<or> get_run k c db = Inr r" for c
    using get_run_only [OF assms(1)] by (cases "get_run k c db") auto
  have s: "run_status r \<notin> {DRAFT, VALIDATED, PROCESSED, PENDING_APPROVAL, APPROVED, LOCKED}"
    "closed_status (run_status r)" using assms(2) by (auto simp: closed_status_def)
  show ?thesis
  proof (cases a)
    case (OpExecute rid u c now today)
    then show ?thesis using assms(3) g [of c] s by (auto simp: execute_run_calculation_def)
  next
    case (OpSubmit rid u ro c)
    then show ?thesis using assms(3) g [of c] s by (auto simp: submit_for_approval_def)
  next
    case (OpApprove rid cm u ro legacy c now)
    then show ?thesis using assms(3) g [of c] s by (auto simp: approve_run_def)
  next
    case (OpFinalize rid nts lck u ro legacy c now)
    then show ?thesis using assms(3) g [of c] s by (auto simp: finalize_run_def)
  next
    case (OpMarkPaid rid u ro c now)
    then show ?thesis using assms(3) g [of c] s by (auto simp: mark_paid_def)
  next
    case (OpReject rid reason cm u ro now)
    then show ?thesis using assms(3) g [of None] s by (auto simp: reject_run_def)
  next
    case (OpCancel rid u ro)
    then show ?thesis using assms(3) g [of None] s by (auto simp: cancel_run_def)
  next
    case (OpSendBack rid reason cm u ro now)
    then show ?thesis using assms(3) g [of None] s by (auto simp: send_back_run_def)
  next
    case (OpDelete rid)
    then show ?thesis using assms(3) g [of None] s by (auto simp: delete_run_def)
  qed (use assms(3-5) in auto)
qed

definition revalidated :: "payroll_run \<Rightarrow> payroll_run \<Rightarrow> bool" where
  "revalidated r r' \<longleftrightarrow> (\<exists>vs ve. r' = r\<lparr> run_validation_status := vs, run_validation_errors := ve \<rparr>)"

lemma revalidated_refl: "revalidated r r"
  unfolding revalidated_def by (intro exI [of _ "run_validation_status r"] exI [of _ "run_validation_errors r"]) simp

lemma revalidated_trans: "revalidated a b \<Longrightarrow> revalidated b c \<Longrightarrow> revalidated a c"
  unfolding revalidated_def by fastforce

lemma revalidated_status: "revalidated a b \<Longrightarrow> run_status b = run_status a"
  unfolding revalidated_def by auto

lemma create_isolated:
  assumes "runs_at k db = [r]"
  shows "run_part k (snd (create_run rq now db)) = run_part k db"
proof (cases rule: create_effect [of rq now db])
  case (added run es)
  have "r \<in> set (db_runs db)" "run_id r = k" using in_runs_at [of r k db] assms by simp_all
  then have "run_id run \<noteq> k" using added(1) by (auto simp: image_iff)
  then show ?thesis using added by (simp add: run_part_def runs_at_def)
qed simp

lemma final_step:
  assumes "runs_at k db = [r]" "run_status r \<in> {PAID, FINALIZED}" "is_retry a \<longrightarrow> op_run a \<noteq> Some k"
  shows "(\<exists>r'. runs_at k (perform fe a db) = [r'] \<and> revalidated r r') \<and>
    snd (run_part k (perform fe a db)) = snd (run_part k db)"
proof (cases "op_run a = Some k \<and> \<not> is_retry a \<and> a \<noteq> OpValidate k")
  case True
  then show ?thesis using final_refuses [OF assms(1,2), of a fe] assms(1) revalidated_refl by auto
next
  case False
  then consider "op_run a = None" | rid where "op_run a = Some rid" "k \<noteq> rid" | "a = OpValidate k"
    using assms(3) by (cases "op_run a") auto
  then show ?thesis
  proof cases
    case 1
    then obtain rq now where "a = OpCreate rq now" by (cases a) auto
    then have "run_part k (perform fe a db) = run_part k db" using create_isolated [OF assms(1)] by simp
    then show ?thesis using assms(1) revalidated_refl by (auto simp: run_part_def)
  next
    case 2
    then show ?thesis using perform_isolated [OF 2, of fe db] assms(1) revalidated_refl by (auto simp: run_part_def)
  next
    case 3
    have rows: "snd (run_part k (snd (validate_run k db))) = snd (run_part k db)"
      by (simp add: run_part_def validate_rows)
    have "runs_at k (snd (validate_run k db)) = [r] \<or>
      (\<exists>r'. runs_at k (snd (validate_run k db)) = [r'] \<and> revalidated r r')"
    proof -
      have id: "run_id r = k" using in_runs_at [of r k db] assms(1) by simp
      have "db_runs (snd (validate_run k db)) = db_runs db \<or>
        (\<exists>r'. run_id r' = k \<and> revalidated r r' \<and> db_runs (snd (validate_run k db)) = db_runs (update_run k (\<lambda>_. r') db))"
      proof (cases "get_run k None db")
        case (Inr x)
        then have x: "x = r" using get_run_only [OF assms(1)] by simp
        show ?thesis
        proof (cases "collect_issues (run_employees_of r db) db")
          case iss: (Inr issues)
          have "run_status r \<noteq> DRAFT" using assms(2) by auto
          then show ?thesis using Inr x iss id
            by (intro disjI2 exI [of _ "r\<lparr> run_validation_status := (if issues \<noteq> [] then ''WARNING'' else ''VALID''),
                 run_validation_errors := issues \<rparr>"]) (auto simp: validate_run_def revalidated_def Let_def)
        qed (simp add: validate_run_def Inr x)
      qed (simp add: validate_run_def)
      then show ?thesis
      proof (elim disjE exE conjE)
        fix r' assume u: "run_id r' = k" "revalidated r r'"
          "db_runs (snd (validate_run k db)) = db_runs (update_run k (\<lambda>_. r') db)"
        have "runs_at k (snd (validate_run k db)) = runs_at k (update_run k (\<lambda>_. r') db)"
          using u(3) by (simp add: runs_at_def)
        then show ?thesis using u runs_at_update_run [OF u(1), of k db] assms(1) by simp
      qed (use assms(1) in \<open>simp add: runs_at_def\<close>)
    qed
    then show ?thesis using rows 3 revalidated_refl by auto
  qed
qed

text \<open>
  C10: a failed calculation writes nothing but the status. When the engine raises after it has taken
  the run, the database is the old one with that run in PROCESSING, and from there the engine
  itself, submission, approval, locking and payment all refuse the run and change nothing: it
  takes a retry, or a rejection, cancellation or send-back, to move it on.
\<close>

theorem failed_calculation_contained:
  assumes "get_run k c db = Inr run" "run_status run = VALIDATED" "runs_wf db"
    "execute_run_calculation fe k u c now today db = (Inl e, db')"
  shows "db' = update_run k (\<lambda>_. processing u run) db \<and> status_of k db' = Some PROCESSING \<and>
    (\<forall>a. op_run a = Some k \<longrightarrow>
       (case a of OpExecute _ _ _ _ _ \<Rightarrow> True | OpSubmit _ _ _ _ \<Rightarrow> True | OpApprove _ _ _ _ _ _ _ \<Rightarrow> True
        | OpFinalize _ _ _ _ _ _ _ _ \<Rightarrow> True | OpMarkPaid _ _ _ _ _ \<Rightarrow> True | _ \<Rightarrow> False) \<longrightarrow>
       perform fe a db' = db')"
proof -
  have i: "run_id run = k" using get_run_Inr [OF assms(1)] by simp
  have d: "db' = update_run k (\<lambda>_. processing u run) db"
    using assms(4) by (cases rule: execute_effect) (use assms(1,2) in auto)
  have "runs_at k db = [run]"
    using get_run_at(1) [OF assms(1)] runs_at_cases [OF assms(3), of k] by auto
  then have at: "runs_at k db' = [processing u run]"
    using runs_at_update_run [of "processing u run" k k db] i by (simp add: d)
  have g: "(\<exists>e. get_run k co db' = Inl e) \<or> get_run k co db' = Inr (processing u run)" for co
    using get_run_only [OF at] by (cases "get_run k co db'") auto
  have "perform fe a db' = db'"
    if "op_run a = Some k" "case a of OpExecute _ _ _ _ _ \<Rightarrow> True | OpSubmit _ _ _ _ \<Rightarrow> True | OpApprove _ _ _ _ _ _ _ \<Rightarrow> True
        | OpFinalize _ _ _ _ _ _ _ _ \<Rightarrow> True | OpMarkPaid _ _ _ _ _ \<Rightarrow> True | _ \<Rightarrow> False" for a
  proof (cases a)
    case (OpExecute rid v co nw td)
    then show ?thesis using that(1) g [of co] by (auto simp: execute_run_calculation_def)
  next
    case (OpSubmit rid v ro co)
    then show ?thesis using that(1) g [of co] by (auto simp: submit_for_approval_def)
  next
    case (OpApprove rid cm v ro legacy co nw)
    then show ?thesis using that(1) g [of co] by (auto simp: approve_run_def)
  next
    case (OpFinalize rid nts lck v ro legacy co nw)
    then show ?thesis using that(1) g [of co] by (auto simp: finalize_run_def)
  next
    case (OpMarkPaid rid v ro co nw)
    then show ?thesis using that(1) g [of co] by (auto simp: mark_paid_def)
  qed (use that in auto)
  then show ?thesis using d at by (auto simp: status_of_def)
qed

text \<open>A tenant row beside a shared row: the engine's \<open>scalar_one_or_none\<close> raises.\<close>

definition sample_two_configs :: payroll_db where
  "sample_two_configs = empty_db\<lparr> db_runs := [sample_run_row 1 VALIDATED],
     db_configs := [default_config 2 (Some 1), default_config 3 None] \<rparr>"

theorem failed_calculation_contained_witness:
  "status_of 1 (snd (execute_run_calculation sample_env 1 (Some 7) (Some 1) 50 (Date 2025 6 1) sample_two_configs))
    = Some PROCESSING"
proof -
  obtain db' where e: "execute_run_calculation sample_env 1 (Some 7) (Some 1) 50 (Date 2025 6 1) sample_two_configs
      = (Inl MultipleResultsFound, db')"
  proof -
    have "fst (execute_run_calculation sample_env 1 (Some 7) (Some 1) 50 (Date 2025 6 1) sample_two_configs)
      = Inl MultipleResultsFound" by code_simp
    then show ?thesis using that by (cases "execute_run_calculation sample_env 1 (Some 7) (Some 1) 50 (Date 2025 6 1)
      sample_two_configs") simp
  qed
  have g: "get_run 1 (Some 1) sample_two_configs = Inr (sample_run_row 1 VALIDATED)"
    by (simp add: get_run_def sample_two_configs_def sample_run_row_def)
  have v: "run_status (sample_run_row 1 VALIDATED) = VALIDATED" by (simp add: sample_run_row_def)
  have w: "runs_wf sample_two_configs" by (simp add: runs_wf_def sample_two_configs_def)
  show ?thesis unfolding e snd_conv using failed_calculation_contained [OF g v w e] by blast
qed

text \<open>
  A retry has no status guard. Whatever the status of a run, also LOCKED, FINALIZED or PAID, a
  retry recalculates it: afterwards the run is PROCESSED, or PROCESSING when the calculation failed.
\<close>

theorem retry_reopens_any_run:
  assumes "runs_at k db = [run]"
  shows "status_of k (perform fe (OpRetry k u ro now today) db) \<in> {Some PROCESSED, Some PROCESSING}"
proof -
  have r: "run \<in> set (db_runs db)" "run_id run = k" using in_runs_at [of run k db] assms by simp_all
  have g: "get_run k None db = Inr run" using assms by (simp add: get_run_def runs_at_def)
  let ?run1 = "run\<lparr> run_status := VALIDATED \<rparr>"
  let ?db1 = "log_run run ''RETRY'' u ro VALIDATED None (update_run k (\<lambda>_. ?run1) db)"
  have at1: "runs_at k ?db1 = [?run1]"
    using runs_at_update_run [of ?run1 k k db] r(2) assms by (simp add: runs_at_def)
  then have g1: "get_run k None ?db1 = Inr ?run1" by (simp add: get_run_def runs_at_def)
  obtain res db2 where e: "execute_run_calculation fe k u None now today ?db1 = (res, db2)" by fastforce
  have p: "perform fe (OpRetry k u ro now today) db = db2" using g e by (simp add: retry_run_def Let_def)
  from e have "status_of k db2 \<in> {Some PROCESSED, Some PROCESSING}"
  proof (cases rule: execute_effect)
    case (refused x)
    then show ?thesis using g1 by auto
  next
    case (failed x y)
    then have x: "x = ?run1" using g1 by simp
    then show ?thesis using failed(4) runs_at_update_run [of "processing u ?run1" k k ?db1] at1 r(2)
      by (simp add: status_of_def)
  next
    case (finished x run' ls base)
    then have x: "x = ?run1" using g1 by simp
    have "runs_at k db2 = [run']"
      using finished(5) runs_at_update_run [of run' k k ?db1] at1 r(2) x finished(4) by (simp add: runs_at_def)
    then show ?thesis using finished(4) by (simp add: status_of_def)
  qed
  then show ?thesis unfolding p .
qed

theorem retry_reopens_any_run_witness:
  "status_of 1 (perform sample_env (OpRetry 1 (Some 7) None 50 (Date 2025 6 1))
      (empty_db\<lparr> db_runs := [sample_run_row 1 PAID] \<rparr>)) \<in> {Some PROCESSED, Some PROCESSING}"
proof -
  have at: "runs_at 1 (empty_db\<lparr> db_runs := [sample_run_row 1 PAID] \<rparr>) = [sample_run_row 1 PAID]"
    by (simp add: runs_at_def sample_run_row_def)
  show ?thesis by (rule retry_reopens_any_run [OF at])
qed

end
