(* ===== verification/Payment_Batch.thy ===== *)
theory Payment_Batch
  imports Run_Machine
begin

text \<open>
  Disbursement: \<open>app/services/payroll/payment_batch_service.py\<close>. A batch is made from the
  employee rows of a run, approved under dual control, written to a bank file, submitted, and
  reconciled with the bank's answer. What the code takes from outside is an argument: the random
  part of a batch number (\<open>tag\<close>), the clock, the text of an identifier (\<open>ustr\<close>),
  and the answer that the cache holds under a preview token.
\<close>

section \<open>Bank formats and dual control\<close>

definition BANK_FORMAT_ALIASES :: "(string \<times> string) list" where
  "BANK_FORMAT_ALIASES =
     [(''ICICI_CORPORATE'', ''ICICI_CORPORATE''), (''ICICI_CORPORATE_CSV'', ''ICICI_CORPORATE''),
      (''ICICI_EXCEL'', ''ICICI_CORPORATE''), (''HDFC_ENET_CSV'', ''HDFC_ENET_CSV''),
      (''HDFC_CSV'', ''HDFC_ENET_CSV''), (''SBI_CMP_TXT'', ''SBI_CMP_TXT''), (''SBI_TXT'', ''SBI_CMP_TXT''),
      (''GENERIC_NEFT_RTGS_CSV'', ''GENERIC_NEFT_RTGS_CSV''), (''GENERIC_NEFT_CSV'', ''GENERIC_NEFT_RTGS_CSV'')]"

definition normalise_bank_format :: "string \<Rightarrow> string result" where
  "normalise_bank_format v =
     (case map_of BANK_FORMAT_ALIASES (py_upper (py_strip v)) of
        None \<Rightarrow> Inl (HTTPException 400 ''Unsupported bank format'')
      | Some f \<Rightarrow> Inr f)"

definition assert_export_approved :: "payment_batch \<Rightarrow> unit result" where
  "assert_export_approved batch =
     (if pb_approved_by batch = None \<or> pb_approved_at batch = None \<or>
         pb_status batch \<notin> {''APPROVED'', ''SUBMITTED'', ''RECONCILED''}
      then Inl (HTTPException 409 ''BATCH_APPROVAL_REQUIRED'') else Inr ())"

definition maker_ids_for_batch :: "payment_batch \<Rightarrow> uuid list" where
  "maker_ids_for_batch batch =
     foldl (\<lambda>makers v. case v of None \<Rightarrow> makers
              | Some u \<Rightarrow> if u \<in> set makers then makers else makers @ [u])
       [] [pb_created_by batch, pb_processed_by batch]"

section \<open>Lookups and updates\<close>

definition get_batch :: "uuid \<Rightarrow> payroll_db \<Rightarrow> payment_batch result" where
  "get_batch bid db =
     bind_res (scalar_one_or_none (filter (\<lambda>b. pb_id b = bid) (db_batches db)))
       (\<lambda>batch. case batch of None \<Rightarrow> Inl (HTTPException 404 ''Payment batch not found.'') | Some b \<Rightarrow> Inr b)"

definition put_batch :: "payment_batch \<Rightarrow> payroll_db \<Rightarrow> payroll_db" where
  "put_batch b db = db\<lparr> db_batches := update_where (\<lambda>x. pb_id x = pb_id b) (\<lambda>_. b) (db_batches db) \<rparr>"

definition put_item :: "batch_item \<Rightarrow> payroll_db \<Rightarrow> payroll_db" where
  "put_item it db = db\<lparr> db_batch_items := update_where (\<lambda>x. bi_id x = bi_id it) (\<lambda>_. it) (db_batch_items db) \<rparr>"

definition items_of :: "uuid \<Rightarrow> payroll_db \<Rightarrow> batch_item list" where
  "items_of bid db = filter (\<lambda>i. bi_batch_id i = bid) (db_batch_items db)"

definition log_batch ::
  "payment_batch \<Rightarrow> string \<Rightarrow> uuid option \<Rightarrow> string option \<Rightarrow> string \<Rightarrow> string option \<Rightarrow> payroll_db \<Rightarrow> payroll_db"
where
  "log_batch batch action user_id user_role after_status reason db =
     log_event ''PaymentBatch'' (Some (pb_id batch)) action (pb_company_id batch) user_id user_role
       (Some (pb_status batch)) (Some after_status) reason db"

section \<open>Creation\<close>

definition two_digits :: "int \<Rightarrow> string" where
  "two_digits n = (if 0 \<le> n \<and> n < 10 then CHR ''0'' # int_str n else int_str n)"

definition batch_number_of :: "payroll_run \<Rightarrow> string \<Rightarrow> string" where
  "batch_number_of run tag =
     ''PB-'' @ int_str (run_period_year run) @ two_digits (run_period_month run) @ ''-'' @ py_upper (take 6 tag)"

text \<open>
  \<open>Employee\<close> has no attribute \<open>bank_account_number\<close> or \<open>bank_ifsc\<close>, so the
  two \<open>getattr\<close> calls give the empty string and the placeholders are stored.
\<close>

definition new_item ::
  "(uuid \<Rightarrow> string) \<Rightarrow> (string \<times> string option) list \<Rightarrow> uuid \<Rightarrow> uuid option \<Rightarrow> uuid \<Rightarrow> employee option
    \<Rightarrow> run_employee \<Rightarrow> batch_item"
where
  "new_item ustr held bid company_id i emp re =
     (let h = map_of (rev held) (ustr (re_employee_id re))
      in \<lparr> bi_id = i, bi_batch_id = bid, bi_employee_id = re_employee_id re, bi_company_id = company_id,
           bi_amount_paise = re_net_pay_paise re,
           bi_status = (if h \<noteq> None then ''HELD'' else ''PENDING''),
           bi_hold_reason = (case h of None \<Rightarrow> None | Some reason \<Rightarrow> reason),
           bi_account_number = Some ''000000000'', bi_ifsc_code = Some ''HDFC0001234'',
           bi_account_holder_name =
             Some (case emp of None \<Rightarrow> ''Employee'' | Some e \<Rightarrow> py_strip (em_first_name e @ '' '' @ em_last_name e)),
           bi_transaction_ref = None, bi_utr_number = None, bi_reconciled_at = None,
           bi_repayout_batch_id = None, bi_error_message = None, bi_remarks = None, bi_retry_count = 0 \<rparr>)"

fun new_items ::
  "(uuid \<Rightarrow> string) \<Rightarrow> (string \<times> string option) list \<Rightarrow> uuid \<Rightarrow> uuid option \<Rightarrow> payroll_db \<Rightarrow> uuid
    \<Rightarrow> run_employee list \<Rightarrow> batch_item list result"
where
  "new_items ustr held bid company_id db i [] = Inr []"
| "new_items ustr held bid company_id db i (re # res) =
     bind_res (scalar_one_or_none (filter (\<lambda>e. em_id e = re_employee_id re) (db_employees db))) (\<lambda>emp.
     bind_res (new_items ustr held bid company_id db (Suc i) res) (\<lambda>its.
       Inr (new_item ustr held bid company_id i emp re # its)))"

definition payable :: "batch_item \<Rightarrow> bool" where
  "payable i \<longleftrightarrow> bi_status i \<noteq> ''HELD''"

definition new_batch ::
  "uuid \<Rightarrow> payroll_run \<Rightarrow> string \<Rightarrow> string \<Rightarrow> string \<Rightarrow> string option \<Rightarrow> uuid option \<Rightarrow> batch_item list \<Rightarrow> payment_batch"
where
  "new_batch bid run tag source_account_id payment_mode nts user_id its =
     \<lparr> pb_id = bid, pb_company_id = run_company_id run, pb_run_id = run_id run,
       pb_batch_number = batch_number_of run tag, pb_source_account_id = source_account_id,
       pb_payment_mode = payment_mode, pb_status = ''DRAFT'',
       pb_total_amount_paise = (\<Sum>i\<leftarrow>filter payable its. bi_amount_paise i),
       pb_total_records = int (length (filter payable its)),
       pb_bank_reference_number = None, pb_submission_date = None, pb_notes = nts,
       pb_created_by = user_id, pb_processed_by = None, pb_approved_by = None, pb_approved_at = None,
       pb_remarks = None, pb_rejected_by = None, pb_rejected_at = None, pb_rejection_reason = None,
       pb_retry_of_batch_id = None \<rparr>"

text \<open>
  The CREATE audit row is added after the commit and is not in the committed database. A batch
  number that is taken violates the unique column.
\<close>

definition create_batch_from_run ::
  "(uuid \<Rightarrow> string) \<Rightarrow> string \<Rightarrow> uuid \<Rightarrow> string \<Rightarrow> string \<Rightarrow> (string \<times> string option) list \<Rightarrow> string option
    \<Rightarrow> uuid option \<Rightarrow> payroll_db \<Rightarrow> payment_batch result \<times> payroll_db"
where
  "create_batch_from_run ustr tag rid source_account_id payment_mode held nts user_id db =
     (case scalar_one_or_none (filter (\<lambda>r. run_id r = rid) (db_runs db)) of
        Inl e \<Rightarrow> (Inl e, db)
      | Inr None \<Rightarrow> (Inl (HTTPException 404 ''Payroll run not found.''), db)
      | Inr (Some run) \<Rightarrow>
          let bid = fresh_id (map pb_id (db_batches db))
          in if batch_number_of run tag \<in> set (map pb_batch_number (db_batches db))
             then (Inl IntegrityError, db)
             else
               (case new_items ustr held bid (run_company_id run) db (fresh_id (map bi_id (db_batch_items db)))
                       (filter (\<lambda>re. re_run_id re = rid) (db_run_employees db)) of
                  Inl e \<Rightarrow> (Inl e, db)
                | Inr its \<Rightarrow>
                    let batch = new_batch bid run tag source_account_id payment_mode nts user_id its
                    in (Inr batch,
                        db\<lparr> db_batches := db_batches db @ [batch], db_batch_items := db_batch_items db @ its \<rparr>)))"

section \<open>Approval, rejection, submission\<close>

definition check_batch_makers ::
  "payment_batch \<Rightarrow> uuid option \<Rightarrow> string option \<Rightarrow> payroll_db \<Rightarrow> bool result \<times> payroll_db" where
  "check_batch_makers batch user_id user_role db =
     enforce_maker_checker ''PaymentBatch'' (pb_id batch) (pb_company_id batch) (maker_ids_for_batch batch)
       user_id user_role ''APPROVE'' (Some (pb_status batch)) db"

definition approve_batch ::
  "uuid \<Rightarrow> string option \<Rightarrow> uuid option \<Rightarrow> string option \<Rightarrow> timestamp \<Rightarrow> payroll_db
    \<Rightarrow> payment_batch result \<times> payroll_db"
where
  "approve_batch bid remarks user_id user_role now db =
     (case get_batch bid db of
        Inl e \<Rightarrow> (Inl e, db)
      | Inr batch \<Rightarrow>
          (case check_batch_makers batch user_id user_role db of
             (Inl e, db1) \<Rightarrow> (Inl e, db1)
           | (Inr _, db1) \<Rightarrow>
               let batch' = batch\<lparr> pb_status := ''APPROVED'', pb_approved_by := user_id,
                                   pb_approved_at := Some now, pb_remarks := remarks \<rparr>
               in (Inr batch',
                   log_batch batch ''APPROVE'' user_id user_role ''APPROVED''
                     (Some (or_str remarks ''Approved payment batch'')) (put_batch batch' db1))))"

definition reject_batch ::
  "uuid \<Rightarrow> string \<Rightarrow> uuid option \<Rightarrow> string option \<Rightarrow> timestamp \<Rightarrow> payroll_db \<Rightarrow> payment_batch result \<times> payroll_db"
where
  "reject_batch bid reason user_id user_role now db =
     (case get_batch bid db of
        Inl e \<Rightarrow> (Inl e, db)
      | Inr batch \<Rightarrow>
          let batch' = batch\<lparr> pb_status := ''REJECTED'', pb_rejected_by := user_id,
                              pb_rejected_at := Some now, pb_rejection_reason := Some reason \<rparr>
          in (Inr batch',
              log_batch batch ''REJECT'' user_id user_role ''REJECTED'' (Some reason) (put_batch batch' db)))"

text \<open>\<open>uuid.hex\<close> is the text of the identifier without its dashes.\<close>

definition hex6 :: "(uuid \<Rightarrow> string) \<Rightarrow> uuid \<Rightarrow> string" where
  "hex6 ustr i = take 6 (filter (\<lambda>c. c \<noteq> CHR ''-'') (ustr i))"

definition submit_batch ::
  "(uuid \<Rightarrow> string) \<Rightarrow> uuid \<Rightarrow> string \<Rightarrow> date \<Rightarrow> string option \<Rightarrow> uuid option \<Rightarrow> string option \<Rightarrow> payroll_db
    \<Rightarrow> payment_batch result \<times> payroll_db"
where
  "submit_batch ustr bid bank_reference_number submission_date nts user_id user_role db =
     (case get_batch bid db of
        Inl e \<Rightarrow> (Inl e, db)
      | Inr batch \<Rightarrow>
          let batch' = batch\<lparr> pb_status := ''SUBMITTED'',
                              pb_bank_reference_number := Some bank_reference_number,
                              pb_submission_date := Some submission_date, pb_notes := nts,
                              pb_processed_by :=
                                (case user_id of None \<Rightarrow> pb_processed_by batch | Some u \<Rightarrow> Some u) \<rparr>;
              db1 = put_batch batch' db;
              db2 = db1\<lparr> db_batch_items :=
                      update_where (\<lambda>i. bi_batch_id i = bid \<and> bi_status i = ''PENDING'')
                        (\<lambda>i. i\<lparr> bi_status := ''SUCCESS'',
                               bi_transaction_ref :=
                                 Some (bank_reference_number @ ''-'' @ hex6 ustr (bi_id i)) \<rparr>)
                        (db_batch_items db1) \<rparr>
          in (Inr batch',
              log_batch batch ''SUBMIT'' user_id user_role ''SUBMITTED''
                (Some (''Submitted batch with bank ref: '' @ bank_reference_number)) db2))"

definition batch_issues :: "batch_item \<Rightarrow> (uuid \<times> uuid \<times> string) list" where
  "batch_issues i =
     (if length (or_str (bi_account_number i) []) < 5
      then [(bi_id i, bi_employee_id i, ''Invalid account number'')] else []) @
     (if length (or_str (bi_ifsc_code i) []) \<noteq> 11
      then [(bi_id i, bi_employee_id i, ''Invalid IFSC code'')] else [])"

record validation_report =
  vr_batch_id :: uuid
  vr_status :: string
  vr_total_items :: nat
  vr_errors :: "(uuid \<times> uuid \<times> string) list"

definition validate_batch :: "uuid \<Rightarrow> payroll_db \<Rightarrow> validation_report result" where
  "validate_batch bid db =
     bind_res (get_batch bid db) (\<lambda>batch.
       let its = items_of bid db; errors = concat (map batch_issues its)
       in Inr \<lparr> vr_batch_id = bid, vr_status = (if errors = [] then ''VALID'' else ''WARNING''),
                vr_total_items = length its, vr_errors = errors \<rparr>)"

definition reconcile_batch ::
  "uuid \<Rightarrow> uuid option \<Rightarrow> string option \<Rightarrow> payroll_db \<Rightarrow> payment_batch result \<times> payroll_db" where
  "reconcile_batch bid user_id user_role db =
     (case get_batch bid db of
        Inl e \<Rightarrow> (Inl e, db)
      | Inr batch \<Rightarrow>
          let batch' = batch\<lparr> pb_status := ''RECONCILED'' \<rparr>
          in (Inr batch',
              log_batch batch ''RECONCILE'' user_id user_role ''RECONCILED'' None (put_batch batch' db)))"

section \<open>Single items\<close>

definition get_item :: "uuid \<Rightarrow> uuid \<Rightarrow> payroll_db \<Rightarrow> batch_item result" where
  "get_item bid iid db =
     bind_res (scalar_one_or_none (filter (\<lambda>i. bi_id i = iid \<and> bi_batch_id i = bid) (db_batch_items db)))
       (\<lambda>it. case it of None \<Rightarrow> Inl (HTTPException 404 ''Batch item not found.'') | Some i \<Rightarrow> Inr i)"

definition change_item ::
  "uuid \<Rightarrow> uuid \<Rightarrow> (batch_item \<Rightarrow> batch_item) \<Rightarrow> payroll_db \<Rightarrow> batch_item result \<times> payroll_db" where
  "change_item bid iid f db =
     (case get_item bid iid db of Inl e \<Rightarrow> (Inl e, db) | Inr i \<Rightarrow> (Inr (f i), put_item (f i) db))"

definition hold_item :: "uuid \<Rightarrow> uuid \<Rightarrow> string \<Rightarrow> payroll_db \<Rightarrow> batch_item result \<times> payroll_db" where
  "hold_item bid iid reason =
     change_item bid iid (\<lambda>i. i\<lparr> bi_status := ''HELD'', bi_hold_reason := Some reason \<rparr>)"

definition release_item :: "uuid \<Rightarrow> uuid \<Rightarrow> string option \<Rightarrow> payroll_db \<Rightarrow> batch_item result \<times> payroll_db" where
  "release_item bid iid remarks =
     change_item bid iid (\<lambda>i. i\<lparr> bi_status := ''RELEASED'', bi_remarks := remarks \<rparr>)"

record bank_details =
  bd_account_number :: "string option"
  bd_ifsc_code :: "string option"
  bd_account_holder_name :: "string option"

text \<open>\<open>if new: old = new\<close> on optional strings.\<close>

definition replaced_by :: "string option \<Rightarrow> string option \<Rightarrow> string option" where
  "replaced_by old new = (if or_str new [] = [] then old else new)"

definition with_details :: "bank_details option \<Rightarrow> batch_item \<Rightarrow> batch_item" where
  "with_details details i =
     (case details of
        None \<Rightarrow> i
      | Some d \<Rightarrow>
          i\<lparr> bi_account_number := replaced_by (bi_account_number i) (bd_account_number d),
             bi_ifsc_code := replaced_by (bi_ifsc_code i) (bd_ifsc_code d),
             bi_account_holder_name := replaced_by (bi_account_holder_name i) (bd_account_holder_name d) \<rparr>)"

definition retry_item ::
  "uuid \<Rightarrow> uuid \<Rightarrow> string \<Rightarrow> bank_details option \<Rightarrow> payroll_db \<Rightarrow> batch_item result \<times> payroll_db" where
  "retry_item bid iid reason details =
     change_item bid iid
       (\<lambda>i. (with_details details i)\<lparr> bi_status := ''RETRIED'', bi_retry_count := bi_retry_count i + 1,
               bi_remarks := Some (''Retry reason: '' @ reason) \<rparr>)"

section \<open>Bank files\<close>

text \<open>
  \<open>f"{paise / 100.0:.2f}"\<close>: exact for the amounts whose number of paise a double holds
  (below \<open>2 ^ 52\<close>), written out in integers here.
\<close>

definition two_places :: "int \<Rightarrow> string" where
  "two_places n = nat_digits (nat (n div 100)) @ ''.'' @
     nat_digits (nat (n mod 100 div 10)) @ nat_digits (nat (n mod 10))"

definition amount_text :: "int \<Rightarrow> string" where
  "amount_text paise = (if paise < 0 then CHR ''-'' # two_places (- paise) else two_places paise)"

definition exportable :: "batch_item \<Rightarrow> bool" where
  "exportable i \<longleftrightarrow> bi_status i \<in> {''PENDING'', ''RELEASED'', ''SUCCESS''}"

definition header_rows :: "string \<Rightarrow> string list list" where
  "header_rows fmt =
     (if fmt = ''HDFC_ENET_CSV'' then
        [[''Debit_Account'', ''Beneficiary_Account'', ''IFSC'', ''Amount'', ''Beneficiary_Name'', ''Remarks'']]
      else if fmt = ''SBI_CMP_TXT'' then []
      else if fmt = ''GENERIC_NEFT_RTGS_CSV'' then
        [[''Payment_Mode'', ''Beneficiary_Account'', ''IFSC'', ''Amount'', ''Beneficiary_Name'', ''Remarks'']]
      else
        [[''Debit Account'', ''Credit Account'', ''IFSC'', ''Amount'', ''Beneficiary Name'', ''Payment Details'']])"

definition item_row :: "string \<Rightarrow> payment_batch \<Rightarrow> batch_item \<Rightarrow> string list" where
  "item_row fmt batch i =
     (let acc = or_str (bi_account_number i) []; ifsc = or_str (bi_ifsc_code i) [];
          amount = amount_text (bi_amount_paise i); holder = or_str (bi_account_holder_name i) []
      in if fmt = ''HDFC_ENET_CSV'' then
           [pb_source_account_id batch, acc, ifsc, amount, holder, ''Salary '' @ pb_batch_number batch]
         else if fmt = ''SBI_CMP_TXT'' then [pb_batch_number batch, acc, ifsc, amount, holder]
         else if fmt = ''GENERIC_NEFT_RTGS_CSV'' then
           [if pb_payment_mode batch = ''RTGS'' then ''RTGS'' else ''NEFT'', acc, ifsc, amount, holder,
            ''Salary '' @ pb_batch_number batch]
         else [pb_source_account_id batch, acc, ifsc, amount, holder, pb_batch_number batch])"

definition file_extension :: "string \<Rightarrow> string" where
  "file_extension fmt = (if fmt = ''SBI_CMP_TXT'' then ''txt'' else ''csv'')"

definition new_bank_file :: "uuid \<Rightarrow> string \<Rightarrow> payment_batch \<Rightarrow> batch_item list \<Rightarrow> bank_file" where
  "new_bank_file i fmt batch its =
     \<lparr> bf_id = i, bf_batch_id = pb_id batch, bf_company_id = pb_company_id batch, bf_file_format = fmt,
       bf_file_name = pb_batch_number batch @ ''_'' @ fmt @ ''.'' @ file_extension fmt,
       bf_rows = header_rows fmt @ map (item_row fmt batch) its, bf_status = ''GENERATED'' \<rparr>"

definition generate_bank_file :: "uuid \<Rightarrow> string \<Rightarrow> payroll_db \<Rightarrow> bank_file result \<times> payroll_db" where
  "generate_bank_file bid file_format db =
     (case bind_res (get_batch bid db) (\<lambda>batch.
           bind_res (assert_export_approved batch) (\<lambda>_.
           bind_res (normalise_bank_format file_format) (\<lambda>fmt.
             let its = filter exportable (items_of bid db)
             in if its = [] then Inl (HTTPException 409 ''No exportable payout items remain in this batch.'')
                else Inr (new_bank_file (fresh_id (map bf_id (db_bank_files db))) fmt batch its)))) of
        Inl e \<Rightarrow> (Inl e, db)
      | Inr f \<Rightarrow> (Inr f, db\<lparr> db_bank_files := db_bank_files db @ [f] \<rparr>))"

text \<open>Rows are kept in the order of their creation, so the latest is the last.\<close>

definition get_latest_bank_file ::
  "uuid \<Rightarrow> payroll_db \<Rightarrow> (string list list \<times> string \<times> string) result \<times> payroll_db" where
  "get_latest_bank_file bid db =
     (let answer = (\<lambda>f. (bf_rows f, bf_file_name f,
            if drop (length (bf_file_name f) - 4) (bf_file_name f) = ''.txt'' then ''text/plain'' else ''text/csv''))
      in case bind_res (get_batch bid db) assert_export_approved of
           Inl e \<Rightarrow> (Inl e, db)
         | Inr _ \<Rightarrow>
             (case scalars_first (rev (filter (\<lambda>f. bf_batch_id f = bid) (db_bank_files db))) of
                Some f \<Rightarrow> (Inr (answer f), db)
              | None \<Rightarrow>
                  (case generate_bank_file bid ''GENERIC_NEFT_RTGS_CSV'' db of
                     (Inl e, db1) \<Rightarrow> (Inl e, db1)
                   | (Inr f, db1) \<Rightarrow> (Inr (answer f), db1))))"

section \<open>The bank's answer to a file\<close>

record response_row =
  rr_account_number :: string
  rr_status :: string
  rr_transaction_ref :: string

definition preview_row :: "dict \<Rightarrow> response_row" where
  "preview_row r =
     \<lparr> rr_account_number = or_str (first_key r [''Account'', ''account_number'']) [],
       rr_status = py_upper (or_str (first_key r [''Status'', ''status'']) ''SUCCESS''),
       rr_transaction_ref = or_str (first_key r [''TransactionRef'', ''transaction_ref'', ''Ref'']) [] \<rparr>"

text \<open>What \<open>preview_bank_response\<close> puts into the cache.\<close>

definition preview_bank_response :: "uuid \<Rightarrow> dict list \<Rightarrow> uuid \<times> response_row list" where
  "preview_bank_response bid rows = (bid, map preview_row rows)"

definition last_match :: "('a \<Rightarrow> bool) \<Rightarrow> 'a list \<Rightarrow> 'a option" where
  "last_match P xs = scalars_first (rev (filter P xs))"

text \<open>
  Of the items with the account number of a row, the dictionary holds the last one. The batch of the
  cached answer is not compared with the batch of the request.
\<close>

definition apply_row :: "batch_item list \<Rightarrow> response_row \<Rightarrow> payroll_db \<times> nat \<Rightarrow> payroll_db \<times> nat" where
  "apply_row its r = (\<lambda>(db, n).
     case last_match (\<lambda>i. bi_account_number i = Some (rr_account_number r) \<and> rr_account_number r \<noteq> []) its of
       None \<Rightarrow> (db, n)
     | Some i \<Rightarrow>
         (db\<lparr> db_batch_items :=
            update_where (\<lambda>x. bi_id x = bi_id i)
              (\<lambda>x. x\<lparr> bi_status := (if rr_status r = ''SUCCESS'' then ''SUCCESS'' else ''FAILED''),
                      bi_transaction_ref := Some (rr_transaction_ref r) \<rparr>) (db_batch_items db) \<rparr>, Suc n))"

definition apply_bank_response ::
  "uuid \<Rightarrow> (uuid \<times> response_row list) option \<Rightarrow> uuid option \<Rightarrow> string option \<Rightarrow> payroll_db \<Rightarrow> nat result \<times> payroll_db"
where
  "apply_bank_response bid cached user_id user_role db =
     (case cached of
        None \<Rightarrow> (Inl (HTTPException 400 ''Preview token has expired or is invalid.''), db)
      | Some (_, rows) \<Rightarrow>
          (case get_batch bid db of
             Inl e \<Rightarrow> (Inl e, db)
           | Inr batch \<Rightarrow>
               let (db1, updated) = fold (apply_row (items_of bid db)) rows (db, 0)
               in (Inr updated,
                   log_batch batch ''APPLY_BANK_RESPONSE'' user_id user_role ''RECONCILED''
                     (Some (''Applied bank response, '' @ int_str (int updated) @ '' items updated''))
                     (put_batch (batch\<lparr> pb_status := ''RECONCILED'' \<rparr>) db1))))"

section \<open>The bank feed\<close>

definition match_item :: "(uuid \<Rightarrow> string) \<Rightarrow> batch_item list \<Rightarrow> dict \<Rightarrow> string + batch_item option" where
  "match_item ustr its row =
     (let item_id = first_key row [''item_id'', ''itemId''];
          account = first_key row [''account_number'', ''Account'', ''account''];
          reference = first_key row [''transaction_ref'', ''TransactionRef'', ''Ref'']
      in if item_id \<noteq> None then Inr (last_match (\<lambda>i. Some (ustr (bi_id i)) = item_id) its)
         else if reference \<noteq> None \<and> (\<exists>i \<in> set its. bi_transaction_ref i = reference)
         then Inr (last_match (\<lambda>i. bi_transaction_ref i = reference) its)
         else if account \<noteq> None then
           (let matches = filter (\<lambda>i. bi_account_number i = account) its
            in if 1 < length matches then Inl ''account number is ambiguous; supply item_id.''
               else Inr (scalars_first matches))
         else Inr None)"

record outcome =
  oc_item :: batch_item
  oc_status :: string
  oc_utr :: "string option"
  oc_reference :: "string option"
  oc_error :: "string option"

definition canonical_status :: "string \<Rightarrow> string option" where
  "canonical_status raw =
     (if raw \<in> {''SUCCESS'', ''COMPLETED'', ''PAID''} then Some ''PAID''
      else if raw \<in> {''FAILED'', ''FAILURE'', ''REJECTED'', ''RETURNED''} then Some ''FAILED'' else None)"

definition judge_row :: "batch_item \<Rightarrow> dict \<Rightarrow> string + outcome" where
  "judge_row i row =
     (let reference = first_key row [''transaction_ref'', ''TransactionRef'', ''Ref''];
          utr = map_option py_strip
                  (first_key row [''utr_number'', ''utr'', ''UTR'', ''transaction_ref'', ''TransactionRef'', ''Ref''])
      in case canonical_status (py_upper (py_strip (or_str (first_key row [''status'', ''Status'']) []))) of
           None \<Rightarrow> Inl ''status must be PAID/SUCCESS or FAILED.''
         | Some st \<Rightarrow>
             if st = ''PAID'' \<and> or_str utr [] = [] then Inl ''UTR is required for a paid payout.''
             else if bi_status i = ''PAID'' \<and>
               (st \<noteq> ''PAID'' \<or> or_str (bi_utr_number i) [] \<noteq> [] \<and> bi_utr_number i \<noteq> utr)
             then Inl ''a paid payout cannot be changed by a later feed.''
             else Inr \<lparr> oc_item = i, oc_status = st, oc_utr = utr, oc_reference = reference,
                        oc_error = first_key row [''error_message'', ''reason'', ''Error''] \<rparr>)"

fun resolve_rows ::
  "(uuid \<Rightarrow> string) \<Rightarrow> batch_item list \<Rightarrow> bool \<Rightarrow> nat \<Rightarrow> uuid list \<Rightarrow> dict list \<Rightarrow> (nat \<times> string) list \<times> outcome list"
where
  "resolve_rows ustr its allow_partial n seen [] = ([], [])"
| "resolve_rows ustr its allow_partial n seen (row # rows) =
     (case match_item ustr its row of
        Inl e \<Rightarrow> apfst (Cons (n, e)) (resolve_rows ustr its allow_partial (Suc n) seen rows)
      | Inr None \<Rightarrow>
          (if allow_partial then resolve_rows ustr its allow_partial (Suc n) seen rows
           else apfst (Cons (n, ''no matching payout item.''))
                  (resolve_rows ustr its allow_partial (Suc n) seen rows))
      | Inr (Some i) \<Rightarrow>
          if bi_id i \<in> set seen
          then apfst (Cons (n, ''duplicate payout item.'')) (resolve_rows ustr its allow_partial (Suc n) seen rows)
          else
            (let rest = resolve_rows ustr its allow_partial (Suc n) (bi_id i # seen) rows
             in case judge_row i row of
                  Inl e \<Rightarrow> apfst (Cons (n, e)) rest
                | Inr oc \<Rightarrow> apsnd (Cons oc) rest))"

text \<open>\<open>reference or utr or item.transaction_ref\<close>.\<close>

definition settled :: "timestamp \<Rightarrow> outcome \<Rightarrow> batch_item" where
  "settled now oc =
     (oc_item oc)\<lparr> bi_status := oc_status oc, bi_utr_number := oc_utr oc,
        bi_transaction_ref :=
          (if or_str (oc_reference oc) [] \<noteq> [] then oc_reference oc
           else if or_str (oc_utr oc) [] \<noteq> [] then oc_utr oc else bi_transaction_ref (oc_item oc)),
        bi_reconciled_at := Some now,
        bi_error_message := map_option (take 500) (oc_error oc) \<rparr>"

definition slip_settled :: "timestamp \<Rightarrow> outcome \<Rightarrow> payslip \<Rightarrow> payslip" where
  "slip_settled paid_on oc p =
     p\<lparr> ps_payment_status := oc_status oc, ps_payment_reference := oc_utr oc,
        ps_payment_date := (if oc_status oc = ''PAID'' then Some paid_on else None) \<rparr>"

fun apply_outcomes ::
  "payment_batch \<Rightarrow> timestamp \<Rightarrow> timestamp \<Rightarrow> outcome list \<Rightarrow> payroll_db \<Rightarrow> payroll_db result" where
  "apply_outcomes batch now paid_on [] db = Inr db"
| "apply_outcomes batch now paid_on (oc # ocs) db =
     bind_res (scalar_one_or_none
         (filter (\<lambda>p. ps_run_id p = pb_run_id batch \<and> ps_employee_id p = bi_employee_id (oc_item oc))
            (db_payslips db)))
       (\<lambda>slip.
         let db1 = put_item (settled now oc) db
         in apply_outcomes batch now paid_on ocs
              (case slip of
                 None \<Rightarrow> db1
               | Some p \<Rightarrow>
                   db1\<lparr> db_payslips :=
                     update_where (\<lambda>x. ps_id x = ps_id p) (slip_settled paid_on oc) (db_payslips db1) \<rparr>))"

definition repayout_batch :: "uuid \<Rightarrow> string \<Rightarrow> payment_batch \<Rightarrow> uuid option \<Rightarrow> batch_item list \<Rightarrow> payment_batch" where
  "repayout_batch rid tag batch user_id its =
     \<lparr> pb_id = rid, pb_company_id = pb_company_id batch, pb_run_id = pb_run_id batch,
       pb_batch_number = ''RP-'' @ py_upper (take 18 tag),
       pb_source_account_id = pb_source_account_id batch, pb_payment_mode = pb_payment_mode batch,
       pb_status = ''DRAFT'', pb_total_amount_paise = (\<Sum>i\<leftarrow>its. bi_amount_paise i),
       pb_total_records = int (length its), pb_bank_reference_number = None, pb_submission_date = None,
       pb_notes = Some (''Automatic re-payout for failed items in '' @ pb_batch_number batch),
       pb_created_by = user_id, pb_processed_by = None, pb_approved_by = None, pb_approved_at = None,
       pb_remarks = None, pb_rejected_by = None, pb_rejected_at = None, pb_rejection_reason = None,
       pb_retry_of_batch_id = Some (pb_id batch) \<rparr>"

definition repayout_item :: "(uuid \<Rightarrow> string) \<Rightarrow> uuid \<Rightarrow> uuid \<Rightarrow> batch_item \<Rightarrow> batch_item" where
  "repayout_item ustr rid i original =
     \<lparr> bi_id = i, bi_batch_id = rid, bi_employee_id = bi_employee_id original,
       bi_company_id = bi_company_id original, bi_amount_paise = bi_amount_paise original,
       bi_status = ''PENDING'', bi_hold_reason = None, bi_account_number = bi_account_number original,
       bi_ifsc_code = bi_ifsc_code original, bi_account_holder_name = bi_account_holder_name original,
       bi_transaction_ref = None, bi_utr_number = None, bi_reconciled_at = None, bi_repayout_batch_id = None,
       bi_error_message = None, bi_remarks = Some (''Re-payout of original item '' @ ustr (bi_id original)),
       bi_retry_count = 0 \<rparr>"

definition add_repayout ::
  "(uuid \<Rightarrow> string) \<Rightarrow> string \<Rightarrow> payment_batch \<Rightarrow> uuid option \<Rightarrow> batch_item list \<Rightarrow> payroll_db \<Rightarrow> (uuid \<times> payroll_db) result"
where
  "add_repayout ustr tag batch user_id its db =
     (let rid = fresh_id (map pb_id (db_batches db));
          rb = repayout_batch rid tag batch user_id its;
          first = fresh_id (map bi_id (db_batch_items db))
      in if pb_batch_number rb \<in> set (map pb_batch_number (db_batches db)) then Inl IntegrityError
         else Inr (rid,
           db\<lparr> db_batches := db_batches db @ [rb],
               db_batch_items :=
                 update_where (\<lambda>i. bi_id i \<in> set (map bi_id its)) (\<lambda>i. i\<lparr> bi_repayout_batch_id := Some rid \<rparr>)
                   (db_batch_items db) @
                 map (\<lambda>(k, i). repayout_item ustr rid (first + k) i) (enumerate 0 its) \<rparr>))"

record feed_report =
  fr_updated_count :: nat
  fr_paid_count :: nat
  fr_failed_count :: nat
  fr_repayout_batch_id :: "uuid option"
  fr_items :: "(uuid \<times> string \<times> string option) list"

definition feed_rows_resolved ::
  "(uuid \<Rightarrow> string) \<Rightarrow> uuid \<Rightarrow> dict list \<Rightarrow> bool \<Rightarrow> uuid option \<Rightarrow> payroll_db \<Rightarrow> (payment_batch \<times> outcome list) result"
where
  "feed_rows_resolved ustr bid rows allow_partial company_id db =
     (if rows = [] then Inl (HTTPException 400 ''At least one bank response row is required.'')
      else bind_res (get_batch bid db) (\<lambda>batch.
        if company_id \<noteq> None \<and> pb_company_id batch \<noteq> company_id
        then Inl (HTTPException 404 ''Payment batch not found.'')
        else if pb_status batch \<notin> {''APPROVED'', ''SUBMITTED'', ''RECONCILED''}
        then Inl (HTTPException 409 ''Only an approved/submitted batch can be reconciled.'')
        else
          let (errors, ocs) = resolve_rows ustr (items_of bid db) allow_partial 1 [] rows
          in if errors \<noteq> [] then Inl (HTTPException 400 ''INVALID_BANK_FEED'')
             else if ocs = [] then Inl (HTTPException 400 ''No bank response rows matched this batch.'')
             else Inr (batch, ocs)))"

definition failed_of :: "timestamp \<Rightarrow> outcome list \<Rightarrow> batch_item list" where
  "failed_of now ocs = map (settled now) (filter (\<lambda>oc. oc_status oc = ''FAILED'') ocs)"

definition feed_repayout ::
  "(uuid \<Rightarrow> string) \<Rightarrow> string \<Rightarrow> payment_batch \<Rightarrow> uuid option \<Rightarrow> batch_item list \<Rightarrow> payroll_db
    \<Rightarrow> (uuid option \<times> payroll_db) result"
where
  "feed_repayout ustr tag batch user_id failed db =
     (let pending = filter (\<lambda>i. bi_repayout_batch_id i = None) failed
      in if pending \<noteq> []
         then bind_res (add_repayout ustr tag batch user_id pending db) (\<lambda>(rid, db1). Inr (Some rid, db1))
         else case scalars_first (filter (\<lambda>r. r \<noteq> None) (map bi_repayout_batch_id failed)) of
                Some (Some r) \<Rightarrow>
                  Inr (if r \<in> set (map pb_id (db_batches db)) then Some r else None, db)
              | _ \<Rightarrow> Inr (None, db))"

definition reconcile_bank_feed ::
  "(uuid \<Rightarrow> string) \<Rightarrow> string \<Rightarrow> uuid \<Rightarrow> dict list \<Rightarrow> bool \<Rightarrow> uuid option \<Rightarrow> uuid option \<Rightarrow> string option
    \<Rightarrow> timestamp \<Rightarrow> timestamp \<Rightarrow> payroll_db \<Rightarrow> feed_report result \<times> payroll_db"
where
  "reconcile_bank_feed ustr tag bid rows allow_partial company_id user_id user_role now paid_on db =
     (case bind_res (feed_rows_resolved ustr bid rows allow_partial company_id db) (\<lambda>(batch, ocs).
           bind_res (apply_outcomes batch now paid_on ocs db) (\<lambda>db1.
           bind_res (feed_repayout ustr tag batch user_id (failed_of now ocs) db1) (\<lambda>(rid, db2).
             let paid = length (filter (\<lambda>oc. oc_status oc = ''PAID'') ocs);
                 failed = length (filter (\<lambda>oc. oc_status oc = ''FAILED'') ocs);
                 reason = ''UTR feed: '' @ int_str (int paid) @ '' paid, '' @ int_str (int failed) @
                          '' failed; re-payout '' @ (case rid of None \<Rightarrow> ''not required'' | Some r \<Rightarrow> ustr r)
             in Inr (\<lparr> fr_updated_count = length ocs, fr_paid_count = paid, fr_failed_count = failed,
                        fr_repayout_batch_id = rid,
                        fr_items = map (\<lambda>oc. (bi_id (oc_item oc), oc_status oc, oc_utr oc)) ocs \<rparr>,
                     log_batch batch ''BANK_UTR_RECONCILE'' user_id user_role ''RECONCILED'' (Some reason)
                       (put_batch (batch\<lparr> pb_status := ''RECONCILED'' \<rparr>) db2))))) of
        Inl e \<Rightarrow> (Inl e, db)
      | Inr (report, db3) \<Rightarrow> (Inr report, db3))"

section \<open>Operations and traces\<close>

datatype batch_request =
    BatchCreate string uuid string string "(string \<times> string option) list" "string option" "uuid option"
  | BatchApprove uuid "string option" "uuid option" "string option" timestamp
  | BatchReject uuid string "uuid option" "string option" timestamp
  | BatchSubmit uuid string date "string option" "uuid option" "string option"
  | BatchReconcile uuid "uuid option" "string option"
  | BatchHold uuid uuid string
  | BatchRelease uuid uuid "string option"
  | BatchRetry uuid uuid string "bank_details option"
  | BatchFile uuid string
  | BatchLatestFile uuid
  | BatchResponse uuid "(uuid \<times> response_row list) option" "uuid option" "string option"
  | BatchFeed string uuid "dict list" bool "uuid option" "uuid option" "string option" timestamp timestamp

fun perform_batch :: "(uuid \<Rightarrow> string) \<Rightarrow> batch_request \<Rightarrow> payroll_db \<Rightarrow> payroll_db" where
  "perform_batch ustr (BatchCreate tag rid src mode held nts u) db =
     snd (create_batch_from_run ustr tag rid src mode held nts u db)"
| "perform_batch ustr (BatchApprove bid remarks u r now) db = snd (approve_batch bid remarks u r now db)"
| "perform_batch ustr (BatchReject bid reason u r now) db = snd (reject_batch bid reason u r now db)"
| "perform_batch ustr (BatchSubmit bid ref on_date nts u r) db =
     snd (submit_batch ustr bid ref on_date nts u r db)"
| "perform_batch ustr (BatchReconcile bid u r) db = snd (reconcile_batch bid u r db)"
| "perform_batch ustr (BatchHold bid iid reason) db = snd (hold_item bid iid reason db)"
| "perform_batch ustr (BatchRelease bid iid remarks) db = snd (release_item bid iid remarks db)"
| "perform_batch ustr (BatchRetry bid iid reason details) db = snd (retry_item bid iid reason details db)"
| "perform_batch ustr (BatchFile bid fmt) db = snd (generate_bank_file bid fmt db)"
| "perform_batch ustr (BatchLatestFile bid) db = snd (get_latest_bank_file bid db)"
| "perform_batch ustr (BatchResponse bid cached u r) db = snd (apply_bank_response bid cached u r db)"
| "perform_batch ustr (BatchFeed tag bid rows part c u r now paid_on) db =
     snd (reconcile_bank_feed ustr tag bid rows part c u r now paid_on db)"

definition batch_trace :: "(uuid \<Rightarrow> string) \<Rightarrow> batch_request list \<Rightarrow> payroll_db \<Rightarrow> payroll_db" where
  "batch_trace ustr ops db = foldl (\<lambda>d a. perform_batch ustr a d) db ops"

section \<open>What the operations do to the batch rows\<close>

definition same_origin :: "payment_batch \<Rightarrow> payment_batch \<Rightarrow> bool" where
  "same_origin b b' \<longleftrightarrow> pb_id b' = pb_id b \<and> pb_company_id b' = pb_company_id b \<and> pb_created_by b' = pb_created_by b"

text \<open>
  An operation on the batches: the configuration stays, and every batch afterwards is an old one, a
  new one without approval, or the successor of an old one with the same identity and creator.
\<close>

locale batch_operation =
  fixes effect :: "payroll_db \<Rightarrow> payroll_db"
    and rel :: "payroll_db \<Rightarrow> payment_batch \<Rightarrow> payment_batch \<Rightarrow> bool"
  assumes configs: "db_configs (effect db) = db_configs db"
    and rows: "b' \<in> set (db_batches (effect db)) \<Longrightarrow>
      b' \<in> set (db_batches db) \<or> pb_approved_by b' = None \<or>
      (\<exists>b \<in> set (db_batches db). rel db b b' \<and> same_origin b b')"
begin

lemma batch_invariant:
  assumes "\<And>b. pb_approved_by b = None \<Longrightarrow> P b"
    "\<And>b b'. rel db b b' \<Longrightarrow> same_origin b b' \<Longrightarrow> P b \<Longrightarrow> P b'"
    "\<forall>b \<in> set (db_batches db). P b"
  shows "\<forall>b \<in> set (db_batches (effect db)). P b"
  using assms rows by blast

lemma enforced: "is_maker_checker_enforced c (effect db) = is_maker_checker_enforced c db"
  by (cases c) (simp_all add: is_maker_checker_enforced_def configs)

end

definition same_approval :: "payment_batch \<Rightarrow> payment_batch \<Rightarrow> bool" where
  "same_approval b b' \<longleftrightarrow> pb_approved_by b' = pb_approved_by b"

fun batch_rel :: "batch_request \<Rightarrow> payroll_db \<Rightarrow> payment_batch \<Rightarrow> payment_batch \<Rightarrow> bool" where
  "batch_rel (BatchApprove bid remarks u r now) db b b' =
     (pb_id b = bid \<and> pb_approved_by b' = u \<and>
      (is_maker_checker_enforced (pb_company_id b) db = Inr True \<longrightarrow> (\<forall>x. u = Some x \<longrightarrow> x \<notin> set (maker_ids_for_batch b))))"
| "batch_rel a db b b' = same_approval b b'"

lemma get_batch_Inr: "get_batch bid db = Inr b \<Longrightarrow> b \<in> set (db_batches db) \<and> pb_id b = bid"
  unfolding get_batch_def bind_res_Inr_iff
  by (auto simp: scalar_one_or_none_Inr_Some filter_eq_Cons_iff split: option.splits)

lemma log_batch_frame [simp]:
  "db_batches (log_batch b a u r st rs db) = db_batches db"
  "db_batch_items (log_batch b a u r st rs db) = db_batch_items db"
  "db_bank_files (log_batch b a u r st rs db) = db_bank_files db"
  "db_payslips (log_batch b a u r st rs db) = db_payslips db"
  "db_configs (log_batch b a u r st rs db) = db_configs db"
  by (simp_all add: log_batch_def log_event_def)

lemma put_batch_frame [simp]:
  "db_batch_items (put_batch b db) = db_batch_items db" "db_bank_files (put_batch b db) = db_bank_files db"
  "db_payslips (put_batch b db) = db_payslips db" "db_configs (put_batch b db) = db_configs db"
  by (simp_all add: put_batch_def)

lemma put_item_frame [simp]:
  "db_batches (put_item i db) = db_batches db" "db_bank_files (put_item i db) = db_bank_files db"
  "db_payslips (put_item i db) = db_payslips db" "db_configs (put_item i db) = db_configs db"
  by (simp_all add: put_item_def)

lemma put_batch_rows: "x \<in> set (db_batches (put_batch b db)) \<Longrightarrow> x = b \<or> x \<in> set (db_batches db)"
  by (auto simp: put_batch_def in_set_update_where split: if_splits)

lemma change_item_frame [simp]:
  "db_batches (snd (change_item bid iid f db)) = db_batches db"
  "db_configs (snd (change_item bid iid f db)) = db_configs db"
  by (simp_all add: change_item_def split: sum.splits)

lemma generate_bank_file_frame [simp]:
  "db_batches (snd (generate_bank_file bid fmt db)) = db_batches db"
  "db_configs (snd (generate_bank_file bid fmt db)) = db_configs db"
  by (simp_all add: generate_bank_file_def split: sum.splits)

lemma get_latest_bank_file_frame [simp]:
  "db_batches (snd (get_latest_bank_file bid db)) = db_batches db"
  "db_configs (snd (get_latest_bank_file bid db)) = db_configs db"
  using generate_bank_file_frame [of bid "''GENERIC_NEFT_RTGS_CSV''" db]
  by (simp_all add: get_latest_bank_file_def Let_def case_prod_beta split: sum.splits option.splits)

lemma apply_row_frame:
  "db_batches (fst (fold (apply_row its) rows (db, n))) = db_batches db \<and>
   db_configs (fst (fold (apply_row its) rows (db, n))) = db_configs db"
  by (induction rows arbitrary: db n) (auto simp: apply_row_def split: option.splits)

lemma apply_outcomes_frame:
  "apply_outcomes b now paid_on ocs db = Inr db' \<Longrightarrow>
    db_batches db' = db_batches db \<and> db_configs db' = db_configs db"
  by (induction ocs arbitrary: db)
    (auto simp: bind_res_Inr_iff Let_def split: option.splits)

lemma feed_repayout_batches:
  "feed_repayout ustr tag b u failed db = Inr (rid, db') \<Longrightarrow>
    db_configs db' = db_configs db \<and>
    (db_batches db' = db_batches db \<or> (\<exists>rb. pb_approved_by rb = None \<and> db_batches db' = db_batches db @ [rb]))"
  unfolding feed_repayout_def add_repayout_def Let_def
  by (auto simp: bind_res_Inr_iff repayout_batch_def split: if_splits option.splits)

lemma check_batch_makers_frame:
  assumes "check_batch_makers b u r db = (res, db1)"
  shows "db_batches db1 = db_batches db" "db_configs db1 = db_configs db"
    "res = Inr x \<Longrightarrow> is_maker_checker_enforced (pb_company_id b) db = Inr True \<Longrightarrow>
      u = Some v \<Longrightarrow> v \<notin> set (maker_ids_for_batch b)"
  using assms unfolding check_batch_makers_def enforce_maker_checker_def
  by (auto simp: log_event_def split: sum.splits bool.splits option.splits if_splits)

text \<open>Replacing one batch row, whatever else is written to the other tables.\<close>

lemma put_batch_change:
  assumes "get_batch bid db = Inr b" "db_batches db' = db_batches (put_batch b' db)"
    "R b b'" "same_origin b b'"
  shows "x \<in> set (db_batches db') \<Longrightarrow>
    x \<in> set (db_batches db) \<or> pb_approved_by x = None \<or> (\<exists>b \<in> set (db_batches db). R b x \<and> same_origin b x)"
  using get_batch_Inr [OF assms(1)] put_batch_rows [of x b' db] assms(2-) by auto

lemma approve_batch_change:
  assumes db': "db' = snd (approve_batch bid remarks u r now db)"
  shows "db_configs db' = db_configs db" "x \<in> set (db_batches db') \<Longrightarrow>
    x \<in> set (db_batches db) \<or> pb_approved_by x = None \<or>
    (\<exists>b \<in> set (db_batches db). batch_rel (BatchApprove bid remarks u r now) db b x \<and> same_origin b x)"
proof -
  have "db_configs db' = db_configs db \<and> (x \<in> set (db_batches db') \<longrightarrow>
    x \<in> set (db_batches db) \<or> pb_approved_by x = None \<or>
    (\<exists>b \<in> set (db_batches db). batch_rel (BatchApprove bid remarks u r now) db b x \<and> same_origin b x))"
  proof (cases "get_batch bid db")
    case (Inr b)
    obtain res db1 where m: "check_batch_makers b u r db = (res, db1)" by fastforce
    note f = check_batch_makers_frame [OF m]
    show ?thesis
    proof (cases res)
      case (Inl e)
      then show ?thesis using Inr m f by (simp add: db' approve_batch_def)
    next
      case r: (Inr v)
      let ?b = "b\<lparr> pb_status := ''APPROVED'', pb_approved_by := u, pb_approved_at := Some now, pb_remarks := remarks \<rparr>"
      have d: "db_batches db' = db_batches (put_batch ?b db)" "db_configs db' = db_configs db"
        using Inr m r f(1,2) by (simp_all add: db' approve_batch_def Let_def put_batch_def)
      have "batch_rel (BatchApprove bid remarks u r now) db b ?b" for r
        using get_batch_Inr [OF Inr] f(3) [OF r] by simp
      then show ?thesis
        using put_batch_change [OF Inr d(1), of "batch_rel (BatchApprove bid remarks u r now) db" x] d(2)
        by (simp add: same_origin_def)
    qed
  qed (simp add: db' approve_batch_def)
  then show "db_configs db' = db_configs db" "x \<in> set (db_batches db') \<Longrightarrow>
    x \<in> set (db_batches db) \<or> pb_approved_by x = None \<or>
    (\<exists>b \<in> set (db_batches db). batch_rel (BatchApprove bid remarks u r now) db b x \<and> same_origin b x)"
    by simp_all
qed

text \<open>The other operations leave every approval as it is, or add a batch without one.\<close>

definition keeps_approvals :: "payroll_db \<Rightarrow> payroll_db \<Rightarrow> bool" where
  "keeps_approvals db db' \<longleftrightarrow> db_configs db' = db_configs db \<and>
     (\<forall>x \<in> set (db_batches db'). x \<in> set (db_batches db) \<or> pb_approved_by x = None \<or>
       (\<exists>b \<in> set (db_batches db). same_approval b x \<and> same_origin b x))"

lemma keeps_approvals_same:
  "db_configs db' = db_configs db \<Longrightarrow> db_batches db' = db_batches db \<Longrightarrow> keeps_approvals db db'"
  by (simp add: keeps_approvals_def)

lemma keeps_approvals_put:
  assumes "get_batch bid db = Inr b" "db_batches db1 = db_batches db" "db_batches db' = db_batches (put_batch b' db1)"
    "same_approval b b'" "same_origin b b'" "db_configs db' = db_configs db"
  shows "keeps_approvals db db'"
proof -
  have "db_batches db' = db_batches (put_batch b' db)" using assms(2,3) by (simp add: put_batch_def)
  then show ?thesis unfolding keeps_approvals_def
    using put_batch_change [OF assms(1), of db' b' same_approval] assms(4-6) by blast
qed

lemma reject_batch_change: "keeps_approvals db (snd (reject_batch bid reason u r now db))"
proof (cases "get_batch bid db")
  case (Inr b)
  then show ?thesis
    by (intro keeps_approvals_put [of bid db b db _ "b\<lparr> pb_status := ''REJECTED'', pb_rejected_by := u,
        pb_rejected_at := Some now, pb_rejection_reason := Some reason \<rparr>"])
      (simp_all add: reject_batch_def Let_def same_approval_def same_origin_def)
qed (simp add: reject_batch_def keeps_approvals_same)

lemma submit_batch_change: "keeps_approvals db (snd (submit_batch ustr bid ref on_date nts u r db))"
proof (cases "get_batch bid db")
  case (Inr b)
  then show ?thesis
    by (intro keeps_approvals_put [of bid db b db _ "b\<lparr> pb_status := ''SUBMITTED'', pb_bank_reference_number := Some ref,
        pb_submission_date := Some on_date, pb_notes := nts,
        pb_processed_by := (case u of None \<Rightarrow> pb_processed_by b | Some u \<Rightarrow> Some u) \<rparr>"])
      (simp_all add: submit_batch_def Let_def same_approval_def same_origin_def)
qed (simp add: submit_batch_def keeps_approvals_same)

lemma reconcile_change: "keeps_approvals db (snd (reconcile_batch bid u r db))"
proof (cases "get_batch bid db")
  case (Inr b)
  then show ?thesis
    by (intro keeps_approvals_put [of bid db b db _ "b\<lparr> pb_status := ''RECONCILED'' \<rparr>"])
      (simp_all add: reconcile_batch_def Let_def same_approval_def same_origin_def)
qed (simp add: reconcile_batch_def keeps_approvals_same)

lemma response_change: "keeps_approvals db (snd (apply_bank_response bid cached u r db))"
proof (cases "cached = None \<or> (\<exists>e. get_batch bid db = Inl e)")
  case True
  then show ?thesis by (auto simp: apply_bank_response_def keeps_approvals_same split: option.splits)
next
  case False
  then obtain k rows b where c: "cached = Some (k, rows)" "get_batch bid db = Inr b"
    by (cases cached; cases "get_batch bid db") auto
  obtain db1 n where f: "fold (apply_row (items_of bid db)) rows (db, 0) = (db1, n)" by fastforce
  have g: "db_batches db1 = db_batches db" "db_configs db1 = db_configs db"
    using apply_row_frame [of "items_of bid db" rows db 0] f by simp_all
  show ?thesis
    by (rule keeps_approvals_put [OF c(2) g(1), of _ "b\<lparr> pb_status := ''RECONCILED'' \<rparr>"])
      (use c f g in \<open>simp_all add: apply_bank_response_def same_approval_def same_origin_def\<close>)
qed

lemma create_batch_change:
  "keeps_approvals db (snd (create_batch_from_run ustr tag rid src mode held nts u db))"
  unfolding create_batch_from_run_def Let_def
  by (auto simp: keeps_approvals_def new_batch_def split: sum.splits option.splits)

lemma reconcile_bank_feed_cases:
  assumes "reconcile_bank_feed ustr tag bid rows part c u r now paid_on db = (res, db')"
  obtains (refused) e where "res = Inl e" "db' = db"
    | (applied) b ocs db1 db2 rid rep reason where
      "feed_rows_resolved ustr bid rows part c db = Inr (b, ocs)"
      "apply_outcomes b now paid_on ocs db = Inr db1"
      "feed_repayout ustr tag b u (failed_of now ocs) db1 = Inr (rid, db2)"
      "res = Inr rep" "fr_repayout_batch_id rep = rid"
      "fr_items rep = map (\<lambda>oc. (bi_id (oc_item oc), oc_status oc, oc_utr oc)) ocs"
      "db' = log_batch b ''BANK_UTR_RECONCILE'' u r ''RECONCILED'' (Some reason)
         (put_batch (b\<lparr> pb_status := ''RECONCILED'' \<rparr>) db2)"
proof -
  show ?thesis
    using assms refused applied unfolding reconcile_bank_feed_def Let_def
    by (auto simp: bind_res_Inr_iff bind_res_Inl_iff split: sum.splits prod.splits)
qed

lemma feed_rows_resolved_batch:
  "feed_rows_resolved ustr bid rows part c db = Inr (b, ocs) \<Longrightarrow>
    get_batch bid db = Inr b \<and> (\<exists>es. resolve_rows ustr (items_of bid db) part 1 [] rows = (es, ocs))"
  unfolding feed_rows_resolved_def
  by (auto simp: bind_res_Inr_iff Let_def split: if_splits prod.splits)

lemma feed_change: "keeps_approvals db (snd (reconcile_bank_feed ustr tag bid rows part c u r now paid_on db))"
proof -
  obtain res db' where e: "reconcile_bank_feed ustr tag bid rows part c u r now paid_on db = (res, db')" by fastforce
  have "keeps_approvals db db'"
    using e
  proof (cases rule: reconcile_bank_feed_cases)
    case (refused x)
    then show ?thesis by (simp add: keeps_approvals_same)
  next
    case (applied b ocs db1 db2 rid rep reason)
    have g: "get_batch bid db = Inr b" using feed_rows_resolved_batch [OF applied(1)] by simp
    have d: "db_configs db' = db_configs db" "db_batches db2 = db_batches db \<or>
        (\<exists>rb. pb_approved_by rb = None \<and> db_batches db2 = db_batches db @ [rb])"
      using feed_repayout_batches [OF applied(3)] apply_outcomes_frame [OF applied(2)] applied(7) by auto
    have "x = b\<lparr> pb_status := ''RECONCILED'' \<rparr> \<or> x \<in> set (db_batches db) \<or> pb_approved_by x = None"
      if "x \<in> set (db_batches db')" for x
      using that put_batch_rows [of x "b\<lparr> pb_status := ''RECONCILED'' \<rparr>" db2] d(2) applied(7) by auto
    moreover have "same_approval b (b\<lparr> pb_status := ''RECONCILED'' \<rparr>)" "same_origin b (b\<lparr> pb_status := ''RECONCILED'' \<rparr>)"
      by (simp_all add: same_approval_def same_origin_def)
    ultimately show ?thesis using d(1) get_batch_Inr [OF g] unfolding keeps_approvals_def by blast
  qed
  then show ?thesis by (simp add: e)
qed

lemma keeps_approvalsD:
  assumes "keeps_approvals db db'"
  shows "db_configs db' = db_configs db"
    "x \<in> set (db_batches db') \<Longrightarrow> x \<in> set (db_batches db) \<or> pb_approved_by x = None \<or>
       (\<exists>b \<in> set (db_batches db). same_approval b x \<and> same_origin b x)"
  using assms by (auto simp: keeps_approvals_def)

interpretation approval: batch_operation "\<lambda>db. snd (approve_batch bid remarks u r now db)"
    "batch_rel (BatchApprove bid remarks u r now)"
  for bid remarks u r now
  by unfold_locales (rule approve_batch_change [OF refl]; assumption?)+

lemma perform_batch_keeps:
  "(\<forall>bid remarks u r now. a \<noteq> BatchApprove bid remarks u r now) \<Longrightarrow> keeps_approvals db (perform_batch ustr a db)"
  by (cases a)
    (simp_all add: create_batch_change reject_batch_change submit_batch_change reconcile_change response_change
      feed_change hold_item_def release_item_def retry_item_def keeps_approvals_same)

interpretation batches: batch_operation "perform_batch ustr a" "batch_rel a" for ustr a
proof
  fix db x
  show "db_configs (perform_batch ustr a db) = db_configs db"
    by (cases "\<exists>bid remarks u r now. a = BatchApprove bid remarks u r now")
      (auto simp: approval.configs intro: keeps_approvalsD(1) [OF perform_batch_keeps])
  show "x \<in> set (db_batches db) \<or> pb_approved_by x = None \<or>
      (\<exists>b \<in> set (db_batches db). batch_rel a db b x \<and> same_origin b x)"
    if "x \<in> set (db_batches (perform_batch ustr a db))"
  proof (cases "\<exists>bid remarks u r now. a = BatchApprove bid remarks u r now")
    case True
    then show ?thesis using that approval.rows by fastforce
  next
    case False
    then have "batch_rel a db b x = same_approval b x" for b by (cases a) auto
    then show ?thesis using keeps_approvalsD(2) [OF perform_batch_keeps that] False by auto
  qed
qed

lemma maker_ids_batch_set:
  "set (maker_ids_for_batch b) = {u. pb_created_by b = Some u \<or> pb_processed_by b = Some u}"
  by (auto simp: maker_ids_for_batch_def split: option.splits)

definition dual_controlled :: "uuid \<Rightarrow> payroll_db \<Rightarrow> bool" where
  "dual_controlled c db \<longleftrightarrow>
     is_maker_checker_enforced (Some c) db = Inr True \<and>
     (\<forall>b \<in> set (db_batches db). pb_company_id b = Some c \<longrightarrow> pb_approved_by b \<noteq> None \<longrightarrow>
        pb_created_by b \<noteq> pb_approved_by b)"

interpretation dual_control: transition_system "perform_batch ustr" "dual_controlled c" for ustr c
proof
  fix db a
  assume d: "dual_controlled c db"
  have step: "pb_created_by b' \<noteq> pb_approved_by b'"
    if "batch_rel a db b b'" "same_origin b b'" "pb_company_id b' = Some c" "pb_approved_by b' \<noteq> None"
      "pb_company_id b = Some c \<longrightarrow> pb_approved_by b \<noteq> None \<longrightarrow> pb_created_by b \<noteq> pb_approved_by b" for b b'
  proof (cases "\<exists>bid remarks u r now. a = BatchApprove bid remarks u r now")
    case True
    then show ?thesis
      using that d by (auto simp: dual_controlled_def same_origin_def maker_ids_batch_set)
  next
    case False
    then have "same_approval b b'" using that(1) by (cases a) auto
    then show ?thesis using that by (auto simp: same_approval_def same_origin_def)
  qed
  show "dual_controlled c (perform_batch ustr a db)"
    unfolding dual_controlled_def batches.enforced
  proof
    show "is_maker_checker_enforced (Some c) db = Inr True" using d by (simp add: dual_controlled_def)
    show "\<forall>b \<in> set (db_batches (perform_batch ustr a db)). pb_company_id b = Some c \<longrightarrow> pb_approved_by b \<noteq> None \<longrightarrow>
        pb_created_by b \<noteq> pb_approved_by b"
    proof (rule batches.batch_invariant)
      show "\<forall>b \<in> set (db_batches db). pb_company_id b = Some c \<longrightarrow> pb_approved_by b \<noteq> None \<longrightarrow>
          pb_created_by b \<noteq> pb_approved_by b" using d by (simp add: dual_controlled_def)
    qed (use step in blast)+
  qed
qed

lemma assert_export_approved_Inr:
  "assert_export_approved b = Inr x \<longleftrightarrow> pb_approved_by b \<noteq> None \<and> pb_approved_at b \<noteq> None \<and>
     pb_status b \<in> {''APPROVED'', ''SUBMITTED'', ''RECONCILED''}"
  by (auto simp: assert_export_approved_def)

lemma generate_bank_file_Inr:
  assumes "generate_bank_file bid fmt db = (Inr f, db')"
  obtains b k where "get_batch bid db = Inr b" "assert_export_approved b = Inr ()"
    "normalise_bank_format fmt = Inr k" "filter exportable (items_of bid db) \<noteq> []"
    "f = new_bank_file (fresh_id (map bf_id (db_bank_files db))) k b (filter exportable (items_of bid db))"
    "db' = db\<lparr> db_bank_files := db_bank_files db @ [f] \<rparr>"
  using assms unfolding generate_bank_file_def
  by (auto simp: bind_res_Inr_iff Let_def split: sum.splits if_splits)

text \<open>
  C11: money leaves only with a second person. On a tenant that enforces dual control, whatever
  requests on its batches came before and in whatever order: when a bank file is generated, its batch
  carries an approver who did not create it, and that user's approval request is among the requests.
\<close>

theorem bank_file_needs_second_approver:
  assumes "is_maker_checker_enforced (Some c) db = Inr True" "\<forall>b \<in> set (db_batches db). pb_approved_by b = None"
    "db' = batch_trace ustr ops db" "generate_bank_file bid fmt db' = (Inr f, db'')" "bf_company_id f = Some c"
  shows "\<exists>b u before remarks r now after. b \<in> set (db_batches db') \<and> pb_id b = bid \<and>
    pb_approved_by b = Some u \<and> pb_created_by b \<noteq> Some u \<and>
    ops = before @ BatchApprove bid remarks (Some u) r now # after"
proof -
  obtain b k where b: "get_batch bid db' = Inr b" "assert_export_approved b = Inr ()"
    "f = new_bank_file (fresh_id (map bf_id (db_bank_files db'))) k b (filter exportable (items_of bid db'))"
    using assms(4) by (rule generate_bank_file_Inr)
  obtain u where u: "pb_approved_by b = Some u" using b(2) by (auto simp: assert_export_approved_Inr)
  have at: "b \<in> set (db_batches db')" "pb_id b = bid" using get_batch_Inr [OF b(1)] by simp_all
  have "dual_controlled c db'"
    using dual_control.trace_keeps [of c db ustr ops] assms(1-3) by (simp add: dual_controlled_def batch_trace_def)
  then have four_eyes: "pb_created_by b \<noteq> Some u"
    using at u b(3) assms(5) by (auto simp: dual_controlled_def new_bank_file_def)
  let ?Q = "\<lambda>d. \<exists>b \<in> set (db_batches d). pb_id b = bid \<and> pb_approved_by b = Some u"
  have dc: "dual_controlled c db" using assms(1,2) by (simp add: dual_controlled_def)
  have unapproved: "\<not> ?Q db" using assms(2) by auto
  have approved: "?Q (foldl (\<lambda>d a. perform_batch ustr a d) db ops)"
    using at u assms(3) by (auto simp: batch_trace_def)
  obtain before a after where split: "ops = before @ a # after"
    and "dual_controlled c (foldl (\<lambda>d a. perform_batch ustr a d) db before)"
    and pre: "\<not> ?Q (foldl (\<lambda>d a. perform_batch ustr a d) db before)"
    and post: "?Q (perform_batch ustr a (foldl (\<lambda>d a. perform_batch ustr a d) db before))"
    using dc unapproved approved by (rule dual_control.entering_step [where Q = ?Q])
  let ?d = "foldl (\<lambda>d a. perform_batch ustr a d) db before"
  obtain b' where b': "b' \<in> set (db_batches (perform_batch ustr a ?d))" "pb_id b' = bid" "pb_approved_by b' = Some u"
    using post by blast
  then obtain b0 where "b0 \<in> set (db_batches ?d)" and r: "batch_rel a ?d b0 b'" "same_origin b0 b'"
    using batches.rows [OF b'(1)] pre by auto
  then have "\<not> same_approval b0 b'" using pre b'(2,3) by (auto simp: same_approval_def same_origin_def)
  then obtain remarks ro now where "a = BatchApprove bid remarks (Some u) ro now"
    using r b'(2,3) by (cases a) (auto simp: same_origin_def)
  then show ?thesis using at u four_eyes split by blast
qed

section \<open>A sample payout\<close>

definition sample_pay_row :: "uuid \<Rightarrow> int \<Rightarrow> run_employee" where
  "sample_pay_row e net =
     \<lparr> re_run_id = 1, re_employee_id = e, re_company_id = Some 1, re_gross_earnings_paise = net,
       re_total_deductions_paise = 0, re_net_pay_paise = net, re_gross_base_paise = net,
       re_total_deductions_base_paise = 0, re_net_base_paise = net, re_paid_days = 30, re_lop_days = 0,
       re_status = ''PROCESSED'', re_validation_status = ''VALID'', re_earnings_breakup = [],
       re_deductions_breakup = [] \<rparr>"

definition sample_payout_db :: payroll_db where
  "sample_payout_db = empty_db\<lparr> db_runs := [sample_run_row 1 LOCKED], db_configs := [default_config 2 (Some 1)],
     db_run_employees := [sample_pay_row 11 5000000, sample_pay_row 12 4250050] \<rparr>"

definition sample_payout_ops :: "batch_request list" where
  "sample_payout_ops =
     [BatchCreate ''a1b2c3'' 1 ''ACC-1'' ''NEFT'' [] None (Some 7), BatchApprove 1 None (Some 7) None 10,
      BatchApprove 1 None (Some 8) None 11]"

definition sample_batch :: payment_batch where
  "sample_batch =
     \<lparr> pb_id = 1, pb_company_id = Some 1, pb_run_id = 1, pb_batch_number = ''PB-202505-A1B2C3'',
       pb_source_account_id = ''ACC-1'', pb_payment_mode = ''NEFT'', pb_status = ''DRAFT'',
       pb_total_amount_paise = 9250050, pb_total_records = 2, pb_bank_reference_number = None,
       pb_submission_date = None, pb_notes = None, pb_created_by = Some 7, pb_processed_by = None,
       pb_approved_by = None, pb_approved_at = None, pb_remarks = None, pb_rejected_by = None,
       pb_rejected_at = None, pb_rejection_reason = None, pb_retry_of_batch_id = None \<rparr>"

definition sample_item :: "uuid \<Rightarrow> uuid \<Rightarrow> int \<Rightarrow> batch_item" where
  "sample_item i e amount =
     \<lparr> bi_id = i, bi_batch_id = 1, bi_employee_id = e, bi_company_id = Some 1, bi_amount_paise = amount,
       bi_status = ''PENDING'', bi_hold_reason = None, bi_account_number = Some ''000000000'',
       bi_ifsc_code = Some ''HDFC0001234'', bi_account_holder_name = Some ''Employee'',
       bi_transaction_ref = None, bi_utr_number = None, bi_reconciled_at = None, bi_repayout_batch_id = None,
       bi_error_message = None, bi_remarks = None, bi_retry_count = 0 \<rparr>"

definition sample_created :: payroll_db where
  "sample_created = sample_payout_db\<lparr> db_batches := [sample_batch],
     db_batch_items := [sample_item 1 11 5000000, sample_item 2 12 4250050] \<rparr>"

lemma sample_created_eq:
  "perform_batch nat_digits (BatchCreate ''a1b2c3'' 1 ''ACC-1'' ''NEFT'' [] None (Some 7)) sample_payout_db = sample_created"
  by code_simp

text \<open>The creator's own approval is refused, user 8's is not.\<close>

definition sample_approved :: payroll_db where
  "sample_approved = perform_batch nat_digits (BatchApprove 1 None (Some 8) None 11)
     (perform_batch nat_digits (BatchApprove 1 None (Some 7) None 10) sample_created)"

lemma sample_approved_trace: "sample_approved = batch_trace nat_digits sample_payout_ops sample_payout_db"
  unfolding sample_approved_def sample_created_eq [symmetric] by (simp add: batch_trace_def sample_payout_ops_def)

lemma sample_approved_tables:
  "(db_batches sample_approved, db_batch_items sample_approved, db_bank_files sample_approved, db_payslips sample_approved) =
   ([sample_batch\<lparr> pb_status := ''APPROVED'', pb_approved_by := Some 8, pb_approved_at := Some 11 \<rparr>],
    [sample_item 1 11 5000000, sample_item 2 12 4250050], [], [])"
  by code_simp

lemmas sample_approved_rows = sample_approved_tables [unfolded prod.inject, THEN conjunct1]
  sample_approved_tables [unfolded prod.inject, THEN conjunct2, THEN conjunct1]
  sample_approved_tables [unfolded prod.inject, THEN conjunct2, THEN conjunct2, THEN conjunct1]
  sample_approved_tables [unfolded prod.inject, THEN conjunct2, THEN conjunct2, THEN conjunct2]

lemma normalise_HDFC: "normalise_bank_format ''HDFC_CSV'' = Inr ''HDFC_ENET_CSV''"
  by code_simp

lemma sample_bank_file:
  obtains f db' where "generate_bank_file 1 ''HDFC_CSV'' sample_approved = (Inr f, db')" "bf_company_id f = Some 1"
  using sample_approved_rows normalise_HDFC
  by (simp add: generate_bank_file_def get_batch_def items_of_def assert_export_approved_def exportable_def
      sample_batch_def sample_item_def new_bank_file_def)

theorem bank_file_needs_second_approver_witness:
  "\<exists>b u. b \<in> set (db_batches sample_approved) \<and> pb_approved_by b = Some u \<and> pb_created_by b \<noteq> Some u"
proof -
  obtain f db'' where g: "generate_bank_file 1 ''HDFC_CSV'' sample_approved = (Inr f, db'')" "bf_company_id f = Some 1"
    by (rule sample_bank_file)
  have e: "is_maker_checker_enforced (Some 1) sample_payout_db = Inr True" by code_simp
  have n: "\<forall>b \<in> set (db_batches sample_payout_db). pb_approved_by b = None"
    by (simp add: sample_payout_db_def empty_db_def)
  show ?thesis using bank_file_needs_second_approver [OF e n sample_approved_trace g] by blast
qed

section \<open>The control total of a bank file\<close>

text \<open>Reading an amount back: the digits, without the point, are the number of paise.\<close>

definition paise_of_text :: "string \<Rightarrow> int" where
  "paise_of_text s = foldl digit_step 0 (filter (\<lambda>c. c \<noteq> CHR ''.'') s)"

lemma paise_of_amount_text:
  assumes "0 \<le> n"
  shows "paise_of_text (amount_text n) = n"
proof -
  have d: "nat (n mod 100 div 10) < 10" "nat (n mod 10) < 10" using assms by auto
  have "n mod 100 mod 10 = n mod 10" by (simp add: mod_mod_cancel)
  then have "10 * (n mod 100 div 10) + n mod 10 = n mod 100" using mult_div_mod_eq [of 10 "n mod 100"] by simp
  moreover have "100 * (n div 100) + n mod 100 = n" by (rule mult_div_mod_eq)
  ultimately have "100 * (n div 100) + 10 * (n mod 100 div 10) + n mod 10 = n" by linarith
  moreover have "0 \<le> n mod 100 div 10" by simp
  moreover have "foldl digit_step 0 (nat_digits (nat (n div 100))) = n div 100" using assms by (simp add: nat_digits_value)
  ultimately show ?thesis using assms d
    by (simp add: paise_of_text_def amount_text_def two_places_def nat_digits_no_point nat_digits_one digit_char)
qed

lemma item_row_columns:
  "item_row fmt b i ! Suc 0 = or_str (bi_account_number i) []" "item_row fmt b i ! 3 = amount_text (bi_amount_paise i)"
  by (simp_all add: item_row_def Let_def)

text \<open>
  C12: a bank file states what is paid. After its header it has one line per exportable item of the
  batch, in order, with the item's account, and the amounts read back from the file add up to the
  amounts of those items, to the paisa.
\<close>

theorem bank_file_control_total:
  assumes "generate_bank_file bid fmt db = (Inr f, db')"
    "\<forall>i \<in> set (items_of bid db). 0 \<le> bi_amount_paise i"
  shows "\<exists>rows. bf_rows f = header_rows (bf_file_format f) @ rows \<and>
    map (\<lambda>r. r ! 1) rows = map (\<lambda>i. or_str (bi_account_number i) []) (filter exportable (items_of bid db)) \<and>
    (\<Sum>r\<leftarrow>rows. paise_of_text (r ! 3)) = (\<Sum>i\<leftarrow>filter exportable (items_of bid db). bi_amount_paise i)"
proof -
  obtain b k where b: "f = new_bank_file (fresh_id (map bf_id (db_bank_files db))) k b (filter exportable (items_of bid db))"
    using assms(1) by (rule generate_bank_file_Inr)
  have "paise_of_text (item_row k b i ! 3) = bi_amount_paise i" if "i \<in> set (filter exportable (items_of bid db))" for i
    using that assms(2) by (simp add: item_row_columns paise_of_amount_text)
  then have "(\<Sum>i\<leftarrow>filter exportable (items_of bid db). paise_of_text (item_row k b i ! 3)) =
    (\<Sum>i\<leftarrow>filter exportable (items_of bid db). bi_amount_paise i)"
    by (intro arg_cong [of _ _ sum_list] map_cong) auto
  then show ?thesis
    by (intro exI [of _ "map (item_row k b) (filter exportable (items_of bid db))"])
      (simp add: b new_bank_file_def item_row_columns(1) comp_def)
qed

theorem bank_file_control_total_witness:
  "\<exists>rows. (\<Sum>r\<leftarrow>rows. paise_of_text (r ! 3)) = 9250050 \<and> length rows = 2"
proof -
  have i: "items_of 1 sample_approved = [sample_item 1 11 5000000, sample_item 2 12 4250050]"
    "filter exportable [sample_item 1 11 5000000, sample_item 2 12 4250050] =
      [sample_item 1 11 5000000, sample_item 2 12 4250050]"
    using sample_approved_rows(2) by (simp_all add: items_of_def exportable_def sample_item_def)
  have n: "\<forall>i \<in> set (items_of 1 sample_approved). 0 \<le> bi_amount_paise i"
    unfolding i by (simp add: sample_item_def)
  obtain f db' where "generate_bank_file 1 ''HDFC_CSV'' sample_approved = (Inr f, db')" by (rule sample_bank_file)
  from bank_file_control_total [OF this n] obtain rows where
    "map (\<lambda>r. r ! 1) rows = map (\<lambda>i. or_str (bi_account_number i) []) [sample_item 1 11 5000000, sample_item 2 12 4250050]"
    "(\<Sum>r\<leftarrow>rows. paise_of_text (r ! 3)) = (\<Sum>i\<leftarrow>[sample_item 1 11 5000000, sample_item 2 12 4250050]. bi_amount_paise i)"
    unfolding i by blast
  then show ?thesis by (intro exI [of _ rows]) (auto simp: sample_item_def dest: arg_cong [of _ _ length])
qed

end
