(* ===== verification/Bank_Feed.thy ===== *)
theory Bank_Feed
  imports Payment_Batch
begin

text \<open>
  What a bank feed (\<open>reconcile_bank_feed\<close>) does to the items of the batches: payments that
  are reported paid stay paid, and the re-payout of failed items conserves their amounts.
\<close>

section \<open>The effect of a feed on the items\<close>

lemma last_match_in: "last_match P xs = Some x \<Longrightarrow> x \<in> set xs \<and> P x"
  using scalars_first_Some [of "rev (filter P xs)" x] by (auto simp: last_match_def)

lemma match_item_in: "match_item ustr its row = Inr (Some i) \<Longrightarrow> i \<in> set its"
  unfolding match_item_def Let_def
  by (auto split: if_splits dest: last_match_in scalars_first_Some)

lemma canonical_status_Some: "canonical_status raw = Some st \<Longrightarrow> st \<in> {''PAID'', ''FAILED''}"
  unfolding canonical_status_def by (metis insertI1 insertI2 option.distinct(1) option.inject)

lemma judge_row_cases:
  assumes "judge_row i row = Inr oc"
  obtains raw where "canonical_status raw = Some (oc_status oc)" "oc_item oc = i"
    "\<not> (bi_status i = ''PAID'' \<and> (oc_status oc \<noteq> ''PAID'' \<or> or_str (bi_utr_number i) [] \<noteq> [] \<and> bi_utr_number i \<noteq> oc_utr oc))"
proof -
  define raw where "raw = py_upper (py_strip (or_str (first_key row [''status'', ''Status'']) []))"
  define utr where "utr = map_option py_strip
    (first_key row [''utr_number'', ''utr'', ''UTR'', ''transaction_ref'', ''TransactionRef'', ''Ref''])"
  obtain st where st: "canonical_status raw = Some st"
    using assms unfolding judge_row_def Let_def raw_def [symmetric] utr_def [symmetric]
    by (cases "canonical_status raw") simp_all
  have u: "\<not> (st = ''PAID'' \<and> or_str utr [] = [])"
    "\<not> (bi_status i = ''PAID'' \<and> (st \<noteq> ''PAID'' \<or> or_str (bi_utr_number i) [] \<noteq> [] \<and> bi_utr_number i \<noteq> utr))"
    "oc_item oc = i" "oc_status oc = st" "oc_utr oc = utr"
    using assms unfolding judge_row_def Let_def raw_def [symmetric] utr_def [symmetric] st option.case
    by (simp_all only: split: if_split_asm) (auto simp only: sum.distinct sum.inject outcome.simps)
  show ?thesis by (rule that [of raw]) (use st u in simp_all)
qed

lemma judge_row_Inr:
  assumes "judge_row i row = Inr oc"
  shows "oc_item oc = i" "oc_status oc \<in> {''PAID'', ''FAILED''}"
    "bi_status i = ''PAID'' \<Longrightarrow> oc_status oc = ''PAID''"
    "bi_status i = ''PAID'' \<Longrightarrow> or_str (bi_utr_number i) [] \<noteq> [] \<Longrightarrow> oc_utr oc = bi_utr_number i"
  using judge_row_cases [OF assms] canonical_status_Some by metis+

text \<open>What the validation of a feed promises about each outcome of an item of \<open>xs\<close>.\<close>

definition sound_outcome :: "batch_item list \<Rightarrow> outcome \<Rightarrow> bool" where
  "sound_outcome xs oc \<longleftrightarrow> oc_item oc \<in> set xs \<and> oc_status oc \<in> {''PAID'', ''FAILED''} \<and>
     (bi_status (oc_item oc) = ''PAID'' \<longrightarrow> oc_status oc = ''PAID'' \<and>
        (or_str (bi_utr_number (oc_item oc)) [] \<noteq> [] \<longrightarrow> oc_utr oc = bi_utr_number (oc_item oc)))"

definition outcome_ids :: "outcome list \<Rightarrow> uuid list" where
  "outcome_ids ocs = map (\<lambda>oc. bi_id (oc_item oc)) ocs"

lemma resolve_rows_sound:
  "resolve_rows ustr its part n seen rows = (es, ocs) \<Longrightarrow>
    distinct (outcome_ids ocs) \<and> set (outcome_ids ocs) \<inter> set seen = {} \<and> (\<forall>oc \<in> set ocs. sound_outcome its oc)"
proof (induction rows arbitrary: n seen es ocs)
  case Nil
  then show ?case by (simp add: outcome_ids_def)
next
  case (Cons row rows)
  show ?case
  proof (cases "match_item ustr its row")
    case (Inl e)
    then show ?thesis using Cons by (auto simp: apfst_def map_prod_def split: prod.splits)
  next
    case (Inr m)
    show ?thesis
    proof (cases m)
      case None
      then show ?thesis using Cons Inr by (auto simp: apfst_def map_prod_def split: prod.splits if_splits)
    next
      case (Some i)
      have i: "i \<in> set its" using Inr Some match_item_in by blast
      show ?thesis
      proof (cases "bi_id i \<in> set seen")
        case True
        then show ?thesis using Cons Inr Some by (auto simp: apfst_def map_prod_def split: prod.splits)
      next
        case False
        obtain es1 ocs1 where r: "resolve_rows ustr its part (Suc n) (bi_id i # seen) rows = (es1, ocs1)" by fastforce
        note IH = Cons.IH [OF r]
        show ?thesis
        proof (cases "judge_row i row")
          case (Inl e)
          then show ?thesis using IH Cons.prems Inr Some False r by auto
        next
          case j: (Inr oc)
          then have o: "ocs = oc # ocs1" using Cons.prems Inr Some False r by auto
          have "sound_outcome its oc" using judge_row_Inr [OF j] i by (auto simp: sound_outcome_def)
          then show ?thesis using IH False judge_row_Inr(1) [OF j] by (auto simp: o outcome_ids_def)
        qed
      qed
    qed
  qed
qed

lemma settled_sel [simp]:
  "bi_id (settled now oc) = bi_id (oc_item oc)" "bi_batch_id (settled now oc) = bi_batch_id (oc_item oc)"
  "bi_amount_paise (settled now oc) = bi_amount_paise (oc_item oc)" "bi_status (settled now oc) = oc_status oc"
  "bi_utr_number (settled now oc) = oc_utr oc" "bi_repayout_batch_id (settled now oc) = bi_repayout_batch_id (oc_item oc)"
  by (simp_all add: settled_def)

definition feed_image :: "timestamp \<Rightarrow> outcome list \<Rightarrow> batch_item \<Rightarrow> batch_item" where
  "feed_image now ocs x =
     (case map_of (map (\<lambda>oc. (bi_id (oc_item oc), settled now oc)) ocs) (bi_id x) of None \<Rightarrow> x | Some y \<Rightarrow> y)"

lemma feed_image_cases:
  assumes "distinct (map bi_id xs)" "distinct (outcome_ids ocs)" "\<forall>oc \<in> set ocs. oc_item oc \<in> set xs" "x \<in> set xs"
  obtains (hit) oc where "oc \<in> set ocs" "oc_item oc = x" "feed_image now ocs x = settled now oc"
    | (miss) "bi_id x \<notin> set (outcome_ids ocs)" "feed_image now ocs x = x"
proof (cases "bi_id x \<in> set (outcome_ids ocs)")
  case True
  then obtain oc where oc: "oc \<in> set ocs" "bi_id (oc_item oc) = bi_id x" by (auto simp: outcome_ids_def)
  then have x: "oc_item oc = x" using assms(1,3,4) by (auto simp: distinct_map dest: inj_onD)
  have "map_of (map (\<lambda>oc. (bi_id (oc_item oc), settled now oc)) ocs) (bi_id x) = Some (settled now oc)"
    using oc assms(2) by (intro map_of_is_SomeI) (force simp: outcome_ids_def comp_def)+
  then show ?thesis using hit [OF oc(1) x] by (simp add: feed_image_def)
next
  case False
  then have "map_of (map (\<lambda>oc. (bi_id (oc_item oc), settled now oc)) ocs) (bi_id x) = None"
    by (auto simp: map_of_eq_None_iff outcome_ids_def image_image)
  then show ?thesis using miss [OF False] by (simp add: feed_image_def)
qed

lemma feed_image_id [simp]: "bi_id (feed_image now ocs x) = bi_id x"
proof (cases "map_of (map (\<lambda>oc. (bi_id (oc_item oc), settled now oc)) ocs) (bi_id x)")
  case (Some y)
  then show ?thesis using map_of_SomeD [OF Some] by (auto simp: feed_image_def)
qed (simp add: feed_image_def)

lemma apply_outcomes_items:
  assumes "apply_outcomes b now paid_on ocs db = Inr db'" "distinct (outcome_ids ocs)"
  shows "db_batch_items db' = map (feed_image now ocs) (db_batch_items db)"
  using assms
proof (induction ocs arbitrary: db)
  case Nil
  then show ?case by (simp add: feed_image_def)
next
  case (Cons oc ocs)
  obtain db1 where d: "apply_outcomes b now paid_on ocs db1 = Inr db'"
    "db_batch_items db1 = update_where (\<lambda>x. bi_id x = bi_id (oc_item oc)) (\<lambda>_. settled now oc) (db_batch_items db)"
    using Cons.prems(1) by (auto simp: bind_res_Inr_iff Let_def put_item_def split: option.splits)
  have n: "map_of (map (\<lambda>oc. (bi_id (oc_item oc), settled now oc)) ocs) (bi_id (oc_item oc)) = None"
    using Cons.prems(2) by (auto simp: map_of_eq_None_iff outcome_ids_def image_image)
  have "db_batch_items db' = map (feed_image now ocs) (db_batch_items db1)"
    using Cons.IH [OF d(1)] Cons.prems(2) by (simp add: outcome_ids_def)
  also have "\<dots> = map (feed_image now (oc # ocs)) (db_batch_items db)"
    unfolding d(2) update_where_def map_map by (rule map_cong) (use n in \<open>auto simp: feed_image_def\<close>)
  finally show ?case .
qed

section \<open>The items after a feed\<close>

definition linked_to :: "uuid set \<Rightarrow> uuid \<Rightarrow> batch_item \<Rightarrow> batch_item" where
  "linked_to ids rid x = (if bi_id x \<in> ids then x\<lparr> bi_repayout_batch_id := Some rid \<rparr> else x)"

lemma linked_to_sel [simp]:
  "bi_id (linked_to ids rid x) = bi_id x" "bi_batch_id (linked_to ids rid x) = bi_batch_id x"
  "bi_amount_paise (linked_to ids rid x) = bi_amount_paise x" "bi_status (linked_to ids rid x) = bi_status x"
  "bi_utr_number (linked_to ids rid x) = bi_utr_number x"
  "bi_repayout_batch_id (linked_to ids rid x) = (if bi_id x \<in> ids then Some rid else bi_repayout_batch_id x)"
  by (simp_all add: linked_to_def)

definition pending_of :: "timestamp \<Rightarrow> outcome list \<Rightarrow> batch_item list" where
  "pending_of now ocs = filter (\<lambda>i. bi_repayout_batch_id i = None) (failed_of now ocs)"

lemma feed_repayout_cases:
  assumes "feed_repayout ustr tag b u (failed_of now ocs) db = Inr (rid, db')"
  obtains (none) "pending_of now ocs = []" "db' = db"
    | (some) r its where "pending_of now ocs \<noteq> []" "r = fresh_id (map pb_id (db_batches db))"
      "db_batches db' = db_batches db @ [repayout_batch r tag b u (pending_of now ocs)]"
      "db_batch_items db' = map (linked_to (set (map bi_id (pending_of now ocs))) r) (db_batch_items db) @ its"
      "map bi_amount_paise its = map bi_amount_paise (pending_of now ocs)" "\<forall>i \<in> set its. bi_batch_id i = r \<and> bi_status i = ''PENDING''"
proof (cases "pending_of now ocs = []")
  case True
  then have "db' = db" using assms unfolding feed_repayout_def pending_of_def [symmetric]
    by (auto simp: Let_def split: option.splits if_splits)
  then show ?thesis using none True by blast
next
  case False
  let ?P = "pending_of now ocs"
  let ?r = "fresh_id (map pb_id (db_batches db))"
  define its where "its = map (\<lambda>(k, i). repayout_item ustr ?r (fresh_id (map bi_id (db_batch_items db)) + k) i) (enumerate 0 ?P)"
  have d: "db' = db\<lparr> db_batches := db_batches db @ [repayout_batch ?r tag b u ?P],
      db_batch_items := update_where (\<lambda>i. bi_id i \<in> set (map bi_id ?P)) (\<lambda>i. i\<lparr> bi_repayout_batch_id := Some ?r \<rparr>)
        (db_batch_items db) @ its \<rparr>"
    using assms False unfolding feed_repayout_def add_repayout_def Let_def pending_of_def [symmetric] its_def
    by (auto simp: bind_res_Inr_iff split: if_splits)
  have "map bi_amount_paise its = map bi_amount_paise (map snd (enumerate 0 ?P))"
    unfolding its_def map_map by (intro map_cong) (auto simp: repayout_item_def)
  then have "map bi_amount_paise its = map bi_amount_paise ?P" by simp
  moreover have "\<forall>i \<in> set its. bi_batch_id i = ?r \<and> bi_status i = ''PENDING''" by (auto simp: its_def repayout_item_def)
  moreover have "db_batch_items db' = map (linked_to (set (map bi_id ?P)) ?r) (db_batch_items db) @ its"
    by (simp add: d update_where_def linked_to_def)
  ultimately show ?thesis using some [OF False refl] d by simp
qed

text \<open>
  The effect of an accepted feed on the table of items: every old item becomes its image, failed
  items without a re-payout are linked to the new batch, and the re-payout items are appended.
\<close>

lemma feed_effect:
  assumes "reconcile_bank_feed ustr tag bid rows part c u r now paid_on db = (Inr rep, db')"
    "distinct (map bi_id (db_batch_items db))"
  obtains b ocs rid its where "get_batch bid db = Inr b" "distinct (outcome_ids ocs)"
    "\<forall>oc \<in> set ocs. sound_outcome (items_of bid db) oc"
    "fr_items rep = map (\<lambda>oc. (bi_id (oc_item oc), oc_status oc, oc_utr oc)) ocs"
    "db_batch_items db' = map (\<lambda>x. linked_to (set (map bi_id (pending_of now ocs))) rid (feed_image now ocs x))
       (db_batch_items db) @ its"
    "map bi_amount_paise its = map bi_amount_paise (pending_of now ocs)"
    "its \<noteq> [] \<longrightarrow> rid \<notin> set (map pb_id (db_batches db)) \<and> (\<forall>i \<in> set its. bi_batch_id i = rid \<and> bi_status i = ''PENDING'') \<and>
       (\<exists>rb \<in> set (db_batches db'). pb_id rb = rid \<and> pb_status rb = ''DRAFT'' \<and> pb_approved_by rb = None \<and>
          pb_total_amount_paise rb = (\<Sum>i\<leftarrow>its. bi_amount_paise i))"
  using assms(1)
proof (cases rule: reconcile_bank_feed_cases)
  case (applied b ocs db1 db2 rid rep' reason)
  obtain es where g: "get_batch bid db = Inr b" "resolve_rows ustr (items_of bid db) part 1 [] rows = (es, ocs)"
    using feed_rows_resolved_batch [OF applied(1)] by blast
  note s = resolve_rows_sound [OF g(2)]
  have d: "distinct (outcome_ids ocs)" "\<forall>oc \<in> set ocs. sound_outcome (items_of bid db) oc" using s by blast+
  note it = apply_outcomes_items [OF applied(2) d(1)]
  have bt: "db_batches db1 = db_batches db" using apply_outcomes_frame [OF applied(2)] by simp
  have rep: "fr_items rep = map (\<lambda>oc. (bi_id (oc_item oc), oc_status oc, oc_utr oc)) ocs"
    using applied(4,6) by simp
  have items: "db_batch_items db' = db_batch_items db2" using applied(7) by simp
  from applied(3) show ?thesis
  proof (cases rule: feed_repayout_cases)
    case none
    have "db_batch_items db' = map (\<lambda>x. linked_to (set (map bi_id (pending_of now ocs))) 0 (feed_image now ocs x))
       (db_batch_items db) @ []"
      using it items none by (simp add: linked_to_def)
    moreover have "map bi_amount_paise [] = map bi_amount_paise (pending_of now ocs)" using none(1) by simp
    ultimately show ?thesis using that [OF g(1) d rep] by blast
  next
    case (some q its)
    have i: "db_batch_items db' = map (\<lambda>x. linked_to (set (map bi_id (pending_of now ocs))) q (feed_image now ocs x))
       (db_batch_items db) @ its"
      using some(4) it items by (simp add: comp_def)
    have q: "q \<notin> set (map pb_id (db_batches db))" using some(2) bt fresh_id_notin by metis
    let ?rb = "repayout_batch q tag b u (pending_of now ocs)"
    have "pb_id ?rb \<noteq> pb_id b" using q get_batch_Inr [OF g(1)] by (auto simp: repayout_batch_def)
    then have "?rb \<in> set (db_batches db')"
      using some(3) applied(7) by (auto simp: put_batch_def in_set_update_where)
    moreover have "pb_id ?rb = q" "pb_status ?rb = ''DRAFT''" "pb_approved_by ?rb = None"
      "pb_total_amount_paise ?rb = (\<Sum>i\<leftarrow>its. bi_amount_paise i)"
      using some(5) by (simp_all add: repayout_batch_def)
    ultimately show ?thesis using that [OF g(1) d rep i some(5)] q some(6) by blast
  qed
qed simp

lemma pending_of_set:
  "set (pending_of now ocs) =
     {settled now oc | oc. oc \<in> set ocs \<and> oc_status oc = ''FAILED'' \<and> bi_repayout_batch_id (oc_item oc) = None}"
  by (auto simp: pending_of_def failed_of_def)

lemma items_of_in: "\<forall>oc \<in> set ocs. sound_outcome (items_of bid db) oc \<Longrightarrow>
    \<forall>oc \<in> set ocs. oc_item oc \<in> set (db_batch_items db) \<and> bi_batch_id (oc_item oc) = bid"
  by (auto simp: sound_outcome_def items_of_def)

lemma unique_outcome:
  "distinct (outcome_ids ocs) \<Longrightarrow> oc \<in> set ocs \<Longrightarrow> oc' \<in> set ocs \<Longrightarrow> bi_id (oc_item oc) = bi_id (oc_item oc') \<Longrightarrow> oc = oc'"
  by (auto simp: outcome_ids_def distinct_map dest: inj_onD)

lemma pending_ids_iff:
  "i \<in> set (map bi_id (pending_of now ocs)) \<longleftrightarrow>
     (\<exists>oc \<in> set ocs. bi_id (oc_item oc) = i \<and> oc_status oc = ''FAILED'' \<and> bi_repayout_batch_id (oc_item oc) = None)"
  unfolding set_map pending_of_set by (auto simp: image_iff)

lemma feed_image_facts:
  assumes "distinct (map bi_id xs)" "distinct (outcome_ids ocs)" "\<forall>oc \<in> set ocs. oc_item oc \<in> set xs" "x \<in> set xs"
  shows "bi_amount_paise (feed_image now ocs x) = bi_amount_paise x"
    "bi_repayout_batch_id (feed_image now ocs x) = bi_repayout_batch_id x"
    "bi_id x \<in> set (map bi_id (pending_of now ocs)) \<longleftrightarrow> bi_repayout_batch_id x = None \<and>
       (\<exists>utr. (bi_id x, ''FAILED'', utr) \<in> set (map (\<lambda>oc. (bi_id (oc_item oc), oc_status oc, oc_utr oc)) ocs))"
    "bi_id x \<in> set (map bi_id (pending_of now ocs)) \<Longrightarrow> feed_image now ocs x \<in> set (pending_of now ocs)"
proof -
  let ?S = "set (map bi_id (pending_of now ocs))"
  have f: "(\<exists>utr. (bi_id x, ''FAILED'', utr) \<in> set (map (\<lambda>oc. (bi_id (oc_item oc), oc_status oc, oc_utr oc)) ocs)) \<longleftrightarrow>
      (\<exists>oc \<in> set ocs. bi_id (oc_item oc) = bi_id x \<and> oc_status oc = ''FAILED'')" by force
  have own: "oc_item oc = x" if "oc \<in> set ocs" "bi_id (oc_item oc) = bi_id x" for oc
    using assms that by (auto simp: distinct_map dest: inj_onD)
  show "bi_id x \<in> ?S \<longleftrightarrow> bi_repayout_batch_id x = None \<and>
       (\<exists>utr. (bi_id x, ''FAILED'', utr) \<in> set (map (\<lambda>oc. (bi_id (oc_item oc), oc_status oc, oc_utr oc)) ocs))"
    unfolding f pending_ids_iff using own by blast
  have "bi_amount_paise (feed_image now ocs x) = bi_amount_paise x \<and>
    bi_repayout_batch_id (feed_image now ocs x) = bi_repayout_batch_id x \<and>
    (bi_id x \<in> ?S \<longrightarrow> feed_image now ocs x \<in> set (pending_of now ocs))"
    using assms
  proof (cases rule: feed_image_cases [where now = now])
    case (hit oc)
    have "feed_image now ocs x \<in> set (pending_of now ocs)" if i: "bi_id x \<in> ?S"
    proof -
      obtain oc' where o': "oc' \<in> set ocs" "bi_id (oc_item oc') = bi_id x" "oc_status oc' = ''FAILED''"
        "bi_repayout_batch_id (oc_item oc') = None" using i unfolding pending_ids_iff by blast
      then have "oc' = oc" using unique_outcome [OF assms(2) o'(1) hit(1)] hit(2) by simp
      then show ?thesis using o' hit(3) unfolding pending_of_set by blast
    qed
    then show ?thesis using hit(2,3) by simp
  next
    case miss
    then have "bi_id x \<notin> ?S" unfolding pending_ids_iff by (force simp: outcome_ids_def)
    then show ?thesis using miss(2) by simp
  qed
  then show "bi_amount_paise (feed_image now ocs x) = bi_amount_paise x"
    "bi_repayout_batch_id (feed_image now ocs x) = bi_repayout_batch_id x"
    "bi_id x \<in> ?S \<Longrightarrow> feed_image now ocs x \<in> set (pending_of now ocs)" by simp_all
qed

section \<open>Properties of a feed\<close>

text \<open>
  C17: a payment that the bank confirmed is final for the feed. However the rows of a later feed name
  an item that is PAID with a UTR, an accepted feed leaves its status, UTR, amount and re-payout
  alone; and it does not touch the items of any other batch.
\<close>

theorem bank_feed_paid_is_final:
  assumes "reconcile_bank_feed ustr tag bid rows part c u r now paid_on db = (Inr rep, db')"
    "distinct (map bi_id (db_batch_items db))"
    "x \<in> set (db_batch_items db)" "bi_status x = ''PAID'' \<and> or_str (bi_utr_number x) [] \<noteq> [] \<or> bi_batch_id x \<noteq> bid"
  shows "\<exists>y \<in> set (db_batch_items db'). bi_id y = bi_id x \<and> bi_status y = bi_status x \<and> bi_utr_number y = bi_utr_number x \<and>
    bi_amount_paise y = bi_amount_paise x \<and> bi_repayout_batch_id y = bi_repayout_batch_id x"
proof -
  obtain ocs rid its where e: "distinct (outcome_ids ocs)" "\<forall>oc \<in> set ocs. sound_outcome (items_of bid db) oc"
    "db_batch_items db' = map (\<lambda>x. linked_to (set (map bi_id (pending_of now ocs))) rid (feed_image now ocs x)) (db_batch_items db) @ its"
    using assms(1,2) by (rule feed_effect)
  note o = items_of_in [OF e(2)]
  let ?y = "linked_to (set (map bi_id (pending_of now ocs))) rid (feed_image now ocs x)"
  have y: "?y \<in> set (db_batch_items db')" using assms(3) e(3) by auto
  have "\<forall>oc \<in> set ocs. oc_item oc \<in> set (db_batch_items db)" using o by blast
  from assms(2) e(1) this assms(3) show ?thesis
  proof (cases rule: feed_image_cases [where now = now])
    case (hit oc)
    then have p: "bi_status x = ''PAID''" "or_str (bi_utr_number x) [] \<noteq> []" using assms(4) o by auto
    then have st: "oc_status oc = ''PAID''" "oc_utr oc = bi_utr_number x"
      using hit e(2) by (auto simp: sound_outcome_def)
    have "bi_id x \<notin> set (map bi_id (pending_of now ocs))"
    proof
      assume "bi_id x \<in> set (map bi_id (pending_of now ocs))"
      then obtain oc' where q: "oc' \<in> set ocs" "oc_status oc' = ''FAILED''" "bi_id (oc_item oc') = bi_id (oc_item oc)"
        using hit(2) by (auto simp: pending_of_set)
      show False using unique_outcome [OF e(1) q(1) hit(1) q(3)] q(2) st(1) by simp
    qed
    then show ?thesis using y hit st p by (intro bexI [OF _ y]) auto
  next
    case miss
    then have "bi_id x \<notin> set (map bi_id (pending_of now ocs))"
      unfolding pending_ids_iff by (force simp: outcome_ids_def)
    then show ?thesis using miss by (intro bexI [OF _ y]) auto
  qed
qed

text \<open>The items that a feed links to a re-payout, by their place in the table.\<close>

definition newly_linked :: "batch_item list \<Rightarrow> batch_item list \<Rightarrow> nat set" where
  "newly_linked xs ys =
     {k. k < length xs \<and> bi_repayout_batch_id (xs ! k) = None \<and> bi_repayout_batch_id (ys ! k) \<noteq> None}"

text \<open>The pending failures of a feed are the images of the items at the places that carry their ids.\<close>

lemma distinct_pending:
  assumes "distinct (outcome_ids ocs)"
  shows "distinct (pending_of now ocs)"
proof -
  have "distinct (map bi_id (failed_of now ocs))"
    using assms by (simp add: failed_of_def outcome_ids_def comp_def distinct_map_filter)
  then show ?thesis unfolding pending_of_def by (simp add: distinct_map)
qed

lemma pending_image:
  assumes "distinct (map bi_id xs)" "distinct (outcome_ids ocs)" "\<forall>oc \<in> set ocs. oc_item oc \<in> set xs"
    "y \<in> set (pending_of now ocs)"
  obtains k where "k < length xs" "bi_id (xs ! k) = bi_id y" "feed_image now ocs (xs ! k) = y"
proof -
  obtain oc where oc: "y = settled now oc" "oc \<in> set ocs" using assms(4) by (auto simp: pending_of_set)
  obtain k where k: "k < length xs" "xs ! k = oc_item oc" using assms(3) oc(2) by (metis in_set_conv_nth)
  have "xs ! k \<in> set xs" using k(1) by simp
  with assms(1-3) have "feed_image now ocs (xs ! k) = y"
  proof (cases rule: feed_image_cases [where now = now])
    case (hit oc')
    then show ?thesis using unique_outcome [OF assms(2) hit(1) oc(2)] k(2) oc(1) by simp
  next
    case miss
    then show ?thesis using k(2) oc(2) by (auto simp: outcome_ids_def)
  qed
  then show ?thesis using that [OF k(1)] oc(1) k(2) by simp
qed

lemma pending_places:
  assumes "distinct (map bi_id xs)" "distinct (outcome_ids ocs)" "\<forall>oc \<in> set ocs. oc_item oc \<in> set xs"
    and hit: "\<And>k. k < length xs \<Longrightarrow> bi_id (xs ! k) \<in> set (map bi_id (pending_of now ocs)) \<Longrightarrow>
      feed_image now ocs (xs ! k) \<in> set (pending_of now ocs)"
  shows "bij_betw (\<lambda>k. feed_image now ocs (xs ! k))
    {k. k < length xs \<and> bi_id (xs ! k) \<in> set (map bi_id (pending_of now ocs))} (set (pending_of now ocs))"
    (is "bij_betw ?f ?K ?P")
proof (rule bij_betw_imageI)
  show "inj_on ?f ?K"
  proof (rule inj_onI)
    fix k l assume k: "k \<in> ?K" "l \<in> ?K" and eq: "?f k = ?f l"
    have "map bi_id xs ! k = map bi_id xs ! l" using k arg_cong [OF eq, of bi_id] by simp
    then show "k = l" using k nth_eq_iff_index_eq [OF assms(1)] by auto
  qed
  show "?f ` ?K = ?P"
  proof (intro set_eqI iffI)
    fix y assume "y \<in> ?P"
    then obtain k where "k < length xs" "bi_id (xs ! k) = bi_id y" "?f k = y"
      using pending_image [OF assms(1-3)] by blast
    then show "y \<in> ?f ` ?K" using \<open>y \<in> ?P\<close> by (intro rev_image_eqI [of k]) simp_all
  qed (use hit in blast)
qed

text \<open>
  C18: re-payouts conserve money. An accepted feed never re-issues an item that already has a
  re-payout, it links exactly the items that it reports failed, and the amounts of the re-payout items
  it appends, the total of the new draft batch, are the amounts of the items it links.
\<close>

theorem bank_feed_repayout_conserves:
  assumes "reconcile_bank_feed ustr tag bid rows part c u r now paid_on db = (Inr rep, db')"
    "distinct (map bi_id (db_batch_items db))"
  defines "xs \<equiv> db_batch_items db" and "ys \<equiv> db_batch_items db'"
  shows "(\<forall>k < length xs. bi_id (ys ! k) = bi_id (xs ! k) \<and> bi_amount_paise (ys ! k) = bi_amount_paise (xs ! k)) \<and>
    (\<forall>k < length xs. bi_repayout_batch_id (xs ! k) \<noteq> None \<longrightarrow> bi_repayout_batch_id (ys ! k) = bi_repayout_batch_id (xs ! k)) \<and>
    newly_linked xs ys = {k. k < length xs \<and> bi_repayout_batch_id (xs ! k) = None \<and>
       (\<exists>utr. (bi_id (xs ! k), ''FAILED'', utr) \<in> set (fr_items rep))} \<and>
    (\<Sum>i\<leftarrow>drop (length xs) ys. bi_amount_paise i) = (\<Sum>k \<in> newly_linked xs ys. bi_amount_paise (xs ! k)) \<and>
    (drop (length xs) ys \<noteq> [] \<longrightarrow> (\<exists>rb \<in> set (db_batches db'). pb_status rb = ''DRAFT'' \<and> pb_approved_by rb = None \<and>
       pb_id rb \<notin> set (map pb_id (db_batches db)) \<and>
       pb_total_amount_paise rb = (\<Sum>i\<leftarrow>drop (length xs) ys. bi_amount_paise i)))"
proof -
  obtain ocs rid its where e: "distinct (outcome_ids ocs)" "\<forall>oc \<in> set ocs. sound_outcome (items_of bid db) oc"
    "fr_items rep = map (\<lambda>oc. (bi_id (oc_item oc), oc_status oc, oc_utr oc)) ocs"
    "db_batch_items db' = map (\<lambda>x. linked_to (set (map bi_id (pending_of now ocs))) rid (feed_image now ocs x)) (db_batch_items db) @ its"
    "map bi_amount_paise its = map bi_amount_paise (pending_of now ocs)"
    "its \<noteq> [] \<longrightarrow> rid \<notin> set (map pb_id (db_batches db)) \<and> (\<forall>i \<in> set its. bi_batch_id i = rid \<and> bi_status i = ''PENDING'') \<and>
       (\<exists>rb \<in> set (db_batches db'). pb_id rb = rid \<and> pb_status rb = ''DRAFT'' \<and> pb_approved_by rb = None \<and>
          pb_total_amount_paise rb = (\<Sum>i\<leftarrow>its. bi_amount_paise i))"
    using assms(1,2) by (rule feed_effect)
  let ?P = "pending_of now ocs" let ?S = "set (map bi_id ?P)" let ?n = "length xs"
  have d: "distinct (map bi_id xs)" using assms(2) by (simp add: xs_def)
  have o: "\<forall>oc \<in> set ocs. oc_item oc \<in> set xs" using items_of_in [OF e(2)] by (simp add: xs_def)
  have ys: "ys = map (\<lambda>x. linked_to ?S rid (feed_image now ocs x)) xs @ its" using e(4) by (simp add: xs_def ys_def)
  have at: "ys ! k = linked_to ?S rid (feed_image now ocs (xs ! k))" if "k < ?n" for k
    using that by (simp add: ys nth_append)
  have image: "bi_amount_paise (feed_image now ocs x) = bi_amount_paise x \<and>
      bi_repayout_batch_id (feed_image now ocs x) = bi_repayout_batch_id x \<and>
      (bi_id x \<in> ?S \<longleftrightarrow> bi_repayout_batch_id x = None \<and> (\<exists>utr. (bi_id x, ''FAILED'', utr) \<in> set (fr_items rep))) \<and>
      (bi_id x \<in> ?S \<longrightarrow> feed_image now ocs x \<in> set ?P)" if x: "x \<in> set xs" for x
    using feed_image_facts [OF d e(1) o x] e(3) by simp
  have in_xs: "xs ! k \<in> set xs" if "k < ?n" for k using that by simp
  have "k \<in> newly_linked xs ys \<longleftrightarrow> k < ?n \<and> bi_id (xs ! k) \<in> ?S" for k
  proof (cases "k < ?n")
    case True
    then show ?thesis using at [OF True] image [OF in_xs [OF True]]
      by (cases "bi_id (xs ! k) \<in> ?S") (simp_all add: newly_linked_def, auto)
  qed (simp add: newly_linked_def)
  then have linked: "newly_linked xs ys = {k. k < ?n \<and> bi_id (xs ! k) \<in> ?S}" by blast
  have bij: "bij_betw (\<lambda>k. feed_image now ocs (xs ! k)) {k. k < ?n \<and> bi_id (xs ! k) \<in> ?S} (set ?P)"
    using pending_places [OF d e(1) o] image [OF in_xs] by blast
  have drop: "drop ?n ys = its" by (simp add: ys)
  have "(\<Sum>i\<leftarrow>its. bi_amount_paise i) = (\<Sum>i \<in> set ?P. bi_amount_paise i)"
    using e(5) distinct_pending [OF e(1)] by (simp add: sum_list_distinct_conv_sum_set)
  also have "\<dots> = (\<Sum>k \<in> newly_linked xs ys. bi_amount_paise (feed_image now ocs (xs ! k)))"
    unfolding linked by (rule sum.reindex_bij_betw [OF bij, symmetric])
  also have "\<dots> = (\<Sum>k \<in> newly_linked xs ys. bi_amount_paise (xs ! k))"
    using image [OF in_xs] by (intro sum.cong) (auto simp: linked)
  finally have sum: "(\<Sum>i\<leftarrow>drop ?n ys. bi_amount_paise i) = (\<Sum>k \<in> newly_linked xs ys. bi_amount_paise (xs ! k))"
    by (simp add: drop)
  have "newly_linked xs ys = {k. k < ?n \<and> bi_repayout_batch_id (xs ! k) = None \<and>
       (\<exists>utr. (bi_id (xs ! k), ''FAILED'', utr) \<in> set (fr_items rep))}"
    using image [OF in_xs] unfolding linked by blast
  moreover have "drop ?n ys \<noteq> [] \<longrightarrow> (\<exists>rb \<in> set (db_batches db'). pb_status rb = ''DRAFT'' \<and> pb_approved_by rb = None \<and>
       pb_id rb \<notin> set (map pb_id (db_batches db)) \<and> pb_total_amount_paise rb = (\<Sum>i\<leftarrow>drop ?n ys. bi_amount_paise i))"
    unfolding drop using e(6) by blast
  ultimately show ?thesis using at image [OF in_xs] sum by auto
qed

section \<open>Sample feeds\<close>

definition sample_ready :: "batch_item list \<Rightarrow> payroll_db" where
  "sample_ready its = empty_db\<lparr> db_batches := [sample_batch\<lparr> pb_status := ''APPROVED'', pb_approved_by := Some 8,
     pb_approved_at := Some 11 \<rparr>], db_batch_items := its \<rparr>"

definition sample_rows :: "dict list" where
  "sample_rows = [[(''item_id'', ''1''), (''status'', ''paid''), (''utr'', ''U1'')],
     [(''item_id'', ''2''), (''status'', ''returned''), (''reason'', ''closed'')]]"

definition sample_feed :: "feed_report result \<times> payroll_db" where
  "sample_feed = reconcile_bank_feed nat_digits ''99'' 1 sample_rows False (Some 1) (Some 7) None 50 51
     (sample_ready [sample_item 1 11 5000000, sample_item 2 12 4250050])"

lemma sample_feed_items:
  "(case fst sample_feed of Inl e \<Rightarrow> [] | Inr rep \<Rightarrow> fr_items rep) = [(1, ''PAID'', Some ''U1''), (2, ''FAILED'', None)]"
  by code_simp

text \<open>A later feed on item 1, which is paid, and item 2.\<close>

definition sample_paid_item :: batch_item where
  "sample_paid_item = (sample_item 1 11 5000000)\<lparr> bi_status := ''PAID'', bi_utr_number := Some ''U1'' \<rparr>"

definition sample_later_feed :: "feed_report result \<times> payroll_db" where
  "sample_later_feed = reconcile_bank_feed nat_digits ''99'' 1 sample_rows False (Some 1) (Some 7) None 50 51
     (sample_ready [sample_paid_item, sample_item 2 12 4250050])"

lemma sample_later_feed_ok: "(case fst sample_later_feed of Inl e \<Rightarrow> False | Inr rep \<Rightarrow> True) = True"
  by code_simp

theorem bank_feed_paid_is_final_witness:
  "\<exists>y \<in> set (db_batch_items (snd sample_later_feed)). bi_id y = 1 \<and> bi_status y = ''PAID'' \<and> bi_utr_number y = Some ''U1''"
proof -
  obtain res db' where r: "sample_later_feed = (res, db')" by fastforce
  obtain rep where e: "sample_later_feed = (Inr rep, db')"
    using sample_later_feed_ok [unfolded r fst_conv] r by (cases res) simp_all
  let ?db = "sample_ready [sample_paid_item, sample_item 2 12 4250050]"
  have d: "distinct (map bi_id (db_batch_items ?db))" "sample_paid_item \<in> set (db_batch_items ?db)"
    "bi_status sample_paid_item = ''PAID'' \<and> or_str (bi_utr_number sample_paid_item) [] \<noteq> [] \<or> bi_batch_id sample_paid_item \<noteq> 1"
    by (simp_all add: sample_ready_def sample_paid_item_def sample_item_def)
  from bank_feed_paid_is_final [OF e [unfolded sample_later_feed_def] d]
  show ?thesis unfolding e by (auto simp: sample_paid_item_def sample_item_def)
qed

theorem bank_feed_repayout_conserves_witness:
  "(\<Sum>i\<leftarrow>drop 2 (db_batch_items (snd sample_feed)). bi_amount_paise i) = 4250050"
proof -
  obtain res db' where r: "sample_feed = (res, db')" by fastforce
  obtain rep where e: "sample_feed = (Inr rep, db')" "fr_items rep = [(1, ''PAID'', Some ''U1''), (2, ''FAILED'', None)]"
    using sample_feed_items [unfolded r fst_conv] r by (cases res) simp_all
  let ?db = "sample_ready [sample_item 1 11 5000000, sample_item 2 12 4250050]"
  have xs: "db_batch_items ?db = [sample_item 1 11 5000000, sample_item 2 12 4250050]" by (simp add: sample_ready_def)
  have d: "distinct (map bi_id (db_batch_items ?db))" unfolding xs by (simp add: sample_item_def)
  note c = bank_feed_repayout_conserves [OF e(1) [unfolded sample_feed_def] d, unfolded xs]
  have "{k. k < length [sample_item 1 11 5000000, sample_item 2 12 4250050] \<and>
      bi_repayout_batch_id ([sample_item 1 11 5000000, sample_item 2 12 4250050] ! k) = None \<and>
      (\<exists>utr. (bi_id ([sample_item 1 11 5000000, sample_item 2 12 4250050] ! k), ''FAILED'', utr) \<in> set (fr_items rep))} = {1}"
    by (auto simp: e(2) sample_item_def less_Suc_eq nth_Cons' split: if_splits)
  then show ?thesis using c by (simp add: e(1) sample_item_def numeral_2_eq_2)
qed

section \<open>What a feed does not promise\<close>

text \<open>
  Two rows with the bank's batch reference, matched by account: the feed is accepted once, and the
  same feed is refused when it is sent again, because both rows now match the item that carries the
  reference last.
\<close>

definition sample_accounts :: "batch_item list" where
  "sample_accounts = [(sample_item 1 11 5000000)\<lparr> bi_account_number := Some ''A'' \<rparr>,
     (sample_item 2 12 4250050)\<lparr> bi_account_number := Some ''B'' \<rparr>]"

definition sample_reference_rows :: "dict list" where
  "sample_reference_rows =
     [[(''account'', ''A''), (''Ref'', ''R''), (''status'', ''PAID'')], [(''account'', ''B''), (''Ref'', ''R''), (''status'', ''PAID'')]]"

definition feed_twice :: "dict list \<Rightarrow> dict list \<Rightarrow> batch_item list \<Rightarrow> feed_report result \<times> feed_report result \<times> batch_item list" where
  "feed_twice rows1 rows2 its =
     (case reconcile_bank_feed nat_digits ''9'' 1 rows1 False None None None 50 51 (sample_ready its) of
        (r1, db1) \<Rightarrow> (case reconcile_bank_feed nat_digits ''8'' 1 rows2 False None None None 60 61 db1 of
           (r2, db2) \<Rightarrow> (r1, r2, db_batch_items db2)))"

lemma feed_replay_refused:
  "(case feed_twice sample_reference_rows sample_reference_rows sample_accounts of
      (Inr r1, Inl e, its) \<Rightarrow> fr_updated_count r1 = 2 \<and> e = HTTPException 400 ''INVALID_BANK_FEED'' | _ \<Rightarrow> False) = True"
  by code_simp

text \<open>
  A payout first reported failed and later reported paid is paid twice: the item is PAID and its
  re-payout is still PENDING in another batch.
\<close>

lemma feed_failed_then_paid:
  "(case feed_twice [[(''item_id'', ''1''), (''status'', ''FAILED'')]] [[(''item_id'', ''1''), (''status'', ''PAID''), (''utr'', ''U'')]]
      [sample_item 1 11 5000000] of
      (r1, r2, its) \<Rightarrow> map (\<lambda>i. (bi_batch_id i, bi_status i, bi_amount_paise i)) its) =
   [(1, ''PAID'', 5000000), (2, ''PENDING'', 5000000)]"
  by code_simp

end
