(* ===== verification/Compensation.thy ===== *)
theory Compensation
  imports Run_Machine
begin

text \<open>
  Salaries: \<open>app/services/payroll/compensation_service.py\<close>. An employee has at most one
  ACTIVE compensation, which the run engine reads with \<open>scalar_one_or_none\<close>; assignments
  overwrite it, approved revisions and bulk imports supersede it. The parsers of identifiers and
  numbers and the cache of previews are arguments.
\<close>

section \<open>The split of a salary\<close>

text \<open>
  \<open>int(x * 0.5)\<close> and \<open>int(x * 0.4)\<close> on doubles truncate towards zero; below
  \<open>2 ^ 50\<close> paise they are the exact quotients written here.
\<close>

definition int_half :: "int \<Rightarrow> int" where
  "int_half n = (if n < 0 then - ((- n) div 2) else n div 2)"

definition int_two_fifths :: "int \<Rightarrow> int" where
  "int_two_fifths n = (if n < 0 then - ((- n) * 2 div 5) else n * 2 div 5)"

definition basic_of_ctc :: "int \<Rightarrow> int" where
  "basic_of_ctc ctc = int_half (ctc div 12)"

definition hra_of_basic :: "int \<Rightarrow> int" where
  "hra_of_basic basic = int_two_fifths basic"

definition special_of :: "int \<Rightarrow> int \<Rightarrow> int \<Rightarrow> int" where
  "special_of ctc basic hra = max 0 (ctc div 12 - (basic + hra))"

section \<open>Rows\<close>

definition new_compensation ::
  "uuid \<Rightarrow> uuid \<Rightarrow> uuid option \<Rightarrow> int \<Rightarrow> int \<Rightarrow> int \<Rightarrow> int \<Rightarrow> string \<Rightarrow> rat \<Rightarrow> date \<Rightarrow> string option \<Rightarrow> compensation"
where
  "new_compensation i eid company_id ctc basic hra special ccy fx eff remarks =
     \<lparr> cp_id = i, cp_employee_id = eid, cp_company_id = company_id, cp_status = ''ACTIVE'',
       cp_ctc_annual_paise = ctc, cp_basic_monthly_paise = basic, cp_hra_monthly_paise = hra,
       cp_special_allowance_monthly_paise = special, cp_currency = ccy, cp_fx_rate_to_inr = fx,
       cp_effective_date = eff, cp_remarks = remarks \<rparr>"

text \<open>The row of a revision or an import leaves currency and rate to the column defaults.\<close>

definition split_compensation ::
  "uuid \<Rightarrow> uuid \<Rightarrow> uuid option \<Rightarrow> int \<Rightarrow> date \<Rightarrow> string option \<Rightarrow> compensation" where
  "split_compensation i eid company_id ctc eff remarks =
     (let basic = basic_of_ctc ctc; hra = hra_of_basic basic
      in new_compensation i eid company_id ctc basic hra (special_of ctc basic hra) ''INR'' 1 eff remarks)"

definition fresh_compensation_id :: "payroll_db \<Rightarrow> uuid" where
  "fresh_compensation_id db = fresh_id (map cp_id (db_compensations db))"

definition add_compensation :: "compensation \<Rightarrow> payroll_db \<Rightarrow> payroll_db" where
  "add_compensation c db = db\<lparr> db_compensations := db_compensations db @ [c] \<rparr>"

definition put_compensation :: "compensation \<Rightarrow> payroll_db \<Rightarrow> payroll_db" where
  "put_compensation c db =
     db\<lparr> db_compensations := update_where (\<lambda>x. cp_id x = cp_id c) (\<lambda>_. c) (db_compensations db) \<rparr>"

definition find_employee :: "uuid \<Rightarrow> payroll_db \<Rightarrow> employee option result" where
  "find_employee eid db = scalar_one_or_none (filter (\<lambda>e. em_id e = eid) (db_employees db))"

section \<open>Operations\<close>

definition get_employee_compensation :: "uuid \<Rightarrow> date \<Rightarrow> payroll_db \<Rightarrow> compensation result \<times> payroll_db" where
  "get_employee_compensation eid today db =
     (case active_compensation eid db of
        Inl e \<Rightarrow> (Inl e, db)
      | Inr (Some c) \<Rightarrow> (Inr c, db)
      | Inr None \<Rightarrow>
          (case find_employee eid db of
             Inl e \<Rightarrow> (Inl e, db)
           | Inr None \<Rightarrow> (Inl (HTTPException 404 ''Employee not found.''), db)
           | Inr (Some emp) \<Rightarrow>
               let c = new_compensation (fresh_compensation_id db) eid (em_company_id emp) (600000 * 100)
                         (25000 * 100) (10000 * 100) (15000 * 100) ''INR'' 1 today None
               in (Inr c, add_compensation c db)))"

definition assigned_currency ::
  "compensation option \<Rightarrow> string option \<Rightarrow> dec_input option \<Rightarrow> (string \<times> rat) result" where
  "assigned_currency current ccy fx =
     (let previous = (case current of Some c \<Rightarrow> cp_currency c | None \<Rightarrow> ''INR'')
      in bind_res (normalize_currency (Some (or_str ccy previous)) ''INR'') (\<lambda>target.
         bind_res
           (case (fx, current) of
              (Some v, _) \<Rightarrow> positive_fx_rate v
            | (None, Some c) \<Rightarrow>
                if target = previous then positive_fx_rate (Finite (cp_fx_rate_to_inr c))
                else if target = ''INR'' then Inr 1
                else Inl (ValueError ''An explicit FX rate to INR is required when assigning non-INR compensation.'')
            | (None, None) \<Rightarrow>
                if target = ''INR'' then Inr 1
                else Inl (ValueError ''An explicit FX rate to INR is required when assigning non-INR compensation.''))
           (\<lambda>rate.
              if target = ''INR'' \<and> rate \<noteq> 1
              then Inl (ValueError ''INR compensation must use an FX rate of 1.'')
              else Inr (target, rate))))"

text \<open>A ValueError becomes a 422; an exception of another class escapes the handler.\<close>

fun unprocessable :: "exc \<Rightarrow> exc" where
  "unprocessable (ValueError m) = HTTPException 422 m"
| "unprocessable e = e"

definition assign_or_update_compensation ::
  "uuid \<Rightarrow> int \<Rightarrow> int option \<Rightarrow> int option \<Rightarrow> int option \<Rightarrow> date option \<Rightarrow> string option \<Rightarrow> string option
    \<Rightarrow> dec_input option \<Rightarrow> date \<Rightarrow> payroll_db \<Rightarrow> compensation result \<times> payroll_db"
where
  "assign_or_update_compensation eid ctc basic_opt hra_opt special_opt effective remarks ccy fx today db =
     (case active_compensation eid db of
        Inl e \<Rightarrow> (Inl e, db)
      | Inr current \<Rightarrow>
          (case assigned_currency current ccy fx of
             Inl e \<Rightarrow> (Inl (unprocessable e), db)
           | Inr (target, rate) \<Rightarrow>
               let basic = (case basic_opt of Some b \<Rightarrow> b | None \<Rightarrow> basic_of_ctc ctc);
                   hra = (case hra_opt of Some h \<Rightarrow> h | None \<Rightarrow> hra_of_basic basic);
                   special = (case special_opt of Some s \<Rightarrow> s | None \<Rightarrow> special_of ctc basic hra);
                   eff = (case effective of Some d \<Rightarrow> d | None \<Rightarrow> today)
               in case current of
                    None \<Rightarrow>
                      (case find_employee eid db of
                         Inl e \<Rightarrow> (Inl e, db)
                       | Inr None \<Rightarrow> (Inl IntegrityError, db)
                       | Inr (Some emp) \<Rightarrow>
                           let c = new_compensation (fresh_compensation_id db) eid (em_company_id emp) ctc basic hra
                                     special target rate eff remarks
                           in (Inr c, add_compensation c db))
                  | Some c \<Rightarrow>
                      let c' = c\<lparr> cp_ctc_annual_paise := ctc, cp_basic_monthly_paise := basic,
                                  cp_hra_monthly_paise := hra, cp_special_allowance_monthly_paise := special,
                                  cp_currency := target, cp_fx_rate_to_inr := rate,
                                  cp_effective_date := eff, cp_remarks := remarks \<rparr>
                      in (Inr c', put_compensation c' db)))"

text \<open>The CREATE audit row is added after the commit, and lost.\<close>

definition create_compensation_revision ::
  "uuid \<Rightarrow> int \<Rightarrow> date \<Rightarrow> string \<Rightarrow> string option \<Rightarrow> date \<Rightarrow> payroll_db \<Rightarrow> compensation_revision result \<times> payroll_db"
where
  "create_compensation_revision eid new_ctc effective reason nts today db =
     (case get_employee_compensation eid today db of
        (Inl e, db1) \<Rightarrow> (Inl e, db1)
      | (Inr current, db1) \<Rightarrow>
          let rv = \<lparr> rv_id = fresh_id (map rv_id (db_revisions db1)), rv_employee_id = eid,
                     rv_company_id = cp_company_id current,
                     rv_current_ctc_annual_paise = cp_ctc_annual_paise current,
                     rv_new_ctc_annual_paise = new_ctc, rv_effective_date = effective, rv_reason = reason,
                     rv_notes = nts, rv_status = ''PENDING'', rv_approved_by = None, rv_approved_at = None,
                     rv_remarks = None, rv_rejected_by = None, rv_rejected_at = None,
                     rv_rejection_reason = None \<rparr>
          in (Inr rv, db1\<lparr> db_revisions := db_revisions db1 @ [rv] \<rparr>))"

definition pending_revision :: "uuid \<Rightarrow> string \<Rightarrow> payroll_db \<Rightarrow> compensation_revision result" where
  "pending_revision vid message db =
     bind_res (scalar_one_or_none (filter (\<lambda>v. rv_id v = vid) (db_revisions db)))
       (\<lambda>found. case found of
           None \<Rightarrow> Inl (HTTPException 404 ''Compensation revision not found.'')
         | Some v \<Rightarrow>
             if rv_status v \<noteq> ''PENDING'' then Inl (HTTPException 400 message) else Inr v)"

definition put_revision :: "compensation_revision \<Rightarrow> payroll_db \<Rightarrow> payroll_db" where
  "put_revision v db = db\<lparr> db_revisions := update_where (\<lambda>x. rv_id x = rv_id v) (\<lambda>_. v) (db_revisions db) \<rparr>"

text \<open>Superseding the current row, if there is one, and adding its successor.\<close>

definition supersede :: "uuid \<Rightarrow> (uuid \<Rightarrow> compensation) \<Rightarrow> payroll_db \<Rightarrow> payroll_db result" where
  "supersede eid successor db =
     bind_res (active_compensation eid db) (\<lambda>current.
       let db1 = (case current of None \<Rightarrow> db | Some c \<Rightarrow> put_compensation (c\<lparr> cp_status := ''SUPERSEDED'' \<rparr>) db)
       in Inr (add_compensation (successor (fresh_compensation_id db1)) db1))"

definition log_revision ::
  "compensation_revision \<Rightarrow> string \<Rightarrow> uuid option \<Rightarrow> string option \<Rightarrow> string \<Rightarrow> string \<Rightarrow> payroll_db \<Rightarrow> payroll_db" where
  "log_revision v action user_id user_role after_status reason db =
     log_event ''CompensationRevision'' (Some (rv_id v)) action (rv_company_id v) user_id user_role
       (Some (rv_status v)) (Some after_status) (Some reason) db"

definition approve_compensation_revision ::
  "(uuid \<Rightarrow> string) \<Rightarrow> uuid \<Rightarrow> string option \<Rightarrow> uuid option \<Rightarrow> string option \<Rightarrow> timestamp \<Rightarrow> payroll_db
    \<Rightarrow> compensation_revision result \<times> payroll_db"
where
  "approve_compensation_revision ustr vid remarks user_id user_role now db =
     (case pending_revision vid ''Revision cannot be approved in its state.'' db of
        Inl e \<Rightarrow> (Inl e, db)
      | Inr v \<Rightarrow>
          let v' = v\<lparr> rv_status := ''APPROVED'', rv_approved_by := user_id, rv_approved_at := Some now,
                      rv_remarks := remarks \<rparr>;
              successor = (\<lambda>i. split_compensation i (rv_employee_id v) (rv_company_id v)
                (rv_new_ctc_annual_paise v) (rv_effective_date v)
                (Some (or_str remarks (''Revision applied from request '' @ ustr (rv_id v)))))
          in case supersede (rv_employee_id v) successor (put_revision v' db) of
               Inl e \<Rightarrow> (Inl e, db)
             | Inr db1 \<Rightarrow>
                 (Inr v',
                  log_revision v ''APPROVE'' user_id user_role ''APPROVED'' (or_str remarks ''Approved revision'') db1))"

definition reject_compensation_revision ::
  "uuid \<Rightarrow> string \<Rightarrow> uuid option \<Rightarrow> string option \<Rightarrow> timestamp \<Rightarrow> payroll_db
    \<Rightarrow> compensation_revision result \<times> payroll_db"
where
  "reject_compensation_revision vid reason user_id user_role now db =
     (case pending_revision vid ''Revision cannot be rejected in its state.'' db of
        Inl e \<Rightarrow> (Inl e, db)
      | Inr v \<Rightarrow>
          let v' = v\<lparr> rv_status := ''REJECTED'', rv_rejected_by := user_id, rv_rejected_at := Some now,
                      rv_rejection_reason := Some reason \<rparr>
          in (Inr v', log_revision v ''REJECT'' user_id user_role ''REJECTED'' reason (put_revision v' db)))"

section \<open>Bulk import\<close>

definition import_employee ::
  "(string \<Rightarrow> uuid option) \<Rightarrow> payroll_db \<Rightarrow> string \<Rightarrow> (uuid option \<times> string list) result" where
  "import_employee parse_uuid db txt =
     (if py_strip txt = [] then Inr (None, [''Missing employeeId''])
      else case parse_uuid (py_strip txt) of
             None \<Rightarrow> Inr (None, [''Invalid UUID for employeeId''])
           | Some eid \<Rightarrow>
               bind_res (find_employee eid db) (\<lambda>emp.
                 Inr (Some eid, if emp = None then [''Employee does not exist''] else [])))"

text \<open>\<open>int(float(text))\<close> is an argument: a ValueError is reported, an OverflowError escapes.\<close>

definition import_ctc :: "(string \<Rightarrow> int result) \<Rightarrow> string \<Rightarrow> (int \<times> string list) result" where
  "import_ctc parse_number txt =
     (if py_strip txt = [] then Inr (0, [''Missing CTC''])
      else case parse_number (py_strip txt) of
             Inr n \<Rightarrow> Inr (n, if n \<le> 0 then [''CTC must be greater than zero''] else [])
           | Inl (ValueError _) \<Rightarrow> Inr (0, [''Invalid integer CTC''])
           | Inl e \<Rightarrow> Inl e)"

text \<open>The valid rows of a preview, as they are put into the cache, and the errors of the others.\<close>

fun preview_bulk_import ::
  "(string \<Rightarrow> uuid option) \<Rightarrow> (string \<Rightarrow> int result) \<Rightarrow> payroll_db \<Rightarrow> nat \<Rightarrow> dict list
    \<Rightarrow> ((uuid \<times> int) list \<times> (nat \<times> string list) list) result"
where
  "preview_bulk_import parse_uuid parse_number db n [] = Inr ([], [])"
| "preview_bulk_import parse_uuid parse_number db n (row # rows) =
     bind_res (import_employee parse_uuid db (or_str (first_key row [''employeeId'', ''employee_id'', ''Employee ID'']) [])) (\<lambda>(eid, e1).
     bind_res (import_ctc parse_number (or_str (first_key row [''ctcAnnualPaise'', ''ctc_annual_paise'', ''annual_ctc'', ''CTC'']) [])) (\<lambda>(ctc, e2).
     bind_res (preview_bulk_import parse_uuid parse_number db (Suc n) rows) (\<lambda>(valid, invalid).
       Inr (case (eid, e1 @ e2) of
              (Some i, []) \<Rightarrow> ((i, ctc) # valid, invalid)
            | (_, errors) \<Rightarrow> (valid, (n, errors) # invalid)))))"

fun import_rows :: "uuid option \<Rightarrow> date \<Rightarrow> (uuid \<times> int) list \<Rightarrow> payroll_db \<Rightarrow> payroll_db result" where
  "import_rows company_id today [] db = Inr db"
| "import_rows company_id today ((eid, ctc) # rows) db =
     bind_res (find_employee eid db) (\<lambda>emp.
       if emp = None then Inl IntegrityError
       else
         bind_res (supersede eid
             (\<lambda>i. split_compensation i eid company_id ctc today (Some ''Applied via bulk import'')) db)
           (import_rows company_id today rows))"

definition apply_bulk_import ::
  "(uuid \<times> int) list option \<Rightarrow> uuid option \<Rightarrow> date \<Rightarrow> payroll_db \<Rightarrow> nat result \<times> payroll_db" where
  "apply_bulk_import cached company_id today db =
     (case cached of
        None \<Rightarrow> (Inl (HTTPException 400 ''Preview token has expired or is invalid.''), db)
      | Some rows \<Rightarrow>
          (case import_rows company_id today rows db of
             Inl e \<Rightarrow> (Inl e, db)
           | Inr db1 \<Rightarrow> (Inr (length rows), db1)))"

section \<open>Operations and their invariant\<close>

datatype salary_request =
    SalaryView uuid date
  | SalaryAssign uuid int "int option" "int option" "int option" "date option" "string option" "string option"
      "dec_input option" date
  | RevisionCreate uuid int date string "string option" date
  | RevisionApprove uuid "string option" "uuid option" "string option" timestamp
  | RevisionReject uuid string "uuid option" "string option" timestamp
  | SalaryImport "(uuid \<times> int) list option" "uuid option" date

fun perform_salary :: "(uuid \<Rightarrow> string) \<Rightarrow> salary_request \<Rightarrow> payroll_db \<Rightarrow> payroll_db" where
  "perform_salary ustr (SalaryView eid today) db = snd (get_employee_compensation eid today db)"
| "perform_salary ustr (SalaryAssign eid ctc b h s eff remarks ccy fx today) db =
     snd (assign_or_update_compensation eid ctc b h s eff remarks ccy fx today db)"
| "perform_salary ustr (RevisionCreate eid ctc eff reason nts today) db =
     snd (create_compensation_revision eid ctc eff reason nts today db)"
| "perform_salary ustr (RevisionApprove vid remarks u r now) db =
     snd (approve_compensation_revision ustr vid remarks u r now db)"
| "perform_salary ustr (RevisionReject vid reason u r now) db =
     snd (reject_compensation_revision vid reason u r now db)"
| "perform_salary ustr (SalaryImport rows c today) db = snd (apply_bulk_import rows c today db)"

definition actives :: "uuid \<Rightarrow> compensation list \<Rightarrow> compensation list" where
  "actives eid cs = filter (\<lambda>c. cp_employee_id c = eid \<and> cp_status c = ''ACTIVE'') cs"

definition salaries_ok :: "compensation list \<Rightarrow> bool" where
  "salaries_ok cs \<longleftrightarrow> distinct (map cp_id cs) \<and> (\<forall>eid. length (actives eid cs) \<le> 1)"

lemma active_compensation_actives:
  "active_compensation eid db = scalar_one_or_none (actives eid (db_compensations db))"
  by (simp add: active_compensation_def actives_def)

lemma salaries_ok_cases:
  assumes "salaries_ok cs"
  obtains "actives eid cs = []" | c where "actives eid cs = [c]" "c \<in> set cs" "cp_employee_id c = eid" "cp_status c = ''ACTIVE''"
proof (cases "actives eid cs")
  case (Cons c rest)
  then have "rest = []" using assms by (cases rest) (auto simp: salaries_ok_def dest: spec [of _ eid])
  moreover have "c \<in> set (actives eid cs)" using Cons by simp
  ultimately show ?thesis using that(2) Cons by (auto simp: actives_def)
qed (use that in simp)

lemma actives_append: "actives eid (cs @ [c]) =
    actives eid cs @ (if cp_employee_id c = eid \<and> cp_status c = ''ACTIVE'' then [c] else [])"
  by (simp add: actives_def)

lemma salaries_ok_add:
  assumes "salaries_ok cs" "cp_id c \<notin> set (map cp_id cs)" "actives (cp_employee_id c) cs = []"
  shows "salaries_ok (cs @ [c])"
  using assms by (auto simp: salaries_ok_def actives_append)

text \<open>Overwriting a row that keeps its identity and employee.\<close>

definition overwrite :: "compensation \<Rightarrow> compensation list \<Rightarrow> compensation list" where
  "overwrite c cs = update_where (\<lambda>x. cp_id x = cp_id c) (\<lambda>_. c) cs"

lemma overwrite_ids: "map cp_id (overwrite c cs) = map cp_id cs"
  by (simp add: overwrite_def update_where_def)

lemma actives_overwrite:
  assumes "distinct (map cp_id cs)" "c \<in> set cs" "cp_id c' = cp_id c" "cp_employee_id c' = cp_employee_id c"
  shows "eid \<noteq> cp_employee_id c \<Longrightarrow> actives eid (overwrite c' cs) = actives eid cs"
    "actives (cp_employee_id c) cs = [c] \<Longrightarrow>
      actives (cp_employee_id c) (overwrite c' cs) = (if cp_status c' = ''ACTIVE'' then [c'] else [])"
proof -
  have same: "x = c" if "x \<in> set cs" "cp_id x = cp_id c" for x
    using assms(1,2) that by (auto simp: distinct_map dest: inj_onD)
  have step: "actives eid (overwrite c' ys) = concat (map (\<lambda>x. actives eid [if x = c then c' else x]) ys)"
    if "set ys \<subseteq> set cs" for eid ys
    using that
  proof (induction ys)
    case (Cons y ys)
    have "cp_id y = cp_id c' \<longleftrightarrow> y = c" using same [of y] Cons.prems assms(3) by auto
    then show ?case using Cons by (simp add: overwrite_def actives_def)
  qed (simp add: overwrite_def actives_def)
  have flat: "actives eid ys = concat (map (\<lambda>x. actives eid [x]) ys)" for eid ys
    by (induction ys) (simp_all add: actives_def)
  show "eid \<noteq> cp_employee_id c \<Longrightarrow> actives eid (overwrite c' cs) = actives eid cs"
    unfolding step [OF subset_refl] flat [of eid cs] using assms(4)
    by (intro arg_cong [of _ _ concat] map_cong refl) (auto simp: actives_def)
  show "actives (cp_employee_id c) (overwrite c' cs) = (if cp_status c' = ''ACTIVE'' then [c'] else [])"
    if one: "actives (cp_employee_id c) cs = [c]"
  proof -
    obtain us vs where split: "cs = us @ c # vs" using assms(2) by (auto simp: in_set_conv_decomp)
    have "c \<notin> set us \<union> set vs" using assms(1) split by (auto simp: image_iff)
    have "actives (cp_employee_id c) us @ actives (cp_employee_id c) [c] @ actives (cp_employee_id c) vs = [c]"
      using one unfolding split by (simp add: actives_def split: if_splits)
    moreover have "cp_status c = ''ACTIVE''" using one by (auto simp: actives_def filter_eq_Cons_iff)
    ultimately have e: "actives (cp_employee_id c) us = []" "actives (cp_employee_id c) vs = []"
      by (auto simp: actives_def append_eq_Cons_conv split: if_splits)
    have none: "concat (map (\<lambda>x. actives (cp_employee_id c) [if x = c then c' else x]) ys) = []"
      if "actives (cp_employee_id c) ys = []" "c \<notin> set ys" for ys
    proof -
      have "map (\<lambda>x. actives (cp_employee_id c) [if x = c then c' else x]) ys = map (\<lambda>x. actives (cp_employee_id c) [x]) ys"
        using that(2) by (intro map_cong) auto
      then show ?thesis using that(1) flat [of "cp_employee_id c" ys] by simp
    qed
    let ?f = "\<lambda>x. actives (cp_employee_id c) [if x = c then c' else x]"
    have "concat (map ?f cs) = concat (map ?f us) @ ?f c @ concat (map ?f vs)" unfolding split by simp
    also have "concat (map ?f us) = []" by (rule none [OF e(1)]) (use \<open>c \<notin> set us \<union> set vs\<close> in simp)
    also have "concat (map ?f vs) = []" by (rule none [OF e(2)]) (use \<open>c \<notin> set us \<union> set vs\<close> in simp)
    finally show ?thesis unfolding step [OF subset_refl] using assms(4) by (simp add: actives_def)
  qed
qed

lemma salaries_ok_overwrite:
  assumes "salaries_ok cs" "actives (cp_employee_id c) cs = [c]" "cp_id c' = cp_id c" "cp_employee_id c' = cp_employee_id c"
  shows "salaries_ok (overwrite c' cs)"
proof -
  have d: "distinct (map cp_id cs)" using assms(1) by (simp add: salaries_ok_def)
  have "c \<in> set (actives (cp_employee_id c) cs)" using assms(2) by simp
  then have c: "c \<in> set cs" by (simp add: actives_def)
  have "length (actives eid (overwrite c' cs)) \<le> 1" for eid
    using actives_overwrite [OF d c assms(3,4)] assms(1,2) by (cases "eid = cp_employee_id c") (auto simp: salaries_ok_def)
  then show ?thesis using d overwrite_ids by (simp add: salaries_ok_def)
qed

lemma table_simps [simp]:
  "db_compensations (add_compensation c db) = db_compensations db @ [c]"
  "db_compensations (put_compensation c db) = overwrite c (db_compensations db)"
  "db_compensations (put_revision v db) = db_compensations db"
  "db_compensations (log_revision v a u r st rs db) = db_compensations db"
  by (simp_all add: add_compensation_def put_compensation_def overwrite_def put_revision_def log_revision_def
      log_event_def)

lemma fresh_compensation_notin: "fresh_compensation_id db \<notin> set (map cp_id (db_compensations db))"
  unfolding fresh_compensation_id_def by (rule fresh_id_notin)

lemma new_compensation_sel [simp]:
  "cp_id (new_compensation i e co ctc b h s ccy fx eff rm) = i"
  "cp_employee_id (new_compensation i e co ctc b h s ccy fx eff rm) = e"
  "cp_status (new_compensation i e co ctc b h s ccy fx eff rm) = ''ACTIVE''"
  "cp_ctc_annual_paise (new_compensation i e co ctc b h s ccy fx eff rm) = ctc"
  "cp_currency (new_compensation i e co ctc b h s ccy fx eff rm) = ccy"
  by (simp_all add: new_compensation_def)

lemma split_compensation_sel [simp]:
  "cp_id (split_compensation i e co ctc eff rm) = i" "cp_employee_id (split_compensation i e co ctc eff rm) = e"
  "cp_status (split_compensation i e co ctc eff rm) = ''ACTIVE''"
  "cp_ctc_annual_paise (split_compensation i e co ctc eff rm) = ctc"
  "cp_currency (split_compensation i e co ctc eff rm) = ''INR''"
  by (simp_all add: split_compensation_def Let_def)

text \<open>The fresh row for an employee without one.\<close>

lemma salaries_ok_first:
  assumes "salaries_ok (db_compensations db)" "active_compensation eid db = Inr None" "cp_employee_id c = eid"
    "cp_id c = fresh_compensation_id db"
  shows "salaries_ok (db_compensations db @ [c])"
  using salaries_ok_add [OF assms(1), of c] fresh_compensation_notin [of db] assms(2-)
  by (simp add: active_compensation_actives scalar_one_or_none_Inr_None)

text \<open>What superseding does: the old row is closed and the successor is the only active row.\<close>

lemma supersede_effect:
  assumes "salaries_ok (db_compensations db)" "supersede eid successor db = Inr db'"
    "\<And>i. cp_id (successor i) = i" "\<And>i. cp_employee_id (successor i) = eid" "\<And>i. cp_status (successor i) = ''ACTIVE''"
  obtains i where "salaries_ok (db_compensations db')" "actives eid (db_compensations db') = [successor i]"
    "\<And>e. e \<noteq> eid \<Longrightarrow> actives e (db_compensations db') = actives e (db_compensations db)"
proof -
  obtain current where a: "active_compensation eid db = Inr current"
    "db' = (let db1 = (case current of None \<Rightarrow> db | Some c \<Rightarrow> put_compensation (c\<lparr> cp_status := ''SUPERSEDED'' \<rparr>) db)
       in add_compensation (successor (fresh_compensation_id db1)) db1)"
    using assms(2) by (auto simp: supersede_def bind_res_Inr_iff Let_def)
  show ?thesis
  proof (cases current)
    case None
    then have d: "db' = add_compensation (successor (fresh_compensation_id db)) db" using a(2) by simp
    have "actives eid (db_compensations db) = []"
      using a(1) None by (simp add: active_compensation_actives scalar_one_or_none_Inr_None)
    then show ?thesis
      using that [of "fresh_compensation_id db"] salaries_ok_first [OF assms(1) a(1) [unfolded None] assms(4,3)] assms(4,5)
      by (simp add: d actives_append)
  next
    case (Some c)
    have one: "actives eid (db_compensations db) = [c]"
      using a(1) Some by (simp add: active_compensation_actives scalar_one_or_none_Inr_Some)
    then have "c \<in> set (actives eid (db_compensations db))" by simp
    then have c: "c \<in> set (db_compensations db)" "cp_employee_id c = eid" by (auto simp: actives_def)
    let ?c = "c\<lparr> cp_status := ''SUPERSEDED'' \<rparr>" let ?db1 = "put_compensation ?c db"
    have d: "db' = add_compensation (successor (fresh_compensation_id ?db1)) ?db1" using a(2) Some by (simp add: Let_def)
    have dist: "distinct (map cp_id (db_compensations db))" using assms(1) by (simp add: salaries_ok_def)
    note over = actives_overwrite [OF dist c(1), of ?c]
    have "salaries_ok (overwrite ?c (db_compensations db))"
      using salaries_ok_overwrite [OF assms(1), of c ?c] one c(2) by simp
    moreover have "actives eid (overwrite ?c (db_compensations db)) = []" using over(2) one c(2) by simp
    moreover have "actives e (overwrite ?c (db_compensations db)) = actives e (db_compensations db)" if "e \<noteq> eid" for e
      using over(1) that c(2) by simp
    ultimately show ?thesis
      using that [of "fresh_compensation_id ?db1"] fresh_compensation_notin [of ?db1] assms(3-5)
        salaries_ok_add [of "overwrite ?c (db_compensations db)" "successor (fresh_compensation_id ?db1)"]
      by (simp add: d actives_append)
  qed
qed

section \<open>Every operation keeps one active salary\<close>

definition keeps_salaries :: "payroll_db \<Rightarrow> payroll_db \<Rightarrow> bool" where
  "keeps_salaries db db' \<longleftrightarrow> (salaries_ok (db_compensations db) \<longrightarrow> salaries_ok (db_compensations db'))"

lemma keeps_same: "db_compensations db' = db_compensations db \<Longrightarrow> keeps_salaries db db'"
  by (simp add: keeps_salaries_def)

lemma keeps_view: "keeps_salaries db (snd (get_employee_compensation eid today db))"
proof (cases "active_compensation eid db")
  case (Inr current)
  show ?thesis
  proof (cases "current = None \<and> (\<exists>emp. find_employee eid db = Inr (Some emp))")
    case True
    then obtain emp where f: "find_employee eid db = Inr (Some emp)" "active_compensation eid db = Inr None"
      using Inr by blast
    show ?thesis unfolding keeps_salaries_def
      using salaries_ok_first [OF _ f(2)] f
      by (simp add: get_employee_compensation_def Let_def)
  next
    case False
    then show ?thesis using Inr
      by (auto simp: get_employee_compensation_def intro!: keeps_same split: option.splits sum.splits)
  qed
qed (simp add: get_employee_compensation_def keeps_same)

lemma keeps_assign:
  "keeps_salaries db (snd (assign_or_update_compensation eid ctc b h s eff remarks ccy fx today db))"
proof (cases "active_compensation eid db")
  case (Inr current)
  show ?thesis
  proof (cases "assigned_currency current ccy fx")
    case r: (Inr tr)
    obtain target rate where tr: "tr = (target, rate)" by (cases tr)
    show ?thesis
    proof (cases current)
      case None
      show ?thesis unfolding keeps_salaries_def
        using salaries_ok_first [OF _ Inr [unfolded None]] r [unfolded tr None] Inr [unfolded None]
        by (auto simp: assign_or_update_compensation_def Let_def split: sum.splits option.splits)
    next
      case (Some c)
      have one: "actives eid (db_compensations db) = [c]"
        using Inr Some by (simp add: active_compensation_actives scalar_one_or_none_Inr_Some)
      then have "c \<in> set (actives eid (db_compensations db))" by simp
      then have "cp_employee_id c = eid" by (simp add: actives_def)
      then have "salaries_ok (overwrite c' (db_compensations db))"
        if "salaries_ok (db_compensations db)" "cp_id c' = cp_id c" "cp_employee_id c' = eid" for c'
        using salaries_ok_overwrite [OF that(1), of c c'] one that(2,3) by simp
      then show ?thesis unfolding keeps_salaries_def
        using r [unfolded tr Some] Inr [unfolded Some] \<open>cp_employee_id c = eid\<close>
        by (simp add: assign_or_update_compensation_def Let_def)
    qed
  qed (simp add: assign_or_update_compensation_def Inr keeps_same)
qed (simp add: assign_or_update_compensation_def keeps_same)

lemma keeps_create_revision: "keeps_salaries db (snd (create_compensation_revision eid ctc eff reason nts today db))"
  using keeps_view [of db eid today]
  by (cases "get_employee_compensation eid today db")
    (auto simp: create_compensation_revision_def keeps_salaries_def Let_def split: sum.splits)

lemma approve_cases:
  assumes "approve_compensation_revision ustr vid remarks u r now db = (res, db')"
  obtains e where "res = Inl e" "db' = db"
    | v db1 where "pending_revision vid ''Revision cannot be approved in its state.'' db = Inr v"
      "res = Inr (v\<lparr> rv_status := ''APPROVED'', rv_approved_by := u, rv_approved_at := Some now, rv_remarks := remarks \<rparr>)"
      "supersede (rv_employee_id v) (\<lambda>i. split_compensation i (rv_employee_id v) (rv_company_id v)
          (rv_new_ctc_annual_paise v) (rv_effective_date v)
          (Some (or_str remarks (''Revision applied from request '' @ ustr (rv_id v)))))
         (put_revision (v\<lparr> rv_status := ''APPROVED'', rv_approved_by := u, rv_approved_at := Some now,
            rv_remarks := remarks \<rparr>) db) = Inr db1"
      "db' = log_revision v ''APPROVE'' u r ''APPROVED'' (or_str remarks ''Approved revision'') db1"
proof (cases "pending_revision vid ''Revision cannot be approved in its state.'' db")
  case (Inl e)
  then have "res = Inl e" "db' = db" using assms by (simp_all add: approve_compensation_revision_def)
  then show ?thesis by (rule that(1))
next
  case (Inr v)
  let ?v = "v\<lparr> rv_status := ''APPROVED'', rv_approved_by := u, rv_approved_at := Some now, rv_remarks := remarks \<rparr>"
  let ?s = "supersede (rv_employee_id v) (\<lambda>i. split_compensation i (rv_employee_id v) (rv_company_id v)
          (rv_new_ctc_annual_paise v) (rv_effective_date v)
          (Some (or_str remarks (''Revision applied from request '' @ ustr (rv_id v))))) (put_revision ?v db)"
  show ?thesis
  proof (cases ?s)
    case (Inl e)
    then have "res = Inl e" "db' = db" using assms Inr by (simp_all add: approve_compensation_revision_def Let_def)
    then show ?thesis by (rule that(1))
  next
    case s: (Inr db1)
    then have "res = Inr ?v"
      "db' = log_revision v ''APPROVE'' u r ''APPROVED'' (or_str remarks ''Approved revision'') db1"
      using assms Inr by (auto simp: approve_compensation_revision_def Let_def)
    then show ?thesis using that(2) [OF Inr _ s] by blast
  qed
qed

lemma keeps_approve: "keeps_salaries db (snd (approve_compensation_revision ustr vid remarks u r now db))"
proof -
  obtain res db' where e: "approve_compensation_revision ustr vid remarks u r now db = (res, db')" by fastforce
  have "keeps_salaries db db'"
    using e
  proof (cases rule: approve_cases)
    case (1 x)
    then show ?thesis by (simp add: keeps_same)
  next
    case (2 v db1)
    show ?thesis unfolding keeps_salaries_def
    proof
      assume "salaries_ok (db_compensations db)"
      then have ok: "salaries_ok (db_compensations (put_revision (v\<lparr> rv_status := ''APPROVED'', rv_approved_by := u,
          rv_approved_at := Some now, rv_remarks := remarks \<rparr>) db))" by simp
      obtain i where "salaries_ok (db_compensations db1)" using supersede_effect [OF ok 2(3)] by auto
      then show "salaries_ok (db_compensations db')" using 2(4) by simp
    qed
  qed
  then show ?thesis by (simp add: e)
qed

lemma keeps_reject: "keeps_salaries db (snd (reject_compensation_revision vid reason u r now db))"
  by (simp add: reject_compensation_revision_def Let_def keeps_same split: sum.splits)

lemma import_rows_keeps:
  "import_rows c today rows db = Inr db' \<Longrightarrow> salaries_ok (db_compensations db) \<Longrightarrow> salaries_ok (db_compensations db')"
proof (induction rows arbitrary: db)
  case (Cons row rows)
  obtain eid ctc where row: "row = (eid, ctc)" by (cases row)
  obtain db1 where s: "supersede eid (\<lambda>i. split_compensation i eid c ctc today (Some ''Applied via bulk import'')) db = Inr db1"
    "import_rows c today rows db1 = Inr db'"
    using Cons.prems(1) by (auto simp: row bind_res_Inr_iff split: if_splits)
  obtain i where "salaries_ok (db_compensations db1)" using supersede_effect [OF Cons.prems(2) s(1)] by auto
  then show ?case using Cons.IH [OF s(2)] by blast
qed simp

lemma keeps_import: "keeps_salaries db (snd (apply_bulk_import rows c today db))"
  using import_rows_keeps by (auto simp: apply_bulk_import_def keeps_salaries_def split: option.splits sum.splits)

interpretation salaries: transition_system "perform_salary ustr" "\<lambda>db :: payroll_db. salaries_ok (db_compensations db)" for ustr
proof
  fix db :: payroll_db and a
  assume "salaries_ok (db_compensations db)"
  moreover have "keeps_salaries db (perform_salary ustr a db)"
    by (cases a) (simp_all add: keeps_view keeps_assign keeps_create_revision keeps_approve keeps_reject keeps_import)
  ultimately show "salaries_ok (db_compensations (perform_salary ustr a db))" by (simp add: keeps_salaries_def)
qed

text \<open>
  C19: an employee never has two active salaries. Whatever assignments, revisions, approvals and bulk
  imports are made in whatever order, every employee has at most one ACTIVE compensation, so the
  lookup of the run engine (\<open>scalar_one_or_none\<close>) never raises.
\<close>

theorem one_active_salary:
  assumes "salaries_ok (db_compensations db)"
  shows "salaries_ok (db_compensations (foldl (\<lambda>d a. perform_salary ustr a d) db ops)) \<and>
    (\<exists>c. active_compensation eid (foldl (\<lambda>d a. perform_salary ustr a d) db ops) = Inr c)"
proof -
  have ok: "salaries_ok (db_compensations (foldl (\<lambda>d a. perform_salary ustr a d) db ops))"
    using salaries.trace_keeps [OF assms] .
  from ok show ?thesis
    by (cases rule: salaries_ok_cases [where eid = eid]) (simp_all add: active_compensation_actives ok)
qed

lemma split_adds_up:
  assumes "0 \<le> ctc"
  shows "0 \<le> hra_of_basic (basic_of_ctc ctc)" "hra_of_basic (basic_of_ctc ctc) \<le> basic_of_ctc ctc"
    "basic_of_ctc ctc + hra_of_basic (basic_of_ctc ctc) + special_of ctc (basic_of_ctc ctc) (hra_of_basic (basic_of_ctc ctc))
      = ctc div 12"
proof -
  define m where "m = ctc div 12"
  define b where "b = m div 2"
  have m: "0 \<le> m" using assms by (simp add: m_def)
  then have b: "0 \<le> b" "2 * b \<le> m" by (simp_all add: b_def)
  then have h: "0 \<le> b * 2 div 5" "b * 2 div 5 \<le> b" by linarith+
  have e: "basic_of_ctc ctc = b" "hra_of_basic b = b * 2 div 5"
    using m b by (simp_all add: basic_of_ctc_def int_half_def hra_of_basic_def int_two_fifths_def b_def m_def)
  show "0 \<le> hra_of_basic (basic_of_ctc ctc)" "hra_of_basic (basic_of_ctc ctc) \<le> basic_of_ctc ctc"
    "basic_of_ctc ctc + hra_of_basic (basic_of_ctc ctc) + special_of ctc (basic_of_ctc ctc) (hra_of_basic (basic_of_ctc ctc))
      = ctc div 12"
    unfolding e special_of_def m_def [symmetric] using b h by auto
qed

lemma pending_revision_Inr:
  "pending_revision vid m db = Inr v \<Longrightarrow> filter (\<lambda>x. rv_id x = vid) (db_revisions db) = [v] \<and> rv_id v = vid \<and> rv_status v = ''PENDING''"
proof -
  assume a: "pending_revision vid m db = Inr v"
  then obtain found where f: "scalar_one_or_none (filter (\<lambda>x. rv_id x = vid) (db_revisions db)) = Inr found"
    by (auto simp: pending_revision_def bind_res_Inr_iff)
  with a have "found = Some v \<and> rv_status v = ''PENDING''"
    by (cases found) (simp_all add: pending_revision_def split: if_splits)
  then have l: "filter (\<lambda>x. rv_id x = vid) (db_revisions db) = [v]" "rv_status v = ''PENDING''"
    using f by (simp_all add: scalar_one_or_none_Inr_Some)
  have "v \<in> set (filter (\<lambda>x. rv_id x = vid) (db_revisions db))" unfolding l(1) by simp
  then have "rv_id v = vid" unfolding set_filter by blast
  then show ?thesis using l by blast
qed

lemma pending_revision_replaced:
  assumes "filter (\<lambda>x. rv_id x = vid) (db_revisions db) = [v]" "rv_id v' = vid" "rv_id v = vid" "rv_status v' \<noteq> ''PENDING''"
    "db_revisions db' = db_revisions (put_revision v' db)"
  shows "pending_revision vid m db' = Inl (HTTPException 400 m)"
proof -
  have "filter (\<lambda>x. rv_id x = vid) (update_where (\<lambda>x. rv_id x = vid) (\<lambda>_. v') xs) =
      map (\<lambda>_. v') (filter (\<lambda>x. rv_id x = vid) xs)" for xs
    using assms(2) by (induction xs) auto
  then have "filter (\<lambda>x. rv_id x = vid) (db_revisions db') = [v']"
    using assms(1-3,5) by (simp add: put_revision_def)
  then show ?thesis using assms(4) by (simp add: pending_revision_def)
qed

lemma supersede_revisions: "supersede eid f db = Inr db' \<Longrightarrow> db_revisions db' = db_revisions db"
  by (auto simp: supersede_def bind_res_Inr_iff Let_def add_compensation_def put_compensation_def split: option.splits)

text \<open>
  An approved revision takes effect exactly once. After the approval the employee's only active
  salary has the new annual CTC and parts that add up to the twelfth of it to the paisa, no other
  employee's salary changes, and approving or rejecting the revision again is refused and changes
  nothing.
\<close>

theorem revision_takes_effect_once:
  assumes "salaries_ok (db_compensations db)"
    "approve_compensation_revision ustr vid remarks u r now db = (Inr v, db')" "0 \<le> rv_new_ctc_annual_paise v"
  shows "(\<exists>c. actives (rv_employee_id v) (db_compensations db') = [c] \<and>
      cp_ctc_annual_paise c = rv_new_ctc_annual_paise v \<and>
      cp_basic_monthly_paise c + cp_hra_monthly_paise c + cp_special_allowance_monthly_paise c
        = rv_new_ctc_annual_paise v div 12 \<and> 0 \<le> cp_hra_monthly_paise c \<and> cp_hra_monthly_paise c \<le> cp_basic_monthly_paise c) \<and>
    (\<forall>e. e \<noteq> rv_employee_id v \<longrightarrow> actives e (db_compensations db') = actives e (db_compensations db)) \<and>
    approve_compensation_revision ustr vid remarks2 u2 r2 now2 db' =
      (Inl (HTTPException 400 ''Revision cannot be approved in its state.''), db') \<and>
    reject_compensation_revision vid reason u2 r2 now2 db' =
      (Inl (HTTPException 400 ''Revision cannot be rejected in its state.''), db')"
  using assms(2)
proof (cases rule: approve_cases)
  case (2 w db1)
  let ?w = "w\<lparr> rv_status := ''APPROVED'', rv_approved_by := u, rv_approved_at := Some now, rv_remarks := remarks \<rparr>"
  have v: "v = ?w" using 2(2) by simp
  have ok: "salaries_ok (db_compensations (put_revision ?w db))" using assms(1) by simp
  obtain i where e: "actives (rv_employee_id w) (db_compensations db1) = [split_compensation i (rv_employee_id w)
        (rv_company_id w) (rv_new_ctc_annual_paise w) (rv_effective_date w)
        (Some (or_str remarks (''Revision applied from request '' @ ustr (rv_id w))))]"
    "\<And>e. e \<noteq> rv_employee_id w \<Longrightarrow> actives e (db_compensations db1) = actives e (db_compensations db)"
    using supersede_effect [OF ok 2(3)] by auto
  note p = pending_revision_Inr [OF 2(1)]
  have revs: "db_revisions db' = db_revisions (put_revision ?w db)"
    using supersede_revisions [OF 2(3)] 2(4) by (simp add: log_revision_def log_event_def)
  have "pending_revision vid m db' = Inl (HTTPException 400 m)" for m
    using p by (intro pending_revision_replaced [OF _ _ _ _ revs, of vid w]) simp_all
  moreover have "0 \<le> rv_new_ctc_annual_paise w" using assms(3) v by simp
  note split = split_adds_up [OF this]
  ultimately show ?thesis using e split unfolding v 2(4)
    by (simp add: approve_compensation_revision_def reject_compensation_revision_def split_compensation_def
        new_compensation_def Let_def)
qed simp

section \<open>A sample\<close>

definition sample_hire :: payroll_db where
  "sample_hire = empty_db\<lparr> db_employees := [(sample_employee 6)\<lparr> em_first_name := [], em_last_name := [], em_role := [] \<rparr>] \<rparr>"

definition sample_revision_db :: payroll_db where
  "sample_revision_db = perform_salary nat_digits (RevisionCreate 6 120000001 (Date 2025 7 1) ''raise'' None (Date 2025 6 1)) sample_hire"

theorem one_active_salary_witness:
  "\<exists>c. active_compensation 6 (foldl (\<lambda>d a. perform_salary nat_digits a d) sample_hire
     [RevisionCreate 6 120000001 (Date 2025 7 1) ''raise'' None (Date 2025 6 1), RevisionApprove 1 None (Some 8) None 20,
      SalaryImport (Some [(6, 90000000)]) None (Date 2025 8 1)]) = Inr c"
proof -
  have "salaries_ok (db_compensations sample_hire)" by (simp add: sample_hire_def empty_db_def salaries_ok_def actives_def)
  from one_active_salary [OF this] show ?thesis by blast
qed

lemma sample_revision_approved:
  "(case approve_compensation_revision nat_digits 1 None (Some 8) None 20 sample_revision_db of
     (Inr v, db') \<Rightarrow> Some (rv_employee_id v, rv_new_ctc_annual_paise v) | _ \<Rightarrow> None) = Some (6, 120000001)"
  by code_simp

theorem revision_takes_effect_once_witness:
  "\<exists>(db' :: payroll_db) c. actives 6 (db_compensations db') = [c] \<and>
     cp_basic_monthly_paise c + cp_hra_monthly_paise c + cp_special_allowance_monthly_paise c = 10000000"
proof -
  obtain res db' where e: "approve_compensation_revision nat_digits 1 None (Some 8) None 20 sample_revision_db = (res, db')"
    by fastforce
  obtain v where v: "res = Inr v" "rv_employee_id v = 6" "rv_new_ctc_annual_paise v = 120000001"
    using sample_revision_approved unfolding e by (cases res) auto
  have "salaries_ok (db_compensations sample_hire)" by (simp add: sample_hire_def empty_db_def salaries_ok_def actives_def)
  then have "salaries_ok (db_compensations sample_revision_db)"
    unfolding sample_revision_db_def by (rule salaries.keeps)
  from revision_takes_effect_once [OF this e [unfolded v(1)], THEN conjunct1] obtain c where
    "actives 6 (db_compensations db') = [c]"
    "cp_basic_monthly_paise c + cp_hra_monthly_paise c + cp_special_allowance_monthly_paise c = 120000001 div 12"
    unfolding v(2,3) by auto
  then show ?thesis by (intro exI [of _ db'] exI [of _ c]) simp
qed

text \<open>
  A revision, like a bulk import, restarts the salary in the default currency: an employee paid in
  another currency is afterwards paid the same number in INR.
\<close>

lemma revision_loses_currency:
  assumes "salaries_ok (db_compensations db)" "approve_compensation_revision ustr vid remarks u r now db = (Inr v, db')"
  shows "\<exists>c. actives (rv_employee_id v) (db_compensations db') = [c] \<and> cp_currency c = ''INR'' \<and> cp_fx_rate_to_inr c = 1"
  using assms(2)
proof (cases rule: approve_cases)
  case (2 w db1)
  have ok: "salaries_ok (db_compensations (put_revision (w\<lparr> rv_status := ''APPROVED'', rv_approved_by := u,
      rv_approved_at := Some now, rv_remarks := remarks \<rparr>) db))" using assms(1) by simp
  obtain i where "actives (rv_employee_id w) (db_compensations db1) = [split_compensation i (rv_employee_id w)
        (rv_company_id w) (rv_new_ctc_annual_paise w) (rv_effective_date w)
        (Some (or_str remarks (''Revision applied from request '' @ ustr (rv_id w))))]"
    using supersede_effect [OF ok 2(3)] by auto
  then show ?thesis using 2(2,4) by (simp add: split_compensation_def new_compensation_def Let_def)
qed simp

end
