(* ===== verification/Attendance_Sync.thy ===== *)
theory Attendance_Sync
  imports Run_Machine "HOL-Library.Product_Lexorder"
begin

text \<open>
  From locked attendance to pay: \<open>attendance_to_payroll_sync_service.py\<close>. Approved overtime,
  shift allowances and encashed compensatory days of a period are totalled per employee and written
  as locked variable inputs that the service owns. Identifiers are compared as numbers where the code
  compares their texts of fixed width.
\<close>

section \<open>Amounts\<close>

definition STANDARD_DAYS :: rat where "STANDARD_DAYS = 30"
definition HOURS_PER_DAY :: rat where "HOURS_PER_DAY = 8"
definition SYNC_SOURCE :: string where "SYNC_SOURCE = ''ATTENDANCE_LOCK''"

definition calculate_overtime_paise ::
  "int \<Rightarrow> rat \<Rightarrow> rat \<Rightarrow> int option \<Rightarrow> bool \<Rightarrow> rat \<Rightarrow> rat \<Rightarrow> int" where
  "calculate_overtime_paise basic ot_hours multiplier gross use_gross working_days hours_per_day =
     (let monthly = (case gross of Some g \<Rightarrow> if use_gross then g else basic | None \<Rightarrow> basic);
          hourly = ddiv (of_int monthly) (dmul working_days hours_per_day)
      in round_paise (dmul (dmul hourly ot_hours) multiplier))"

text \<open>\<open>OvertimePolicy\<close> has no columns for working days or hours, so the defaults apply.\<close>

definition monthly_compensation :: "compensation option \<Rightarrow> salary_structure option \<Rightarrow> int \<times> int" where
  "monthly_compensation c s =
     (case c of
        Some c \<Rightarrow> (cp_basic_monthly_paise c,
          cp_basic_monthly_paise c + cp_hra_monthly_paise c + cp_special_allowance_monthly_paise c)
      | None \<Rightarrow>
          (case s of
             Some s \<Rightarrow> (round_paise (dmul (ss_basic_monthly s) 100),
               round_paise (dmul (foldl dadd 0 [ss_basic_monthly s, ss_hra_monthly s, ss_special_allowance_monthly s,
                 ss_conveyance_monthly s]) 100))
           | None \<Rightarrow> (0, 0)))"

definition in_tenant :: "uuid option \<Rightarrow> uuid option \<Rightarrow> bool" where
  "in_tenant company_id row_company \<longleftrightarrow> company_id = None \<or> row_company = company_id"

definition compensation_by_employee :: "uuid option \<Rightarrow> payroll_db \<Rightarrow> uuid \<Rightarrow> compensation option" where
  "compensation_by_employee company_id db =
     map_of (rev (map (\<lambda>c. (cp_employee_id c, c))
       (filter (\<lambda>c. cp_status c = ''ACTIVE'' \<and> in_tenant company_id (cp_company_id c)) (db_compensations db))))"

definition salary_by_employee :: "uuid option \<Rightarrow> payroll_db \<Rightarrow> uuid \<Rightarrow> salary_structure option" where
  "salary_by_employee company_id db =
     map_of (rev (map (\<lambda>s. (ss_employee_id s, s))
       (filter (\<lambda>s. ss_is_active s \<and> in_tenant company_id (ss_company_id s)) (db_salaries db))))"

definition employee_pay :: "uuid option \<Rightarrow> payroll_db \<Rightarrow> uuid \<Rightarrow> int \<times> int" where
  "employee_pay company_id db eid =
     monthly_compensation (compensation_by_employee company_id db eid) (salary_by_employee company_id db eid)"

section \<open>Overtime\<close>

definition OT_TYPES :: "string list" where "OT_TYPES = [''APPROVED'', ''PUSHED'']"

definition overtime_of :: "payroll_period \<Rightarrow> overtime_entry \<Rightarrow> bool" where
  "overtime_of period e \<longleftrightarrow>
     oe_period_month e = pp_month period \<and> oe_period_year e = pp_year period \<and>
     oe_status e \<in> set OT_TYPES \<and> in_tenant (pp_company_id period) (oe_company_id e)"

text \<open>A policy for a grade never matches an employee: \<open>Employee\<close> has no grade.\<close>

definition policy_matches :: "employee \<Rightarrow> overtime_policy \<Rightarrow> bool" where
  "policy_matches emp p \<longleftrightarrow>
     (op_applicable_role p = None \<or> op_applicable_role p = Some (em_role emp)) \<and> op_applicable_grade p = None"

definition policy_rank :: "uuid option \<Rightarrow> overtime_policy \<Rightarrow> bool \<times> nat \<times> uuid" where
  "policy_rank company_id p =
     (op_company_id p \<noteq> company_id,
      (if op_applicable_role p = None then 1 else 0) + (if op_applicable_grade p = None then 1 else 0), op_id p)"

definition overtime_policy_for :: "uuid option \<Rightarrow> employee option \<Rightarrow> payroll_db \<Rightarrow> overtime_policy option" where
  "overtime_policy_for company_id emp db =
     (let applicable = filter (\<lambda>p. op_is_active p \<and> (op_company_id p = None \<or> op_company_id p = company_id))
            (db_overtime_policies db);
          specific = (case emp of None \<Rightarrow> [] | Some e \<Rightarrow> filter (policy_matches e) applicable)
      in scalars_first (sort_key (policy_rank company_id) (if specific \<noteq> [] then specific else applicable)))"

definition GROSS_BASES :: "string list" where
  "GROSS_BASES = [''GROSS'', ''GROSS_SALARY'', ''GROSS_MONTHLY'']"

definition entry_hours :: "overtime_entry \<Rightarrow> rat" where
  "entry_hours e = (case oe_adjusted_hours e of Some h \<Rightarrow> h | None \<Rightarrow> oe_ot_hours e)"

definition entry_paise :: "uuid option \<Rightarrow> payroll_db \<Rightarrow> overtime_entry \<Rightarrow> int" where
  "entry_paise company_id db e =
     (let (basic, gross) = employee_pay company_id db (oe_employee_id e);
          emp = scalars_first (filter (\<lambda>x. em_id x = oe_employee_id e) (db_employees db));
          policy = overtime_policy_for company_id emp db;
          multiplier = (case policy of Some p \<Rightarrow> op_rate_multiplier p | None \<Rightarrow> 3 / 2);
          base = py_upper (case policy of Some p \<Rightarrow> or_str (Some (op_rate_base p)) ''BASIC'' | None \<Rightarrow> ''BASIC'')
      in calculate_overtime_paise basic (entry_hours e) multiplier (Some gross) (base \<in> set GROSS_BASES)
           STANDARD_DAYS HOURS_PER_DAY)"

section \<open>Totals per employee\<close>

text \<open>Overtime, shift allowance and encashment in paise; their units; the last overtime rate.\<close>

record bucket =
  bk_overtime :: int
  bk_shift :: int
  bk_comp_off :: int
  bk_ot_hours :: rat
  bk_shift_days :: rat
  bk_comp_off_days :: rat
  bk_ot_rate :: int

definition empty_bucket :: bucket where
  "empty_bucket = \<lparr> bk_overtime = 0, bk_shift = 0, bk_comp_off = 0, bk_ot_hours = 0, bk_shift_days = 0,
     bk_comp_off_days = 0, bk_ot_rate = 0 \<rparr>"

type_synonym totals = "(uuid \<times> bucket) list"

text \<open>\<open>totals.setdefault(employee, ...)\<close> followed by updates of the bucket.\<close>

fun bump :: "uuid \<Rightarrow> (bucket \<Rightarrow> bucket) \<Rightarrow> totals \<Rightarrow> totals" where
  "bump eid f [] = [(eid, f empty_bucket)]"
| "bump eid f ((e, b) # ts) = (if e = eid then (e, f b) # ts else (e, b) # bump eid f ts)"

definition add_overtime :: "uuid option \<Rightarrow> payroll_db \<Rightarrow> overtime_entry \<Rightarrow> totals \<Rightarrow> totals" where
  "add_overtime company_id db e =
     (let amount = entry_paise company_id db e; hours = entry_hours e
      in bump (oe_employee_id e) (\<lambda>b. b\<lparr> bk_overtime := bk_overtime b + amount,
           bk_ot_hours := dadd (bk_ot_hours b) hours,
           bk_ot_rate := (if hours \<noteq> 0 then round_paise (ddiv (of_int amount) hours) else 0) \<rparr>))"

definition shift_of :: "payroll_db \<Rightarrow> attendance_day \<Rightarrow> shift option" where
  "shift_of db a =
     (case ad_shift_id a of None \<Rightarrow> None | Some i \<Rightarrow> scalars_first (filter (\<lambda>s. sh_id s = i) (db_shifts db)))"

definition shift_names :: "shift option \<Rightarrow> attendance_day \<Rightarrow> string list" where
  "shift_names s a =
     [py_upper (or_str (ad_shift_name a) []), py_upper (case s of None \<Rightarrow> [] | Some x \<Rightarrow> sh_code x),
      py_upper (case s of None \<Rightarrow> [] | Some x \<Rightarrow> sh_name x)] @
     (case s of Some x \<Rightarrow> if sh_is_night_shift x then [''NIGHT''] else [] | None \<Rightarrow> []) @
     (if ad_is_off_day_work a then [''WEEKEND''] else []) @ (if ad_is_holiday_work a then [''HOLIDAY''] else [])"

definition shift_policy_applies :: "uuid option \<Rightarrow> shift option \<Rightarrow> attendance_day \<Rightarrow> shift_policy \<Rightarrow> bool" where
  "shift_policy_applies company_id s a p \<longleftrightarrow>
     sp_is_active p \<and> (sp_company_id p = None \<or> sp_company_id p = company_id) \<and>
     (case sp_effective_from p of None \<Rightarrow> True | Some d \<Rightarrow> d \<le> ad_date a) \<and>
     (case sp_effective_to p of None \<Rightarrow> True | Some d \<Rightarrow> ad_date a \<le> d) \<and>
     (case sp_shift_id p of
        Some i \<Rightarrow> ad_shift_id a = Some i
      | None \<Rightarrow> py_upper (sp_shift_type p) \<in> set (shift_names s a))"

definition shift_policy_for :: "uuid option \<Rightarrow> payroll_db \<Rightarrow> attendance_day \<Rightarrow> shift_policy option" where
  "shift_policy_for company_id db a =
     scalars_first (sort_key (\<lambda>p. (sp_shift_id p = None, sp_id p))
       (filter (shift_policy_applies company_id (shift_of db a) a) (db_shift_policies db)))"

definition worked_day :: "payroll_period \<Rightarrow> attendance_day \<Rightarrow> bool" where
  "worked_day period a \<longleftrightarrow>
     pp_start_date period \<le> ad_date a \<and> ad_date a \<le> pp_end_date period \<and>
     in_tenant (pp_company_id period) (ad_company_id a) \<and>
     py_upper (ad_status a) \<notin> {''ABSENT'', ''CANCELLED'', ''REJECTED''}"

definition add_shift :: "uuid option \<Rightarrow> payroll_db \<Rightarrow> attendance_day \<Rightarrow> totals \<Rightarrow> totals" where
  "add_shift company_id db a ts =
     (case shift_policy_for company_id db a of
        None \<Rightarrow> ts
      | Some p \<Rightarrow> bump (ad_employee_id a) (\<lambda>b. b\<lparr> bk_shift := bk_shift b + sp_allowance_paise p,
          bk_shift_days := dadd (bk_shift_days b) 1 \<rparr>) ts)"

definition encashed_in :: "payroll_period \<Rightarrow> comp_off \<Rightarrow> bool" where
  "encashed_in period c \<longleftrightarrow>
     cf_status c = ''ENCASHED'' \<and> in_tenant (pp_company_id period) (cf_company_id c) \<and>
     (let d = (case cf_encashed_on c of Some d \<Rightarrow> d | None \<Rightarrow> cf_worked_date c)
      in pp_start_date period \<le> d \<and> d \<le> pp_end_date period)"

definition encashment_paise :: "uuid option \<Rightarrow> payroll_db \<Rightarrow> comp_off \<Rightarrow> int" where
  "encashment_paise company_id db c =
     (if cf_encashment_amount_paise c \<noteq> 0 then cf_encashment_amount_paise c
      else round_paise (dmul (ddiv (of_int (snd (employee_pay company_id db (cf_employee_id c)))) STANDARD_DAYS)
             (cf_credit_days c)))"

definition add_comp_off :: "uuid option \<Rightarrow> payroll_db \<Rightarrow> comp_off \<Rightarrow> totals \<Rightarrow> totals" where
  "add_comp_off company_id db c =
     bump (cf_employee_id c) (\<lambda>b. b\<lparr> bk_comp_off := bk_comp_off b + encashment_paise company_id db c,
       bk_comp_off_days := dadd (bk_comp_off_days b) (cf_credit_days c) \<rparr>)"

definition sync_totals :: "payroll_period \<Rightarrow> payroll_db \<Rightarrow> totals" where
  "sync_totals period db =
     (let co = pp_company_id period
      in fold (add_comp_off co db) (filter (encashed_in period) (db_comp_offs db))
          (fold (add_shift co db) (filter (worked_day period) (db_attendance_days db))
            (fold (add_overtime co db) (filter (overtime_of period) (db_overtime db)) [])))"

section \<open>The variable inputs the service owns\<close>

definition owned_input :: "payroll_period \<Rightarrow> uuid \<Rightarrow> string \<Rightarrow> variable_input \<Rightarrow> bool" where
  "owned_input period eid input_type v \<longleftrightarrow>
     vi_period_id v = Some (pp_id period) \<and> vi_employee_id v = eid \<and> vi_type v = input_type \<and>
     vi_source v = Some SYNC_SOURCE"

definition filled_input ::
  "int \<Rightarrow> rat option \<Rightarrow> int option \<Rightarrow> string \<Rightarrow> timestamp \<Rightarrow> variable_input \<Rightarrow> variable_input" where
  "filled_input amount units rate description now v =
     v\<lparr> vi_amount_paise := amount, vi_units := units, vi_rate_per_unit_paise := rate,
        vi_description := description, vi_status := ''APPROVED'', vi_is_locked := True,
        vi_source := Some SYNC_SOURCE, vi_approved_at := Some now,
        vi_remarks := Some ''Generated and locked by attendance-to-payroll synchronisation'' \<rparr>"

definition new_owned_input :: "uuid \<Rightarrow> payroll_period \<Rightarrow> uuid \<Rightarrow> string \<Rightarrow> int \<Rightarrow> string \<Rightarrow> variable_input" where
  "new_owned_input i period eid input_type amount description =
     \<lparr> vi_id = i, vi_employee_id = eid, vi_period_id = Some (pp_id period), vi_company_id = pp_company_id period,
       vi_type = input_type, vi_amount_paise = amount, vi_units = None, vi_rate_per_unit_paise = None,
       vi_description = description, vi_source = Some SYNC_SOURCE, vi_remarks = None, vi_status = ''PENDING'',
       vi_is_locked = False, vi_approved_by = None, vi_approved_at = None, vi_rejected_by = None,
       vi_rejected_at = None, vi_rejection_reason = None \<rparr>"

text \<open>An update of the first row that matches; of several, the query returns one.\<close>

fun update_first :: "('a \<Rightarrow> bool) \<Rightarrow> ('a \<Rightarrow> 'a) \<Rightarrow> 'a list \<Rightarrow> 'a list" where
  "update_first P f [] = []"
| "update_first P f (x # xs) = (if P x then f x # xs else x # update_first P f xs)"

text \<open>A line of the loop: employee, type, amount, units, rate and description.\<close>

type_synonym sync_line = "uuid \<times> string \<times> int \<times> rat \<times> int option \<times> string"

definition upsert :: "payroll_period \<Rightarrow> timestamp \<Rightarrow> sync_line \<Rightarrow> variable_input list \<Rightarrow> variable_input list" where
  "upsert period now = (\<lambda>(eid, input_type, amount, units, rate, description) vs.
     if \<exists>v \<in> set vs. owned_input period eid input_type v
     then update_first (owned_input period eid input_type) (filled_input amount (Some units) rate description now) vs
     else vs @ [filled_input amount (Some units) rate description now
            (new_owned_input (fresh_id (map vi_id vs)) period eid input_type amount description)])"

definition sync_line_step ::
  "payroll_period \<Rightarrow> timestamp \<Rightarrow> sync_line \<Rightarrow> variable_input list \<Rightarrow> variable_input list" where
  "sync_line_step period now l vs =
     (case l of (eid, input_type, amount, _) \<Rightarrow>
        if amount = 0 \<and> \<not> (\<exists>v \<in> set vs. owned_input period eid input_type v) then vs else upsert period now l vs)"

definition bucket_lines :: "uuid \<times> bucket \<Rightarrow> sync_line list" where
  "bucket_lines = (\<lambda>(eid, b).
     [(eid, ''OVERTIME'', bk_overtime b, bk_ot_hours b, Some (bk_ot_rate b), ''Attendance-lock approved overtime''),
      (eid, ''SHIFT_ALLOWANCE'', bk_shift b, bk_shift_days b, None, ''Attendance-lock eligible shift allowance''),
      (eid, ''COMP_OFF_ENCASHMENT'', bk_comp_off b, bk_comp_off_days b, None, ''Attendance-lock comp-off encashment'')])"

definition sync_lines :: "totals \<Rightarrow> sync_line list" where
  "sync_lines ts = concat (map bucket_lines ts)"

definition written_line :: "payroll_period \<Rightarrow> variable_input list \<Rightarrow> sync_line \<Rightarrow> bool" where
  "written_line period vs = (\<lambda>(eid, input_type, amount, _).
     amount \<noteq> 0 \<or> (\<exists>v \<in> set vs. owned_input period eid input_type v))"

definition push_overtime :: "payroll_period \<Rightarrow> overtime_entry \<Rightarrow> overtime_entry" where
  "push_overtime period e =
     (if overtime_of period e \<and> oe_status e = ''APPROVED'' then e\<lparr> oe_status := ''PUSHED'' \<rparr> else e)"

text \<open>The number of rows written and the database afterwards, still to be committed by the caller.\<close>

definition sync_on_attendance_lock :: "payroll_period \<Rightarrow> timestamp \<Rightarrow> payroll_db \<Rightarrow> nat \<times> payroll_db" where
  "sync_on_attendance_lock period now db =
     (let ls = sync_lines (sync_totals period db)
      in (length (filter (written_line period (db_variables db)) ls),
          db\<lparr> db_variables := fold (sync_line_step period now) ls (db_variables db),
              db_overtime := map (push_overtime period) (db_overtime db) \<rparr>))"

section \<open>The rows of one key\<close>

definition owned_rows :: "payroll_period \<Rightarrow> uuid \<Rightarrow> string \<Rightarrow> variable_input list \<Rightarrow> variable_input list" where
  "owned_rows period eid t vs = filter (owned_input period eid t) vs"

lemma filter_update_first_own:
  "(\<And>x. P x \<Longrightarrow> P (f x)) \<Longrightarrow> filter P (update_first P f xs) = (case filter P xs of [] \<Rightarrow> [] | x # r \<Rightarrow> f x # r)"
  by (induction xs) auto

lemma filter_update_first_other:
  "(\<And>x. P x \<Longrightarrow> Q (f x) = Q x) \<Longrightarrow> (\<And>x. P x \<Longrightarrow> \<not> Q x) \<Longrightarrow> filter Q (update_first P f xs) = filter Q xs"
  by (induction xs) auto

lemma map_update_first:
  "(\<And>x. scalars_first (filter P xs) = Some x \<Longrightarrow> g (f x) = g x) \<Longrightarrow> map g (update_first P f xs) = map g xs"
  by (induction xs) auto

lemma owned_filled [simp]:
  "owned_input p e t (filled_input a u r d n v) \<longleftrightarrow>
     vi_period_id v = Some (pp_id p) \<and> vi_employee_id v = e \<and> vi_type v = t"
  by (auto simp: owned_input_def filled_input_def)

lemma new_owned_input_sel [simp]:
  "vi_employee_id (new_owned_input i p e t a d) = e" "vi_type (new_owned_input i p e t a d) = t"
  "vi_period_id (new_owned_input i p e t a d) = Some (pp_id p)"
  by (simp_all add: new_owned_input_def)

lemma sync_line_step_owned:
  assumes "\<exists>v \<in> set vs. owned_input p e t v"
  shows "sync_line_step p n (e, t, a, u, r, d) vs =
    update_first (owned_input p e t) (filled_input a (Some u) r d n) vs"
  unfolding sync_line_step_def upsert_def prod.case by (simp only: assms simp_thms if_True if_False)

lemma owned_rows_step:
  "owned_rows p e t (sync_line_step p n (e, t, a, u, r, d) vs) =
     (case owned_rows p e t vs of
        [] \<Rightarrow> if a = 0 then []
              else [filled_input a (Some u) r d n (new_owned_input (fresh_id (map vi_id vs)) p e t a d)]
      | x # rest \<Rightarrow> filled_input a (Some u) r d n x # rest)"
proof (cases "owned_rows p e t vs")
  case Nil
  then have "\<not> (\<exists>v \<in> set vs. owned_input p e t v)" by (auto simp: owned_rows_def filter_empty_conv)
  then show ?thesis using Nil by (simp add: sync_line_step_def upsert_def owned_rows_def)
next
  case (Cons x rest)
  then have "x \<in> set (owned_rows p e t vs)" by simp
  then have ex: "\<exists>v \<in> set vs. owned_input p e t v" by (auto simp: owned_rows_def)
  have "filter (owned_input p e t) (update_first (owned_input p e t) (filled_input a (Some u) r d n) vs) =
      filled_input a (Some u) r d n x # rest"
    using Cons by (subst filter_update_first_own) (auto simp: owned_rows_def owned_input_def filled_input_def)
  then show ?thesis using Cons by (simp add: sync_line_step_owned [OF ex] owned_rows_def)
qed

lemma owned_rows_step_other:
  assumes "(e, t) \<noteq> (e', t')"
  shows "owned_rows p e t (sync_line_step p n (e', t', a, u, r, d) vs) = owned_rows p e t vs"
proof -
  have "filter (owned_input p e t) (update_first (owned_input p e' t') (filled_input a (Some u) r d n) vs) =
      filter (owned_input p e t) vs"
    using assms by (intro filter_update_first_other) (auto simp: owned_input_def filled_input_def)
  then show ?thesis using assms by (auto simp: sync_line_step_def upsert_def owned_rows_def)
qed

section \<open>Settled lines\<close>

definition unstamped :: "variable_input \<Rightarrow> variable_input" where
  "unstamped v = v\<lparr> vi_approved_at := None \<rparr>"

text \<open>A line has nothing left to change: its first row holds its values, or it is empty.\<close>

definition settled_line :: "payroll_period \<Rightarrow> sync_line \<Rightarrow> variable_input list \<Rightarrow> bool" where
  "settled_line p = (\<lambda>(e, t, a, u, r, d) vs.
     case owned_rows p e t vs of [] \<Rightarrow> a = 0 | x # _ \<Rightarrow> \<forall>n. unstamped (filled_input a (Some u) r d n x) = unstamped x)"

definition line_key :: "sync_line \<Rightarrow> uuid \<times> string" where
  "line_key = (\<lambda>(e, t, _). (e, t))"

lemma unstamped_filled [simp]:
  "unstamped (filled_input a u r d n (filled_input a u r d m x)) = unstamped (filled_input a u r d m x)"
  by (simp add: unstamped_def filled_input_def)

lemma settled_step: "settled_line p l (sync_line_step p n l vs)"
  by (cases l) (auto simp: settled_line_def owned_rows_step split: list.splits)

lemma settled_step_other:
  "line_key l \<noteq> line_key l' \<Longrightarrow> settled_line p l (sync_line_step p n l' vs) = settled_line p l vs"
  by (cases l; cases l') (simp add: settled_line_def line_key_def owned_rows_step_other)

lemma settled_fold_other:
  "line_key l \<notin> set (map line_key ls) \<Longrightarrow> settled_line p l vs \<Longrightarrow> settled_line p l (fold (sync_line_step p n) ls vs)"
  by (induction ls arbitrary: vs) (auto simp: settled_step_other)

lemma settled_fold:
  "distinct (map line_key ls) \<Longrightarrow> l \<in> set ls \<Longrightarrow> settled_line p l (fold (sync_line_step p n) ls vs)"
proof (induction ls arbitrary: vs)
  case (Cons k ls)
  show ?case
  proof (cases "l = k")
    case True
    then show ?thesis using Cons.prems(1) settled_fold_other [OF _ settled_step] by simp
  next
    case False
    then show ?thesis using Cons by simp
  qed
qed simp

text \<open>A settled line changes nothing but the time of its approval.\<close>

lemma step_settled:
  assumes "settled_line p l vs"
  shows "map unstamped (sync_line_step p n l vs) = map unstamped vs"
proof (cases l)
  case (fields e t a u r d)
  show ?thesis
  proof (cases "owned_rows p e t vs")
    case Nil
    then have "\<not> (\<exists>v \<in> set vs. owned_input p e t v)" "a = 0"
      using assms fields by (auto simp: settled_line_def owned_rows_def filter_empty_conv)
    then show ?thesis by (simp add: fields sync_line_step_def)
  next
    case (Cons x rest)
    then have "x \<in> set (owned_rows p e t vs)" by simp
    then have "\<exists>v \<in> set vs. owned_input p e t v" by (auto simp: owned_rows_def)
    moreover have "map unstamped (update_first (owned_input p e t) (filled_input a (Some u) r d n) vs) = map unstamped vs"
      using assms fields Cons by (intro map_update_first) (auto simp: settled_line_def owned_rows_def)
    ultimately show ?thesis by (simp add: fields sync_line_step_owned)
  qed
qed

lemma fold_settled:
  "distinct (map line_key ls) \<Longrightarrow> \<forall>l \<in> set ls. settled_line p l vs \<Longrightarrow>
    map unstamped (fold (sync_line_step p n) ls vs) = map unstamped vs"
proof (induction ls arbitrary: vs)
  case (Cons l ls)
  have "settled_line p k (sync_line_step p n l vs)" if "k \<in> set ls" for k
    using that Cons.prems by (subst settled_step_other) (auto simp: image_iff)
  then show ?case using Cons step_settled [of p l vs n] by simp
qed simp

section \<open>Totals\<close>

lemma bump_keys: "set (map fst (bump e f ts)) = insert e (set (map fst ts))"
proof (induction ts)
  case (Cons xb ts)
  then show ?case by (cases xb) (simp add: insert_commute)
qed simp

lemma bump_distinct: "distinct (map fst ts) \<Longrightarrow> distinct (map fst (bump e f ts))"
proof (induction ts)
  case (Cons xb ts)
  obtain x b where xb: "xb = (x, b)" by (cases xb)
  show ?case
  proof (cases "x = e")
    case False
    then have "x \<notin> set (map fst (bump e f ts))" using Cons.prems by (simp only: bump_keys) (simp add: xb)
    then show ?thesis using Cons False by (simp add: xb)
  qed (use Cons in \<open>simp add: xb\<close>)
qed simp

lemma sync_totals_distinct: "distinct (map fst (sync_totals p db))"
proof -
  have "distinct (map fst (fold (add_overtime co db) es ts))" if "distinct (map fst ts)" for co es ts
    using that by (induction es arbitrary: ts) (simp_all add: add_overtime_def Let_def bump_distinct)
  moreover have "distinct (map fst (fold (add_shift co db) as ts))" if "distinct (map fst ts)" for co as ts
    using that by (induction as arbitrary: ts) (simp_all add: add_shift_def bump_distinct split: option.split)
  moreover have "distinct (map fst (fold (add_comp_off co db) cs ts))" if "distinct (map fst ts)" for co cs ts
    using that by (induction cs arbitrary: ts) (simp_all add: add_comp_off_def bump_distinct)
  ultimately show ?thesis by (simp add: sync_totals_def Let_def)
qed

lemma sync_lines_distinct:
  assumes "distinct (map fst ts)"
  shows "distinct (map line_key (sync_lines ts))"
  using assms
proof (induction ts)
  case (Cons eb ts)
  obtain e b where eb: "eb = (e, b)" by (cases eb)
  have keys: "\<forall>l \<in> set (sync_lines ts). fst (line_key l) \<in> set (map fst ts)"
    by (auto simp: sync_lines_def bucket_lines_def line_key_def intro: rev_image_eqI)
  have "(e, t) \<notin> set (map line_key (sync_lines ts))" for t
  proof
    assume "(e, t) \<in> set (map line_key (sync_lines ts))"
    then obtain l where "l \<in> set (sync_lines ts)" "line_key l = (e, t)" by auto
    then have "e \<in> set (map fst ts)" using keys by fastforce
    then show False using Cons.prems by (simp add: eb)
  qed
  then show ?case using Cons by (simp add: eb sync_lines_def bucket_lines_def line_key_def)
qed (simp add: sync_lines_def)

text \<open>A second synchronisation computes the same totals: pushed overtime still counts.\<close>

lemma sync_totals_again: "sync_totals p (snd (sync_on_attendance_lock p n db)) = sync_totals p db"
proof -
  let ?db = "snd (sync_on_attendance_lock p n db)" let ?co = "pp_company_id p"
  have same: "db_compensations ?db = db_compensations db" "db_salaries ?db = db_salaries db"
    "db_employees ?db = db_employees db" "db_overtime_policies ?db = db_overtime_policies db"
    "db_attendance_days ?db = db_attendance_days db" "db_shifts ?db = db_shifts db"
    "db_shift_policies ?db = db_shift_policies db" "db_comp_offs ?db = db_comp_offs db"
    "db_overtime ?db = map (push_overtime p) (db_overtime db)"
    by (simp_all add: sync_on_attendance_lock_def Let_def)
  have pay: "employee_pay co ?db = employee_pay co db" for co
    using same by (simp add: employee_pay_def compensation_by_employee_def salary_by_employee_def fun_eq_iff)
  have push: "oe_employee_id (push_overtime p e) = oe_employee_id e" "entry_hours (push_overtime p e) = entry_hours e"
    "overtime_of p (push_overtime p e) = overtime_of p e" for e
    by (auto simp: push_overtime_def entry_hours_def overtime_of_def OT_TYPES_def split: option.split)
  have "add_overtime co ?db (push_overtime p e) = add_overtime co db e" for co e
    unfolding add_overtime_def Let_def push entry_paise_def pay overtime_policy_for_def same by (rule refl)
  then have "add_overtime co ?db \<circ> push_overtime p = add_overtime co db" for co by (simp add: fun_eq_iff)
  moreover have "filter (overtime_of p) (map (push_overtime p) xs) = map (push_overtime p) (filter (overtime_of p) xs)" for xs
    by (induction xs) (simp_all add: push)
  ultimately have ot: "fold (add_overtime co ?db) (filter (overtime_of p) (db_overtime ?db)) ts =
      fold (add_overtime co db) (filter (overtime_of p) (db_overtime db)) ts" for co ts
    by (simp add: same fold_map)
  have "add_shift co ?db = add_shift co db" for co
    by (simp add: fun_eq_iff add_shift_def shift_policy_for_def shift_of_def same split: option.split)
  moreover have "add_comp_off co ?db = add_comp_off co db" for co
    by (simp add: fun_eq_iff add_comp_off_def encashment_paise_def pay)
  ultimately show ?thesis by (simp add: sync_totals_def Let_def same ot [unfolded same])
qed

text \<open>
  C20: locking attendance again is safe. Synchronising a period twice, as after a failed commit or an
  unlock and lock without new source records, leaves every variable input as the first synchronisation
  did, the time of its approval apart, and adds no row.
\<close>

theorem sync_idempotent:
  "map unstamped (db_variables (snd (sync_on_attendance_lock p n2 (snd (sync_on_attendance_lock p n1 db))))) =
   map unstamped (db_variables (snd (sync_on_attendance_lock p n1 db)))"
proof -
  let ?db1 = "snd (sync_on_attendance_lock p n1 db)" let ?ls = "sync_lines (sync_totals p db)"
  have d: "distinct (map line_key ?ls)" by (rule sync_lines_distinct [OF sync_totals_distinct])
  have v1: "db_variables ?db1 = fold (sync_line_step p n1) ?ls (db_variables db)"
    by (simp add: sync_on_attendance_lock_def Let_def)
  have "db_variables (snd (sync_on_attendance_lock p n2 ?db1)) = fold (sync_line_step p n2) ?ls (db_variables ?db1)"
    using sync_totals_again [of p n1 db] by (simp add: sync_on_attendance_lock_def [of p n2] Let_def)
  moreover have "\<forall>l \<in> set ?ls. settled_line p l (db_variables ?db1)" unfolding v1 using settled_fold [OF d] by blast
  ultimately show ?thesis using fold_settled [OF d] by simp
qed

end
