(* ===== verification/Periods.thy ===== *)
theory Periods
  imports Attendance_Sync
begin

text \<open>
  Payroll periods: \<open>cycle_service.py\<close>, \<open>period_service.py\<close> and the calendars of legal
  entities in \<open>run_service.py\<close>. A period is opened, its attendance is locked, which generates
  variable inputs, and it is locked, reopened or voided. The constraint of the table is the key
  \<open>(company, entity, month, year)\<close>, where two missing entities count as equal.
\<close>

section \<open>Lookups and rows\<close>

definition get_cycle :: "uuid \<Rightarrow> uuid option \<Rightarrow> payroll_db \<Rightarrow> payroll_period result" where
  "get_cycle pid company_id db =
     bind_res
       (scalar_one_or_none
         (filter (\<lambda>p. pp_id p = pid \<and> (company_id = None \<or> pp_company_id p = company_id)) (db_periods db)))
       (\<lambda>found. case found of
           None \<Rightarrow> Inl (HTTPException 404 ''Payroll period not found.'')
         | Some p \<Rightarrow> Inr p)"

definition period_by_id :: "uuid \<Rightarrow> payroll_db \<Rightarrow> payroll_period result" where
  "period_by_id pid db =
     bind_res (scalar_one_or_none (filter (\<lambda>p. pp_id p = pid) (db_periods db)))
       (\<lambda>found. case found of
           None \<Rightarrow> Inl (HTTPException 404 ''Payroll period not found.'')
         | Some p \<Rightarrow> Inr p)"

definition put_period :: "payroll_period \<Rightarrow> payroll_db \<Rightarrow> payroll_db" where
  "put_period p db = db\<lparr> db_periods := update_where (\<lambda>x. pp_id x = pp_id p) (\<lambda>_. p) (db_periods db) \<rparr>"

definition log_period ::
  "payroll_period \<Rightarrow> string \<Rightarrow> uuid option \<Rightarrow> string option \<Rightarrow> string option \<Rightarrow> string \<Rightarrow> string \<Rightarrow> payroll_db \<Rightarrow> payroll_db"
where
  "log_period p action user_id user_role before_status after_status reason db =
     log_event ''PayrollPeriod'' (Some (pp_id p)) action (pp_company_id p) user_id user_role before_status
       (Some after_status) (Some reason) db"

text \<open>The uniqueness constraint of the table.\<close>

definition period_key :: "payroll_period \<Rightarrow> uuid option \<times> uuid option \<times> int \<times> int" where
  "period_key p = (pp_company_id p, pp_legal_entity_id p, pp_month p, pp_year p)"

definition open_period ::
  "uuid \<Rightarrow> uuid option \<Rightarrow> uuid option \<Rightarrow> string \<Rightarrow> date \<Rightarrow> date \<Rightarrow> date \<Rightarrow> date option \<Rightarrow> date option \<Rightarrow> int \<Rightarrow> int
    \<Rightarrow> timestamp option \<Rightarrow> string option \<Rightarrow> payroll_period"
where
  "open_period i company_id entity_id name start_date end_date pay_date processing_date payment_date m y
       deadline remarks =
     \<lparr> pp_id = i, pp_company_id = company_id, pp_legal_entity_id = entity_id, pp_name = name,
       pp_start_date = start_date, pp_end_date = end_date, pp_pay_date = pay_date,
       pp_processing_date = processing_date, pp_payment_date = payment_date, pp_month = m, pp_year = y,
       pp_status = ''OPEN'', pp_is_locked = False, pp_locked_by = None, pp_locked_at = None,
       pp_regularisation_deadline = deadline, pp_attendance_locked_at = None, pp_attendance_locked_by = None,
       pp_unlock_reason = None, pp_remarks = remarks \<rparr>"

section \<open>Creating a period\<close>

text \<open>Dates that stay null after the defaults violate their columns when the session flushes.\<close>

definition create_cycle ::
  "uuid \<Rightarrow> string \<Rightarrow> int \<Rightarrow> int \<Rightarrow> date option \<Rightarrow> date option \<Rightarrow> date option \<Rightarrow> date option \<Rightarrow> timestamp option
    \<Rightarrow> uuid option \<Rightarrow> string option \<Rightarrow> payroll_db \<Rightarrow> payroll_period result \<times> payroll_db"
where
  "create_cycle company_id name m y start_date end_date proc_opt payment deadline user_id user_role db =
     (case scalar_one_or_none
             (filter (\<lambda>p. pp_company_id p = Some company_id \<and> pp_month p = m \<and> pp_year p = y) (db_periods db)) of
        Inl e \<Rightarrow> (Inl e, db)
      | Inr (Some _) \<Rightarrow> (Inl (HTTPException 409 ''Payroll period already exists.''), db)
      | Inr None \<Rightarrow>
          let processing_date = (case proc_opt of Some d \<Rightarrow> Some d | None \<Rightarrow> end_date);
              payment_date = (case payment of Some d \<Rightarrow> Some d | None \<Rightarrow> end_date)
          in case (start_date, end_date, payment_date) of
               (Some s, Some e, Some pay) \<Rightarrow>
                 let p = open_period (fresh_id (map pp_id (db_periods db))) (Some company_id) None name s e pay
                           processing_date payment_date m y deadline None
                 in (Inr p,
                     log_period p ''CREATE'' user_id user_role None ''OPEN'' ''Payroll period created''
                       (db\<lparr> db_periods := db_periods db @ [p] \<rparr>))
             | _ \<Rightarrow> (Inl IntegrityError, db))"

text \<open>A month or year that the payload leaves out or sets to 0 is that of the start date.\<close>

definition derived :: "(date \<Rightarrow> int) \<Rightarrow> int option \<Rightarrow> date option \<Rightarrow> int option" where
  "derived part given start_date =
     (case given of Some n \<Rightarrow> if n \<noteq> 0 then Some n else map_option part start_date
      | None \<Rightarrow> map_option part start_date)"

text \<open>Here the constraint alone prevents a duplicate, which becomes a 409.\<close>

definition create_period ::
  "uuid option \<Rightarrow> string \<Rightarrow> date option \<Rightarrow> date option \<Rightarrow> date option \<Rightarrow> date option \<Rightarrow> date option \<Rightarrow> int option
    \<Rightarrow> int option \<Rightarrow> string option \<Rightarrow> uuid option \<Rightarrow> payroll_db \<Rightarrow> payroll_period result \<times> payroll_db"
where
  "create_period payload_company name start_date end_date pay_date proc_opt payment month_opt year_opt remarks company_id db =
     (let target = (case payload_company of Some c \<Rightarrow> Some c | None \<Rightarrow> company_id)
      in case (derived month month_opt start_date, derived year year_opt start_date) of
           (Some m, Some y) \<Rightarrow>
             let processing_date = (case proc_opt of Some d \<Rightarrow> Some d | None \<Rightarrow> end_date);
                 payment_date = (case payment of Some d \<Rightarrow> Some d | None \<Rightarrow> pay_date)
             in (case (start_date, end_date, pay_date) of
                   (Some s, Some e, Some pay) \<Rightarrow>
                     let p = open_period (fresh_id (map pp_id (db_periods db))) target None name s e pay
                               processing_date payment_date m y None remarks
                     in if period_key p \<in> set (map period_key (db_periods db))
                        then (Inl (HTTPException 409 ''Payroll period already exists for this company.''), db)
                        else (Inr p, db\<lparr> db_periods := db_periods db @ [p] \<rparr>)
                 | _ \<Rightarrow> (Inl (HTTPException 409 ''Payroll period already exists for this company.''), db))
         | _ \<Rightarrow> (Inl (HTTPException 422 ''period_month and period_year are required''), db))"

section \<open>Locking, reopening and voiding\<close>

definition reopen_cycle ::
  "uuid \<Rightarrow> string \<Rightarrow> uuid option \<Rightarrow> string option \<Rightarrow> payroll_db \<Rightarrow> payroll_period result \<times> payroll_db" where
  "reopen_cycle pid reason user_id user_role db =
     (case get_cycle pid None db of
        Inl e \<Rightarrow> (Inl e, db)
      | Inr p \<Rightarrow>
          if pp_status p \<notin> {''LOCKED'', ''CLOSED'', ''PROCESSING''}
          then (Inl (HTTPException 400 ''Period in this state cannot be reopened.''), db)
          else
            let p' = p\<lparr> pp_status := ''OPEN'', pp_is_locked := False, pp_locked_by := None, pp_locked_at := None,
                       pp_attendance_locked_at := None, pp_attendance_locked_by := None,
                       pp_unlock_reason := Some reason, pp_remarks := Some reason \<rparr>
            in (Inr p', log_period p ''REOPEN'' user_id user_role (Some (pp_status p)) ''OPEN'' reason (put_period p' db)))"

definition own_or :: "'a option \<Rightarrow> 'a option \<Rightarrow> 'a option" where
  "own_or a b = (case a of Some x \<Rightarrow> Some x | None \<Rightarrow> b)"

definition lock_cycle ::
  "uuid \<Rightarrow> uuid option \<Rightarrow> string option \<Rightarrow> timestamp \<Rightarrow> timestamp \<Rightarrow> payroll_db \<Rightarrow> payroll_period result \<times> payroll_db" where
  "lock_cycle pid user_id user_role now sync_now db =
     (case get_cycle pid None db of
        Inl e \<Rightarrow> (Inl e, db)
      | Inr p \<Rightarrow>
          if pp_status p \<noteq> ''OPEN''
          then (Inl (HTTPException 400 ''Period in this state cannot be locked.''), db)
          else
            let p' = p\<lparr> pp_status := ''LOCKED'', pp_is_locked := True, pp_locked_by := user_id,
                       pp_locked_at := Some now,
                       pp_attendance_locked_at := own_or (pp_attendance_locked_at p) (Some now),
                       pp_attendance_locked_by := own_or (pp_attendance_locked_by p) user_id,
                       pp_unlock_reason := None \<rparr>
            in (Inr p',
                snd (sync_on_attendance_lock p' sync_now
                  (log_period p ''LOCK'' user_id user_role (Some (pp_status p)) ''LOCKED'' ''Payroll period locked''
                    (put_period p' db)))))"

definition lock_attendance ::
  "uuid \<Rightarrow> uuid option \<Rightarrow> string option \<Rightarrow> uuid option \<Rightarrow> timestamp \<Rightarrow> timestamp \<Rightarrow> payroll_db
    \<Rightarrow> payroll_period result \<times> payroll_db"
where
  "lock_attendance pid user_id user_role company_id now sync_now db =
     (case get_cycle pid company_id db of
        Inl e \<Rightarrow> (Inl e, db)
      | Inr p \<Rightarrow>
          if pp_attendance_locked_at p \<noteq> None
          then (Inl (HTTPException 409 ''Attendance is already locked for this period.''), db)
          else
            let p' = p\<lparr> pp_attendance_locked_at := Some now, pp_attendance_locked_by := user_id,
                       pp_unlock_reason := None \<rparr>;
                synced = sync_on_attendance_lock p' sync_now
                  (log_period p ''ATTENDANCE_LOCK'' user_id user_role (Some (pp_status p)) (pp_status p)
                    ''Attendance locked for payroll'' (put_period p' db));
                p'' = p'\<lparr> pp_remarks := Some (''Attendance locked; '' @ nat_digits (fst synced) @
                        '' variable inputs synchronised'') \<rparr>
            in (Inr p'', put_period p'' (snd synced)))"

definition unlock_attendance ::
  "uuid \<Rightarrow> string \<Rightarrow> uuid option \<Rightarrow> string option \<Rightarrow> uuid option \<Rightarrow> payroll_db \<Rightarrow> payroll_period result \<times> payroll_db"
where
  "unlock_attendance pid reason user_id user_role company_id db =
     (if py_strip reason = [] then (Inl (HTTPException 422 ''An unlock reason is required.''), db)
      else case get_cycle pid company_id db of
        Inl e \<Rightarrow> (Inl e, db)
      | Inr p \<Rightarrow>
          if pp_attendance_locked_at p = None
          then (Inl (HTTPException 409 ''Attendance is not locked for this period.''), db)
          else
            let p' = p\<lparr> pp_attendance_locked_at := None, pp_attendance_locked_by := None,
                       pp_unlock_reason := Some (py_strip reason) \<rparr>
            in (Inr p',
                log_period p ''ATTENDANCE_UNLOCK'' user_id user_role (Some ''ATTENDANCE_LOCKED'') ''ATTENDANCE_OPEN''
                  (py_strip reason) (put_period p' db)))"

definition void_cycle ::
  "uuid \<Rightarrow> string \<Rightarrow> uuid option \<Rightarrow> string option \<Rightarrow> payroll_db \<Rightarrow> payroll_period result \<times> payroll_db" where
  "void_cycle pid reason user_id user_role db =
     (case get_cycle pid None db of
        Inl e \<Rightarrow> (Inl e, db)
      | Inr p \<Rightarrow>
          if \<exists>r \<in> set (db_runs db). run_period_id r = Some pid \<and> run_status r \<notin> {CANCELLED, VOID, REJECTED}
          then (Inl (HTTPException 400 ''Cannot void period with active payroll runs.''), db)
          else
            let p' = p\<lparr> pp_status := ''VOID'', pp_remarks := Some reason \<rparr>
            in (Inr p', log_period p ''VOID'' user_id user_role (Some (pp_status p)) ''VOID'' reason (put_period p' db)))"

section \<open>The calendar of a legal entity\<close>

definition two_digit_month :: "int \<Rightarrow> string" where
  "two_digit_month m = (if 0 \<le> m \<and> m < 10 then CHR ''0'' # int_str m else int_str m)"

definition calendar_at :: "uuid \<Rightarrow> int \<Rightarrow> int \<Rightarrow> payroll_db \<Rightarrow> entity_calendar option result" where
  "calendar_at eid m y db =
     scalar_one_or_none
       (filter (\<lambda>c. ec_legal_entity_id c = eid \<and> ec_period_month c = m \<and> ec_period_year c = y) (db_calendars db))"

definition entity_period_at :: "legal_entity \<Rightarrow> int \<Rightarrow> int \<Rightarrow> payroll_db \<Rightarrow> payroll_period option result" where
  "entity_period_at en m y db =
     scalar_one_or_none
       (filter (\<lambda>p. period_key p = (le_company_id en, Some (le_id en), m, y)) (db_periods db))"

text \<open>A row that was found is overwritten, a new one is added.\<close>

definition put_calendar :: "entity_calendar \<Rightarrow> bool \<Rightarrow> payroll_db \<Rightarrow> payroll_db" where
  "put_calendar c new db =
     db\<lparr> db_calendars :=
       (if new then db_calendars db @ [c] else update_where (\<lambda>x. ec_id x = ec_id c) (\<lambda>_. c) (db_calendars db)) \<rparr>"

definition upsert_entity_payroll_calendar ::
  "uuid \<Rightarrow> int \<Rightarrow> int \<Rightarrow> date \<Rightarrow> date \<Rightarrow> date \<Rightarrow> date \<Rightarrow> date option \<Rightarrow> uuid option \<Rightarrow> payroll_db
    \<Rightarrow> (entity_calendar \<times> payroll_period) result \<times> payroll_db"
where
  "upsert_entity_payroll_calendar eid m y start_date end_date processing_date pay_date cutoff company_id db =
     (if \<not> (1 \<le> m \<and> m \<le> 12) then (Inl (ValueError ''period_month must be between 1 and 12''), db)
      else if \<not> (start_date \<le> end_date \<and> end_date \<le> processing_date \<and> processing_date \<le> pay_date)
      then (Inl (ValueError ''Expected start_date <= end_date <= processing_date <= pay_date''), db)
      else if (case cutoff of None \<Rightarrow> False | Some d \<Rightarrow> \<not> (start_date \<le> d \<and> d \<le> processing_date))
      then (Inl (ValueError ''Attendance cut-off must fall inside the processing calendar''), db)
      else case scalars_first (filter (\<lambda>en. le_id en = eid) (db_entities db)) of
        None \<Rightarrow> (Inl (LookupError ''Active legal entity not found''), db)
      | Some en \<Rightarrow>
          if \<not> le_is_active en \<or> company_id \<noteq> None \<and> le_company_id en \<noteq> company_id
          then (Inl (LookupError ''Active legal entity not found''), db)
          else case (calendar_at eid m y db, entity_period_at en m y db) of
            (Inl e, _) \<Rightarrow> (Inl e, db)
          | (_, Inl e) \<Rightarrow> (Inl e, db)
          | (Inr found_calendar, Inr found_period) \<Rightarrow>
              let p = (case found_period of
                         Some p \<Rightarrow> p
                       | None \<Rightarrow> open_period (fresh_id (map pp_id (db_periods db))) (le_company_id en) (Some eid)
                           (le_code en @ '' '' @ int_str y @ ''-'' @ two_digit_month m)
                           start_date end_date pay_date None None m y None None)
              in if pp_is_locked p \<or> pp_status p \<in> {''CLOSED'', ''VOID''}
                 then (Inl (ValueError ''A closed/locked payroll calendar cannot be changed''), db)
                 else
                   let p' = p\<lparr> pp_start_date := start_date, pp_end_date := end_date,
                              pp_processing_date := Some processing_date, pp_pay_date := pay_date,
                              pp_payment_date := Some pay_date \<rparr>;
                       c' = \<lparr> ec_id = (case found_calendar of
                                       Some c \<Rightarrow> ec_id c | None \<Rightarrow> fresh_id (map ec_id (db_calendars db))),
                              ec_company_id = (case found_calendar of Some c \<Rightarrow> ec_company_id c | None \<Rightarrow> le_company_id en),
                              ec_legal_entity_id = eid, ec_payroll_period_id = Some (pp_id p'),
                              ec_period_month = m, ec_period_year = y, ec_start_date = start_date,
                              ec_end_date = end_date, ec_processing_date = processing_date,
                              ec_pay_date = pay_date, ec_attendance_cutoff_date = cutoff \<rparr>
                   in (Inr (c', p'),
                       put_calendar c' (found_calendar = None)
                         (if found_period = None then db\<lparr> db_periods := db_periods db @ [p'] \<rparr> else put_period p' db)))"

section \<open>Requests on periods\<close>

datatype period_request =
    CycleCreate uuid string int int "date option" "date option" "date option" "date option" "timestamp option" "uuid option" "string option"
  | PeriodCreate "uuid option" string "date option" "date option" "date option" "date option" "date option" "int option" "int option" "string option" "uuid option"
  | CycleReopen uuid string "uuid option" "string option"
  | CycleLock uuid "uuid option" "string option" timestamp timestamp
  | AttendanceLock uuid "uuid option" "string option" "uuid option" timestamp timestamp
  | AttendanceUnlock uuid string "uuid option" "string option" "uuid option"
  | CycleVoid uuid string "uuid option" "string option"
  | CalendarUpsert uuid int int date date date date "date option" "uuid option"

fun perform_period :: "period_request \<Rightarrow> payroll_db \<Rightarrow> payroll_db" where
  "perform_period (CycleCreate c name m y s e pr pay dl u r) db = snd (create_cycle c name m y s e pr pay dl u r db)"
| "perform_period (PeriodCreate pc name s e pay pr pd m y rem c) db = snd (create_period pc name s e pay pr pd m y rem c db)"
| "perform_period (CycleReopen pid reason u r) db = snd (reopen_cycle pid reason u r db)"
| "perform_period (CycleLock pid u r now n2) db = snd (lock_cycle pid u r now n2 db)"
| "perform_period (AttendanceLock pid u r c now n2) db = snd (lock_attendance pid u r c now n2 db)"
| "perform_period (AttendanceUnlock pid reason u r c) db = snd (unlock_attendance pid reason u r c db)"
| "perform_period (CycleVoid pid reason u r) db = snd (void_cycle pid reason u r db)"
| "perform_period (CalendarUpsert eid m y s e pr pay coff c) db =
     snd (upsert_entity_payroll_calendar eid m y s e pr pay coff c db)"

section \<open>What every request does to the table\<close>

definition period_ok :: "payroll_period \<Rightarrow> bool" where
  "period_ok p \<longleftrightarrow>
     (pp_status p = ''OPEN'' \<longrightarrow> \<not> pp_is_locked p) \<and> (pp_status p = ''LOCKED'' \<longrightarrow> pp_is_locked p) \<and>
     (pp_is_locked p \<longrightarrow> pp_locked_at p \<noteq> None \<and> pp_status p \<in> {''LOCKED'', ''VOID''})"

definition frozen :: "payroll_period \<Rightarrow> payroll_period \<Rightarrow> bool" where
  "frozen p q \<longleftrightarrow>
     pp_id q = pp_id p \<and> pp_status q = pp_status p \<and> pp_is_locked q = pp_is_locked p \<and>
     pp_start_date q = pp_start_date p \<and> pp_end_date q = pp_end_date p \<and> pp_pay_date q = pp_pay_date p"

definition moved :: "payroll_period \<Rightarrow> payroll_period \<Rightarrow> bool" where
  "moved p q \<longleftrightarrow>
     pp_id q = pp_id p \<and> period_key q = period_key p \<and> (period_ok p \<longrightarrow> period_ok q) \<and>
     (pp_status p = ''VOID'' \<longrightarrow> frozen p q)"

definition table_step :: "payroll_period list \<Rightarrow> payroll_period list \<Rightarrow> bool" where
  "table_step ps qs \<longleftrightarrow>
     qs = ps \<or>
     (\<exists>p q. p \<in> set ps \<and> moved p q \<and> qs = update_where (\<lambda>x. pp_id x = pp_id p) (\<lambda>_. q) ps) \<or>
     (\<exists>q. pp_id q \<notin> set (map pp_id ps) \<and> period_key q \<notin> set (map period_key ps) \<and> period_ok q \<and> qs = ps @ [q])"

definition periods_ok :: "payroll_period list \<Rightarrow> bool" where
  "periods_ok ps \<longleftrightarrow> distinct (map pp_id ps) \<and> distinct (map period_key ps) \<and> (\<forall>p \<in> set ps. period_ok p)"

lemma update_one:
  assumes "distinct (map f xs)" "x \<in> set xs" "y \<in> set (update_where (\<lambda>z. f z = f x) (\<lambda>_. w) xs)"
  shows "y = w \<or> y \<in> set xs \<and> f y \<noteq> f x"
  using assms by (auto simp: in_set_update_where split: if_splits)

lemma map_update_one:
  assumes "distinct (map f xs)" "x \<in> set xs" "g w = g x"
  shows "map g (update_where (\<lambda>z. f z = f x) (\<lambda>_. w) xs) = map g xs"
  using assms by (auto simp: update_where_def distinct_map inj_on_def)

lemma periods_ok_step: "table_step ps qs \<Longrightarrow> periods_ok ps \<Longrightarrow> periods_ok qs"
  unfolding table_step_def
proof (elim disjE exE conjE)
  fix p q
  assume ps: "periods_ok ps" and p: "p \<in> set ps" and pq: "moved p q"
    and qs: "qs = update_where (\<lambda>x. pp_id x = pp_id p) (\<lambda>_. q) ps"
  have d: "distinct (map pp_id ps)" "distinct (map period_key ps)" "period_ok q"
    using ps p pq by (auto simp: periods_ok_def moved_def)
  have "map pp_id qs = map pp_id ps" "map period_key qs = map period_key ps"
    unfolding qs using pq by (auto intro!: map_update_one [OF d(1) p] simp: moved_def)
  moreover have "\<forall>x \<in> set qs. period_ok x"
    using update_one [OF d(1) p] d(3) ps unfolding qs periods_ok_def by blast
  ultimately show "periods_ok qs" using d by (simp add: periods_ok_def)
qed (auto simp: periods_ok_def)

lemma void_step:
  assumes "table_step ps qs" "p \<in> set ps" "pp_status p = ''VOID''" "distinct (map pp_id ps)"
  shows "\<exists>q \<in> set qs. frozen p q"
  using assms(1) unfolding table_step_def
proof (elim disjE exE conjE)
  fix p1 q
  assume p1: "p1 \<in> set ps" and pq: "moved p1 q" and qs: "qs = update_where (\<lambda>x. pp_id x = pp_id p1) (\<lambda>_. q) ps"
  show ?thesis
  proof (cases "pp_id p = pp_id p1")
    case True
    then have "p = p1" using assms(2,4) p1 by (simp add: distinct_map inj_on_def)
    then have "frozen p q" using pq assms(3) by (simp add: moved_def)
    moreover have "q \<in> set qs" unfolding qs using True assms(2) by (auto simp: in_set_update_where)
    ultimately show ?thesis by blast
  next
    case False
    then have "p \<in> set qs" unfolding qs using assms(2) by (auto simp: in_set_update_where)
    then show ?thesis by (auto simp: frozen_def)
  qed
qed (use assms(2) in \<open>auto simp: frozen_def\<close>)

lemma frozen_trans: "frozen p q \<Longrightarrow> frozen q r \<Longrightarrow> frozen p r"
  by (simp add: frozen_def)

section \<open>The requests are steps\<close>

lemma filter_single: "filter P xs = [x] \<Longrightarrow> x \<in> set xs \<and> P x"
  by (drule arg_cong [where f = set]) auto

lemma get_cycle_in: "get_cycle pid c db = Inr p \<Longrightarrow> p \<in> set (db_periods db) \<and> pp_id p = pid"
  by (auto simp: get_cycle_def bind_res_Inr_iff scalar_one_or_none_Inr_Some split: option.splits
      dest!: filter_single)

lemma periods_put [simp]:
  "db_periods (put_period p db) = update_where (\<lambda>x. pp_id x = pp_id p) (\<lambda>_. p) (db_periods db)"
  by (simp add: put_period_def)

lemma periods_log [simp]: "db_periods (log_period p a u r b af rs db) = db_periods db"
  by (simp add: log_period_def log_event_def)

lemma periods_sync [simp]: "db_periods (snd (sync_on_attendance_lock p n db)) = db_periods db"
  by (simp add: sync_on_attendance_lock_def Let_def)

lemma step_same [simp]: "table_step ps ps" by (simp add: table_step_def)

lemma step_put:
  assumes "p \<in> set ps" "moved p q"
  shows "table_step ps (update_where (\<lambda>x. pp_id x = pp_id p) (\<lambda>_. q) ps)"
  unfolding table_step_def by (intro disjI2 disjI1 exI [of _ p] exI [of _ q] conjI assms refl)

lemma put_twice [simp]:
  "f p = k \<Longrightarrow>
    update_where (\<lambda>x. f x = k) (\<lambda>_. q) (update_where (\<lambda>x. f x = k) (\<lambda>_. p) ps) = update_where (\<lambda>x. f x = k) (\<lambda>_. q) ps"
  by (induction ps) auto

lemma step_add:
  assumes "pp_id q = fresh_id (map pp_id ps)" "period_key q \<notin> set (map period_key ps)" "period_ok q"
  shows "table_step ps (ps @ [q])"
  using assms fresh_id_notin [of "map pp_id ps"] unfolding table_step_def by (intro disjI2 exI [of _ q]) simp

lemma open_period_sel [simp]:
  "pp_id (open_period i c en name s e pay pr pd m y dl rem) = i"
  "period_key (open_period i c en name s e pay pr pd m y dl rem) = (c, en, m, y)"
  "period_ok (open_period i c en name s e pay pr pd m y dl rem)"
  "pp_is_locked (open_period i c en name s e pay pr pd m y dl rem) = False"
  "pp_status (open_period i c en name s e pay pr pd m y dl rem) = ''OPEN''"
  by (simp_all add: open_period_def period_key_def period_ok_def)

lemma step_create_cycle:
  "table_step (db_periods db) (db_periods (snd (create_cycle c name m y s e pr pay dl u r db)))"
proof (cases "scalar_one_or_none
    (filter (\<lambda>p. pp_company_id p = Some c \<and> pp_month p = m \<and> pp_year p = y) (db_periods db))")
  case (Inr found)
  show ?thesis
  proof (cases found)
    case None
    then have "\<forall>p \<in> set (db_periods db). \<not> (pp_company_id p = Some c \<and> pp_month p = m \<and> pp_year p = y)"
      using Inr by (auto simp: scalar_one_or_none_Inr_None filter_empty_conv)
    then have "(Some c, None, m, y) \<notin> set (map period_key (db_periods db))" by (auto simp: period_key_def)
    then show ?thesis using None Inr
      by (auto simp: create_cycle_def Let_def intro!: step_add split: option.splits)
  qed (use Inr in \<open>simp add: create_cycle_def\<close>)
qed (simp add: create_cycle_def)

lemma step_create_period:
  "table_step (db_periods db) (db_periods (snd (create_period pc name s e pay pr pd m y rem c db)))"
  by (cases "derived month m s"; cases "derived year y s"; cases s; cases e; cases pay)
    (simp_all add: create_period_def Let_def step_add)

lemmas moved_defs = moved_def period_ok_def period_key_def frozen_def

lemma get_cycle_set: "get_cycle pid c db = Inr p \<Longrightarrow> p \<in> set (db_periods db)"
  by (simp add: get_cycle_in)

lemma step_reopen: "table_step (db_periods db) (db_periods (snd (reopen_cycle pid reason u r db)))"
proof (cases "get_cycle pid None db")
  case (Inr p)
  show ?thesis using Inr get_cycle_set [OF Inr]
    by (auto simp: reopen_cycle_def Let_def moved_defs intro!: step_put)
qed (simp add: reopen_cycle_def)

lemma step_lock: "table_step (db_periods db) (db_periods (snd (lock_cycle pid u r now n2 db)))"
proof (cases "get_cycle pid None db")
  case (Inr p)
  show ?thesis using Inr get_cycle_set [OF Inr]
    by (auto simp: lock_cycle_def Let_def moved_defs intro!: step_put)
qed (simp add: lock_cycle_def)

lemma step_lock_attendance:
  "table_step (db_periods db) (db_periods (snd (lock_attendance pid u r c now n2 db)))"
proof (cases "get_cycle pid c db")
  case (Inr p)
  show ?thesis using Inr get_cycle_set [OF Inr]
    by (auto simp: lock_attendance_def Let_def moved_defs intro!: step_put)
qed (simp add: lock_attendance_def)

lemma step_unlock_attendance:
  "table_step (db_periods db) (db_periods (snd (unlock_attendance pid reason u r c db)))"
proof (cases "get_cycle pid c db")
  case (Inr p)
  show ?thesis using Inr get_cycle_set [OF Inr]
    by (auto simp: unlock_attendance_def Let_def moved_defs intro!: step_put)
qed (simp add: unlock_attendance_def)

lemma step_void: "table_step (db_periods db) (db_periods (snd (void_cycle pid reason u r db)))"
proof (cases "get_cycle pid None db")
  case (Inr p)
  show ?thesis using Inr get_cycle_set [OF Inr]
    by (auto simp: void_cycle_def Let_def moved_defs intro!: step_put)
qed (simp add: void_cycle_def)

lemma put_calendar_periods [simp]: "db_periods (put_calendar c new db) = db_periods db"
  by (simp add: put_calendar_def)

lemma step_calendar:
  "table_step (db_periods db) (db_periods (snd (upsert_entity_payroll_calendar eid m y s e pr pay coff c db)))"
proof -
  let ?dated = "\<lambda>p :: payroll_period. p\<lparr> pp_start_date := s, pp_end_date := e, pp_processing_date := Some pr,
      pp_pay_date := pay, pp_payment_date := Some pay \<rparr>"
  have same: "pp_id (?dated p) = pp_id p" "period_key (?dated p) = period_key p" "period_ok (?dated p) = period_ok p" for p
    by (simp_all add: period_key_def period_ok_def)
  have old: "table_step (db_periods db) (update_where (\<lambda>x. pp_id x = pp_id p) (\<lambda>_. ?dated p) (db_periods db))"
    if "entity_period_at en m y db = Inr (Some p)" "pp_status p \<noteq> ''VOID''" for en p
  proof -
    have "p \<in> set (db_periods db)"
      using that(1) by (auto simp: entity_period_at_def scalar_one_or_none_Inr_Some dest!: filter_single)
    moreover have "moved p (?dated p)" unfolding moved_def using that(2) same by blast
    ultimately show ?thesis by (rule step_put)
  qed
  have new: "table_step (db_periods db) (db_periods db @ [q])"
    if "entity_period_at en m y db = Inr None" "pp_id q = fresh_id (map pp_id (db_periods db))"
      "period_key q = (le_company_id en, Some (le_id en), m, y)" "period_ok q" for en q
  proof (rule step_add)
    show "period_key q \<notin> set (map period_key (db_periods db))"
      using that(1,3) by (auto simp: entity_period_at_def scalar_one_or_none_Inr_None filter_empty_conv)
  qed (rule that)+
  show ?thesis
  proof (cases "scalars_first (filter (\<lambda>en. le_id en = eid) (db_entities db))")
    case (Some en)
    then have en: "le_id en = eid" by (auto dest: scalars_first_Some)
    show ?thesis
    proof (cases "entity_period_at en m y db")
      case (Inl ex)
      then show ?thesis using Some
        by (auto simp: upsert_entity_payroll_calendar_def split: sum.splits option.splits)
    next
      case (Inr found)
      show ?thesis
      proof (cases found)
        case None
        then show ?thesis using Some Inr en
          by (auto simp: upsert_entity_payroll_calendar_def Let_def open_period_def period_key_def period_ok_def
              intro!: new [of en] split: sum.splits option.splits)
      next
        case found: (Some p)
        then show ?thesis using Some Inr
          by (auto simp: upsert_entity_payroll_calendar_def Let_def intro!: old [of en] split: sum.splits option.splits)
      qed
    qed
  qed (auto simp: upsert_entity_payroll_calendar_def split: option.splits)
qed

lemma period_request_step: "table_step (db_periods db) (db_periods (perform_period a db))"
  by (cases a) (simp_all only: perform_period.simps step_create_cycle step_create_period step_reopen step_lock
      step_lock_attendance step_unlock_attendance step_void step_calendar)

interpretation periods: transition_system perform_period "\<lambda>db :: payroll_db. periods_ok (db_periods db)"
  by unfold_locales (rule periods_ok_step [OF period_request_step])

section \<open>Invariants of the table\<close>

text \<open>
  C21: the table of periods stays well formed. Along every trace of requests that create, lock, unlock,
  reopen and void periods or set the calendar of an entity, periods keep distinct ids, no two periods
  share tenant, entity, month and year, an OPEN period is never locked, a LOCKED one is, and a locked
  period has the time of its lock.
\<close>

theorem periods_stay_well_formed:
  assumes "periods_ok (db_periods db)"
  shows "periods_ok (db_periods (foldl (\<lambda>d a. perform_period a d) db ops))"
  by (rule periods.trace_keeps [OF assms])

definition sample_office_open :: payroll_db where
  "sample_office_open =
     perform_period (CycleCreate 1 ''June'' 6 2025 (Some (Date 2025 6 1)) (Some (Date 2025 6 30)) None None None (Some 7) None)
       empty_db"

lemma sample_office_open_ok: "periods_ok (db_periods sample_office_open)"
proof -
  have "periods_ok (db_periods empty_db)" by (simp add: empty_db_def periods_ok_def)
  then show ?thesis unfolding sample_office_open_def by (rule periods.keeps)
qed

theorem periods_stay_well_formed_witness:
  "periods_ok (db_periods (foldl (\<lambda>d a. perform_period a d) sample_office_open
     [AttendanceLock 1 (Some 7) None None 10 11, CycleLock 1 (Some 7) None 12 13, CycleReopen 1 ''late entry'' (Some 7) None]))"
  by (rule periods_stay_well_formed [OF sample_office_open_ok])

text \<open>
  Voiding is final. Whatever requests follow, a period that is VOID stays VOID, with its lock and
  its start, end and pay dates as they were.
\<close>

theorem void_period_is_final:
  assumes "periods_ok (db_periods db)" "p \<in> set (db_periods db)" "pp_status p = ''VOID''"
  shows "\<exists>q \<in> set (db_periods (foldl (\<lambda>d a. perform_period a d) db ops)). frozen p q"
  using assms
proof (induction ops arbitrary: db p)
  case (Cons a ops)
  have "distinct (map pp_id (db_periods db))" using Cons.prems(1) by (simp add: periods_ok_def)
  then obtain q where q: "q \<in> set (db_periods (perform_period a db))" "frozen p q"
    using void_step [OF period_request_step Cons.prems(2,3)] by blast
  then have "\<exists>r \<in> set (db_periods (foldl (\<lambda>d a. perform_period a d) (perform_period a db) ops)). frozen q r"
    using Cons.IH [OF periods.keeps [OF Cons.prems(1)] q(1)] Cons.prems(3) by (simp add: frozen_def)
  then show ?case using frozen_trans [OF q(2)] by auto
qed (auto simp: frozen_def)

definition sample_voided :: payroll_period where
  "sample_voided =
     (open_period 1 (Some 1) None ''June'' (Date 2025 6 1) (Date 2025 6 30) (Date 2025 6 30) (Some (Date 2025 6 30))
       (Some (Date 2025 6 30)) 6 2025 None (Some ''opened twice''))\<lparr> pp_status := ''VOID'' \<rparr>"

theorem void_period_is_final_witness:
  "\<exists>q \<in> set (db_periods (foldl (\<lambda>d a. perform_period a d) (perform_period (CycleVoid 1 ''opened twice'' None None) sample_office_open)
      [CycleReopen 1 ''again'' None None, CycleLock 1 None None 20 21, AttendanceLock 1 None None None 22 23])). frozen sample_voided q"
proof (rule void_period_is_final)
  show "periods_ok (db_periods (perform_period (CycleVoid 1 ''opened twice'' None None) sample_office_open))"
    by (rule periods.keeps [OF sample_office_open_ok])
  show "sample_voided \<in> set (db_periods (perform_period (CycleVoid 1 ''opened twice'' None None) sample_office_open))"
    by code_simp
  show "pp_status sample_voided = ''VOID''" by code_simp
qed

text \<open>Attendance can be opened again while the period itself stays locked.\<close>

lemma locked_period_open_attendance:
  "map (\<lambda>p. (pp_status p, pp_attendance_locked_at p))
     (db_periods (foldl (\<lambda>d a. perform_period a d) sample_office_open
       [CycleLock 1 (Some 7) None 12 13, AttendanceUnlock 1 ''correction'' (Some 7) None None])) = [(''LOCKED'', None)]"
  by code_simp

end
