(* ===== verification/Variable_Inputs.thy ===== *)
theory Variable_Inputs
  imports Periods Compensation
begin

text \<open>
  Variable compensation inputs: \<open>variable_input_service.py\<close>. Inputs are created, approved,
  rejected or imported by hand; those that a locked attendance generates are locked against it.
  The parsers of identifiers and numbers are arguments; the cache of a preview is the list of its rows.
\<close>

section \<open>Inputs made by hand\<close>

definition get_input :: "uuid \<Rightarrow> payroll_db \<Rightarrow> variable_input result" where
  "get_input vid db =
     bind_res (scalar_one_or_none (filter (\<lambda>v. vi_id v = vid) (db_variables db)))
       (\<lambda>found. case found of
           None \<Rightarrow> Inl (HTTPException 404 ''Variable input not found.'')
         | Some v \<Rightarrow> Inr v)"

definition manual_input ::
  "uuid \<Rightarrow> uuid \<Rightarrow> uuid option \<Rightarrow> uuid option \<Rightarrow> string \<Rightarrow> int \<Rightarrow> rat option \<Rightarrow> int option \<Rightarrow> string \<Rightarrow> string \<Rightarrow> variable_input"
where
  "manual_input i eid period_id company_id input_type amount units rate description status =
     \<lparr> vi_id = i, vi_employee_id = eid, vi_period_id = period_id, vi_company_id = company_id, vi_type = input_type,
       vi_amount_paise = amount, vi_units = units, vi_rate_per_unit_paise = rate, vi_description = description,
       vi_source = None, vi_remarks = None, vi_status = status, vi_is_locked = False, vi_approved_by = None,
       vi_approved_at = None, vi_rejected_by = None, vi_rejected_at = None, vi_rejection_reason = None \<rparr>"

definition add_input :: "variable_input \<Rightarrow> payroll_db \<Rightarrow> payroll_db" where
  "add_input v db = db\<lparr> db_variables := db_variables db @ [v] \<rparr>"

definition fresh_input_id :: "payroll_db \<Rightarrow> uuid" where
  "fresh_input_id db = fresh_id (map vi_id (db_variables db))"

text \<open>
  The period is a soft reference that need not exist. The CREATE audit row is added after the commit,
  and lost.
\<close>

definition create_input ::
  "uuid \<Rightarrow> uuid option \<Rightarrow> string \<Rightarrow> int \<Rightarrow> rat option \<Rightarrow> int option \<Rightarrow> string \<Rightarrow> uuid option \<Rightarrow> payroll_db
    \<Rightarrow> variable_input result \<times> payroll_db"
where
  "create_input eid period_id input_type amount units rate description company_id db =
     (case find_employee eid db of
        Inl e \<Rightarrow> (Inl e, db)
      | Inr None \<Rightarrow> (Inl (HTTPException 404 ''Employee not found.''), db)
      | Inr (Some emp) \<Rightarrow>
          let target = (case company_id of Some c \<Rightarrow> Some c | None \<Rightarrow> em_company_id emp);
              v = manual_input (fresh_input_id db) eid period_id target input_type amount units rate description
                    ''PENDING''
          in (Inr v, add_input v db))"

definition put_input :: "variable_input \<Rightarrow> payroll_db \<Rightarrow> payroll_db" where
  "put_input v db = db\<lparr> db_variables := update_where (\<lambda>x. vi_id x = vi_id v) (\<lambda>_. v) (db_variables db) \<rparr>"

definition log_input ::
  "variable_input \<Rightarrow> string \<Rightarrow> uuid option \<Rightarrow> string option \<Rightarrow> string \<Rightarrow> string \<Rightarrow> payroll_db \<Rightarrow> payroll_db" where
  "log_input v action user_id user_role after_status reason db =
     log_event ''VariableInput'' (Some (vi_id v)) action (vi_company_id v) user_id user_role (Some (vi_status v))
       (Some after_status) (Some reason) db"

text \<open>Both refuse a locked input and accept an input of any status.\<close>

definition approve_input ::
  "uuid \<Rightarrow> string option \<Rightarrow> uuid option \<Rightarrow> string option \<Rightarrow> timestamp \<Rightarrow> payroll_db \<Rightarrow> variable_input result \<times> payroll_db"
where
  "approve_input vid remarks user_id user_role now db =
     (case get_input vid db of
        Inl e \<Rightarrow> (Inl e, db)
      | Inr v \<Rightarrow>
          if vi_is_locked v
          then (Inl (HTTPException 409 ''Attendance-generated variable inputs are locked''), db)
          else
            let v' = v\<lparr> vi_status := ''APPROVED'', vi_approved_by := user_id, vi_approved_at := Some now,
                       vi_remarks := remarks \<rparr>
            in (Inr v', log_input v ''APPROVE'' user_id user_role ''APPROVED'' (or_str remarks ''Approved variable input'')
                  (put_input v' db)))"

definition reject_input ::
  "uuid \<Rightarrow> string \<Rightarrow> uuid option \<Rightarrow> string option \<Rightarrow> timestamp \<Rightarrow> payroll_db \<Rightarrow> variable_input result \<times> payroll_db"
where
  "reject_input vid reason user_id user_role now db =
     (case get_input vid db of
        Inl e \<Rightarrow> (Inl e, db)
      | Inr v \<Rightarrow>
          if vi_is_locked v
          then (Inl (HTTPException 409 ''Attendance-generated variable inputs are locked''), db)
          else
            let v' = v\<lparr> vi_status := ''REJECTED'', vi_rejected_by := user_id, vi_rejected_at := Some now,
                       vi_rejection_reason := Some reason \<rparr>
            in (Inr v', log_input v ''REJECT'' user_id user_role ''REJECTED'' reason (put_input v' db)))"

section \<open>Bulk import\<close>

text \<open>A row of the cache: employee, period, type, amount and description.\<close>

type_synonym input_row = "uuid \<times> uuid \<times> string \<times> int \<times> string"

definition import_id :: "(string \<Rightarrow> uuid option) \<Rightarrow> string \<Rightarrow> string \<Rightarrow> string \<Rightarrow> uuid option \<times> string list" where
  "import_id parse_uuid missing invalid txt =
     (if py_strip txt = [] then (None, [missing])
      else case parse_uuid (py_strip txt) of None \<Rightarrow> (None, [invalid]) | Some i \<Rightarrow> (Some i, []))"

definition import_amount :: "(string \<Rightarrow> int result) \<Rightarrow> string \<Rightarrow> (int \<times> string list) result" where
  "import_amount parse_number txt =
     (case parse_number txt of
        Inr n \<Rightarrow> Inr (n, if n \<le> 0 then [''Amount must be positive''] else [])
      | Inl (ValueError _) \<Rightarrow> Inr (0, [''Invalid amount''])
      | Inl e \<Rightarrow> Inl e)"

fun preview_bulk_inputs ::
  "(string \<Rightarrow> uuid option) \<Rightarrow> (string \<Rightarrow> int result) \<Rightarrow> nat \<Rightarrow> dict list
    \<Rightarrow> (input_row list \<times> (nat \<times> string list) list) result"
where
  "preview_bulk_inputs parse_uuid parse_number n [] = Inr ([], [])"
| "preview_bulk_inputs parse_uuid parse_number n (row # rows) =
     (let (eid, e1) = import_id parse_uuid ''Missing employeeId'' ''Invalid employeeId UUID''
            (or_str (first_key row [''employeeId'', ''employee_id'']) []);
          (pid, e2) = import_id parse_uuid ''Missing periodId'' ''Invalid periodId UUID''
            (or_str (first_key row [''periodId'', ''period_id'']) []);
          input_type = or_str (first_key row [''type'']) ''bonus'';
          description = or_str (first_key row [''description'']) ''Variable input''
      in bind_res (import_amount parse_number (or_str (first_key row [''amountPaise'', ''amount'']) ''0'')) (\<lambda>(amount, e3).
         bind_res (preview_bulk_inputs parse_uuid parse_number (Suc n) rows) (\<lambda>(valid, invalid).
           Inr (case (eid, pid, e1 @ e2 @ e3) of
                  (Some e, Some p, []) \<Rightarrow> ((e, p, input_type, amount, description) # valid, invalid)
                | (_, _, errors) \<Rightarrow> (valid, (n, errors) # invalid)))))"

text \<open>The rows are approved at once. An unknown employee violates its foreign key, and nothing is added.\<close>

fun add_inputs :: "uuid option \<Rightarrow> input_row list \<Rightarrow> payroll_db \<Rightarrow> payroll_db" where
  "add_inputs company_id [] db = db"
| "add_inputs company_id ((eid, pid, input_type, amount, description) # rows) db =
     add_inputs company_id rows
       (add_input (manual_input (fresh_input_id db) eid (Some pid) company_id input_type amount None None description
          ''APPROVED'') db)"

definition apply_bulk_inputs ::
  "input_row list option \<Rightarrow> uuid option \<Rightarrow> payroll_db \<Rightarrow> nat result \<times> payroll_db" where
  "apply_bulk_inputs cached company_id db =
     (case cached of
        None \<Rightarrow> (Inl (HTTPException 400 ''Preview token has expired or is invalid.''), db)
      | Some rows \<Rightarrow>
          if \<exists>(eid, _) \<in> set rows. eid \<notin> set (map em_id (db_employees db))
          then (Inl IntegrityError, db)
          else (Inr (length rows), add_inputs company_id rows db))"

section \<open>Requests\<close>

datatype input_request =
    InputCreate uuid "uuid option" string int "rat option" "int option" string "uuid option"
  | InputApprove uuid "string option" "uuid option" "string option" timestamp
  | InputReject uuid string "uuid option" "string option" timestamp
  | InputImport "input_row list option" "uuid option"

fun perform_input :: "input_request \<Rightarrow> payroll_db \<Rightarrow> payroll_db" where
  "perform_input (InputCreate eid pid t a u rt d c) db = snd (create_input eid pid t a u rt d c db)"
| "perform_input (InputApprove vid remarks u r now) db = snd (approve_input vid remarks u r now db)"
| "perform_input (InputReject vid reason u r now) db = snd (reject_input vid reason u r now db)"
| "perform_input (InputImport rows c) db = snd (apply_bulk_inputs rows c db)"

section \<open>Locked inputs\<close>

definition locked_inputs :: "payroll_db \<Rightarrow> variable_input list" where
  "locked_inputs db = filter vi_is_locked (db_variables db)"

lemma locked_add [simp]: "\<not> vi_is_locked v \<Longrightarrow> locked_inputs (add_input v db) = locked_inputs db"
  by (simp add: locked_inputs_def add_input_def)

lemma manual_unlocked [simp]: "\<not> vi_is_locked (manual_input i e p c t a u r d s)"
  by (simp add: manual_input_def)

lemma locked_log [simp]: "locked_inputs (log_input v a u r s rs db) = locked_inputs db"
  by (simp add: locked_inputs_def log_input_def log_event_def)

lemma locked_add_inputs: "locked_inputs (add_inputs c rows db) = locked_inputs db"
  by (induction rows arbitrary: db) auto

lemma filter_update_neither:
  "(\<And>x. x \<in> set xs \<Longrightarrow> P x \<Longrightarrow> \<not> Q x) \<Longrightarrow> \<not> Q w \<Longrightarrow> filter Q (update_where P (\<lambda>_. w) xs) = filter Q xs"
  by (induction xs) auto

lemma locked_put:
  assumes "get_input vid db = Inr v" "\<not> vi_is_locked v" "vi_id w = vi_id v" "\<not> vi_is_locked w"
  shows "locked_inputs (put_input w db) = locked_inputs db"
proof -
  have one: "filter (\<lambda>x. vi_id x = vid) (db_variables db) = [v]"
    using assms(1) by (auto simp: get_input_def bind_res_Inr_iff scalar_one_or_none_Inr_Some split: option.splits)
  then have vid: "vi_id v = vid" by (rule filter_single [THEN conjunct2])
  have "\<not> vi_is_locked x" if "x \<in> set (db_variables db)" "vi_id x = vid" for x
  proof -
    have "x \<in> set (filter (\<lambda>x. vi_id x = vid) (db_variables db))" using that by simp
    then show ?thesis using assms(2) by (simp add: one)
  qed
  then have "filter vi_is_locked (update_where (\<lambda>x. vi_id x = vi_id w) (\<lambda>_. w) (db_variables db)) =
      filter vi_is_locked (db_variables db)"
    using assms(3,4) vid by (intro filter_update_neither) auto
  then show ?thesis by (simp add: locked_inputs_def put_input_def)
qed

lemma locked_step: "locked_inputs (perform_input a db) = locked_inputs db"
proof (cases a)
  case (InputCreate eid pid t am u rt d c)
  then show ?thesis by (auto simp: create_input_def Let_def split: sum.splits option.splits)
next
  case (InputApprove vid remarks u r now)
  show ?thesis
  proof (cases "get_input vid db")
    case (Inr v)
    then show ?thesis using locked_put [OF Inr]
      by (simp add: InputApprove approve_input_def Let_def)
  qed (simp add: InputApprove approve_input_def)
next
  case (InputReject vid reason u r now)
  show ?thesis
  proof (cases "get_input vid db")
    case (Inr v)
    then show ?thesis using locked_put [OF Inr]
      by (simp add: InputReject reject_input_def Let_def)
  qed (simp add: InputReject reject_input_def)
next
  case (InputImport rows c)
  then show ?thesis by (simp add: apply_bulk_inputs_def locked_add_inputs split: option.split)
qed

text \<open>
  The inputs that a locked attendance generated cannot be tampered with. Along every trace of
  requests that create, approve, reject or import inputs by hand, the locked inputs stay exactly as
  they are, none is added and none is lost.
\<close>

theorem locked_inputs_untouched:
  "locked_inputs (foldl (\<lambda>d a. perform_input a d) db ops) = locked_inputs db"
  by (induction ops arbitrary: db) (simp_all add: locked_step)

end
