(* ===== verification/Full_Final.thy ===== *)
theory Full_Final
  imports Variable_Inputs
begin

text \<open>
  Full and final settlements: \<open>full_and_final_service.py\<close> and the statutory amounts of
  \<open>fnf_calculation_service.py\<close> (gratuity, leave encashment, notice recovery).
\<close>

section \<open>Statutory amounts\<close>

definition cents_half_up :: "rat \<Rightarrow> rat" where
  "cents_half_up x = of_int (half_up (x * 100)) / 100"

definition cents_half_even :: "rat \<Rightarrow> rat" where
  "cents_half_even x = of_int (half_even (x * 100)) / 100"

definition FIXED_TERM_EMPLOYMENT_TYPES :: "string list" where
  "FIXED_TERM_EMPLOYMENT_TYPES = [''FIXED_TERM'', ''FIXED_TERM_CONTRACT'', ''CONTRACT'']"

definition is_fixed_term :: "string option \<Rightarrow> bool" where
  "is_fixed_term employment_type =
     (case employment_type of
        None \<Rightarrow> False
      | Some t \<Rightarrow> t \<noteq> [] \<and> py_upper (py_strip t) \<in> set FIXED_TERM_EMPLOYMENT_TYPES)"

text \<open>
  The quotient by 365.25 days is a float. No number of days is within rounding distance of a whole or
  half year, so the comparisons of the code are those of the exact quotient. Only the text of the
  float, which the fixed-term branch turns into a Decimal, differs from it: \<open>float_text\<close>.
\<close>

definition years_of_service :: "date \<Rightarrow> date \<Rightarrow> rat" where
  "years_of_service joined left = of_int (days_between joined left) / (36525 / 100)"

definition rounded_years :: "rat \<Rightarrow> int" where
  "rounded_years y = (if 6 \<le> (y - of_int \<lfloor>y\<rfloor>) * 12 then \<lfloor>y\<rfloor> + 1 else \<lfloor>y\<rfloor>)"

definition under_ceiling :: "rat option \<Rightarrow> rat \<Rightarrow> rat" where
  "under_ceiling cap x = (case cap of None \<Rightarrow> x | Some c \<Rightarrow> min x c)"

definition gratuity_amount :: "rat \<Rightarrow> rat \<Rightarrow> rat option \<Rightarrow> rat" where
  "gratuity_amount wages years cap =
     cents_half_up (under_ceiling cap (dmul (dmul (ddiv 15 26) wages) years))"

definition compute_gratuity ::
  "(rat \<Rightarrow> rat) \<Rightarrow> rat \<Rightarrow> date option \<Rightarrow> date option \<Rightarrow> int \<Rightarrow> string option \<Rightarrow> bool \<Rightarrow> rat \<Rightarrow> rat option \<Rightarrow> rat"
where
  "compute_gratuity float_text basic joining last_day min_years employment_type pro_rata da cap =
     (case (joining, last_day) of
        (Some j, Some l) \<Rightarrow>
          if l \<le> j then 0
          else
            let wages = dadd basic da; years = years_of_service j l
            in if is_fixed_term employment_type \<and> pro_rata
               then if years \<le> 0 \<or> wages \<le> 0 then 0 else gratuity_amount wages (float_text years) cap
               else if years < of_int min_years then 0
               else gratuity_amount wages (of_int (rounded_years years)) cap
      | _ \<Rightarrow> 0)"

definition compute_leave_encashment :: "rat \<Rightarrow> rat \<Rightarrow> string option \<Rightarrow> rat option \<Rightarrow> int \<Rightarrow> rat result" where
  "compute_leave_encashment unused basic basis gross divisor =
     (let normalized = py_upper (or_str basis ''BASIC'')
      in if normalized \<notin> {''BASIC'', ''GROSS''}
         then Inl (ValueError ''Leave encashment basis must be BASIC or GROSS.'')
         else if divisor \<notin> {26, 30} then Inl (ValueError ''Leave encashment divisor must be 26 or 30.'')
         else
           let monthly = (case gross of Some g \<Rightarrow> if normalized = ''GROSS'' then g else basic | None \<Rightarrow> basic)
           in if unused \<le> 0 \<or> monthly \<le> 0 then Inr 0
              else Inr (cents_half_up (dmul unused (ddiv monthly (of_int divisor)))))"

text \<open>Recovery and payout; \<open>quantize\<close> without a mode rounds half to even.\<close>

definition compute_notice_recovery :: "int \<Rightarrow> int \<Rightarrow> rat \<Rightarrow> bool \<Rightarrow> int \<Rightarrow> (rat \<times> rat) result" where
  "compute_notice_recovery required actual basic waived divisor =
     (if divisor \<notin> {26, 30} then Inl (ValueError ''Notice divisor must be 26 or 30.'')
      else
        let shortfall = max 0 (required - actual); surplus = max 0 (actual - required);
            per_day = ddiv basic (of_int divisor)
        in Inr (if waived then 0 else cents_half_even (dmul (of_int shortfall) per_day),
                cents_half_even (dmul (of_int surplus) per_day)))"

section \<open>Settlements\<close>

definition get_settlement :: "uuid \<Rightarrow> payroll_db \<Rightarrow> settlement result" where
  "get_settlement sid db =
     bind_res (scalar_one_or_none (filter (\<lambda>s. fs_id s = sid) (db_settlements db)))
       (\<lambda>found. case found of
           None \<Rightarrow> Inl (HTTPException 404 ''Full & Final settlement not found.'')
         | Some s \<Rightarrow> Inr s)"

definition put_settlement :: "settlement \<Rightarrow> payroll_db \<Rightarrow> payroll_db" where
  "put_settlement s db = db\<lparr> db_settlements := update_where (\<lambda>x. fs_id x = fs_id s) (\<lambda>_. s) (db_settlements db) \<rparr>"

definition log_settlement ::
  "settlement \<Rightarrow> string \<Rightarrow> uuid option \<Rightarrow> string option \<Rightarrow> string \<Rightarrow> string \<Rightarrow> payroll_db \<Rightarrow> payroll_db" where
  "log_settlement s action user_id user_role after_status reason db =
     log_event ''FullAndFinalSettlement'' (Some (fs_id s)) action (fs_company_id s) user_id user_role
       (Some (fs_status s)) (Some after_status) (Some reason) db"

text \<open>The monthly salary less the unserved notice, each day a thirtieth, rounded down.\<close>

definition shortfall_deduction :: "int \<Rightarrow> int \<Rightarrow> int" where
  "shortfall_deduction monthly days = days * (monthly div 30)"

definition net_payable :: "int \<Rightarrow> int \<Rightarrow> int" where
  "net_payable monthly days = max 0 (monthly - shortfall_deduction monthly days)"

text \<open>The CREATE audit row is added after the commit, and lost.\<close>

definition create_settlement ::
  "uuid \<Rightarrow> date \<Rightarrow> date \<Rightarrow> string \<Rightarrow> string \<Rightarrow> int \<Rightarrow> int \<Rightarrow> int \<Rightarrow> string option \<Rightarrow> uuid option \<Rightarrow> uuid option
    \<Rightarrow> payroll_db \<Rightarrow> settlement result \<times> payroll_db"
where
  "create_settlement eid resigned last_day exit_type reason required served shortfall remarks company_id user_id db =
     (case find_employee eid db of
        Inl e \<Rightarrow> (Inl e, db)
      | Inr None \<Rightarrow> (Inl (HTTPException 404 ''Employee not found.''), db)
      | Inr (Some emp) \<Rightarrow>
          (case active_compensation eid db of
             Inl e \<Rightarrow> (Inl e, db)
           | Inr current \<Rightarrow>
               let monthly = (case current of Some c \<Rightarrow> cp_ctc_annual_paise c div 12 | None \<Rightarrow> 0);
                   net = net_payable monthly shortfall;
                   s = \<lparr> fs_id = fresh_id (map fs_id (db_settlements db)), fs_employee_id = eid,
                         fs_company_id = (case company_id of Some c \<Rightarrow> Some c | None \<Rightarrow> em_company_id emp),
                         fs_resignation_date = resigned, fs_last_working_date = last_day, fs_exit_type = exit_type,
                         fs_reason = reason, fs_notice_period_days_required = required,
                         fs_notice_period_days_served = served, fs_shortfall_days = shortfall,
                         fs_status = ''DRAFT'', fs_net_payable_paise = net,
                         fs_settlement_breakup =
                           [(''monthly_salary_paise'', monthly),
                            (''shortfall_deduction_paise'', shortfall_deduction monthly shortfall),
                            (''net_payable_paise'', net)],
                         fs_remarks = remarks, fs_notes = None, fs_created_by = user_id, fs_processed_by = None,
                         fs_approved_by = None, fs_approved_at = None, fs_finalized_by = None,
                         fs_finalized_at = None, fs_rejected_by = None, fs_rejected_at = None,
                         fs_rejection_reason = None \<rparr>
               in (Inr s, db\<lparr> db_settlements := db_settlements db @ [s] \<rparr>)))"

definition settlement_makers :: "settlement \<Rightarrow> uuid list" where
  "settlement_makers s =
     foldl (\<lambda>makers v. case v of None \<Rightarrow> makers
              | Some u \<Rightarrow> if u \<in> set makers then makers else makers @ [u])
       [] [fs_created_by s, fs_processed_by s]"

definition enforce_settlement_maker_checker ::
  "settlement \<Rightarrow> uuid option \<Rightarrow> string option \<Rightarrow> string \<Rightarrow> payroll_db \<Rightarrow> bool result \<times> payroll_db" where
  "enforce_settlement_maker_checker s approver_id actor_role action db =
     enforce_maker_checker ''FullAndFinalSettlement'' (fs_id s) (fs_company_id s) (settlement_makers s) approver_id
       actor_role action (Some (fs_status s)) db"

definition approve_settlement ::
  "uuid \<Rightarrow> string option \<Rightarrow> uuid option \<Rightarrow> string option \<Rightarrow> timestamp \<Rightarrow> payroll_db \<Rightarrow> settlement result \<times> payroll_db"
where
  "approve_settlement sid remarks user_id user_role now db =
     (case get_settlement sid db of
        Inl e \<Rightarrow> (Inl e, db)
      | Inr s \<Rightarrow>
          if fs_status s \<in> {''APPROVED'', ''FINALIZED''}
          then (Inl (HTTPException 400 ''Settlement already approved or finalized.''), db)
          else
            (case enforce_settlement_maker_checker s user_id user_role ''APPROVE'' db of
               (Inl e, db1) \<Rightarrow> (Inl e, db1)
             | (Inr _, db1) \<Rightarrow>
                 let s' = s\<lparr> fs_status := ''APPROVED'', fs_approved_by := user_id, fs_approved_at := Some now,
                            fs_remarks := remarks \<rparr>
                 in (Inr s', log_settlement s ''APPROVE'' user_id user_role ''APPROVED''
                       (or_str remarks ''Approved F&F settlement'') (put_settlement s' db1))))"

text \<open>Neither operation looks at the status.\<close>

definition finalize_settlement ::
  "uuid \<Rightarrow> string option \<Rightarrow> uuid option \<Rightarrow> string option \<Rightarrow> timestamp \<Rightarrow> payroll_db \<Rightarrow> settlement result \<times> payroll_db"
where
  "finalize_settlement sid nts user_id user_role now db =
     (case get_settlement sid db of
        Inl e \<Rightarrow> (Inl e, db)
      | Inr s \<Rightarrow>
          let s' = s\<lparr> fs_status := ''FINALIZED'', fs_finalized_by := user_id, fs_finalized_at := Some now,
                     fs_notes := nts, fs_processed_by := own_or user_id (fs_processed_by s) \<rparr>
          in (Inr s', log_settlement s ''FINALIZE'' user_id user_role ''FINALIZED''
                (or_str nts ''Finalized F&F settlement'') (put_settlement s' db)))"

definition reject_settlement ::
  "uuid \<Rightarrow> string \<Rightarrow> uuid option \<Rightarrow> string option \<Rightarrow> timestamp \<Rightarrow> payroll_db \<Rightarrow> settlement result \<times> payroll_db"
where
  "reject_settlement sid reason user_id user_role now db =
     (case get_settlement sid db of
        Inl e \<Rightarrow> (Inl e, db)
      | Inr s \<Rightarrow>
          let s' = s\<lparr> fs_status := ''REJECTED'', fs_rejected_by := user_id, fs_rejected_at := Some now,
                     fs_rejection_reason := Some reason \<rparr>
          in (Inr s', log_settlement s ''REJECT'' user_id user_role ''REJECTED'' reason (put_settlement s' db)))"

section \<open>Gratuity\<close>

lemma cents_half_up_mono: "x \<le> y \<Longrightarrow> cents_half_up x \<le> cents_half_up y"
  by (simp add: cents_half_up_def divide_right_mono half_up_mono)

lemma cents_half_up_nonneg: "0 \<le> x \<Longrightarrow> 0 \<le> cents_half_up x"
  by (simp add: cents_half_up_def half_up_nonneg)

lemma cents_half_up_le: "x \<le> of_int k / 100 \<Longrightarrow> cents_half_up x \<le> of_int k / 100"
  by (simp add: cents_half_up_def divide_right_mono half_up_le)

lemma gratuity_amount_bounds:
  assumes "0 \<le> wages" "wages \<le> wages'" "0 \<le> years" "0 \<le> k"
  shows "0 \<le> gratuity_amount wages years (Some (of_int k / 100))"
    "gratuity_amount wages years (Some (of_int k / 100)) \<le> gratuity_amount wages' years (Some (of_int k / 100))"
    "gratuity_amount wages' years (Some (of_int k / 100)) \<le> of_int k / 100"
proof -
  have r: "0 \<le> ddiv 15 26" by (simp add: ddiv_nonneg)
  have n: "0 \<le> dmul (dmul (ddiv 15 26) wages) years" using r assms by (simp add: dmul_nonneg)
  have m: "dmul (dmul (ddiv 15 26) wages) years \<le> dmul (dmul (ddiv 15 26) wages') years"
    using r assms by (intro dmul_mono) (simp_all add: dmul_nonneg)
  show "0 \<le> gratuity_amount wages years (Some (of_int k / 100))"
    using n assms(4) by (simp add: gratuity_amount_def under_ceiling_def cents_half_up_nonneg)
  show "gratuity_amount wages years (Some (of_int k / 100)) \<le> gratuity_amount wages' years (Some (of_int k / 100))"
    using m unfolding gratuity_amount_def under_ceiling_def by (auto intro!: cents_half_up_mono min.mono)
  show "gratuity_amount wages' years (Some (of_int k / 100)) \<le> of_int k / 100"
    unfolding gratuity_amount_def under_ceiling_def option.case by (intro cents_half_up_le min.cobounded2)
qed

lemma dadd_mono: "x \<le> y \<Longrightarrow> dadd x z \<le> dadd y z"
  by (simp add: dadd_def dec_ctx_mono)

lemma dadd_nonneg: "0 \<le> x \<Longrightarrow> 0 \<le> z \<Longrightarrow> 0 \<le> dadd x z"
  by (simp add: dadd_def dec_ctx_nonneg)

lemma rounded_years_nonneg: "0 \<le> y \<Longrightarrow> 0 \<le> rounded_years y"
  by (simp add: rounded_years_def)

text \<open>
  Gratuity under the Payment of Gratuity Act. For any employee it is never negative, never above
  the ceiling, and never falls when the basic salary rises. An employee who is not on a fixed term
  gets nothing below five years (1,827 days) and from then on the formula with 15 of 26 days for every
  year of service, half years rounded up.
\<close>

theorem gratuity_rules:
  fixes employment :: "string option" and pro_rata :: bool
  assumes "0 \<le> basic" "basic \<le> basic'" "0 \<le> da" "j < l" "0 \<le> days_between j l" "0 \<le> k"
    "\<And>x. 0 \<le> x \<Longrightarrow> 0 \<le> float_text x"
  defines "g \<equiv> \<lambda>b. compute_gratuity float_text b (Some j) (Some l) 5 employment pro_rata da (Some (of_int k / 100))"
  shows "0 \<le> g basic \<and> g basic \<le> g basic' \<and> g basic' \<le> of_int k / 100 \<and>
    (is_fixed_term employment \<and> pro_rata \<or>
     g basic = (if days_between j l < 1827 then 0
                else gratuity_amount (dadd basic da) (of_int (rounded_years (years_of_service j l)))
                       (Some (of_int k / 100))))"
proof -
  let ?w = "dadd basic da" let ?w' = "dadd basic' da" let ?y = "years_of_service j l"
  have w: "0 \<le> ?w" "?w \<le> ?w'" "0 \<le> ?w'" using assms(1-3) by (auto simp: dadd_mono dadd_nonneg)
  have y: "0 \<le> ?y" using assms(5) by (simp add: years_of_service_def)
  have five: "?y < 5 \<longleftrightarrow> days_between j l < 1827"
  proof -
    have "?y < 5 \<longleftrightarrow> rat_of_int (days_between j l) < 182625 / 100" by (auto simp: years_of_service_def field_simps)
    also have "\<dots> \<longleftrightarrow> days_between j l < 1827" by linarith
    finally show ?thesis .
  qed
  have nl: "\<not> l \<le> j" using assms(4) by simp
  show ?thesis
  proof (cases "is_fixed_term employment \<and> pro_rata")
    case True
    have g: "g b = (if ?y \<le> 0 \<or> dadd b da \<le> 0 then 0
        else gratuity_amount (dadd b da) (float_text ?y) (Some (of_int k / 100)))" for b
      using True nl by (simp add: g_def compute_gratuity_def Let_def)
    show ?thesis
      using True w y assms(6) gratuity_amount_bounds [OF w(1,2) assms(7) [OF y] assms(6)]
        gratuity_amount_bounds [OF w(3) order.refl assms(7) [OF y] assms(6)]
      unfolding g by auto
  next
    case False
    have g: "g b = (if days_between j l < 1827 then 0
        else gratuity_amount (dadd b da) (of_int (rounded_years ?y)) (Some (of_int k / 100)))" for b
      using False by (simp only: g_def compute_gratuity_def Let_def prod.case option.case nl five if_False
          of_int_numeral refl)
    have r: "0 \<le> rat_of_int (rounded_years ?y)" using rounded_years_nonneg [OF y] by simp
    show ?thesis
      using assms(6) gratuity_amount_bounds [OF w(1,2) r assms(6)] unfolding g by auto
  qed
qed

theorem gratuity_rules_witness:
  "compute_gratuity id 26000 (Some (Date 2018 1 1)) (Some (Date 2025 8 1)) 5 None True 0 (Some (of_int 200000000 / 100)) \<le>
   compute_gratuity id 52000 (Some (Date 2018 1 1)) (Some (Date 2025 8 1)) 5 None True 0 (Some (of_int 200000000 / 100))"
proof -
  have d: "Date 2018 1 1 < Date 2025 8 1" by simp
  have "0 \<le> days_between (Date 2018 1 1) (Date 2025 8 1)" by code_simp
  from gratuity_rules [OF _ _ _ d this, of 26000 52000 0 200000000 id None True] show ?thesis by simp
qed

section \<open>Net payable\<close>

text \<open>
  The preliminary settlement. A settlement is created as a DRAFT that pays the monthly salary of
  the active compensation (nothing without one) less a thirtieth, rounded down, for every day of
  notice not served: never a negative amount, never more than the month, less than 30 paise for 30
  days and nothing once the deduction reaches the month.
\<close>

theorem settlement_net:
  assumes "create_settlement eid resigned last_day ex reason req served short remarks c u db = (Inr s, db')"
  defines "m \<equiv> (case active_compensation eid db of Inr (Some cp) \<Rightarrow> cp_ctc_annual_paise cp div 12 | _ \<Rightarrow> 0)"
  shows "db_settlements db' = db_settlements db @ [s] \<and> fs_status s = ''DRAFT'' \<and> fs_created_by s = u \<and>
    fs_net_payable_paise s = max 0 (m - short * (m div 30)) \<and> 0 \<le> fs_net_payable_paise s \<and>
    (m < 0 \<or> short < 0 \<or> fs_net_payable_paise s \<le> m) \<and> (m < 0 \<or> short < 30 \<or> fs_net_payable_paise s < 30)"
proof -
  obtain emp current where e: "find_employee eid db = Inr (Some emp)" "active_compensation eid db = Inr current"
    using assms(1) by (auto simp: create_settlement_def split: sum.splits option.splits)
  have m: "m = (case current of Some cp \<Rightarrow> cp_ctc_annual_paise cp div 12 | None \<Rightarrow> 0)" by (simp add: m_def e(2))
  have s: "fs_net_payable_paise s = max 0 (m - short * (m div 30))" "fs_status s = ''DRAFT''" "fs_created_by s = u"
    "db_settlements db' = db_settlements db @ [s]"
    using assms(1) unfolding create_settlement_def e m
    by (auto simp: Let_def net_payable_def shortfall_deduction_def)
  have "m - short * (m div 30) \<le> m" if "0 \<le> m" "0 \<le> short" using that by (simp add: mult_nonneg_nonneg pos_imp_zdiv_nonneg_iff)
  moreover have "m - short * (m div 30) < 30" if "0 \<le> m" "30 \<le> short"
  proof -
    have "30 * (m div 30) \<le> short * (m div 30)" using that by (intro mult_right_mono) (simp_all add: pos_imp_zdiv_nonneg_iff)
    moreover have "m - 30 * (m div 30) < 30" by (simp add: minus_mult_div_eq_mod)
    ultimately show ?thesis by linarith
  qed
  ultimately have "m < 0 \<or> short < 0 \<or> max 0 (m - short * (m div 30)) \<le> m" "m < 0 \<or> short < 30 \<or> max 0 (m - short * (m div 30)) < 30"
    by fastforce+
  then show ?thesis unfolding s by (simp only: s refl simp_thms max.cobounded1)
qed

definition sample_exit :: payroll_db where
  "sample_exit = snd (create_settlement 6 (Date 2025 5 1) (Date 2025 6 30) ''RESIGNATION'' ''moving'' 60 45 15 None None (Some 7) sample_hire)"

theorem settlement_net_witness:
  "\<exists>s. create_settlement 6 (Date 2025 5 1) (Date 2025 6 30) ''RESIGNATION'' ''moving'' 60 45 15 None None (Some 7) sample_hire =
     (Inr s, sample_exit) \<and> fs_status s = ''DRAFT''"
proof -
  obtain s where s: "create_settlement 6 (Date 2025 5 1) (Date 2025 6 30) ''RESIGNATION'' ''moving'' 60 45 15 None None (Some 7)
      sample_hire = (Inr s, sample_exit)"
  proof -
    have "isl (fst (create_settlement 6 (Date 2025 5 1) (Date 2025 6 30) ''RESIGNATION'' ''moving'' 60 45 15 None None (Some 7)
      sample_hire)) = False" by code_simp
    then show ?thesis using that unfolding sample_exit_def by (metis isl_def prod.collapse sum.exhaust_sel)
  qed
  from settlement_net [OF this] show ?thesis using s by blast
qed

section \<open>Dual control of settlements\<close>

datatype settlement_request =
    SettlementCreate uuid date date string string int int int "string option" "uuid option" "uuid option"
  | SettlementApprove uuid "string option" "uuid option" "string option" timestamp
  | SettlementFinalize uuid "string option" "uuid option" "string option" timestamp
  | SettlementReject uuid string "uuid option" "string option" timestamp

fun perform_settlement :: "settlement_request \<Rightarrow> payroll_db \<Rightarrow> payroll_db" where
  "perform_settlement (SettlementCreate eid rd ld ex rs rq sv sh rem c u) db =
     snd (create_settlement eid rd ld ex rs rq sv sh rem c u db)"
| "perform_settlement (SettlementApprove sid remarks u r now) db = snd (approve_settlement sid remarks u r now db)"
| "perform_settlement (SettlementFinalize sid nts u r now) db = snd (finalize_settlement sid nts u r now db)"
| "perform_settlement (SettlementReject sid reason u r now) db = snd (reject_settlement sid reason u r now db)"

text \<open>On a tenant that enforces dual control nobody has approved a settlement of their own.\<close>

definition other_approver :: "settlement \<Rightarrow> bool" where
  "other_approver s \<longleftrightarrow> (\<forall>b. fs_approved_by s = Some b \<longrightarrow> fs_created_by s \<noteq> Some b)"

definition settlements_ok :: "payroll_db \<Rightarrow> bool" where
  "settlements_ok db \<longleftrightarrow>
     (\<forall>s \<in> set (db_settlements db).
        (fs_status s = ''APPROVED'' \<longrightarrow> fs_approved_at s \<noteq> None) \<and>
        (is_maker_checker_enforced (fs_company_id s) db = Inr True \<longrightarrow> other_approver s))"

lemma get_settlement_in: "get_settlement sid db = Inr s \<Longrightarrow> s \<in> set (db_settlements db)"
  by (auto simp: get_settlement_def bind_res_Inr_iff scalar_one_or_none_Inr_Some split: option.splits
      dest!: filter_single)

lemma settlements_ok_same:
  assumes "db_configs db' = db_configs db" "db_settlements db' = db_settlements db"
  shows "settlements_ok db' = settlements_ok db"
  unfolding settlements_ok_def enforced_configs [OF assms(1)] assms(2) by (rule refl)

lemma log_settlement_frame [simp]:
  "db_configs (log_settlement s a u r af rs db) = db_configs db"
  "db_settlements (log_settlement s a u r af rs db) = db_settlements db"
  by (simp_all add: log_settlement_def log_event_def)

lemma settlements_ok_put:
  assumes "settlements_ok db" "db_configs db1 = db_configs db" "db_settlements db1 = db_settlements db"
    "fs_company_id s' = c" "fs_status s' = ''APPROVED'' \<Longrightarrow> fs_approved_at s' \<noteq> None"
    "is_maker_checker_enforced c db = Inr True \<Longrightarrow> other_approver s'"
  shows "settlements_ok (put_settlement s' db1)"
proof -
  have c: "is_maker_checker_enforced k (put_settlement s' db1) = is_maker_checker_enforced k db" for k
    using assms(2) by (intro enforced_configs) (simp add: put_settlement_def)
  show ?thesis using assms(1,3-6) unfolding settlements_ok_def c
    by (auto simp: put_settlement_def in_set_update_where)
qed

lemma enforce_settlement_frame:
  assumes "enforce_settlement_maker_checker s u r a db = (res, db1)"
  shows "db_configs db1 = db_configs db" "db_settlements db1 = db_settlements db"
    "\<lbrakk>res = Inr b; is_maker_checker_enforced (fs_company_id s) db = Inr True; u = Some v\<rbrakk> \<Longrightarrow> fs_created_by s \<noteq> Some v"
  using assms unfolding enforce_settlement_maker_checker_def enforce_maker_checker_def
  by (auto simp: log_event_def settlement_makers_def split: sum.splits bool.splits option.splits if_splits)

lemma create_settlement_ok:
  assumes "settlements_ok db"
  shows "settlements_ok (snd (create_settlement eid rd ld ex rs rq sv sh rem c u db))"
proof (cases "create_settlement eid rd ld ex rs rq sv sh rem c u db")
  case (Pair res db')
  show ?thesis
  proof (cases "\<exists>s. res = Inr s")
    case True
    then obtain s where s: "db_settlements db' = db_settlements db @ [s]" "fs_status s = ''DRAFT''" "fs_approved_by s = None"
        and cf: "db_configs db' = db_configs db"
      using Pair by (auto simp: create_settlement_def Let_def split: sum.splits option.splits)
    have "settlements_ok db'" using assms s
      unfolding settlements_ok_def enforced_configs [OF cf] by (simp add: other_approver_def)
    then show ?thesis by (simp add: Pair)
  next
    case False
    then have "db' = db" using Pair by (auto simp: create_settlement_def Let_def split: sum.splits option.splits)
    then show ?thesis using assms Pair by simp
  qed
qed

lemma approve_settlement_ok:
  assumes "settlements_ok db"
  shows "settlements_ok (snd (approve_settlement sid remarks u r now db))"
proof (cases "get_settlement sid db")
  case (Inr s)
  obtain res db1 where m: "enforce_settlement_maker_checker s u r ''APPROVE'' db = (res, db1)" by fastforce
  note f = enforce_settlement_frame [OF m]
  show ?thesis
  proof (cases res)
    case (Inl e)
    then show ?thesis using assms settlements_ok_same [OF f(1,2)]
      unfolding approve_settlement_def \<open>get_settlement sid db = Inr s\<close> sum.case m Inl prod.case by simp
  next
    case res: (Inr b)
    let ?s = "s\<lparr> fs_status := ''APPROVED'', fs_approved_by := u, fs_approved_at := Some now, fs_remarks := remarks \<rparr>"
    have "other_approver ?s" if "is_maker_checker_enforced (fs_company_id s) db = Inr True"
      using f(3) [OF res that] by (auto simp: other_approver_def)
    then have ok: "settlements_ok (put_settlement ?s db1)"
      by (intro settlements_ok_put [OF assms f(1,2), of _ "fs_company_id s"]) simp_all
    show ?thesis
    proof (cases "fs_status s \<in> {''APPROVED'', ''FINALIZED''}")
      case True
      then show ?thesis using assms Inr by (simp only: approve_settlement_def sum.case if_True snd_conv)
    next
      case False
      have "snd (approve_settlement sid remarks u r now db) = log_settlement s ''APPROVE'' u r ''APPROVED''
          (or_str remarks ''Approved F&F settlement'') (put_settlement ?s db1)"
        unfolding approve_settlement_def Inr sum.case m res prod.case Let_def using False by (simp only: if_False snd_conv)
      then show ?thesis using ok by (simp only: settlements_ok_same [OF log_settlement_frame])
    qed
  qed
qed (simp add: approve_settlement_def assms)

lemma finalize_settlement_ok:
  assumes "settlements_ok db"
  shows "settlements_ok (snd (finalize_settlement sid nts u r now db))"
proof (cases "get_settlement sid db")
  case (Inr s)
  let ?s = "s\<lparr> fs_status := ''FINALIZED'', fs_finalized_by := u, fs_finalized_at := Some now, fs_notes := nts,
    fs_processed_by := own_or u (fs_processed_by s) \<rparr>"
  have "settlements_ok (put_settlement ?s db)"
    using assms get_settlement_in [OF Inr]
    by (intro settlements_ok_put [OF assms refl refl, of _ "fs_company_id s"]) (auto simp: settlements_ok_def other_approver_def)
  then show ?thesis unfolding finalize_settlement_def Inr sum.case Let_def snd_conv
    by (simp only: settlements_ok_same [OF log_settlement_frame])
qed (simp add: finalize_settlement_def assms)

lemma reject_settlement_ok:
  assumes "settlements_ok db"
  shows "settlements_ok (snd (reject_settlement sid reason u r now db))"
proof (cases "get_settlement sid db")
  case (Inr s)
  let ?s = "s\<lparr> fs_status := ''REJECTED'', fs_rejected_by := u, fs_rejected_at := Some now, fs_rejection_reason := Some reason \<rparr>"
  have "settlements_ok (put_settlement ?s db)"
    using assms get_settlement_in [OF Inr]
    by (intro settlements_ok_put [OF assms refl refl, of _ "fs_company_id s"]) (auto simp: settlements_ok_def other_approver_def)
  then show ?thesis unfolding reject_settlement_def Inr sum.case Let_def snd_conv
    by (simp only: settlements_ok_same [OF log_settlement_frame])
qed (simp add: reject_settlement_def assms)

interpretation settlements: transition_system perform_settlement "\<lambda>db :: payroll_db. settlements_ok db"
proof
  fix db a
  assume "settlements_ok db"
  then show "settlements_ok (perform_settlement a db)"
    by (cases a) (simp_all only: perform_settlement.simps create_settlement_ok approve_settlement_ok
        finalize_settlement_ok reject_settlement_ok)
qed

text \<open>
  C31: four eyes on exits. Along every trace of requests that create, approve, finalize and reject
  settlements, an APPROVED settlement has the time of its approval, and on every tenant that enforces
  dual control the approver that a settlement names is never its creator, also after it was rejected
  and approved again.
\<close>

theorem settlement_four_eyes:
  assumes "settlements_ok db"
    "s \<in> set (db_settlements (foldl (\<lambda>d a. perform_settlement a d) db ops))"
  shows "(fs_status s = ''APPROVED'' \<longrightarrow> fs_approved_at s \<noteq> None) \<and>
    (\<forall>b. is_maker_checker_enforced (fs_company_id s) (foldl (\<lambda>d a. perform_settlement a d) db ops) = Inr True \<and>
      fs_approved_by s = Some b \<longrightarrow> fs_created_by s \<noteq> Some b)"
  using settlements.trace_keeps [OF assms(1), of ops] assms(2)
  unfolding settlements_ok_def other_approver_def by blast

definition sample_exit_ops :: "settlement_request list" where
  "sample_exit_ops =
     [SettlementCreate 6 (Date 2025 5 1) (Date 2025 6 30) ''RESIGNATION'' ''moving'' 60 45 15 None None (Some 7),
      SettlementApprove 1 None (Some 7) None 10, SettlementReject 1 ''wrong date'' (Some 8) None 11,
      SettlementApprove 1 None (Some 8) None 12]"

definition sample_dual_hire :: payroll_db where
  "sample_dual_hire = sample_hire\<lparr> db_configs := [default_config 2 (Some 1)] \<rparr>"

theorem settlement_four_eyes_witness:
  "\<exists>s \<in> set (db_settlements (foldl (\<lambda>d a. perform_settlement a d) sample_dual_hire sample_exit_ops)).
     fs_approved_by s = Some 8 \<and> fs_created_by s \<noteq> Some 8"
proof -
  let ?db = "foldl (\<lambda>d a. perform_settlement a d) sample_dual_hire sample_exit_ops"
  have all: "map (\<lambda>s. (fs_approved_by s, fs_company_id s)) (db_settlements ?db) = [(Some 8, Some 1)] \<and>
      is_maker_checker_enforced (Some 1) ?db = Inr True" by code_simp
  then have "(Some 8, Some 1) \<in> set (map (\<lambda>s. (fs_approved_by s, fs_company_id s)) (db_settlements ?db))" by simp
  then obtain s where s: "s \<in> set (db_settlements ?db)" "fs_approved_by s = Some 8" "fs_company_id s = Some 1" by auto
  have "settlements_ok sample_dual_hire" by (simp add: sample_dual_hire_def sample_hire_def empty_db_def settlements_ok_def)
  from settlement_four_eyes [OF this s(1)] show ?thesis using s all by auto
qed

text \<open>Finalizing asks for no approval, and rejecting a finalized settlement is not refused.\<close>

lemma draft_settlement_finalized:
  "map (\<lambda>s. (fs_status s, fs_approved_by s)) (db_settlements (perform_settlement (SettlementFinalize 1 None (Some 7) None 5) sample_exit)) =
     [(''FINALIZED'', None)]"
  by code_simp

end
