(* ===== verification/Transfers.thy ===== *)
theory Transfers
  imports Full_Final
begin

text \<open>
  Transfers of employees between the legal entities of a tenant: \<open>transfer_employee\<close>,
  \<open>_complete_transfer\<close> and \<open>process_due_entity_transfers\<close> of \<open>run_service.py\<close>. A
  transfer whose date has come is completed at once, a later one is scheduled and completed by the
  daily job.
\<close>

section \<open>Operations\<close>

definition branch_at :: "uuid option \<Rightarrow> payroll_db \<Rightarrow> branch option" where
  "branch_at bid db =
     (case bid of None \<Rightarrow> None | Some i \<Rightarrow> scalars_first (filter (\<lambda>b. br_id b = i) (db_branches db)))"

definition employee_at :: "uuid \<Rightarrow> payroll_db \<Rightarrow> employee option" where
  "employee_at eid db = scalars_first (filter (\<lambda>e. em_id e = eid) (db_employees db))"

definition entity_at :: "uuid \<Rightarrow> payroll_db \<Rightarrow> legal_entity option" where
  "entity_at lid db = scalars_first (filter (\<lambda>l. le_id l = lid) (db_entities db))"

definition moved_employee :: "entity_transfer \<Rightarrow> branch option \<Rightarrow> employee \<Rightarrow> employee" where
  "moved_employee t b e =
     e\<lparr> em_legal_entity_id := Some (et_to_legal_entity_id t), em_branch_id := et_to_branch_id t,
        em_branch := map_option br_name b \<rparr>"

definition completed_transfer :: "timestamp \<Rightarrow> entity_transfer \<Rightarrow> entity_transfer" where
  "completed_transfer now t = t\<lparr> et_status := ''COMPLETED'', et_completed_at := Some now \<rparr>"

definition complete_transfer :: "entity_transfer \<Rightarrow> branch option \<Rightarrow> timestamp \<Rightarrow> payroll_db \<Rightarrow> payroll_db" where
  "complete_transfer t b now db =
     db\<lparr> db_employees := update_where (\<lambda>e. em_id e = et_employee_id t) (moved_employee t b) (db_employees db),
         db_transfers := update_where (\<lambda>x. et_id x = et_id t) (completed_transfer now) (db_transfers db) \<rparr>"

definition log_transfer ::
  "entity_transfer \<Rightarrow> string \<Rightarrow> uuid option \<Rightarrow> string option \<Rightarrow> string \<Rightarrow> string \<Rightarrow> payroll_db \<Rightarrow> payroll_db" where
  "log_transfer t action company_id before_status after_status reason db =
     log_event ''EmployeeEntityTransfer'' (Some (et_id t)) action company_id (et_requested_by t) None before_status
       (Some after_status) (Some reason) db"

text \<open>A branch that is named must exist, be active and belong to the tenant and the target.\<close>

definition branch_refused :: "uuid option \<Rightarrow> employee \<Rightarrow> legal_entity \<Rightarrow> payroll_db \<Rightarrow> bool" where
  "branch_refused to_branch emp target db =
     (to_branch \<noteq> None \<and>
      (case branch_at to_branch db of
         None \<Rightarrow> True
       | Some b \<Rightarrow> br_company_id b \<noteq> em_company_id emp \<or> br_legal_entity_id b \<noteq> le_id target \<or> \<not> br_is_active b))"

definition scheduled_of :: "uuid \<Rightarrow> payroll_db \<Rightarrow> entity_transfer list" where
  "scheduled_of eid db = filter (\<lambda>t. et_employee_id t = eid \<and> et_status t = ''SCHEDULED'') (db_transfers db)"

definition transfer_employee ::
  "uuid \<Rightarrow> uuid \<Rightarrow> uuid option \<Rightarrow> date \<Rightarrow> string \<Rightarrow> uuid option \<Rightarrow> uuid option \<Rightarrow> date \<Rightarrow> timestamp \<Rightarrow> payroll_db
    \<Rightarrow> entity_transfer result \<times> payroll_db"
where
  "transfer_employee eid to_entity to_branch effective reason requested_by company_id today now db =
     (case (employee_at eid db, entity_at to_entity db) of
        (Some emp, Some target) \<Rightarrow>
          if em_company_id emp \<noteq> le_company_id target
          then (Inl (LookupError ''Employee or target legal entity not found''), db)
          else if length (py_strip reason) < 3
          then (Inl (ValueError ''Transfer reason must contain at least three characters''), db)
          else if company_id \<noteq> None \<and> em_company_id emp \<noteq> company_id
          then (Inl (LookupError ''Employee or target legal entity not found''), db)
          else if \<not> le_is_active target
          then (Inl (ValueError ''Cannot transfer to an inactive legal entity''), db)
          else if branch_refused to_branch emp target db
          then (Inl (ValueError ''Target branch must be active and belong to the target legal entity''), db)
          else if em_legal_entity_id emp = Some (le_id target) \<and> em_branch_id emp = to_branch
          then (Inl (ValueError ''Employee is already assigned to this entity and branch''), db)
          else case scalar_one_or_none (scheduled_of eid db) of
                 Inl e \<Rightarrow> (Inl e, db)
               | Inr (Some _) \<Rightarrow> (Inl (ValueError ''An employee entity transfer is already scheduled''), db)
               | Inr None \<Rightarrow>
                   let t = \<lparr> et_id = fresh_id (map et_id (db_transfers db)), et_company_id = em_company_id emp,
                             et_employee_id = eid, et_from_legal_entity_id = em_legal_entity_id emp,
                             et_to_legal_entity_id = le_id target, et_from_branch_id = em_branch_id emp,
                             et_to_branch_id = to_branch, et_effective_date = effective,
                             et_reason = py_strip reason, et_status = ''SCHEDULED'',
                             et_requested_by = requested_by, et_completed_at = None \<rparr>;
                       db1 = db\<lparr> db_transfers := db_transfers db @ [t] \<rparr>
                   in if effective \<le> today
                      then (Inr (completed_transfer now t),
                            log_transfer t ''TRANSFER'' (em_company_id emp) None ''COMPLETED'' reason
                              (complete_transfer t (branch_at to_branch db) now db1))
                      else (Inr t, log_transfer t ''SCHEDULE'' (em_company_id emp) None ''SCHEDULED'' reason db1)
      | _ \<Rightarrow> (Inl (LookupError ''Employee or target legal entity not found''), db))"

definition due_transfer :: "uuid \<Rightarrow> date \<Rightarrow> entity_transfer \<Rightarrow> bool" where
  "due_transfer company_id as_of t \<longleftrightarrow>
     et_company_id t = Some company_id \<and> et_status t = ''SCHEDULED'' \<and> et_effective_date t \<le> as_of"

text \<open>A transfer of an employee who is not in the tenant is skipped and stays scheduled.\<close>

definition process_transfer :: "uuid \<Rightarrow> timestamp \<Rightarrow> entity_transfer \<Rightarrow> nat \<times> payroll_db \<Rightarrow> nat \<times> payroll_db" where
  "process_transfer company_id now t = (\<lambda>(n, db).
     case employee_at (et_employee_id t) db of
       None \<Rightarrow> (n, db)
     | Some emp \<Rightarrow>
         if em_company_id emp \<noteq> Some company_id then (n, db)
         else (Suc n,
               log_transfer t ''COMPLETE'' (Some company_id) (Some ''SCHEDULED'') ''COMPLETED'' (et_reason t)
                 (complete_transfer t (branch_at (et_to_branch_id t) db) now db)))"

definition process_due_entity_transfers :: "uuid \<Rightarrow> date \<Rightarrow> timestamp \<Rightarrow> payroll_db \<Rightarrow> nat \<times> payroll_db" where
  "process_due_entity_transfers company_id as_of now db =
     fold (process_transfer company_id now) (filter (due_transfer company_id as_of) (db_transfers db)) (0, db)"

datatype transfer_request =
    TransferEmployee uuid uuid "uuid option" date string "uuid option" "uuid option" date timestamp
  | ProcessDue uuid date timestamp

fun perform_transfer :: "transfer_request \<Rightarrow> payroll_db \<Rightarrow> payroll_db" where
  "perform_transfer (TransferEmployee eid l b eff reason u c today now) db =
     snd (transfer_employee eid l b eff reason u c today now db)"
| "perform_transfer (ProcessDue c as_of now) db = snd (process_due_entity_transfers c as_of now db)"

section \<open>The tenant of an employee\<close>

text \<open>The entity exists and belongs to the company.\<close>

definition entity_of :: "uuid option \<Rightarrow> uuid \<Rightarrow> legal_entity list \<Rightarrow> bool" where
  "entity_of company_id lid es \<longleftrightarrow> (\<exists>l \<in> set es. le_id l = lid \<and> le_company_id l = company_id)"

definition staff_ok :: "legal_entity list \<Rightarrow> employee list \<Rightarrow> bool" where
  "staff_ok es emps \<longleftrightarrow>
     (\<forall>e \<in> set emps. \<forall>lid. em_legal_entity_id e = Some lid \<longrightarrow> entity_of (em_company_id e) lid es)"

definition transfers_ok :: "legal_entity list \<Rightarrow> entity_transfer list \<Rightarrow> bool" where
  "transfers_ok es ts \<longleftrightarrow>
     (\<forall>t \<in> set ts. entity_of (et_company_id t) (et_to_legal_entity_id t) es) \<and>
     (\<forall>eid. length (filter (\<lambda>t. et_employee_id t = eid \<and> et_status t = ''SCHEDULED'') ts) \<le> 1)"

definition tenants_ok :: "payroll_db \<Rightarrow> bool" where
  "tenants_ok db \<longleftrightarrow>
     distinct (map em_id (db_employees db)) \<and> staff_ok (db_entities db) (db_employees db) \<and>
     transfers_ok (db_entities db) (db_transfers db)"

lemma complete_frame [simp]:
  "db_entities (complete_transfer t b now db) = db_entities db"
  "db_employees (complete_transfer t b now db) =
     update_where (\<lambda>e. em_id e = et_employee_id t) (moved_employee t b) (db_employees db)"
  "db_transfers (complete_transfer t b now db) =
     update_where (\<lambda>x. et_id x = et_id t) (completed_transfer now) (db_transfers db)"
  by (simp_all add: complete_transfer_def)

lemma log_transfer_frame [simp]:
  "db_entities (log_transfer t a c b af rs db) = db_entities db"
  "db_employees (log_transfer t a c b af rs db) = db_employees db"
  "db_transfers (log_transfer t a c b af rs db) = db_transfers db"
  by (simp_all add: log_transfer_def log_event_def)

lemma employee_at_in: "employee_at eid db = Some e \<Longrightarrow> e \<in> set (db_employees db) \<and> em_id e = eid"
  by (auto simp: employee_at_def dest: scalars_first_Some)

lemma staff_ok_moved:
  assumes "staff_ok es emps" "distinct (map em_id emps)" "e \<in> set emps" "em_id e = et_employee_id t"
    "entity_of (em_company_id e) (et_to_legal_entity_id t) es"
  shows "staff_ok es (update_where (\<lambda>e. em_id e = et_employee_id t) (moved_employee t b) emps)"
proof -
  have only: "x = e" if "x \<in> set emps" "em_id x = et_employee_id t" for x
    using that assms(2-4) by (simp add: distinct_map inj_on_def)
  show ?thesis using assms(1,5) only
    by (auto simp: staff_ok_def in_set_update_where moved_employee_def split: if_splits)
qed

lemma filter_shrinks:
  "(\<And>x. Q (f x) \<Longrightarrow> Q x) \<Longrightarrow> length (filter Q (update_where P f xs)) \<le> length (filter Q xs)"
  by (induction xs) (auto simp: le_SucI)

lemma transfers_ok_completed:
  assumes "transfers_ok es ts"
  shows "transfers_ok es (update_where P (completed_transfer now) ts)"
proof -
  have "length (filter (\<lambda>t. et_employee_id t = eid \<and> et_status t = ''SCHEDULED'') (update_where P (completed_transfer now) ts)) \<le>
      length (filter (\<lambda>t. et_employee_id t = eid \<and> et_status t = ''SCHEDULED'') ts)" for eid
    by (rule filter_shrinks) (simp add: completed_transfer_def)
  then show ?thesis using assms
    by (fastforce simp: transfers_ok_def in_set_update_where completed_transfer_def intro: order.trans)
qed

lemma tenants_ok_complete:
  assumes "tenants_ok db" "employee_at (et_employee_id t) db = Some e"
    "entity_of (em_company_id e) (et_to_legal_entity_id t) (db_entities db)"
  shows "tenants_ok (complete_transfer t b now db)"
proof -
  have e: "e \<in> set (db_employees db)" "em_id e = et_employee_id t" using employee_at_in [OF assms(2)] by auto
  have "map em_id (db_employees (complete_transfer t b now db)) = map em_id (db_employees db)"
    by (simp add: map_update_where moved_employee_def)
  then show ?thesis using assms(1,3) e staff_ok_moved [of "db_entities db" "db_employees db" e t b]
      transfers_ok_completed by (simp add: tenants_ok_def)
qed

lemma tenants_ok_log [simp]: "tenants_ok (log_transfer t a c b af rs db) = tenants_ok db"
  by (simp add: tenants_ok_def)

lemma tenants_ok_add:
  assumes "tenants_ok db" "entity_of (et_company_id t) (et_to_legal_entity_id t) (db_entities db)"
    "scheduled_of (et_employee_id t) db = []"
  shows "tenants_ok (db\<lparr> db_transfers := db_transfers db @ [t] \<rparr>)"
  using assms by (auto simp: tenants_ok_def transfers_ok_def scheduled_of_def)

lemma transfer_employee_ok:
  assumes "tenants_ok db"
  shows "tenants_ok (snd (transfer_employee eid l b eff reason u c today now db))"
proof (cases "\<exists>t. fst (transfer_employee eid l b eff reason u c today now db) = Inr t")
  case True
  then obtain emp target where f: "employee_at eid db = Some emp" "entity_at l db = Some target"
      "em_company_id emp = le_company_id target" "scheduled_of eid db = []"
    by (auto simp: transfer_employee_def scalar_one_or_none_Inr_None split: option.splits if_splits sum.splits)
  let ?t = "\<lparr> et_id = fresh_id (map et_id (db_transfers db)), et_company_id = em_company_id emp,
    et_employee_id = eid, et_from_legal_entity_id = em_legal_entity_id emp, et_to_legal_entity_id = le_id target,
    et_from_branch_id = em_branch_id emp, et_to_branch_id = b, et_effective_date = eff, et_reason = py_strip reason,
    et_status = ''SCHEDULED'', et_requested_by = u, et_completed_at = None \<rparr>"
  have ent: "entity_of (em_company_id emp) (le_id target) (db_entities db)"
    using f(2,3) by (auto simp: entity_of_def entity_at_def dest!: scalars_first_Some)
  have add: "tenants_ok (db\<lparr> db_transfers := db_transfers db @ [?t] \<rparr>)"
    using assms ent f(4) by (intro tenants_ok_add) simp_all
  have "tenants_ok (complete_transfer ?t (branch_at b db) now (db\<lparr> db_transfers := db_transfers db @ [?t] \<rparr>))"
    by (rule tenants_ok_complete [OF add, where e = emp]) (use f(1) ent in \<open>simp_all add: employee_at_def\<close>)
  then show ?thesis using True f add
    by (auto simp: transfer_employee_def Let_def split: if_splits)
next
  case False
  then have "snd (transfer_employee eid l b eff reason u c today now db) = db"
    by (auto simp: transfer_employee_def Let_def split: option.splits if_splits sum.splits)
  then show ?thesis using assms by simp
qed

lemma process_transfer_ok:
  assumes "tenants_ok (snd ndb)" "entity_of (Some c) (et_to_legal_entity_id t) (db_entities (snd ndb))"
  shows "tenants_ok (snd (process_transfer c now t ndb))"
    "db_entities (snd (process_transfer c now t ndb)) = db_entities (snd ndb)"
  using assms tenants_ok_complete [of "snd ndb" t] by (auto simp: process_transfer_def split: prod.splits option.splits)

lemma process_all_ok:
  assumes "tenants_ok (snd ndb)" "\<forall>t \<in> set ts. entity_of (Some c) (et_to_legal_entity_id t) (db_entities (snd ndb))"
  shows "tenants_ok (snd (fold (process_transfer c now) ts ndb))"
  using assms by (induction ts arbitrary: ndb) (simp_all add: process_transfer_ok)

lemma process_due_ok:
  assumes "tenants_ok db"
  shows "tenants_ok (snd (process_due_entity_transfers c as_of now db))"
  unfolding process_due_entity_transfers_def
  by (rule process_all_ok) (use assms in \<open>auto simp: tenants_ok_def transfers_ok_def due_transfer_def\<close>)

interpretation transfers: transition_system perform_transfer "\<lambda>db :: payroll_db. tenants_ok db"
proof
  fix db a
  assume "tenants_ok db"
  then show "tenants_ok (perform_transfer a db)"
    by (cases a) (simp_all only: perform_transfer.simps transfer_employee_ok process_due_ok)
qed

text \<open>
  C22: transfers stay inside the tenant. Whatever transfers are requested and processed in whatever
  order, every employee keeps working for a legal entity of the employee's own company, every transfer
  leads to an entity of its company, and no employee ever has two transfers scheduled.
\<close>

theorem transfers_stay_in_tenant:
  assumes "tenants_ok db"
  shows "tenants_ok (foldl (\<lambda>d a. perform_transfer a d) db ops)"
  by (rule transfers.trace_keeps [OF assms])

definition sample_group :: payroll_db where
  "sample_group = sample_hire\<lparr> db_entities :=
     [\<lparr> le_id = 31, le_company_id = Some 1, le_code = ''BLR'', le_state_code = Some ''KA'', le_is_active = True \<rparr>,
      \<lparr> le_id = 32, le_company_id = Some 2, le_code = ''HYD'', le_state_code = Some ''TS'', le_is_active = True \<rparr>] \<rparr>"

definition sample_moves :: "transfer_request list" where
  "sample_moves =
     [TransferEmployee 6 32 None (Date 2025 7 1) ''new office'' (Some 7) None (Date 2025 6 1) 10,
      TransferEmployee 6 31 None (Date 2025 7 1) ''new office'' (Some 7) None (Date 2025 6 1) 11,
      ProcessDue 1 (Date 2025 7 2) 12]"

lemma sample_moves_complete:
  "map em_legal_entity_id (db_employees (foldl (\<lambda>d a. perform_transfer a d) sample_group sample_moves)) = [Some 31]"
  by code_simp

theorem transfers_stay_in_tenant_witness:
  "tenants_ok (foldl (\<lambda>d a. perform_transfer a d) sample_group sample_moves) \<and>
   map em_legal_entity_id (db_employees (foldl (\<lambda>d a. perform_transfer a d) sample_group sample_moves)) = [Some 31]"
proof -
  have "tenants_ok sample_group"
    by (simp add: tenants_ok_def sample_group_def sample_hire_def empty_db_def staff_ok_def transfers_ok_def
        sample_employee_def)
  from transfers_stay_in_tenant [OF this] sample_moves_complete show ?thesis by blast
qed

end
