(* ===== verification/Leave.thy ===== *)
theory Leave
  imports Transfers
begin

text \<open>
  Leave: \<open>leave_service.py\<close> with \<open>leave_repository.py\<close> and the cut-off of
  \<open>validation_service.py\<close>. A request reserves days of a policy while it is pending, uses them
  when it is approved, and becomes an arrear when the period of the leave is already closed. Days are
  Decimals with one place, on which the arithmetic of the code is exact. Notifications are left out.
\<close>

section \<open>Leave types and days\<close>

definition CANONICAL_LEAVE_TYPES :: "(string \<times> string) list" where
  "CANONICAL_LEAVE_TYPES =
     [(''SICK'', ''Sick Leave''), (''CASUAL'', ''Casual Leave''), (''VACATION'', ''Vacation Leave''),
      (''BEREAVEMENT'', ''Bereavement Leave'')]"

definition LEAVE_TYPE_ALIASES :: "(string \<times> string) list" where
  "LEAVE_TYPE_ALIASES =
     [(''sick'', ''Sick Leave''), (''sick_leave'', ''Sick Leave''), (''casual'', ''Casual Leave''),
      (''casual_leave'', ''Casual Leave''), (''vacation'', ''Vacation Leave''),
      (''vacation_leave'', ''Vacation Leave''), (''privilege'', ''Vacation Leave''),
      (''privilege_leave'', ''Vacation Leave''), (''pl'', ''Vacation Leave''),
      (''bereavement'', ''Bereavement Leave''), (''bereavement_leave'', ''Bereavement Leave'')]"

definition DEFAULT_LEAVE_ALLOCATIONS :: "(string \<times> rat) list" where
  "DEFAULT_LEAVE_ALLOCATIONS =
     [(''Sick Leave'', 12), (''Casual Leave'', 10), (''Vacation Leave'', 15), (''Bereavement Leave'', 5)]"

definition without_leave_suffix :: "string \<Rightarrow> string" where
  "without_leave_suffix s =
     (if 5 \<le> length s \<and> drop (length s - 5) s = ''leave'' then take (length s - 5) s else s)"

definition normalize_leave_type :: "string \<Rightarrow> string" where
  "normalize_leave_type leave_type =
     (if leave_type = [] then leave_type
      else
        let normalized = without_leave_suffix
              (filter (\<lambda>c. c \<noteq> CHR ''_'') (filter (\<lambda>c. c \<noteq> CHR '' '') (py_lower (py_strip leave_type))))
        in case map_of LEAVE_TYPE_ALIASES normalized of
             Some t \<Rightarrow> t
           | None \<Rightarrow>
               (case map_of CANONICAL_LEAVE_TYPES (py_upper normalized) of
                  Some t \<Rightarrow> t
                | None \<Rightarrow>
                    (case scalars_first (filter (\<lambda>t. py_lower t = py_lower (py_strip leave_type))
                            (map snd CANONICAL_LEAVE_TYPES)) of
                       Some t \<Rightarrow> t
                     | None \<Rightarrow> py_strip leave_type)))"

definition calculate_leave_days :: "date \<Rightarrow> date \<Rightarrow> rat" where
  "calculate_leave_days start_date end_date =
     (if end_date < start_date then 0 else of_int (days_between start_date end_date + 1))"

section \<open>The cut-off of a period\<close>

datatype attendance_period = Canonical payroll_period | Legacy pay_cycle

definition later_period :: "payroll_period \<Rightarrow> payroll_period \<Rightarrow> bool" where
  "later_period a b \<longleftrightarrow> period_before b a"

text \<open>The latest canonical period that contains the date, else the newest legacy cycle.\<close>

fun latest_of :: "payroll_period option \<Rightarrow> payroll_period list \<Rightarrow> payroll_period option" where
  "latest_of best [] = best"
| "latest_of None (p # ps) = latest_of (Some p) ps"
| "latest_of (Some b) (p # ps) = latest_of (Some (if later_period p b then p else b)) ps"

definition within_dates :: "date option \<Rightarrow> date option \<Rightarrow> date \<Rightarrow> bool" where
  "within_dates lower upper d \<longleftrightarrow>
     (case lower of None \<Rightarrow> True | Some l \<Rightarrow> l \<le> d) \<and> (case upper of None \<Rightarrow> True | Some u \<Rightarrow> d \<le> u)"

definition get_payroll_period_for_attendance_date ::
  "uuid option \<Rightarrow> date \<Rightarrow> payroll_db \<Rightarrow> attendance_period option" where
  "get_payroll_period_for_attendance_date company_id d db =
     (case latest_of None (filter (\<lambda>p. pp_start_date p \<le> d \<and> d \<le> pp_end_date p \<and>
               (company_id = None \<or> pp_company_id p = company_id)) (db_periods db)) of
        Some p \<Rightarrow> Some (Canonical p)
      | None \<Rightarrow>
          map_option Legacy (scalars_first (rev (filter (\<lambda>k. pk_period_month k = month d \<and> pk_period_year k = year d \<and>
            (company_id = None \<or> pk_company_id k = company_id) \<and>
            within_dates (pk_start_date k) (pk_end_date k) d) (db_pay_cycles db)))))"

definition block_reason_of ::
  "timestamp option \<Rightarrow> bool \<Rightarrow> string \<Rightarrow> timestamp option \<Rightarrow> timestamp \<Rightarrow> string option" where
  "block_reason_of attendance_locked_at locked status deadline now =
     (if attendance_locked_at \<noteq> None then Some ''ATTENDANCE_PERIOD_LOCKED''
      else if locked \<or> py_upper status \<in> {''LOCKED'', ''CLOSED'', ''PAID'', ''FINALIZED''}
      then Some ''ATTENDANCE_PERIOD_LOCKED''
      else case deadline of
             Some t \<Rightarrow> if t < now then Some ''REGULARISATION_DEADLINE_PASSED'' else None
           | None \<Rightarrow> None)"

fun attendance_period_block_reason :: "attendance_period option \<Rightarrow> timestamp \<Rightarrow> string option" where
  "attendance_period_block_reason None now = None"
| "attendance_period_block_reason (Some (Canonical p)) now =
     block_reason_of (pp_attendance_locked_at p) (pp_is_locked p) (pp_status p) (pp_regularisation_deadline p) now"
| "attendance_period_block_reason (Some (Legacy k)) now =
     block_reason_of (pk_attendance_locked_at k) (pk_is_locked k) (pk_status k) (pk_regularisation_deadline k) now"

definition RETROACTIVE_ATTENDANCE_ROLES :: "string list" where
  "RETROACTIVE_ATTENDANCE_ROLES = [''admin'', ''hr_admin'', ''super_admin'', ''cfo'', ''ceo'']"

definition assert_attendance_period_editable ::
  "uuid option \<Rightarrow> date \<Rightarrow> bool \<Rightarrow> string \<Rightarrow> timestamp \<Rightarrow> payroll_db \<Rightarrow> attendance_period option result" where
  "assert_attendance_period_editable company_id d allow_retroactive actor_role now db =
     (let period = get_payroll_period_for_attendance_date company_id d db
      in case attendance_period_block_reason period now of
           None \<Rightarrow> Inr period
         | Some reason \<Rightarrow>
             if allow_retroactive \<and> py_lower actor_role \<in> set RETROACTIVE_ATTENDANCE_ROLES then Inr period
             else Inl (HTTPException 409 reason))"

section \<open>Policies and reservations\<close>

text \<open>The policy with the latest start among those that match; of equal ones, the newest.\<close>

fun starts_before :: "date option \<Rightarrow> date option \<Rightarrow> bool" where
  "starts_before None (Some _) = True"
| "starts_before (Some a) (Some b) = (a < b)"
| "starts_before _ None = False"

fun preferred_policy :: "leave_policy option \<Rightarrow> leave_policy list \<Rightarrow> leave_policy option" where
  "preferred_policy best [] = best"
| "preferred_policy None (p # ps) = preferred_policy (Some p) ps"
| "preferred_policy (Some b) (p # ps) =
     preferred_policy (Some (if starts_before (lp_effective_from p) (lp_effective_from b) then b else p)) ps"

definition policies_of :: "uuid \<Rightarrow> string \<Rightarrow> payroll_db \<Rightarrow> leave_policy list" where
  "policies_of eid leave_type db =
     filter (\<lambda>p. lp_employee_id p = eid \<and> lp_leave_type p = leave_type) (db_leave_policies db)"

definition policy_on :: "uuid \<Rightarrow> string \<Rightarrow> date \<Rightarrow> payroll_db \<Rightarrow> leave_policy option" where
  "policy_on eid leave_type d db =
     preferred_policy None
       (filter (\<lambda>p. within_dates (lp_effective_from p) (lp_effective_to p) d) (policies_of eid leave_type db))"

text \<open>\<open>INSERT ... ON CONFLICT DO NOTHING\<close> on employee, type and start, then the lookup for the start.\<close>

definition insert_policy :: "uuid \<Rightarrow> string \<Rightarrow> rat \<Rightarrow> date \<Rightarrow> date \<Rightarrow> payroll_db \<Rightarrow> payroll_db" where
  "insert_policy eid leave_type days start_date end_date db =
     (if \<exists>p \<in> set (policies_of eid leave_type db). lp_effective_from p = Some start_date then db
      else db\<lparr> db_leave_policies := db_leave_policies db @
             [\<lparr> lp_id = fresh_id (map lp_id (db_leave_policies db)), lp_employee_id = eid, lp_leave_type = leave_type,
                lp_total_days = days, lp_used_days = 0, lp_carry_forward = False,
                lp_effective_from = Some start_date, lp_effective_to = Some end_date \<rparr>] \<rparr>)"

definition ensure_employee_leave_policy ::
  "uuid \<Rightarrow> string \<Rightarrow> rat \<Rightarrow> date \<Rightarrow> date \<Rightarrow> payroll_db \<Rightarrow> leave_policy option \<times> payroll_db" where
  "ensure_employee_leave_policy eid leave_type days start_date end_date db =
     (let db1 = insert_policy eid leave_type days start_date end_date db
      in (case policy_on eid leave_type start_date db1 of
            Some p \<Rightarrow> Some p
          | None \<Rightarrow> preferred_policy None (policies_of eid leave_type db1), db1))"

definition pending_days :: "uuid \<Rightarrow> string \<Rightarrow> uuid option \<Rightarrow> payroll_db \<Rightarrow> rat" where
  "pending_days eid leave_type excluded db =
     (\<Sum>q\<leftarrow>filter (\<lambda>q. lq_employee_id q = eid \<and> lq_leave_type q = leave_type \<and> lq_status q = ''PENDING'' \<and>
              Some (lq_id q) \<noteq> excluded) (db_leaves db). lq_total_days q)"

definition active_leave :: "leave_request \<Rightarrow> bool" where
  "active_leave q \<longleftrightarrow> lq_status q \<in> {''PENDING'', ''APPROVED''}"

definition check_leave_overlap :: "uuid \<Rightarrow> date \<Rightarrow> date \<Rightarrow> payroll_db \<Rightarrow> bool" where
  "check_leave_overlap eid start_date end_date db \<longleftrightarrow>
     (\<exists>q \<in> set (db_leaves db). lq_employee_id q = eid \<and> active_leave q \<and>
        lq_start_date q \<le> end_date \<and> start_date \<le> lq_end_date q)"

section \<open>Requests of leave\<close>

definition LEAVE_BACKDATE_DAYS :: int where "LEAVE_BACKDATE_DAYS = 30"

definition bad_request :: "string \<Rightarrow> exc" where
  "bad_request message = HTTPException 400 message"

text \<open>The checks of the payload, in the order of the code: the leave type, the days and the reason.\<close>

definition checked_leave ::
  "string \<Rightarrow> date \<Rightarrow> date \<Rightarrow> string \<Rightarrow> string \<Rightarrow> date \<Rightarrow> (string \<times> rat \<times> string) result" where
  "checked_leave leave_type start_date end_date reason role_name today =
     (let days = calculate_leave_days start_date end_date; stripped = py_strip reason
      in if end_date < start_date then Inl (bad_request ''Start date must be before or equal to End date.'')
         else if days \<le> 0 then Inl (bad_request ''Invalid leave date range.'')
         else if days * 2 \<noteq> of_int \<lfloor>days * 2\<rfloor> then Inl (bad_request ''Total days must be in increments of 0.5.'')
         else if days < 1 / 2 then Inl (bad_request ''Leave must be at least 0.5 days.'')
         else if length stripped < 5 then Inl (bad_request ''Reason must be at least 5 characters.'')
         else if py_lower role_name \<notin> {''hr_admin'', ''super_admin''} \<and> LEAVE_BACKDATE_DAYS < days_between start_date today
         then Inl (bad_request ''Leave cannot be applied for dates more than 30 days in the past.'')
         else Inr (normalize_leave_type leave_type, days, stripped))"

text \<open>The policy of the start date, or the default allocation of its year.\<close>

definition policy_for_leave :: "uuid \<Rightarrow> string \<Rightarrow> date \<Rightarrow> payroll_db \<Rightarrow> (leave_policy option \<times> payroll_db) result" where
  "policy_for_leave eid leave_type start_date db =
     (case policy_on eid leave_type start_date db of
        Some p \<Rightarrow> Inr (Some p, db)
      | None \<Rightarrow>
          (case map_of DEFAULT_LEAVE_ALLOCATIONS leave_type of
             None \<Rightarrow> Inl (bad_request (''Leave type '' @ leave_type @ '' is not supported.''))
           | Some days \<Rightarrow>
               Inr (ensure_employee_leave_policy eid leave_type days (Date (year start_date) 1 1)
                      (Date (year start_date) 12 31) db)))"

definition new_leave :: "uuid \<Rightarrow> uuid \<Rightarrow> string \<Rightarrow> date \<Rightarrow> date \<Rightarrow> rat \<Rightarrow> string \<Rightarrow> leave_request" where
  "new_leave i eid leave_type start_date end_date days reason =
     \<lparr> lq_id = i, lq_employee_id = eid, lq_leave_type = leave_type, lq_start_date = start_date,
       lq_end_date = end_date, lq_total_days = days, lq_reason = reason, lq_status = ''PENDING'',
       lq_approved_by_id = None, lq_rejection_reason = None, lq_reviewed_by_id = None, lq_reviewed_at = None \<rparr>"

definition apply_leave ::
  "uuid \<Rightarrow> string \<Rightarrow> date \<Rightarrow> date \<Rightarrow> string \<Rightarrow> string \<Rightarrow> date \<Rightarrow> timestamp \<Rightarrow> payroll_db
    \<Rightarrow> leave_request result \<times> payroll_db"
where
  "apply_leave eid leave_type start_date end_date reason role_name today now db =
     (case checked_leave leave_type start_date end_date reason role_name today of
        Inl e \<Rightarrow> (Inl e, db)
      | Inr (kind, days, text) \<Rightarrow>
          (case assert_attendance_period_editable (Option.bind (employee_at eid db) em_company_id) start_date False [] now db of
             Inl e \<Rightarrow> (Inl e, db)
           | Inr _ \<Rightarrow>
               if check_leave_overlap eid start_date end_date db
               then (Inl (bad_request ''You have an overlapping leave request that is active or pending.''), db)
               else case policy_for_leave eid kind start_date db of
                 Inl e \<Rightarrow> (Inl e, db)
               | Inr (None, db1) \<Rightarrow> (Inl (AttributeError ''total_days''), db)
               | Inr (Some p, db1) \<Rightarrow>
                   if lp_total_days p - lp_used_days p - pending_days eid kind None db1 < days
                   then (Inl (bad_request ''Insufficient leave balance.''), db)
                   else
                     let q = new_leave (fresh_id (map lq_id (db_leaves db1))) eid kind start_date end_date days text
                     in (Inr q, db1\<lparr> db_leaves := db_leaves db1 @ [q] \<rparr>)))"

definition ensure_allocation :: "uuid \<Rightarrow> date \<Rightarrow> string \<times> rat \<Rightarrow> payroll_db \<Rightarrow> payroll_db" where
  "ensure_allocation eid today = (\<lambda>(kind, days) db.
     snd (ensure_employee_leave_policy eid kind days (Date (year today) 1 1) (Date (year today) 12 31) db))"

text \<open>The balances of the default types; the read creates the allocations of the year that are missing.\<close>

definition leave_balance :: "(string \<times> leave_policy) list \<Rightarrow> string \<times> rat \<Rightarrow> string \<times> rat \<times> rat \<times> rat" where
  "leave_balance policy_map = (\<lambda>(kind, days).
     case map_of policy_map kind of
       Some p \<Rightarrow> (kind, lp_total_days p, lp_used_days p, max 0 (lp_total_days p - lp_used_days p))
     | None \<Rightarrow> (kind, days, 0, days))"

definition get_leave_balances :: "uuid \<Rightarrow> date \<Rightarrow> payroll_db \<Rightarrow> (string \<times> rat \<times> rat \<times> rat) list \<times> payroll_db" where
  "get_leave_balances eid today db =
     (let db1 = fold (ensure_allocation eid today) DEFAULT_LEAVE_ALLOCATIONS db;
          policy_map = rev (map (\<lambda>p. (lp_leave_type p, p)) (filter (\<lambda>p. lp_employee_id p = eid) (db_leave_policies db1)))
      in (map (leave_balance policy_map) DEFAULT_LEAVE_ALLOCATIONS, db1))"

section \<open>Review and cancellation\<close>

text \<open>The request with its employee, who must belong to the caller's company.\<close>

definition leave_in_tenant :: "uuid \<Rightarrow> uuid \<Rightarrow> payroll_db \<Rightarrow> (leave_request \<times> employee) result" where
  "leave_in_tenant lid company_id db =
     bind_res (scalar_one_or_none (filter (\<lambda>q. lq_id q = lid) (db_leaves db))) (\<lambda>found.
       case found of
         None \<Rightarrow> Inl (HTTPException 404 ''Leave request not found.'')
       | Some q \<Rightarrow>
           (case employee_at (lq_employee_id q) db of
              None \<Rightarrow> Inl (HTTPException 404 ''Leave request not found.'')
            | Some emp \<Rightarrow>
                if em_company_id emp \<noteq> Some company_id then Inl (HTTPException 404 ''Leave request not found.'')
                else Inr (q, emp)))"

definition get_employee_by_user_id :: "uuid \<Rightarrow> payroll_db \<Rightarrow> employee option result" where
  "get_employee_by_user_id user_id db =
     scalar_one_or_none (filter (\<lambda>e. em_user_id e = Some user_id \<and> \<not> em_is_deleted e) (db_employees db))"

definition manager_may_review :: "uuid \<Rightarrow> string \<Rightarrow> employee \<Rightarrow> payroll_db \<Rightarrow> bool result" where
  "manager_may_review reviewer role_name emp db =
     (if py_lower role_name \<noteq> ''manager'' then Inr True
      else bind_res (get_employee_by_user_id reviewer db) (\<lambda>found.
        Inr (case found of
               None \<Rightarrow> False
             | Some m \<Rightarrow> em_reporting_manager_id emp = Some (em_id m) \<or> em_manager_id emp = Some (em_id m))))"

definition put_leave :: "leave_request \<Rightarrow> payroll_db \<Rightarrow> payroll_db" where
  "put_leave q db = db\<lparr> db_leaves := update_where (\<lambda>x. lq_id x = lq_id q) (\<lambda>_. q) (db_leaves db) \<rparr>"

definition use_days :: "leave_policy \<Rightarrow> rat \<Rightarrow> payroll_db \<Rightarrow> payroll_db" where
  "use_days p used db =
     db\<lparr> db_leave_policies :=
       update_where (\<lambda>x. lp_id x = lp_id p) (\<lambda>x. x\<lparr> lp_used_days := used \<rparr>) (db_leave_policies db) \<rparr>"

definition period_id_of :: "attendance_period option \<Rightarrow> uuid option" where
  "period_id_of period = (case period of Some (Canonical p) \<Rightarrow> Some (pp_id p) | _ \<Rightarrow> None)"

definition leave_arrear :: "leave_request \<Rightarrow> uuid \<Rightarrow> uuid \<Rightarrow> attendance_period option \<Rightarrow> arrear_request" where
  "leave_arrear q company_id reviewer period =
     \<lparr> aq_employee_id = lq_employee_id q, aq_company_id = Some company_id,
       aq_source_period_id = period_id_of period, aq_target_period_id = None, aq_type = ''LEAVE_REVERSAL'',
       aq_delta_days = - lq_total_days q, aq_amount_paise = None, aq_daily_rate_paise = None,
       aq_created_by = Some reviewer \<rparr>"

definition approve_leave ::
  "leave_request \<Rightarrow> uuid \<Rightarrow> uuid \<Rightarrow> attendance_period option \<Rightarrow> timestamp \<Rightarrow> payroll_db
    \<Rightarrow> leave_request result \<times> payroll_db"
where
  "approve_leave q reviewer company_id period now db =
     (case policy_on (lq_employee_id q) (lq_leave_type q) (lq_start_date q) db of
        None \<Rightarrow> (Inl (bad_request (''No active leave policy found for '' @ lq_leave_type q @ ''.'')), db)
      | Some p \<Rightarrow>
          if lp_total_days p - lp_used_days p - pending_days (lq_employee_id q) (lq_leave_type q) (Some (lq_id q)) db
               < lq_total_days q
          then (Inl (bad_request ''Insufficient leave balance to approve this request.''), db)
          else
            let q' = q\<lparr> lq_approved_by_id := Some reviewer, lq_rejection_reason := None,
                       lq_reviewed_by_id := Some reviewer, lq_reviewed_at := Some now, lq_status := ''APPROVED'' \<rparr>;
                db1 = put_leave q' (use_days p (lp_used_days p + lq_total_days q) db)
            in if attendance_period_block_reason period now = None then (Inr q', db1)
               else case create_arrear (leave_arrear q company_id reviewer period) db1 of
                      (Inl e, _) \<Rightarrow> (Inl e, db)
                    | (Inr _, db2) \<Rightarrow> (Inr q', db2))"

definition reject_leave ::
  "leave_request \<Rightarrow> uuid \<Rightarrow> string option \<Rightarrow> timestamp \<Rightarrow> payroll_db \<Rightarrow> leave_request result \<times> payroll_db" where
  "reject_leave q reviewer reason now db =
     (let text = py_strip (or_str reason [])
      in if text = [] then (Inl (bad_request ''Rejection reason is required.''), db)
         else if length text < 3 then (Inl (bad_request ''Rejection reason must be at least 3 characters.''), db)
         else
           let q' = q\<lparr> lq_rejection_reason := Some text, lq_approved_by_id := None,
                      lq_reviewed_by_id := Some reviewer, lq_reviewed_at := Some now, lq_status := ''REJECTED'' \<rparr>
           in (Inr q', put_leave q' db))"

definition review_leave ::
  "uuid \<Rightarrow> string \<Rightarrow> uuid \<Rightarrow> string \<Rightarrow> uuid \<Rightarrow> string option \<Rightarrow> timestamp \<Rightarrow> payroll_db
    \<Rightarrow> leave_request result \<times> payroll_db"
where
  "review_leave lid status reviewer role_name company_id reason now db =
     (case leave_in_tenant lid company_id db of
        Inl e \<Rightarrow> (Inl e, db)
      | Inr (q, emp) \<Rightarrow>
          if em_user_id emp = Some reviewer
          then (Inl (HTTPException 403 ''You cannot approve or reject your own leave request.''), db)
          else case manager_may_review reviewer role_name emp db of
            Inl e \<Rightarrow> (Inl e, db)
          | Inr False \<Rightarrow>
              (Inl (HTTPException 403 ''You can only review leave requests for your direct reports.''), db)
          | Inr True \<Rightarrow>
              if lq_status q \<noteq> ''PENDING'' then (Inl (bad_request ''Leave request is not in PENDING state.''), db)
              else case assert_attendance_period_editable (Some company_id) (lq_start_date q) True role_name now db of
                Inl e \<Rightarrow> (Inl e, db)
              | Inr period \<Rightarrow>
                  if status = ''APPROVED'' then approve_leave q reviewer company_id period now db
                  else if status = ''REJECTED'' then reject_leave q reviewer reason now db
                  else (Inl (bad_request (''Invalid review status: '' @ status)), db))"

definition refund :: "leave_request \<Rightarrow> payroll_db \<Rightarrow> payroll_db" where
  "refund q db =
     (case policy_on (lq_employee_id q) (lq_leave_type q) (lq_start_date q) db of
        None \<Rightarrow> db
      | Some p \<Rightarrow> use_days p (max 0 (lp_used_days p - lq_total_days q)) db)"

definition cancel_leave ::
  "uuid \<Rightarrow> uuid \<Rightarrow> string \<Rightarrow> uuid \<Rightarrow> date \<Rightarrow> timestamp \<Rightarrow> payroll_db \<Rightarrow> leave_request result \<times> payroll_db" where
  "cancel_leave lid caller role_name company_id today now db =
     (case leave_in_tenant lid company_id db of
        Inl e \<Rightarrow> (Inl e, db)
      | Inr (q, emp) \<Rightarrow>
          (case assert_attendance_period_editable (Some company_id) (lq_start_date q) False [] now db of
             Inl e \<Rightarrow> (Inl e, db)
           | Inr _ \<Rightarrow>
               if em_user_id emp \<noteq> Some caller \<and> py_lower role_name \<notin> {''hr_admin'', ''super_admin''}
               then (Inl (HTTPException 403 ''You can only cancel your own leave requests.''), db)
               else
                 let q' = q\<lparr> lq_status := ''CANCELLED'' \<rparr>
                 in if lq_status q = ''PENDING'' then (Inr q', put_leave q' db)
                    else if lq_status q = ''APPROVED''
                    then if lq_start_date q \<le> today
                         then (Inl (bad_request ''Cannot cancel an approved leave that has already started or passed.''), db)
                         else (Inr q', refund q (put_leave q' db))
                    else if lq_status q \<in> {''CANCELLED'', ''REJECTED''}
                    then (Inl (bad_request (''Leave request is already '' @ py_lower (lq_status q) @ ''.'')), db)
                    else (Inl (bad_request (''Cannot cancel leave request in status '' @ lq_status q @ ''.'')), db)))"

section \<open>Traces\<close>

datatype leave_op =
    LeaveApply uuid string date date string string date timestamp
  | LeaveReview uuid string uuid string uuid "string option" timestamp
  | LeaveCancel uuid uuid string uuid date timestamp
  | LeaveBalances uuid date

fun perform_leave :: "leave_op \<Rightarrow> payroll_db \<Rightarrow> payroll_db" where
  "perform_leave (LeaveApply eid kind s e reason r today now) db = snd (apply_leave eid kind s e reason r today now db)"
| "perform_leave (LeaveReview lid status u r c reason now) db = snd (review_leave lid status u r c reason now db)"
| "perform_leave (LeaveCancel lid u r c today now) db = snd (cancel_leave lid u r c today now db)"
| "perform_leave (LeaveBalances eid today) db = snd (get_leave_balances eid today db)"

text \<open>A policy is never overdrawn; a policy's days used never fall below zero.\<close>

definition ledger_ok :: "leave_policy list \<Rightarrow> bool" where
  "ledger_ok ps \<longleftrightarrow>
     distinct (map lp_id ps) \<and> (\<forall>p \<in> set ps. 0 \<le> lp_used_days p \<and> lp_used_days p \<le> lp_total_days p)"

definition overlapping :: "leave_request \<Rightarrow> leave_request \<Rightarrow> bool" where
  "overlapping q r \<longleftrightarrow>
     lq_employee_id q = lq_employee_id r \<and> active_leave q \<and> active_leave r \<and>
     lq_start_date q \<le> lq_end_date r \<and> lq_start_date r \<le> lq_end_date q"

definition self_approved :: "employee list \<Rightarrow> leave_request \<Rightarrow> bool" where
  "self_approved emps q \<longleftrightarrow>
     (\<exists>e \<in> set emps. em_id e = lq_employee_id q \<and> lq_approved_by_id q \<noteq> None \<and> em_user_id e = lq_approved_by_id q)"

definition leaves_ok :: "employee list \<Rightarrow> leave_request list \<Rightarrow> bool" where
  "leaves_ok emps qs \<longleftrightarrow>
     distinct (map lq_id qs) \<and> (\<forall>q \<in> set qs. 0 \<le> lq_total_days q \<and> \<not> self_approved emps q) \<and>
     (\<forall>q \<in> set qs. \<forall>r \<in> set qs. lq_id q \<noteq> lq_id r \<longrightarrow> \<not> overlapping q r)"

definition leave_office_ok :: "payroll_db \<Rightarrow> bool" where
  "leave_office_ok db \<longleftrightarrow>
     distinct (map em_id (db_employees db)) \<and> ledger_ok (db_leave_policies db) \<and>
     leaves_ok (db_employees db) (db_leaves db)"

section \<open>The ledger\<close>

lemma preferred_policy_in: "preferred_policy best ps = Some p \<Longrightarrow> p \<in> set ps \<or> best = Some p"
  by (induction best ps rule: preferred_policy.induct) (auto split: if_splits)

lemma policies_of_in: "p \<in> set (policies_of eid kind db) \<Longrightarrow> p \<in> set (db_leave_policies db)"
  by (simp add: policies_of_def)

lemma policy_on_in: "policy_on eid kind d db = Some p \<Longrightarrow> p \<in> set (db_leave_policies db)"
  by (auto simp: policy_on_def dest!: preferred_policy_in policies_of_in)

lemma ledger_ok_use:
  assumes "ledger_ok ps" "p \<in> set ps" "0 \<le> u" "u \<le> lp_total_days p"
  shows "ledger_ok (update_where (\<lambda>x. lp_id x = lp_id p) (\<lambda>x. x\<lparr> lp_used_days := u \<rparr>) ps)"
proof -
  have one: "lp_total_days x = lp_total_days p" if "x \<in> set ps" "lp_id x = lp_id p" for x
    using that assms(1,2) by (auto simp: ledger_ok_def distinct_map inj_on_def)
  have "map lp_id (update_where (\<lambda>x. lp_id x = lp_id p) (\<lambda>x. x\<lparr> lp_used_days := u \<rparr>) ps) = map lp_id ps"
    by (rule map_update_where) simp
  moreover have "0 \<le> lp_used_days y \<and> lp_used_days y \<le> lp_total_days y"
    if "y \<in> set (update_where (\<lambda>x. lp_id x = lp_id p) (\<lambda>x. x\<lparr> lp_used_days := u \<rparr>) ps)" for y
  proof -
    obtain x where x: "x \<in> set ps" "y = (if lp_id x = lp_id p then x\<lparr> lp_used_days := u \<rparr> else x)"
      using \<open>y \<in> _\<close> by (auto simp: in_set_update_where)
    show ?thesis
    proof (cases "lp_id x = lp_id p")
      case True
      then show ?thesis using x assms(3,4) one [OF x(1) True] by simp
    next
      case False
      then show ?thesis using x assms(1) by (simp add: ledger_ok_def)
    qed
  qed
  ultimately show ?thesis using assms(1) by (simp add: ledger_ok_def)
qed

lemma ledger_ok_insert:
  "ledger_ok (db_leave_policies db) \<Longrightarrow> 0 \<le> days \<Longrightarrow> ledger_ok (db_leave_policies (insert_policy eid kind days s e db))"
  using fresh_id_notin [of "map lp_id (db_leave_policies db)"] by (auto simp: ledger_ok_def insert_policy_def)

lemma insert_policy_frame [simp]:
  "db_leaves (insert_policy eid kind days s e db) = db_leaves db"
  "db_employees (insert_policy eid kind days s e db) = db_employees db"
  "db_periods (insert_policy eid kind days s e db) = db_periods db"
  by (simp_all add: insert_policy_def)

lemma pending_days_nonneg:
  assumes "leaves_ok emps (db_leaves db)"
  shows "0 \<le> pending_days eid kind ex db"
  using assms unfolding pending_days_def leaves_ok_def by (intro sum_list_nonneg) auto

lemma default_days: "map_of DEFAULT_LEAVE_ALLOCATIONS kind = Some days \<Longrightarrow> 0 \<le> days"
  by (auto simp: DEFAULT_LEAVE_ALLOCATIONS_def split: if_splits)

lemma policy_for_leave_keeps:
  assumes "policy_for_leave eid kind s db = Inr (p, db1)" "ledger_ok (db_leave_policies db)"
  shows "ledger_ok (db_leave_policies db1)" "db_leaves db1 = db_leaves db" "db_employees db1 = db_employees db"
  using assms default_days
  by (auto simp: policy_for_leave_def ensure_employee_leave_policy_def Let_def ledger_ok_insert split: option.splits)

section \<open>Every operation keeps the office sound\<close>

lemma overlapping_sym: "overlapping q r = overlapping r q"
  by (auto simp: overlapping_def)

lemma checked_leave_days: "checked_leave kind s e reason r today = Inr (k, days, text) \<Longrightarrow> 0 \<le> days"
  by (auto simp: checked_leave_def Let_def split: if_splits)

lemma leaves_ok_add:
  assumes "leaves_ok (db_employees db) (db_leaves db)" "\<not> check_leave_overlap eid s e db" "0 \<le> days"
  shows "leaves_ok (db_employees db) (db_leaves db @ [new_leave (fresh_id (map lq_id (db_leaves db))) eid kind s e days text])"
proof -
  let ?q = "new_leave (fresh_id (map lq_id (db_leaves db))) eid kind s e days text"
  have no: "\<not> overlapping ?q r" if "r \<in> set (db_leaves db)" for r
    using assms(2) that by (auto simp: check_leave_overlap_def overlapping_def new_leave_def)
  have "\<not> self_approved (db_employees db) ?q" "lq_id ?q \<notin> set (map lq_id (db_leaves db))" "0 \<le> lq_total_days ?q"
    using fresh_id_notin [of "map lq_id (db_leaves db)"] assms(3) by (auto simp: self_approved_def new_leave_def)
  then show ?thesis using assms(1) no no [unfolded overlapping_sym [of ?q]] by (auto simp: leaves_ok_def)
qed

lemma apply_leave_ok:
  assumes "leave_office_ok db"
  shows "leave_office_ok (snd (apply_leave eid kind s e reason r today now db))"
proof (cases "\<exists>q. fst (apply_leave eid kind s e reason r today now db) = Inr q")
  case True
  then obtain k days rsn p db1 where
    c: "checked_leave kind s e reason r today = Inr (k, days, rsn)"
    and o: "\<not> check_leave_overlap eid s e db" and p: "policy_for_leave eid k s db = Inr (Some p, db1)"
    and d: "snd (apply_leave eid kind s e reason r today now db) =
      db1\<lparr> db_leaves := db_leaves db1 @ [new_leave (fresh_id (map lq_id (db_leaves db1))) eid k s e days rsn] \<rparr>"
    by (auto simp: apply_leave_def Let_def split: sum.splits option.splits if_splits prod.splits)
  note k = policy_for_leave_keeps [OF p]
  show ?thesis unfolding d
    using assms k leaves_ok_add [OF _ o checked_leave_days [OF c]] by (simp add: leave_office_ok_def)
next
  case False
  then have "snd (apply_leave eid kind s e reason r today now db) = db"
    by (auto simp: apply_leave_def Let_def split: sum.splits option.splits if_splits prod.splits)
  then show ?thesis using assms by simp
qed

lemma leaves_ok_put:
  assumes "leaves_ok emps qs" "q \<in> set qs" "lq_id q' = lq_id q" "lq_employee_id q' = lq_employee_id q"
    "lq_start_date q' = lq_start_date q" "lq_end_date q' = lq_end_date q" "lq_total_days q' = lq_total_days q"
    "active_leave q' \<Longrightarrow> active_leave q" "\<not> self_approved emps q'"
  shows "leaves_ok emps (update_where (\<lambda>x. lq_id x = lq_id q') (\<lambda>_. q') qs)"
proof -
  have only: "x = q" if "x \<in> set qs" "lq_id x = lq_id q" for x
    using that assms(1,2) by (auto simp: leaves_ok_def distinct_map inj_on_def)
  have ov: "overlapping q' r \<Longrightarrow> overlapping q r" for r using assms(4-6,8) by (auto simp: overlapping_def)
  have ids: "map lq_id (update_where (\<lambda>x. lq_id x = lq_id q') (\<lambda>_. q') qs) = map lq_id qs"
    by (auto simp: update_where_def)
  have new: "y = q' \<or> y \<in> set qs \<and> lq_id y \<noteq> lq_id q" if "y \<in> set (update_where (\<lambda>x. lq_id x = lq_id q') (\<lambda>_. q') qs)" for y
    using that assms(3) by (auto simp: in_set_update_where split: if_splits)
  have apart: "\<not> overlapping q' r" "\<not> overlapping r q'" if "r \<in> set qs" "lq_id r \<noteq> lq_id q" for r
    using that assms(1,2) ov overlapping_sym [of r] unfolding leaves_ok_def by metis+
  show ?thesis unfolding leaves_ok_def ids
  proof (intro conjI ballI impI)
    show "distinct (map lq_id qs)" using assms(1) by (simp add: leaves_ok_def)
    fix y assume y: "y \<in> set (update_where (\<lambda>x. lq_id x = lq_id q') (\<lambda>_. q') qs)"
    show "0 \<le> lq_total_days y" "\<not> self_approved emps y"
      using new [OF y] assms(1,2,7,9) by (auto simp: leaves_ok_def)
    fix z assume z: "z \<in> set (update_where (\<lambda>x. lq_id x = lq_id q') (\<lambda>_. q') qs)" "lq_id y \<noteq> lq_id z"
    show "\<not> overlapping y z"
      using new [OF y] new [OF z(1)] z(2) apart assms(1) unfolding leaves_ok_def by metis
  qed
qed

lemma leave_in_tenant_in:
  assumes "leave_in_tenant lid c db = Inr (q, emp)"
  shows "q \<in> set (db_leaves db)" "emp \<in> set (db_employees db)" "em_id emp = lq_employee_id q"
proof -
  obtain found where f: "scalar_one_or_none (filter (\<lambda>q. lq_id q = lid) (db_leaves db)) = Inr found"
    and c: "(case found of
         None \<Rightarrow> Inl (HTTPException 404 ''Leave request not found.'')
       | Some q \<Rightarrow>
           (case employee_at (lq_employee_id q) db of
              None \<Rightarrow> Inl (HTTPException 404 ''Leave request not found.'')
            | Some emp \<Rightarrow>
                if em_company_id emp \<noteq> Some c then Inl (HTTPException 404 ''Leave request not found.'')
                else Inr (q, emp))) = Inr (q, emp)"
    using assms unfolding leave_in_tenant_def bind_res_Inr_iff by blast
  obtain q0 where q0: "found = Some q0" using c by (cases found) auto
  obtain e where e: "employee_at (lq_employee_id q0) db = Some e"
    using c q0 by (cases "employee_at (lq_employee_id q0) db") auto
  have eq: "q0 = q" "e = emp" using c q0 e by (auto split: if_splits)
  show "q \<in> set (db_leaves db)" using f q0 eq by (auto simp: scalar_one_or_none_Inr_Some dest!: filter_single)
  show "emp \<in> set (db_employees db)" "em_id emp = lq_employee_id q" using employee_at_in [OF e] eq by auto
qed

lemma not_self_approved:
  assumes "distinct (map em_id emps)" "emp \<in> set emps" "em_id emp = lq_employee_id q" "em_user_id emp \<noteq> Some u"
    "lq_approved_by_id q = Some u"
  shows "\<not> self_approved emps q"
proof -
  have "e = emp" if "e \<in> set emps" "em_id e = lq_employee_id q" for e
    using that assms(1-3) by (auto simp: distinct_map inj_on_def)
  then show ?thesis using assms(4,5) by (auto simp: self_approved_def)
qed

lemma put_use_frame [simp]:
  "db_leaves (put_leave q db) = update_where (\<lambda>x. lq_id x = lq_id q) (\<lambda>_. q) (db_leaves db)"
  "db_leave_policies (put_leave q db) = db_leave_policies db"
  "db_employees (put_leave q db) = db_employees db"
  "db_leaves (use_days p u db) = db_leaves db"
  "db_leave_policies (use_days p u db) =
     update_where (\<lambda>x. lp_id x = lp_id p) (\<lambda>x. x\<lparr> lp_used_days := u \<rparr>) (db_leave_policies db)"
  "db_employees (use_days p u db) = db_employees db"
  by (simp_all add: put_leave_def use_days_def)

lemma create_arrear_frame:
  assumes "create_arrear a db = (res, db')"
  shows "db_leaves db' = db_leaves db" "db_leave_policies db' = db_leave_policies db" "db_employees db' = db_employees db"
  using assms by (auto simp: create_arrear_def Let_def split: if_splits)

lemma approve_leave_ok:
  assumes ok: "leave_office_ok db" and q: "q \<in> set (db_leaves db)" and pend: "lq_status q = ''PENDING''"
    and emp: "emp \<in> set (db_employees db)" "em_id emp = lq_employee_id q" "em_user_id emp \<noteq> Some u"
  shows "leave_office_ok (snd (approve_leave q u c period now db))"
proof (cases "\<exists>r. fst (approve_leave q u c period now db) = Inr r")
  case True
  let ?q = "q\<lparr> lq_approved_by_id := Some u, lq_rejection_reason := None, lq_reviewed_by_id := Some u,
    lq_reviewed_at := Some now, lq_status := ''APPROVED'' \<rparr>"
  obtain p where p: "policy_on (lq_employee_id q) (lq_leave_type q) (lq_start_date q) db = Some p"
    and bal: "lq_total_days q \<le> lp_total_days p - lp_used_days p -
      pending_days (lq_employee_id q) (lq_leave_type q) (Some (lq_id q)) db"
    using True by (auto simp: approve_leave_def Let_def split: option.splits if_splits)
  let ?db1 = "put_leave ?q (use_days p (lp_used_days p + lq_total_days q) db)"
  have parts: "distinct (map em_id (db_employees db))" "ledger_ok (db_leave_policies db)"
      "leaves_ok (db_employees db) (db_leaves db)"
    using ok by (simp_all add: leave_office_ok_def)
  have pos: "0 \<le> lp_used_days p" "0 \<le> lq_total_days q"
    using parts(2,3) policy_on_in [OF p] q by (auto simp: ledger_ok_def leaves_ok_def)
  have led: "ledger_ok (db_leave_policies ?db1)"
    using pos bal pending_days_nonneg [OF parts(3), of "lq_employee_id q" "lq_leave_type q" "Some (lq_id q)"]
    by (auto intro!: ledger_ok_use [OF parts(2) policy_on_in [OF p]])
  have self: "\<not> self_approved (db_employees db) ?q"
    using not_self_approved [OF parts(1) emp(1), of ?q u] emp by simp
  have "leaves_ok (db_employees db) (update_where (\<lambda>x. lq_id x = lq_id ?q) (\<lambda>_. ?q) (db_leaves db))"
    by (rule leaves_ok_put [OF parts(3) q]) (use self pend in \<open>simp_all add: active_leave_def\<close>)
  then have ok1: "leave_office_ok ?db1" using parts(1) led by (simp add: leave_office_ok_def)
  show ?thesis
  proof (cases "attendance_period_block_reason period now")
    case None
    then show ?thesis using True p ok1 by (auto simp: approve_leave_def Let_def split: if_splits)
  next
    case (Some reason)
    obtain res db2 where a: "create_arrear (leave_arrear q c u period) ?db1 = (res, db2)" by fastforce
    have "snd (approve_leave q u c period now db) = db2"
      using True p Some a by (auto simp: approve_leave_def Let_def split: if_splits sum.splits)
    moreover have "leave_office_ok db2"
      using ok1 unfolding leave_office_ok_def create_arrear_frame [OF a] .
    ultimately show ?thesis by simp
  qed
next
  case False
  then have "snd (approve_leave q u c period now db) = db"
    by (auto simp: approve_leave_def Let_def split: option.splits if_splits prod.splits sum.splits)
  then show ?thesis using ok by simp
qed

lemma reject_leave_ok:
  assumes ok: "leave_office_ok db" and q: "q \<in> set (db_leaves db)"
  shows "leave_office_ok (snd (reject_leave q u reason now db))"
proof -
  let ?text = "py_strip (or_str reason [])"
  let ?q = "q\<lparr> lq_rejection_reason := Some ?text, lq_approved_by_id := None, lq_reviewed_by_id := Some u,
    lq_reviewed_at := Some now, lq_status := ''REJECTED'' \<rparr>"
  have "leaves_ok (db_employees db) (update_where (\<lambda>x. lq_id x = lq_id ?q) (\<lambda>_. ?q) (db_leaves db))"
    using ok by (intro leaves_ok_put [OF _ q]) (simp_all add: leave_office_ok_def self_approved_def active_leave_def)
  then have "leave_office_ok (put_leave ?q db)" using ok by (simp add: leave_office_ok_def)
  then show ?thesis using ok by (simp add: reject_leave_def Let_def)
qed

lemma review_leave_ok:
  assumes "leave_office_ok db"
  shows "leave_office_ok (snd (review_leave lid status u r c reason now db))"
proof (cases "leave_in_tenant lid c db")
  case (Inr qe)
  obtain q emp where qe: "qe = (q, emp)" by (cases qe)
  note i = leave_in_tenant_in [OF Inr [unfolded qe]]
  show ?thesis
  proof (cases "em_user_id emp = Some u \<or> lq_status q \<noteq> ''PENDING''")
    case True
    then have "snd (review_leave lid status u r c reason now db) = db"
      unfolding review_leave_def Inr qe by (auto split: sum.split bool.split)
    then show ?thesis using assms by simp
  next
    case False
    then show ?thesis
      unfolding review_leave_def Inr qe
      using assms reject_leave_ok [OF assms i(1)] approve_leave_ok [OF assms i(1) _ i(2,3)]
      by (auto split: sum.split bool.split)
  qed
qed (simp add: review_leave_def assms)

lemma cancelled_ok:
  assumes "leave_office_ok db" "q \<in> set (db_leaves db)"
  shows "leave_office_ok (put_leave (q\<lparr> lq_status := ''CANCELLED'' \<rparr>) db)"
proof -
  have "\<not> self_approved (db_employees db) q" using assms by (simp add: leave_office_ok_def leaves_ok_def)
  then have "\<not> self_approved (db_employees db) (q\<lparr> lq_status := ''CANCELLED'' \<rparr>)" by (simp add: self_approved_def)
  then have "leaves_ok (db_employees db) (update_where (\<lambda>x. lq_id x = lq_id (q\<lparr> lq_status := ''CANCELLED'' \<rparr>))
      (\<lambda>_. q\<lparr> lq_status := ''CANCELLED'' \<rparr>) (db_leaves db))"
    using assms by (intro leaves_ok_put [OF _ assms(2)]) (simp_all add: leave_office_ok_def active_leave_def)
  then show ?thesis using assms(1) by (simp add: leave_office_ok_def)
qed

lemma refund_ok:
  assumes "leave_office_ok db" "0 \<le> lq_total_days q"
  shows "leave_office_ok (refund q db)"
proof (cases "policy_on (lq_employee_id q) (lq_leave_type q) (lq_start_date q) db")
  case (Some p)
  have l: "ledger_ok (db_leave_policies db)" using assms(1) by (simp add: leave_office_ok_def)
  have "max 0 (lp_used_days p - lq_total_days q) \<le> lp_total_days p"
    using l policy_on_in [OF Some] assms(2) unfolding ledger_ok_def by force
  then show ?thesis using assms(1) ledger_ok_use [OF l policy_on_in [OF Some]]
    by (simp add: refund_def Some leave_office_ok_def)
qed (simp add: refund_def assms)

lemma cancel_leave_ok:
  assumes "leave_office_ok db"
  shows "leave_office_ok (snd (cancel_leave lid u r c today now db))"
proof (cases "leave_in_tenant lid c db")
  case (Inr qe)
  obtain q emp where qe: "qe = (q, emp)" by (cases qe)
  note i = leave_in_tenant_in [OF Inr [unfolded qe]]
  have "0 \<le> lq_total_days q" using assms i(1) by (simp add: leave_office_ok_def leaves_ok_def)
  then have "leave_office_ok (refund q (put_leave (q\<lparr> lq_status := ''CANCELLED'' \<rparr>) db))"
    by (rule refund_ok [OF cancelled_ok [OF assms i(1)]])
  then show ?thesis unfolding cancel_leave_def Inr qe
    using assms cancelled_ok [OF assms i(1)] by (auto simp: Let_def split: sum.split)
qed (simp add: cancel_leave_def assms)

lemma ensure_allocation_ok:
  "leave_office_ok db \<Longrightarrow> 0 \<le> snd a \<Longrightarrow> leave_office_ok (ensure_allocation eid today a db)"
  by (cases a) (simp add: ensure_allocation_def ensure_employee_leave_policy_def Let_def leave_office_ok_def ledger_ok_insert)

lemma balances_ok:
  assumes "leave_office_ok db"
  shows "leave_office_ok (snd (get_leave_balances eid today db))"
proof -
  have "leave_office_ok (fold (ensure_allocation eid today) xs db)" if "\<forall>a \<in> set xs. 0 \<le> snd a" for xs
    using that assms by (induction xs arbitrary: db) (simp_all add: ensure_allocation_ok)
  moreover have "\<forall>a \<in> set DEFAULT_LEAVE_ALLOCATIONS. 0 \<le> snd a" by (simp add: DEFAULT_LEAVE_ALLOCATIONS_def)
  ultimately show ?thesis by (simp add: get_leave_balances_def Let_def)
qed

interpretation leaves: transition_system perform_leave "\<lambda>db :: payroll_db. leave_office_ok db"
proof
  fix db a
  assume "leave_office_ok db"
  then show "leave_office_ok (perform_leave a db)"
    by (cases a) (simp_all only: perform_leave.simps apply_leave_ok review_leave_ok cancel_leave_ok balances_ok)
qed

text \<open>
  C23: leave is never overdrawn. Whatever requests are made, approved, rejected and cancelled and
  whatever balances are read in whatever order, the days used of every policy stay between zero and
  its total.
\<close>

theorem leave_never_overdrawn:
  assumes "leave_office_ok db" "p \<in> set (db_leave_policies (foldl (\<lambda>d a. perform_leave a d) db ops))"
  shows "0 \<le> lp_used_days p \<and> lp_used_days p \<le> lp_total_days p"
  using leaves.trace_keeps [OF assms(1), of ops] assms(2) by (simp add: leave_office_ok_def ledger_ok_def)

text \<open>
  C24: an employee is never on leave twice and never approves the own leave. Along every trace no two
  pending or approved requests of one employee share a day, and no request is approved by the user
  account of its employee.
\<close>

theorem leave_booked_once:
  assumes "leave_office_ok db" "q \<in> set (db_leaves (foldl (\<lambda>d a. perform_leave a d) db ops))"
    "r \<in> set (db_leaves (foldl (\<lambda>d a. perform_leave a d) db ops))"
  shows "\<not> self_approved (db_employees (foldl (\<lambda>d a. perform_leave a d) db ops)) q \<and>
    (lq_id q = lq_id r \<or> \<not> overlapping q r)"
  using leaves.trace_keeps [OF assms(1), of ops] assms(2,3) by (auto simp: leave_office_ok_def leaves_ok_def)

section \<open>Leave of a closed period\<close>

lemma daily_rate_frame:
  assumes "db_compensations db' = db_compensations db" "db_salaries db' = db_salaries db"
  shows "daily_rate_paise eid db' = daily_rate_paise eid db"
  unfolding daily_rate_paise_def assms by (rule refl)

lemma review_approves:
  assumes "leave_in_tenant lid c db = Inr (q, emp)"
    "review_leave lid ''APPROVED'' u role_name c reason now db = (Inr q', db')"
  shows "\<exists>period. assert_attendance_period_editable (Some c) (lq_start_date q) True role_name now db = Inr period \<and>
    approve_leave q u c period now db = (Inr q', db')"
proof -
  note body = assms(2) [unfolded review_leave_def assms(1) sum.case prod.case]
  have own: "em_user_id emp \<noteq> Some u" using body by (cases "em_user_id emp = Some u") simp_all
  obtain b where b: "manager_may_review u role_name emp db = Inr b"
    using body own by (cases "manager_may_review u role_name emp db") simp_all
  have b': b using body own b by (cases b) simp_all
  have pend: "lq_status q = ''PENDING''"
    using body own b b' by (cases "lq_status q = ''PENDING''") simp_all
  obtain period where "assert_attendance_period_editable (Some c) (lq_start_date q) True role_name now db = Inr period"
    using body own b b' pend
    by (cases "assert_attendance_period_editable (Some c) (lq_start_date q) True role_name now db") simp_all
  then show ?thesis using body own b b' pend by simp
qed

lemma editable_period:
  assumes "assert_attendance_period_editable c d retro role_name now db = Inr period"
  shows "period = get_payroll_period_for_attendance_date c d db"
    and "attendance_period_block_reason period now \<noteq> None \<Longrightarrow> py_lower role_name \<in> set RETROACTIVE_ATTENDANCE_ROLES"
  using assms unfolding assert_attendance_period_editable_def Let_def by (auto split: option.splits if_splits)

lemma leave_arrear_created:
  assumes "create_arrear (leave_arrear q c u period) db = (res, db')"
  shows "\<exists>a. res = Inr a \<and> db_arrears db' = db_arrears db @ [a] \<and> ar_employee_id a = lq_employee_id q \<and>
    ar_type a = ''LEAVE_REVERSAL'' \<and> ar_status a = ''PENDING'' \<and> ar_delta_days a = - lq_total_days q \<and>
    ar_amount_paise a = round_paise (dmul (of_int (daily_rate_paise (lq_employee_id q) db)) (- lq_total_days q))"
proof -
  have "py_upper ''LEAVE_REVERSAL'' = ''LEAVE_REVERSAL''" by code_simp
  then show ?thesis using assms by (auto simp: create_arrear_def leave_arrear_def Let_def ARREAR_TYPES_def)
qed

lemma approval:
  assumes "approve_leave q u c period now db = (Inr q', db')"
  shows "\<exists>p. let db1 = put_leave q' (use_days p (lp_used_days p + lq_total_days q) db)
    in if attendance_period_block_reason period now = None then db' = db1
       else \<exists>a. create_arrear (leave_arrear q c u period) db1 = (Inr a, db')"
proof -
  obtain p where p: "policy_on (lq_employee_id q) (lq_leave_type q) (lq_start_date q) db = Some p"
    using assms unfolding approve_leave_def by (cases "policy_on (lq_employee_id q) (lq_leave_type q) (lq_start_date q) db") simp_all
  note body = assms [unfolded approve_leave_def p option.case]
  have bal: "\<not> lp_total_days p - lp_used_days p - pending_days (lq_employee_id q) (lq_leave_type q) (Some (lq_id q)) db
      < lq_total_days q"
    using body by (rule contrapos_pn) simp
  note body = body [unfolded if_not_P [OF bal] Let_def]
  show ?thesis
  proof (cases "attendance_period_block_reason period now")
    case None
    then show ?thesis using body by (intro exI [of _ p]) auto
  next
    case (Some why)
    define q1 where "q1 = q\<lparr> lq_approved_by_id := Some u, lq_rejection_reason := None, lq_reviewed_by_id := Some u,
      lq_reviewed_at := Some now, lq_status := ''APPROVED'' \<rparr>"
    define db1 where "db1 = put_leave q1 (use_days p (lp_used_days p + lq_total_days q) db)"
    have body: "(case create_arrear (leave_arrear q c u period) db1 of
        (Inl e, _) \<Rightarrow> (Inl e, db) | (Inr _, db2) \<Rightarrow> (Inr q1, db2)) = (Inr q', db')"
      unfolding q1_def db1_def using body Some by simp
    obtain res db2 where c2: "create_arrear (leave_arrear q c u period) db1 = (res, db2)" by fastforce
    have "\<exists>a. res = Inr a \<and> q1 = q' \<and> db2 = db'" using body unfolding c2 by (cases res) simp_all
    then show ?thesis using c2 Some by (intro exI [of _ p]) (auto simp: db1_def)
  qed
qed

lemma review_frame:
  "db_arrears (put_leave q (use_days p d db)) = db_arrears db"
  "daily_rate_paise eid (put_leave q (use_days p d db)) = daily_rate_paise eid db"
proof -
  have "db_compensations (put_leave q (use_days p d db)) = db_compensations db"
    "db_salaries (put_leave q (use_days p d db)) = db_salaries db"
    by (simp_all add: put_leave_def use_days_def)
  then show "daily_rate_paise eid (put_leave q (use_days p d db)) = daily_rate_paise eid db"
    by (rule daily_rate_frame)
qed (simp add: put_leave_def use_days_def)

lemma approved_in_open_period:
  assumes "approve_leave q u c period now db = (Inr q', db')" "attendance_period_block_reason period now = None"
  shows "db_arrears db' = db_arrears db"
  using approval [OF assms(1)] assms(2) by (auto simp: Let_def review_frame)

lemma approved_in_closed_period:
  assumes "approve_leave q u c period now db = (Inr q', db')" "attendance_period_block_reason period now \<noteq> None"
  shows "\<exists>a. db_arrears db' = db_arrears db @ [a] \<and> ar_employee_id a = lq_employee_id q \<and>
    ar_type a = ''LEAVE_REVERSAL'' \<and> ar_status a = ''PENDING'' \<and> ar_delta_days a = - lq_total_days q \<and>
    ar_amount_paise a = round_paise (dmul (of_int (daily_rate_paise (lq_employee_id q) db)) (- lq_total_days q))"
proof -
  obtain p a where "create_arrear (leave_arrear q c u period)
      (put_leave q' (use_days p (lp_used_days p + lq_total_days q) db)) = (Inr a, db')"
    using approval [OF assms(1)] assms(2) by (auto simp: Let_def)
  from leave_arrear_created [OF this] show ?thesis by (auto simp: review_frame)
qed

text \<open>
  C25: leave that is approved after the cut-off is recovered exactly once. When the period of the
  leave is still open, approving it creates no arrear. When it is closed, only the retroactive roles
  may approve, and exactly one pending arrear takes the days of the leave back at the employee's daily
  rate.
\<close>

theorem late_leave_recovered:
  assumes "leave_in_tenant lid c db = Inr (q, emp)"
    "review_leave lid ''APPROVED'' u role_name c reason now db = (Inr q', db')"
  defines "period \<equiv> get_payroll_period_for_attendance_date (Some c) (lq_start_date q) db"
  shows "if attendance_period_block_reason period now = None then db_arrears db' = db_arrears db
    else py_lower role_name \<in> set RETROACTIVE_ATTENDANCE_ROLES \<and>
      (\<exists>a. db_arrears db' = db_arrears db @ [a] \<and> ar_employee_id a = lq_employee_id q \<and>
         ar_type a = ''LEAVE_REVERSAL'' \<and> ar_status a = ''PENDING'' \<and> ar_delta_days a = - lq_total_days q \<and>
         ar_amount_paise a = round_paise (dmul (of_int (daily_rate_paise (lq_employee_id q) db)) (- lq_total_days q)))"
proof -
  obtain period' where e': "assert_attendance_period_editable (Some c) (lq_start_date q) True role_name now db = Inr period'"
    and a': "approve_leave q u c period' now db = (Inr q', db')"
    using review_approves [OF assms(1,2)] by (elim exE conjE)
  have eq: "period' = period" using editable_period(1) [OF e'] by (simp only: period_def)
  note e = e' [unfolded eq] and a = a' [unfolded eq]
  show ?thesis
  proof (cases "attendance_period_block_reason period now")
    case None
    show ?thesis using approved_in_open_period [OF a None] None by simp
  next
    case (Some why)
    then have "attendance_period_block_reason period now \<noteq> None" by simp
    from editable_period(2) [OF e this] approved_in_closed_period [OF a this] this show ?thesis by (simp only: if_False simp_thms)
  qed
qed

section \<open>Concrete requests\<close>

text \<open>Two weeks of privilege leave in a locked period: applied for while it was open, approved later.\<close>

definition sample_leave_db :: payroll_db where
  "sample_leave_db = sample_hire\<lparr> db_periods := [sample_period\<lparr> pp_is_locked := False, pp_attendance_locked_at := None,
     pp_regularisation_deadline := Some 100 \<rparr>] \<rparr>"

definition sample_leave_start :: date where "sample_leave_start = pp_start_date sample_period"

definition sample_leave_ops :: "leave_op list" where
  "sample_leave_ops =
     [LeaveApply 6 ''pl'' sample_leave_start sample_leave_start ''travel'' ''employee'' sample_leave_start 50,
      LeaveApply 6 ''sick'' sample_leave_start sample_leave_start ''travel'' ''employee'' sample_leave_start 60]"

definition sample_pending_db :: payroll_db where
  "sample_pending_db = foldl (\<lambda>d a. perform_leave a d) sample_leave_db sample_leave_ops"


definition sample_reviews :: "leave_op list" where
  "sample_reviews = sample_leave_ops @
     [LeaveReview 1 ''APPROVED'' 106 ''hr_admin'' 1 None 70, LeaveReview 1 ''APPROVED'' 9 ''hr_admin'' 1 None 200]"

lemma sample_leave_db_ok: "leave_office_ok sample_leave_db"
  by (simp add: leave_office_ok_def ledger_ok_def leaves_ok_def sample_leave_db_def sample_hire_def empty_db_def)

lemma sample_reviews_used:
  "map (\<lambda>p. (lp_used_days p, lp_total_days p)) (db_leave_policies (foldl (\<lambda>d a. perform_leave a d) sample_leave_db sample_reviews)) = [(1, 15)]"
  "map lq_approved_by_id (db_leaves (foldl (\<lambda>d a. perform_leave a d) sample_leave_db sample_reviews)) = [Some 9]"
  by code_simp+

theorem leave_never_overdrawn_witness:
  "\<exists>p \<in> set (db_leave_policies (foldl (\<lambda>d a. perform_leave a d) sample_leave_db sample_reviews)).
    lp_used_days p = 1 \<and> 0 \<le> lp_used_days p \<and> lp_used_days p \<le> lp_total_days p"
proof -
  obtain p where p: "p \<in> set (db_leave_policies (foldl (\<lambda>d a. perform_leave a d) sample_leave_db sample_reviews))"
    "lp_used_days p = 1"
    using sample_reviews_used(1) by (auto simp: map_eq_Cons_conv)
  then show ?thesis using leave_never_overdrawn [OF sample_leave_db_ok p(1)] by blast
qed

theorem leave_booked_once_witness:
  "\<exists>q \<in> set (db_leaves (foldl (\<lambda>d a. perform_leave a d) sample_leave_db sample_reviews)).
    lq_approved_by_id q = Some 9 \<and>
    \<not> self_approved (db_employees (foldl (\<lambda>d a. perform_leave a d) sample_leave_db sample_reviews)) q"
proof -
  obtain q where q: "q \<in> set (db_leaves (foldl (\<lambda>d a. perform_leave a d) sample_leave_db sample_reviews))"
    "lq_approved_by_id q = Some 9"
    using sample_reviews_used(2) by (auto simp: map_eq_Cons_conv)
  then show ?thesis using leave_booked_once [OF sample_leave_db_ok q(1) q(1)] by blast
qed

lemma sample_late_review:
  "case leave_in_tenant 1 1 sample_pending_db of Inl _ \<Rightarrow> False | Inr (q, emp) \<Rightarrow> lq_employee_id q = 6"
  "case review_leave 1 ''APPROVED'' 9 ''hr_admin'' 1 None 200 sample_pending_db of
     (Inl _, _) \<Rightarrow> False | (Inr _, db') \<Rightarrow> length (db_arrears db') = 1"
  "case leave_in_tenant 1 1 sample_pending_db of Inl _ \<Rightarrow> False
   | Inr (q, _) \<Rightarrow> attendance_period_block_reason
       (get_payroll_period_for_attendance_date (Some 1) (lq_start_date q) sample_pending_db) 200 \<noteq> None"
  by code_simp+

theorem late_leave_recovered_witness:
  "\<exists>q' db' a. review_leave 1 ''APPROVED'' 9 ''hr_admin'' 1 None 200 sample_pending_db = (Inr q', db') \<and>
    db_arrears db' = db_arrears sample_pending_db @ [a] \<and> ar_type a = ''LEAVE_REVERSAL'' \<and> ar_employee_id a = 6"
proof -
  obtain q emp where l: "leave_in_tenant 1 1 sample_pending_db = Inr (q, emp)" "lq_employee_id q = 6"
    using sample_late_review(1) by (auto split: sum.splits)
  obtain q' db' where r: "review_leave 1 ''APPROVED'' 9 ''hr_admin'' 1 None 200 sample_pending_db = (Inr q', db')"
    using sample_late_review(2)
    by (cases "review_leave 1 ''APPROVED'' 9 ''hr_admin'' 1 None 200 sample_pending_db"; cases "fst
        (review_leave 1 ''APPROVED'' 9 ''hr_admin'' 1 None 200 sample_pending_db)") auto
  have "attendance_period_block_reason
      (get_payroll_period_for_attendance_date (Some 1) (lq_start_date q) sample_pending_db) 200 \<noteq> None"
    using sample_late_review(3) unfolding l by simp
  with late_leave_recovered [OF l(1) r] l(2) r show ?thesis by auto
qed

end
