(* ===== verification/Run_Liveness.thy ===== *)
theory Run_Liveness
  imports Run_Machine
begin

text \<open>
  The way of a run to its payment. The invariants of \<open>Run_Machine\<close> say what a run never does;
  here is what it can still do: from every status between a successful calculation and the
  payment, requests that the service accepts lead to PAID, provided a second person takes part on a
  tenant that enforces dual control.
\<close>

text \<open>The requests still missing: an officer submits and pays, a checker approves and locks.\<close>

function (sequential) way_to_payment :: "uuid \<Rightarrow> uuid \<Rightarrow> uuid \<Rightarrow> timestamp \<Rightarrow> run_status \<Rightarrow> run_request list" where
  "way_to_payment k officer checker now PROCESSED =
     OpSubmit k (Some officer) None None # way_to_payment k officer checker now PENDING_APPROVAL"
| "way_to_payment k officer checker now PENDING_APPROVAL =
     OpApprove k None (Some checker) None False None now # way_to_payment k officer checker now APPROVED"
| "way_to_payment k officer checker now APPROVED =
     OpFinalize k None True (Some checker) None False None now # way_to_payment k officer checker now LOCKED"
| "way_to_payment k officer checker now LOCKED = [OpMarkPaid k (Some officer) None None now]"
| "way_to_payment k officer checker now s = []"
  by pat_completeness auto

termination
  by (relation "measure (\<lambda>(k, officer, checker, now, s).
        case s of PROCESSED \<Rightarrow> 3 | PENDING_APPROVAL \<Rightarrow> 2 | APPROVED \<Rightarrow> 1 | _ \<Rightarrow> 0)") auto

text \<open>A run that nobody but this list of makers made, in a status, under given configurations.\<close>

definition stands_at :: "uuid \<Rightarrow> run_status \<Rightarrow> uuid list \<Rightarrow> uuid option \<Rightarrow> compliance_config list \<Rightarrow> payroll_db \<Rightarrow> bool" where
  "stands_at k s makers company configs db \<longleftrightarrow>
     (\<exists>r. runs_at k db = [r] \<and> run_status r = s \<and> maker_ids_for_run r = makers \<and>
          run_company_id r = company) \<and> db_configs db = configs"

lemma stands_at_cases:
  assumes "stands_at k s makers company configs db"
  obtains r where "runs_at k db = [r]" "get_run k None db = Inr r" "run_id r = k" "run_status r = s"
    "maker_ids_for_run r = makers" "run_company_id r = company" "db_configs db = configs"
proof -
  obtain r where r: "runs_at k db = [r]" "run_status r = s" "maker_ids_for_run r = makers"
    "run_company_id r = company" "db_configs db = configs"
    using assms by (auto simp: stands_at_def)
  then have "r \<in> set (runs_at k db)" by simp
  then have "run_id r = k" by (simp add: runs_at_def)
  moreover have "get_run k None db = Inr r" using r(1) by (simp add: get_run_def runs_at_def)
  ultimately show ?thesis using that r by blast
qed

lemma stands_atI:
  assumes "runs_at k db = [r]" "run_id r' = k" "run_status r' = s" "maker_ids_for_run r' = makers"
    "run_company_id r' = company" "db_configs db' = db_configs db" "db_configs db = configs"
    "db_runs db' = db_runs (update_run k (\<lambda>_. r') db)"
  shows "stands_at k s makers company configs db'"
proof -
  have "runs_at k db' = [r']"
    using assms(1,2,8) runs_at_update_run [of r' k k db] by (simp add: runs_at_def)
  then show ?thesis using assms by (simp add: stands_at_def)
qed

lemma second_person_passes:
  assumes "is_maker_checker_enforced (run_company_id r) db = Inr b" "u \<notin> set (maker_ids_for_run r)"
  obtains v es where "check_maker_checker r (Some u) role action db = (Inr v, db\<lparr> db_audit := db_audit db @ es \<rparr>)"
proof (cases b)
  case True
  then show ?thesis using assms that
    by (auto simp: check_maker_checker_def enforce_maker_checker_def log_event_def)
next
  case False
  then show ?thesis using assms that [of False "[]"]
    by (auto simp: check_maker_checker_def enforce_maker_checker_def)
qed

lemma enforcement_reads_configs:
  "db_configs db' = db_configs db \<Longrightarrow> is_maker_checker_enforced c db' = is_maker_checker_enforced c db"
  by (cases c) (simp_all add: is_maker_checker_enforced_def)

lemma audit_frame [simp]:
  "db_runs (db\<lparr> db_audit := es \<rparr>) = db_runs db" "db_configs (db\<lparr> db_audit := es \<rparr>) = db_configs db"
  "db_runs (update_run k f (db\<lparr> db_audit := es \<rparr>)) = db_runs (update_run k f db)"
  by (simp_all add: update_run_def)

text \<open>One step of the way.\<close>

lemma way_step:
  assumes "stands_at k s makers company configs db" "s \<in> {PROCESSED, PENDING_APPROVAL, APPROVED, LOCKED}"
    and "\<And>d. db_configs d = configs \<Longrightarrow> \<exists>b. is_maker_checker_enforced company d = Inr b"
    and "checker \<notin> set makers"
  obtains a rest s' where "way_to_payment k officer checker now s = a # rest" "op_run a = Some k"
    "stands_at k s' makers company configs (perform fe a db)"
    "s' = PAID \<and> rest = [] \<or> s' \<in> {PENDING_APPROVAL, APPROVED, LOCKED} \<and> rest = way_to_payment k officer checker now s'"
proof -
  obtain r where r: "runs_at k db = [r]" "get_run k None db = Inr r" "run_id r = k" "run_status r = s"
    "maker_ids_for_run r = makers" "run_company_id r = company" "db_configs db = configs"
    using assms(1) by (rule stands_at_cases)
  obtain b where b: "is_maker_checker_enforced (run_company_id r) db = Inr b" using assms(3) r by blast
  have u: "checker \<notin> set (maker_ids_for_run r)" using assms(4) r by simp
  have makers: "maker_ids_for_run r' = makers"
    if "run_created_by r' = run_created_by r" "run_processed_by r' = run_processed_by r" "run_by r' = run_by r" for r'
    using that r(5) by (simp add: maker_ids_for_run_def)
  consider "s = PROCESSED" | "s = PENDING_APPROVAL" | "s = APPROVED" | "s = LOCKED" using assms(2) by blast
  then show ?thesis
  proof cases
    case 1
    have "stands_at k PENDING_APPROVAL makers company configs (perform fe (OpSubmit k (Some officer) None None) db)"
      by (rule stands_atI [OF r(1), of "r\<lparr> run_status := PENDING_APPROVAL \<rparr>"])
        (use r 1 makers in \<open>simp_all add: submit_for_approval_def Let_def log_run_def log_event_def update_run_def\<close>)
    with that 1 show ?thesis by simp
  next
    case 2
    obtain v es where c: "check_maker_checker r (Some checker) None ''APPROVE'' db = (Inr v, db\<lparr> db_audit := db_audit db @ es \<rparr>)"
      using b u by (rule second_person_passes)
    have "stands_at k APPROVED makers company configs (perform fe (OpApprove k None (Some checker) None False None now) db)"
      by (rule stands_atI [OF r(1), of "r\<lparr> run_status := APPROVED, run_approved_by := Some checker,
              run_approved_at := Some now, run_comments := None \<rparr>"])
        (use r 2 makers c in \<open>simp_all add: approve_run_def Let_def log_run_def log_event_def update_run_def\<close>)
    with that 2 show ?thesis by simp
  next
    case 3
    obtain v es where c: "check_maker_checker r (Some checker) None ''LOCK'' db = (Inr v, db\<lparr> db_audit := db_audit db @ es \<rparr>)"
      using b u by (rule second_person_passes)
    have "stands_at k LOCKED makers company configs (perform fe (OpFinalize k None True (Some checker) None False None now) db)"
      by (rule stands_atI [OF r(1), of "r\<lparr> run_status := LOCKED, run_is_locked := True,
              run_finalized_by := Some checker, run_finalized_at := Some now, run_notes := None \<rparr>"])
        (use r 3 makers c in \<open>simp_all add: finalize_run_def Let_def log_run_def log_event_def update_run_def\<close>)
    with that 3 show ?thesis by simp
  next
    case 4
    have "stands_at k PAID makers company configs (perform fe (OpMarkPaid k (Some officer) None None now) db)"
      by (rule stands_atI [OF r(1), of "r\<lparr> run_status := PAID, run_paid_at := Some now \<rparr>"])
        (use r 4 makers in \<open>simp_all add: mark_paid_def Let_def log_run_def log_event_def update_run_def\<close>)
    with that 4 show ?thesis by simp
  qed
qed

lemma way_leads_to_payment:
  assumes "\<And>d. db_configs d = configs \<Longrightarrow> \<exists>b. is_maker_checker_enforced company d = Inr b"
    and "checker \<notin> set makers"
  shows "stands_at k s makers company configs db \<Longrightarrow> s \<in> {PROCESSED, PENDING_APPROVAL, APPROVED, LOCKED} \<Longrightarrow>
    rs = way_to_payment k officer checker now s \<Longrightarrow>
    stands_at k PAID makers company configs (run_trace fe rs db) \<and>
    (\<forall>j. j \<noteq> k \<longrightarrow> run_part j (run_trace fe rs db) = run_part j db)"
proof (induction rs arbitrary: s db)
  case Nil
  then show ?case by auto
next
  case (Cons a rs)
  obtain a' rest s' where step: "way_to_payment k officer checker now s = a' # rest" "op_run a' = Some k"
    "stands_at k s' makers company configs (perform fe a' db)"
    "s' = PAID \<and> rest = [] \<or> s' \<in> {PENDING_APPROVAL, APPROVED, LOCKED} \<and> rest = way_to_payment k officer checker now s'"
    by (rule way_step [OF Cons.prems(1,2) assms])
  then have here: "a' = a" "rest = rs" using Cons.prems(3) by simp_all
  have others: "run_part j (perform fe a db) = run_part j db" if "j \<noteq> k" for j
    using perform_isolated [OF _ that] step(2) here by simp
  from step(4) show ?case
  proof
    assume "s' = PAID \<and> rest = []"
    then show ?thesis using step(3) here others by simp
  next
    assume "s' \<in> {PENDING_APPROVAL, APPROVED, LOCKED} \<and> rest = way_to_payment k officer checker now s'"
    then show ?thesis using Cons.IH [OF step(3)] here others by auto
  qed
qed

text \<open>
  C8: liveness. A run that is processed, pending, approved or locked, in a table with unique keys
  and one configuration per tenant, is paid at the end of at most four requests in which a person
  who neither created nor processed it approves and locks it; no other run changes on the way.
\<close>

theorem run_can_be_paid:
  assumes "runs_wf db" "r \<in> set (db_runs db)" "run_status r \<in> {PROCESSED, PENDING_APPROVAL, APPROVED, LOCKED}"
    "is_maker_checker_enforced (run_company_id r) db = Inr b" "checker \<notin> set (maker_ids_for_run r)"
  shows "let way = way_to_payment (run_id r) officer checker now (run_status r)
    in length way \<le> 4 \<and> status_of (run_id r) (run_trace fe way db) = Some PAID \<and>
       (\<forall>j. j \<noteq> run_id r \<longrightarrow> run_part j (run_trace fe way db) = run_part j db)"
proof -
  have "r \<in> set (runs_at (run_id r) db)" using assms(2) by (simp add: runs_at_def)
  then have "runs_at (run_id r) db = [r]" using runs_at_cases [OF assms(1), of "run_id r"] by auto
  then have "stands_at (run_id r) (run_status r) (maker_ids_for_run r) (run_company_id r) (db_configs db) db"
    by (simp add: stands_at_def)
  from way_leads_to_payment [OF _ assms(5) this assms(3) refl, where officer = officer and now = now and fe = fe]
  have end_of_way: "stands_at (run_id r) PAID (maker_ids_for_run r) (run_company_id r) (db_configs db)
      (run_trace fe (way_to_payment (run_id r) officer checker now (run_status r)) db)"
    "\<forall>j. j \<noteq> run_id r \<longrightarrow> run_part j (run_trace fe (way_to_payment (run_id r) officer checker now (run_status r)) db) = run_part j db"
    using assms(4) enforcement_reads_configs by metis+
  have "length (way_to_payment (run_id r) officer checker now (run_status r)) \<le> 4" using assms(3) by auto
  then show ?thesis using end_of_way by (auto simp: Let_def stands_at_def status_of_def)
qed

theorem run_can_be_paid_witness:
  "status_of 1 (run_trace sample_env (way_to_payment 1 7 8 10 PROCESSED) sample_office) = Some PAID"
proof -
  have row: "sample_run_row 1 PROCESSED \<in> set (db_runs sample_office)" by (simp add: sample_office_def)
  have "runs_wf sample_office" by (simp add: runs_wf_def sample_office_def)
  moreover have "is_maker_checker_enforced (run_company_id (sample_run_row 1 PROCESSED)) sample_office = Inr True"
    by code_simp
  moreover have "8 \<notin> set (maker_ids_for_run (sample_run_row 1 PROCESSED))"
    by (simp add: maker_ids_set sample_run_row_def)
  ultimately show ?thesis
    using run_can_be_paid [OF _ row, of True 8 7 10 sample_env] by (simp add: Let_def sample_run_row_def)
qed

end
