(* ===== verification/Paid_Runs.thy ===== *)
theory Paid_Runs
  imports Payment_Batch
begin

text \<open>
  The requests on runs (\<open>run_service.py\<close>) and those on payment batches
  (\<open>payment_batch_service.py\<close>) on one database: what is left to change once a run is paid. A run
  request cannot touch it; a bank response settles its payslips, and touches nothing else of them.
\<close>

section \<open>What the payment batches leave alone\<close>

text \<open>A payslip without what a bank response writes: its payment status, date and reference.\<close>

definition unsettled :: "payslip \<Rightarrow> payslip" where
  "unsettled p = p\<lparr> ps_payment_status := [], ps_payment_date := None, ps_payment_reference := None \<rparr>"

definition rows_of :: "uuid \<Rightarrow> payroll_db \<Rightarrow> run_employee list" where
  "rows_of k db = filter (\<lambda>e. re_run_id e = k) (db_run_employees db)"

definition slips_of :: "uuid \<Rightarrow> payroll_db \<Rightarrow> payslip list" where
  "slips_of k db = filter (\<lambda>p. ps_run_id p = k) (db_payslips db)"

definition pay_view :: "payroll_db \<Rightarrow> payroll_run list \<times> run_employee list \<times> payslip list" where
  "pay_view db = (db_runs db, db_run_employees db, map unsettled (db_payslips db))"

lemma pay_view_frame [simp]:
  "pay_view (log_batch b a u r st rs db) = pay_view db" "pay_view (put_batch b db) = pay_view db"
  "pay_view (put_item i db) = pay_view db"
  by (simp_all add: pay_view_def log_batch_def log_event_def put_batch_def put_item_def)

lemma pay_view_tables [simp]:
  "pay_view (db\<lparr> db_batches := bs \<rparr>) = pay_view db" "pay_view (db\<lparr> db_batch_items := its \<rparr>) = pay_view db"
  "pay_view (db\<lparr> db_bank_files := fs \<rparr>) = pay_view db"
  by (simp_all add: pay_view_def)

lemma unsettled_slip_settled [simp]: "unsettled (slip_settled paid_on oc p) = unsettled p"
  by (simp add: unsettled_def slip_settled_def)

lemma unsettled_run [simp]: "ps_run_id (unsettled p) = ps_run_id p"
  by (simp add: unsettled_def)

lemma check_batch_makers_view: "check_batch_makers b u r db = (res, db1) \<Longrightarrow> pay_view db1 = pay_view db"
  unfolding check_batch_makers_def enforce_maker_checker_def
  by (auto simp: pay_view_def log_event_def split: sum.splits bool.splits option.splits if_splits)

lemma settle_slips_view:
  "pay_view (db\<lparr> db_payslips := update_where P (slip_settled paid_on oc) (db_payslips db) \<rparr>) = pay_view db"
  by (simp add: pay_view_def update_where_def comp_def if_distrib cong: if_cong)

lemma apply_outcomes_view: "apply_outcomes b now paid_on ocs db = Inr db' \<Longrightarrow> pay_view db' = pay_view db"
proof (induction ocs arbitrary: db)
  case (Cons oc ocs)
  then obtain db1 where "apply_outcomes b now paid_on ocs db1 = Inr db'" "pay_view db1 = pay_view (put_item (settled now oc) db)"
    using settle_slips_view [where db = "put_item (settled now oc) db"]
    by (auto simp: bind_res_Inr_iff Let_def split: option.splits)
  then show ?case using Cons.IH by simp
qed simp

lemma feed_repayout_view: "feed_repayout ustr tag b u failed db = Inr (rid, db') \<Longrightarrow> pay_view db' = pay_view db"
  unfolding feed_repayout_def add_repayout_def Let_def
  by (auto simp: bind_res_Inr_iff pay_view_def split: if_splits option.splits)

lemma reconcile_bank_feed_view: "pay_view (snd (reconcile_bank_feed ustr tag bid rows part c u r now paid_on db)) = pay_view db"
proof -
  obtain res db' where e: "reconcile_bank_feed ustr tag bid rows part c u r now paid_on db = (res, db')" by fastforce
  then have "pay_view db' = pay_view db"
  proof (cases rule: reconcile_bank_feed_cases)
    case (applied b ocs db1 db2 rid rep reason)
    then show ?thesis using apply_outcomes_view [OF applied(2)] feed_repayout_view [OF applied(3)] by simp
  qed simp
  then show ?thesis by (simp add: e)
qed

lemma approve_batch_view: "pay_view (snd (approve_batch bid remarks u r now db)) = pay_view db"
  by (auto simp: approve_batch_def Let_def dest: check_batch_makers_view split: sum.splits prod.splits)

lemma apply_row_view: "pay_view (fst (fold (apply_row its) rows (db, n))) = pay_view db"
  by (induction rows arbitrary: db n) (auto simp: apply_row_def split: option.splits)

lemma response_view: "pay_view (snd (apply_bank_response bid cached u r db)) = pay_view db"
  using apply_row_view by (auto simp: apply_bank_response_def Let_def split: option.splits sum.splits prod.splits) (metis fst_conv)

lemma bank_file_view: "pay_view (snd (generate_bank_file bid fmt db)) = pay_view db"
  by (simp add: generate_bank_file_def split: sum.split)

lemma perform_batch_view: "pay_view (perform_batch ustr a db) = pay_view db"
proof (cases a)
  case (BatchCreate tag rid src mode held nts u)
  then show ?thesis by (auto simp: create_batch_from_run_def Let_def pay_view_def split: sum.splits option.splits)
next
  case (BatchReject bid reason u r now)
  then show ?thesis by (simp add: reject_batch_def Let_def split: sum.split)
next
  case (BatchSubmit bid ref on_date nts u r)
  then show ?thesis by (simp add: submit_batch_def Let_def split: sum.split)
next
  case (BatchReconcile bid u r)
  then show ?thesis by (simp add: reconcile_batch_def Let_def split: sum.split)
next
  case (BatchLatestFile bid)
  then show ?thesis using bank_file_view [of bid _ db]
    by (auto simp: get_latest_bank_file_def Let_def case_prod_beta split: sum.splits option.splits)
qed (simp_all add: approve_batch_view response_view reconcile_bank_feed_view bank_file_view
    hold_item_def release_item_def retry_item_def change_item_def Let_def split: sum.split)

section \<open>Runs and batches together\<close>

fun perform_payroll :: "formula_env \<Rightarrow> (uuid \<Rightarrow> string) \<Rightarrow> run_request + batch_request \<Rightarrow> payroll_db \<Rightarrow> payroll_db" where
  "perform_payroll fe ustr (Inl a) db = perform fe a db"
| "perform_payroll fe ustr (Inr a) db = perform_batch ustr a db"

definition payroll_trace ::
  "formula_env \<Rightarrow> (uuid \<Rightarrow> string) \<Rightarrow> (run_request + batch_request) list \<Rightarrow> payroll_db \<Rightarrow> payroll_db" where
  "payroll_trace fe ustr ops db = foldl (\<lambda>d a. perform_payroll fe ustr a d) db ops"

fun retries :: "uuid \<Rightarrow> run_request + batch_request \<Rightarrow> bool" where
  "retries k (Inl a) \<longleftrightarrow> is_retry a \<and> op_run a = Some k"
| "retries k (Inr a) \<longleftrightarrow> False"

text \<open>The run is still the one that was paid, up to its validation result and the settlement of its payslips.\<close>

definition still_paid :: "uuid \<Rightarrow> payroll_run \<Rightarrow> run_employee list \<Rightarrow> payslip list \<Rightarrow> payroll_db \<Rightarrow> bool" where
  "still_paid k r res ps db \<longleftrightarrow>
     (\<exists>r'. runs_at k db = [r'] \<and> revalidated r r') \<and> rows_of k db = res \<and> map unsettled (slips_of k db) = ps"

lemma unsettled_slips_of: "map unsettled (slips_of k db) = filter (\<lambda>p. ps_run_id p = k) (map unsettled (db_payslips db))"
  by (simp add: slips_of_def filter_map comp_def)

lemma still_paid_view:
  assumes "pay_view db' = pay_view db"
  shows "still_paid k r res ps db' = still_paid k r res ps db"
  using assms by (simp add: still_paid_def pay_view_def runs_at_def rows_of_def unsettled_slips_of)

lemma run_part_books: "snd (run_part k db) = (rows_of k db, slips_of k db)"
  by (simp add: run_part_def rows_of_def slips_of_def)

lemma paid_run_step:
  assumes "runs_at k db = [r']" "run_status r' \<in> {PAID, FINALIZED}" "is_retry a \<longrightarrow> op_run a \<noteq> Some k"
  shows "\<exists>r''. runs_at k (perform fe a db) = [r''] \<and> revalidated r' r''"
    "rows_of k (perform fe a db) = rows_of k db" "slips_of k (perform fe a db) = slips_of k db"
  using final_step [OF assms, of fe] by (simp_all add: run_part_books)

lemma still_paid_step:
  assumes "still_paid k r res ps db" "run_status r \<in> {PAID, FINALIZED}" "\<not> retries k a"
  shows "still_paid k r res ps (perform_payroll fe ustr a db)"
    "(\<nexists>b. a = Inr b) \<Longrightarrow> slips_of k (perform_payroll fe ustr a db) = slips_of k db"
proof -
  obtain r' where r': "runs_at k db = [r']" "revalidated r r'" using assms(1) by (auto simp: still_paid_def)
  have paid: "run_status r' \<in> {PAID, FINALIZED}" using revalidated_status [OF r'(2)] assms(2) by simp
  show "still_paid k r res ps (perform_payroll fe ustr a db)"
  proof (cases a)
    case (Inl x)
    then have "is_retry x \<longrightarrow> op_run x \<noteq> Some k" using assms(3) by simp
    note s = paid_run_step [OF r'(1) paid this, of fe]
    then show ?thesis using assms(1) revalidated_trans [OF r'(2)] Inl by (auto simp: still_paid_def)
  next
    case (Inr b)
    then show ?thesis using assms(1) still_paid_view [OF perform_batch_view] by simp
  qed
  show "slips_of k (perform_payroll fe ustr a db) = slips_of k db" if "\<nexists>b. a = Inr b"
  proof -
    obtain x where x: "a = Inl x" using \<open>\<nexists>b. a = Inr b\<close> by (cases a) simp_all
    then have "is_retry x \<longrightarrow> op_run x \<noteq> Some k" using assms(3) by simp
    from paid_run_step(3) [OF r'(1) paid this, of fe] show ?thesis by (simp add: x)
  qed
qed

text \<open>
  C7: a paid or finalized run is immutable. Along every sequence of requests on any runs and payment
  batches that does not retry it, the run keeps its status, totals, approvals and every other attribute
  but the result of its validation; its employee rows stay exactly as they are; and its payslips keep
  everything but their payment status, date and reference, which only a bank response writes: without
  requests on batches the payslips stay exactly as they are, whatever happens to other runs of the
  same employees.
\<close>

theorem paid_run_immutable:
  assumes "runs_at k db = [r]" "run_status r \<in> {PAID, FINALIZED}" "\<forall>a \<in> set ops. \<not> retries k a"
    "db' = payroll_trace fe ustr ops db"
  shows "(\<exists>vs ve. runs_at k db' = [r\<lparr> run_validation_status := vs, run_validation_errors := ve \<rparr>]) \<and>
    rows_of k db' = rows_of k db \<and> map unsettled (slips_of k db') = map unsettled (slips_of k db) \<and>
    ((\<forall>b. Inr b \<notin> set ops) \<longrightarrow> slips_of k db' = slips_of k db)"
proof -
  have trace: "still_paid k r res ps (payroll_trace fe ustr ops db) \<and>
      ((\<forall>b. Inr b \<notin> set ops) \<longrightarrow> slips_of k (payroll_trace fe ustr ops db) = slips_of k db)"
    if "still_paid k r res ps db" "\<forall>a \<in> set ops. \<not> retries k a" for db ops res ps
    using that
  proof (induction ops arbitrary: db)
    case (Cons a ops)
    have s: "still_paid k r res ps (perform_payroll fe ustr a db)"
      using still_paid_step(1) [OF Cons.prems(1) assms(2)] Cons.prems(2) by simp
    have "(\<forall>b. Inr b \<notin> set (a # ops)) \<longrightarrow> slips_of k (perform_payroll fe ustr a db) = slips_of k db"
      using still_paid_step(2) [OF Cons.prems(1) assms(2), of a fe ustr] Cons.prems(2) by auto
    then show ?case using Cons.IH [OF s] Cons.prems(2) by (simp add: payroll_trace_def)
  qed (simp add: payroll_trace_def)
  have "still_paid k r (rows_of k db) (map unsettled (slips_of k db)) db"
    using assms(1) revalidated_refl by (simp add: still_paid_def)
  from trace [OF this assms(3)] show ?thesis
    unfolding assms(4) still_paid_def revalidated_def by blast
qed

theorem paid_run_immutable_witness:
  "\<exists>vs ve. runs_at 1 (payroll_trace sample_env nat_digits
      [Inl (OpReject 1 ''late'' None None None 20), Inl (OpDelete 1), Inr (BatchReconcile 3 None None), Inl (OpValidate 1)]
      (empty_db\<lparr> db_runs := [sample_run_row 1 PAID] \<rparr>)) =
    [(sample_run_row 1 PAID)\<lparr> run_validation_status := vs, run_validation_errors := ve \<rparr>]"
proof -
  have "runs_at 1 (empty_db\<lparr> db_runs := [sample_run_row 1 PAID] \<rparr>) = [sample_run_row 1 PAID]"
    by (simp add: runs_at_def sample_run_row_def)
  from paid_run_immutable [OF this _ _ refl, of "[Inl (OpReject 1 ''late'' None None None 20), Inl (OpDelete 1),
      Inr (BatchReconcile 3 None None), Inl (OpValidate 1)]" sample_env nat_digits]
  show ?thesis by (simp add: sample_run_row_def)
qed

text \<open>A feed on a paid run does settle its payslip.\<close>

lemma feed_settles_paid_run:
  assumes "apply_outcomes b now paid_on [oc] db = Inr db'"
    "filter (\<lambda>p. ps_run_id p = pb_run_id b \<and> ps_employee_id p = bi_employee_id (oc_item oc)) (db_payslips db) = [p]"
  shows "slip_settled paid_on oc p \<in> set (db_payslips db')"
proof -
  have "p \<in> set (filter (\<lambda>p. ps_run_id p = pb_run_id b \<and> ps_employee_id p = bi_employee_id (oc_item oc)) (db_payslips db))"
    unfolding assms(2) by simp
  then have "p \<in> set (db_payslips db)" by simp
  then have "slip_settled paid_on oc p \<in> set (update_where (\<lambda>x. ps_id x = ps_id p) (slip_settled paid_on oc) (db_payslips db))"
    by (auto simp: update_where_def intro!: image_eqI [of _ _ p])
  then show ?thesis using assms by (auto simp: Let_def)
qed

end
