(* ===== verification/Redis_Client.thy ===== *)
theory Redis_Client
  imports Py_Strings
begin

text \<open>
  The key-value client of \<open>app/core/redis_client.py\<close>: reads and writes with an expiry, the
  in-memory fallback of a development machine, and the block list of access tokens. The Redis server
  is a parameter; what the code relies on is the contract of an expiring map, which the fallback and a
  connected client satisfy. Times are seconds.
\<close>

section \<open>Operations that may fail\<close>

datatype kv_error = ServerError | RuntimeError string

type_synonym ('c, 'a) kv_op = "'c \<Rightarrow> (kv_error + 'a) \<times> 'c"

definition give :: "'a \<Rightarrow> ('c, 'a) kv_op" where "give x = (\<lambda>c. (Inr x, c))"

definition then_do :: "('c, 'a) kv_op \<Rightarrow> ('a \<Rightarrow> ('c, 'b) kv_op) \<Rightarrow> ('c, 'b) kv_op" where
  "then_do m f = (\<lambda>c. case m c of (Inl e, c') \<Rightarrow> (Inl e, c') | (Inr x, c') \<Rightarrow> f x c')"

lemma then_do_Inr [simp]: "m c = (Inr x, c') \<Longrightarrow> then_do m f c = f x c'"
  by (simp add: then_do_def)

lemma then_do_assoc: "then_do (then_do m g) f = then_do m (\<lambda>x. then_do (g x) f)"
  by (auto simp: then_do_def fun_eq_iff split: prod.split sum.split)

lemma then_do_give [simp]: "then_do (give x) f = f x"
  by (simp add: then_do_def give_def)

lemma give_apply [simp]: "give x c = (Inr x, c)"
  by (simp add: give_def)

section \<open>The expiring map\<close>

text \<open>A value with the time from which it is gone; without one it stays.\<close>

type_synonym entry = "string \<times> timestamp option"
type_synonym store = "string \<rightharpoonup> entry"

definition alive :: "timestamp \<Rightarrow> entry \<Rightarrow> bool" where
  "alive t e = (case snd e of None \<Rightarrow> True | Some x \<Rightarrow> t < x)"

definition value_at :: "timestamp \<Rightarrow> entry option \<Rightarrow> string option" where
  "value_at t e = (case e of None \<Rightarrow> None | Some e \<Rightarrow> if alive t e then Some (fst e) else None)"

text \<open>\<open>entry = _in_memory_store.get(key)\<close>: an entry that has expired is deleted by the read.\<close>

definition memory_get :: "string \<Rightarrow> timestamp \<Rightarrow> store \<Rightarrow> string option \<times> store" where
  "memory_get k t m =
     (case m k of
        None \<Rightarrow> (None, m)
      | Some e \<Rightarrow> if alive t e then (Some (fst e), m) else (None, m(k := None)))"

definition memory_set :: "string \<Rightarrow> string \<Rightarrow> int option \<Rightarrow> timestamp \<Rightarrow> store \<Rightarrow> store" where
  "memory_set k v ttl t m =
     m(k \<mapsto> (v, case ttl of None \<Rightarrow> None | Some n \<Rightarrow> if n = 0 then None else Some (t + n)))"

section \<open>The client\<close>

record 'r server =
  sv_get :: "string \<Rightarrow> timestamp \<Rightarrow> ('r, string option) kv_op"
  sv_set :: "string \<Rightarrow> string \<Rightarrow> int option \<Rightarrow> timestamp \<Rightarrow> ('r, unit) kv_op"
  sv_delete :: "string \<Rightarrow> timestamp \<Rightarrow> ('r, unit) kv_op"
  sv_ttl :: "string \<Rightarrow> timestamp \<Rightarrow> 'r \<Rightarrow> kv_error + int"

record 'r client =
  cl_connected :: bool
  cl_is_production :: bool
  cl_memory :: store
  cl_server :: 'r

text \<open>
  The pattern of every method: a failing server disconnects the client; in production the failure is
  raised, elsewhere the method goes on with the memory of the process.
\<close>

definition with_server :: "('r, 'a) kv_op \<Rightarrow> ('r client, 'a) kv_op \<Rightarrow> ('r client, 'a) kv_op" where
  "with_server call fallback c =
     (if cl_connected c then
        (case call (cl_server c) of
           (Inr x, r) \<Rightarrow> (Inr x, c\<lparr> cl_server := r \<rparr>)
         | (Inl e, r) \<Rightarrow>
             let c' = c\<lparr> cl_connected := False, cl_server := r \<rparr>
             in if cl_is_production c then (Inl e, c') else fallback c')
      else if cl_is_production c
      then (Inl (RuntimeError ''Redis required in production but not connected''), c)
      else fallback c)"

definition client_get :: "'r server \<Rightarrow> string \<Rightarrow> timestamp \<Rightarrow> ('r client, string option) kv_op" where
  "client_get S k t = with_server (sv_get S k t)
     (\<lambda>c. let (v, m) = memory_get k t (cl_memory c) in (Inr v, c\<lparr> cl_memory := m \<rparr>))"

definition client_set ::
  "'r server \<Rightarrow> string \<Rightarrow> string \<Rightarrow> int option \<Rightarrow> timestamp \<Rightarrow> ('r client, bool) kv_op" where
  "client_set S k v ttl t = then_do
     (with_server (sv_set S k v (if ttl = Some 0 then None else ttl) t)
        (\<lambda>c. (Inr (), c\<lparr> cl_memory := memory_set k v ttl t (cl_memory c) \<rparr>))) (\<lambda>_. give True)"

definition client_delete :: "'r server \<Rightarrow> string \<Rightarrow> timestamp \<Rightarrow> ('r client, bool) kv_op" where
  "client_delete S k t = then_do
     (with_server (sv_delete S k t) (\<lambda>c. (Inr (), c\<lparr> cl_memory := (cl_memory c)(k := None) \<rparr>))) (\<lambda>_. give True)"

definition client_ttl :: "'r server \<Rightarrow> string \<Rightarrow> timestamp \<Rightarrow> 'r client \<Rightarrow> int" where
  "client_ttl S k t c =
     (let memory = (case cl_memory c k of
                      None \<Rightarrow> 0
                    | Some (_, None) \<Rightarrow> - 1
                    | Some (_, Some x) \<Rightarrow> max 0 (x - t))
      in if cl_connected c
         then (case sv_ttl S k t (cl_server c) of Inr n \<Rightarrow> if 0 < n then max 0 n else 0 | Inl _ \<Rightarrow> memory)
         else memory)"

text \<open>The methods that the lockout and the other clients of the store call.\<close>

record 'c kv =
  kv_get :: "string \<Rightarrow> timestamp \<Rightarrow> ('c, string option) kv_op"
  kv_set :: "string \<Rightarrow> string \<Rightarrow> int option \<Rightarrow> timestamp \<Rightarrow> ('c, bool) kv_op"
  kv_delete :: "string \<Rightarrow> timestamp \<Rightarrow> ('c, bool) kv_op"
  kv_ttl :: "string \<Rightarrow> timestamp \<Rightarrow> 'c \<Rightarrow> int"

definition redis_kv :: "'r server \<Rightarrow> 'r client kv" where
  "redis_kv S = \<lparr> kv_get = client_get S, kv_set = client_set S, kv_delete = client_delete S, kv_ttl = client_ttl S \<rparr>"

section \<open>The contract of an expiring map\<close>

text \<open>
  \<open>sees t c m\<close>: from time \<open>t\<close> on, the state \<open>c\<close> holds what the map \<open>m\<close> holds.
\<close>

locale kv_store =
  fixes kv :: "'c kv" and sees :: "timestamp \<Rightarrow> 'c \<Rightarrow> store \<Rightarrow> bool"
  assumes get: "sees t c m \<Longrightarrow> \<exists>c'. kv_get kv k t c = (Inr (value_at t (m k)), c') \<and> sees t c' m"
    and set: "sees t c m \<Longrightarrow> 0 < n \<Longrightarrow>
      \<exists>c'. kv_set kv k v (Some n) t c = (Inr True, c') \<and> sees t c' (m(k \<mapsto> (v, Some (t + n))))"
    and delete: "sees t c m \<Longrightarrow> \<exists>c'. kv_delete kv k t c = (Inr True, c') \<and> sees t c' (m(k := None))"
    and ttl: "sees t c m \<Longrightarrow> m k = Some (v, Some x) \<Longrightarrow> t < x \<Longrightarrow> kv_ttl kv k t c = x - t"
    and later: "sees t c m \<Longrightarrow> t \<le> t' \<Longrightarrow> sees t' c m"
begin

lemma do_get: "sees t c m \<Longrightarrow> \<exists>c'. then_do (kv_get kv k t) f c = f (value_at t (m k)) c' \<and> sees t c' m"
  using get [of t c m k] by auto

lemma do_set:
  "sees t c m \<Longrightarrow> 0 < n \<Longrightarrow>
    \<exists>c'. then_do (kv_set kv k v (Some n) t) f c = f True c' \<and> sees t c' (m(k \<mapsto> (v, Some (t + n))))"
  using set [of t c m n k v] by auto

lemma do_delete: "sees t c m \<Longrightarrow> \<exists>c'. then_do (kv_delete kv k t) f c = f True c' \<and> sees t c' (m(k := None))"
  using delete [of t c m k] by auto

end

text \<open>What Redis documents for \<open>GET\<close>, \<open>SETEX\<close>, \<open>DEL\<close> and \<open>TTL\<close>, when the server answers.\<close>

locale expiring_server =
  fixes S :: "'r server" and holds :: "timestamp \<Rightarrow> 'r \<Rightarrow> store \<Rightarrow> bool"
  assumes sv_get: "holds t r m \<Longrightarrow> \<exists>r'. sv_get S k t r = (Inr (value_at t (m k)), r') \<and> holds t r' m"
    and sv_set: "holds t r m \<Longrightarrow> 0 < n \<Longrightarrow>
      \<exists>r'. sv_set S k v (Some n) t r = (Inr (), r') \<and> holds t r' (m(k \<mapsto> (v, Some (t + n))))"
    and sv_delete: "holds t r m \<Longrightarrow> \<exists>r'. sv_delete S k t r = (Inr (), r') \<and> holds t r' (m(k := None))"
    and sv_ttl: "holds t r m \<Longrightarrow> m k = Some (v, Some x) \<Longrightarrow> t < x \<Longrightarrow> sv_ttl S k t r = Inr (x - t)"
    and sv_later: "holds t r m \<Longrightarrow> t \<le> t' \<Longrightarrow> holds t' r m"

text \<open>A connected client hands the contract of its server on.\<close>

definition connected_sees ::
  "(timestamp \<Rightarrow> 'r \<Rightarrow> store \<Rightarrow> bool) \<Rightarrow> timestamp \<Rightarrow> 'r client \<Rightarrow> store \<Rightarrow> bool" where
  "connected_sees holds t c m \<longleftrightarrow> cl_connected c \<and> holds t (cl_server c) m"

sublocale expiring_server \<subseteq> connected: kv_store "redis_kv S" "connected_sees holds"
proof
  fix t c m k
  assume s: "connected_sees holds t c m"
  then have h: "holds t (cl_server c) m" and con: "cl_connected c" by (simp_all add: connected_sees_def)
  show "\<exists>c'. kv_get (redis_kv S) k t c = (Inr (value_at t (m k)), c') \<and> connected_sees holds t c' m"
    using sv_get [OF h, of k] con by (auto simp: redis_kv_def client_get_def with_server_def connected_sees_def)
  show "\<exists>c'. kv_delete (redis_kv S) k t c = (Inr True, c') \<and> connected_sees holds t c' (m(k := None))"
    using sv_delete [OF h, of k] con
    by (auto simp: redis_kv_def client_delete_def with_server_def connected_sees_def then_do_def)
  show "\<exists>c'. kv_set (redis_kv S) k v (Some n) t c = (Inr True, c') \<and>
      connected_sees holds t c' (m(k \<mapsto> (v, Some (t + n))))" if "0 < n" for n v
    using sv_set [OF h that, of k v] con that
    by (auto simp: redis_kv_def client_set_def with_server_def connected_sees_def then_do_def)
  show "kv_ttl (redis_kv S) k t c = x - t" if "m k = Some (v, Some x)" "t < x" for v x
    using sv_ttl [OF h that] con that by (simp add: redis_kv_def client_ttl_def)
  show "connected_sees holds t' c m" if "t \<le> t'" for t'
    using sv_later [OF h that] con by (simp add: connected_sees_def)
qed

text \<open>The fallback: a client of a development machine without a server.\<close>

definition memory_sees :: "timestamp \<Rightarrow> 'r client \<Rightarrow> store \<Rightarrow> bool" where
  "memory_sees t c m \<longleftrightarrow> \<not> cl_connected c \<and> \<not> cl_is_production c \<and>
     (\<forall>k. cl_memory c k = m k \<or> cl_memory c k = None \<and> (\<forall>e. m k = Some e \<longrightarrow> \<not> alive t e))"

lemma alive_later: "\<not> alive t e \<Longrightarrow> t \<le> t' \<Longrightarrow> \<not> alive t' e"
  by (auto simp: alive_def split: option.splits)

lemma memory_own:
  "memory_sees t c m \<Longrightarrow> cl_memory c k = m k \<or> cl_memory c k = None \<and> (\<forall>e. m k = Some e \<longrightarrow> \<not> alive t e)"
  by (simp add: memory_sees_def)

lemma memory_value: "memory_sees t c m \<Longrightarrow> value_at t (cl_memory c k) = value_at t (m k)"
  using memory_own [of t c m k] by (cases "m k"; cases "cl_memory c k") (auto simp: value_at_def)

lemma memory_get_sees:
  assumes "memory_sees t c m"
  shows "memory_sees t (c\<lparr> cl_memory := snd (memory_get k t (cl_memory c)) \<rparr>) m"
proof (cases "cl_memory c k")
  case None
  then show ?thesis using assms by (simp add: memory_get_def)
next
  case (Some e)
  then have "m k = Some e" using memory_own [OF assms, of k] by simp
  then show ?thesis using assms Some by (auto simp: memory_get_def memory_sees_def)
qed

interpretation fallback: kv_store "redis_kv S" memory_sees for S :: "'r server"
proof
  fix t m k and c :: "'r client"
  assume s: "memory_sees t c m"
  then have off: "\<not> cl_connected c" "\<not> cl_is_production c" by (simp_all add: memory_sees_def)
  have own: "cl_memory c k = m k \<or> cl_memory c k = None \<and> (\<forall>e. m k = Some e \<longrightarrow> \<not> alive t e)"
    using s by (rule memory_own)
  have v: "fst (memory_get k t (cl_memory c)) = value_at t (m k)"
    unfolding memory_value [OF s, symmetric] by (simp add: memory_get_def value_at_def split: option.split)
  have "memory_sees t (c\<lparr> cl_memory := snd (memory_get k t (cl_memory c)) \<rparr>) m"
    using s by (rule memory_get_sees)
  then show "\<exists>c'. kv_get (redis_kv S) k t c = (Inr (value_at t (m k)), c') \<and> memory_sees t c' m"
    using off v by (auto simp: redis_kv_def client_get_def with_server_def Let_def split: prod.splits)
  show "\<exists>c'. kv_delete (redis_kv S) k t c = (Inr True, c') \<and> memory_sees t c' (m(k := None))"
    using s off by (auto simp: redis_kv_def client_delete_def with_server_def then_do_def memory_sees_def)
  show "\<exists>c'. kv_set (redis_kv S) k v (Some n) t c = (Inr True, c') \<and> memory_sees t c' (m(k \<mapsto> (v, Some (t + n))))"
    if "0 < n" for n v
    using s off that
    by (auto simp: redis_kv_def client_set_def with_server_def then_do_def memory_sees_def memory_set_def)
  show "kv_ttl (redis_kv S) k t c = x - t" if "m k = Some (v, Some x)" "t < x" for v x
  proof -
    have "cl_memory c k = Some (v, Some x)" using own that by (auto simp: alive_def)
    then show ?thesis using off that by (simp add: redis_kv_def client_ttl_def)
  qed
  show "memory_sees t' c m" if "t \<le> t'" for t'
    using s that alive_later unfolding memory_sees_def by metis
qed

text \<open>A reference server, which the contract describes: the map itself.\<close>

definition map_server :: "store server" where
  "map_server =
     \<lparr> sv_get = (\<lambda>k t m. (Inr (value_at t (m k)), m)),
       sv_set = (\<lambda>k v ttl t m. (Inr (), memory_set k v ttl t m)),
       sv_delete = (\<lambda>k t m. (Inr (), m(k := None))),
       sv_ttl = (\<lambda>k t m. Inr (case m k of Some (_, Some x) \<Rightarrow> if t < x then x - t else - 2 | _ \<Rightarrow> - 2)) \<rparr>"

interpretation map_server: expiring_server map_server "\<lambda>t r m. r = m"
  by unfold_locales (auto simp: map_server_def memory_set_def)

end
