(* ===== verification/Lockout.thy ===== *)
theory Lockout
  imports Redis_Client
begin

text \<open>
  The lockout of \<open>app/core/redis_client.py\<close>: failed logins are counted per normalised
  identifier, and an identifier that fails too often is locked for a time that doubles with each
  lockout of a day. The operations run on any store; they are related to their effect on the expiring
  map that the store holds.
\<close>

section \<open>Identifiers\<close>

definition phone_noise :: "char \<Rightarrow> bool" where
  "phone_noise c \<longleftrightarrow> is_space c \<or> c \<in> {CHR ''-'', CHR ''('', CHR '')'', CHR ''.''}"

definition without_country_code :: "string \<Rightarrow> string" where
  "without_country_code digits =
     (if take 3 digits = ''+91'' then drop 3 digits
      else if take 2 digits = ''91'' \<and> length digits = 12 then drop 2 digits
      else if take 1 digits = ''0'' \<and> length digits = 11 then drop 1 digits
      else digits)"

definition normalize_identifier :: "string \<Rightarrow> string" where
  "normalize_identifier identifier =
     (let trimmed = py_lower (py_strip identifier)
      in if identifier = [] then []
         else if CHR ''@'' \<in> set trimmed then trimmed
         else without_country_code (filter (\<lambda>c. \<not> phone_noise c) trimmed))"

section \<open>The operations\<close>

definition attempt_key :: "string \<Rightarrow> string" where "attempt_key i = ''failed_logins:id:'' @ i"
definition ip_attempt_key :: "string \<Rightarrow> string" where "ip_attempt_key ip = ''failed_logins:ip:'' @ ip"
definition lock_key :: "string \<Rightarrow> string" where "lock_key i = ''lockout:id:'' @ i"
definition ip_lock_key :: "string \<Rightarrow> string" where "ip_lock_key ip = ''lockout:ip:'' @ ip"
definition tier_key :: "string \<Rightarrow> string" where "tier_key i = ''lockout_tier:id:'' @ i"

definition known_ip :: "string \<Rightarrow> bool" where "known_ip ip \<longleftrightarrow> ip \<noteq> [] \<and> ip \<noteq> ''unknown''"

text \<open>\<open>max(1, ttl)\<close> of a lock that is set.\<close>

definition lock_left :: "'c kv \<Rightarrow> string \<Rightarrow> timestamp \<Rightarrow> ('c, int option) kv_op" where
  "lock_left kv k now = then_do (kv_get kv k now) (\<lambda>v. case v of
       None \<Rightarrow> give None
     | Some _ \<Rightarrow> (\<lambda>c. (Inr (Some (max 1 (kv_ttl kv k now c))), c)))"

definition is_account_locked :: "'c kv \<Rightarrow> string \<Rightarrow> string \<Rightarrow> timestamp \<Rightarrow> ('c, bool \<times> int) kv_op" where
  "is_account_locked kv identifier ip now =
     (let norm_id = normalize_identifier identifier
      in then_do (if norm_id = [] then give None else lock_left kv (lock_key norm_id) now) (\<lambda>l. case l of
           Some left \<Rightarrow> give (True, left)
         | None \<Rightarrow>
             then_do (if known_ip ip then lock_left kv (ip_lock_key ip) now else give None) (\<lambda>l. case l of
               Some left \<Rightarrow> give (True, left)
             | None \<Rightarrow> give (False, 0))))"

text \<open>\<open>int(v) if v and v.isdigit() else d\<close>\<close>

definition is_digits :: "string \<Rightarrow> bool" where
  "is_digits s \<longleftrightarrow> s \<noteq> [] \<and> list_all (\<lambda>c. 48 \<le> (of_char c :: nat) \<and> (of_char c :: nat) \<le> 57) s"

definition int_or :: "int \<Rightarrow> string option \<Rightarrow> int" where
  "int_or d v = (case v of None \<Rightarrow> d | Some s \<Rightarrow> if is_digits s then foldl digit_step 0 s else d)"

definition count_failure :: "'c kv \<Rightarrow> string \<Rightarrow> timestamp \<Rightarrow> ('c, int) kv_op" where
  "count_failure kv k now = then_do (kv_get kv k now) (\<lambda>v.
     let n = int_or 0 v + 1 in then_do (kv_set kv k (int_str n) (Some 1800) now) (\<lambda>_. give n))"

definition lockout_multiplier :: "int \<Rightarrow> int" where
  "lockout_multiplier tier = (if tier = 1 then 1 else if tier = 2 then 2 else if tier = 3 then 4 else 8)"

definition tier_of :: "string option \<Rightarrow> int" where "tier_of v = min 4 (max 1 (int_or 1 v))"

definition when_op :: "bool \<Rightarrow> ('c, bool) kv_op \<Rightarrow> ('c, bool) kv_op" where
  "when_op b m = (if b then m else give True)"

definition lock_out :: "'c kv \<Rightarrow> string \<Rightarrow> string \<Rightarrow> int \<Rightarrow> timestamp \<Rightarrow> ('c, int) kv_op" where
  "lock_out kv norm_id ip base now =
     then_do (kv_get kv (tier_key norm_id) now) (\<lambda>v.
       let tier = tier_of v; seconds = base * lockout_multiplier tier; until = int_str (now + seconds)
       in then_do (kv_set kv (lock_key norm_id) until (Some seconds) now) (\<lambda>_.
          then_do (when_op (known_ip ip) (kv_set kv (ip_lock_key ip) until (Some seconds) now)) (\<lambda>_.
          then_do (kv_set kv (tier_key norm_id) (int_str (min 4 (tier + 1))) (Some 86400) now) (\<lambda>_.
          then_do (kv_delete kv (attempt_key norm_id) now) (\<lambda>_.
          then_do (when_op (known_ip ip) (kv_delete kv (ip_attempt_key ip) now)) (\<lambda>_. give seconds))))))"

definition record_failed_login ::
  "'c kv \<Rightarrow> string \<Rightarrow> string \<Rightarrow> int \<Rightarrow> int \<Rightarrow> timestamp \<Rightarrow> ('c, int \<times> bool \<times> int) kv_op" where
  "record_failed_login kv identifier ip max_attempts base now =
     (let norm_id = normalize_identifier identifier
      in if norm_id = [] then give (0, False, 0)
         else then_do (count_failure kv (attempt_key norm_id) now) (\<lambda>attempts.
           then_do (if known_ip ip then count_failure kv (ip_attempt_key ip) now else give 0) (\<lambda>_.
             if max_attempts \<le> attempts
             then then_do (lock_out kv norm_id ip base now) (\<lambda>seconds. give (attempts, True, seconds))
             else give (attempts, False, 0))))"

definition clear_failed_logins :: "'c kv \<Rightarrow> string \<Rightarrow> string \<Rightarrow> timestamp \<Rightarrow> ('c, bool) kv_op" where
  "clear_failed_logins kv identifier ip now =
     (let norm_id = normalize_identifier identifier
      in then_do (when_op (norm_id \<noteq> [])
             (then_do (kv_delete kv (attempt_key norm_id) now) (\<lambda>_.
              then_do (kv_delete kv (lock_key norm_id) now) (\<lambda>_.
              kv_delete kv (tier_key norm_id) now)))) (\<lambda>_.
           when_op (known_ip ip)
             (then_do (kv_delete kv (ip_attempt_key ip) now) (\<lambda>_. kv_delete kv (ip_lock_key ip) now))))"

section \<open>The effect on the map\<close>

definition bumped :: "string \<Rightarrow> timestamp \<Rightarrow> store \<Rightarrow> store" where
  "bumped k t m = m(k \<mapsto> (int_str (int_or 0 (value_at t (m k)) + 1), Some (t + 1800)))"

definition locked_out :: "string \<Rightarrow> string \<Rightarrow> int \<Rightarrow> timestamp \<Rightarrow> store \<Rightarrow> store" where
  "locked_out i ip seconds t m =
     (let tier = tier_of (value_at t (m (tier_key i))); until = (int_str (t + seconds), Some (t + seconds));
          m1 = m(lock_key i \<mapsto> until); m2 = (if known_ip ip then m1(ip_lock_key ip \<mapsto> until) else m1);
          m3 = m2(tier_key i \<mapsto> (int_str (min 4 (tier + 1)), Some (t + 86400)), attempt_key i := None)
      in if known_ip ip then m3(ip_attempt_key ip := None) else m3)"

definition lockout_seconds :: "string \<Rightarrow> int \<Rightarrow> timestamp \<Rightarrow> store \<Rightarrow> int" where
  "lockout_seconds i base t m = base * lockout_multiplier (tier_of (value_at t (m (tier_key i))))"

text \<open>The map after a failed login, and the answer.\<close>

definition failed_effect :: "string \<Rightarrow> string \<Rightarrow> int \<Rightarrow> int \<Rightarrow> timestamp \<Rightarrow> store \<Rightarrow> store" where
  "failed_effect i ip max_attempts base t m =
     (if i = [] then m
      else
        let m1 = bumped (attempt_key i) t m; m2 = (if known_ip ip then bumped (ip_attempt_key ip) t m1 else m1)
        in if max_attempts \<le> int_or 0 (value_at t (m (attempt_key i))) + 1
           then locked_out i ip (lockout_seconds i base t m) t m2 else m2)"

definition failed_answer :: "string \<Rightarrow> int \<Rightarrow> int \<Rightarrow> timestamp \<Rightarrow> store \<Rightarrow> int \<times> bool \<times> int" where
  "failed_answer i max_attempts base t m =
     (if i = [] then (0, False, 0)
      else
        let n = int_or 0 (value_at t (m (attempt_key i))) + 1
        in if max_attempts \<le> n then (n, True, lockout_seconds i base t m) else (n, False, 0))"

lemma multiplier_pos: "0 < lockout_multiplier tier"
  by (simp add: lockout_multiplier_def)

lemma keys_distinct [simp]:
  "attempt_key i \<noteq> ip_attempt_key j" "attempt_key i \<noteq> lock_key j" "attempt_key i \<noteq> ip_lock_key j"
  "attempt_key i \<noteq> tier_key j" "ip_attempt_key i \<noteq> lock_key j" "ip_attempt_key i \<noteq> ip_lock_key j"
  "ip_attempt_key i \<noteq> tier_key j" "lock_key i \<noteq> ip_lock_key j" "lock_key i \<noteq> tier_key j" "ip_lock_key i \<noteq> tier_key j"
  "ip_attempt_key i \<noteq> attempt_key j" "lock_key i \<noteq> attempt_key j" "ip_lock_key i \<noteq> attempt_key j"
  "tier_key i \<noteq> attempt_key j" "lock_key i \<noteq> ip_attempt_key j" "ip_lock_key i \<noteq> ip_attempt_key j"
  "tier_key i \<noteq> ip_attempt_key j" "ip_lock_key i \<noteq> lock_key j" "tier_key i \<noteq> lock_key j" "tier_key i \<noteq> ip_lock_key j"
  by (simp_all add: attempt_key_def ip_attempt_key_def lock_key_def ip_lock_key_def tier_key_def)

lemma keys_inj [simp]:
  "attempt_key i = attempt_key j \<longleftrightarrow> i = j" "ip_attempt_key i = ip_attempt_key j \<longleftrightarrow> i = j"
  "lock_key i = lock_key j \<longleftrightarrow> i = j" "ip_lock_key i = ip_lock_key j \<longleftrightarrow> i = j" "tier_key i = tier_key j \<longleftrightarrow> i = j"
  by (simp_all add: attempt_key_def ip_attempt_key_def lock_key_def ip_lock_key_def tier_key_def)

section \<open>Locks and traces on the map\<close>

definition expiring :: "store \<Rightarrow> bool" where "expiring m \<longleftrightarrow> (\<forall>k v. m k \<noteq> Some (v, None))"

definition time_left :: "timestamp \<Rightarrow> entry option \<Rightarrow> int option" where
  "time_left t e = (case e of Some (_, Some x) \<Rightarrow> if t < x then Some (x - t) else None | _ \<Rightarrow> None)"

definition cleared :: "string \<Rightarrow> string \<Rightarrow> store \<Rightarrow> store" where
  "cleared i ip m =
     (let m1 = (if i = [] then m else m(attempt_key i := None, lock_key i := None, tier_key i := None))
      in if known_ip ip then m1(ip_attempt_key ip := None, ip_lock_key ip := None) else m1)"

definition locked_answer :: "string \<Rightarrow> string \<Rightarrow> timestamp \<Rightarrow> store \<Rightarrow> bool \<times> int" where
  "locked_answer i ip t m =
     (case if i = [] then None else time_left t (m (lock_key i)) of
        Some left \<Rightarrow> (True, left)
      | None \<Rightarrow>
          (case if known_ip ip then time_left t (m (ip_lock_key ip)) else None of
             Some left \<Rightarrow> (True, left) | None \<Rightarrow> (False, 0)))"

type_synonym login = "string \<times> string \<times> timestamp"

abbreviation login_time :: "login \<Rightarrow> timestamp" where "login_time l \<equiv> snd (snd l)"

definition failed_logins :: "'c kv \<Rightarrow> int \<Rightarrow> int \<Rightarrow> login list \<Rightarrow> 'c \<Rightarrow> 'c" where
  "failed_logins kv max_attempts base ops c =
     foldl (\<lambda>c (identifier, ip, t). snd (record_failed_login kv identifier ip max_attempts base t c)) c ops"

definition failed_effects :: "int \<Rightarrow> int \<Rightarrow> login list \<Rightarrow> store \<Rightarrow> store" where
  "failed_effects max_attempts base ops m =
     foldl (\<lambda>m (identifier, ip, t). failed_effect (normalize_identifier identifier) ip max_attempts base t m) m ops"

lemma expiring_failed_effect: "expiring m \<Longrightarrow> expiring (failed_effect i ip n base t m)"
  by (auto simp: expiring_def failed_effect_def locked_out_def bumped_def Let_def)

lemma expiring_failed_effects: "expiring m \<Longrightarrow> expiring (failed_effects n base ops m)"
  by (induction ops arbitrary: m) (auto simp: failed_effects_def expiring_failed_effect)

context kv_store
begin

lemma do_count:
  assumes "sees t c m"
  shows "\<exists>c'. then_do (count_failure kv k t) f c = f (int_or 0 (value_at t (m k)) + 1) c' \<and> sees t c' (bumped k t m)"
proof -
  let ?n = "int_or 0 (value_at t (m k)) + 1"
  define g where "g = (\<lambda>v. let n = int_or 0 v + 1 in then_do (kv_set kv k (int_str n) (Some 1800) t) (\<lambda>_. f n))"
  have eq: "then_do (count_failure kv k t) f = then_do (kv_get kv k t) g"
    by (simp add: count_failure_def g_def then_do_assoc Let_def)
  obtain c1 where c1: "then_do (count_failure kv k t) f c = g (value_at t (m k)) c1" "sees t c1 m"
    using do_get [OF assms, of k g] eq by auto
  obtain c2 where "g (value_at t (m k)) c1 = f ?n c2" "sees t c2 (bumped k t m)"
    using do_set [OF c1(2), of 1800 k "int_str ?n" "\<lambda>_. f ?n"] by (auto simp: g_def Let_def bumped_def)
  then show ?thesis using c1(1) by auto
qed

lemma do_when_set:
  assumes "sees t c m" "0 < n"
  shows "\<exists>c'. then_do (when_op b (kv_set kv k v (Some n) t)) (\<lambda>_. f) c = f c' \<and>
    sees t c' (if b then m(k \<mapsto> (v, Some (t + n))) else m)"
  using do_set [OF assms, of k v "\<lambda>_. f"] assms(1) by (auto simp: when_op_def)

lemma do_when_delete:
  assumes "sees t c m"
  shows "\<exists>c'. then_do (when_op b (kv_delete kv k t)) (\<lambda>_. f) c = f c' \<and> sees t c' (if b then m(k := None) else m)"
  using do_delete [OF assms, of k "\<lambda>_. f"] assms by (auto simp: when_op_def)

lemma do_lock_out:
  assumes s: "sees t c m" and base: "0 < base"
  shows "\<exists>c'. then_do (lock_out kv i ip base t) f c = f (lockout_seconds i base t m) c' \<and>
    sees t c' (locked_out i ip (lockout_seconds i base t m) t m)"
proof -
  let ?sec = "lockout_seconds i base t m" and ?tier = "tier_of (value_at t (m (tier_key i)))"
  let ?until = "int_str (t + ?sec)"
  have pos: "0 < ?sec" using base multiplier_pos by (simp add: lockout_seconds_def)
  define f5 where "f5 = then_do (when_op (known_ip ip) (kv_delete kv (ip_attempt_key ip) t)) (\<lambda>_. f ?sec)"
  define f4 where "f4 = then_do (kv_delete kv (attempt_key i) t) (\<lambda>_. f5)"
  define f3 where "f3 = then_do (kv_set kv (tier_key i) (int_str (min 4 (?tier + 1))) (Some 86400) t) (\<lambda>_. f4)"
  define f2 where "f2 = then_do (when_op (known_ip ip) (kv_set kv (ip_lock_key ip) ?until (Some ?sec) t)) (\<lambda>_. f3)"
  define f1 where "f1 = then_do (kv_set kv (lock_key i) ?until (Some ?sec) t) (\<lambda>_. f2)"
  obtain c0 where c0: "then_do (lock_out kv i ip base t) f c = f1 c0" "sees t c0 m"
    unfolding lock_out_def then_do_assoc Let_def
    using do_get [OF s, of "tier_key i"] unfolding f1_def f2_def f3_def f4_def f5_def lockout_seconds_def
    by (fastforce simp: then_do_assoc)
  obtain c1 where c1: "f1 c0 = f2 c1" "sees t c1 (m(lock_key i \<mapsto> (?until, Some (t + ?sec))))" (is "sees t c1 ?m1")
    using do_set [OF c0(2) pos, of "lock_key i" ?until "\<lambda>_. f2"] unfolding f1_def by blast
  obtain c2 where c2: "f2 c1 = f3 c2"
    "sees t c2 (if known_ip ip then ?m1(ip_lock_key ip \<mapsto> (?until, Some (t + ?sec))) else ?m1)" (is "sees t c2 ?m2")
    using do_when_set [OF c1(2) pos, of "known_ip ip" "ip_lock_key ip" ?until f3] unfolding f2_def by blast
  obtain c3 where c3: "f3 c2 = f4 c3" "sees t c3 (?m2(tier_key i \<mapsto> (int_str (min 4 (?tier + 1)), Some (t + 86400))))"
    (is "sees t c3 ?m3")
    using do_set [OF c2(2), of 86400 "tier_key i" "int_str (min 4 (?tier + 1))" "\<lambda>_. f4"] unfolding f3_def by auto
  obtain c4 where c4: "f4 c3 = f5 c4" "sees t c4 (?m3(attempt_key i := None))" (is "sees t c4 ?m4")
    using do_delete [OF c3(2), of "attempt_key i" "\<lambda>_. f5"] unfolding f4_def by blast
  obtain c5 where c5: "f5 c4 = f ?sec c5" "sees t c5 (if known_ip ip then ?m4(ip_attempt_key ip := None) else ?m4)"
    using do_when_delete [OF c4(2), of "known_ip ip" "ip_attempt_key ip" "f ?sec"] unfolding f5_def by blast
  have map: "(if known_ip ip then ?m4(ip_attempt_key ip := None) else ?m4) = locked_out i ip ?sec t m"
    by (simp add: locked_out_def Let_def)
  have run: "then_do (lock_out kv i ip base t) f c = f ?sec c5"
    unfolding c0(1) c1(1) c2(1) c3(1) c4(1) c5(1) by (rule refl)
  show ?thesis using c5(2) unfolding map run by blast
qed

text \<open>A failed login has on every store the effect that it has on the map.\<close>

lemma failed_login_refines:
  assumes s: "sees t c m" and base: "0 < base" and i: "normalize_identifier identifier = i"
  shows "\<exists>c'. record_failed_login kv identifier ip max_attempts base t c = (Inr (failed_answer i max_attempts base t m), c') \<and>
    sees t c' (failed_effect i ip max_attempts base t m)"
proof (cases "i = []")
  case True
  then show ?thesis using s by (auto simp: record_failed_login_def failed_answer_def failed_effect_def i)
next
  case False
  let ?n = "int_or 0 (value_at t (m (attempt_key i))) + 1" and ?m1 = "bumped (attempt_key i) t m"
  let ?m2 = "if known_ip ip then bumped (ip_attempt_key ip) t ?m1 else ?m1"
  define h where "h = (if max_attempts \<le> ?n then then_do (lock_out kv i ip base t) (\<lambda>seconds. give (?n, True, seconds))
    else give (?n, False, 0))"
  have tier: "lockout_seconds i base t ?m2 = lockout_seconds i base t m"
    by (simp add: lockout_seconds_def bumped_def)
  obtain c1 where c1: "record_failed_login kv identifier ip max_attempts base t c =
      then_do (if known_ip ip then count_failure kv (ip_attempt_key ip) t else give 0) (\<lambda>_. h) c1" "sees t c1 ?m1"
    using do_count [OF s, of "attempt_key i"] False
    unfolding record_failed_login_def Let_def i h_def by fastforce
  obtain c2 where c2: "record_failed_login kv identifier ip max_attempts base t c = h c2" "sees t c2 ?m2"
    using do_count [OF c1(2), of "ip_attempt_key ip" "\<lambda>_. h"] c1 by (auto split: if_splits)
  show ?thesis
  proof (cases "max_attempts \<le> ?n")
    case True
    then show ?thesis using do_lock_out [OF c2(2) base, of i ip "\<lambda>seconds. give (?n, True, seconds)"] c2(1) False tier
      by (auto simp: h_def failed_answer_def failed_effect_def Let_def)
  next
    case over: False
    then show ?thesis using c2 False by (auto simp: h_def failed_answer_def failed_effect_def Let_def)
  qed
qed

text \<open>The lock of a key, as the map shows it.\<close>

lemma do_lock_left:
  assumes "sees t c m" "expiring m"
  shows "\<exists>c'. then_do (lock_left kv k t) f c = f (time_left t (m k)) c' \<and> sees t c' m"
proof -
  obtain c' where c': "kv_get kv k t c = (Inr (value_at t (m k)), c')" "sees t c' m" using get [OF assms(1)] by blast
  have "lock_left kv k t c = (Inr (time_left t (m k)), c')"
  proof (cases "value_at t (m k)")
    case None
    then show ?thesis using c' assms(2)
      by (auto simp: lock_left_def time_left_def value_at_def alive_def expiring_def split: option.splits)
  next
    case (Some v)
    then obtain x where x: "m k = Some (v, Some x)" "t < x"
      using assms(2) by (auto simp: value_at_def alive_def expiring_def split: option.splits if_splits)
    then show ?thesis using c' ttl [OF c'(2) x] by (simp add: lock_left_def time_left_def value_at_def alive_def max_def)
  qed
  then show ?thesis using c'(2) by auto
qed

lemma locked_refines:
  assumes s: "sees t c m" and e: "expiring m" and i: "normalize_identifier identifier = i"
  shows "\<exists>c'. is_account_locked kv identifier ip t c = (Inr (locked_answer i ip t m), c') \<and> sees t c' m"
proof -
  define g :: "int option \<Rightarrow> ('c, bool \<times> int) kv_op" where
    "g = (\<lambda>l. case l of Some left \<Rightarrow> give (True, left) | None \<Rightarrow> give (False, 0))"
  define h where "h = (\<lambda>l. case l of Some left \<Rightarrow> give (True, left)
     | None \<Rightarrow> then_do (if known_ip ip then lock_left kv (ip_lock_key ip) t else give None) g)"
  let ?own = "if i = [] then None else time_left t (m (lock_key i))"
  let ?ip = "if known_ip ip then time_left t (m (ip_lock_key ip)) else None"
  obtain c1 where c1: "is_account_locked kv identifier ip t c = h ?own c1" "sees t c1 m"
    using do_lock_left [OF s e, of "lock_key i" h] s
    unfolding is_account_locked_def Let_def i h_def g_def by (cases "i = []") auto
  obtain c2 where c2: "then_do (if known_ip ip then lock_left kv (ip_lock_key ip) t else give None) g c1 = g ?ip c2" "sees t c2 m"
    using do_lock_left [OF c1(2) e, of "ip_lock_key ip" g] c1(2) by (cases "known_ip ip") auto
  show ?thesis
  proof (cases ?own)
    case None
    then show ?thesis using c1 c2 by (cases ?ip) (auto simp: h_def g_def locked_answer_def)
  next
    case (Some l)
    then show ?thesis using c1 by (auto simp: h_def locked_answer_def)
  qed
qed

text \<open>A successful login removes the counters and the locks.\<close>

lemma clear_refines:
  assumes s: "sees t c m" and i: "normalize_identifier identifier = i"
  shows "\<exists>c'. clear_failed_logins kv identifier ip t c = (Inr True, c') \<and> sees t c' (cleared i ip m)"
proof -
  define g where "g = when_op (known_ip ip)
    (then_do (kv_delete kv (ip_attempt_key ip) t) (\<lambda>_. kv_delete kv (ip_lock_key ip) t))"
  let ?m1 = "if i = [] then m else m(attempt_key i := None, lock_key i := None, tier_key i := None)"
  have "\<exists>c1. clear_failed_logins kv identifier ip t c = g c1 \<and> sees t c1 ?m1"
  proof (cases "i = []")
    case True
    then show ?thesis using s by (auto simp: clear_failed_logins_def i g_def when_op_def)
  next
    case False
    let ?rest = "\<lambda>_. then_do (kv_delete kv (lock_key i) t) (\<lambda>_. then_do (kv_delete kv (tier_key i) t) (\<lambda>_. g))"
    have run: "clear_failed_logins kv identifier ip t c = then_do (kv_delete kv (attempt_key i) t) ?rest c"
      using False by (simp add: clear_failed_logins_def i g_def when_op_def then_do_assoc)
    obtain c1 where c1: "then_do (kv_delete kv (attempt_key i) t) ?rest c = ?rest True c1"
      "sees t c1 (m(attempt_key i := None))" using do_delete [OF s] by blast
    obtain c2 where c2: "?rest True c1 = then_do (kv_delete kv (tier_key i) t) (\<lambda>_. g) c2"
      "sees t c2 (m(attempt_key i := None, lock_key i := None))"
      using do_delete [OF c1(2), of "lock_key i" "\<lambda>_. then_do (kv_delete kv (tier_key i) t) (\<lambda>_. g)"] by blast
    obtain c3 where c3: "then_do (kv_delete kv (tier_key i) t) (\<lambda>_. g) c2 = g c3"
      "sees t c3 (m(attempt_key i := None, lock_key i := None, tier_key i := None))"
      using do_delete [OF c2(2), of "tier_key i" "\<lambda>_. g"] by blast
    show ?thesis using run c1(1) c2(1) c3 False by auto
  qed
  then obtain c1 where c1: "clear_failed_logins kv identifier ip t c = g c1" "sees t c1 ?m1" by blast
  show ?thesis
  proof (cases "known_ip ip")
    case True
    obtain c2 where c2: "g c1 = kv_delete kv (ip_lock_key ip) t c2" "sees t c2 (?m1(ip_attempt_key ip := None))"
      using do_delete [OF c1(2), of "ip_attempt_key ip" "\<lambda>_. kv_delete kv (ip_lock_key ip) t"] True
      by (auto simp: g_def when_op_def)
    show ?thesis using delete [OF c2(2), of "ip_lock_key ip"] c1(1) c2(1) True by (simp add: cleared_def)
  next
    case False
    then show ?thesis using c1 by (simp add: g_def when_op_def cleared_def)
  qed
qed

lemma login_unlocks:
  assumes "sees t c m" "expiring m" "clear_failed_logins kv identifier ip t c = (r, c')"
  shows "\<exists>c''. is_account_locked kv identifier ip t c' = (Inr (False, 0), c'')"
proof -
  let ?i = "normalize_identifier identifier"
  have "sees t c' (cleared ?i ip m)" using clear_refines [OF assms(1) refl, of "identifier" ip] assms(3) by auto
  moreover have "expiring (cleared ?i ip m)" using assms(2) by (simp add: expiring_def cleared_def)
  ultimately obtain c'' where
    "is_account_locked kv identifier ip t c' = (Inr (locked_answer ?i ip t (cleared ?i ip m)), c'')"
    using locked_refines by blast
  then show ?thesis by (auto simp: locked_answer_def cleared_def time_left_def value_at_def)
qed

text \<open>A sequence of failed logins, in the order of their times.\<close>

lemma failed_logins_refine:
  assumes "sees t c m" "0 < base" "sorted (t # map login_time ops)"
  shows "sees (last (t # map login_time ops)) (failed_logins kv n base ops c) (failed_effects n base ops m)"
  using assms
proof (induction ops arbitrary: t c m)
  case (Cons op ops)
  obtain login ip x where op: "op = (login, ip, x)" by (cases op)
  have s: "sees x c m" using Cons.prems op by (auto intro: later)
  obtain c' where c': "record_failed_login kv login ip n base x c =
      (Inr (failed_answer (normalize_identifier login) n base x m), c')"
    "sees x c' (failed_effect (normalize_identifier login) ip n base x m)"
    using failed_login_refines [OF s Cons.prems(2) refl] by blast
  have "sorted (x # map login_time ops)" using Cons.prems(3) op by simp
  from Cons.IH [OF c'(2) Cons.prems(2) this] show ?case
    using c'(1) by (simp add: op failed_logins_def failed_effects_def)
qed (simp add: failed_logins_def failed_effects_def)

end


section \<open>Counting on the map\<close>

definition failures :: "string \<Rightarrow> timestamp \<Rightarrow> store \<Rightarrow> int" where
  "failures i t m = int_or 0 (value_at t (m (attempt_key i)))"

lemma is_digits_nat_digits: "is_digits (nat_digits n)"
proof (induction n rule: nat_digits.induct)
  case (1 n)
  have d: "is_digits [char_of (48 + d)]" if "d < 10" for d :: nat using that by (simp add: is_digits_def)
  show ?case
  proof (cases "n < 10")
    case True
    then show ?thesis using d by (subst nat_digits.simps) simp
  next
    case False
    then show ?thesis using 1 d [of "n mod 10"] by (subst nat_digits.simps) (auto simp: is_digits_def)
  qed
qed

lemma int_or_int_str [simp]: "0 \<le> n \<Longrightarrow> int_or d (Some (int_str n)) = n"
  by (simp add: int_or_def int_str_def is_digits_nat_digits nat_digits_value)

lemma failures_next:
  assumes "i \<noteq> []" "failures i t m + 1 < max_attempts" "0 \<le> failures i t m" "t' < t + 1800"
  shows "failures i t' (failed_effect i ip max_attempts base t m) = failures i t m + 1"
  using assms by (simp add: failures_def failed_effect_def bumped_def Let_def value_at_def alive_def)

lemma lock_set:
  assumes "i \<noteq> []" "max_attempts \<le> failures i t m + 1"
  shows "failed_effect i ip max_attempts base t m (lock_key i) =
    Some (int_str (t + lockout_seconds i base t m), Some (t + lockout_seconds i base t m))"
  using assms by (simp add: failures_def failed_effect_def locked_out_def Let_def)

lemma lockout_at_least: "0 < base \<Longrightarrow> base \<le> lockout_seconds i base t m"
  by (simp add: lockout_seconds_def lockout_multiplier_def)

text \<open>While none of them reaches the limit, each failed login raises the count of its identifier.\<close>

lemma burst_counts:
  assumes "\<forall>x \<in> set ops. normalize_identifier (fst x) = i" "i \<noteq> []"
    "failures i (login_time (hd (ops @ [l]))) m = n" "0 \<le> n" "n + int (length ops) < max_attempts"
    "successively (\<lambda>a b. login_time b < login_time a + 1800) (ops @ [l])"
  shows "failures i (login_time l) (failed_effects max_attempts base ops m) = n + int (length ops)"
  using assms
proof (induction ops arbitrary: m n)
  case (Cons op ops)
  obtain login ip t where op: "op = (login, ip, t)" by (cases op)
  let ?m = "failed_effect i ip max_attempts base t m" and ?next = "hd (ops @ [l])"
  have next_time: "login_time ?next < t + 1800" using Cons.prems(6) op by (cases ops) simp_all
  have "failures i (login_time ?next) ?m = n + 1"
    using failures_next [of i t m max_attempts "login_time ?next" ip base] Cons.prems(2-5) next_time op by simp
  then have "failures i (login_time l) (failed_effects max_attempts base ops ?m) = n + 1 + int (length ops)"
    using Cons.prems by (intro Cons.IH) (auto simp: successively_Cons)
  then show ?case using Cons.prems(1) by (simp add: op failed_effects_def)
qed (simp add: failed_effects_def)

lemma failed_logins_snoc:
  "failed_logins kv n base (ops @ [l]) c =
    snd (record_failed_login kv (fst l) (fst (snd l)) n base (login_time l) (failed_logins kv n base ops c))"
  by (simp add: failed_logins_def case_prod_beta)

text \<open>
  C30: guessing a password locks the account. When an identifier fails as often as allowed, each time
  less than half an hour after the time before, from whatever addresses and in whatever spelling, then
  the last failure announces a lockout of the base time or its double, fourfold or eightfold; and at
  every moment until the announced time is over the account is locked, from every address and in every
  spelling, with exactly the rest of that time left. This holds on every store that keeps the contract
  of an expiring map.
\<close>

theorem brute_force_locked:
  assumes "kv_store kv sees" "sees t c m" "expiring m" "0 < base"
    and "i \<noteq> []" "\<forall>l \<in> set ops. normalize_identifier (fst l) = i"
    and "ops \<noteq> []" "int (length ops) = max_attempts" "failures i (login_time (hd ops)) m = 0"
    and "sorted (t # map login_time ops)" "successively (\<lambda>a b. login_time b < login_time a + 1800) ops"
    and "last ops = (login, ip, t')"
  shows "\<exists>seconds \<in> {base, 2 * base, 4 * base, 8 * base}.
    fst (record_failed_login kv login ip max_attempts base t' (failed_logins kv max_attempts base (butlast ops) c)) =
      Inr (max_attempts, True, seconds) \<and>
    (\<forall>now ip' login'. t' \<le> now \<longrightarrow> now < t' + seconds \<longrightarrow> normalize_identifier login' = i \<longrightarrow>
      fst (is_account_locked kv login' ip' now (failed_logins kv max_attempts base ops c)) =
        Inr (True, t' + seconds - now))"
proof -
  obtain pre where ops: "ops = pre @ [(login, ip, t')]" using append_butlast_last_id [OF assms(7)] assms(12) by metis
  let ?n = max_attempts
  let ?c = "failed_logins kv ?n base pre c" and ?m = "failed_effects ?n base pre m"
  have own: "normalize_identifier login = i" "\<forall>x \<in> set pre. normalize_identifier (fst x) = i"
    using assms(6) by (simp_all add: ops)
  have times: "sorted (t # map login_time pre @ [t'])" using assms(10) by (simp add: ops)
  have count: "failures i t' ?m = ?n - 1"
    using burst_counts [of pre i "(login, ip, t')" m 0 ?n base] own(2) assms(5,8,9,11) by (simp add: ops)
  have "last (t # map login_time pre) \<le> t'" "sorted (t # map login_time pre)"
    using times by (auto simp: sorted_append last_map)
  then have s: "sees t' ?c ?m"
    using kv_store.later [OF assms(1) kv_store.failed_logins_refine [OF assms(1,2,4)]] by blast
  let ?sec = "lockout_seconds i base t' ?m" and ?m' = "failed_effect i ip ?n base t' ?m"
  obtain c' where c': "record_failed_login kv login ip ?n base t' ?c = (Inr (failed_answer i ?n base t' ?m), c')" "sees t' c' ?m'"
    using kv_store.failed_login_refines [OF assms(1) s assms(4) own(1), of ip ?n] by blast
  have "failed_answer i ?n base t' ?m = (?n, True, ?sec)"
    using count assms(5) by (simp add: failed_answer_def failures_def Let_def)
  then have answer: "fst (record_failed_login kv login ip ?n base t' ?c) = Inr (?n, True, ?sec)" using c'(1) by simp
  have "failed_logins kv ?n base ops c = c'"
    using failed_logins_snoc [of kv ?n base pre "(login, ip, t')" c] c'(1) by (simp add: ops)
  moreover have "fst (is_account_locked kv login' ip' now c') = Inr (True, t' + ?sec - now)"
    if "t' \<le> now" "now < t' + ?sec" "normalize_identifier login' = i" for now ip' login'
  proof -
    have "expiring ?m'" using assms(3) by (intro expiring_failed_effect expiring_failed_effects)
    moreover have "locked_answer i ip' now ?m' = (True, t' + ?sec - now)"
      using lock_set [of i ?n t' ?m ip base] count assms(5) that by (simp add: locked_answer_def time_left_def)
    ultimately show ?thesis
      using kv_store.locked_refines [OF assms(1) kv_store.later [OF assms(1) c'(2) that(1)] _ that(3), of ip'] by auto
  qed
  moreover have "?sec \<in> {base, 2 * base, 4 * base, 8 * base}" by (simp add: lockout_seconds_def lockout_multiplier_def)
  moreover have "butlast ops = pre" by (simp add: ops)
  ultimately show ?thesis using answer by (intro bexI [of _ ?sec]) simp_all
qed


definition sample_client :: "store client" where
  "sample_client = \<lparr> cl_connected = False, cl_is_production = False, cl_memory = Map.empty, cl_server = Map.empty \<rparr>"

lemma sample_client_sees: "memory_sees t sample_client Map.empty" "expiring Map.empty"
  by (simp_all add: memory_sees_def sample_client_def expiring_def)

definition sample_guesses :: "login list" where
  "sample_guesses = [(''Asha@ofc.in'', ''10.0.0.1'', 10), (''asha@ofc.in'', ''10.0.0.2'', 20), ('' asha@ofc.in'', ''unknown'', 30)]"

theorem brute_force_locked_witness:
  "\<exists>seconds \<in> {900, 2 * 900, 4 * 900, 8 * 900}.
    fst (record_failed_login (redis_kv map_server) '' asha@ofc.in'' ''unknown'' 3 900 30
      (failed_logins (redis_kv map_server) 3 900 (butlast sample_guesses) sample_client)) = Inr (3, True, seconds) \<and>
    fst (is_account_locked (redis_kv map_server) ''asha@ofc.in'' ''10.0.0.9'' 100
      (failed_logins (redis_kv map_server) 3 900 sample_guesses sample_client)) = Inr (True, 30 + seconds - 100)"
proof -
  have n: "normalize_identifier ''asha@ofc.in'' = ''asha@ofc.in''"
    "\<forall>l \<in> set sample_guesses. normalize_identifier (fst l) = ''asha@ofc.in''"
    "failures ''asha@ofc.in'' (login_time (hd sample_guesses)) Map.empty = 0"
    by code_simp+
  have s: "sample_guesses \<noteq> []" "int (length sample_guesses) = 3" "sorted (0 # map login_time sample_guesses)"
    "successively (\<lambda>a b. login_time b < login_time a + 1800) sample_guesses"
    "last sample_guesses = ('' asha@ofc.in'', ''unknown'', 30)"
    by (simp_all add: sample_guesses_def)
  have "0 < (900 :: int)" "''asha@ofc.in'' \<noteq> []" by simp_all
  from brute_force_locked [OF fallback.kv_store_axioms [of map_server] sample_client_sees this(1) this(2) n(2) s(1,2) n(3) s(3-5)]
  obtain seconds where "seconds \<in> {900, 2 * 900, 4 * 900, 8 * 900 :: int}"
    "fst (record_failed_login (redis_kv map_server) '' asha@ofc.in'' ''unknown'' 3 900 30
      (failed_logins (redis_kv map_server) 3 900 (butlast sample_guesses) sample_client)) = Inr (3, True, seconds)"
    "\<forall>now ip' login'. 30 \<le> now \<longrightarrow> now < 30 + seconds \<longrightarrow> normalize_identifier login' = ''asha@ofc.in'' \<longrightarrow>
      fst (is_account_locked (redis_kv map_server) login' ip' now
        (failed_logins (redis_kv map_server) 3 900 sample_guesses sample_client)) = Inr (True, 30 + seconds - now)"
    by blast
  moreover from this(1) have "(100 :: int) < 30 + seconds" by auto
  ultimately show ?thesis using n(1) by (intro bexI [of _ seconds]) simp_all
qed

section \<open>Lockouts of a day grow\<close>

text \<open>The tier of an identifier is at least \<open>k\<close> until \<open>T\<close>.\<close>

definition tier_until :: "string \<Rightarrow> int \<Rightarrow> timestamp \<Rightarrow> store \<Rightarrow> bool" where
  "tier_until i k T m \<longleftrightarrow> (\<exists>j x. m (tier_key i) = Some (int_str j, Some x) \<and> k \<le> j \<and> j \<le> 4 \<and> T \<le> x)"

lemma tier_untilI:
  "m (tier_key i) = Some (int_str j, Some x) \<Longrightarrow> k \<le> j \<Longrightarrow> j \<le> 4 \<Longrightarrow> T \<le> x \<Longrightarrow> tier_until i k T m"
  by (auto simp: tier_until_def)

lemma tier_until_value:
  assumes "tier_until i k T m" "t < T" "1 \<le> k"
  shows "k \<le> tier_of (value_at t (m (tier_key i)))" "tier_of (value_at t (m (tier_key i))) \<le> 4"
  using assms by (auto simp: tier_until_def value_at_def alive_def tier_of_def)

lemma tier_until_failed:
  assumes "tier_until i k T m" "t < T" "T \<le> t + 86400" "1 \<le> k"
  shows "tier_until i k T (failed_effect i' ip n base t m)"
proof (cases "i' = i \<and> i \<noteq> [] \<and> n \<le> failures i t m + 1")
  case True
  let ?tier = "tier_of (value_at t (m (tier_key i)))"
  have "failed_effect i' ip n base t m (tier_key i) = Some (int_str (min 4 (?tier + 1)), Some (t + 86400))"
    using True by (simp add: failed_effect_def locked_out_def Let_def failures_def bumped_def)
  moreover have "k \<le> min 4 (?tier + 1)" using tier_until_value [OF assms(1,2,4)] by simp
  ultimately show ?thesis using assms(3) by (intro tier_untilI) auto
next
  case False
  then have "failed_effect i' ip n base t m (tier_key i) = m (tier_key i)"
    by (auto simp: failed_effect_def locked_out_def Let_def failures_def bumped_def)
  then show ?thesis using assms(1) by (simp add: tier_until_def)
qed

lemma tier_until_trace:
  assumes "tier_until i k T m" "1 \<le> k" "\<forall>l \<in> set ops. login_time l < T \<and> T \<le> login_time l + 86400"
  shows "tier_until i k T (failed_effects n base ops m)"
  using assms
proof (induction ops arbitrary: m)
  case (Cons op ops)
  obtain login ip t where op: "op = (login, ip, t)" by (cases op)
  have "tier_until i k T (failed_effect (normalize_identifier login) ip n base t m)"
    using Cons.prems op by (intro tier_until_failed) auto
  from Cons.IH [OF this] show ?case using Cons.prems by (simp add: op failed_effects_def)
qed (simp add: failed_effects_def)

lemma tier_after_lock:
  assumes "i \<noteq> []" "n \<le> failures i t m + 1"
  shows "tier_until i (min 4 (tier_of (value_at t (m (tier_key i))) + 1)) (t + 86400) (failed_effect i ip n base t m)"
  using assms by (intro tier_untilI [of _ _ "min 4 (tier_of (value_at t (m (tier_key i))) + 1)" "t + 86400"])
    (simp_all add: failed_effect_def locked_out_def Let_def failures_def bumped_def)

lemma tier_range: "1 \<le> tier_of v" "tier_of v \<le> 4" by (simp_all add: tier_of_def)

lemma multiplier_mono: "1 \<le> a \<Longrightarrow> a \<le> b \<Longrightarrow> lockout_multiplier a \<le> lockout_multiplier b"
  by (auto simp: lockout_multiplier_def)

lemma multiplier_doubles: "1 \<le> a \<Longrightarrow> a \<le> 4 \<Longrightarrow> lockout_multiplier (min 4 (a + 1)) = min 8 (2 * lockout_multiplier a)"
  by (auto simp: lockout_multiplier_def)

text \<open>
  The lockouts of a day grow. After a lockout of an identifier, whatever other logins fail, the next
  lockout of the same identifier within a day lasts at least twice as long, up to eight times the base
  time and never more.
\<close>

theorem lockouts_grow:
  assumes "kv_store kv sees" "sees t c m" "0 < base"
    and "normalize_identifier login = i" "normalize_identifier login' = i"
    and "record_failed_login kv login ip n base t c = (Inr (k, True, d), c1)"
    and "sorted (t # map login_time ops @ [t'])" "t' < t + 86400"
    and "record_failed_login kv login' ip' n base t' (failed_logins kv n base ops c1) = (Inr (k', True, d'), c2)"
  shows "min (8 * base) (2 * d) \<le> d' \<and> d' \<le> 8 * base"
proof -
  let ?m1 = "failed_effect i ip n base t m" and ?tier = "tier_of (value_at t (m (tier_key i)))"
  have a: "failed_answer i n base t m = (k, True, d)" and s1: "sees t c1 ?m1"
    using kv_store.failed_login_refines [OF assms(1,2,3,4), of ip n] assms(6) by auto
  have i: "i \<noteq> []" "n \<le> failures i t m + 1" and d: "d = base * lockout_multiplier ?tier"
    using a by (auto simp: failed_answer_def failures_def lockout_seconds_def Let_def split: if_splits)
  let ?m2 = "failed_effects n base ops ?m1"
  have times: "sorted (t # map login_time ops)" "last (t # map login_time ops) \<le> t'"
      "\<forall>l \<in> set ops. t \<le> login_time l \<and> login_time l \<le> t'"
    using assms(7) by (auto simp: sorted_append last_map)
  have s2: "sees t' (failed_logins kv n base ops c1) ?m2"
    using kv_store.later [OF assms(1) kv_store.failed_logins_refine [OF assms(1) s1 assms(3) times(1)] times(2)] .
  have "tier_until i (min 4 (?tier + 1)) (t + 86400) ?m2"
    using tier_range(1) [of "value_at t (m (tier_key i))"] times(3) assms(8)
    by (intro tier_until_trace tier_after_lock i) auto
  from tier_until_value [OF this assms(8)] tier_range(1) [of "value_at t (m (tier_key i))"]
  have tier: "min 4 (?tier + 1) \<le> tier_of (value_at t' (?m2 (tier_key i)))" by simp
  have d': "d' = base * lockout_multiplier (tier_of (value_at t' (?m2 (tier_key i))))"
    using kv_store.failed_login_refines [OF assms(1) s2 assms(3,5), of ip' n] assms(9) i(1)
    by (auto simp: failed_answer_def lockout_seconds_def Let_def split: if_splits)
  have "min 8 (2 * lockout_multiplier ?tier) \<le> lockout_multiplier (tier_of (value_at t' (?m2 (tier_key i))))"
    using multiplier_mono [OF _ tier] multiplier_doubles [OF tier_range, of "value_at t (m (tier_key i))"]
      tier_range(1) [of "value_at t (m (tier_key i))"] by simp
  then have "base * min 8 (2 * lockout_multiplier ?tier) \<le> d'" unfolding d' using assms(3) by (intro mult_left_mono) auto
  moreover have "base * min 8 (2 * lockout_multiplier ?tier) = min (8 * base) (2 * d)"
    using assms(3) by (simp add: d min_mult_distrib_left mult.commute mult.left_commute)
  moreover have "d' \<le> 8 * base" unfolding d' using assms(3) by (simp add: lockout_multiplier_def)
  ultimately show ?thesis by simp
qed


lemma sample_lockouts:
  "fst (record_failed_login (redis_kv map_server) ''a@b'' [] 1 900 10 sample_client) = Inr (1, True, 900)"
  "fst (record_failed_login (redis_kv map_server) ''A@b'' [] 1 900 5000
     (failed_logins (redis_kv map_server) 1 900 [(''c@d'', ''10.0.0.1'', 20)]
       (snd (record_failed_login (redis_kv map_server) ''a@b'' [] 1 900 10 sample_client)))) = Inr (1, True, 1800)"
  "normalize_identifier ''A@b'' = ''a@b''" "normalize_identifier ''a@b'' = ''a@b''"
  by code_simp+

theorem lockouts_grow_witness:
  "\<exists>d d' c2. fst (record_failed_login (redis_kv map_server) ''a@b'' [] 1 900 10 sample_client) = Inr (1, True, d) \<and>
    record_failed_login (redis_kv map_server) ''A@b'' [] 1 900 5000
     (failed_logins (redis_kv map_server) 1 900 [(''c@d'', ''10.0.0.1'', 20)]
       (snd (record_failed_login (redis_kv map_server) ''a@b'' [] 1 900 10 sample_client))) = (Inr (1, True, d'), c2) \<and>
    min (8 * 900) (2 * d) \<le> d' \<and> d' \<le> 8 * 900"
proof -
  obtain c1 where c1: "record_failed_login (redis_kv map_server) ''a@b'' [] 1 900 10 sample_client = (Inr (1, True, 900), c1)"
    using sample_lockouts(1) by (metis prod.collapse)
  obtain c2 where c2: "record_failed_login (redis_kv map_server) ''A@b'' [] 1 900 5000
     (failed_logins (redis_kv map_server) 1 900 [(''c@d'', ''10.0.0.1'', 20)] c1) = (Inr (1, True, 1800), c2)"
    using sample_lockouts(2) unfolding c1 snd_conv by (metis prod.collapse)
  have "min (8 * 900) (2 * 900) \<le> (1800 :: int) \<and> (1800 :: int) \<le> 8 * 900"
    by (rule lockouts_grow [OF fallback.kv_store_axioms sample_client_sees(1) _ sample_lockouts(4,3) c1 _ _ c2]) simp_all
  then show ?thesis using c1 c2 by fastforce
qed

section \<open>Password spraying\<close>

text \<open>
  The failures of an address are counted, but only the count of the identifier is compared with the
  limit: whoever tries each identifier once is never locked out, from one address or from many.
\<close>

lemma first_failure:
  assumes "m (attempt_key i) = None" "1 < n"
  shows "failed_effect i ip n base t m (lock_key j) = m (lock_key j)"
    "failed_effect i ip n base t m (ip_lock_key jp) = m (ip_lock_key jp)"
    "j \<noteq> i \<Longrightarrow> failed_effect i ip n base t m (attempt_key j) = m (attempt_key j)"
  using assms by (simp_all add: failed_effect_def bumped_def value_at_def int_or_def Let_def)

lemma spraying_effect:
  assumes "distinct (map (\<lambda>l. normalize_identifier (fst l)) ops)" "1 < n"
    "\<forall>l \<in> set ops. m (attempt_key (normalize_identifier (fst l))) = None"
  shows "failed_effects n base ops m (lock_key j) = m (lock_key j) \<and>
    failed_effects n base ops m (ip_lock_key jp) = m (ip_lock_key jp)"
  using assms
proof (induction ops arbitrary: m)
  case (Cons op ops)
  obtain login ip t where op: "op = (login, ip, t)" by (cases op)
  note first = first_failure [of m "normalize_identifier login" n, OF _ Cons.prems(2)]
  have "\<forall>l \<in> set ops. failed_effect (normalize_identifier login) ip n base t m (attempt_key (normalize_identifier (fst l))) = None"
  proof
    fix l assume l: "l \<in> set ops"
    then have "normalize_identifier (fst l) \<noteq> normalize_identifier login"
      using Cons.prems(1) op by (auto simp: image_iff)
    then show "failed_effect (normalize_identifier login) ip n base t m (attempt_key (normalize_identifier (fst l))) = None"
      using Cons.prems(3) l op first(3) by simp
  qed
  from Cons.IH [OF _ Cons.prems(2) this] show ?case
    using Cons.prems op first(1,2) by (simp add: failed_effects_def)
qed (simp add: failed_effects_def)

lemma password_spraying_never_locked:
  assumes "kv_store kv sees" "sees t c Map.empty" "0 < base" "1 < n"
    "distinct (map (\<lambda>l. normalize_identifier (fst l)) ops)" "sorted (t # map login_time ops)"
    "last (t # map login_time ops) \<le> now"
  shows "fst (is_account_locked kv login ip now (failed_logins kv n base ops c)) = Inr (False, 0)"
proof -
  let ?m = "failed_effects n base ops Map.empty"
  have s: "sees now (failed_logins kv n base ops c) ?m"
    by (rule kv_store.later [OF assms(1) kv_store.failed_logins_refine [OF assms(1,2,3,6)] assms(7)])
  have "?m (lock_key j) = None \<and> ?m (ip_lock_key jp) = None" for j jp
    using spraying_effect [OF assms(5,4), of Map.empty] by simp
  then have "locked_answer (normalize_identifier login) ip now ?m = (False, 0)"
    by (simp add: locked_answer_def time_left_def)
  then show ?thesis
    using kv_store.locked_refines [OF assms(1) s expiring_failed_effects refl, of login ip] sample_client_sees(2) by auto
qed

section \<open>Spellings of a phone number\<close>

definition phone_text :: "string \<Rightarrow> bool" where
  "phone_text s \<longleftrightarrow> list_all (\<lambda>c. c = CHR ''+'' \<or> phone_noise c \<or> is_digits [c]) s"

lemma phone_char:
  assumes "c = CHR ''+'' \<or> phone_noise c \<or> is_digits [c]"
  shows "low_char c = c" "c \<noteq> CHR ''@''"
proof -
  have n: "(of_char c :: nat) \<le> 57"
    using assms by (auto simp: phone_noise_def is_digits_def is_space_def Let_def)
  then show "low_char c = c" by (simp add: low_char_def Let_def)
  show "c \<noteq> CHR ''@''" using n by auto
qed

lemma filter_dropWhile: "(\<And>x. P x \<Longrightarrow> \<not> Q x) \<Longrightarrow> filter Q (dropWhile P xs) = filter Q xs"
  by (induction xs) auto

lemma filter_py_strip: "filter (\<lambda>c. \<not> phone_noise c) (py_strip s) = filter (\<lambda>c. \<not> phone_noise c) s"
  unfolding py_strip_def by (simp add: rev_filter [symmetric] filter_dropWhile phone_noise_def)

lemma set_py_strip: "set (py_strip s) \<subseteq> set s"
  unfolding py_strip_def by (auto dest!: set_dropWhileD)

lemma normalize_phone:
  assumes "phone_text s"
  shows "normalize_identifier s = without_country_code (filter (\<lambda>c. \<not> phone_noise c) s)"
proof -
  have chars: "\<forall>c \<in> set (py_strip s). low_char c = c \<and> c \<noteq> CHR ''@''"
  proof
    fix c assume "c \<in> set (py_strip s)"
    then have "c = CHR ''+'' \<or> phone_noise c \<or> is_digits [c]"
      using assms set_py_strip [of s] by (auto simp: phone_text_def list_all_iff)
    from phone_char [OF this] show "low_char c = c \<and> c \<noteq> CHR ''@''" ..
  qed
  then have "py_lower (py_strip s) = py_strip s" by (simp add: py_lower_def map_idI)
  moreover have "CHR ''@'' \<notin> set (py_strip s)" using chars by blast
  ultimately show ?thesis
    by (cases "s = []") (simp_all add: normalize_identifier_def filter_py_strip without_country_code_def del: not_None_eq)
qed

text \<open>
  The spellings of a phone number are one identifier. A ten-digit number counts under the same
  identifier with the prefixes +91, 91 and 0 and with any blanks, hyphens, points and brackets.
\<close>

theorem phone_spellings_agree:
  assumes "phone_text s" "length d = 10" "is_digits d"
    "filter (\<lambda>c. \<not> phone_noise c) s \<in> {d, ''+91'' @ d, ''91'' @ d, ''0'' @ d}"
  shows "normalize_identifier s = d"
proof -
  have "CHR ''+'' \<notin> set d" using assms(3) by (auto simp: is_digits_def list_all_iff)
  then have "take 3 d \<noteq> ''+91''" by (metis in_set_takeD list.set_intros(1))
  then have "without_country_code d = d" using assms(2) by (simp add: without_country_code_def)
  note bare = this
  have codes: "without_country_code (''+91'' @ d) = d" "without_country_code (''91'' @ d) = d"
    "without_country_code (''0'' @ d) = d"
    using assms(2) by (simp_all add: without_country_code_def)
  consider "filter (\<lambda>c. \<not> phone_noise c) s = d" | "filter (\<lambda>c. \<not> phone_noise c) s = ''+91'' @ d"
      | "filter (\<lambda>c. \<not> phone_noise c) s = ''91'' @ d" | "filter (\<lambda>c. \<not> phone_noise c) s = ''0'' @ d"
    using assms(4) by blast
  then show ?thesis unfolding normalize_phone [OF assms(1)] by cases (simp_all only: bare codes)
qed

theorem phone_spellings_agree_witness:
  "normalize_identifier ''+91 (98765) 432-10'' = ''9876543210''"
proof -
  have "phone_text ''+91 (98765) 432-10''" "is_digits ''9876543210''"
    "filter (\<lambda>c. \<not> phone_noise c) ''+91 (98765) 432-10'' = ''+91'' @ ''9876543210''"
    by code_simp+
  then show ?thesis using phone_spellings_agree [of "''+91 (98765) 432-10''" "''9876543210''"] by simp
qed

end
