(* ===== verification/Sessions.thy ===== *)
theory Sessions
  imports Lockout
begin

text \<open>
  Sessions: the block list of access tokens in \<open>redis_client.py\<close> with the check of
  \<open>middleware/auth.py\<close>, and the rotation of refresh tokens in \<open>token_service.py\<close> with
  \<open>auth_repository.py\<close>. The JWT library and the hash function are arguments: a token is known by
  its hash, and \<open>decoded\<close> says whether the library accepts it as a refresh token.
\<close>

section \<open>The block list of access tokens\<close>

definition blacklist_key :: "(string \<Rightarrow> string) \<Rightarrow> string \<Rightarrow> string" where
  "blacklist_key h token = ''blacklist:token:'' @ h token"

definition revoked_key :: "string \<Rightarrow> string" where
  "revoked_key user = ''revoked_before:user:'' @ user"

text \<open>\<open>int(text)\<close>, None for a \<open>ValueError\<close>.\<close>

definition py_int :: "string \<Rightarrow> int option" where
  "py_int s =
     (case py_strip s of
        [] \<Rightarrow> None
      | c # cs \<Rightarrow>
          if c = CHR ''-'' then (if is_digits cs then Some (- foldl digit_step 0 cs) else None)
          else if c = CHR ''+'' then (if is_digits cs then Some (foldl digit_step 0 cs) else None)
          else if is_digits (c # cs) then Some (foldl digit_step 0 (c # cs)) else None)"

definition blacklist_token :: "(string \<Rightarrow> string) \<Rightarrow> 'c kv \<Rightarrow> string \<Rightarrow> int \<Rightarrow> timestamp \<Rightarrow> ('c, bool) kv_op" where
  "blacklist_token h kv token ttl now =
     (if token = [] \<or> ttl \<le> 0 then give False else kv_set kv (blacklist_key h token) ''1'' (Some ttl) now)"

definition is_token_blacklisted :: "(string \<Rightarrow> string) \<Rightarrow> 'c kv \<Rightarrow> string \<Rightarrow> timestamp \<Rightarrow> ('c, bool) kv_op" where
  "is_token_blacklisted h kv token now =
     (if token = [] then give False else then_do (kv_get kv (blacklist_key h token) now) (\<lambda>v. give (v \<noteq> None)))"

definition revoke_user_tokens :: "'c kv \<Rightarrow> string \<Rightarrow> int \<Rightarrow> timestamp \<Rightarrow> ('c, bool) kv_op" where
  "revoke_user_tokens kv user ttl now =
     (if user = [] then give False else kv_set kv (revoked_key user) (int_str now) (Some ttl) now)"

definition get_user_revoked_before :: "'c kv \<Rightarrow> string \<Rightarrow> timestamp \<Rightarrow> ('c, int option) kv_op" where
  "get_user_revoked_before kv user now =
     (if user = [] then give None
      else then_do (kv_get kv (revoked_key user) now) (\<lambda>v. give (Option.bind v py_int)))"

text \<open>Both questions in one round trip. The fallback does not look at the expiry of a listed token.\<close>

definition check_token_state ::
  "(string \<Rightarrow> string) \<Rightarrow> 'r server \<Rightarrow> string \<Rightarrow> string \<Rightarrow> timestamp \<Rightarrow> ('r client, bool \<times> int option) kv_op" where
  "check_token_state h S token user now =
     (if token = [] \<or> user = [] then give (False, None)
      else with_server
        (then_do (sv_get S (blacklist_key h token) now) (\<lambda>listed.
           then_do (sv_get S (revoked_key user) now) (\<lambda>revoked. give (listed \<noteq> None, Option.bind revoked py_int))))
        (\<lambda>c. (Inr (cl_memory c (blacklist_key h token) \<noteq> None,
                    Option.bind (value_at now (cl_memory c (revoked_key user))) py_int), c)))"

record token_claims =
  ck_type :: string
  ck_sub :: "string option"
  ck_iat :: int

datatype auth_error = Refused int string | Failed kv_error

definition refused_session :: auth_error where
  "refused_session = Refused 401 ''Invalid or expired login session. Please login again.''"

text \<open>The token of the credentials, or of the header without its \<open>bearer\<close>.\<close>

definition bearer_token :: "string option \<Rightarrow> string option \<Rightarrow> string" where
  "bearer_token credentials auth_header =
     (if or_str credentials [] \<noteq> [] then or_str credentials []
      else let header = py_strip (or_str auth_header [])
           in if take 7 (py_lower header) = ''bearer '' then py_strip (drop 7 header) else [])"

definition py_in :: "string \<Rightarrow> string \<Rightarrow> bool" where
  "py_in p s = list_ex (\<lambda>i. take (length p) (drop i s) = p) [0..<Suc (length s)]"

text \<open>How the text of a \<open>ValueError\<close> of the decoder is answered.\<close>

definition refused_decoding :: "string \<Rightarrow> auth_error" where
  "refused_decoding err =
     (if py_in ''expired'' (py_lower err) then Refused 401 ''Access token has expired. Please refresh session.''
      else if py_in ''signature'' (py_lower err) then Refused 401 ''Invalid JWT signature.''
      else Refused 401 ''Invalid access token.'')"

text \<open>\<open>decode\<close> gives the claims, or the text of the \<open>ValueError\<close>.\<close>

definition get_current_user_claims ::
  "(string \<Rightarrow> string) \<Rightarrow> 'r server \<Rightarrow> (string \<Rightarrow> string + token_claims) \<Rightarrow> string option \<Rightarrow> string option \<Rightarrow> timestamp
    \<Rightarrow> 'r client \<Rightarrow> (auth_error + token_claims) \<times> 'r client"
where
  "get_current_user_claims h S decode credentials auth_header now c =
     (let token = bearer_token credentials auth_header
      in if token = [] then (Inl (Refused 401 ''Not authenticated. Please provide a valid Bearer token.''), c)
         else case decode token of
           Inl err \<Rightarrow> (Inl (refused_decoding err), c)
         | Inr k \<Rightarrow>
             if ck_type k \<noteq> ''access'' then (Inl (Refused 401 ''Invalid token type. Expected access token.''), c)
             else
               (case (if or_str (ck_sub k) [] = [] then give (False, None)
                      else check_token_state h S token (or_str (ck_sub k) []) now) c of
                  (Inl e, c') \<Rightarrow> (Inl (Failed e), c')
                | (Inr (listed, revoked_before), c') \<Rightarrow>
                    if listed then (Inl refused_session, c')
                    else if (case revoked_before of None \<Rightarrow> False | Some b \<Rightarrow> ck_iat k \<le> b) then (Inl refused_session, c')
                    else if cl_is_production c' \<and> \<not> cl_connected c'
                    then (Inl (Refused 503 ''Authentication service temporarily unavailable. Please try again.''), c')
                    else (Inr k, c')))"

section \<open>Revoked access\<close>

lemma token_keys [simp]:
  "blacklist_key h token \<noteq> attempt_key i" "blacklist_key h token \<noteq> ip_attempt_key i" "blacklist_key h token \<noteq> lock_key i"
  "blacklist_key h token \<noteq> ip_lock_key i" "blacklist_key h token \<noteq> tier_key i"
  "revoked_key user \<noteq> attempt_key i" "revoked_key user \<noteq> ip_attempt_key i" "revoked_key user \<noteq> lock_key i"
  "revoked_key user \<noteq> ip_lock_key i" "revoked_key user \<noteq> tier_key i" "revoked_key user \<noteq> blacklist_key h token"
  "blacklist_key h token \<noteq> revoked_key user"
  by (simp_all add: blacklist_key_def revoked_key_def attempt_key_def ip_attempt_key_def lock_key_def ip_lock_key_def
      tier_key_def)

lemma failed_effect_tokens [simp]:
  "failed_effect i ip n base t m (blacklist_key h token) = m (blacklist_key h token)"
  "failed_effect i ip n base t m (revoked_key user) = m (revoked_key user)"
  by (simp_all add: failed_effect_def locked_out_def bumped_def Let_def)

lemma failed_effects_tokens [simp]:
  "failed_effects n base ops m (blacklist_key h token) = m (blacklist_key h token)"
  "failed_effects n base ops m (revoked_key user) = m (revoked_key user)"
  by (induction ops arbitrary: m) (auto simp: failed_effects_def)

lemma nat_digits_hd: "\<exists>c cs. nat_digits n = c # cs \<and> \<not> is_space c \<and> c \<noteq> CHR ''-'' \<and> c \<noteq> CHR ''+''"
proof -
  have d: "is_digits (nat_digits n)" by (rule is_digits_nat_digits)
  then obtain c cs where c: "nat_digits n = c # cs" by (cases "nat_digits n") (auto simp: is_digits_def)
  then have "48 \<le> (of_char c :: nat) \<and> (of_char c :: nat) \<le> 57" using d by (simp add: is_digits_def)
  then show ?thesis using c by (auto simp: is_space_def Let_def)
qed

lemma digits_not_space: "is_digits s \<Longrightarrow> list_all (\<lambda>c. \<not> is_space c) s"
  by (auto simp: is_digits_def list_all_iff is_space_def Let_def)

lemma dropWhile_none: "list_all (\<lambda>c. \<not> P c) s \<Longrightarrow> dropWhile P s = s"
  by (cases s) auto

lemma py_strip_digits: "is_digits s \<Longrightarrow> py_strip s = s"
  using digits_not_space [of s] by (simp add: py_strip_def dropWhile_none)

lemma py_int_int_str: "0 \<le> n \<Longrightarrow> py_int (int_str n) = Some n"
  using nat_digits_hd [of "nat n"] is_digits_nat_digits [of "nat n"] nat_digits_value [of "nat n"]
  by (auto simp: py_int_def int_str_def py_strip_digits)

context expiring_server
begin

lemma is_kv_store: "kv_store (redis_kv S) (connected_sees holds)"
  by (rule connected.kv_store_axioms)

lemma check_refines:
  assumes "connected_sees holds t c m" "token \<noteq> []" "user \<noteq> []"
  shows "\<exists>c'. check_token_state h S token user t c =
      (Inr (value_at t (m (blacklist_key h token)) \<noteq> None, Option.bind (value_at t (m (revoked_key user))) py_int), c') \<and>
    connected_sees holds t c' m"
proof -
  have con: "cl_connected c" "holds t (cl_server c) m" using assms(1) by (simp_all add: connected_sees_def)
  obtain r1 where r1: "sv_get S (blacklist_key h token) t (cl_server c) = (Inr (value_at t (m (blacklist_key h token))), r1)"
    "holds t r1 m" using sv_get [OF con(2)] by blast
  obtain r2 where r2: "sv_get S (revoked_key user) t r1 = (Inr (value_at t (m (revoked_key user))), r2)" "holds t r2 m"
    using sv_get [OF r1(2)] by blast
  show ?thesis using assms(2,3) con(1) r1 r2
    by (auto simp: check_token_state_def with_server_def connected_sees_def)
qed

end

text \<open>
  C29: logging out and revoking end the access. With a server that keeps its contract, an access token
  that was put on the block list is refused until its listing ends, and after the tokens of a user were
  revoked every token issued up to that second is refused until the revocation expires, whatever logins
  fail in between.
\<close>

theorem revoked_access_refused:
  assumes "expiring_server S holds" "connected_sees holds t c m" "0 < base" "0 < ttl"
    and "decode token = Inr k" "ck_sub k = Some user" "user \<noteq> []" "token \<noteq> []"
    and "c1 = snd (blacklist_token h (redis_kv S) token ttl t c) \<or>
      c1 = snd (revoke_user_tokens (redis_kv S) user ttl t c) \<and> ck_iat k \<le> t \<and> 0 \<le> t"
    and "sorted (t # map login_time ops @ [now])" "now < t + ttl"
  shows "\<exists>message. fst (get_current_user_claims h S decode (Some token) header now
      (failed_logins (redis_kv S) n base ops c1)) =
    Inl (Refused 401 message)"
proof -
  let ?kv = "redis_kv S" and ?sees = "connected_sees holds" and ?c2 = "failed_logins (redis_kv S) n base ops c1"
  note kv = expiring_server.is_kv_store [OF assms(1)]
  obtain m1 where m1: "?sees t c1 m1"
    and entry: "m1 (blacklist_key h token) = Some (''1'', Some (t + ttl)) \<or>
      m1 (revoked_key user) = Some (int_str t, Some (t + ttl)) \<and> ck_iat k \<le> t \<and> 0 \<le> t"
    using kv_store.set [OF kv assms(2,4), of "blacklist_key h token" "''1''"]
      kv_store.set [OF kv assms(2,4), of "revoked_key user" "int_str t"] assms(4,7,8,9)
    by (fastforce simp: blacklist_token_def revoke_user_tokens_def)
  have times: "sorted (t # map login_time ops)" "last (t # map login_time ops) \<le> now"
    using assms(10) by (auto simp: sorted_append last_map)
  let ?m2 = "failed_effects n base ops m1"
  have s2: "?sees now ?c2 ?m2"
    by (rule kv_store.later [OF kv kv_store.failed_logins_refine [OF kv m1 assms(3) times(1)] times(2)])
  let ?listed = "value_at now (?m2 (blacklist_key h token)) \<noteq> None"
  let ?before = "Option.bind (value_at now (?m2 (revoked_key user))) py_int"
  obtain c3 where c3: "check_token_state h S token user now ?c2 = (Inr (?listed, ?before), c3)"
    using expiring_server.check_refines [OF assms(1) s2 assms(8,7)] by blast
  have "?listed \<or> (\<exists>b. ?before = Some b \<and> ck_iat k \<le> b)"
    using entry assms(11) by (auto simp: value_at_def alive_def py_int_int_str)
  then show ?thesis
    using c3 assms(5-8) by (auto simp: get_current_user_claims_def bearer_token_def refused_session_def)
qed

text \<open>A session of a connected machine: a token that is revoked, two failed logins, and the token again.\<close>

definition online_client :: "store client" where
  "online_client = \<lparr> cl_connected = True, cl_is_production = True, cl_memory = Map.empty, cl_server = Map.empty \<rparr>"

definition sample_decode :: "string \<Rightarrow> string + token_claims" where
  "sample_decode token = Inr \<lparr> ck_type = ''access'', ck_sub = Some ''7'', ck_iat = 90 \<rparr>"

theorem revoked_access_refused_witness:
  "\<exists>message. fst (get_current_user_claims id map_server sample_decode (Some ''t'') None 140
     (failed_logins (redis_kv map_server) 5 900 [(''7@x'', ''10.0.0.1'', 110), (''8@x'', ''10.0.0.1'', 120)]
       (snd (revoke_user_tokens (redis_kv map_server) ''7'' 300 100 online_client)))) = Inl (Refused 401 message)"
  by (rule revoked_access_refused [OF map_server.expiring_server_axioms, where k = "\<lparr> ck_type = ''access'', ck_sub = Some ''7'', ck_iat = 90 \<rparr>"
        and user = "''7''" and c = online_client and ttl = 300 and t = 100 and m = Map.empty])
    (simp_all add: connected_sees_def online_client_def sample_decode_def)

end
