(* ===== verification/Refresh_Tokens.thy ===== *)
theory Refresh_Tokens
  imports Sessions Models Machines
begin

text \<open>
  Refresh tokens: \<open>token_service.py\<close> with the token queries of \<open>auth_repository.py\<close>. A
  token is rotated into a new one of its family; presenting a token again is answered by a fresh pair
  within the grace time and taken for theft after it. The JWT library is an argument: a token is known
  by its hash, and \<open>decoded\<close> tells whether the library accepts it as a refresh token. The requests
  on one token are serialised by a lock of the store, so an operation is one step. The deactivation of a
  user in \<open>hr_admin_service.py\<close>, which marks tokens revoked without a time, is not an operation here.
\<close>

section \<open>The tables\<close>

record refresh_token =
  rt_id :: uuid
  rt_user_id :: uuid
  rt_token_hash :: string
  rt_family_id :: "uuid option"
  rt_parent_token_hash :: "string option"
  rt_expires_at :: timestamp
  rt_revoked :: bool
  rt_revoked_at :: "timestamp option"
  rt_revoked_reason :: "string option"
  rt_rotated_at :: "timestamp option"
  rt_replaced_by :: "string option"
  rt_updated_at :: timestamp

record user_account =
  ua_id :: uuid
  ua_is_active :: bool
  ua_is_deleted :: bool
  ua_account_status :: "string option"

record staff_profile =
  sf_user_id :: "uuid option"
  sf_is_deleted :: bool
  sf_is_active :: bool
  sf_status :: string
  sf_employment_status :: "string option"

record 'c sessions =
  ss_tokens :: "refresh_token list"
  ss_users :: "user_account list"
  ss_employees :: "staff_profile list"
  ss_managers :: "staff_profile list"
  ss_cache :: 'c

section \<open>Queries and updates\<close>

definition get_refresh_token_by_hash_raw :: "string \<Rightarrow> 'c sessions \<Rightarrow> refresh_token option" where
  "get_refresh_token_by_hash_raw h s = scalars_first (filter (\<lambda>r. rt_token_hash r = h) (ss_tokens s))"

definition get_refresh_token_by_hash :: "string \<Rightarrow> 'c sessions \<Rightarrow> refresh_token option" where
  "get_refresh_token_by_hash h s =
     scalars_first (filter (\<lambda>r. rt_token_hash r = h \<and> \<not> rt_revoked r) (ss_tokens s))"

definition user_of_token :: "refresh_token \<Rightarrow> 'c sessions \<Rightarrow> user_account option" where
  "user_of_token r s = scalars_first (filter (\<lambda>u. ua_id u = rt_user_id r) (ss_users s))"

text \<open>\<open>token_hash\<close> is unique in the table.\<close>

definition create_refresh_token ::
  "uuid \<Rightarrow> string \<Rightarrow> timestamp \<Rightarrow> uuid option \<Rightarrow> string option \<Rightarrow> timestamp \<Rightarrow> 'c sessions
    \<Rightarrow> refresh_token result \<times> 'c sessions"
where
  "create_refresh_token user h expires family parent now s =
     (if h \<in> set (map rt_token_hash (ss_tokens s)) then (Inl IntegrityError, s)
      else
        let used = List.map_filter rt_family_id (ss_tokens s);
            r = \<lparr> rt_id = fresh_id (map rt_id (ss_tokens s)), rt_user_id = user, rt_token_hash = h,
                  rt_family_id = Some (case family of Some f \<Rightarrow> f | None \<Rightarrow> fresh_id used),
                  rt_parent_token_hash = parent, rt_expires_at = expires, rt_revoked = False, rt_revoked_at = None,
                  rt_revoked_reason = None, rt_rotated_at = None, rt_replaced_by = None, rt_updated_at = now \<rparr>
        in (Inr r, s\<lparr> ss_tokens := ss_tokens s @ [r] \<rparr>))"

definition with_revocation ::
  "string option \<Rightarrow> timestamp option \<Rightarrow> string option \<Rightarrow> timestamp \<Rightarrow> refresh_token \<Rightarrow> refresh_token" where
  "with_revocation reason rotated_at replaced_by now r =
     r\<lparr> rt_revoked := True, rt_revoked_at := Some now, rt_revoked_reason := reason,
        rt_rotated_at := (if rotated_at = None then rt_rotated_at r else rotated_at),
        rt_replaced_by := (if replaced_by = None then rt_replaced_by r else replaced_by), rt_updated_at := now \<rparr>"

definition revoke_token_row ::
  "uuid \<Rightarrow> string option \<Rightarrow> timestamp option \<Rightarrow> string option \<Rightarrow> timestamp \<Rightarrow> 'c sessions \<Rightarrow> 'c sessions" where
  "revoke_token_row i reason rotated_at replaced_by now s =
     s\<lparr> ss_tokens := update_where (\<lambda>r. rt_id r = i) (with_revocation reason rotated_at replaced_by now) (ss_tokens s) \<rparr>"

definition revoke_token_family :: "uuid \<Rightarrow> string \<Rightarrow> timestamp \<Rightarrow> 'c sessions \<Rightarrow> 'c sessions" where
  "revoke_token_family family reason now s =
     s\<lparr> ss_tokens := update_where (\<lambda>r. rt_family_id r = Some family \<and> \<not> rt_revoked r)
          (\<lambda>r. r\<lparr> rt_revoked := True, rt_revoked_at := Some now, rt_revoked_reason := Some reason, rt_updated_at := now \<rparr>)
          (ss_tokens s) \<rparr>"

text \<open>The reason is an argument of the method, but it is not stored.\<close>

definition revoke_all_user_refresh_tokens :: "uuid \<Rightarrow> string option \<Rightarrow> timestamp \<Rightarrow> 'c sessions \<Rightarrow> 'c sessions" where
  "revoke_all_user_refresh_tokens user reason now s =
     s\<lparr> ss_tokens := update_where (\<lambda>r. rt_user_id r = user \<and> \<not> rt_revoked r)
          (\<lambda>r. r\<lparr> rt_revoked := True, rt_revoked_at := Some now, rt_updated_at := now \<rparr>) (ss_tokens s) \<rparr>"

section \<open>The service\<close>

definition invalid_token :: exc where "invalid_token = HTTPException 401 ''Invalid or expired refresh token.''"

definition reuse_detected :: exc where
  "reuse_detected = HTTPException 401 ''Invalid or expired refresh token. Token family revoked due to reuse detection.''"

text \<open>The new pair, known by the hash of its refresh token.\<close>

definition generate_auth_tokens ::
  "int \<Rightarrow> uuid \<Rightarrow> string \<Rightarrow> uuid option \<Rightarrow> string option \<Rightarrow> timestamp \<Rightarrow> 'c sessions \<Rightarrow> refresh_token result \<times> 'c sessions"
where
  "generate_auth_tokens lifetime user new_hash family parent now =
     create_refresh_token user new_hash (now + lifetime) family parent now"

definition revocation_time :: "refresh_token \<Rightarrow> timestamp" where
  "revocation_time r =
     (case rt_rotated_at r of Some t \<Rightarrow> t
      | None \<Rightarrow> (case rt_revoked_at r of Some t \<Rightarrow> t | None \<Rightarrow> rt_updated_at r))"

definition within_grace :: "int \<Rightarrow> timestamp \<Rightarrow> refresh_token \<Rightarrow> bool" where
  "within_grace grace now r \<longleftrightarrow>
     now - revocation_time r \<le> grace \<and> rt_revoked_reason r \<in> {None, Some ''ROTATION'', Some ''ROTATED''}"

definition usable :: "user_account option \<Rightarrow> bool" where
  "usable u = (case u of None \<Rightarrow> False | Some u \<Rightarrow> \<not> ua_is_deleted u \<and> ua_is_active u)"

definition deactivate_user :: "uuid \<Rightarrow> 'c sessions \<Rightarrow> 'c sessions" where
  "deactivate_user user s =
     s\<lparr> ss_users := update_where (\<lambda>u. ua_id u = user) (\<lambda>u. u\<lparr> ua_is_active := False \<rparr>) (ss_users s) \<rparr>"

definition suspended :: "user_account option \<Rightarrow> bool" where
  "suspended u = (case u of None \<Rightarrow> False
     | Some u \<Rightarrow> py_upper (or_str (ua_account_status u) []) \<in>
         {''SUSPENDED'', ''DEACTIVATED'', ''INACTIVE'', ''TERMINATED'', ''EXITED''})"

definition gone_status :: "string \<Rightarrow> bool" where
  "gone_status st \<longleftrightarrow>
     st \<in> {''DISABLED'', ''INACTIVE'', ''DEACTIVATED'', ''ARCHIVED'', ''TERMINATED'', ''EXITED'', ''DELETED''}"

definition manager_is_active :: "staff_profile \<Rightarrow> bool" where
  "manager_is_active p \<longleftrightarrow> \<not> sf_is_deleted p \<and> \<not> gone_status (py_upper (sf_status p))"

definition profile_refused :: "bool \<Rightarrow> staff_profile \<Rightarrow> bool" where
  "profile_refused active p \<longleftrightarrow>
     \<not> active \<or> gone_status (sf_status p) \<or> py_upper (or_str (sf_employment_status p) []) \<in> {''TERMINATED'', ''EXITED''}"

definition profile_of :: "uuid \<Rightarrow> staff_profile list \<Rightarrow> staff_profile option result" where
  "profile_of user ps = scalar_one_or_none (filter (\<lambda>p. sf_user_id p = Some user \<and> \<not> sf_is_deleted p) ps)"

text \<open>
  The presented token is revoked. Within the grace time it is answered by a fresh pair; after it the
  family and all sessions of the user are revoked, and the access tokens for five minutes.
\<close>

definition rotate_revoked ::
  "'c kv \<Rightarrow> (uuid \<Rightarrow> string) \<Rightarrow> int \<Rightarrow> int \<Rightarrow> refresh_token \<Rightarrow> string \<Rightarrow> timestamp \<Rightarrow> 'c sessions
    \<Rightarrow> refresh_token result \<times> 'c sessions"
where
  "rotate_revoked kv id_text lifetime grace r new_hash now s =
     (if within_grace grace now r
      then if usable (user_of_token r s)
           then generate_auth_tokens lifetime (rt_user_id r) new_hash (rt_family_id r) (Some (rt_token_hash r)) now s
           else (Inl invalid_token, s)
      else
        let s1 = (case rt_family_id r of
                    Some f \<Rightarrow> revoke_token_family f ''REUSE_ATTEMPT_DETECTED'' now s | None \<Rightarrow> s);
            s2 = revoke_all_user_refresh_tokens (rt_user_id r) (Some ''REUSE_ATTEMPT_DETECTED'') now s1
        in (Inl reuse_detected,
            s2\<lparr> ss_cache := snd (revoke_user_tokens kv (id_text (rt_user_id r)) 300 now (ss_cache s2)) \<rparr>))"

definition refuse_live :: "refresh_token \<Rightarrow> exc \<Rightarrow> timestamp \<Rightarrow> 'c sessions \<Rightarrow> refresh_token result \<times> 'c sessions" where
  "refuse_live r e now s = (Inl e, revoke_token_row (rt_id r) None None None now s)"

definition inactive_profile :: exc where
  "inactive_profile = HTTPException 401 ''User account or employment profile is inactive or terminated.''"

definition rotate_live ::
  "int \<Rightarrow> refresh_token \<Rightarrow> string \<Rightarrow> timestamp \<Rightarrow> 'c sessions \<Rightarrow> refresh_token result \<times> 'c sessions" where
  "rotate_live lifetime r new_hash now s =
     (if rt_expires_at r < now then refuse_live r invalid_token now s
      else if \<not> usable (user_of_token r s) then refuse_live r invalid_token now s
      else if suspended (user_of_token r s)
      then refuse_live r invalid_token now (deactivate_user (rt_user_id r) s)
      else case profile_of (rt_user_id r) (ss_employees s) of
        Inl e \<Rightarrow> (Inl e, s)
      | Inr emp \<Rightarrow>
          if (case emp of None \<Rightarrow> False | Some p \<Rightarrow> profile_refused (sf_is_active p) p)
          then refuse_live r inactive_profile now (deactivate_user (rt_user_id r) s)
          else case profile_of (rt_user_id r) (ss_managers s) of
            Inl e \<Rightarrow> (Inl e, s)
          | Inr mgr \<Rightarrow>
              if (case mgr of None \<Rightarrow> False | Some p \<Rightarrow> profile_refused (manager_is_active p) p)
              then refuse_live r inactive_profile now (deactivate_user (rt_user_id r) s)
              else
                (case generate_auth_tokens lifetime (rt_user_id r) new_hash (rt_family_id r) (Some (rt_token_hash r)) now s of
                   (Inl e, _) \<Rightarrow> (Inl e, s)
                 | (Inr new, s1) \<Rightarrow>
                     (Inr new, revoke_token_row (rt_id r) (Some ''ROTATION'') (Some now) (Some new_hash) now s1)))"

definition rotate_refresh_token ::
  "'c kv \<Rightarrow> (uuid \<Rightarrow> string) \<Rightarrow> int \<Rightarrow> int \<Rightarrow> bool \<Rightarrow> string \<Rightarrow> string \<Rightarrow> timestamp \<Rightarrow> 'c sessions
    \<Rightarrow> refresh_token result \<times> 'c sessions"
where
  "rotate_refresh_token kv id_text lifetime grace decoded h new_hash now s =
     (if \<not> decoded then (Inl invalid_token, s)
      else case get_refresh_token_by_hash_raw h s of
        None \<Rightarrow> (Inl invalid_token, s)
      | Some r \<Rightarrow>
          if rt_revoked r then rotate_revoked kv id_text lifetime grace r new_hash now s
          else rotate_live lifetime r new_hash now s)"

definition revoke_refresh_token :: "string \<Rightarrow> timestamp \<Rightarrow> 'c sessions \<Rightarrow> 'c sessions" where
  "revoke_refresh_token h now s =
     (case get_refresh_token_by_hash h s of
        None \<Rightarrow> s
      | Some r \<Rightarrow> revoke_token_row (rt_id r) (Some ''EXPLICIT_REVOCATION'') None None now s)"

section \<open>Traces\<close>

text \<open>A login, a rotation, a logout, and the end of all sessions (password change, deactivation).\<close>

datatype session_op =
    SessionLogin uuid string timestamp
  | SessionRotate bool string string timestamp
  | SessionLogout string timestamp
  | SessionRevokeAll uuid "string option" timestamp

fun op_time :: "session_op \<Rightarrow> timestamp" where
  "op_time (SessionLogin u h t) = t"
| "op_time (SessionRotate d h h' t) = t"
| "op_time (SessionLogout h t) = t"
| "op_time (SessionRevokeAll u r t) = t"

fun perform_session :: "'c kv \<Rightarrow> (uuid \<Rightarrow> string) \<Rightarrow> int \<Rightarrow> int \<Rightarrow> session_op \<Rightarrow> 'c sessions \<Rightarrow> 'c sessions" where
  "perform_session kv id_text lifetime grace (SessionLogin u h t) s = snd (generate_auth_tokens lifetime u h None None t s)"
| "perform_session kv id_text lifetime grace (SessionRotate d h h' t) s =
     snd (rotate_refresh_token kv id_text lifetime grace d h h' t s)"
| "perform_session kv id_text lifetime grace (SessionLogout h t) s = revoke_refresh_token h t s"
| "perform_session kv id_text lifetime grace (SessionRevokeAll u r t) s = revoke_all_user_refresh_tokens u r t s"


section \<open>Soundness of the table\<close>

definition rows_ok :: "refresh_token list \<Rightarrow> bool" where
  "rows_ok rs \<longleftrightarrow> distinct (map rt_id rs) \<and> distinct (map rt_token_hash rs) \<and>
     (\<forall>a \<in> set rs. \<forall>b \<in> set rs. rt_family_id a \<noteq> None \<longrightarrow> rt_family_id a = rt_family_id b \<longrightarrow> rt_user_id a = rt_user_id b) \<and>
     (\<forall>a \<in> set rs. if rt_revoked a then rt_revoked_at a \<noteq> None
                  else rt_revoked_reason a = None \<and> rt_rotated_at a = None)"

definition sessions_ok :: "'c sessions \<Rightarrow> bool" where "sessions_ok s \<longleftrightarrow> rows_ok (ss_tokens s)"

text \<open>A change of a row that revokes it and keeps what identifies it.\<close>

definition revokes :: "(refresh_token \<Rightarrow> refresh_token) \<Rightarrow> bool" where
  "revokes g \<longleftrightarrow> (\<forall>r. rt_id (g r) = rt_id r \<and> rt_token_hash (g r) = rt_token_hash r \<and> rt_family_id (g r) = rt_family_id r \<and>
     rt_user_id (g r) = rt_user_id r \<and> rt_revoked (g r) \<and> rt_revoked_at (g r) \<noteq> None)"

lemma revokesI [simp]:
  "revokes (with_revocation reason rotated replaced now)"
  "revokes (\<lambda>r. r\<lparr> rt_revoked := True, rt_revoked_at := Some now, rt_revoked_reason := Some reason', rt_updated_at := now \<rparr>)"
  "revokes (\<lambda>r. r\<lparr> rt_revoked := True, rt_revoked_at := Some now, rt_updated_at := now \<rparr>)"
  by (simp_all add: revokes_def with_revocation_def)

lemma rows_ok_revoke:
  assumes "rows_ok rs" "revokes g"
  shows "rows_ok (update_where P g rs)"
proof -
  have same: "map rt_id (update_where P g rs) = map rt_id rs" "map rt_token_hash (update_where P g rs) = map rt_token_hash rs"
    using assms(2) by (auto simp: revokes_def intro!: map_update_where)
  have row: "\<exists>x \<in> set rs. rt_family_id y = rt_family_id x \<and> rt_user_id y = rt_user_id x \<and>
      (if rt_revoked y then rt_revoked_at y \<noteq> None else rt_revoked_reason y = None \<and> rt_rotated_at y = None)"
    if y: "y \<in> set (update_where P g rs)" for y
  proof -
    obtain x where x: "x \<in> set rs" "y = (if P x then g x else x)" using y by (auto simp: in_set_update_where)
    then show ?thesis using assms by (intro bexI [of _ x]) (auto simp: rows_ok_def revokes_def)
  qed
  show ?thesis unfolding rows_ok_def same
  proof (intro conjI ballI impI)
    fix a b assume a: "a \<in> set (update_where P g rs)"
    show "if rt_revoked a then rt_revoked_at a \<noteq> None else rt_revoked_reason a = None \<and> rt_rotated_at a = None"
      using row [OF a] by blast
    assume b: "b \<in> set (update_where P g rs)" and f: "rt_family_id a \<noteq> None" "rt_family_id a = rt_family_id b"
    obtain x y where "x \<in> set rs" "y \<in> set rs" "rt_family_id a = rt_family_id x" "rt_user_id a = rt_user_id x"
      "rt_family_id b = rt_family_id y" "rt_user_id b = rt_user_id y" using row [OF a] row [OF b] by blast
    then show "rt_user_id a = rt_user_id b" using assms(1) f unfolding rows_ok_def by metis
  qed (use assms(1) in \<open>simp_all add: rows_ok_def\<close>)
qed

lemma rows_ok_add:
  assumes "rows_ok rs" "rt_id r \<notin> set (map rt_id rs)" "rt_token_hash r \<notin> set (map rt_token_hash rs)"
    "\<not> rt_revoked r" "rt_revoked_reason r = None" "rt_rotated_at r = None"
    "\<And>x. x \<in> set rs \<Longrightarrow> rt_family_id x = rt_family_id r \<Longrightarrow> rt_user_id x = rt_user_id r"
  shows "rows_ok (rs @ [r])"
  using assms by (auto simp: rows_ok_def)

lemma create_token_ok:
  assumes "sessions_ok s"
    "\<And>f x. family = Some f \<Longrightarrow> x \<in> set (ss_tokens s) \<Longrightarrow> rt_family_id x = Some f \<Longrightarrow> rt_user_id x = user"
  shows "sessions_ok (snd (create_refresh_token user h expires family parent now s))"
proof (cases "h \<in> set (map rt_token_hash (ss_tokens s))")
  case False
  have "rt_family_id x \<noteq> Some (fresh_id (List.map_filter rt_family_id (ss_tokens s)))" if "x \<in> set (ss_tokens s)" for x
    using fresh_id_notin [of "List.map_filter rt_family_id (ss_tokens s)"] that
    by (force simp: List.map_filter_def)
  then show ?thesis
    using assms False fresh_id_notin [of "map rt_id (ss_tokens s)"]
    by (auto simp: sessions_ok_def create_refresh_token_def Let_def intro!: rows_ok_add split: option.splits)
qed (simp add: create_refresh_token_def assms(1))

lemma login_ok: "sessions_ok s \<Longrightarrow> sessions_ok (snd (create_refresh_token u h x None p now s))"
  by (rule create_token_ok) simp_all

lemma sessions_ok_revoke [simp]:
  "sessions_ok s \<Longrightarrow> sessions_ok (revoke_token_row i reason rotated replaced now s)"
  "sessions_ok s \<Longrightarrow> sessions_ok (revoke_token_family f reason' now s)"
  "sessions_ok s \<Longrightarrow> sessions_ok (revoke_all_user_refresh_tokens u reason now s)"
  "sessions_ok s \<Longrightarrow> sessions_ok (deactivate_user u s)" "sessions_ok s \<Longrightarrow> sessions_ok (s\<lparr> ss_cache := c \<rparr>)"
  by (simp_all add: sessions_ok_def revoke_token_row_def revoke_token_family_def revoke_all_user_refresh_tokens_def
      deactivate_user_def rows_ok_revoke)

lemma raw_in: "get_refresh_token_by_hash_raw h s = Some r \<Longrightarrow> r \<in> set (ss_tokens s) \<and> rt_token_hash r = h"
  by (auto simp: get_refresh_token_by_hash_raw_def dest: scalars_first_Some)

lemma family_of_row:
  "sessions_ok s \<Longrightarrow> r \<in> set (ss_tokens s) \<Longrightarrow> rt_family_id r = Some f \<Longrightarrow> x \<in> set (ss_tokens s) \<Longrightarrow>
    rt_family_id x = Some f \<Longrightarrow> rt_user_id x = rt_user_id r"
  unfolding sessions_ok_def rows_ok_def by (metis option.distinct(1))

lemma issue_ok:
  "sessions_ok s \<Longrightarrow> r \<in> set (ss_tokens s) \<Longrightarrow>
    sessions_ok (snd (generate_auth_tokens lifetime (rt_user_id r) h (rt_family_id r) parent now s))"
  unfolding generate_auth_tokens_def by (rule create_token_ok) (auto intro: family_of_row)

text \<open>What a rotation of a live token can do.\<close>

lemma rotate_live_cases:
  obtains (kept) e where "rotate_live lifetime r h now s = (Inl e, s)"
  | (refused) e where "rotate_live lifetime r h now s = refuse_live r e now s"
  | (deactivated) e where "rotate_live lifetime r h now s = refuse_live r e now (deactivate_user (rt_user_id r) s)"
  | (rotated) new s1 where "generate_auth_tokens lifetime (rt_user_id r) h (rt_family_id r) (Some (rt_token_hash r)) now s = (Inr new, s1)"
      "rotate_live lifetime r h now s = (Inr new, revoke_token_row (rt_id r) (Some ''ROTATION'') (Some now) (Some h) now s1)"
      "now \<le> rt_expires_at r" "usable (user_of_token r s)"
proof (cases "rt_expires_at r < now \<or> \<not> usable (user_of_token r s) \<or> suspended (user_of_token r s)")
  case True
  have "rotate_live lifetime r h now s = refuse_live r invalid_token now s \<or>
      rotate_live lifetime r h now s = refuse_live r invalid_token now (deactivate_user (rt_user_id r) s)"
    using True by (cases "rt_expires_at r < now"; cases "usable (user_of_token r s)") (simp_all add: rotate_live_def)
  then show ?thesis using that(2,3) by blast
next
  case False
  note start = rotate_live_def [of lifetime r h now s]
  show ?thesis
  proof (cases "profile_of (rt_user_id r) (ss_employees s)")
    case (Inl e)
    then show ?thesis using False that(1) start by auto
  next
    case emp: (Inr emp)
    show ?thesis
    proof (cases "case emp of None \<Rightarrow> False | Some p \<Rightarrow> profile_refused (sf_is_active p) p")
      case True
      then show ?thesis using False emp that(3) start by auto
    next
      case e: False
      show ?thesis
      proof (cases "profile_of (rt_user_id r) (ss_managers s)")
        case (Inl e')
        then show ?thesis using False emp e that(1) start by auto
      next
        case mgr: (Inr mgr)
        show ?thesis
        proof (cases "case mgr of None \<Rightarrow> False | Some p \<Rightarrow> profile_refused (manager_is_active p) p")
          case True
          then show ?thesis using False emp e mgr that(3) start by auto
        next
          case m: False
          obtain res s1 where g: "generate_auth_tokens lifetime (rt_user_id r) h (rt_family_id r)
            (Some (rt_token_hash r)) now s = (res, s1)" by fastforce
          show ?thesis
          proof (cases res)
            case (Inl e')
            then show ?thesis using False emp e mgr m g that(1) start by auto
          next
            case (Inr new)
            then show ?thesis using False emp e mgr m g that(4) start by auto
          qed
        qed
      qed
    qed
  qed
qed


lemma refuse_live_ok [simp]: "sessions_ok s \<Longrightarrow> sessions_ok (snd (refuse_live r e now s))"
  by (simp add: refuse_live_def)

lemma rotate_ok:
  assumes "sessions_ok s"
  shows "sessions_ok (snd (rotate_refresh_token kv id_text lifetime grace decoded h h' now s))"
proof (cases "decoded \<and> get_refresh_token_by_hash_raw h s \<noteq> None")
  case True
  then obtain r where r: "get_refresh_token_by_hash_raw h s = Some r" by blast
  note i = raw_in [OF r]
  have live: "sessions_ok (snd (rotate_live lifetime r h' now s))"
  proof (cases rule: rotate_live_cases [of lifetime r h' now s])
    case (rotated new s1)
    have "sessions_ok s1" using issue_ok [OF assms, of r] rotated(1) i by (metis snd_conv)
    then show ?thesis using rotated(2) by simp
  qed (use assms in simp_all)
  have "sessions_ok (snd (rotate_revoked kv id_text lifetime grace r h' now s))"
    using assms issue_ok [OF assms, of r] i by (auto simp: rotate_revoked_def Let_def split: option.split)
  then show ?thesis using True r live by (simp add: rotate_refresh_token_def)
qed (auto simp: rotate_refresh_token_def assms)

interpretation sessions: transition_system "perform_session kv id_text lifetime grace"
    "\<lambda>s :: 'c sessions. sessions_ok s" for kv :: "'c kv" and id_text lifetime grace
proof
  fix s :: "'c sessions" and a
  assume "sessions_ok s"
  then show "sessions_ok (perform_session kv id_text lifetime grace a s)"
    by (cases a) (auto simp: rotate_ok generate_auth_tokens_def revoke_refresh_token_def login_ok split: option.split)
qed

section \<open>A revoked row is never touched again\<close>

lemma revoke_row_keeps:
  assumes "sessions_ok s" "r \<in> set (ss_tokens s)" "rt_id r \<noteq> i"
  shows "r \<in> set (ss_tokens (revoke_token_row i reason rotated replaced now s))"
  using assms by (auto simp: revoke_token_row_def in_set_update_where)

lemma id_inj: "sessions_ok s \<Longrightarrow> a \<in> set (ss_tokens s) \<Longrightarrow> b \<in> set (ss_tokens s) \<Longrightarrow> rt_id a = rt_id b \<Longrightarrow> a = b"
  by (auto simp: sessions_ok_def rows_ok_def distinct_map inj_on_def)

lemma hash_inj:
  "sessions_ok s \<Longrightarrow> a \<in> set (ss_tokens s) \<Longrightarrow> b \<in> set (ss_tokens s) \<Longrightarrow> rt_token_hash a = rt_token_hash b \<Longrightarrow> a = b"
  by (auto simp: sessions_ok_def rows_ok_def distinct_map inj_on_def)

lemma create_keeps: "r \<in> set (ss_tokens s) \<Longrightarrow> r \<in> set (ss_tokens (snd (create_refresh_token u h x f p now s)))"
  by (auto simp: create_refresh_token_def Let_def)

lemma bulk_keeps:
  assumes "r \<in> set (ss_tokens s)" "rt_revoked r"
  shows "r \<in> set (ss_tokens (revoke_token_family f reason now s))"
    "r \<in> set (ss_tokens (revoke_all_user_refresh_tokens u reason' now s))"
  using assms by (auto simp: revoke_token_family_def revoke_all_user_refresh_tokens_def in_set_update_where)

lemma tokens_frame [simp]: "ss_tokens (deactivate_user u s) = ss_tokens s"
  by (simp add: deactivate_user_def)

lemma revoked_row_persists:
  assumes ok: "sessions_ok s" and r: "r \<in> set (ss_tokens s)" "rt_revoked r"
  shows "r \<in> set (ss_tokens (perform_session kv id_text lifetime grace a s))"
proof (cases a)
  case (SessionLogin u h t)
  then show ?thesis using r by (simp add: generate_auth_tokens_def create_keeps)
next
  case (SessionLogout h t)
  show ?thesis
  proof (cases "get_refresh_token_by_hash h s")
    case None
    then show ?thesis using SessionLogout r by (simp add: revoke_refresh_token_def)
  next
    case (Some q)
    then have "q \<in> set (ss_tokens s)" "\<not> rt_revoked q"
      by (auto simp: get_refresh_token_by_hash_def dest: scalars_first_Some)
    then have "rt_id r \<noteq> rt_id q" using id_inj [OF ok r(1)] r(2) by blast
    then show ?thesis using SessionLogout Some r revoke_row_keeps [OF ok r(1)] by (simp add: revoke_refresh_token_def)
  qed
next
  case (SessionRevokeAll u reason t)
  then show ?thesis using r by (simp add: bulk_keeps)
next
  case (SessionRotate d h h' t)
  show ?thesis
  proof (cases "d \<and> get_refresh_token_by_hash_raw h s \<noteq> None")
    case True
    then obtain q where q: "get_refresh_token_by_hash_raw h s = Some q" by blast
    show ?thesis
    proof (cases "rt_revoked q")
      case True
      have "r \<in> set (ss_tokens (snd (rotate_revoked kv id_text lifetime grace q h' t s)))"
        using r bulk_keeps [OF r] create_keeps [OF r(1)]
        by (auto simp: rotate_revoked_def Let_def generate_auth_tokens_def bulk_keeps split: option.split)
      then show ?thesis using SessionRotate True q by (simp add: rotate_refresh_token_def r)
    next
      case False
      have ne: "rt_id r \<noteq> rt_id q" using id_inj [OF ok r(1), of q] raw_in [OF q] False r(2) by blast
      have "r \<in> set (ss_tokens (snd (rotate_live lifetime q h' t s)))"
      proof (cases rule: rotate_live_cases [of lifetime q h' t s])
        case (rotated new s1)
        have s1: "r \<in> set (ss_tokens s1)" "sessions_ok s1"
          using rotated(1) create_keeps [OF r(1)] issue_ok [OF ok, of q] raw_in [OF q]
          unfolding generate_auth_tokens_def by (metis snd_conv)+
        then show ?thesis using rotated(2) revoke_row_keeps [OF s1(2,1) ne] by simp
      next
        case (deactivated e)
        then show ?thesis
          using revoke_row_keeps [of "deactivate_user (rt_user_id q) s", OF _ _ ne] ok r by (simp add: refuse_live_def)
      qed (use r revoke_row_keeps [OF ok r(1) ne] in \<open>simp_all add: refuse_live_def\<close>)
      then show ?thesis using SessionRotate False q by (simp add: rotate_refresh_token_def r)
    qed
  qed (use SessionRotate r in \<open>auto simp: rotate_refresh_token_def\<close>)
qed

lemma revoked_row_stays:
  assumes "sessions_ok s" "r \<in> set (ss_tokens s)" "rt_revoked r"
  shows "r \<in> set (ss_tokens (foldl (\<lambda>s a. perform_session kv id_text lifetime grace a s) s ops))"
  using assms
proof (induction ops arbitrary: s)
  case (Cons a ops)
  from Cons.IH [OF sessions.keeps [OF Cons.prems(1)] revoked_row_persists [OF Cons.prems]] Cons.prems(3)
  show ?case by simp
qed simp


lemma raw_of_row:
  assumes "sessions_ok s" "r \<in> set (ss_tokens s)"
  shows "get_refresh_token_by_hash_raw (rt_token_hash r) s = Some r"
proof -
  have "filter (\<lambda>q. rt_token_hash q = rt_token_hash r) (ss_tokens s) \<noteq> []" using assms(2) by (auto simp: filter_empty_conv)
  then obtain q where q: "get_refresh_token_by_hash_raw (rt_token_hash r) s = Some q"
    unfolding get_refresh_token_by_hash_raw_def by (metis list.exhaust scalars_first.simps(2))
  from raw_in [OF q] show ?thesis using hash_inj [OF assms(1) _ assms(2)] q by blast
qed

lemma dead_refused:
  assumes "sessions_ok s" "r \<in> set (ss_tokens s)" "rt_revoked r" "\<not> within_grace grace t r"
  shows "\<exists>e. fst (rotate_refresh_token kv id_text lifetime grace decoded (rt_token_hash r) h' t s) = Inl e"
  using raw_of_row [OF assms(1,2)] assms(3,4) by (simp add: rotate_refresh_token_def rotate_revoked_def Let_def)

lemma within_grace_earlier: "within_grace grace t' r \<Longrightarrow> t \<le> t' \<Longrightarrow> within_grace grace t r"
  by (auto simp: within_grace_def)

text \<open>
  C27: a refresh token that is taken for stolen never works again. Once a revoked token is presented
  outside its grace time it is refused, and it is refused at every later time, whatever logins,
  rotations, logouts and revocations happen.
\<close>

theorem dead_token_stays_dead:
  assumes "sessions_ok s" "get_refresh_token_by_hash_raw h s = Some r" "rt_revoked r" "\<not> within_grace grace t r" "t \<le> t'"
  shows "\<exists>e. fst (rotate_refresh_token kv id_text lifetime grace decoded h h' t'
    (foldl (\<lambda>s a. perform_session kv id_text lifetime grace a s) s ops)) = Inl e"
  using dead_refused [OF sessions.trace_keeps [OF assms(1)] revoked_row_stays [OF assms(1) _ assms(3)] assms(3)]
    raw_in [OF assms(2)] assms(4,5) within_grace_earlier by metis

lemma rotated_row:
  assumes "sessions_ok s" "r \<in> set (ss_tokens s)" "\<not> rt_revoked r"
    "rotate_live lifetime r h' t s = (Inr new, s')"
  shows "with_revocation (Some ''ROTATION'') (Some t) (Some h') t r \<in> set (ss_tokens s')"
    "new \<in> set (ss_tokens s')" "rt_user_id new = rt_user_id r" "\<not> rt_revoked new" "rt_expires_at new = t + lifetime"
    "rt_parent_token_hash new = Some (rt_token_hash r)" "rt_family_id r \<noteq> None \<Longrightarrow> rt_family_id new = rt_family_id r"
    "t \<le> rt_expires_at r" "usable (user_of_token r s)"
proof -
  obtain s1 where g: "generate_auth_tokens lifetime (rt_user_id r) h' (rt_family_id r) (Some (rt_token_hash r)) t s = (Inr new, s1)"
    and s': "s' = revoke_token_row (rt_id r) (Some ''ROTATION'') (Some t) (Some h') t s1"
    and pre: "t \<le> rt_expires_at r" "usable (user_of_token r s)"
    using assms(4) by (cases rule: rotate_live_cases [of lifetime r h' t s]) (auto simp: refuse_live_def)
  have n: "ss_tokens s1 = ss_tokens s @ [new]" "rt_id new = fresh_id (map rt_id (ss_tokens s))"
    and f: "rt_user_id new = rt_user_id r" "\<not> rt_revoked new" "rt_expires_at new = t + lifetime"
      "rt_parent_token_hash new = Some (rt_token_hash r)" "rt_family_id r \<noteq> None \<Longrightarrow> rt_family_id new = rt_family_id r"
    using g by (auto simp: generate_auth_tokens_def create_refresh_token_def Let_def split: if_splits)
  have "rt_id new \<noteq> rt_id r" using n(2) fresh_id_notin [of "map rt_id (ss_tokens s)"] assms(2) by auto
  then show "with_revocation (Some ''ROTATION'') (Some t) (Some h') t r \<in> set (ss_tokens s')" "new \<in> set (ss_tokens s')"
    using assms(2) n(1) by (auto simp: s' revoke_token_row_def in_set_update_where)
  show "rt_user_id new = rt_user_id r" "\<not> rt_revoked new" "rt_expires_at new = t + lifetime"
    "rt_parent_token_hash new = Some (rt_token_hash r)" "rt_family_id r \<noteq> None \<Longrightarrow> rt_family_id new = rt_family_id r"
    "t \<le> rt_expires_at r" "usable (user_of_token r s)"
    using f pre by blast+
qed

text \<open>
  C28: a rotation spends the token. A live token that is rotated had not expired and its user was
  active; the new token belongs to the same user and family and lives for the full lifetime, and the
  presented token is refused forever once the grace time is over.
\<close>

theorem rotation_spends_token:
  assumes "sessions_ok s" "get_refresh_token_by_hash_raw h s = Some r" "\<not> rt_revoked r"
    and "rotate_refresh_token kv id_text lifetime grace True h h' t s = (Inr new, s')" "t + grace < t'"
  shows "t \<le> rt_expires_at r \<and> usable (user_of_token r s) \<and> rt_user_id new = rt_user_id r \<and>
    rt_expires_at new = t + lifetime \<and> (rt_family_id r \<noteq> None \<longrightarrow> rt_family_id new = rt_family_id r) \<and>
    (\<exists>e. fst (rotate_refresh_token kv id_text lifetime grace decoded h h'' t'
      (foldl (\<lambda>s a. perform_session kv id_text lifetime grace a s) s' ops)) = Inl e)"
proof -
  have l: "rotate_live lifetime r h' t s = (Inr new, s')" using assms(2-4) by (simp add: rotate_refresh_token_def)
  note r = raw_in [OF assms(2)]
  note row = rotated_row [OF assms(1) conjunct1 [OF r] assms(3) l]
  let ?r' = "with_revocation (Some ''ROTATION'') (Some t) (Some h') t r"
  have ok: "sessions_ok s'" using rotate_ok [OF assms(1), of kv id_text lifetime grace True h h' t] assms(4) by simp
  have dead: "rt_revoked ?r'" "\<not> within_grace grace t' ?r'" "rt_token_hash ?r' = h"
    using assms(5) r by (simp_all add: with_revocation_def within_grace_def revocation_time_def)
  have "\<exists>e. fst (rotate_refresh_token kv id_text lifetime grace decoded h h'' t'
      (foldl (\<lambda>s a. perform_session kv id_text lifetime grace a s) s' ops)) = Inl e"
    using dead_refused [OF sessions.trace_keeps [OF ok] revoked_row_stays [OF ok row(1) dead(1)] dead(1,2)] dead(3) by metis
  then show ?thesis using row by blast
qed

text \<open>
  The revocation of all sessions of a user has a grace time. The reason is not stored, so a token
  that was live when the sessions were revoked (a password change, a reset) still yields a fresh pair
  for as long as the grace time, and is refused after it.
\<close>

theorem revocation_has_grace:
  assumes "sessions_ok s" "get_refresh_token_by_hash_raw h s = Some r" "\<not> rt_revoked r" "rt_user_id r = u"
    "usable (user_of_token r s)" "h' \<notin> set (map rt_token_hash (ss_tokens s))"
  shows "(\<exists>new. fst (rotate_refresh_token kv id_text lifetime grace True h h' t'
      (revoke_all_user_refresh_tokens u reason t s)) = Inr new) \<longleftrightarrow> t' \<le> t + grace"
proof -
  let ?s = "revoke_all_user_refresh_tokens u reason t s"
  let ?r = "r\<lparr> rt_revoked := True, rt_revoked_at := Some t, rt_updated_at := t \<rparr>"
  have ok: "sessions_ok ?s" using assms(1) by simp
  note r = raw_in [OF assms(2)]
  have old: "rt_revoked_reason r = None" "rt_rotated_at r = None"
    using assms(1,3) r by (auto simp: sessions_ok_def rows_ok_def)
  have "?r \<in> set (ss_tokens ?s)" using r assms(3,4)
    by (auto simp: revoke_all_user_refresh_tokens_def in_set_update_where)
  from raw_of_row [OF ok this] have raw: "get_refresh_token_by_hash_raw h ?s = Some ?r" using r by simp
  have grace: "within_grace grace t' ?r \<longleftrightarrow> t' \<le> t + grace"
    using old by (auto simp: within_grace_def revocation_time_def)
  have hashes: "map rt_token_hash (ss_tokens ?s) = map rt_token_hash (ss_tokens s)"
    unfolding revoke_all_user_refresh_tokens_def by (auto intro!: map_update_where)
  have user: "user_of_token ?r ?s = user_of_token r s"
    by (simp add: user_of_token_def revoke_all_user_refresh_tokens_def)
  have "h' \<notin> set (map rt_token_hash (ss_tokens ?s))" using assms(6) unfolding hashes .
  then show ?thesis
    unfolding rotate_refresh_token_def raw using grace assms(5) user
    by (auto simp: rotate_revoked_def generate_auth_tokens_def create_refresh_token_def Let_def)
qed


text \<open>Presenting a dead token ends every session of the user.\<close>

lemma reuse_ends_sessions:
  assumes "get_refresh_token_by_hash_raw h s = Some r" "rt_revoked r" "\<not> within_grace grace t r"
    "rotate_refresh_token kv id_text lifetime grace True h h' t s = (res, s')" "x \<in> set (ss_tokens s')"
    "rt_user_id x = rt_user_id r"
  shows "res = Inl reuse_detected \<and> rt_revoked x"
proof -
  define s1 where "s1 = (case rt_family_id r of Some f \<Rightarrow> revoke_token_family f ''REUSE_ATTEMPT_DETECTED'' t s | None \<Rightarrow> s)"
  have "ss_tokens s' = ss_tokens (revoke_all_user_refresh_tokens (rt_user_id r) (Some ''REUSE_ATTEMPT_DETECTED'') t s1)"
    and "res = Inl reuse_detected"
    using assms(1-4) by (auto simp: rotate_refresh_token_def rotate_revoked_def Let_def s1_def)
  then show ?thesis using assms(5,6) by (auto simp: revoke_all_user_refresh_tokens_def in_set_update_where)
qed

section \<open>A sample session\<close>

definition sample_sessions :: "store client sessions" where
  "sample_sessions = \<lparr> ss_tokens = [], ss_users = [\<lparr> ua_id = 7, ua_is_active = True, ua_is_deleted = False, ua_account_status = Some ''ACTIVE'' \<rparr>],
     ss_employees = [], ss_managers = [], ss_cache = online_client \<rparr>"

abbreviation sample_session_step :: "session_op \<Rightarrow> store client sessions \<Rightarrow> store client sessions" where
  "sample_session_step \<equiv> perform_session (redis_kv map_server) nat_digits 2592000 15"

definition sample_rotated :: "store client sessions" where
  "sample_rotated = sample_session_step (SessionRotate True ''b'' ''c'' 1200)
     (sample_session_step (SessionRotate True ''a'' ''b'' 1000) (sample_session_step (SessionLogin 7 ''a'' 100) sample_sessions))"

lemma sample_sessions_ok: "sessions_ok sample_sessions" "sessions_ok sample_rotated"
proof -
  show ok: "sessions_ok sample_sessions" by (simp add: sessions_ok_def rows_ok_def sample_sessions_def)
  show "sessions_ok sample_rotated" unfolding sample_rotated_def by (intro sessions.keeps ok)
qed

text \<open>
  The family does not die with the token: a sibling that was rotated within the grace time still yields
  a fresh token of the family after the reuse was detected.
\<close>

lemma family_survives_reuse:
  "fst (rotate_refresh_token (redis_kv map_server) nat_digits 2592000 15 True ''a'' ''x'' 1201 sample_rotated) = Inl reuse_detected"
  "(case rotate_refresh_token (redis_kv map_server) nat_digits 2592000 15 True ''b'' ''y'' 1205
     (sample_session_step (SessionRotate True ''a'' ''x'' 1201) sample_rotated) of
     (Inr new, _) \<Rightarrow> rt_family_id new = Some 1 \<and> \<not> rt_revoked new | _ \<Rightarrow> False)"
  by code_simp+

lemma sample_rotated_rows:
  "(case get_refresh_token_by_hash_raw ''a'' sample_rotated of None \<Rightarrow> False
    | Some r \<Rightarrow> rt_revoked r \<and> \<not> within_grace 15 1201 r)"
  "(case get_refresh_token_by_hash_raw ''c'' sample_rotated of None \<Rightarrow> False
    | Some r \<Rightarrow> \<not> rt_revoked r \<and> rt_user_id r = 7 \<and> usable (user_of_token r sample_rotated))"
  "(case rotate_refresh_token (redis_kv map_server) nat_digits 2592000 15 True ''c'' ''d'' 1300 sample_rotated of
     (Inr new, _) \<Rightarrow> rt_user_id new = 7 | _ \<Rightarrow> False)"
  "''e'' \<notin> set (map rt_token_hash (ss_tokens sample_rotated))"
  by code_simp+

theorem dead_token_stays_dead_witness:
  "\<exists>e. fst (rotate_refresh_token (redis_kv map_server) nat_digits 2592000 15 True ''a'' ''z'' 1400
    (foldl (\<lambda>s a. sample_session_step a s) sample_rotated [SessionRotate True ''a'' ''x'' 1201, SessionLogin 7 ''w'' 1300])) = Inl e"
proof -
  obtain r where "get_refresh_token_by_hash_raw ''a'' sample_rotated = Some r" "rt_revoked r" "\<not> within_grace 15 1201 r"
    using sample_rotated_rows(1) by (auto split: option.splits)
  moreover have "(1201 :: int) \<le> 1400" by simp
  ultimately show ?thesis by (rule dead_token_stays_dead [OF sample_sessions_ok(2)])
qed

lemma sample_live_row:
  obtains r where "get_refresh_token_by_hash_raw ''c'' sample_rotated = Some r" "\<not> rt_revoked r" "rt_user_id r = 7"
    "usable (user_of_token r sample_rotated)"
  using sample_rotated_rows(2) by (auto split: option.splits)

theorem rotation_spends_token_witness:
  "\<exists>new s'. rotate_refresh_token (redis_kv map_server) nat_digits 2592000 15 True ''c'' ''d'' 1300 sample_rotated = (Inr new, s') \<and>
    rt_expires_at new = 1300 + 2592000 \<and>
    (\<exists>e. fst (rotate_refresh_token (redis_kv map_server) nat_digits 2592000 15 True ''c'' ''e'' 1316
      (foldl (\<lambda>s a. sample_session_step a s) s' [SessionLogin 7 ''w'' 1310])) = Inl e)"
proof -
  obtain r where r: "get_refresh_token_by_hash_raw ''c'' sample_rotated = Some r" "\<not> rt_revoked r"
    by (rule sample_live_row)
  obtain new s' where n: "rotate_refresh_token (redis_kv map_server) nat_digits 2592000 15 True ''c'' ''d'' 1300 sample_rotated = (Inr new, s')"
    using sample_rotated_rows(3) by (auto split: prod.splits sum.splits)
  have "(1300 :: int) + 15 < 1316" by simp
  from rotation_spends_token [OF sample_sessions_ok(2) r n this] n show ?thesis by blast
qed

theorem revocation_has_grace_witness:
  "\<exists>new. fst (rotate_refresh_token (redis_kv map_server) nat_digits 2592000 15 True ''c'' ''e'' 1514
    (revoke_all_user_refresh_tokens 7 (Some ''PASSWORD_CHANGE'') 1500 sample_rotated)) = Inr new"
proof -
  obtain r where r: "get_refresh_token_by_hash_raw ''c'' sample_rotated = Some r" "\<not> rt_revoked r" "rt_user_id r = 7"
    "usable (user_of_token r sample_rotated)" by (rule sample_live_row)
  from revocation_has_grace [OF sample_sessions_ok(2) r sample_rotated_rows(4), of _ _ _ 15 1514] show ?thesis by simp
qed

end
