(* ===== verification/Idempotency.thy ===== *)
theory Idempotency
  imports Lockout
begin

text \<open>
  Idempotency keys: \<open>idempotency_service.py\<close> and the route of \<open>payment_batches.py\<close> that
  submits a batch to the bank under a key. The store is any key-value client; the request that is
  protected is an argument, a function of the database. JSON is a pair of functions: the code relies on
  \<open>loads\<close> undoing \<open>dumps\<close>. Lookup, lock, request and storing happen at one point in time: a request that
  runs longer than the minute of its lock is not represented.
\<close>

section \<open>The service\<close>

datatype 'a payload = InProgress | Completed nat 'a

record 'a codec =
  dumps :: "'a payload \<Rightarrow> string"
  loads :: "string \<Rightarrow> 'a payload option"

definition codec_ok :: "'a codec \<Rightarrow> bool" where
  "codec_ok J \<longleftrightarrow> (\<forall>p. loads J (dumps J p) = Some p \<and> dumps J p \<noteq> [])"

definition idem_key :: "string \<Rightarrow> string" where "idem_key key = ''payroll:idempotency:'' @ key"

text \<open>
  \<open>get_cached_result\<close>: a stored result, a conflict while the first request runs, and None when
  there is nothing or when the store fails, which is only logged.
\<close>

definition get_cached_result ::
  "'a codec \<Rightarrow> 'c kv \<Rightarrow> string \<Rightarrow> timestamp \<Rightarrow> 'c \<Rightarrow> 'a payload option result \<times> 'c" where
  "get_cached_result J kv key now c =
     (if key = [] then (Inr None, c)
      else case kv_get kv (idem_key key) now c of
        (Inl _, c') \<Rightarrow> (Inr None, c')
      | (Inr None, c') \<Rightarrow> (Inr None, c')
      | (Inr (Some text), c') \<Rightarrow>
          if text = [] then (Inr None, c')
          else (case loads J text of
                  None \<Rightarrow> (Inr None, c')
                | Some InProgress \<Rightarrow>
                    (Inl (HTTPException 409 ''A request with this Idempotency-Key is currently being processed. Please retry shortly.''), c')
                | Some p \<Rightarrow> (Inr (Some p), c')))"

text \<open>Failures of the store are logged and ignored.\<close>

definition lock_idem_key :: "'a codec \<Rightarrow> 'c kv \<Rightarrow> string \<Rightarrow> timestamp \<Rightarrow> 'c \<Rightarrow> 'c" where
  "lock_idem_key J kv key now c =
     (if key = [] then c else snd (kv_set kv (idem_key key) (dumps J InProgress) (Some 60) now c))"

definition store_result :: "'a codec \<Rightarrow> 'c kv \<Rightarrow> string \<Rightarrow> nat \<Rightarrow> 'a \<Rightarrow> timestamp \<Rightarrow> 'c \<Rightarrow> 'c" where
  "store_result J kv key status data now c =
     (if key = [] then c else snd (kv_set kv (idem_key key) (dumps J (Completed status data)) (Some 86400) now c))"

definition require_idempotency_key :: "string option \<Rightarrow> string result" where
  "require_idempotency_key header =
     (let key = py_strip (or_str header [])
      in if key = [] then Inl (HTTPException 400 ''Header 'Idempotency-Key' is required for this operation.'')
         else Inr key)"

definition get_optional_idempotency_key :: "string option \<Rightarrow> string option" where
  "get_optional_idempotency_key header = (let key = py_strip (or_str header []) in if key = [] then None else Some key)"

text \<open>
  The route: look up, lock, run, store. An error of the request ends the route with the key still
  locked.
\<close>

definition submit_once ::
  "'a codec \<Rightarrow> 'c kv \<Rightarrow> ('d \<Rightarrow> 'a result \<times> 'd) \<Rightarrow> string option \<Rightarrow> timestamp \<Rightarrow> 'c \<times> 'd \<Rightarrow> 'a result \<times> 'c \<times> 'd"
where
  "submit_once J kv run header now = (\<lambda>(c, d).
     case require_idempotency_key header of
       Inl e \<Rightarrow> (Inl e, c, d)
     | Inr key \<Rightarrow>
         (case get_cached_result J kv key now c of
            (Inl e, c1) \<Rightarrow> (Inl e, c1, d)
          | (Inr (Some (Completed _ data)), c1) \<Rightarrow> (Inr data, c1, d)
          | (Inr _, c1) \<Rightarrow>
              let c2 = lock_idem_key J kv key now c1
              in (case run d of
                    (Inl e, d') \<Rightarrow> (Inl e, c2, d')
                  | (Inr data, d') \<Rightarrow> (Inr data, store_result J kv key 200 data now c2, d'))))"

text \<open>Requests that arrive one after the other.\<close>

type_synonym ('a, 'd) submission = "('d \<Rightarrow> 'a result \<times> 'd) \<times> string option \<times> timestamp"

abbreviation submitted_at :: "('a, 'd) submission \<Rightarrow> timestamp" where "submitted_at r \<equiv> snd (snd r)"

definition submissions :: "'a codec \<Rightarrow> 'c kv \<Rightarrow> ('a, 'd) submission list \<Rightarrow> 'c \<times> 'd \<Rightarrow> 'c \<times> 'd" where
  "submissions J kv rs s = foldl (\<lambda>s (run, header, t). snd (submit_once J kv run header t s)) s rs"

section \<open>The key after a request\<close>

text \<open>The key holds the result, for the time that is left.\<close>

definition holds_result :: "'a codec \<Rightarrow> string \<Rightarrow> 'a \<Rightarrow> timestamp \<Rightarrow> store \<Rightarrow> bool" where
  "holds_result J key data until m \<longleftrightarrow> (\<exists>n. m (idem_key key) = Some (dumps J (Completed n data), Some until))"

lemma idem_key_inj [simp]: "idem_key a = idem_key b \<longleftrightarrow> a = b"
  by (simp add: idem_key_def)

context kv_store
begin

lemma cached:
  assumes "sees t c m" "codec_ok J" "holds_result J key data until m" "t < until" "key \<noteq> []"
  shows "\<exists>n c'. get_cached_result J kv key t c = (Inr (Some (Completed n data)), c') \<and> sees t c' m"
proof -
  obtain n where n: "m (idem_key key) = Some (dumps J (Completed n data), Some until)"
    using assms(3) by (auto simp: holds_result_def)
  then have "value_at t (m (idem_key key)) = Some (dumps J (Completed n data))"
    using assms(4) by (simp add: value_at_def alive_def)
  then show ?thesis using get [OF assms(1), of "idem_key key"] assms(2,5) by (auto simp: get_cached_result_def codec_ok_def)
qed

text \<open>A look-up does not change what the store holds, whatever it answers.\<close>

lemma lookup_sees: "sees t c m \<Longrightarrow> sees t (snd (get_cached_result J kv key t c)) m"
  using get [of t c m "idem_key key"]
  by (auto simp: get_cached_result_def split: option.splits payload.splits)

lemma locked_sees:
  assumes "sees t c m" "key \<noteq> []"
  shows "sees t (lock_idem_key J kv key t c) (m(idem_key key \<mapsto> (dumps J InProgress, Some (t + 60))))"
  using set [OF assms(1), of 60 "idem_key key" "dumps J InProgress"] assms(2) by (auto simp: lock_idem_key_def)

lemma stored_sees:
  assumes "sees t c m" "key \<noteq> []"
  shows "sees t (store_result J kv key n data t c) (m(idem_key key \<mapsto> (dumps J (Completed n data), Some (t + 86400))))"
  using set [OF assms(1), of 86400 "idem_key key" "dumps J (Completed n data)"] assms(2) by (auto simp: store_result_def)

lemma key_nonempty: "require_idempotency_key header = Inr key \<Longrightarrow> key \<noteq> []"
  by (auto simp: require_idempotency_key_def Let_def split: if_splits)

text \<open>A request with another key does not touch the entry; one with the key is answered from it.\<close>

lemma submission_keeps:
  assumes "sees t c m" "codec_ok J" "holds_result J key data until m" "t < until"
  shows "\<exists>m'. sees t (fst (snd (submit_once J kv run header t (c, d)))) m' \<and> holds_result J key data until m' \<and>
    (require_idempotency_key header = Inr key \<longrightarrow> fst (submit_once J kv run header t (c, d)) = Inr data \<and>
       snd (snd (submit_once J kv run header t (c, d))) = d)"
proof (cases "require_idempotency_key header")
  case (Inl e)
  then show ?thesis using assms by (auto simp: submit_once_def)
next
  case (Inr k)
  note ne = key_nonempty [OF Inr]
  obtain res c1 where l: "get_cached_result J kv k t c = (res, c1)" by fastforce
  have s1: "sees t c1 m" using lookup_sees [OF assms(1), of J k] l by simp
  show ?thesis
  proof (cases "k = key")
    case True
    then show ?thesis using cached [OF assms(1-4)] ne Inr assms(3) by (fastforce simp: submit_once_def)
  next
    case False
    let ?m2 = "m(idem_key k \<mapsto> (dumps J InProgress, Some (t + 60)))"
    have s2: "sees t (lock_idem_key J kv k t c1) ?m2"
      using locked_sees [OF s1 ne, of J] by simp
    have s3: "sees t (store_result J kv k 200 x t (lock_idem_key J kv k t c1))
        (?m2(idem_key k \<mapsto> (dumps J (Completed 200 x), Some (t + 86400))))" for x
      by (rule stored_sees [OF s2 ne])
    have h: "holds_result J key data until m" "holds_result J key data until ?m2"
      "holds_result J key data until (?m2(idem_key k \<mapsto> e))" for e
      using assms(3) False by (auto simp: holds_result_def)
    show ?thesis
    proof (cases "\<exists>e. res = Inl e \<or> (\<exists>n x. res = Inr (Some (Completed n x)))")
      case True
      then show ?thesis using l Inr s1 h(1) False by (auto simp: submit_once_def)
    next
      case absent: False
      then have "res = Inr None \<or> res = Inr (Some InProgress)"
        by (cases res) (metis option.exhaust payload.exhaust)+
      then show ?thesis using l Inr s2 s3 h(2,3) False
        by (cases "run d"; cases "fst (run d)") (fastforce simp: submit_once_def Let_def)+
    qed
  qed
qed

end


section \<open>A key runs its request once\<close>

lemma submissions_keep:
  assumes "kv_store kv sees" "codec_ok J" "sees t c m" "holds_result J key data until m"
    "sorted (t # map submitted_at rs)" "\<forall>r \<in> set rs. submitted_at r < until"
  shows "\<exists>m'. sees (last (t # map submitted_at rs)) (fst (submissions J kv rs (c, d))) m' \<and> holds_result J key data until m'"
  using assms(3-6)
proof (induction rs arbitrary: t c d m)
  case (Cons r rs)
  obtain run header x where r: "r = (run, header, x)" by (cases r)
  have "t \<le> x" using Cons.prems(3) r by simp
  then have s: "sees x c m" by (rule kv_store.later [OF assms(1) Cons.prems(1)])
  have "x < until" using Cons.prems(4) r by simp
  from kv_store.submission_keeps [OF assms(1) s assms(2) Cons.prems(2) this, of run header d]
  obtain m' where m': "sees x (fst (snd (submit_once J kv run header x (c, d)))) m'" "holds_result J key data until m'"
    by blast
  obtain c' d' where c': "snd (submit_once J kv run header x (c, d)) = (c', d')" by fastforce
  have "sorted (x # map submitted_at rs)" using Cons.prems(3) r by simp
  from Cons.IH [OF m'(1) [unfolded c' fst_conv] m'(2) this, of d'] Cons.prems(4) c' r
  show ?case by (simp add: submissions_def)
qed (auto simp: submissions_def)

lemma first_submission:
  assumes "kv_store kv sees" "sees t c m" "m (idem_key key) = None" "require_idempotency_key header = Inr key"
    "submit_once J kv run header t (c, d) = (Inr data, c1, d1)"
  shows "run d = (Inr data, d1) \<and> (\<exists>m1. sees t c1 m1 \<and> holds_result J key data (t + 86400) m1)"
proof -
  note ne = kv_store.key_nonempty [OF assms(1,4)]
  obtain c2 where c2: "get_cached_result J kv key t c = (Inr None, c2)" "sees t c2 m"
    using kv_store.get [OF assms(1,2), of "idem_key key"] assms(3) ne by (auto simp: get_cached_result_def value_at_def)
  let ?c3 = "lock_idem_key J kv key t c2"
  have s3: "sees t ?c3 (m(idem_key key \<mapsto> (dumps J InProgress, Some (t + 60))))"
    by (rule kv_store.locked_sees [OF assms(1) c2(2) ne])
  obtain x d' where x: "run d = (x, d')" by fastforce
  have r: "x = Inr data \<and> d' = d1 \<and> c1 = store_result J kv key 200 data t ?c3"
    using assms(4,5) c2(1) x by (cases x) (auto simp: submit_once_def Let_def)
  show ?thesis using kv_store.stored_sees [OF assms(1) s3 ne, of J 200 data] r x
    by (auto simp: holds_result_def intro!: exI)
qed

text \<open>
  C26: an idempotency key submits once. After the first request under a key, which ran and returned its
  result, every request under the same key within a day returns that result and leaves the database
  alone, whatever other requests were made, on every store that keeps the contract of an expiring map.
\<close>

theorem submitted_once:
  assumes "kv_store kv sees" "codec_ok J" "sees t c m" "m (idem_key key) = None"
    and "require_idempotency_key header = Inr key" "require_idempotency_key header' = Inr key"
    and "submit_once J kv run header t (c, d) = (Inr data, c1, d1)"
    and "sorted (t # map submitted_at rs @ [t'])" "t' < t + 86400"
  shows "run d = (Inr data, d1) \<and>
    (\<exists>c2. submit_once J kv run' header' t' (submissions J kv rs (c1, d1)) = (Inr data, c2, snd (submissions J kv rs (c1, d1))))"
proof -
  obtain m1 where m1: "run d = (Inr data, d1)" "sees t c1 m1" "holds_result J key data (t + 86400) m1"
    using first_submission [OF assms(1,3-5,7)] by blast
  have times: "sorted (t # map submitted_at rs)" "\<forall>r \<in> set rs. submitted_at r < t + 86400" "last (t # map submitted_at rs) \<le> t'"
    using assms(8,9) by (auto simp: sorted_append last_map)
  obtain c2 d2 where s: "submissions J kv rs (c1, d1) = (c2, d2)" by fastforce
  obtain m2 where "sees (last (t # map submitted_at rs)) c2 m2" and h: "holds_result J key data (t + 86400) m2"
    using submissions_keep [OF assms(1,2) m1(2,3) times(1,2), of d1] s by auto
  then have "sees t' c2 m2" using kv_store.later [OF assms(1) _ times(3)] by blast
  from kv_store.submission_keeps [OF assms(1) this assms(2) h assms(9), of run' header' d2] assms(6) m1(1)
  show ?thesis unfolding s by (cases "submit_once J kv run' header' t' (c2, d2)") auto
qed

text \<open>A codec for numbers: the status, a colon and the data as decimal texts.\<close>

definition sample_codec :: "nat codec" where
  "sample_codec =
     \<lparr> dumps = (\<lambda>p. case p of InProgress \<Rightarrow> ''P'' | Completed s d \<Rightarrow> CHR ''C'' # nat_digits s @ CHR '':'' # nat_digits d),
       loads = (\<lambda>x. if x = ''P'' then Some InProgress
                 else Some (Completed (nat (foldl digit_step 0 (takeWhile (\<lambda>c. c \<noteq> CHR '':'') (tl x))))
                   (nat (foldl digit_step 0 (tl (dropWhile (\<lambda>c. c \<noteq> CHR '':'') (tl x))))))) \<rparr>"

lemma digits_no_colon: "\<forall>c \<in> set (nat_digits n). c \<noteq> CHR '':''"
  using is_digits_nat_digits [of n] by (auto simp: is_digits_def list_all_iff)

lemma sample_codec_ok: "codec_ok sample_codec"
proof -
  have split: "takeWhile (\<lambda>c. c \<noteq> CHR '':'') (nat_digits s @ CHR '':'' # d) = nat_digits s"
    "dropWhile (\<lambda>c. c \<noteq> CHR '':'') (nat_digits s @ CHR '':'' # d) = CHR '':'' # d" for s d
    using digits_no_colon [of s] by (simp_all add: takeWhile_append2 dropWhile_append2)
  show ?thesis by (auto simp: codec_ok_def sample_codec_def split nat_digits_value split: payload.split)
qed

definition sample_submit :: "nat \<Rightarrow> nat result \<times> nat" where "sample_submit d = (Inr (d + 1), d + 1)"

lemma sample_submission:
  "case submit_once sample_codec (redis_kv map_server) sample_submit (Some ''  k1 '') 0 (sample_client, 4) of
     (Inr x, _, d) \<Rightarrow> x = 5 \<and> d = 5 | _ \<Rightarrow> False"
  "require_idempotency_key (Some ''  k1 '') = Inr ''k1''" "require_idempotency_key (Some ''k1'') = Inr ''k1''"
  by code_simp+

theorem submitted_once_witness:
  "\<exists>c1 c2. submit_once sample_codec (redis_kv map_server) sample_submit (Some ''  k1 '') 0 (sample_client, 4) = (Inr 5, c1, 5) \<and>
    submit_once sample_codec (redis_kv map_server) sample_submit (Some ''k1'') 300
      (submissions sample_codec (redis_kv map_server) [(sample_submit, Some ''k2'', 100)] (c1, 5)) =
    (Inr 5, c2, snd (submissions sample_codec (redis_kv map_server) [(sample_submit, Some ''k2'', 100)] (c1, 5)))"
proof -
  obtain c1 where c1: "submit_once sample_codec (redis_kv map_server) sample_submit (Some ''  k1 '') 0 (sample_client, 4) = (Inr 5, c1, 5)"
    using sample_submission(1) by (auto split: prod.splits sum.splits)
  have "sorted ((0 :: int) # map submitted_at [(sample_submit, Some ''k2'', 100)] @ [300])" "(300 :: int) < 0 + 86400" by simp_all
  from submitted_once [OF fallback.kv_store_axioms [of map_server] sample_codec_ok sample_client_sees(1) [of 0] _
      sample_submission(2,3) c1 this] c1
  show ?thesis by auto
qed

section \<open>Where the protection ends\<close>

text \<open>A request that fails leaves its key locked: for a minute a retry is refused.\<close>

lemma failure_keeps_lock:
  assumes "kv_store kv sees" "codec_ok J" "sees t c m" "m (idem_key key) = None" "require_idempotency_key header = Inr key"
    "run d = (Inl e, d1)" "submit_once J kv run header t (c, d) = (res, c1, d1')" "t \<le> t'" "t' < t + 60"
  shows "res = Inl e \<and> (\<exists>message. fst (submit_once J kv run' header t' (c1, d1')) = Inl (HTTPException 409 message))"
proof -
  note ne = kv_store.key_nonempty [OF assms(1,5)]
  obtain c2 where c2: "get_cached_result J kv key t c = (Inr None, c2)" "sees t c2 m"
    using kv_store.get [OF assms(1,3), of "idem_key key"] assms(4) ne by (auto simp: get_cached_result_def value_at_def)
  have r: "res = Inl e" "c1 = lock_idem_key J kv key t c2"
    using assms(5-7) c2(1) by (auto simp: submit_once_def Let_def)
  have "sees t' c1 (m(idem_key key \<mapsto> (dumps J InProgress, Some (t + 60))))"
    unfolding r(2) by (rule kv_store.later [OF assms(1) kv_store.locked_sees [OF assms(1) c2(2) ne] assms(8)])
  from kv_store.get [OF assms(1) this, of "idem_key key"] assms(2,9) ne
  have "\<exists>message c3. get_cached_result J kv key t' c1 = (Inl (HTTPException 409 message), c3)"
    by (auto simp: get_cached_result_def value_at_def alive_def codec_ok_def)
  then show ?thesis using r(1) assms(5) by (auto simp: submit_once_def)
qed

text \<open>
  The look-up and the lock are two calls: of two requests that both look up before either locks, both
  find nothing and both run.
\<close>

lemma racing_lookups:
  assumes "kv_store kv sees" "sees t c m" "m (idem_key key) = None" "get_cached_result J kv key t c = (r1, c1)" "t \<le> t'"
  shows "r1 = Inr None \<and> fst (get_cached_result J kv key t' c1) = Inr None"
proof (cases "key = []")
  case False
  obtain c2 where c2: "kv_get kv (idem_key key) t c = (Inr None, c2)" "sees t c2 m"
    using kv_store.get [OF assms(1,2), of "idem_key key"] assms(3) by (auto simp: value_at_def)
  have "sees t' c2 m" by (rule kv_store.later [OF assms(1) c2(2) assms(5)])
  then show ?thesis using kv_store.get [OF assms(1), of t' c2 m "idem_key key"] c2 assms(3,4) False
    by (auto simp: get_cached_result_def value_at_def)
qed (use assms(4) in \<open>auto simp: get_cached_result_def\<close>)

text \<open>Without its server a production machine runs every request: the protection fails open.\<close>

lemma outage_runs_request:
  assumes "cl_is_production c" "\<not> cl_connected c" "require_idempotency_key header = Inr key" "key \<noteq> []"
  shows "fst (submit_once J (redis_kv S) run header t (c, d)) = fst (run d)"
  using assms
  by (cases "run d"; cases "fst (run d)")
    (auto simp: submit_once_def get_cached_result_def redis_kv_def client_get_def with_server_def Let_def)

end
