(* ===== verification/Accounting.thy ===== *)
theory Accounting
  imports Payment_Batch "HOL-Library.Char_ord" "HOL-Library.List_Lexorder"
begin

text \<open>
  The ledger of a period: \<open>accounting_service.py\<close>. A journal books the payslips of a period on
  the accounts of a tenant, is exported for an accounting program and reconciled with its entries;
  expenses are posted once per idempotency key. Exports are modelled up to the serialisation of the
  library (CSV writer, XML tree, JSON).
\<close>

section \<open>Tables\<close>

record gl_mapping =
  gm_company_id :: uuid
  gm_provider :: string
  gm_source_key :: string
  gm_account_code :: string
  gm_account_name :: string
  gm_account_type :: string
  gm_is_active :: bool

record expense_posting =
  xp_id :: uuid
  xp_company_id :: uuid
  xp_employee_id :: "uuid option"
  xp_expense_date :: date
  xp_category :: string
  xp_amount_paise :: int
  xp_description :: string
  xp_idempotency_key :: string
  xp_status :: string
  xp_external_reference :: "string option"

record account_difference =
  ad_account_code :: string
  ad_internal_net_paise :: int
  ad_external_net_paise :: int
  ad_difference_paise :: int

record gl_report =
  gr_company_id :: uuid
  gr_period_id :: uuid
  gr_provider :: string
  gr_internal_total_paise :: int
  gr_external_total_paise :: int
  gr_difference_paise :: int
  gr_status :: string
  gr_differences :: "account_difference list"
  gr_external_is_balanced :: bool

record books =
  bk_payroll :: payroll_db
  bk_mappings :: "gl_mapping list"
  bk_expenses :: "expense_posting list"
  bk_reports :: "gl_report list"

section \<open>Accounts\<close>

definition DEFAULT_ACCOUNTS :: "(string \<times> string \<times> string \<times> string) list" where
  "DEFAULT_ACCOUNTS =
     [(''SALARIES_EXPENSE'', ''5001'', ''Salaries & Wages Expense'', ''EXPENSE''),
      (''EMPLOYER_PF_EXPENSE'', ''5002'', ''Employer PF Contribution'', ''EXPENSE''),
      (''EMPLOYER_ESI_EXPENSE'', ''5003'', ''Employer ESI Contribution'', ''EXPENSE''),
      (''NET_SALARIES_PAYABLE'', ''2001'', ''Net Salaries Payable'', ''LIABILITY''),
      (''PF_PAYABLE'', ''2002'', ''PF Payable'', ''LIABILITY''),
      (''ESI_PAYABLE'', ''2003'', ''ESI Payable'', ''LIABILITY''),
      (''PT_PAYABLE'', ''2004'', ''Professional Tax Payable'', ''LIABILITY''),
      (''TDS_PAYABLE'', ''2005'', ''TDS on Salaries Payable'', ''LIABILITY''),
      (''OTHER_DEDUCTIONS_PAYABLE'', ''2006'', ''Other Payroll Deductions Payable'', ''LIABILITY''),
      (''EMPLOYEE_EXPENSE'', ''5100'', ''Employee Expense'', ''EXPENSE''),
      (''EXPENSE_PAYABLE'', ''2100'', ''Expense Reimbursement Payable'', ''LIABILITY'')]"

definition same_mapping :: "uuid \<Rightarrow> string \<Rightarrow> string \<Rightarrow> gl_mapping \<Rightarrow> bool" where
  "same_mapping company provider key m \<longleftrightarrow>
     gm_company_id m = company \<and> gm_provider m = provider \<and> gm_source_key m = key"

definition upsert_mapping ::
  "uuid \<Rightarrow> string \<Rightarrow> string \<Rightarrow> string \<Rightarrow> string \<Rightarrow> string \<Rightarrow> books \<Rightarrow> gl_mapping result \<times> books" where
  "upsert_mapping company provider source_key code name account_type b =
     (let provider = py_upper provider; key = py_upper source_key
      in if provider \<notin> {''TALLY'', ''ZOHO'', ''GENERIC''} \<or> key \<notin> set (map fst DEFAULT_ACCOUNTS)
         then (Inl (ValueError ''Unsupported accounting provider or source account key.''), b)
         else case scalar_one_or_none (filter (same_mapping company provider key) (bk_mappings b)) of
           Inl e \<Rightarrow> (Inl e, b)
         | Inr found \<Rightarrow>
             let m = \<lparr> gm_company_id = company, gm_provider = provider, gm_source_key = key,
                       gm_account_code = py_strip code, gm_account_name = py_strip name,
                       gm_account_type = py_upper account_type, gm_is_active = True \<rparr>
             in (Inr m, b\<lparr> bk_mappings :=
                   (if found = None then bk_mappings b @ [m]
                    else update_where (same_mapping company provider key) (\<lambda>_. m) (bk_mappings b)) \<rparr>))"

text \<open>\<open>{row.source_key: row for row in rows}\<close>: of rows with one key the last.\<close>

definition mappings_of :: "uuid \<Rightarrow> string \<Rightarrow> books \<Rightarrow> string \<Rightarrow> gl_mapping option" where
  "mappings_of company provider b =
     map_of (rev (map (\<lambda>m. (gm_source_key m, m))
       (filter (\<lambda>m. gm_company_id m = company \<and> gm_provider m = provider \<and> gm_is_active m) (bk_mappings b))))"

section \<open>The journal\<close>

definition gl_paise :: "rat \<Rightarrow> int" where "gl_paise x = round_paise (dmul x 100)"

definition payslips_of_journal :: "uuid \<Rightarrow> payroll_period \<Rightarrow> payroll_db \<Rightarrow> payslip list" where
  "payslips_of_journal company p db =
     filter (\<lambda>s. ps_company_id s = Some company \<and> ps_period_month s = pp_month p \<and> ps_period_year s = pp_year p \<and>
       (\<exists>r \<in> set (db_runs db). run_id r = ps_run_id s \<and> run_company_id r = Some company \<and>
          (pp_legal_entity_id p = None \<or> run_legal_entity_id r = pp_legal_entity_id p))) (db_payslips db)"

definition total :: "(payslip \<Rightarrow> rat) \<Rightarrow> payslip list \<Rightarrow> int" where
  "total field ps = (\<Sum>s\<leftarrow>ps. gl_paise (field s))"

record journal_entry =
  je_source_key :: string
  je_account_code :: string
  je_account_name :: string
  je_account_type :: string
  je_debit_paise :: int
  je_credit_paise :: int

record journal =
  jn_period_id :: uuid
  jn_period_name :: string
  jn_pay_date :: date
  jn_provider :: string
  jn_payslip_count :: nat
  jn_entries :: "journal_entry list"
  jn_total_debit_paise :: int
  jn_total_credit_paise :: int

definition other_deductions :: "payslip list \<Rightarrow> int" where
  "other_deductions ps =
     total ps_total_deductions ps - total ps_employee_pf ps - total ps_employee_esi ps -
     total ps_professional_tax ps - total ps_tds ps"

definition raw_entries :: "payslip list \<Rightarrow> (string \<times> int \<times> int) list" where
  "raw_entries ps =
     [(''SALARIES_EXPENSE'', total ps_gross_earnings ps, 0),
      (''EMPLOYER_PF_EXPENSE'', total ps_employer_pf ps, 0),
      (''EMPLOYER_ESI_EXPENSE'', total ps_employer_esi ps, 0),
      (''NET_SALARIES_PAYABLE'', 0, total ps_net_pay ps),
      (''PF_PAYABLE'', 0, total ps_employee_pf ps + total ps_employer_pf ps),
      (''ESI_PAYABLE'', 0, total ps_employee_esi ps + total ps_employer_esi ps),
      (''PT_PAYABLE'', 0, total ps_professional_tax ps),
      (''TDS_PAYABLE'', 0, total ps_tds ps),
      (''OTHER_DEDUCTIONS_PAYABLE'', 0, other_deductions ps)]"

definition account_of :: "(string \<Rightarrow> gl_mapping option) \<Rightarrow> string \<Rightarrow> string \<times> string \<times> string" where
  "account_of mappings key =
     (case mappings key of
        Some m \<Rightarrow> (gm_account_code m, gm_account_name m, gm_account_type m)
      | None \<Rightarrow> (case map_of DEFAULT_ACCOUNTS key of Some a \<Rightarrow> a | None \<Rightarrow> ([], [], [])))"

definition entry_of :: "(string \<Rightarrow> gl_mapping option) \<Rightarrow> string \<times> int \<times> int \<Rightarrow> journal_entry" where
  "entry_of mappings = (\<lambda>(key, debit, credit).
     case account_of mappings key of
       (code, name, typ) \<Rightarrow>
         \<lparr> je_source_key = key, je_account_code = code, je_account_name = name, je_account_type = typ,
           je_debit_paise = debit, je_credit_paise = credit \<rparr>)"

definition entries_of :: "(string \<Rightarrow> gl_mapping option) \<Rightarrow> payslip list \<Rightarrow> journal_entry list" where
  "entries_of mappings ps = map (entry_of mappings) (filter (\<lambda>(_, d, c). d \<noteq> 0 \<or> c \<noteq> 0) (raw_entries ps))"

definition build_journal :: "uuid \<Rightarrow> uuid \<Rightarrow> string \<Rightarrow> books \<Rightarrow> journal result" where
  "build_journal company period_id provider b =
     bind_res (scalar_one_or_none (filter (\<lambda>p. pp_id p = period_id \<and> pp_company_id p = Some company)
         (db_periods (bk_payroll b)))) (\<lambda>found.
       case found of
         None \<Rightarrow> Inl (LookupError ''Payroll period not found in this tenant.'')
       | Some p \<Rightarrow>
           let ps = payslips_of_journal company p (bk_payroll b)
           in if other_deductions ps < 0 then Inl (ValueError ''Payslip deduction breakup exceeds total deductions.'')
              else
                let entries = entries_of (mappings_of company (py_upper provider) b) ps;
                    debits = (\<Sum>e\<leftarrow>entries. je_debit_paise e); credits = (\<Sum>e\<leftarrow>entries. je_credit_paise e)
                in if debits \<noteq> credits
                   then Inl (ValueError ''Payroll journal is not balanced; verify payslip net pay and deductions.'')
                   else Inr \<lparr> jn_period_id = period_id, jn_period_name = pp_name p, jn_pay_date = pp_pay_date p,
                              jn_provider = py_upper provider, jn_payslip_count = length ps, jn_entries = entries,
                              jn_total_debit_paise = debits, jn_total_credit_paise = credits \<rparr>)"

section \<open>Export\<close>

text \<open>A line of a Tally voucher: the ledger, whether it is deemed positive, and the amount.\<close>

datatype journal_export =
    TallyXml date string "(string \<times> string \<times> string) list"
  | CsvRows "string list list"
  | ZohoJson date string "(string \<times> string \<times> string \<times> string) list"

definition tally_line :: "journal_entry \<Rightarrow> string \<times> string \<times> string" where
  "tally_line e =
     (je_account_name e, if je_debit_paise e \<noteq> 0 then ''Yes'' else ''No'',
      amount_text (if je_debit_paise e \<noteq> 0 then je_debit_paise e else - je_credit_paise e))"

definition csv_line :: "journal \<Rightarrow> journal_entry \<Rightarrow> string list" where
  "csv_line j e =
     [jn_period_name j, je_account_code e, je_account_name e, amount_text (je_debit_paise e),
      amount_text (je_credit_paise e), ''INR'']"

definition zoho_line :: "journal_entry \<Rightarrow> string \<times> string \<times> string \<times> string" where
  "zoho_line e =
     (je_account_code e, je_account_name e, amount_text (je_debit_paise e), amount_text (je_credit_paise e))"

definition starts :: "string \<Rightarrow> string \<Rightarrow> bool" where "starts s p \<longleftrightarrow> take (length p) s = p"

definition export_journal :: "uuid \<Rightarrow> uuid \<Rightarrow> string \<Rightarrow> books \<Rightarrow> (journal \<times> journal_export) result" where
  "export_journal company period_id export_format b =
     (let fmt = py_upper export_format;
          provider = (if starts fmt ''TALLY'' then ''TALLY'' else if starts fmt ''ZOHO'' then ''ZOHO'' else ''GENERIC'')
      in bind_res (build_journal company period_id provider b) (\<lambda>j.
           if fmt = ''TALLY_XML''
           then Inr (j, TallyXml (jn_pay_date j) (''Payroll '' @ jn_period_name j) (map tally_line (jn_entries j)))
           else if fmt \<in> {''TALLY_CSV'', ''ZOHO_CSV''}
           then Inr (j, CsvRows ([''Period'', ''Account Code'', ''Account Name'', ''Debit'', ''Credit'', ''Currency''] #
                          map (csv_line j) (jn_entries j)))
           else if fmt = ''ZOHO_JSON''
           then Inr (j, ZohoJson (jn_pay_date j) (''Payroll '' @ jn_period_name j) (map zoho_line (jn_entries j)))
           else Inl (ValueError ''Export format must be TALLY_XML, TALLY_CSV, ZOHO_JSON, or ZOHO_CSV.'')))"

section \<open>Expenses\<close>

definition same_expense_key :: "uuid \<Rightarrow> string \<Rightarrow> expense_posting \<Rightarrow> bool" where
  "same_expense_key company key x \<longleftrightarrow> xp_company_id x = company \<and> xp_idempotency_key x = key"

text \<open>Company and key are unique in the table: a row that breaks this is refused by the database.\<close>

definition post_expense ::
  "uuid \<Rightarrow> date \<Rightarrow> string \<Rightarrow> int \<Rightarrow> string \<Rightarrow> string \<Rightarrow> uuid option \<Rightarrow> string option \<Rightarrow> books
    \<Rightarrow> expense_posting result \<times> books"
where
  "post_expense company d category amount description key emp reference b =
     (case scalar_one_or_none (filter (same_expense_key company key) (bk_expenses b)) of
        Inl e \<Rightarrow> (Inl e, b)
      | Inr (Some x) \<Rightarrow>
          if xp_amount_paise x \<noteq> amount \<or> xp_category x \<noteq> py_upper (py_strip category) \<or> xp_employee_id x \<noteq> emp
          then (Inl (ValueError ''Expense idempotency key was reused for a different payload.''), b)
          else (Inr x, b)
      | Inr None \<Rightarrow>
          if amount \<le> 0 \<or> py_strip description = [] \<or> py_strip key = []
          then (Inl (ValueError ''Expense amount, description, and idempotency key are required.''), b)
          else
            let x = \<lparr> xp_id = fresh_id (map xp_id (bk_expenses b)), xp_company_id = company, xp_employee_id = emp,
                      xp_expense_date = d, xp_category = py_upper (py_strip category), xp_amount_paise = amount,
                      xp_description = py_strip description, xp_idempotency_key = py_strip key,
                      xp_status = ''POSTED'', xp_external_reference = reference \<rparr>;
                stored = (if \<exists>y \<in> set (bk_expenses b). same_expense_key company (py_strip key) y
                          then (Inl IntegrityError, b) else (Inr x, b\<lparr> bk_expenses := bk_expenses b @ [x] \<rparr>))
            in (case emp of
                  None \<Rightarrow> stored
                | Some i \<Rightarrow>
                    (case scalar_one_or_none (filter (\<lambda>e. em_id e = i \<and> em_company_id e = Some company \<and> \<not> em_is_deleted e)
                            (db_employees (bk_payroll b))) of
                       Inl e \<Rightarrow> (Inl e, b)
                     | Inr None \<Rightarrow> (Inl (LookupError ''Expense employee not found in this tenant.''), b)
                     | Inr (Some _) \<Rightarrow> stored)))"

section \<open>Reconciliation\<close>

record external_entry =
  ex_account_code :: "string option"
  ex_debit_paise :: int
  ex_credit_paise :: int

text \<open>The dictionary comprehension keeps, of entries with one code, the last.\<close>

definition internal_by_account :: "journal_entry list \<Rightarrow> string \<Rightarrow> int option" where
  "internal_by_account es =
     map_of (rev (map (\<lambda>e. (je_account_code e, je_debit_paise e - je_credit_paise e)) es))"

definition external_code :: "external_entry \<Rightarrow> string" where "external_code e = or_str (ex_account_code e) []"

definition external_net :: "external_entry list \<Rightarrow> string \<Rightarrow> int" where
  "external_net es code = (\<Sum>e\<leftarrow>filter (\<lambda>e. external_code e = code) es. ex_debit_paise e - ex_credit_paise e)"

definition or_zero :: "int option \<Rightarrow> int" where "or_zero v = (case v of None \<Rightarrow> 0 | Some n \<Rightarrow> n)"

definition account_differences :: "journal_entry list \<Rightarrow> external_entry list \<Rightarrow> account_difference list" where
  "account_differences es xs =
     (let codes = sort (remdups (map je_account_code es @ map external_code xs));
          internal = (\<lambda>c. or_zero (internal_by_account es c))
      in map (\<lambda>c. \<lparr> ad_account_code = c, ad_internal_net_paise = internal c, ad_external_net_paise = external_net xs c,
                    ad_difference_paise = internal c - external_net xs c \<rparr>)
           (filter (\<lambda>c. internal c \<noteq> external_net xs c) codes))"

definition reconcile_gl ::
  "uuid \<Rightarrow> uuid \<Rightarrow> string \<Rightarrow> external_entry list \<Rightarrow> books \<Rightarrow> gl_report result \<times> books" where
  "reconcile_gl company period_id provider xs b =
     (case build_journal company period_id provider b of
        Inl e \<Rightarrow> (Inl e, b)
      | Inr j \<Rightarrow>
          let debits = (\<Sum>x\<leftarrow>xs. ex_debit_paise x); credits = (\<Sum>x\<leftarrow>xs. ex_credit_paise x);
              diffs = account_differences (jn_entries j) xs; difference = jn_total_debit_paise j - debits;
              r = \<lparr> gr_company_id = company, gr_period_id = period_id, gr_provider = py_upper provider,
                    gr_internal_total_paise = jn_total_debit_paise j, gr_external_total_paise = debits,
                    gr_difference_paise = difference,
                    gr_status = (if difference = 0 \<and> diffs = [] \<and> debits = credits then ''MATCHED'' else ''MISMATCH''),
                    gr_differences = diffs, gr_external_is_balanced = (debits = credits) \<rparr>
          in (Inr r, b\<lparr> bk_reports := bk_reports b @ [r] \<rparr>))"


section \<open>The journal balances\<close>

lemma sum_filtered_entries:
  "(\<Sum>e\<leftarrow>map (entry_of f) (filter (\<lambda>(_, d, c). d \<noteq> 0 \<or> c \<noteq> 0) xs). je_debit_paise e) = (\<Sum>(_, d, _)\<leftarrow>xs. d)"
  "(\<Sum>e\<leftarrow>map (entry_of f) (filter (\<lambda>(_, d, c). d \<noteq> 0 \<or> c \<noteq> 0) xs). je_credit_paise e) = (\<Sum>(_, _, c)\<leftarrow>xs. c)"
  by (induction xs) (auto simp: entry_of_def split: prod.splits)

lemma entries_sums:
  "(\<Sum>e\<leftarrow>entries_of f ps. je_debit_paise e) =
     total ps_gross_earnings ps + total ps_employer_pf ps + total ps_employer_esi ps"
  "(\<Sum>e\<leftarrow>entries_of f ps. je_credit_paise e) =
     total ps_net_pay ps + total ps_total_deductions ps + total ps_employer_pf ps + total ps_employer_esi ps"
  unfolding entries_of_def sum_filtered_entries by (simp_all add: raw_entries_def other_deductions_def)

definition period_of_journal :: "uuid \<Rightarrow> uuid \<Rightarrow> books \<Rightarrow> payroll_period option result" where
  "period_of_journal company period_id b =
     scalar_one_or_none (filter (\<lambda>p. pp_id p = period_id \<and> pp_company_id p = Some company) (db_periods (bk_payroll b)))"

lemma build_journal_of_period:
  assumes "period_of_journal company period_id b = Inr (Some p)"
  defines "ps \<equiv> payslips_of_journal company p (bk_payroll b)"
  shows "build_journal company period_id provider b =
    (if other_deductions ps < 0 then Inl (ValueError ''Payslip deduction breakup exceeds total deductions.'')
     else if total ps_gross_earnings ps \<noteq> total ps_net_pay ps + total ps_total_deductions ps
     then Inl (ValueError ''Payroll journal is not balanced; verify payslip net pay and deductions.'')
     else Inr \<lparr> jn_period_id = period_id, jn_period_name = pp_name p, jn_pay_date = pp_pay_date p,
            jn_provider = py_upper provider, jn_payslip_count = length ps,
            jn_entries = entries_of (mappings_of company (py_upper provider) b) ps,
            jn_total_debit_paise = total ps_gross_earnings ps + total ps_employer_pf ps + total ps_employer_esi ps,
            jn_total_credit_paise = total ps_net_pay ps + total ps_total_deductions ps + total ps_employer_pf ps +
              total ps_employer_esi ps \<rparr>)"
  using assms(1) unfolding build_journal_def period_of_journal_def ps_def
  by (simp add: Let_def entries_sums)

text \<open>
  C13: a journal balances, and only a balancing one is built. For a period of the tenant a journal is
  built exactly when the deduction heads do not exceed the deductions and the gross pay is the net pay
  with the deductions; its debits and credits are then the gross pay with the employer's contributions.
\<close>

theorem journal_balances:
  assumes "period_of_journal company period_id b = Inr (Some p)"
  defines "ps \<equiv> payslips_of_journal company p (bk_payroll b)"
  shows "((\<exists>j. build_journal company period_id provider b = Inr j) \<longleftrightarrow>
      0 \<le> other_deductions ps \<and> total ps_gross_earnings ps = total ps_net_pay ps + total ps_total_deductions ps) \<and>
    (\<forall>j. build_journal company period_id provider b = Inr j \<longrightarrow>
      (\<Sum>e\<leftarrow>jn_entries j. je_debit_paise e) = jn_total_debit_paise j \<and>
      (\<Sum>e\<leftarrow>jn_entries j. je_credit_paise e) = jn_total_debit_paise j \<and>
      jn_total_debit_paise j = total ps_gross_earnings ps + total ps_employer_pf ps + total ps_employer_esi ps)"
  using build_journal_of_period [OF assms(1), of provider, folded ps_def]
  by (auto simp: entries_sums)

text \<open>
  Net pay is rounded to whole rupees: a period whose roundings do not cancel has no journal, although
  each of its payslips is what the payroll calculated.
\<close>

lemma rounded_pay_has_no_journal:
  assumes "period_of_journal company period_id b = Inr (Some p)"
    "\<forall>s \<in> set (payslips_of_journal company p (bk_payroll b)).
       gl_paise (ps_net_pay s) = net_of (gl_paise (ps_gross_earnings s)) (gl_paise (ps_total_deductions s))"
    "(\<Sum>s\<leftarrow>payslips_of_journal company p (bk_payroll b).
       net_of (gl_paise (ps_gross_earnings s)) (gl_paise (ps_total_deductions s)) -
       (gl_paise (ps_gross_earnings s) - gl_paise (ps_total_deductions s))) \<noteq> 0"
  shows "\<exists>e. build_journal company period_id provider b = Inl e"
proof -
  let ?ps = "payslips_of_journal company p (bk_payroll b)"
  have "total ps_net_pay xs - (total ps_gross_earnings xs - total ps_total_deductions xs) =
      (\<Sum>s\<leftarrow>xs. net_of (gl_paise (ps_gross_earnings s)) (gl_paise (ps_total_deductions s)) -
        (gl_paise (ps_gross_earnings s) - gl_paise (ps_total_deductions s)))"
    if "\<forall>s \<in> set xs. gl_paise (ps_net_pay s) = net_of (gl_paise (ps_gross_earnings s)) (gl_paise (ps_total_deductions s))"
    for xs using that by (induction xs) (auto simp: total_def)
  from this [OF assms(2)] assms(3)
  have "total ps_gross_earnings ?ps \<noteq> total ps_net_pay ?ps + total ps_total_deductions ?ps" by simp
  then show ?thesis using build_journal_of_period [OF assms(1), of provider] by auto
qed

section \<open>Reconciliation finds every difference\<close>

definition journal_net :: "journal_entry list \<Rightarrow> string \<Rightarrow> int" where
  "journal_net es code = (\<Sum>e\<leftarrow>filter (\<lambda>e. je_account_code e = code) es. je_debit_paise e - je_credit_paise e)"

lemma internal_net:
  assumes "distinct (map je_account_code es)"
  shows "or_zero (internal_by_account es code) = journal_net es code"
proof -
  let ?kvs = "map (\<lambda>e. (je_account_code e, je_debit_paise e - je_credit_paise e)) es"
  have "distinct (map fst ?kvs)" using assms by (simp add: comp_def)
  then have "map_of (rev ?kvs) = map_of ?kvs" by (subst map_of_inject_set) (simp_all add: rev_map [symmetric])
  then have "internal_by_account es code = map_of ?kvs code" by (simp add: internal_by_account_def)
  moreover have "or_zero (map_of (map (\<lambda>e. (je_account_code e, je_debit_paise e - je_credit_paise e)) es) code) = journal_net es code"
    using assms
  proof (induction es)
    case (Cons e es)
    have "je_account_code e = code \<Longrightarrow> filter (\<lambda>e. je_account_code e = code) es = []"
      using Cons.prems by (auto simp: filter_empty_conv image_iff)
    then show ?case using Cons by (auto simp: or_zero_def journal_net_def)
  qed (simp add: or_zero_def journal_net_def)
  ultimately show ?thesis by simp
qed

lemma net_elsewhere:
  "code \<notin> set (map je_account_code es) \<Longrightarrow> journal_net es code = 0"
  "code \<notin> set (map external_code xs) \<Longrightarrow> external_net xs code = 0"
proof -
  show "journal_net es code = 0" if "code \<notin> set (map je_account_code es)"
  proof -
    have "filter (\<lambda>e. je_account_code e = code) es = []" using that by (auto simp: filter_empty_conv)
    then show ?thesis by (simp add: journal_net_def)
  qed
  show "external_net xs code = 0" if "code \<notin> set (map external_code xs)"
  proof -
    have "filter (\<lambda>x. external_code x = code) xs = []" using that by (auto simp: filter_empty_conv)
    then show ?thesis by (simp add: external_net_def)
  qed
qed

lemma no_differences:
  assumes "distinct (map je_account_code es)"
  shows "account_differences es xs = [] \<longleftrightarrow> (\<forall>code. journal_net es code = external_net xs code)"
proof -
  have "account_differences es xs = [] \<longleftrightarrow>
      (\<forall>code \<in> set (map je_account_code es) \<union> set (map external_code xs). journal_net es code = external_net xs code)"
    by (auto simp: account_differences_def Let_def internal_net [OF assms] filter_empty_conv)
  then show ?thesis using net_elsewhere(1) [of _ es] net_elsewhere(2) [of _ xs] by (metis UnCI)
qed

text \<open>The net amount of the last entry that a journal has on an account, 0 without one.\<close>

definition last_net :: "journal_entry list \<Rightarrow> string \<Rightarrow> int" where
  "last_net es code =
     (case filter (\<lambda>e. je_account_code e = code) es of
        [] \<Rightarrow> 0 | e # rest \<Rightarrow> je_debit_paise (last (e # rest)) - je_credit_paise (last (e # rest)))"

lemma internal_last_net: "or_zero (internal_by_account es code) = last_net es code"
proof (induction es rule: rev_induct)
  case (snoc e es)
  then show ?case
    by (cases "filter (\<lambda>e. je_account_code e = code) es") (auto simp: internal_by_account_def or_zero_def last_net_def)
qed (simp add: internal_by_account_def or_zero_def last_net_def)

lemma account_differences_set:
  "d \<in> set (account_differences es xs) \<longleftrightarrow>
     ad_difference_paise d \<noteq> 0 \<and> ad_internal_net_paise d = last_net es (ad_account_code d) \<and>
     ad_external_net_paise d = external_net xs (ad_account_code d) \<and>
     ad_difference_paise d = ad_internal_net_paise d - ad_external_net_paise d"
proof -
  let ?diff = "\<lambda>c. \<lparr> ad_account_code = c, ad_internal_net_paise = last_net es c, ad_external_net_paise = external_net xs c,
    ad_difference_paise = last_net es c - external_net xs c \<rparr>"
  have "set (account_differences es xs) =
      ?diff ` {c \<in> set (map je_account_code es) \<union> set (map external_code xs). last_net es c \<noteq> external_net xs c}"
    by (auto simp: account_differences_def Let_def internal_last_net)
  moreover have "c \<in> set (map je_account_code es) \<union> set (map external_code xs)" if "last_net es c \<noteq> external_net xs c" for c
  proof (rule ccontr)
    assume "c \<notin> set (map je_account_code es) \<union> set (map external_code xs)"
    then have "filter (\<lambda>e. je_account_code e = c) es = []" "external_net xs c = 0"
      using net_elsewhere(2) by (auto simp: filter_empty_conv)
    then show False using that by (simp add: last_net_def)
  qed
  ultimately have "set (account_differences es xs) = ?diff ` {c. last_net es c \<noteq> external_net xs c}" by auto
  then show ?thesis by (cases d) auto
qed

text \<open>
  C14: the reconciliation reports exactly what differs. The report is MATCHED if and only if the
  external debits are the journal's, the external entries balance, and on every account the external
  net amount is that of the last journal entry on it; its differences are the accounts where it is not,
  with both amounts. When the journal uses each account once, MATCHED so means that every account has
  the same net amount on both sides.
\<close>

theorem reconciliation_exact:
  assumes "build_journal company period_id provider b = Inr j"
  shows "\<exists>r b'. reconcile_gl company period_id provider xs b = (Inr r, b') \<and>
    (gr_status r = ''MATCHED'' \<longleftrightarrow>
       (\<Sum>x\<leftarrow>xs. ex_debit_paise x) = jn_total_debit_paise j \<and>
       (\<Sum>x\<leftarrow>xs. ex_debit_paise x) = (\<Sum>x\<leftarrow>xs. ex_credit_paise x) \<and>
       (\<forall>code. last_net (jn_entries j) code = external_net xs code)) \<and>
    (\<forall>d. d \<in> set (gr_differences r) \<longleftrightarrow>
       ad_difference_paise d \<noteq> 0 \<and> ad_internal_net_paise d = last_net (jn_entries j) (ad_account_code d) \<and>
       ad_external_net_paise d = external_net xs (ad_account_code d) \<and>
       ad_difference_paise d = ad_internal_net_paise d - ad_external_net_paise d) \<and>
    (distinct (map je_account_code (jn_entries j)) \<longrightarrow>
       (\<forall>code. last_net (jn_entries j) code = journal_net (jn_entries j) code))"
proof -
  have none: "account_differences (jn_entries j) xs = [] \<longleftrightarrow> (\<forall>code. last_net (jn_entries j) code = external_net xs code)"
  proof
    assume empty: "account_differences (jn_entries j) xs = []"
    show "\<forall>code. last_net (jn_entries j) code = external_net xs code"
    proof
      fix c
      show "last_net (jn_entries j) c = external_net xs c"
        using account_differences_set [of "\<lparr> ad_account_code = c, ad_internal_net_paise = last_net (jn_entries j) c,
          ad_external_net_paise = external_net xs c,
          ad_difference_paise = last_net (jn_entries j) c - external_net xs c \<rparr>" "jn_entries j" xs] empty by simp
    qed
  qed (simp add: account_differences_def Let_def internal_last_net)
  moreover have "distinct (map je_account_code (jn_entries j)) \<longrightarrow>
      (\<forall>code. last_net (jn_entries j) code = journal_net (jn_entries j) code)"
    using internal_net internal_last_net by metis
  ultimately show ?thesis
    using assms by (auto simp: reconcile_gl_def Let_def account_differences_set)
qed


section \<open>Export\<close>

lemma csv_amounts:
  assumes "\<forall>e \<in> set es. 0 \<le> je_debit_paise e \<and> 0 \<le> je_credit_paise e"
  shows "map (\<lambda>r. paise_of_text (r ! 3)) (map (csv_line j) es) = map je_debit_paise es"
    "map (\<lambda>r. paise_of_text (r ! 4)) (map (csv_line j) es) = map je_credit_paise es"
  using assms by (auto simp: csv_line_def paise_of_amount_text)

text \<open>
  The exported ledger balances. Reading the debit and the credit column of a CSV export back gives
  the amounts of the journal, and both columns add up to the total of the journal.
\<close>

theorem csv_export_balances:
  assumes "export_journal company period_id export_format b = Inr (j, CsvRows rows)"
    "\<forall>e \<in> set (jn_entries j). 0 \<le> je_debit_paise e \<and> 0 \<le> je_credit_paise e"
  shows "map (\<lambda>r. paise_of_text (r ! 3)) (tl rows) = map je_debit_paise (jn_entries j) \<and>
    (\<Sum>r\<leftarrow>tl rows. paise_of_text (r ! 3)) = jn_total_debit_paise j \<and>
    (\<Sum>r\<leftarrow>tl rows. paise_of_text (r ! 4)) = jn_total_debit_paise j"
proof -
  obtain provider where j: "build_journal company period_id provider b = Inr j" and rows: "tl rows = map (csv_line j) (jn_entries j)"
    using assms(1) unfolding export_journal_def Let_def bind_res_Inr_iff by (auto split: if_splits)
  have "(\<Sum>e\<leftarrow>jn_entries j. je_debit_paise e) = jn_total_debit_paise j \<and> (\<Sum>e\<leftarrow>jn_entries j. je_credit_paise e) = jn_total_debit_paise j"
    using j unfolding build_journal_def Let_def bind_res_Inr_iff by (auto split: option.splits if_splits)
  then show ?thesis using csv_amounts [OF assms(2), of j] unfolding rows by metis
qed

section \<open>Traces of the books\<close>

datatype books_request =
    MappingUpsert uuid string string string string string
  | ExpensePost uuid date string int string string "uuid option" "string option"
  | GlReconcile uuid uuid string "external_entry list"

fun perform_books :: "books_request \<Rightarrow> books \<Rightarrow> books" where
  "perform_books (MappingUpsert c p k code name t) b = snd (upsert_mapping c p k code name t b)"
| "perform_books (ExpensePost c d cat a desc k e r) b = snd (post_expense c d cat a desc k e r b)"
| "perform_books (GlReconcile c p pr xs) b = snd (reconcile_gl c p pr xs b)"

definition books_ok :: "books \<Rightarrow> bool" where
  "books_ok b \<longleftrightarrow>
     distinct (map (\<lambda>m. (gm_company_id m, gm_provider m, gm_source_key m)) (bk_mappings b)) \<and>
     distinct (map (\<lambda>x. (xp_company_id x, xp_idempotency_key x)) (bk_expenses b)) \<and>
     (\<forall>x \<in> set (bk_expenses b). 0 < xp_amount_paise x \<and> xp_idempotency_key x \<noteq> [])"

lemma upsert_mapping_books:
  "bk_expenses (snd (upsert_mapping c p k code name t b)) = bk_expenses b"
  "bk_payroll (snd (upsert_mapping c p k code name t b)) = bk_payroll b"
  by (auto simp: upsert_mapping_def Let_def split: sum.splits)

lemma upsert_mapping_ok:
  assumes "books_ok b"
  shows "books_ok (snd (upsert_mapping c p k code name t b))"
proof -
  let ?P = "same_mapping c (py_upper p) (py_upper k)" and ?key = "\<lambda>m. (gm_company_id m, gm_provider m, gm_source_key m)"
  have keys: "map ?key (update_where ?P (\<lambda>_. m) (bk_mappings b)) = map ?key (bk_mappings b)" if "?P m" for m
    using that by (auto simp: update_where_def same_mapping_def)
  have add: "?key m \<notin> set (map ?key (bk_mappings b))" if "filter ?P (bk_mappings b) = []" "?P m" for m
    using that by (auto simp: filter_empty_conv same_mapping_def)
  show ?thesis
  proof (cases "scalar_one_or_none (filter ?P (bk_mappings b))")
    case (Inl e)
    then show ?thesis using assms by (simp add: upsert_mapping_def Let_def)
  next
    case (Inr found)
    let ?m = "\<lparr> gm_company_id = c, gm_provider = py_upper p, gm_source_key = py_upper k, gm_account_code = py_strip code,
      gm_account_name = py_strip name, gm_account_type = py_upper t, gm_is_active = True \<rparr>"
    have m: "?P ?m" by (simp add: same_mapping_def)
    show ?thesis
    proof (cases found)
      case None
      then have "filter ?P (bk_mappings b) = []" using Inr by (simp add: scalar_one_or_none_Inr_None)
      from add [OF this m] show ?thesis using assms Inr None by (simp add: upsert_mapping_def Let_def books_ok_def)
    next
      case (Some old)
      then show ?thesis using assms Inr keys [OF m] by (simp add: upsert_mapping_def Let_def books_ok_def)
    qed
  qed
qed

lemma posting_changes: "b\<lparr> bk_expenses := bk_expenses b @ [x] \<rparr> \<noteq> b"
proof
  assume "b\<lparr> bk_expenses := bk_expenses b @ [x] \<rparr> = b"
  then have "bk_expenses (b\<lparr> bk_expenses := bk_expenses b @ [x] \<rparr>) = bk_expenses b" by simp
  then show False by simp
qed

text \<open>A posting changes nothing or adds one row under a key that was free.\<close>

lemma post_expense_cases:
  obtains (kept) "snd (post_expense c d cat a desc k e r b) = b"
  | (added) x where "post_expense c d cat a desc k e r b = (Inr x, b\<lparr> bk_expenses := bk_expenses b @ [x] \<rparr>)"
      "xp_company_id x = c" "xp_idempotency_key x = py_strip k" "xp_amount_paise x = a" "0 < a" "py_strip k \<noteq> []"
      "xp_category x = py_upper (py_strip cat)" "xp_employee_id x = e"
      "\<forall>y \<in> set (bk_expenses b). \<not> same_expense_key c (py_strip k) y"
proof (cases "scalar_one_or_none (filter (same_expense_key c k) (bk_expenses b))")
  case (Inl err)
  then show ?thesis using kept by (simp add: post_expense_def)
next
  case (Inr found)
  show ?thesis
  proof (cases found)
    case (Some x)
    then show ?thesis using kept Inr by (simp add: post_expense_def)
  next
    case None
    show ?thesis
    proof (cases "a \<le> 0 \<or> py_strip desc = [] \<or> py_strip k = [] \<or> (\<exists>y \<in> set (bk_expenses b). same_expense_key c (py_strip k) y)")
      case True
      then have "snd (post_expense c d cat a desc k e r b) = b"
        using Inr None by (auto simp: post_expense_def Let_def split: option.splits sum.splits)
      then show ?thesis by (rule kept)
    next
      case False
      let ?x = "\<lparr> xp_id = fresh_id (map xp_id (bk_expenses b)), xp_company_id = c, xp_employee_id = e, xp_expense_date = d,
        xp_category = py_upper (py_strip cat), xp_amount_paise = a, xp_description = py_strip desc,
        xp_idempotency_key = py_strip k, xp_status = ''POSTED'', xp_external_reference = r \<rparr>"
      have "snd (post_expense c d cat a desc k e r b) = b \<or>
          post_expense c d cat a desc k e r b = (Inr ?x, b\<lparr> bk_expenses := bk_expenses b @ [?x] \<rparr>)"
        using Inr None False by (auto simp: post_expense_def Let_def split: option.splits sum.splits)
      then show ?thesis using kept added [of ?x] False by auto
    qed
  qed
qed

lemma post_expense_ok:
  assumes "books_ok b"
  shows "books_ok (snd (post_expense c d cat a desc k e r b))"
proof (cases rule: post_expense_cases [of c d cat a desc k e r b])
  case (added x)
  then have "(xp_company_id x, xp_idempotency_key x) \<notin> set (map (\<lambda>x. (xp_company_id x, xp_idempotency_key x)) (bk_expenses b))"
    by (auto simp: same_expense_key_def)
  then show ?thesis using assms added(1,3-6) by (simp add: books_ok_def)
qed (simp add: assms)

lemma reconcile_frame:
  "bk_expenses (snd (reconcile_gl c p pr xs b)) = bk_expenses b" "bk_mappings (snd (reconcile_gl c p pr xs b)) = bk_mappings b"
  by (simp_all add: reconcile_gl_def Let_def split: sum.split)

lemma reconcile_ok: "books_ok b \<Longrightarrow> books_ok (snd (reconcile_gl c p pr xs b))"
  by (simp add: books_ok_def reconcile_frame)

interpretation books: transition_system perform_books books_ok
proof
  fix b a
  assume "books_ok b"
  then show "books_ok (perform_books a b)"
    by (cases a) (simp_all add: upsert_mapping_ok post_expense_ok reconcile_ok)
qed

lemma posting_stays:
  "x \<in> set (bk_expenses b) \<Longrightarrow> x \<in> set (bk_expenses (foldl (\<lambda>b a. perform_books a b) b ops))"
proof (induction ops arbitrary: b)
  case (Cons a ops)
  have "x \<in> set (bk_expenses (perform_books a b))"
  proof (cases a)
    case (ExpensePost c d cat am desc k e r)
    show ?thesis unfolding ExpensePost perform_books.simps
      by (cases rule: post_expense_cases [of c d cat am desc k e r b]) (use Cons.prems in auto)
  qed (use Cons.prems in \<open>simp_all add: upsert_mapping_books reconcile_frame\<close>)
  then show ?case using Cons.IH by simp
qed simp

lemma posting_found:
  assumes "books_ok b" "x \<in> set (bk_expenses b)"
  shows "filter (same_expense_key (xp_company_id x) (xp_idempotency_key x)) (bk_expenses b) = [x]"
proof -
  have d: "distinct (map (\<lambda>x. (xp_company_id x, xp_idempotency_key x)) (bk_expenses b))" using assms(1) by (simp add: books_ok_def)
  have "filter (\<lambda>y. f y = f x) xs = [x]" if "distinct (map f xs)" "x \<in> set xs"
    for f :: "expense_posting \<Rightarrow> uuid \<times> string" and xs using that
  proof (induction xs)
    case (Cons y ys)
    have "filter (\<lambda>z. f z = f x) ys = []" if "f y = f x" using Cons.prems(1) that by (auto simp: filter_empty_conv image_iff)
    then show ?case using Cons by (auto simp: image_iff)
  qed simp
  from this [OF d assms(2)] show ?thesis
    by (simp add: same_expense_key_def [abs_def] case_prod_beta)
qed

lemma posted_row:
  assumes "post_expense c d cat a desc k e r b = (Inr x, b1)"
  shows "x \<in> set (bk_expenses b1) \<and> xp_company_id x = c \<and> xp_idempotency_key x \<in> {k, py_strip k} \<and> xp_amount_paise x = a \<and>
    xp_category x = py_upper (py_strip cat) \<and> xp_employee_id x = e"
proof (cases rule: post_expense_cases [of c d cat a desc k e r b])
  case kept
  have "scalar_one_or_none (filter (same_expense_key c k) (bk_expenses b)) = Inr (Some x) \<and> b1 = b \<and>
      xp_amount_paise x = a \<and> xp_category x = py_upper (py_strip cat) \<and> xp_employee_id x = e"
    using assms kept
    by (auto simp: post_expense_def Let_def posting_changes split: sum.splits option.splits if_splits)
  moreover from this have "x \<in> set (filter (same_expense_key c k) (bk_expenses b))"
    by (simp add: scalar_one_or_none_Inr_Some)
  ultimately show ?thesis by (simp add: same_expense_key_def)
next
  case (added y)
  then show ?thesis using assms by auto
qed

text \<open>
  C16: an expense is posted once. After a posting under a key has succeeded, and after any other
  requests, no posting of the company under that key adds anything, whatever its payload; and when the
  key has no surrounding blanks, a repetition of the same expense is answered with the same row.
\<close>

theorem expense_posted_once:
  assumes "books_ok b" "post_expense c d cat a desc k e r b = (Inr x, b1)"
    "b2 = foldl (\<lambda>b a. perform_books a b) b1 ops"
  shows "snd (post_expense c d' cat' a' desc' k e' r' b2) = b2 \<and>
    (py_strip k = k \<longrightarrow> post_expense c d' cat a desc' k e r' b2 = (Inr x, b2))"
proof -
  note x = posted_row [OF assms(2)]
  have ok: "books_ok b2" unfolding assms(3)
    by (rule books.trace_keeps) (use post_expense_ok [OF assms(1), of c d cat a desc k e r] assms(2) in simp)
  have stays: "x \<in> set (bk_expenses b2)" unfolding assms(3) using x by (intro posting_stays) simp
  have found: "filter (same_expense_key c k) (bk_expenses b2) = [x]" if "xp_idempotency_key x = k"
    using posting_found [OF ok stays] x that by simp
  have "snd (post_expense c d' cat' a' desc' k e' r' b2) = b2"
  proof (cases "xp_idempotency_key x = k")
    case True
    then show ?thesis using found by (simp add: post_expense_def)
  next
    case False
    then have "same_expense_key c (py_strip k) x" using x by (simp add: same_expense_key_def)
    then show ?thesis using stays
      by (cases rule: post_expense_cases [of c d' cat' a' desc' k e' r' b2]) auto
  qed
  moreover have "post_expense c d' cat a desc' k e r' b2 = (Inr x, b2)" if "py_strip k = k"
    using found x that by (simp add: post_expense_def)
  ultimately show ?thesis by blast
qed


section \<open>Sample books\<close>

definition may_slip :: payslip where
  "may_slip = april_slip\<lparr> ps_run_id := 1, ps_period_month := 5, ps_employee_pf := 1800, ps_employer_pf := 1800,
     ps_professional_tax := 200, ps_total_deductions := 2500, ps_net_pay := 17500 \<rparr>"

definition books_of_slip :: "payslip \<Rightarrow> gl_mapping list \<Rightarrow> books" where
  "books_of_slip s ms =
     \<lparr> bk_payroll = empty_db\<lparr> db_periods := [sample_period], db_runs := [sample_run_row 1 PAID], db_payslips := [s] \<rparr>,
       bk_mappings = ms, bk_expenses = [], bk_reports = [] \<rparr>"

definition tally_mapping :: "string \<Rightarrow> string \<Rightarrow> gl_mapping" where
  "tally_mapping key code = \<lparr> gm_company_id = 1, gm_provider = ''TALLY'', gm_source_key = key, gm_account_code = code,
     gm_account_name = ''Ledger '' @ code, gm_account_type = ''LIABILITY'', gm_is_active = True \<rparr>"

definition external_of :: "journal_entry \<Rightarrow> external_entry" where
  "external_of e = \<lparr> ex_account_code = Some (je_account_code e), ex_debit_paise = je_debit_paise e,
     ex_credit_paise = je_credit_paise e \<rparr>"

text \<open>
  Two findings. A net pay that was rounded by 30 paise has no journal; and a journal that books two keys
  on one account of the tenant does not even match its own entries.
\<close>

lemma rounded_slip_refused:
  "build_journal 1 9 ''tally'' (books_of_slip (may_slip\<lparr> ps_gross_earnings := 20000 + 3 / 10 \<rparr>) []) =
    Inl (ValueError ''Payroll journal is not balanced; verify payslip net pay and deductions.'')"
  by code_simp

lemma shared_account_mismatch:
  assumes "je_account_code y = je_account_code x" "je_debit_paise x \<noteq> je_credit_paise x"
  shows "account_differences [x, y] (map external_of [x, y]) \<noteq> []"
  using assms
  by (simp add: account_differences_def Let_def internal_by_account_def external_net_def external_code_def external_of_def
      or_zero_def)

lemma sample_journal:
  "period_of_journal 1 9 (books_of_slip may_slip []) = Inr (Some sample_period)"
  by (simp add: period_of_journal_def books_of_slip_def sample_period_def)

lemma sample_journal_built:
  "(case build_journal 1 9 ''TALLY'' (books_of_slip may_slip []) of Inl _ \<Rightarrow> False
    | Inr j \<Rightarrow> jn_total_debit_paise j = 2180000 \<and> distinct (map je_account_code (jn_entries j)) \<and>
        list_all (\<lambda>e. 0 \<le> je_debit_paise e \<and> 0 \<le> je_credit_paise e) (jn_entries j))"
  by code_simp

theorem journal_balances_witness:
  "\<exists>j. build_journal 1 9 ''TALLY'' (books_of_slip may_slip []) = Inr j \<and>
    (\<Sum>e\<leftarrow>jn_entries j. je_credit_paise e) = jn_total_debit_paise j \<and> jn_total_debit_paise j = 2180000"
proof -
  obtain j where j: "build_journal 1 9 ''TALLY'' (books_of_slip may_slip []) = Inr j" "jn_total_debit_paise j = 2180000"
    using sample_journal_built by (auto split: sum.splits)
  then show ?thesis using journal_balances [OF sample_journal, of "''TALLY''"] by blast
qed

theorem reconciliation_exact_witness:
  "\<exists>j r b'. build_journal 1 9 ''TALLY'' (books_of_slip may_slip []) = Inr j \<and>
    reconcile_gl 1 9 ''TALLY'' [] (books_of_slip may_slip []) = (Inr r, b') \<and> gr_status r \<noteq> ''MATCHED''"
proof -
  obtain j where j: "build_journal 1 9 ''TALLY'' (books_of_slip may_slip []) = Inr j" "jn_total_debit_paise j = 2180000"
    "distinct (map je_account_code (jn_entries j))"
    using sample_journal_built by (auto split: sum.splits)
  from reconciliation_exact [OF j(1), of "[]"] j(1,2) show ?thesis by auto
qed

lemma sample_export:
  "build_journal 1 9 ''TALLY'' b = Inr j \<Longrightarrow> \<exists>rows. export_journal 1 9 ''tally_csv'' b = Inr (j, CsvRows rows)"
proof -
  have "py_upper ''tally_csv'' = ''TALLY_CSV''" "starts ''TALLY_CSV'' ''TALLY''" by code_simp+
  then show "\<exists>rows. export_journal 1 9 ''tally_csv'' b = Inr (j, CsvRows rows)" if "build_journal 1 9 ''TALLY'' b = Inr j"
    using that by (simp add: export_journal_def Let_def)
qed

theorem csv_export_balances_witness:
  "\<exists>j rows. export_journal 1 9 ''tally_csv'' (books_of_slip may_slip []) = Inr (j, CsvRows rows) \<and>
    (\<Sum>r\<leftarrow>tl rows. paise_of_text (r ! 3)) = jn_total_debit_paise j"
proof -
  obtain j where "build_journal 1 9 ''TALLY'' (books_of_slip may_slip []) = Inr j"
    "\<forall>e \<in> set (jn_entries j). 0 \<le> je_debit_paise e \<and> 0 \<le> je_credit_paise e"
    using sample_journal_built by (auto simp: list_all_iff split: sum.splits)
  with sample_export obtain rows where j: "export_journal 1 9 ''tally_csv'' (books_of_slip may_slip []) = Inr (j, CsvRows rows)"
    "\<forall>e \<in> set (jn_entries j). 0 \<le> je_debit_paise e \<and> 0 \<le> je_credit_paise e"
    by blast
  from csv_export_balances [OF j] j(1) show ?thesis by blast
qed

text \<open>A key with surrounding blanks is looked up as it is and stored without them: its retry fails.\<close>

definition padded_expense :: "books \<Rightarrow> expense_posting result \<times> books" where
  "padded_expense = post_expense 1 (Date 2025 5 2) ''travel'' 5000 ''taxi'' '' key-00001 '' None None"

definition stripped_expense :: "books \<Rightarrow> expense_posting result \<times> books" where
  "stripped_expense = post_expense 1 (Date 2025 5 2) ''travel'' 5000 ''taxi'' ''key-00001'' None None"

lemma padded_key_fails:
  "fst (padded_expense (snd (padded_expense (books_of_slip may_slip [])))) = Inl IntegrityError"
  "(case stripped_expense (books_of_slip may_slip []) of (Inr x, _) \<Rightarrow> xp_amount_paise x = 5000 | _ \<Rightarrow> False)"
  "py_strip ''key-00001'' = ''key-00001''"
  by code_simp+

theorem expense_posted_once_witness:
  "\<exists>x b1. stripped_expense (books_of_slip may_slip []) = (Inr x, b1) \<and>
    stripped_expense (perform_books (MappingUpsert 1 ''TALLY'' ''PT_PAYABLE'' ''2200'' ''PT'' ''LIABILITY'') b1) =
      (Inr x, perform_books (MappingUpsert 1 ''TALLY'' ''PT_PAYABLE'' ''2200'' ''PT'' ''LIABILITY'') b1)"
proof -
  obtain x b1 where x: "stripped_expense (books_of_slip may_slip []) = (Inr x, b1)"
    using padded_key_fails(2) by (auto split: prod.splits sum.splits)
  have "books_ok (books_of_slip may_slip [])" by (simp add: books_ok_def books_of_slip_def)
  from expense_posted_once [OF this x [unfolded stripped_expense_def],
      of "foldl (\<lambda>b a. perform_books a b) b1 [MappingUpsert 1 ''TALLY'' ''PT_PAYABLE'' ''2200'' ''PT'' ''LIABILITY'']", OF refl]
  show ?thesis using x padded_key_fails(3) by (simp add: stripped_expense_def)
qed

end
