(* ===== verification/Pay_Components.thy ===== *)
theory Pay_Components
  imports Formula Models
begin

text \<open>
  The catalogue of pay components: \<open>app/services/payroll/pay_component_service.py\<close> and the
  validators of \<open>app/schemas/payroll_v2/pay_components.py\<close>. A listing that finds no active
  component seeds the defaults and lists again; the two methods call each other without a bound,
  so the pair is a \<open>partial_function\<close> whose None is the recursion that never comes back (Python
  gives up with \<open>RecursionError\<close>). The parser of formulas is an argument, the description of a
  component, which nothing reads, is left out, and so are the widths of the columns.
\<close>

section \<open>Rows\<close>

record catalogue_row = pay_component +
  cr_id :: uuid
  cr_name :: string
  cr_taxable :: bool
  cr_statutory :: bool
  cr_effective_date :: int
  cr_created_at :: timestamp

record component_template =
  ct_code :: string
  ct_name :: string
  ct_type :: string
  ct_taxable :: bool
  ct_statutory :: bool
  ct_calculation_method :: string
  ct_default_percentage :: "rat option"
  ct_formula_expr :: "string option"

definition template ::
  "string \<Rightarrow> string \<Rightarrow> string \<Rightarrow> bool \<Rightarrow> bool \<Rightarrow> string \<Rightarrow> rat option \<Rightarrow> string option \<Rightarrow> component_template"
where
  "template code name ty taxable statutory calc pct formula =
     \<lparr> ct_code = code, ct_name = name, ct_type = ty, ct_taxable = taxable, ct_statutory = statutory,
       ct_calculation_method = calc, ct_default_percentage = pct, ct_formula_expr = formula \<rparr>"

definition DEFAULT_INDIAN_COMPONENTS :: "component_template list" where
  "DEFAULT_INDIAN_COMPONENTS =
     [template ''BASIC'' ''Basic Salary'' ''earning'' True False ''percentage_of_ctc'' (Some (1 / 2)) None,
      template ''HRA'' ''House Rent Allowance'' ''earning'' True False ''percentage_of_basic''
        (Some (2 / 5)) (Some ''basic * 0.40''),
      template ''SPECIAL_ALLOWANCE'' ''Special Allowance'' ''earning'' True False ''formula'' None
        (Some ''max(0, (ctc / 12) - (basic + hra))''),
      template ''CONVEYANCE'' ''Conveyance Allowance'' ''earning'' True False ''flat'' None None,
      template ''MEDICAL'' ''Medical Allowance'' ''earning'' True False ''flat'' None None,
      template ''BONUS'' ''Performance Bonus'' ''earning'' True False ''flat'' None None,
      template ''PF_EMPLOYEE'' ''Provident Fund (Employee)'' ''deduction'' False True ''formula''
        (Some (3 / 25)) (Some ''min(basic, 15000) * 0.12''),
      template ''ESI_EMPLOYEE'' ''Employee State Insurance (Employee)'' ''deduction'' False True ''formula''
        (Some (3 / 400)) (Some ''round(gross * 0.0075)''),
      template ''PT'' ''Professional Tax'' ''deduction'' False True ''flat'' None None,
      template ''LWF'' ''Labour Welfare Fund (Employee)'' ''deduction'' False True ''flat'' None None,
      template ''TDS'' ''Income Tax (TDS)'' ''deduction'' False True ''flat'' None None,
      template ''LOAN_RECOVERY'' ''Salary Advance / Loan Recovery'' ''deduction'' False False ''flat'' None None]"

type_synonym catalogue = "catalogue_row list"

text \<open>What a statement reads from its surroundings: the tenant, the day and the clock.\<close>

record scene =
  sc_company_id :: "uuid option"
  sc_today :: int
  sc_now :: timestamp

definition row_of_template :: "scene \<Rightarrow> uuid \<Rightarrow> component_template \<Rightarrow> catalogue_row" where
  "row_of_template sc i t =
     \<lparr> pc_company_id = sc_company_id sc, pc_code = ct_code t, pc_type = ct_type t,
       pc_calculation_method = ct_calculation_method t, pc_default_percentage = ct_default_percentage t,
       pc_formula_expr = ct_formula_expr t, pc_is_active = True, cr_id = i, cr_name = ct_name t,
       cr_taxable = ct_taxable t, cr_statutory = ct_statutory t, cr_effective_date = sc_today sc,
       cr_created_at = sc_now sc \<rparr>"

section \<open>Listing and seeding\<close>

definition visible_to :: "scene \<Rightarrow> catalogue_row \<Rightarrow> bool" where
  "visible_to sc c \<longleftrightarrow> pc_company_id c = sc_company_id sc \<or> pc_company_id c = None"

text \<open>The query of the listing: without a tenant there is no filter on the tenant.\<close>

definition active_components :: "scene \<Rightarrow> catalogue \<Rightarrow> catalogue" where
  "active_components sc cat =
     sort_key (\<lambda>c. - cr_created_at c)
       (filter (\<lambda>c. pc_is_active c \<and> (sc_company_id sc = None \<or> visible_to sc c)) cat)"

definition with_code :: "scene \<Rightarrow> component_template \<Rightarrow> catalogue \<Rightarrow> catalogue" where
  "with_code sc t cat = filter (\<lambda>c. pc_code c = ct_code t \<and> visible_to sc c) cat"

fun seed_items :: "scene \<Rightarrow> component_template list \<Rightarrow> catalogue \<Rightarrow> catalogue result" where
  "seed_items sc [] cat = Inr cat"
| "seed_items sc (t # ts) cat =
     (case scalar_one_or_none (with_code sc t cat) of
        Inl e \<Rightarrow> Inl e
      | Inr (Some c) \<Rightarrow> seed_items sc ts cat
      | Inr None \<Rightarrow> seed_items sc ts (cat @ [row_of_template sc (fresh_id (map cr_id cat)) t]))"

partial_function (option) list_components :: "scene \<Rightarrow> catalogue \<Rightarrow> (catalogue \<times> catalogue) result option" where
  "list_components sc cat =
     (let components = active_components sc cat
      in if components \<noteq> [] then Some (Inr (components, cat))
         else case seed_items sc DEFAULT_INDIAN_COMPONENTS cat of
                Inl e \<Rightarrow> Some (Inl e)
              | Inr cat' \<Rightarrow> list_components sc cat')"

definition seed_default_indian_components ::
  "scene \<Rightarrow> catalogue \<Rightarrow> (catalogue \<times> catalogue) result option" where
  "seed_default_indian_components sc cat =
     (case seed_items sc DEFAULT_INDIAN_COMPONENTS cat of
        Inl e \<Rightarrow> Some (Inl e)
      | Inr cat' \<Rightarrow> list_components sc cat')"

section \<open>Requests\<close>

definition ALLOWED_TYPES :: "string list" where
  "ALLOWED_TYPES = [''earning'', ''deduction'', ''employer_contribution'']"

definition ALLOWED_CALC_METHODS :: "string list" where
  "ALLOWED_CALC_METHODS = [''flat'', ''percentage_of_basic'', ''percentage_of_ctc'', ''formula'']"

text \<open>A field validator strips and lowers the text, then looks it up.\<close>

definition validate_type :: "string \<Rightarrow> string result" where
  "validate_type v =
     (let clean = py_strip (py_lower v)
      in if clean \<in> set ALLOWED_TYPES then Inr clean else Inl (ValueError ''type must be one of''))"

definition validate_calc_method :: "string \<Rightarrow> string result" where
  "validate_calc_method v =
     (let clean = py_strip (py_lower v)
      in if clean \<in> set ALLOWED_CALC_METHODS then Inr clean
         else Inl (ValueError ''calculationMethod must be one of''))"

text \<open>The body of a create request as it arrives, and the object the schema makes of it.\<close>

record component_request =
  rq_code :: string
  rq_name :: string
  rq_type :: string
  rq_taxable :: bool
  rq_statutory :: bool
  rq_calculation_method :: string
  rq_default_percentage :: "rat option"
  rq_formula_expr :: "string option"
  rq_effective_date :: "int option"

definition sized :: "nat \<Rightarrow> nat \<Rightarrow> string \<Rightarrow> bool" where
  "sized lo hi s \<longleftrightarrow> lo \<le> length s \<and> length s \<le> hi"

definition parse_request :: "component_request \<Rightarrow> component_request result" where
  "parse_request r =
     (if sized 2 50 (rq_code r) \<and> sized 2 100 (rq_name r)
      then bind_res (validate_type (rq_type r)) (\<lambda>ty.
           bind_res (validate_calc_method (rq_calculation_method r)) (\<lambda>calc.
             Inr (r\<lparr> rq_type := ty, rq_calculation_method := calc \<rparr>)))
      else Inl (ValueError ''String length''))"

type_synonym validator = "string \<Rightarrow> bool \<times> exc option"

definition invalid_formula :: exc where
  "invalid_formula = HTTPException 400 ''Invalid formula expression''"

definition check_formula :: "validator \<Rightarrow> component_request \<Rightarrow> unit result" where
  "check_formula validate p =
     (if rq_calculation_method p = ''formula''
      then (case rq_formula_expr p of
              None \<Rightarrow> Inl (HTTPException 400 ''formulaExpr is required'')
            | Some f \<Rightarrow>
                if py_strip f = [] then Inl (HTTPException 400 ''formulaExpr is required'')
                else if fst (validate f) then Inr () else Inl invalid_formula)
      else Inr ())"

definition create_component ::
  "validator \<Rightarrow> scene \<Rightarrow> component_request \<Rightarrow> catalogue \<Rightarrow> (catalogue_row \<times> catalogue) result" where
  "create_component validate sc p cat =
     bind_res (check_formula validate p) (\<lambda>_.
       let component =
             \<lparr> pc_company_id = sc_company_id sc, pc_code = py_upper (rq_code p), pc_type = rq_type p,
               pc_calculation_method = rq_calculation_method p,
               pc_default_percentage = rq_default_percentage p, pc_formula_expr = rq_formula_expr p,
               pc_is_active = True, cr_id = fresh_id (map cr_id cat), cr_name = rq_name p,
               cr_taxable = rq_taxable p, cr_statutory = rq_statutory p,
               cr_effective_date = (case rq_effective_date p of Some d \<Rightarrow> d | None \<Rightarrow> sc_today sc),
               cr_created_at = sc_now sc \<rparr>
       in Inr (component, cat @ [component]))"

definition get_component :: "uuid \<Rightarrow> catalogue \<Rightarrow> catalogue_row result" where
  "get_component i cat =
     bind_res (scalar_one_or_none (filter (\<lambda>c. cr_id c = i) cat)) (\<lambda>found.
       case found of None \<Rightarrow> Inl (HTTPException 404 ''Pay component not found'') | Some c \<Rightarrow> Inr c)"

definition put_component :: "catalogue_row \<Rightarrow> catalogue \<Rightarrow> catalogue" where
  "put_component c cat = update_where (\<lambda>d. cr_id d = cr_id c) (\<lambda>_. c) cat"

text \<open>
  The fields an update request may set, each with the value it carries (an explicit null is
  ignored); \<open>exclude_unset\<close> makes the payload the list of the fields that were sent.
\<close>

datatype component_field =
    Set_name "string option" | Set_type "string option" | Set_taxable "bool option"
  | Set_statutory "bool option" | Set_calculation_method "string option"
  | Set_default_percentage "rat option" | Set_formula_expr "string option" | Set_is_active "bool option"

fun set_field :: "component_field \<Rightarrow> catalogue_row \<Rightarrow> catalogue_row" where
  "set_field (Set_name (Some v)) c = c\<lparr> cr_name := v \<rparr>"
| "set_field (Set_type (Some v)) c = c\<lparr> pc_type := v \<rparr>"
| "set_field (Set_taxable (Some v)) c = c\<lparr> cr_taxable := v \<rparr>"
| "set_field (Set_statutory (Some v)) c = c\<lparr> cr_statutory := v \<rparr>"
| "set_field (Set_calculation_method (Some v)) c = c\<lparr> pc_calculation_method := v \<rparr>"
| "set_field (Set_default_percentage (Some v)) c = c\<lparr> pc_default_percentage := Some v \<rparr>"
| "set_field (Set_formula_expr (Some v)) c = c\<lparr> pc_formula_expr := Some v \<rparr>"
| "set_field (Set_is_active (Some v)) c = c\<lparr> pc_is_active := v \<rparr>"
| "set_field (Set_name None) c = c"
| "set_field (Set_type None) c = c"
| "set_field (Set_taxable None) c = c"
| "set_field (Set_statutory None) c = c"
| "set_field (Set_calculation_method None) c = c"
| "set_field (Set_default_percentage None) c = c"
| "set_field (Set_formula_expr None) c = c"
| "set_field (Set_is_active None) c = c"

fun sent_formula :: "component_field list \<Rightarrow> string option option" where
  "sent_formula [] = None"
| "sent_formula (Set_formula_expr v # fs) = Some v"
| "sent_formula (f # fs) = sent_formula fs"

fun sent_method :: "component_field list \<Rightarrow> string option" where
  "sent_method [] = None"
| "sent_method (Set_calculation_method v # fs) = v"
| "sent_method (f # fs) = sent_method fs"

definition update_component ::
  "validator \<Rightarrow> uuid \<Rightarrow> component_field list \<Rightarrow> catalogue \<Rightarrow> (catalogue_row \<times> catalogue) result" where
  "update_component validate i p cat =
     bind_res (get_component i cat) (\<lambda>comp.
       if sent_formula p \<noteq> None \<and> sent_method p = Some ''formula'' \<and>
          \<not> fst (validate (case sent_formula p of Some (Some f) \<Rightarrow> f | _ \<Rightarrow> []))
       then Inl invalid_formula
       else let comp' = fold set_field p comp in Inr (comp', put_component comp' cat))"

definition delete_component :: "uuid \<Rightarrow> catalogue \<Rightarrow> catalogue result" where
  "delete_component i cat =
     bind_res (get_component i cat) (\<lambda>comp. Inr (put_component (comp\<lparr> pc_is_active := False \<rparr>) cat))"

section \<open>When a listing returns\<close>

lemma seed_items_rows:
  "seed_items sc ts cat = Inr cat' \<Longrightarrow>
     \<exists>new. cat' = cat @ new \<and> (\<forall>c \<in> set new. \<exists>t \<in> set ts. \<exists>i. c = row_of_template sc i t)"
proof (induction sc ts cat rule: seed_items.induct)
  case (2 sc t ts cat)
  then show ?case
    by (fastforce split: sum.splits option.splits)
qed simp

lemma seed_items_stuck:
  "\<forall>t \<in> set ts. length (with_code sc t cat) = 1 \<Longrightarrow> seed_items sc ts cat = Inr cat"
  by (induction ts) (auto simp: length_Suc_conv)

lemma seed_items_unchanged:
  "seed_items sc ts cat = Inr cat \<Longrightarrow> \<forall>t \<in> set ts. length (with_code sc t cat) = 1"
proof (induction ts)
  case (Cons t ts)
  show ?case
  proof (cases "scalar_one_or_none (with_code sc t cat)")
    case (Inr found)
    show ?thesis
    proof (cases found)
      case None
      then show ?thesis using Cons.prems Inr seed_items_rows by fastforce
    next
      case (Some c)
      then show ?thesis using Cons Inr by (simp add: scalar_one_or_none_Inr_Some)
    qed
  qed (use Cons.prems in simp)
qed simp

lemma row_of_template_listed:
  "pc_is_active (row_of_template sc i t)" "visible_to sc (row_of_template sc i t)"
  by (simp_all add: row_of_template_def visible_to_def)

lemma active_components_Nil:
  "active_components sc cat = [] \<longleftrightarrow>
     (\<forall>c \<in> set cat. \<not> (pc_is_active c \<and> (sc_company_id sc = None \<or> visible_to sc c)))"
  by (auto simp: active_components_def filter_empty_conv simp flip: set_empty)

lemma seeded_is_listed:
  assumes "seed_items sc ts cat = Inr cat'" "cat' \<noteq> cat"
  shows "active_components sc cat' \<noteq> []"
proof -
  obtain new where cat': "cat' = cat @ new"
    and new: "\<forall>c \<in> set new. \<exists>t \<in> set ts. \<exists>i. c = row_of_template sc i t"
    using seed_items_rows [OF assms(1)] by blast
  then obtain c where "c \<in> set new" using assms(2) by (cases new) auto
  then have "c \<in> set cat'" "pc_is_active c" "visible_to sc c"
    using cat' new row_of_template_listed by auto
  then show ?thesis unfolding active_components_Nil by blast
qed

definition exhausted :: "scene \<Rightarrow> catalogue \<Rightarrow> bool" where
  "exhausted sc cat \<longleftrightarrow> active_components sc cat = [] \<and>
     (\<forall>t \<in> set DEFAULT_INDIAN_COMPONENTS. length (with_code sc t cat) = 1)"

lemma list_components_answers:
  assumes "list_components sc cat = Some r"
  shows "\<not> exhausted sc cat"
proof (rule list_components.raw_induct [where P = "\<lambda>sc cat r. \<not> exhausted sc cat", OF _ assms], rule notI)
  fix call sc cat r
  assume step: "\<And>sc cat r. call sc cat = Some r \<Longrightarrow> \<not> exhausted sc cat"
    and body: "(let components = active_components sc cat
      in if components \<noteq> [] then Some (Inr (components, cat))
         else case seed_items sc DEFAULT_INDIAN_COMPONENTS cat of
                Inl e \<Rightarrow> Some (Inl e)
              | Inr cat' \<Rightarrow> call sc cat') = Some r"
    and stuck: "exhausted sc cat"
  then have "call sc cat = Some r"
    by (simp add: exhausted_def seed_items_stuck)
  from step [OF this] stuck show False by simp
qed

text \<open>What a listing answers when it does: the active rows, after at most one seeding.\<close>

definition listing :: "scene \<Rightarrow> catalogue \<Rightarrow> (catalogue \<times> catalogue) result" where
  "listing sc cat =
     (if active_components sc cat \<noteq> [] then Inr (active_components sc cat, cat)
      else bind_res (seed_items sc DEFAULT_INDIAN_COMPONENTS cat) (\<lambda>cat'.
             Inr (active_components sc cat', cat')))"

lemma list_components_listing:
  assumes "\<not> exhausted sc cat"
  shows "list_components sc cat = Some (listing sc cat)"
proof (cases "active_components sc cat = []")
  case True
  show ?thesis
  proof (cases "seed_items sc DEFAULT_INDIAN_COMPONENTS cat")
    case (Inr cat')
    then have "cat' \<noteq> cat" using True assms seed_items_unchanged by (auto simp: exhausted_def)
    from seeded_is_listed [OF Inr this] have "active_components sc cat' \<noteq> []" .
    then show ?thesis
      using True Inr by (simp add: list_components.simps [of sc cat] list_components.simps [of sc cat'] listing_def)
  qed (use True in \<open>simp add: list_components.simps listing_def\<close>)
qed (simp add: list_components.simps listing_def)

lemma list_components_spec:
  "list_components sc cat = (if exhausted sc cat then None else Some (listing sc cat))"
proof (cases "exhausted sc cat")
  case True
  have "list_components sc cat \<noteq> Some r" for r
    using True list_components_answers by blast
  then have "list_components sc cat = None" by (cases "list_components sc cat") blast+
  then show ?thesis using True by simp
qed (simp add: list_components_listing)

text \<open>
  C40: listing the catalogue comes back exactly when an active component is visible or one of the
  twelve defaults is missing (or doubled, which is an error); a catalogue whose defaults were all
  deactivated makes the listing and the seeding call each other for ever. A listing that comes
  back with rows lists the active ones, keeps every stored row, and a second one changes nothing.
\<close>

theorem listing_terminates:
  "(list_components sc cat = None \<longleftrightarrow>
      active_components sc cat = [] \<and>
      (\<forall>t \<in> set DEFAULT_INDIAN_COMPONENTS. length (with_code sc t cat) = 1)) \<and>
   (\<forall>rows cat'. list_components sc cat = Some (Inr (rows, cat')) \<longrightarrow>
      rows \<noteq> [] \<and> rows = active_components sc cat' \<and> take (length cat) cat' = cat \<and>
      list_components sc cat' = Some (Inr (rows, cat')))"
proof (rule conjI)
  show "list_components sc cat = None \<longleftrightarrow>
      active_components sc cat = [] \<and>
      (\<forall>t \<in> set DEFAULT_INDIAN_COMPONENTS. length (with_code sc t cat) = 1)"
    by (simp add: list_components_spec exhausted_def)
next
  show "\<forall>rows cat'. list_components sc cat = Some (Inr (rows, cat')) \<longrightarrow>
      rows \<noteq> [] \<and> rows = active_components sc cat' \<and> take (length cat) cat' = cat \<and>
      list_components sc cat' = Some (Inr (rows, cat'))"
  proof (intro allI impI)
    fix rows cat'
    assume answer: "list_components sc cat = Some (Inr (rows, cat'))"
    then have fine: "\<not> exhausted sc cat" and got: "listing sc cat = Inr (rows, cat')"
      by (auto simp: list_components_spec split: if_splits)
    have rows: "rows = active_components sc cat'"
      using got by (auto simp: listing_def bind_res_Inr_iff split: if_splits)
    have "rows \<noteq> [] \<and> take (length cat) cat' = cat"
    proof (cases "active_components sc cat = []")
      case True
      then have seeded: "seed_items sc DEFAULT_INDIAN_COMPONENTS cat = Inr cat'"
        using got by (auto simp: listing_def bind_res_Inr_iff)
      then have "cat' \<noteq> cat" using True fine seed_items_unchanged by (auto simp: exhausted_def)
      then show ?thesis using seeded_is_listed [OF seeded] seed_items_rows [OF seeded] rows by auto
    next
      case False
      then show ?thesis using got by (auto simp: listing_def)
    qed
    then show "rows \<noteq> [] \<and> rows = active_components sc cat' \<and> take (length cat) cat' = cat \<and>
      list_components sc cat' = Some (Inr (rows, cat'))"
      using rows by (simp add: list_components.simps)
  qed
qed

text \<open>A tenant that seeds its catalogue and then deactivates every row can never list it again.\<close>

definition acme_scene :: scene where
  "acme_scene = \<lparr> sc_company_id = Some 1, sc_today = 20000, sc_now = 5 \<rparr>"

definition deactivated_catalogue :: catalogue where
  "deactivated_catalogue =
     (case seed_items acme_scene DEFAULT_INDIAN_COMPONENTS [] of
        Inl e \<Rightarrow> []
      | Inr cat \<Rightarrow> fold (\<lambda>i cat'. case delete_component i cat' of Inl e \<Rightarrow> cat' | Inr cat'' \<Rightarrow> cat'') (map cr_id cat) cat)"

theorem listing_terminates_witness:
  "list_components acme_scene deactivated_catalogue = None \<and> length deactivated_catalogue = 12 \<and>
   (\<exists>rows cat'. list_components acme_scene [] = Some (Inr (rows, cat')) \<and> length rows = 12 \<and>
      list_components acme_scene cat' = Some (Inr (rows, cat')))"
proof -
  have dead: "list_components acme_scene deactivated_catalogue = None"
  proof -
    have "active_components acme_scene deactivated_catalogue = []"
      "list_all (\<lambda>t. length (with_code acme_scene t deactivated_catalogue) = 1) DEFAULT_INDIAN_COMPONENTS"
      by code_simp+
    then show ?thesis
      by (intro listing_terminates [of acme_scene deactivated_catalogue, THEN conjunct1, THEN iffD2])
        (simp add: list_all_iff)
  qed
  have twelve: "length deactivated_catalogue = 12" by code_simp
  have "\<not> list_all (\<lambda>t. length (with_code acme_scene t []) = 1) DEFAULT_INDIAN_COMPONENTS"
    by code_simp
  then have "\<not> exhausted acme_scene []" by (simp add: exhausted_def list_all_iff)
  then have first: "list_components acme_scene [] = Some (listing acme_scene [])"
    by (simp add: list_components_spec)
  have "case_sum (\<lambda>e. 0) (\<lambda>p. length (fst p)) (listing acme_scene []) = 12" by code_simp
  then obtain p where p: "listing acme_scene [] = Inr p" "length (fst p) = 12"
    by (cases "listing acme_scene []") simp_all
  then obtain rows cat' where seeded: "listing acme_scene [] = Inr (rows, cat')" "length rows = 12"
    by (cases p) simp
  then have "list_components acme_scene cat' = Some (Inr (rows, cat'))"
    using listing_terminates [of acme_scene "[]", THEN conjunct2, THEN spec, THEN spec, THEN mp] first
    by simp
  with dead twelve first seeded show ?thesis by simp
qed

section \<open>Well-formed components\<close>

definition well_formed :: "validator \<Rightarrow> catalogue_row \<Rightarrow> bool" where
  "well_formed validate c \<longleftrightarrow>
     pc_type c \<in> set ALLOWED_TYPES \<and> pc_calculation_method c \<in> set ALLOWED_CALC_METHODS \<and>
     (pc_calculation_method c = ''formula'' \<longrightarrow>
        (\<exists>f. pc_formula_expr c = Some f \<and> fst (validate f)))"

datatype catalogue_request =
    List_components | Seed_components | Create_component component_request
  | Update_component uuid "component_field list" | Delete_component uuid

definition keep_on_error :: "'a \<Rightarrow> 'a result \<Rightarrow> 'a" where
  "keep_on_error x r = (case r of Inl e \<Rightarrow> x | Inr y \<Rightarrow> y)"

definition stored_after :: "catalogue \<Rightarrow> ('a \<times> catalogue) result option \<Rightarrow> catalogue" where
  "stored_after cat answer =
     (case answer of None \<Rightarrow> cat | Some r \<Rightarrow> keep_on_error cat (bind_res r (\<lambda>p. Inr (snd p))))"

text \<open>The table after one request; a request that fails, or never ends, commits nothing.\<close>

fun perform_request :: "validator \<Rightarrow> scene \<times> catalogue_request \<Rightarrow> catalogue \<Rightarrow> catalogue" where
  "perform_request validate (sc, List_components) cat = stored_after cat (list_components sc cat)"
| "perform_request validate (sc, Seed_components) cat =
     stored_after cat (seed_default_indian_components sc cat)"
| "perform_request validate (sc, Create_component r) cat =
     stored_after cat (Some (bind_res (parse_request r) (\<lambda>p. create_component validate sc p cat)))"
| "perform_request validate (sc, Update_component i p) cat =
     stored_after cat (Some (update_component validate i p cat))"
| "perform_request validate (sc, Delete_component i) cat = keep_on_error cat (delete_component i cat)"

text \<open>
  An update is checked when all of its shape is looked at: its type and method are allowed, the method
  \<open>formula\<close> comes with a formula, which the service then validates, and a formula comes with a
  method. A payload is a dictionary, so no field is sent twice.
\<close>

fun field_index :: "component_field \<Rightarrow> nat" where
  "field_index (Set_name v) = 0"
| "field_index (Set_type v) = 1"
| "field_index (Set_taxable v) = 2"
| "field_index (Set_statutory v) = 3"
| "field_index (Set_calculation_method v) = 4"
| "field_index (Set_default_percentage v) = 5"
| "field_index (Set_formula_expr v) = 6"
| "field_index (Set_is_active v) = 7"

fun sent_type :: "component_field list \<Rightarrow> string option" where
  "sent_type [] = None"
| "sent_type (Set_type v # fs) = v"
| "sent_type (f # fs) = sent_type fs"

definition formula_sent :: "component_field list \<Rightarrow> string option" where
  "formula_sent p = (case sent_formula p of Some v \<Rightarrow> v | None \<Rightarrow> None)"

definition checked_payload :: "component_field list \<Rightarrow> bool" where
  "checked_payload p \<longleftrightarrow> distinct (map field_index p) \<and>
     (case sent_type p of None \<Rightarrow> True | Some ty \<Rightarrow> ty \<in> set ALLOWED_TYPES) \<and>
     (case sent_method p of
        None \<Rightarrow> formula_sent p = None
      | Some me \<Rightarrow> me \<in> set ALLOWED_CALC_METHODS \<and> (me = ''formula'' \<longrightarrow> formula_sent p \<noteq> None))"

fun unchecked_update :: "uuid \<Rightarrow> catalogue_request \<Rightarrow> bool" where
  "unchecked_update i (Update_component j p) \<longleftrightarrow> j = i \<and> \<not> checked_payload p"
| "unchecked_update i r \<longleftrightarrow> False"

definition default_formulas :: "string list" where
  "default_formulas =
     [''max(0, (ctc / 12) - (basic + hra))'', ''min(basic, 15000) * 0.12'', ''round(gross * 0.0075)'']"

lemma default_rows_well_formed:
  assumes "list_all (\<lambda>f. fst (validate f)) default_formulas" "t \<in> set DEFAULT_INDIAN_COMPONENTS"
  shows "well_formed validate (row_of_template sc i t)"
  using assms
  by (auto simp: DEFAULT_INDIAN_COMPONENTS_def default_formulas_def template_def row_of_template_def
      well_formed_def ALLOWED_TYPES_def ALLOWED_CALC_METHODS_def)

text \<open>Every row is well formed, those with the ids \<open>B\<close> excepted.\<close>

definition all_well_formed :: "uuid set \<Rightarrow> validator \<Rightarrow> catalogue \<Rightarrow> bool" where
  "all_well_formed B validate cat \<longleftrightarrow> (\<forall>c \<in> set cat. cr_id c \<in> B \<or> well_formed validate c)"

lemma seed_items_well_formed:
  assumes "list_all (\<lambda>f. fst (validate f)) default_formulas" "all_well_formed B validate cat"
    "seed_items sc DEFAULT_INDIAN_COMPONENTS cat = Inr cat'"
  shows "all_well_formed B validate cat'"
  using seed_items_rows [OF assms(3)] assms(1,2) default_rows_well_formed
  by (fastforce simp: all_well_formed_def)

lemma listing_well_formed:
  assumes "list_all (\<lambda>f. fst (validate f)) default_formulas" "all_well_formed B validate cat"
  shows "all_well_formed B validate (stored_after cat (list_components sc cat))"
  using assms seed_items_well_formed [OF assms]
  by (auto simp: list_components_spec stored_after_def keep_on_error_def listing_def bind_res_case
      split: sum.splits)

lemma create_well_formed:
  assumes "create_component validate sc p cat = Inr (c, cat')" "parse_request r = Inr p"
    "all_well_formed B validate cat"
  shows "all_well_formed B validate cat'"
proof -
  have "rq_type p \<in> set ALLOWED_TYPES" "rq_calculation_method p \<in> set ALLOWED_CALC_METHODS"
    using assms(2)
    by (auto simp: parse_request_def validate_type_def validate_calc_method_def Let_def bind_res_Inr_iff
        split: if_splits)
  moreover have "check_formula validate p = Inr ()" "cat' = cat @ [c]"
    "pc_type c = rq_type p" "pc_calculation_method c = rq_calculation_method p"
    "pc_formula_expr c = rq_formula_expr p"
    using assms(1) by (auto simp: create_component_def Let_def bind_res_Inr_iff)
  ultimately show ?thesis
    using assms(3)
    by (auto simp: check_formula_def all_well_formed_def well_formed_def split: option.splits if_splits)
qed

lemma get_component_in: "get_component i cat = Inr c \<Longrightarrow> c \<in> set cat \<and> cr_id c = i"
proof -
  assume "get_component i cat = Inr c"
  then have "filter (\<lambda>c. cr_id c = i) cat = [c]"
    by (auto simp: get_component_def bind_res_Inr_iff scalar_one_or_none_Inr_Some split: option.splits)
  then have "c \<in> set (filter (\<lambda>c. cr_id c = i) cat)" by simp
  then show ?thesis by simp
qed

lemma put_well_formed:
  "all_well_formed B validate cat \<Longrightarrow> cr_id c \<in> B \<or> well_formed validate c \<Longrightarrow>
     all_well_formed B validate (put_component c cat)"
  by (fastforce simp: all_well_formed_def put_component_def in_set_update_where)

text \<open>What an update of distinct fields leaves in the row.\<close>

lemma sent_none:
  "1 \<notin> field_index ` set p \<Longrightarrow> sent_type p = None"
  "4 \<notin> field_index ` set p \<Longrightarrow> sent_method p = None"
  "6 \<notin> field_index ` set p \<Longrightarrow> formula_sent p = None"
proof -
  have "(1 \<notin> field_index ` set p \<longrightarrow> sent_type p = None) \<and> (4 \<notin> field_index ` set p \<longrightarrow> sent_method p = None) \<and>
    (6 \<notin> field_index ` set p \<longrightarrow> sent_formula p = None)"
  proof (induction p)
    case (Cons f p)
    then show ?case by (cases f) auto
  qed simp
  then show "1 \<notin> field_index ` set p \<Longrightarrow> sent_type p = None"
    "4 \<notin> field_index ` set p \<Longrightarrow> sent_method p = None"
    "6 \<notin> field_index ` set p \<Longrightarrow> formula_sent p = None" by (auto simp: formula_sent_def)
qed

lemma set_fields_id [simp]: "cr_id (fold set_field p c) = cr_id c"
proof (induction p arbitrary: c)
  case (Cons f p)
  have "cr_id (set_field f c) = cr_id c" by (cases "(f, c)" rule: set_field.cases) auto
  then show ?case using Cons by simp
qed simp

definition sent_or :: "'a \<Rightarrow> 'a option \<Rightarrow> 'a" where "sent_or x v = (case v of None \<Rightarrow> x | Some y \<Rightarrow> y)"

lemma sent_or_simps [simp]: "sent_or x None = x" "sent_or x (Some y) = y"
  by (simp_all add: sent_or_def)

lemma set_fields_shape:
  "distinct (map field_index p) \<Longrightarrow>
     pc_type (fold set_field p c) = sent_or (pc_type c) (sent_type p) \<and>
     pc_calculation_method (fold set_field p c) = sent_or (pc_calculation_method c) (sent_method p) \<and>
     pc_formula_expr (fold set_field p c) = sent_or (pc_formula_expr c) (map_option Some (formula_sent p))"
proof (induction p arbitrary: c)
  case (Cons f p)
  then have p: "distinct (map field_index p)" "field_index f \<notin> field_index ` set p" by auto
  note IH = Cons.IH [OF p(1), of "set_field f c"] and none = sent_none [of p]
  show ?case
  proof (cases f)
    case (Set_type v)
    then show ?thesis using IH none(1) p(2) by (cases v) (simp_all add: formula_sent_def)
  next
    case (Set_calculation_method v)
    then show ?thesis using IH none(2) p(2) by (cases v) (simp_all add: formula_sent_def)
  next
    case (Set_formula_expr v)
    then show ?thesis using IH none(3) p(2) by (cases v) (simp_all add: formula_sent_def)
  next
    case (Set_name v)
    then show ?thesis using IH by (cases v) (simp_all add: formula_sent_def)
  next
    case (Set_taxable v)
    then show ?thesis using IH by (cases v) (simp_all add: formula_sent_def)
  next
    case (Set_statutory v)
    then show ?thesis using IH by (cases v) (simp_all add: formula_sent_def)
  next
    case (Set_default_percentage v)
    then show ?thesis using IH by (cases v) (simp_all add: formula_sent_def)
  next
    case (Set_is_active v)
    then show ?thesis using IH by (cases v) (simp_all add: formula_sent_def)
  qed
qed (simp add: formula_sent_def)

lemma checked_fields_well_formed:
  assumes "checked_payload p" "well_formed validate c"
    and valid: "sent_formula p \<noteq> None \<Longrightarrow> sent_method p = Some ''formula'' \<Longrightarrow>
      fst (validate (case sent_formula p of Some (Some f) \<Rightarrow> f | _ \<Rightarrow> []))"
  shows "well_formed validate (fold set_field p c)"
proof -
  have shape: "pc_type (fold set_field p c) = sent_or (pc_type c) (sent_type p)"
    "pc_calculation_method (fold set_field p c) = sent_or (pc_calculation_method c) (sent_method p)"
    "pc_formula_expr (fold set_field p c) = sent_or (pc_formula_expr c) (map_option Some (formula_sent p))"
    using set_fields_shape [of p c] assms(1) by (simp_all add: checked_payload_def)
  have "sent_or (pc_type c) (sent_type p) \<in> set ALLOWED_TYPES"
    using assms(1,2) by (simp add: checked_payload_def well_formed_def sent_or_def split: option.splits)
  moreover have "well_formed validate (fold set_field p c)" if "pc_type (fold set_field p c) \<in> set ALLOWED_TYPES"
  proof (cases "sent_method p")
    case None
    then show ?thesis using that assms(1,2) by (simp add: checked_payload_def well_formed_def shape)
  next
    case (Some me)
    then have me: "me \<in> set ALLOWED_CALC_METHODS" "me = ''formula'' \<longrightarrow> formula_sent p \<noteq> None"
      using assms(1) by (simp_all add: checked_payload_def)
    have "\<exists>f. formula_sent p = Some f \<and> fst (validate f)" if formula: "me = ''formula''"
    proof -
      obtain f where f: "sent_formula p = Some (Some f)" using me(2) formula
        by (auto simp: formula_sent_def split: option.splits)
      then show ?thesis using valid Some formula by (simp add: formula_sent_def)
    qed
    then show ?thesis using that Some me(1) by (auto simp: well_formed_def shape)
  qed
  ultimately show ?thesis by (simp add: shape)
qed

lemma update_well_formed:
  assumes "update_component validate i p cat = Inr (c, cat')" "i \<in> B \<or> checked_payload p"
    "all_well_formed B validate cat"
  shows "all_well_formed B validate cat'"
proof -
  obtain comp where comp: "get_component i cat = Inr comp" and c: "c = fold set_field p comp"
    and cat': "cat' = put_component c cat"
    and valid: "sent_formula p \<noteq> None \<Longrightarrow> sent_method p = Some ''formula'' \<Longrightarrow>
      fst (validate (case sent_formula p of Some (Some f) \<Rightarrow> f | _ \<Rightarrow> []))"
    using assms(1) by (auto simp: update_component_def bind_res_Inr_iff Let_def split: if_splits)
  have ok: "i \<in> B \<or> well_formed validate comp" "cr_id comp = i"
    using get_component_in [OF comp] assms(3) by (auto simp: all_well_formed_def)
  have "cr_id c \<in> B \<or> well_formed validate c"
    using checked_fields_well_formed [of p validate comp] valid assms(2) ok unfolding c by auto
  then show ?thesis using put_well_formed [OF assms(3)] cat' by simp
qed

lemma delete_well_formed:
  assumes "delete_component i cat = Inr cat'" "all_well_formed B validate cat"
  shows "all_well_formed B validate cat'"
proof -
  obtain comp where comp: "get_component i cat = Inr comp" "cat' = put_component (comp\<lparr> pc_is_active := False \<rparr>) cat"
    using assms(1) by (auto simp: delete_component_def bind_res_Inr_iff)
  moreover have "cr_id comp \<in> B \<or> well_formed validate (comp\<lparr> pc_is_active := False \<rparr>)"
    using get_component_in [OF comp(1)] assms(2) by (auto simp: all_well_formed_def well_formed_def)
  ultimately show ?thesis using put_well_formed [OF assms(2), of "comp\<lparr> pc_is_active := False \<rparr>"] by simp
qed

lemma perform_well_formed:
  assumes "list_all (\<lambda>f. fst (validate f)) default_formulas" "\<forall>i. unchecked_update i r \<longrightarrow> i \<in> B" "all_well_formed B validate cat"
  shows "all_well_formed B validate (perform_request validate (sc, r) cat)"
proof (cases r)
  case List_components
  then show ?thesis using listing_well_formed assms by simp
next
  case Seed_components
  show ?thesis
  proof (cases "seed_items sc DEFAULT_INDIAN_COMPONENTS cat")
    case (Inr cat')
    from seed_items_well_formed [OF assms(1,3) this] have "all_well_formed B validate cat'" .
    from listing_well_formed [OF assms(1) this, of sc] show ?thesis
      using Inr Seed_components assms(3)
      by (auto simp: seed_default_indian_components_def stored_after_def keep_on_error_def bind_res_case
          split: option.splits sum.splits)
  qed (use Seed_components assms(3) in
      \<open>simp add: seed_default_indian_components_def stored_after_def keep_on_error_def\<close>)
next
  case (Create_component q)
  then show ?thesis
    using assms(3) create_well_formed
    by (auto simp: stored_after_def keep_on_error_def bind_res_case split: sum.splits)
next
  case (Update_component i p)
  then show ?thesis
    using assms(2,3) update_well_formed
    by (auto simp: stored_after_def keep_on_error_def bind_res_case split: sum.splits)
next
  case (Delete_component i)
  then show ?thesis
    using assms(3) delete_well_formed by (auto simp: keep_on_error_def split: sum.splits)
qed

lemma trace_well_formed:
  assumes "list_all (\<lambda>f. fst (validate f)) default_formulas" "all_well_formed B validate cat"
  shows "\<forall>r \<in> set rs. \<forall>i. unchecked_update i (snd r) \<longrightarrow> i \<in> B \<Longrightarrow> all_well_formed B validate (fold (perform_request validate) rs cat)"
  using assms(2)
proof (induction rs arbitrary: cat)
  case (Cons r rs)
  obtain sc q where "r = (sc, q)" by (cases r)
  then show ?case using Cons perform_well_formed [OF assms(1)] by auto
qed simp

text \<open>What Python's parser makes of the default formulas.\<close>

definition default_trees :: "(string \<times> expr) list" where
  "default_trees =
     [(''max(0, (ctc / 12) - (basic + hra))'',
       Call ''max'' [Constant (CNum 0),
         BinOp (BinOp (Name ''ctc'') Div (Constant (CNum 12))) Sub (BinOp (Name ''basic'') Add (Name ''hra''))] False),
      (''min(basic, 15000) * 0.12'',
       BinOp (Call ''min'' [Name ''basic'', Constant (CNum 15000)] False) Mult (Constant (CNum (3 / 25)))),
      (''round(gross * 0.0075)'',
       Call ''round'' [BinOp (Name ''gross'') Mult (Constant (CNum (3 / 400)))] False)]"

definition formula_names :: "string list" where
  "formula_names = map fst (sample_ctx [])"

text \<open>The validator of the service, over the sample values of \<open>validate_formula\<close>.\<close>

definition service_validator ::
  "(rat \<Rightarrow> rat \<Rightarrow> arith) \<Rightarrow> (string \<Rightarrow> expr option) \<Rightarrow> validator" where
  "service_validator pw parse f = validate_formula pw parse f []"

lemma default_trees_evaluate:
  "list_all (\<lambda>p. py_strip (fst p) = fst p \<and>
     (case eval_node pw (build_ctx (sample_ctx [])) (snd p) of Inl e \<Rightarrow> False | Inr v \<Rightarrow> True)) default_trees"
  by code_simp

lemma service_validates_defaults:
  assumes "\<forall>p \<in> set default_trees. parse (fst p) = Some (snd p)"
  shows "list_all (\<lambda>f. fst (service_validator pw parse f)) default_formulas"
proof -
  have names: "default_formulas = map fst default_trees" by (simp add: default_formulas_def default_trees_def)
  have "fst (service_validator pw parse (fst p))" if p: "p \<in> set default_trees" for p
  proof -
    have "py_strip (fst p) = fst p" "\<exists>v. eval_node pw (build_ctx (sample_ctx [])) (snd p) = Inr v"
      using default_trees_evaluate [of pw] p
      by (cases "eval_node pw (build_ctx (sample_ctx [])) (snd p)"; force simp: list_all_iff split: sum.splits)+
    moreover have "fst p \<noteq> []" using p by (auto simp: default_trees_def)
    ultimately show ?thesis
      using assms p by (auto simp: service_validator_def validate_formula_def evaluate_decimal_def)
  qed
  then show ?thesis unfolding names list_all_iff set_map by blast
qed

lemma dom_build_ctx: "dom (build_ctx xs) = (\<lambda>kv. py_lower (fst kv)) ` set xs"
proof -
  have "dom (foldl (\<lambda>m kv. m(py_lower (fst kv) \<mapsto> as_decimal (snd kv))) m xs) =
      dom m \<union> (\<lambda>kv. py_lower (fst kv)) ` set xs" for m :: ctx
    by (induction xs arbitrary: m) auto
  then show ?thesis by (simp add: build_ctx_def)
qed

lemma sample_ctx_names: "dom (build_ctx (sample_ctx [])) = set formula_names"
  by (simp add: dom_build_ctx formula_names_def sample_ctx_def py_lower_def low_char_def)

text \<open>
  C39: given that the parser reads the three default formulas as they are written, along every trace
  of listings, seedings, creations, deactivations and updates of any tenants, every stored component
  has one of the three types and one of the four methods, and a component computed by formula stores
  one whose tree is whitelisted and reads only the eight names of the sandbox; unless the trace has an
  update of this very component that the service does not check: one that sends a type or method
  outside the tables, a formula without its method, or the method \<open>formula\<close> without a formula.
\<close>

theorem catalogue_well_typed:
  assumes "\<forall>p \<in> set default_trees. parse (fst p) = Some (snd p)"
    and "c \<in> set (fold (perform_request (service_validator pw parse)) requests [])"
  shows "(\<exists>r \<in> set requests. unchecked_update (cr_id c) (snd r)) \<or>
    pc_type c \<in> set ALLOWED_TYPES \<and> pc_calculation_method c \<in> set ALLOWED_CALC_METHODS \<and>
    (pc_calculation_method c = ''formula'' \<longrightarrow>
       (\<exists>f e. pc_formula_expr c = Some f \<and> parse (py_strip f) = Some e \<and> whitelisted e \<and>
          vars e \<subseteq> set formula_names))"
proof -
  let ?B = "{i. \<exists>r \<in> set requests. unchecked_update i (snd r)}"
  have "all_well_formed ?B (service_validator pw parse) (fold (perform_request (service_validator pw parse)) requests [])"
    using trace_well_formed [OF service_validates_defaults [OF assms(1), of pw], of ?B "[]" requests]
    by (auto simp: all_well_formed_def)
  then have "cr_id c \<in> ?B \<or> well_formed (service_validator pw parse) c"
    using assms(2) by (simp add: all_well_formed_def)
  moreover have "\<exists>e. parse (py_strip f) = Some e \<and> whitelisted e \<and> vars e \<subseteq> set formula_names"
    if "fst (service_validator pw parse f)" for f
    using that eval_whitelisted(1) sample_ctx_names
    by (fastforce simp: service_validator_def validate_formula_def evaluate_decimal_def
        split: if_splits sum.splits option.splits)
  ultimately show ?thesis by (auto simp: well_formed_def)
qed

text \<open>
  Two new components, whose type the schema cleans; an unchecked type for the second; and an update of
  the first that replaces its formula.
\<close>

definition bonus_request :: component_request where
  "bonus_request =
     \<lparr> rq_code = ''shift_pay'', rq_name = ''Shift pay'', rq_type = '' Earning'', rq_taxable = True,
       rq_statutory = False, rq_calculation_method = ''FORMULA'', rq_default_percentage = None,
       rq_formula_expr = Some ''round(gross * 0.0075)'', rq_effective_date = None \<rparr>"

definition sample_catalogue_requests :: "(scene \<times> catalogue_request) list" where
  "sample_catalogue_requests =
     [(acme_scene, Create_component bonus_request), (acme_scene, Create_component bonus_request),
      (acme_scene, Update_component 2 [Set_type (Some ''bonus'')]),
      (acme_scene, Update_component 1
         [Set_name None, Set_calculation_method (Some ''formula''),
          Set_formula_expr (Some ''min(basic, 15000) * 0.12'')])]"

theorem catalogue_well_typed_witness:
  "let cat = fold (perform_request (service_validator sample_pow (map_of default_trees))) sample_catalogue_requests []
   in map cr_id cat = [1, 2] \<and> map pc_type cat = [''earning'', ''bonus''] \<and>
      (\<exists>e. map_of default_trees (py_strip (or_str (pc_formula_expr (hd cat)) [])) = Some e \<and> whitelisted e)"
proof -
  define cat where
    "cat = fold (perform_request (service_validator sample_pow (map_of default_trees))) sample_catalogue_requests []"
  have parsed: "\<forall>p \<in> set default_trees. map_of default_trees (fst p) = Some (snd p)"
    by (simp add: default_trees_def)
  have "map (\<lambda>c. (cr_id c, pc_type c, pc_calculation_method c)) cat =
      [(1, ''earning'', ''formula''), (2, ''bonus'', ''formula'')]"
    unfolding cat_def by code_simp
  then obtain c d where c: "cat = [c, d]" "cr_id c = 1" "pc_calculation_method c = ''formula''" "cr_id d = 2"
    "pc_type c = ''earning''" "pc_type d = ''bonus''" by (auto simp: map_eq_Cons_conv)
  then have "c \<in> set (fold (perform_request (service_validator sample_pow (map_of default_trees))) sample_catalogue_requests [])"
    by (simp flip: cat_def)
  from catalogue_well_typed [OF parsed this] have
    "\<exists>f e. pc_formula_expr c = Some f \<and> map_of default_trees (py_strip f) = Some e \<and> whitelisted e"
    using c(2,3) by (auto simp: sample_catalogue_requests_def checked_payload_def formula_sent_def ALLOWED_CALC_METHODS_def)
  then show ?thesis using c unfolding cat_def [symmetric] by auto
qed

text \<open>
  An update that sends only the formula, or only the method, is not validated: the stored formula
  of a formula component can be replaced by one the sandbox refuses.
\<close>

lemma unchecked_formula_update:
  assumes "get_component i cat = Inr c"
  shows "update_component validate i [Set_formula_expr (Some f)] cat =
           Inr (c\<lparr> pc_formula_expr := Some f \<rparr>, put_component (c\<lparr> pc_formula_expr := Some f \<rparr>) cat)"
  using assms by (simp add: update_component_def Let_def)

text \<open>No operation on a single row asks for its tenant: the answer does not depend on it.\<close>

lemma foreign_component_deactivated:
  assumes "filter (\<lambda>c. cr_id c = i) cat = [c]"
  shows "delete_component i cat = Inr (put_component (c\<lparr> pc_is_active := False \<rparr>) cat)"
  using assms by (simp add: delete_component_def get_component_def)

end
