(* ===== verification/Helpdesk.thy ===== *)
theory Helpdesk
  imports Models Machines
begin

text \<open>
  Support tickets: \<open>app/services/helpdesk_service.py\<close>, \<open>app/repositories/helpdesk_repository.py\<close>
  and the deadlines of \<open>app/services/helpdesk_sla_service.py\<close>. A request is made by a user for a
  company; the random numbers of a ticket and the clock, in seconds, are arguments. Mails, uploads,
  FAQs, the AI chat and the listings are left out.
\<close>

section \<open>Tables\<close>

record ticket =
  tk_id :: uuid
  tk_company_id :: uuid
  tk_number :: string
  tk_requester_id :: uuid
  tk_assigned_to_id :: "uuid option"
  tk_department :: "string option"
  tk_category :: string
  tk_priority :: string
  tk_status :: string
  tk_subject :: string
  tk_description :: string
  tk_resolution_notes :: "string option"
  tk_first_response_due :: timestamp
  tk_resolution_due :: timestamp
  tk_first_responded_at :: "timestamp option"
  tk_resolved_at :: "timestamp option"
  tk_closed_at :: "timestamp option"
  tk_updated_at :: timestamp

record ticket_comment =
  tc_id :: uuid
  tc_ticket_id :: uuid
  tc_author_id :: uuid
  tc_message :: string

record internal_note =
  in_id :: uuid
  in_ticket_id :: uuid
  in_author_id :: uuid
  in_note :: string

record attachment =
  at_id :: uuid
  at_company_id :: uuid
  at_ticket_id :: "uuid option"
  at_comment_id :: "uuid option"

record desk_user =
  du_id :: uuid
  du_company_id :: "uuid option"
  du_role :: string

record desk_employee =
  de_id :: uuid
  de_user_id :: "uuid option"
  de_manager_id :: "uuid option"
  de_is_deleted :: bool

record desk =
  dk_tickets :: "ticket list"
  dk_comments :: "ticket_comment list"
  dk_notes :: "internal_note list"
  dk_attachments :: "attachment list"
  dk_users :: "desk_user list"
  dk_employees :: "desk_employee list"

section \<open>Service levels\<close>

definition SLA_HOURS_CONFIG :: "(string \<times> int \<times> int) list" where
  "SLA_HOURS_CONFIG = [(''urgent'', 1, 4), (''high'', 4, 24), (''medium'', 8, 48), (''low'', 24, 72)]"

definition calculate_sla_deadlines :: "string \<Rightarrow> timestamp \<Rightarrow> timestamp \<times> timestamp" where
  "calculate_sla_deadlines priority now =
     (let (first, resolution) =
        (case map_of SLA_HOURS_CONFIG (py_strip (py_lower priority)) of Some h \<Rightarrow> h | None \<Rightarrow> (8, 48))
      in (now + first * 3600, now + resolution * 3600))"

definition check_is_breached ::
  "string \<Rightarrow> timestamp option \<Rightarrow> timestamp option \<Rightarrow> timestamp option \<Rightarrow> timestamp option \<Rightarrow> timestamp \<Rightarrow> bool" where
  "check_is_breached st res_due resp_due first_resp res_at now =
     (let running = py_strip (py_lower st) \<notin> {''resolved'', ''closed''};
          late = (\<lambda>done due. case due of None \<Rightarrow> False
             | Some x \<Rightarrow> (case done of Some y \<Rightarrow> x < y | None \<Rightarrow> x < now \<and> running))
      in late first_resp resp_due \<or> late res_at res_due)"

section \<open>Access\<close>

definition staff_role :: "string \<Rightarrow> bool" where
  "staff_role r \<longleftrightarrow> r \<in> {''hr_admin'', ''it_admin'', ''manager'', ''super_admin'', ''executive''}"

definition agent_role :: "string \<Rightarrow> bool" where
  "agent_role r \<longleftrightarrow> r \<in> {''hr_admin'', ''it_admin'', ''manager'', ''super_admin''}"

definition role_of :: "desk_user \<Rightarrow> string" where "role_of u = py_lower (du_role u)"

definition get_manager_team_ids :: "desk_user \<Rightarrow> desk \<Rightarrow> uuid list result" where
  "get_manager_team_ids u d =
     bind_res (scalar_one_or_none (filter (\<lambda>e. de_user_id e = Some (du_id u)) (dk_employees d))) (\<lambda>found.
       case found of
         None \<Rightarrow> Inr [du_id u]
       | Some m \<Rightarrow>
           Inr (List.map_filter de_user_id
                  (filter (\<lambda>e. de_manager_id e = Some (de_id m) \<and> \<not> de_is_deleted e) (dk_employees d)) @ [du_id u]))"

definition find_ticket :: "uuid \<Rightarrow> uuid \<Rightarrow> desk \<Rightarrow> ticket result" where
  "find_ticket i company d =
     bind_res (scalar_one_or_none (filter (\<lambda>t. tk_id t = i \<and> tk_company_id t = company) (dk_tickets d))) (\<lambda>found.
       case found of None \<Rightarrow> Inl (HTTPException 404 ''Ticket not found.'') | Some t \<Rightarrow> Inr t)"

definition access_denied :: exc where "access_denied = ForbiddenException ''Access denied to this ticket.''"

text \<open>An employee sees own tickets, a manager also assigned ones and those of the team.\<close>

definition ticket_access :: "desk_user \<Rightarrow> ticket \<Rightarrow> desk \<Rightarrow> unit result" where
  "ticket_access u t d =
     (if role_of u = ''employee'' then (if tk_requester_id t \<noteq> du_id u then Inl access_denied else Inr ())
      else if role_of u = ''manager'' \<and> tk_requester_id t \<noteq> du_id u \<and> tk_assigned_to_id t \<noteq> Some (du_id u)
      then bind_res (get_manager_team_ids u d) (\<lambda>team.
             if tk_requester_id t \<notin> set team then Inl access_denied else Inr ())
      else Inr ())"

definition get_ticket_by_id :: "uuid \<Rightarrow> desk_user \<Rightarrow> uuid \<Rightarrow> desk \<Rightarrow> ticket result" where
  "get_ticket_by_id i u company d =
     bind_res (find_ticket i company d) (\<lambda>t. bind_res (ticket_access u t d) (\<lambda>_. Inr t))"

definition get_ticket_comments :: "uuid \<Rightarrow> desk_user \<Rightarrow> uuid \<Rightarrow> desk \<Rightarrow> ticket_comment list result" where
  "get_ticket_comments i u company d =
     bind_res (get_ticket_by_id i u company d) (\<lambda>t. Inr (filter (\<lambda>c. tc_ticket_id c = i) (dk_comments d)))"

section \<open>Requests\<close>

fun title_from :: "bool \<Rightarrow> string \<Rightarrow> string" where
  "title_from inside [] = []"
| "title_from inside (c # cs) =
     (if is_alpha c then (if inside then low_char c else up_char c) else c) # title_from (is_alpha c) cs"

definition py_title :: "string \<Rightarrow> string" where "py_title = title_from False"

definition ticket_label :: "int \<Rightarrow> string" where "ticket_label n = ''TICKET-'' @ int_str n"

text \<open>Ten random draws, then the clock.\<close>

definition generate_unique_ticket_number :: "uuid \<Rightarrow> int list \<Rightarrow> timestamp \<Rightarrow> desk \<Rightarrow> string" where
  "generate_unique_ticket_number company draws now d =
     (let used = map tk_number (filter (\<lambda>t. tk_company_id t = company) (dk_tickets d))
      in case find (\<lambda>n. ticket_label n \<notin> set used) (take 10 draws) of
           Some n \<Rightarrow> ticket_label n
         | None \<Rightarrow> ticket_label (now mod 100000))"

definition link_attachments :: "uuid list \<Rightarrow> uuid \<Rightarrow> uuid \<Rightarrow> uuid option \<Rightarrow> desk \<Rightarrow> desk" where
  "link_attachments ids company ticket comment d =
     d\<lparr> dk_attachments := update_where (\<lambda>a. at_id a \<in> set ids \<and> at_company_id a = company)
          (\<lambda>a. a\<lparr> at_ticket_id := Some ticket,
                  at_comment_id := (case comment of None \<Rightarrow> at_comment_id a | Some c \<Rightarrow> Some c) \<rparr>)
          (dk_attachments d) \<rparr>"

definition opened_ticket ::
  "desk_user \<Rightarrow> uuid \<Rightarrow> string \<Rightarrow> string \<Rightarrow> string \<Rightarrow> string \<Rightarrow> int list \<Rightarrow> timestamp \<Rightarrow> desk \<Rightarrow> ticket" where
  "opened_ticket u company category priority subject description draws now d =
     (let prio = py_title (py_strip priority); due = calculate_sla_deadlines prio now
      in \<lparr> tk_id = fresh_id (map tk_id (dk_tickets d)), tk_company_id = company,
           tk_number = generate_unique_ticket_number company draws now d, tk_requester_id = du_id u,
           tk_assigned_to_id = None, tk_department = None, tk_category = py_strip category, tk_priority = prio,
           tk_status = ''Open'', tk_subject = py_strip subject, tk_description = py_strip description,
           tk_resolution_notes = None, tk_first_response_due = fst due, tk_resolution_due = snd due,
           tk_first_responded_at = None, tk_resolved_at = None, tk_closed_at = None, tk_updated_at = now \<rparr>)"

definition same_number :: "ticket \<Rightarrow> ticket \<Rightarrow> bool" where
  "same_number t x \<longleftrightarrow> tk_company_id x = tk_company_id t \<and> tk_number x = tk_number t"

text \<open>Company and number are unique in the table, so a collision of the clock is refused.\<close>

definition create_ticket ::
  "desk_user \<Rightarrow> uuid \<Rightarrow> string \<Rightarrow> string \<Rightarrow> string \<Rightarrow> string \<Rightarrow> uuid list \<Rightarrow> int list \<Rightarrow> timestamp \<Rightarrow> desk
    \<Rightarrow> ticket result \<times> desk"
where
  "create_ticket u company category priority subject description attachments draws now d =
     (if py_strip category = [] then (Inl (HTTPException 400 ''Category is required.''), d)
      else if py_strip subject = [] then (Inl (HTTPException 400 ''Subject is required.''), d)
      else if py_strip description = [] then (Inl (HTTPException 400 ''Description is required.''), d)
      else
        let t = opened_ticket u company category priority subject description draws now d
        in if list_ex (same_number t) (dk_tickets d) then (Inl IntegrityError, d)
           else (Inr t, link_attachments attachments company (tk_id t) None (d\<lparr> dk_tickets := dk_tickets d @ [t] \<rparr>)))"

definition put_ticket :: "ticket \<Rightarrow> desk \<Rightarrow> desk" where
  "put_ticket t d = d\<lparr> dk_tickets := update_where (\<lambda>x. tk_id x = tk_id t) (\<lambda>_. t) (dk_tickets d) \<rparr>"

definition add_comment ::
  "uuid \<Rightarrow> desk_user \<Rightarrow> uuid \<Rightarrow> string \<Rightarrow> uuid list \<Rightarrow> timestamp \<Rightarrow> desk \<Rightarrow> ticket_comment result \<times> desk" where
  "add_comment i u company message attachments now d =
     (if py_strip message = [] then (Inl (HTTPException 400 ''Comment message cannot be empty.''), d)
      else case bind_res (find_ticket i company d) (\<lambda>t. bind_res (ticket_access u t d) (\<lambda>_. Inr t)) of
        Inl e \<Rightarrow> (Inl e, d)
      | Inr t \<Rightarrow>
          if py_lower (tk_status t) = ''closed''
          then (Inl (HTTPException 400 ''Cannot reply to a closed ticket. Please reopen the ticket first.''), d)
          else
            let c = \<lparr> tc_id = fresh_id (map tc_id (dk_comments d)), tc_ticket_id = i, tc_author_id = du_id u,
                      tc_message = py_strip message \<rparr>;
                t' = t\<lparr> tk_first_responded_at :=
                          (if staff_role (role_of u) \<and> tk_first_responded_at t = None then Some now
                           else tk_first_responded_at t),
                        tk_updated_at := now \<rparr>
            in (Inr c, link_attachments attachments (tk_company_id t) i (Some (tc_id c))
                  (put_ticket t' (d\<lparr> dk_comments := dk_comments d @ [c] \<rparr>))))"

definition ALLOWED_STATUS_TRANSITIONS :: "(string \<times> string list) list" where
  "ALLOWED_STATUS_TRANSITIONS =
     [(''open'', [''in progress'', ''resolved'', ''closed'']),
      (''in progress'', [''resolved'', ''open'', ''closed'']),
      (''resolved'', [''closed'', ''reopened'', ''in progress'']),
      (''closed'', [''reopened'']),
      (''reopened'', [''in progress'', ''resolved'', ''closed'', ''open''])]"

definition allowed_next :: "string \<Rightarrow> string list" where
  "allowed_next s = (case map_of ALLOWED_STATUS_TRANSITIONS s of Some ss \<Rightarrow> ss | None \<Rightarrow> [])"

definition canonical_ticket_status :: "string \<Rightarrow> string" where
  "canonical_ticket_status new_status =
     (case map_of [(''open'', ''Open''), (''in progress'', ''In Progress''), (''resolved'', ''Resolved''),
          (''closed'', ''Closed''), (''reopened'', ''Reopened'')] (py_strip (py_lower new_status)) of
        Some s \<Rightarrow> s | None \<Rightarrow> py_title new_status)"

definition with_status :: "string \<Rightarrow> string option \<Rightarrow> timestamp \<Rightarrow> ticket \<Rightarrow> ticket" where
  "with_status st notes now t =
     (let low = py_strip (py_lower st); t1 = t\<lparr> tk_status := st, tk_updated_at := now \<rparr>
      in if low = ''resolved''
         then t1\<lparr> tk_resolved_at := Some now,
                  tk_resolution_notes := (if or_str notes [] = [] then tk_resolution_notes t else notes) \<rparr>
         else if low = ''closed'' then t1\<lparr> tk_closed_at := Some now \<rparr>
         else if low = ''reopened''
         then t1\<lparr> tk_resolved_at := None, tk_closed_at := None, tk_status := ''Reopened'' \<rparr>
         else t1)"

definition update_ticket_status ::
  "uuid \<Rightarrow> desk_user \<Rightarrow> uuid \<Rightarrow> string \<Rightarrow> string option \<Rightarrow> timestamp \<Rightarrow> desk \<Rightarrow> ticket result \<times> desk" where
  "update_ticket_status i u company new_status notes now d =
     (case find_ticket i company d of
        Inl e \<Rightarrow> (Inl e, d)
      | Inr t \<Rightarrow>
          let current = py_strip (py_lower (tk_status t)); new = py_strip (py_lower new_status);
              is_staff = staff_role (role_of u); is_requester = (tk_requester_id t = du_id u)
          in if \<not> is_staff \<and> \<not> is_requester
             then (Inl (ForbiddenException ''You do not have permission to update this ticket's status.''), d)
             else if \<not> is_staff \<and> new \<notin> {''closed'', ''reopened''}
             then (Inl (ForbiddenException ''Requesters can only close or reopen their tickets.''), d)
             else if current \<noteq> new \<and> new \<notin> set (allowed_next current)
             then (Inl (HTTPException 400 ''Cannot transition ticket''), d)
             else let t' = with_status (canonical_ticket_status new_status) notes now t in (Inr t', put_ticket t' d))"

definition assign_ticket_agent ::
  "uuid \<Rightarrow> desk_user \<Rightarrow> uuid \<Rightarrow> uuid \<Rightarrow> string option \<Rightarrow> timestamp \<Rightarrow> desk \<Rightarrow> ticket result \<times> desk" where
  "assign_ticket_agent i u company agent department now d =
     (if \<not> agent_role (role_of u)
      then (Inl (ForbiddenException ''Only administrators and managers can assign tickets.''), d)
      else case find_ticket i company d of
        Inl e \<Rightarrow> (Inl e, d)
      | Inr t \<Rightarrow>
          (case scalar_one_or_none (filter (\<lambda>x. du_id x = agent \<and> du_company_id x = Some company) (dk_users d)) of
             Inl e \<Rightarrow> (Inl e, d)
           | Inr None \<Rightarrow> (Inl (HTTPException 404 ''Assigned agent user not found in this company.''), d)
           | Inr (Some target) \<Rightarrow>
               let t' = t\<lparr> tk_assigned_to_id := Some (du_id target),
                           tk_department := (if or_str department [] = [] then tk_department t else department),
                           tk_updated_at := now \<rparr>
               in (Inr t', put_ticket t' d)))"

definition add_internal_note ::
  "uuid \<Rightarrow> desk_user \<Rightarrow> uuid \<Rightarrow> string \<Rightarrow> timestamp \<Rightarrow> desk \<Rightarrow> internal_note result \<times> desk" where
  "add_internal_note i u company note now d =
     (if \<not> agent_role (role_of u)
      then (Inl (ForbiddenException ''Only administrators and managers can create internal staff notes.''), d)
      else if py_strip note = [] then (Inl (HTTPException 400 ''Internal note text cannot be empty.''), d)
      else case find_ticket i company d of
        Inl e \<Rightarrow> (Inl e, d)
      | Inr t \<Rightarrow>
          let n = \<lparr> in_id = fresh_id (map in_id (dk_notes d)), in_ticket_id = i, in_author_id = du_id u,
                    in_note = py_strip note \<rparr>
          in (Inr n, put_ticket (t\<lparr> tk_updated_at := now \<rparr>) (d\<lparr> dk_notes := dk_notes d @ [n] \<rparr>)))"

datatype desk_request =
    DeskCreate string string string string "uuid list" "int list"
  | DeskComment uuid string "uuid list"
  | DeskStatus uuid string "string option"
  | DeskAssign uuid uuid "string option"
  | DeskNote uuid string

type_synonym desk_op = "desk_user \<times> uuid \<times> timestamp \<times> desk_request"

fun perform_desk :: "desk_op \<Rightarrow> desk \<Rightarrow> desk" where
  "perform_desk (u, company, now, DeskCreate category priority subject description files draws) d =
     snd (create_ticket u company category priority subject description files draws now d)"
| "perform_desk (u, company, now, DeskComment i message files) d = snd (add_comment i u company message files now d)"
| "perform_desk (u, company, now, DeskStatus i st notes) d = snd (update_ticket_status i u company st notes now d)"
| "perform_desk (u, company, now, DeskAssign i agent department) d =
     snd (assign_ticket_agent i u company agent department now d)"
| "perform_desk (u, company, now, DeskNote i note) d = snd (add_internal_note i u company note now d)"

section \<open>What a request changes\<close>

definition canonical_statuses :: "string list" where
  "canonical_statuses = [''Open'', ''In Progress'', ''Resolved'', ''Closed'', ''Reopened'']"

text \<open>A row that the requests can have written.\<close>

definition ticket_ok :: "ticket \<Rightarrow> bool" where
  "ticket_ok t \<longleftrightarrow>
     tk_status t \<in> set canonical_statuses \<and> tk_first_response_due t < tk_resolution_due t \<and>
     (tk_status t = ''Resolved'' \<longrightarrow> tk_resolved_at t \<noteq> None) \<and>
     (tk_status t = ''Closed'' \<longrightarrow> tk_closed_at t \<noteq> None) \<and>
     (tk_status t = ''Reopened'' \<longrightarrow> tk_resolved_at t = None \<and> tk_closed_at t = None)"

definition same_ticket :: "ticket \<Rightarrow> ticket \<Rightarrow> bool" where
  "same_ticket t t' \<longleftrightarrow>
     tk_id t' = tk_id t \<and> tk_company_id t' = tk_company_id t \<and> tk_number t' = tk_number t \<and>
     tk_requester_id t' = tk_requester_id t \<and> tk_category t' = tk_category t \<and> tk_priority t' = tk_priority t \<and>
     tk_subject t' = tk_subject t \<and> tk_description t' = tk_description t \<and>
     tk_first_response_due t' = tk_first_response_due t \<and> tk_resolution_due t' = tk_resolution_due t \<and>
     (tk_first_responded_at t \<noteq> None \<longrightarrow> tk_first_responded_at t' = tk_first_responded_at t)"

text \<open>Who may move a ticket from one status to another.\<close>

definition may_move :: "desk_user \<Rightarrow> ticket \<Rightarrow> string \<Rightarrow> bool" where
  "may_move u t s \<longleftrightarrow>
     py_lower s \<in> set (allowed_next (py_lower (tk_status t))) \<and>
     (staff_role (role_of u) \<or> tk_requester_id t = du_id u \<and> s \<in> {''Closed'', ''Reopened''})"

fun ticket_step :: "desk_op \<Rightarrow> ticket \<Rightarrow> ticket \<Rightarrow> bool" where
  "ticket_step (u, company, now, r) t t' \<longleftrightarrow>
     same_ticket t t' \<and> tk_company_id t = company \<and>
     (tk_status t' = tk_status t \<or>
      (\<exists>st notes. r = DeskStatus (tk_id t) st notes) \<and> may_move u t (tk_status t'))"

definition new_ticket :: "desk_op \<Rightarrow> ticket \<Rightarrow> desk \<Rightarrow> bool" where
  "new_ticket op t d \<longleftrightarrow>
     tk_id t \<notin> tk_id ` set (dk_tickets d) \<and> tk_company_id t = fst (snd op) \<and> tk_requester_id t = du_id (fst op) \<and>
     (tk_company_id t, tk_number t) \<notin> (\<lambda>x. (tk_company_id x, tk_number x)) ` set (dk_tickets d) \<and> ticket_ok t"

definition new_comment :: "desk_op \<Rightarrow> ticket_comment \<Rightarrow> desk \<Rightarrow> bool" where
  "new_comment op c d \<longleftrightarrow>
     tc_author_id c = du_id (fst op) \<and> tc_id c \<notin> tc_id ` set (dk_comments d) \<and>
     (\<exists>t \<in> set (dk_tickets d). tk_id t = tc_ticket_id c \<and> tk_company_id t = fst (snd op) \<and>
        py_lower (tk_status t) \<noteq> ''closed'' \<and> ticket_access (fst op) t d = Inr ())"

definition new_note :: "desk_op \<Rightarrow> internal_note \<Rightarrow> desk \<Rightarrow> bool" where
  "new_note op n d \<longleftrightarrow>
     in_author_id n = du_id (fst op) \<and> agent_role (role_of (fst op)) \<and>
     (\<exists>t \<in> set (dk_tickets d). tk_id t = in_ticket_id n \<and> tk_company_id t = fst (snd op))"

definition desk_change :: "desk_op \<Rightarrow> desk \<Rightarrow> desk \<Rightarrow> bool" where
  "desk_change op d d' \<longleftrightarrow>
     dk_users d' = dk_users d \<and> dk_employees d' = dk_employees d \<and>
     (dk_tickets d' = dk_tickets d \<or>
      (\<exists>t. new_ticket op t d \<and> dk_tickets d' = dk_tickets d @ [t]) \<or>
      (\<exists>t t'. t \<in> set (dk_tickets d) \<and> ticket_step op t t' \<and> (ticket_ok t \<longrightarrow> ticket_ok t') \<and>
         dk_tickets d' = update_where (\<lambda>x. tk_id x = tk_id t) (\<lambda>_. t') (dk_tickets d))) \<and>
     (dk_comments d' = dk_comments d \<or> (\<exists>c. new_comment op c d \<and> dk_comments d' = dk_comments d @ [c])) \<and>
     (dk_notes d' = dk_notes d \<or> (\<exists>n. new_note op n d \<and> dk_notes d' = dk_notes d @ [n])) \<and>
     filter (\<lambda>a. at_company_id a \<noteq> fst (snd op)) (dk_attachments d') =
       filter (\<lambda>a. at_company_id a \<noteq> fst (snd op)) (dk_attachments d)"

lemma desk_change_refl: "desk_change op d d"
  by (simp add: desk_change_def)

lemma find_ticket_Inr:
  assumes "find_ticket i company d = Inr t"
  shows "t \<in> set (dk_tickets d)" "tk_id t = i" "tk_company_id t = company"
proof -
  have "filter (\<lambda>t. tk_id t = i \<and> tk_company_id t = company) (dk_tickets d) = [t]"
    using assms by (auto simp: find_ticket_def bind_res_Inr_iff scalar_one_or_none_Inr_Some split: option.splits)
  then have "t \<in> set (filter (\<lambda>t. tk_id t = i \<and> tk_company_id t = company) (dk_tickets d))" by simp
  then show "t \<in> set (dk_tickets d)" "tk_id t = i" "tk_company_id t = company" by simp_all
qed

lemma link_attachments_frame [simp]:
  "dk_tickets (link_attachments ids c t k d) = dk_tickets d"
  "dk_comments (link_attachments ids c t k d) = dk_comments d"
  "dk_notes (link_attachments ids c t k d) = dk_notes d"
  "dk_users (link_attachments ids c t k d) = dk_users d"
  "dk_employees (link_attachments ids c t k d) = dk_employees d"
  by (simp_all add: link_attachments_def)

lemma link_attachments_others [simp]:
  "filter (\<lambda>a. at_company_id a \<noteq> company) (dk_attachments (link_attachments ids company t k d)) =
     filter (\<lambda>a. at_company_id a \<noteq> company) (dk_attachments d)"
proof -
  have "filter (\<lambda>a. at_company_id a \<noteq> company)
      (update_where (\<lambda>a. at_id a \<in> set ids \<and> at_company_id a = company)
        (\<lambda>a. a\<lparr> at_ticket_id := Some t, at_comment_id := (case k of None \<Rightarrow> at_comment_id a | Some c \<Rightarrow> Some c) \<rparr>) as) =
    filter (\<lambda>a. at_company_id a \<noteq> company) as" for as
    by (induction as) auto
  then show ?thesis by (simp add: link_attachments_def)
qed

lemma put_ticket_frame [simp]:
  "dk_comments (put_ticket t d) = dk_comments d" "dk_notes (put_ticket t d) = dk_notes d"
  "dk_users (put_ticket t d) = dk_users d" "dk_employees (put_ticket t d) = dk_employees d"
  "dk_attachments (put_ticket t d) = dk_attachments d"
  "dk_tickets (put_ticket t d) = update_where (\<lambda>x. tk_id x = tk_id t) (\<lambda>_. t) (dk_tickets d)"
  by (simp_all add: put_ticket_def)

lemma desk_change_put:
  assumes "t \<in> set (dk_tickets d)" "ticket_step op t t'" "ticket_ok t \<Longrightarrow> ticket_ok t'"
    "dk_tickets d' = update_where (\<lambda>x. tk_id x = tk_id t) (\<lambda>_. t') (dk_tickets d)"
    "dk_users d' = dk_users d" "dk_employees d' = dk_employees d"
    "dk_comments d' = dk_comments d \<or> (\<exists>c. new_comment op c d \<and> dk_comments d' = dk_comments d @ [c])"
    "dk_notes d' = dk_notes d \<or> (\<exists>n. new_note op n d \<and> dk_notes d' = dk_notes d @ [n])"
    "filter (\<lambda>a. at_company_id a \<noteq> fst (snd op)) (dk_attachments d') =
       filter (\<lambda>a. at_company_id a \<noteq> fst (snd op)) (dk_attachments d)"
  shows "desk_change op d d'"
  using assms unfolding desk_change_def by blast

lemma fresh_ids: "fresh_id (map f xs) \<notin> f ` set xs"
  using fresh_id_notin [of "map f xs"] by simp

lemma sla_deadlines_ordered: "fst (calculate_sla_deadlines p now) < snd (calculate_sla_deadlines p now)"
  by (simp add: calculate_sla_deadlines_def SLA_HOURS_CONFIG_def split: option.split)

lemma create_change: "desk_change (u, company, now, r) d (snd (create_ticket u company cat prio subj descr files draws now d))"
proof -
  let ?t = "opened_ticket u company cat prio subj descr draws now d"
  have "list_ex (same_number ?t) (dk_tickets d) \<or> new_ticket (u, company, now, r) ?t d"
    using fresh_ids [of tk_id "dk_tickets d"] sla_deadlines_ordered [of "py_title (py_strip prio)" now]
    by (auto simp: new_ticket_def opened_ticket_def Let_def ticket_ok_def canonical_statuses_def list_ex_iff same_number_def)
  then show ?thesis
    by (auto simp: create_ticket_def Let_def desk_change_refl) (auto simp: desk_change_def)
qed

lemma comment_change: "desk_change (u, company, now, r) d (snd (add_comment i u company message files now d))"
proof (cases "py_strip message = []")
  case True
  then show ?thesis by (simp add: add_comment_def desk_change_refl)
next
  case False
  show ?thesis
  proof (cases "bind_res (find_ticket i company d) (\<lambda>t. bind_res (ticket_access u t d) (\<lambda>_. Inr t))")
    case (Inl e)
    then show ?thesis using False by (simp add: add_comment_def desk_change_refl)
  next
    case (Inr t)
    then have t: "find_ticket i company d = Inr t" "ticket_access u t d = Inr ()"
      by (auto simp: bind_res_Inr_iff)
    note row = find_ticket_Inr [OF t(1)]
    show ?thesis
    proof (cases "py_lower (tk_status t) = ''closed''")
      case True
      then show ?thesis using False Inr by (simp add: add_comment_def desk_change_refl)
    next
      case open_ticket: False
      let ?c = "\<lparr> tc_id = fresh_id (map tc_id (dk_comments d)), tc_ticket_id = i, tc_author_id = du_id u,
          tc_message = py_strip message \<rparr>"
      let ?t' = "t\<lparr> tk_first_responded_at :=
          (if staff_role (role_of u) \<and> tk_first_responded_at t = None then Some now else tk_first_responded_at t),
          tk_updated_at := now \<rparr>"
      have result: "snd (add_comment i u company message files now d) =
          link_attachments files company i (Some (tc_id ?c)) (put_ticket ?t' (d\<lparr> dk_comments := dk_comments d @ [?c] \<rparr>))"
        using False Inr open_ticket row(3) by (simp add: add_comment_def Let_def)
      have c: "new_comment (u, company, now, r) ?c d"
        using row open_ticket t(2) fresh_ids [of tc_id "dk_comments d"] by (auto simp: new_comment_def)
      show ?thesis unfolding result
        by (rule desk_change_put [OF row(1)])
          (use row c in \<open>auto simp: same_ticket_def ticket_ok_def\<close>)
    qed
  qed
qed

lemma lowered_statuses [simp]:
  "py_lower ''Open'' = ''open''" "py_lower ''In Progress'' = ''in progress''" "py_lower ''Resolved'' = ''resolved''"
  "py_lower ''Closed'' = ''closed''" "py_lower ''Reopened'' = ''reopened''"
  by code_simp+

lemma known_status:
  assumes "s \<in> set canonical_statuses"
  shows "py_strip (py_lower s) = py_lower s \<and> canonical_ticket_status s = s"
proof -
  have "list_all (\<lambda>s. py_strip (py_lower s) = py_lower s \<and> canonical_ticket_status s = s) canonical_statuses" by code_simp
  then show ?thesis using assms by (simp add: list_all_iff)
qed

text \<open>A status that may follow another is one of the five, and its canonical name is its own.\<close>

lemma next_status:
  assumes "py_strip (py_lower new) \<in> set (allowed_next s)"
  shows "canonical_ticket_status new \<in> set canonical_statuses \<and> py_lower (canonical_ticket_status new) = py_strip (py_lower new)"
proof -
  have "list_all (\<lambda>p. list_all (\<lambda>n. n \<in> set (map py_lower canonical_statuses)) (snd p)) ALLOWED_STATUS_TRANSITIONS"
    by code_simp
  moreover obtain ss where ss: "map_of ALLOWED_STATUS_TRANSITIONS s = Some ss" "py_strip (py_lower new) \<in> set ss"
    using assms by (cases "map_of ALLOWED_STATUS_TRANSITIONS s") (simp_all add: allowed_next_def)
  ultimately have "py_strip (py_lower new) \<in> set (map py_lower canonical_statuses)"
    using map_of_SomeD [OF ss(1)] ss(2) by (fastforce simp: list_all_iff)
  then have "py_strip (py_lower new) \<in> {''open'', ''in progress'', ''resolved'', ''closed'', ''reopened''}"
    by (simp add: canonical_statuses_def)
  then show ?thesis
    by (auto simp: canonical_ticket_status_def canonical_statuses_def)
qed

lemma with_status_same: "same_ticket t (with_status s notes now t)"
  by (simp add: with_status_def same_ticket_def Let_def)

lemma with_status_ok:
  assumes "s \<in> set canonical_statuses" "ticket_ok t"
  shows "ticket_ok (with_status s notes now t) \<and> tk_status (with_status s notes now t) = s"
proof -
  have "s = ''Open'' \<or> s = ''In Progress'' \<or> s = ''Resolved'' \<or> s = ''Closed'' \<or> s = ''Reopened''"
    using assms(1) by (auto simp: canonical_statuses_def)
  moreover have low: "py_strip (py_lower s) = py_lower s" using known_status [OF assms(1)] by simp
  ultimately show ?thesis
    using assms(2)
    by (elim disjE) (simp_all add: with_status_def low Let_def ticket_ok_def canonical_statuses_def)
qed

lemma status_change:
  assumes ok: "\<forall>t \<in> set (dk_tickets d). ticket_ok t"
  shows "desk_change (u, company, now, DeskStatus i st notes) d (snd (update_ticket_status i u company st notes now d))"
proof (cases "find_ticket i company d")
  case (Inl e)
  then show ?thesis by (simp add: update_ticket_status_def desk_change_refl)
next
  case (Inr t)
  note row = find_ticket_Inr [OF Inr]
  have tok: "ticket_ok t" using ok row(1) by blast
  then have cur: "tk_status t \<in> set canonical_statuses" by (simp add: ticket_ok_def)
  let ?new = "py_strip (py_lower st)" and ?t' = "with_status (canonical_ticket_status st) notes now t"
  let ?allowed = "(staff_role (role_of u) \<or> tk_requester_id t = du_id u \<and> ?new \<in> {''closed'', ''reopened''}) \<and>
    (?new = py_lower (tk_status t) \<or> ?new \<in> set (allowed_next (py_lower (tk_status t))))"
  have result: "snd (update_ticket_status i u company st notes now d) = (if ?allowed then put_ticket ?t' d else d)"
    using known_status [OF cur] by (auto simp: update_ticket_status_def Inr Let_def)
  show ?thesis
  proof (cases ?allowed)
    case True
    then have 2: "snd (update_ticket_status i u company st notes now d) = put_ticket ?t' d"
      "staff_role (role_of u) \<or> tk_requester_id t = du_id u \<and> ?new \<in> {''closed'', ''reopened''}"
      "?new = py_lower (tk_status t) \<or> ?new \<in> set (allowed_next (py_lower (tk_status t)))"
      using result by simp_all
    have canon: "canonical_ticket_status st \<in> set canonical_statuses \<and> py_lower (canonical_ticket_status st) = ?new"
    proof (cases "?new = py_lower (tk_status t)")
      case True
      have "canonical_ticket_status st = canonical_ticket_status (tk_status t)"
        using True known_status [OF cur] by (simp add: canonical_ticket_status_def split: option.split)
          (use cur in \<open>auto simp: canonical_statuses_def\<close>)
      then show ?thesis using True known_status [OF cur] cur by simp
    next
      case False
      then show ?thesis using 2(3) next_status by blast
    qed
    have after: "ticket_ok ?t'" "tk_status ?t' = canonical_ticket_status st"
      using with_status_ok [of "canonical_ticket_status st" t "notes" now] canon tok by simp_all
    have "tk_status ?t' = tk_status t \<or> may_move u t (tk_status ?t')"
    proof (cases "?new = py_lower (tk_status t)")
      case True
      have "canonical_ticket_status st = tk_status t"
        using canon True cur by (auto simp: canonical_statuses_def)
      then show ?thesis using after by simp
    next
      case False
      have "canonical_ticket_status st \<in> {''Closed'', ''Reopened''}" if "?new \<in> {''closed'', ''reopened''}"
        using that by (auto simp: canonical_ticket_status_def)
      then show ?thesis using 2(2,3) False after canon by (auto simp: may_move_def)
    qed
    then have step: "ticket_step (u, company, now, DeskStatus i st notes) t ?t'"
      using row with_status_same by simp
    have "tk_id ?t' = tk_id t" using with_status_same [of t] by (simp add: same_ticket_def)
    then show ?thesis unfolding 2(1)
      by (intro desk_change_put [OF row(1) step]) (use after in simp_all)
  next
    case False
    then have "snd (update_ticket_status i u company st notes now d) = d" unfolding result by (rule if_not_P)
    then show ?thesis by (simp add: desk_change_refl)
  qed
qed

lemma assign_change:
  "desk_change (u, company, now, r) d (snd (assign_ticket_agent i u company agent department now d))"
proof (cases "agent_role (role_of u)")
  case agent: True
  show ?thesis
  proof (cases "find_ticket i company d")
    case (Inl e)
    then show ?thesis using agent by (simp add: assign_ticket_agent_def desk_change_refl)
  next
    case (Inr t)
    note row = find_ticket_Inr [OF Inr]
    show ?thesis
    proof (cases "scalar_one_or_none (filter (\<lambda>x. du_id x = agent \<and> du_company_id x = Some company) (dk_users d))")
      case (Inl e)
      then show ?thesis using agent Inr by (simp add: assign_ticket_agent_def desk_change_refl)
    next
      case found: (Inr found)
      show ?thesis
      proof (cases found)
        case None
        then show ?thesis using agent Inr found by (simp add: assign_ticket_agent_def desk_change_refl)
      next
        case (Some target)
        let ?t' = "t\<lparr> tk_assigned_to_id := Some (du_id target),
          tk_department := (if or_str department [] = [] then tk_department t else department), tk_updated_at := now \<rparr>"
        have result: "snd (assign_ticket_agent i u company agent department now d) = put_ticket ?t' d"
          using agent Inr found Some by (simp add: assign_ticket_agent_def Let_def)
        show ?thesis unfolding result
          by (rule desk_change_put [OF row(1)]) (use row in \<open>auto simp: same_ticket_def ticket_ok_def\<close>)
      qed
    qed
  qed
qed (simp add: assign_ticket_agent_def desk_change_refl)

lemma note_change: "desk_change (u, company, now, r) d (snd (add_internal_note i u company note now d))"
proof (cases "agent_role (role_of u) \<and> py_strip note \<noteq> []")
  case False
  then show ?thesis by (auto simp: add_internal_note_def desk_change_refl)
next
  case True
  show ?thesis
  proof (cases "find_ticket i company d")
    case (Inl e)
    then show ?thesis using True by (simp add: add_internal_note_def desk_change_refl)
  next
    case (Inr t)
    note row = find_ticket_Inr [OF Inr]
    let ?n = "\<lparr> in_id = fresh_id (map in_id (dk_notes d)), in_ticket_id = i, in_author_id = du_id u, in_note = py_strip note \<rparr>"
    have result: "snd (add_internal_note i u company note now d) =
        put_ticket (t\<lparr> tk_updated_at := now \<rparr>) (d\<lparr> dk_notes := dk_notes d @ [?n] \<rparr>)"
      using True Inr by (simp add: add_internal_note_def Let_def)
    have "new_note (u, company, now, r) ?n d" using row True by (auto simp: new_note_def)
    then show ?thesis unfolding result
      by (intro desk_change_put [OF row(1)]) (use row in \<open>auto simp: same_ticket_def ticket_ok_def\<close>)
  qed
qed

lemma perform_desk_change:
  assumes "\<forall>t \<in> set (dk_tickets d). ticket_ok t"
  shows "desk_change op d (perform_desk op d)"
proof -
  obtain u company now r where op: "op = (u, company, now, r)" by (cases op)
  show ?thesis
    by (cases r) (simp_all add: op create_change comment_change status_change [OF assms] assign_change note_change)
qed

section \<open>The tables stay sound\<close>

definition desk_ok :: "desk \<Rightarrow> bool" where
  "desk_ok d \<longleftrightarrow>
     distinct (map tk_id (dk_tickets d)) \<and> distinct (map (\<lambda>t. (tk_company_id t, tk_number t)) (dk_tickets d)) \<and>
     (\<forall>t \<in> set (dk_tickets d). ticket_ok t) \<and> distinct (map tc_id (dk_comments d)) \<and>
     tc_ticket_id ` set (dk_comments d) \<subseteq> tk_id ` set (dk_tickets d) \<and>
     in_ticket_id ` set (dk_notes d) \<subseteq> tk_id ` set (dk_tickets d)"

lemma desk_change_tickets:
  assumes "desk_change op d d'" "desk_ok d"
  shows "distinct (map tk_id (dk_tickets d')) \<and> distinct (map (\<lambda>t. (tk_company_id t, tk_number t)) (dk_tickets d')) \<and>
     (\<forall>t \<in> set (dk_tickets d'). ticket_ok t) \<and> tk_id ` set (dk_tickets d) \<subseteq> tk_id ` set (dk_tickets d')"
proof -
  obtain u company now r where op: "op = (u, company, now, r)" by (cases op)
  consider "dk_tickets d' = dk_tickets d"
    | t where "new_ticket op t d" "dk_tickets d' = dk_tickets d @ [t]"
    | t t' where "t \<in> set (dk_tickets d)" "ticket_step op t t'" "ticket_ok t \<longrightarrow> ticket_ok t'"
        "dk_tickets d' = update_where (\<lambda>x. tk_id x = tk_id t) (\<lambda>_. t') (dk_tickets d)"
    using assms(1) unfolding desk_change_def by blast
  then show ?thesis
  proof cases
    case 1
    then show ?thesis using assms(2) by (simp add: desk_ok_def)
  next
    case 2
    then show ?thesis using assms(2) by (auto simp: desk_ok_def new_ticket_def op)
  next
    case 3
    have same: "same_ticket t t'" using 3(2) by (simp add: op)
    have only: "x = t" if "x \<in> set (dk_tickets d)" "tk_id x = tk_id t" for x
      using that 3(1) assms(2) by (auto simp: desk_ok_def distinct_map dest: inj_onD)
    have keys: "map f (dk_tickets d') = map f (dk_tickets d)" if "f t' = f t" for f :: "ticket \<Rightarrow> 'k"
      unfolding 3(4) update_where_def map_map using that only by (auto intro!: map_cong)
    have "map tk_id (dk_tickets d') = map tk_id (dk_tickets d)"
      "map (\<lambda>t. (tk_company_id t, tk_number t)) (dk_tickets d') = map (\<lambda>t. (tk_company_id t, tk_number t)) (dk_tickets d)"
      using same by (auto intro!: keys simp: same_ticket_def)
    moreover from this(1) have "tk_id ` set (dk_tickets d') = tk_id ` set (dk_tickets d)"
      by (metis set_map)
    ultimately show ?thesis using assms(2) 3 by (auto simp: desk_ok_def in_set_update_where split: if_splits)
  qed
qed

lemma new_comment_ticket: "new_comment op c d \<Longrightarrow> tc_ticket_id c \<in> tk_id ` set (dk_tickets d) \<and> tc_id c \<notin> tc_id ` set (dk_comments d)"
  unfolding new_comment_def by force

lemma new_note_ticket: "new_note op n d \<Longrightarrow> in_ticket_id n \<in> tk_id ` set (dk_tickets d)"
  unfolding new_note_def by force

lemma desk_change_ok:
  assumes change: "desk_change op d d'" and ok: "desk_ok d"
  shows "desk_ok d'"
proof -
  note tickets = desk_change_tickets [OF change ok]
  have comments: "dk_comments d' = dk_comments d \<or> (\<exists>c. new_comment op c d \<and> dk_comments d' = dk_comments d @ [c])"
    and added: "dk_notes d' = dk_notes d \<or> (\<exists>n. new_note op n d \<and> dk_notes d' = dk_notes d @ [n])"
    using change unfolding desk_change_def by blast+
  have old: "distinct (map tc_id (dk_comments d))" "tc_ticket_id ` set (dk_comments d) \<subseteq> tk_id ` set (dk_tickets d)"
    "in_ticket_id ` set (dk_notes d) \<subseteq> tk_id ` set (dk_tickets d)"
    using ok unfolding desk_ok_def by blast+
  have "distinct (map tc_id (dk_comments d')) \<and> tc_ticket_id ` set (dk_comments d') \<subseteq> tk_id ` set (dk_tickets d)"
    using comments
  proof
    assume "\<exists>c. new_comment op c d \<and> dk_comments d' = dk_comments d @ [c]"
    then obtain c where "new_comment op c d" "dk_comments d' = dk_comments d @ [c]" by blast
    then show ?thesis using new_comment_ticket [of op c d] old(1,2) by simp
  qed (use old in simp)
  moreover have "in_ticket_id ` set (dk_notes d') \<subseteq> tk_id ` set (dk_tickets d)"
    using added
  proof
    assume "\<exists>n. new_note op n d \<and> dk_notes d' = dk_notes d @ [n]"
    then obtain n where "new_note op n d" "dk_notes d' = dk_notes d @ [n]" by blast
    then show ?thesis using new_note_ticket [of op n d] old(3) by simp
  qed (use old in simp)
  moreover have "tk_id ` set (dk_tickets d) \<subseteq> tk_id ` set (dk_tickets d')" using tickets by blast
  ultimately have "distinct (map tc_id (dk_comments d'))" "tc_ticket_id ` set (dk_comments d') \<subseteq> tk_id ` set (dk_tickets d')"
    "in_ticket_id ` set (dk_notes d') \<subseteq> tk_id ` set (dk_tickets d')"
    by (simp, meson subset_trans, meson subset_trans)
  then show ?thesis using tickets by (simp add: desk_ok_def)
qed

lemma perform_desk_ok: "desk_ok d \<Longrightarrow> desk_ok (perform_desk op d)"
  using perform_desk_change [of d op] desk_change_ok by (auto simp: desk_ok_def)

interpretation desk: transition_system perform_desk desk_ok
  by unfold_locales (rule perform_desk_ok)

definition desk_trace :: "desk_op list \<Rightarrow> desk \<Rightarrow> desk" where
  "desk_trace ops d = foldl (\<lambda>d op. perform_desk op d) d ops"

lemma desk_trace_ok: "desk_ok d \<Longrightarrow> desk_ok (desk_trace ops d)"
  unfolding desk_trace_def by (rule desk.trace_keeps)

section \<open>What the traces guarantee\<close>

lemma ticket_after_change:
  assumes change: "desk_change op d d'" and ok: "desk_ok d" and t: "t \<in> set (dk_tickets d)"
  obtains t' where "t' \<in> set (dk_tickets d')" "tk_id t' = tk_id t" "t' = t \<or> ticket_step op t t'"
proof -
  consider "dk_tickets d' = dk_tickets d"
    | x where "dk_tickets d' = dk_tickets d @ [x]"
    | x x' where "x \<in> set (dk_tickets d)" "ticket_step op x x'"
        "dk_tickets d' = update_where (\<lambda>y. tk_id y = tk_id x) (\<lambda>_. x') (dk_tickets d)"
    using change unfolding desk_change_def by blast
  then show ?thesis
  proof cases
    case 3
    obtain u company now r where op: "op = (u, company, now, r)" by (cases op)
    have only: "x = t" if "tk_id t = tk_id x"
      using that 3(1) t ok by (auto simp: desk_ok_def distinct_map dest: inj_onD)
    show ?thesis
    proof (cases "tk_id t = tk_id x")
      case True
      then have "x = t" by (rule only)
      moreover from this have "x' \<in> set (dk_tickets d')" using 3(3) t by (auto simp: in_set_update_where)
      ultimately show ?thesis using that [of x'] 3(2) by (simp add: op same_ticket_def)
    next
      case False
      then have "t \<in> set (dk_tickets d')" using 3(3) t by (auto simp: in_set_update_where)
      then show ?thesis using that by blast
    qed
  qed (use that t in auto)
qed

text \<open>
  C37: the workflow of tickets. In every state that requests lead to, one more request of any user
  keeps every ticket, with its number, requester, deadlines and first response; it moves the ticket to
  another status only if it is a status request of its own company, along an edge of the table of
  transitions, by staff, or by the requester to Closed or Reopened. Every status is one of the five.
\<close>

theorem ticket_workflow:
  assumes "desk_ok d" "t \<in> set (dk_tickets (desk_trace ops d))"
  shows "\<exists>t' \<in> set (dk_tickets (perform_desk (u, company, now, r) (desk_trace ops d))).
    same_ticket t t' \<and> tk_status t' \<in> set canonical_statuses \<and>
    (tk_status t' \<noteq> tk_status t \<longrightarrow>
       tk_company_id t = company \<and> (\<exists>st remarks. r = DeskStatus (tk_id t) st remarks) \<and>
       py_lower (tk_status t') \<in> set (allowed_next (py_lower (tk_status t))) \<and>
       (staff_role (role_of u) \<or> tk_requester_id t = du_id u \<and> tk_status t' \<in> {''Closed'', ''Reopened''}))"
proof -
  let ?d = "desk_trace ops d" and ?op = "(u, company, now, r)"
  have ok: "desk_ok ?d" by (rule desk_trace_ok [OF assms(1)])
  then have change: "desk_change ?op ?d (perform_desk ?op ?d)"
    by (intro perform_desk_change) (simp add: desk_ok_def)
  have ok': "desk_ok (perform_desk ?op ?d)" by (rule perform_desk_ok [OF ok])
  obtain t' where t': "t' \<in> set (dk_tickets (perform_desk ?op ?d))" "t' = t \<or> ticket_step ?op t t'"
    using ticket_after_change [OF change ok assms(2)] by blast
  have "tk_status t' \<in> set canonical_statuses" using ok' t'(1) by (auto simp: desk_ok_def ticket_ok_def)
  moreover have "same_ticket t t'" using t'(2) by (auto simp: same_ticket_def)
  ultimately show ?thesis using t' by (intro bexI [of _ t']) (auto simp: may_move_def)
qed

lemma desk_change_foreign_tickets:
  assumes "desk_change op d d'" "desk_ok d" "fst (snd op) = company"
  shows "filter (\<lambda>t. tk_company_id t \<noteq> company) (dk_tickets d') = filter (\<lambda>t. tk_company_id t \<noteq> company) (dk_tickets d)"
proof -
  obtain u now r where op: "op = (u, company, now, r)" using assms(3) by (cases op) auto
  consider "dk_tickets d' = dk_tickets d"
    | x where "new_ticket op x d" "dk_tickets d' = dk_tickets d @ [x]"
    | x x' where "x \<in> set (dk_tickets d)" "ticket_step op x x'"
        "dk_tickets d' = update_where (\<lambda>y. tk_id y = tk_id x) (\<lambda>_. x') (dk_tickets d)"
    using assms(1) unfolding desk_change_def by blast
  then show ?thesis
  proof cases
    case 2
    then show ?thesis by (simp add: new_ticket_def op)
  next
    case 3
    have only: "y = x" if "y \<in> set (dk_tickets d)" "tk_id y = tk_id x" for y
      using that 3(1) assms(2) by (auto simp: desk_ok_def distinct_map dest: inj_onD)
    have x: "tk_company_id x = company" "tk_company_id x' = company"
      using 3(2) by (auto simp: op same_ticket_def)
    have "filter (\<lambda>t. tk_company_id t \<noteq> company) (update_where (\<lambda>y. tk_id y = tk_id x) (\<lambda>_. x') ts) =
        filter (\<lambda>t. tk_company_id t \<noteq> company) ts" if "\<forall>y \<in> set ts. tk_id y = tk_id x \<longrightarrow> y = x" for ts
      using that x by (induction ts) auto
    then show ?thesis using only 3(3) by simp
  qed simp
qed

lemma desk_change_foreign_texts:
  assumes "desk_change op d d'" "desk_ok d" "t \<in> set (dk_tickets d)" "tk_company_id t \<noteq> fst (snd op)"
  shows "filter (\<lambda>c. tc_ticket_id c = tk_id t) (dk_comments d') = filter (\<lambda>c. tc_ticket_id c = tk_id t) (dk_comments d) \<and>
    filter (\<lambda>n. in_ticket_id n = tk_id t) (dk_notes d') = filter (\<lambda>n. in_ticket_id n = tk_id t) (dk_notes d)"
proof -
  have other: "i \<noteq> tk_id t" if "\<exists>x \<in> set (dk_tickets d). tk_id x = i \<and> tk_company_id x = fst (snd op)" for i
    using that assms(2-4) by (auto simp: desk_ok_def distinct_map dest: inj_onD)
  have "dk_comments d' = dk_comments d \<or> (\<exists>c. new_comment op c d \<and> dk_comments d' = dk_comments d @ [c])"
    "dk_notes d' = dk_notes d \<or> (\<exists>n. new_note op n d \<and> dk_notes d' = dk_notes d @ [n])"
    using assms(1) unfolding desk_change_def by blast+
  moreover have "tc_ticket_id c \<noteq> tk_id t" if "new_comment op c d" for c
    using that by (intro other) (auto simp: new_comment_def)
  moreover have "in_ticket_id n \<noteq> tk_id t" if "new_note op n d" for n
    using that by (intro other) (auto simp: new_note_def)
  ultimately show ?thesis by auto
qed

text \<open>
  C38: tenants. Along every trace of requests of one company, the tickets, comments
  and notes of other companies stay as they are, and so do their attachments.
\<close>

theorem desk_tenants_isolated:
  assumes "desk_ok d" "\<forall>op \<in> set ops. fst (snd op) = company"
  shows "filter (\<lambda>t. tk_company_id t \<noteq> company) (dk_tickets (desk_trace ops d)) =
      filter (\<lambda>t. tk_company_id t \<noteq> company) (dk_tickets d) \<and>
    filter (\<lambda>a. at_company_id a \<noteq> company) (dk_attachments (desk_trace ops d)) =
      filter (\<lambda>a. at_company_id a \<noteq> company) (dk_attachments d) \<and>
    (\<forall>t \<in> set (dk_tickets d). tk_company_id t \<noteq> company \<longrightarrow>
      filter (\<lambda>c. tc_ticket_id c = tk_id t) (dk_comments (desk_trace ops d)) =
        filter (\<lambda>c. tc_ticket_id c = tk_id t) (dk_comments d) \<and>
      filter (\<lambda>n. in_ticket_id n = tk_id t) (dk_notes (desk_trace ops d)) =
        filter (\<lambda>n. in_ticket_id n = tk_id t) (dk_notes d))"
  using assms
proof (induction ops arbitrary: d)
  case Nil
  then show ?case by (simp add: desk_trace_def)
next
  case (Cons op ops)
  let ?d1 = "perform_desk op d"
  obtain u now r where op: "op = (u, company, now, r)" using Cons.prems(2) by (cases op) auto
  have ok1: "desk_ok ?d1" by (rule perform_desk_ok [OF Cons.prems(1)])
  have change: "desk_change op d ?d1" using Cons.prems(1) by (intro perform_desk_change) (simp add: desk_ok_def)
  have tickets: "filter (\<lambda>t. tk_company_id t \<noteq> company) (dk_tickets ?d1) = filter (\<lambda>t. tk_company_id t \<noteq> company) (dk_tickets d)"
    by (rule desk_change_foreign_tickets [OF change Cons.prems(1)]) (simp add: op)
  have files: "filter (\<lambda>a. at_company_id a \<noteq> company) (dk_attachments ?d1) =
      filter (\<lambda>a. at_company_id a \<noteq> company) (dk_attachments d)"
    using change by (simp add: desk_change_def op)
  have there: "t \<in> set (dk_tickets ?d1)" if "t \<in> set (dk_tickets d)" "tk_company_id t \<noteq> company" for t
  proof -
    have "t \<in> set (filter (\<lambda>t. tk_company_id t \<noteq> company) (dk_tickets ?d1))" unfolding tickets using that by simp
    then show ?thesis by simp
  qed
  have texts: "filter (\<lambda>c. tc_ticket_id c = tk_id t) (dk_comments ?d1) = filter (\<lambda>c. tc_ticket_id c = tk_id t) (dk_comments d) \<and>
      filter (\<lambda>n. in_ticket_id n = tk_id t) (dk_notes ?d1) = filter (\<lambda>n. in_ticket_id n = tk_id t) (dk_notes d)"
    if "t \<in> set (dk_tickets d)" "tk_company_id t \<noteq> company" for t
    by (rule desk_change_foreign_texts [OF change Cons.prems(1) that(1)]) (use that op in simp)
  have rest: "desk_trace (op # ops) d = desk_trace ops ?d1" by (simp add: desk_trace_def)
  show ?case unfolding rest using Cons.IH [OF ok1] Cons.prems(2) tickets files there texts by simp
qed

text \<open>An employee reads the discussion of own tickets only.\<close>

lemma employee_reads_own:
  assumes "get_ticket_comments i u company d = Inr cs" "role_of u = ''employee''"
  shows "\<exists>t \<in> set (dk_tickets d). tk_id t = i \<and> tk_company_id t = company \<and> tk_requester_id t = du_id u"
proof -
  obtain t where t: "find_ticket i company d = Inr t" "ticket_access u t d = Inr ()"
    using assms(1) by (auto simp: get_ticket_comments_def get_ticket_by_id_def bind_res_Inr_iff)
  then show ?thesis using find_ticket_Inr [OF t(1)] assms(2)
    by (auto simp: ticket_access_def split: if_splits)
qed

text \<open>Roles other than employee and manager are not restricted, so an intern reads every ticket.\<close>

lemma intern_reads_all:
  assumes "find_ticket i company d = Inr t" "role_of u = ''intern''"
  shows "get_ticket_by_id i u company d = Inr t"
  using assms by (simp add: get_ticket_by_id_def ticket_access_def)

text \<open>
  A resolution in time is remembered when the ticket goes back to work, so its deadline is never
  missed again.
\<close>

lemma reworked_ticket_never_late:
  assumes "tk_resolved_at t = Some x" "x \<le> due" "f \<le> first_due"
  shows "\<not> check_is_breached ''In Progress'' (Some due) (Some first_due) (Some f)
    (tk_resolved_at (with_status ''In Progress'' None now t)) later"
proof -
  have "py_strip (py_lower ''In Progress'') = ''in progress''" by code_simp
  then show ?thesis using assms by (simp add: check_is_breached_def with_status_def Let_def)
qed

text \<open>A desk on which user 7 has an open ticket.\<close>

definition open_ticket :: ticket where
  "open_ticket =
     \<lparr> tk_id = 1, tk_company_id = 1, tk_number = ''TICKET-4711'', tk_requester_id = 7, tk_assigned_to_id = None,
       tk_department = None, tk_category = ''IT'', tk_priority = ''Urgent'', tk_status = ''Open'',
       tk_subject = ''Laptop'', tk_description = ''Broken'', tk_resolution_notes = None,
       tk_first_response_due = 3700, tk_resolution_due = 14500, tk_first_responded_at = None, tk_resolved_at = None,
       tk_closed_at = None, tk_updated_at = 100 \<rparr>"

definition sample_desk :: desk where
  "sample_desk = \<lparr> dk_tickets = [open_ticket], dk_comments = [], dk_notes = [], dk_attachments = [], dk_users = [],
     dk_employees = [] \<rparr>"

definition desk_worker :: "uuid \<Rightarrow> string \<Rightarrow> desk_user" where
  "desk_worker i r = \<lparr> du_id = i, du_company_id = Some 1, du_role = r \<rparr>"

text \<open>An agent resolves the ticket; in another company the same request finds nothing.\<close>

definition sample_desk_ops :: "uuid \<Rightarrow> desk_op list" where
  "sample_desk_ops company = [(desk_worker 8 ''it_admin'', company, 300, DeskStatus 1 ''resolved'' None)]"

lemma sample_desk_ok: "desk_ok sample_desk"
  by (simp add: desk_ok_def sample_desk_def open_ticket_def ticket_ok_def canonical_statuses_def)

lemma sample_desk_run:
  "map (\<lambda>t. (tk_id t, tk_number t, tk_status t, tk_requester_id t)) (dk_tickets (desk_trace (sample_desk_ops 1) sample_desk)) =
     [(1, ''TICKET-4711'', ''Resolved'', 7)]"
  by code_simp

theorem ticket_workflow_witness:
  "\<exists>t. dk_tickets (desk_trace (sample_desk_ops 1) sample_desk) = [t] \<and>
    (\<exists>t' \<in> set (dk_tickets (perform_desk (desk_worker 7 ''employee'', 1, 400, DeskStatus 1 ''Closed'' None)
        (desk_trace (sample_desk_ops 1) sample_desk))). same_ticket t t' \<and> tk_number t' = ''TICKET-4711'')"
proof -
  obtain t where t: "dk_tickets (desk_trace (sample_desk_ops 1) sample_desk) = [t]" "tk_number t = ''TICKET-4711''"
    using sample_desk_run by (auto simp: map_eq_Cons_conv)
  then have "t \<in> set (dk_tickets (desk_trace (sample_desk_ops 1) sample_desk))" by simp
  from ticket_workflow [OF sample_desk_ok this, where u = "desk_worker 7 ''employee''" and company = 1 and now = 400
      and r = "DeskStatus 1 ''Closed'' None"] t
  show ?thesis by (auto simp: same_ticket_def)
qed

theorem desk_tenants_isolated_witness:
  "filter (\<lambda>t. tk_company_id t \<noteq> 2) (dk_tickets (desk_trace (sample_desk_ops 2) (desk_trace (sample_desk_ops 1) sample_desk))) =
     dk_tickets (desk_trace (sample_desk_ops 1) sample_desk)"
proof -
  let ?d = "desk_trace (sample_desk_ops 1) sample_desk"
  have "\<forall>op \<in> set (sample_desk_ops 2). fst (snd op) = 2" by (simp add: sample_desk_ops_def)
  note isolated = desk_tenants_isolated [OF desk_trace_ok [OF sample_desk_ok, of "sample_desk_ops 1"] this]
  have "list_all (\<lambda>t. tk_company_id t \<noteq> 2) (dk_tickets ?d)" by code_simp
  then have "filter (\<lambda>t. tk_company_id t \<noteq> 2) (dk_tickets ?d) = dk_tickets ?d" by (simp add: list_all_iff)
  then show ?thesis using isolated by simp
qed

end
