(* ===== verification/Parallel_Comparison.thy ===== *)
theory Parallel_Comparison
  imports Payment_Batch "HOL-Library.Char_ord" "HOL-Library.List_Lexorder"
begin

text \<open>
  The comparison of a run with a legacy payroll: \<open>parallel_comparison_service.py\<close>. The rows of an
  uploaded CSV file arrive as the dictionaries of the CSV reader; the reader, the parser of decimals, the
  code of an employee and the tax regime of a row's JSON breakup are arguments. Not modelled: workbooks
  (XLSX), the rupee sign (text is ASCII), the rupee floats beside the exact amounts of a report or of a
  breakup, the hash of the file, and the failure of the six-place percentage on amounts of more than twenty
  digits. Lemmas: the sums of a report, its exact verdict, and what it does with duplicate codes and absent
  employees.
\<close>

section \<open>The legacy file\<close>

definition HEADS :: "string list" where
  "HEADS = [''gross'', ''basic'', ''pf'', ''esi'', ''pt'', ''lwf'', ''tds'', ''net_pay'']"

definition REQUIRED_COLUMNS :: "string list" where "REQUIRED_COLUMNS = ''employee_code'' # HEADS"

definition PF_CEILING_PAISE :: int where "PF_CEILING_PAISE = 15000 * 100"

definition file_header :: "string \<Rightarrow> string" where
  "file_header v = map (\<lambda>c. if c = CHR '' '' \<or> c = CHR ''-'' then CHR ''_'' else c) (py_lower (py_strip v))"

text \<open>A row of the reader; of columns with one header the last counts.\<close>

type_synonym raw_row = "(string \<times> string option) list"

definition raw_cell :: "raw_row \<Rightarrow> string \<Rightarrow> string option" where
  "raw_cell row k = (case map_of (rev row) k of None \<Rightarrow> None | Some v \<Rightarrow> v)"

definition normalized_row :: "raw_row \<Rightarrow> raw_row" where
  "normalized_row row = map (\<lambda>(k, v). (file_header k, v)) row"

definition blank_row :: "raw_row \<Rightarrow> bool" where
  "blank_row row \<longleftrightarrow> (\<forall>v \<in> set (map (raw_cell row) (map fst row)). py_strip (or_str v []) = [])"

record legacy_row =
  lg_code :: string
  lg_line :: nat
  lg_amounts :: "(string \<times> int) list"
  lg_lop_days :: "string option"
  lg_paid_days :: "string option"
  lg_tax_regime :: "string option"
  lg_regime :: "string option"
  lg_pf_ceiling :: "string option"

definition without :: "char \<Rightarrow> string \<Rightarrow> string" where "without c s = filter (\<lambda>x. x \<noteq> c) s"

function without_rs :: "string \<Rightarrow> string" where
  "without_rs [] = []"
| "without_rs (c # cs) = (if take 3 (c # cs) = ''Rs.'' then without_rs (drop 2 cs) else c # without_rs cs)"
  by pat_completeness auto
termination by (relation "measure length") auto

definition or_zero_text :: "string \<Rightarrow> string" where "or_zero_text s = (if s = [] then ''0'' else s)"

definition legacy_amount :: "(string \<Rightarrow> rat option) \<Rightarrow> raw_row \<Rightarrow> string \<Rightarrow> int result" where
  "legacy_amount dec row head =
     (let paise = or_str (raw_cell row (head @ ''_paise'')) []
      in if paise \<noteq> []
         then (case dec (without CHR '','' paise) of None \<Rightarrow> Inl InvalidOperation | Some q \<Rightarrow> Inr (dec_trunc q))
         else
           let value = without_rs (without CHR '','' (py_strip (or_zero_text (or_str (raw_cell row head) []))))
           in case dec (or_zero_text value) of
                None \<Rightarrow> Inl (HTTPException 422 ''Invalid amount on legacy row'')
              | Some q \<Rightarrow>
                  (case round_paise_checked (dmul q PAISE_PER_RUPEE) of
                     Inl e \<Rightarrow> Inl (HTTPException 422 ''Invalid amount on legacy row'')
                   | Inr n \<Rightarrow> Inr n))"

fun legacy_amounts :: "(string \<Rightarrow> rat option) \<Rightarrow> raw_row \<Rightarrow> string list \<Rightarrow> (string \<times> int) list result" where
  "legacy_amounts dec row [] = Inr []"
| "legacy_amounts dec row (h # hs) =
     bind_res (legacy_amount dec row h) (\<lambda>n. bind_res (legacy_amounts dec row hs) (\<lambda>ns. Inr ((h, n) # ns)))"

fun legacy_rows :: "(string \<Rightarrow> rat option) \<Rightarrow> nat \<Rightarrow> raw_row list \<Rightarrow> legacy_row list result" where
  "legacy_rows dec line [] = Inr []"
| "legacy_rows dec line (row # rows) =
     (let code = py_strip (or_str (raw_cell row ''employee_code'') [])
      in if code = [] then Inl (HTTPException 422 ''Missing employee_code on legacy row'')
         else bind_res (legacy_amounts dec row HEADS) (\<lambda>amounts.
              bind_res (legacy_rows dec (Suc line) rows) (\<lambda>rest.
                Inr (\<lparr> lg_code = code, lg_line = line, lg_amounts = amounts,
                       lg_lop_days = raw_cell row ''lop_days'', lg_paid_days = raw_cell row ''paid_days'',
                       lg_tax_regime = raw_cell row ''tax_regime'', lg_regime = raw_cell row ''regime'',
                       lg_pf_ceiling = raw_cell row ''pf_ceiling'' \<rparr> # rest))))"

text \<open>\<open>parse_legacy_file\<close> of a CSV file: its header row and its rows.\<close>

definition parse_legacy_file ::
  "(string \<Rightarrow> rat option) \<Rightarrow> string list \<Rightarrow> raw_row list \<Rightarrow> legacy_row list result" where
  "parse_legacy_file dec fieldnames rows =
     (let headers = map file_header fieldnames
      in if fieldnames = [] then Inl (HTTPException 422 ''Legacy CSV has no header row.'')
         else if \<not> set REQUIRED_COLUMNS \<subseteq> set headers
         then Inl (HTTPException 422 ''Missing legacy payroll columns'')
         else legacy_rows dec 2 (filter (\<lambda>r. \<not> blank_row r) (map normalized_row rows)))"

section \<open>The rows of the run\<close>

record system_row =
  sy_code :: string
  sy_employee_id :: "uuid option"
  sy_amounts :: "(string \<times> int) list"
  sy_lop_days :: rat
  sy_paid_days :: rat
  sy_tax_regime :: "string option"

definition amount :: "(string \<times> int) list \<Rightarrow> string \<Rightarrow> int" where
  "amount am h = (case map_of am h of None \<Rightarrow> 0 | Some n \<Rightarrow> n)"

text \<open>\<open>epaise\<close> and \<open>dpaise\<close>: the exact entry of the breakup, or the amount of the payslip.\<close>

definition paise_of :: "(string \<times> int) list \<Rightarrow> string \<Rightarrow> rat \<Rightarrow> int" where
  "paise_of breakup head fallback =
     (case map_of breakup (head @ ''_paise'') of Some n \<Rightarrow> n | None \<Rightarrow> rupees_to_paise fallback)"

definition slip_amount :: "(payslip \<Rightarrow> rat) \<Rightarrow> payslip option \<Rightarrow> rat" where
  "slip_amount field ps = (case ps of None \<Rightarrow> 0 | Some p \<Rightarrow> field p)"

definition system_row_of ::
  "(employee \<Rightarrow> string) \<Rightarrow> (run_employee \<Rightarrow> string option) \<Rightarrow> payslip list \<Rightarrow> employee \<Rightarrow> run_employee \<Rightarrow> system_row" where
  "system_row_of code_of regime_of slips emp re =
     (let ps = map_of (rev (map (\<lambda>p. (ps_employee_id p, p)) slips)) (re_employee_id re);
          d = re_deductions_breakup re
      in \<lparr> sy_code = code_of emp, sy_employee_id = Some (em_id emp),
           sy_amounts =
             [(''gross'', re_gross_earnings_paise re),
              (''basic'', paise_of (re_earnings_breakup re) ''basic'' (slip_amount ps_basic ps)),
              (''pf'', paise_of d ''pf'' (slip_amount ps_employee_pf ps)),
              (''esi'', paise_of d ''esi'' (slip_amount ps_employee_esi ps)),
              (''pt'', paise_of d ''pt'' (slip_amount ps_professional_tax ps)),
              (''lwf'', paise_of d ''lwf'' 0),
              (''tds'', paise_of d ''tds'' (slip_amount ps_tds ps)),
              (''net_pay'', re_net_pay_paise re)],
           sy_lop_days = re_lop_days re,
           sy_paid_days = (if re_paid_days re = 0 then 30 else re_paid_days re),
           sy_tax_regime = regime_of re \<rparr>)"

definition system_rows ::
  "(employee \<Rightarrow> string) \<Rightarrow> (run_employee \<Rightarrow> string option) \<Rightarrow> uuid \<Rightarrow> payroll_db \<Rightarrow> system_row list" where
  "system_rows code_of regime_of rid db =
     (let slips = filter (\<lambda>p. ps_run_id p = rid) (db_payslips db)
      in List.map_filter (\<lambda>re.
           map_option (\<lambda>emp. system_row_of code_of regime_of slips emp re)
             (find (\<lambda>e. em_id e = re_employee_id re) (db_employees db)))
         (filter (\<lambda>re. re_run_id re = rid) (db_run_employees db)))"

definition no_system_row :: "string \<Rightarrow> system_row" where
  "no_system_row code =
     \<lparr> sy_code = code, sy_employee_id = None, sy_amounts = [], sy_lop_days = 0, sy_paid_days = 30, sy_tax_regime = None \<rparr>"

definition no_legacy_row :: "string \<Rightarrow> legacy_row" where
  "no_legacy_row code =
     \<lparr> lg_code = code, lg_line = 0, lg_amounts = [], lg_lop_days = None, lg_paid_days = None, lg_tax_regime = None,
       lg_regime = None, lg_pf_ceiling = None \<rparr>"

section \<open>Variances and their diagnosis\<close>

record head_variance =
  hv_legacy :: int
  hv_payroll :: int
  hv_variance :: int
  hv_percentage :: "rat option"

definition micro_half_even :: "rat \<Rightarrow> rat" where
  "micro_half_even x = of_int (half_even (x * 1000000)) / 1000000"

definition variance :: "int \<Rightarrow> int \<Rightarrow> head_variance" where
  "variance payroll legacy =
     (let v = payroll - legacy
      in \<lparr> hv_legacy = legacy, hv_payroll = payroll, hv_variance = v,
           hv_percentage =
             (if legacy \<noteq> 0 then Some (micro_half_even (dmul (ddiv (of_int v) (of_int \<bar>legacy\<bar>)) 100))
              else if v = 0 then Some 0 else None) \<rparr>)"

definition head_variances :: "system_row \<Rightarrow> legacy_row \<Rightarrow> (string \<times> head_variance) list" where
  "head_variances s l = map (\<lambda>h. (h, variance (amount (sy_amounts s) h) (amount (lg_amounts l) h))) HEADS"

text \<open>Whether a day count of the legacy row, when it is given, differs from that of the run.\<close>

definition days_differ :: "(string \<Rightarrow> rat option) \<Rightarrow> string option \<Rightarrow> rat \<Rightarrow> bool result" where
  "days_differ dec v days =
     (if or_str v [] = [] then Inr False
      else case dec (or_str v []) of None \<Rightarrow> Inl InvalidOperation | Some q \<Rightarrow> Inr (q \<noteq> days))"

definition diagnose :: "(string \<Rightarrow> rat option) \<Rightarrow> legacy_row \<Rightarrow> system_row \<Rightarrow> string list result" where
  "diagnose dec l s =
     (let v = (\<lambda>h. amount (sy_amounts s) h - amount (lg_amounts l) h);
          nonzero = filter (\<lambda>h. v h \<noteq> 0) HEADS;
          rounding = nonzero \<noteq> [] \<and> list_all (\<lambda>h. \<bar>v h\<bar> \<le> 100) nonzero;
          pf = v ''pf'' \<noteq> 0 \<and> (amount (sy_amounts s) ''basic'' > PF_CEILING_PAISE \<or>
                 amount (lg_amounts l) ''basic'' > PF_CEILING_PAISE \<or> or_str (lg_pf_ceiling l) [] \<noteq> []);
          lr = py_upper (if or_str (lg_tax_regime l) [] \<noteq> [] then or_str (lg_tax_regime l) [] else or_str (lg_regime l) []);
          sr = py_upper (or_str (sy_tax_regime s) []);
          tds = v ''tds'' \<noteq> 0 \<and> \<not> rounding \<and>
                 (lr \<noteq> [] \<and> sr \<noteq> [] \<and> lr \<noteq> sr \<or> lr = [] \<or> sr = [] \<or> \<bar>v ''tds''\<bar> > 100)
      in bind_res (days_differ dec (lg_lop_days l) (sy_lop_days s)) (\<lambda>lop.
         bind_res (days_differ dec (lg_paid_days l) (sy_paid_days s)) (\<lambda>paid.
           Inr ((if rounding then [''ROUNDING_DIFF''] else []) @
                (if lop \<or> paid then [''LOP_DAYS_MISMATCH''] else []) @
                (if pf then [''PF_CEILING_DIFF''] else []) @
                (if tds then [''TAX_REGIME_DIFF''] else [])))))"

section \<open>The report\<close>

record employee_variance =
  ev_code :: string
  ev_employee_id :: "uuid option"
  ev_status :: string
  ev_heads :: "(string \<times> head_variance) list"
  ev_diagnoses :: "string list"

record comparison_report =
  cm_company_id :: "uuid option"
  cm_run_id :: uuid
  cm_rows :: "employee_variance list"
  cm_heads :: "(string \<times> head_variance) list"
  cm_total_employees :: nat
  cm_matched :: nat
  cm_with_variance :: nat
  cm_total_variance :: int
  cm_diagnosis_counts :: "(string \<times> nat) list"

definition by_code :: "('a \<Rightarrow> string) \<Rightarrow> 'a list \<Rightarrow> string \<Rightarrow> 'a option" where
  "by_code f xs = map_of (rev (map (\<lambda>x. (f x, x)) xs))"

definition or_missing :: "(string \<Rightarrow> 'a) \<Rightarrow> (string \<Rightarrow> 'a option) \<Rightarrow> string \<Rightarrow> 'a" where
  "or_missing none m code = (case m code of None \<Rightarrow> none code | Some x \<Rightarrow> x)"

definition compare_code ::
  "(string \<Rightarrow> rat option) \<Rightarrow> (string \<Rightarrow> system_row option) \<Rightarrow> (string \<Rightarrow> legacy_row option) \<Rightarrow> string
    \<Rightarrow> employee_variance result" where
  "compare_code dec sys leg code =
     (let s = or_missing no_system_row sys code; l = or_missing no_legacy_row leg code; heads = head_variances s l
      in bind_res (diagnose dec l s) (\<lambda>diagnoses.
           Inr \<lparr> ev_code = code, ev_employee_id = sy_employee_id s,
                 ev_status =
                   (if sys code = None then ''MISSING_IN_PAYROLL''
                    else if leg code = None then ''MISSING_IN_LEGACY''
                    else if list_all (\<lambda>p. hv_variance (snd p) = 0) heads then ''MATCHED'' else ''VARIANCE''),
                 ev_heads = heads, ev_diagnoses = diagnoses \<rparr>))"

fun compare_codes ::
  "(string \<Rightarrow> rat option) \<Rightarrow> (string \<Rightarrow> system_row option) \<Rightarrow> (string \<Rightarrow> legacy_row option) \<Rightarrow> string list
    \<Rightarrow> employee_variance list result" where
  "compare_codes dec sys leg [] = Inr []"
| "compare_codes dec sys leg (c # cs) =
     bind_res (compare_code dec sys leg c) (\<lambda>row. bind_res (compare_codes dec sys leg cs) (\<lambda>rows. Inr (row # rows)))"

definition total_of :: "(head_variance \<Rightarrow> int) \<Rightarrow> employee_variance list \<Rightarrow> string \<Rightarrow> int" where
  "total_of f rows h = (\<Sum>r\<leftarrow>rows. case map_of (ev_heads r) h of None \<Rightarrow> 0 | Some v \<Rightarrow> f v)"

definition counted :: "string list \<Rightarrow> (string \<times> nat) list" where
  "counted xs = map (\<lambda>c. (c, count_list xs c)) (rev (remdups (rev xs)))"

definition report_of :: "payroll_run \<Rightarrow> employee_variance list \<Rightarrow> comparison_report" where
  "report_of run rows =
     (let heads = map (\<lambda>h. (h, variance (total_of hv_payroll rows h) (total_of hv_legacy rows h))) HEADS
      in \<lparr> cm_company_id = run_company_id run, cm_run_id = run_id run, cm_rows = rows, cm_heads = heads,
           cm_total_employees = length rows,
           cm_matched = length (filter (\<lambda>r. ev_status r = ''MATCHED'') rows),
           cm_with_variance = length (filter (\<lambda>r. ev_status r \<noteq> ''MATCHED'') rows),
           cm_total_variance = (\<Sum>p\<leftarrow>heads. \<bar>hv_variance (snd p)\<bar>),
           cm_diagnosis_counts = counted (concat (map ev_diagnoses rows)) \<rparr>)"

definition compare_rows ::
  "(string \<Rightarrow> rat option) \<Rightarrow> (employee \<Rightarrow> string) \<Rightarrow> (run_employee \<Rightarrow> string option) \<Rightarrow> uuid \<Rightarrow> uuid option
    \<Rightarrow> legacy_row list \<Rightarrow> payroll_db \<Rightarrow> comparison_report result" where
  "compare_rows dec code_of regime_of rid company_id legacy db =
     (case find (\<lambda>r. run_id r = rid) (db_runs db) of
        None \<Rightarrow> Inl (HTTPException 404 ''Payroll run not found.'')
      | Some run \<Rightarrow>
          if company_id \<noteq> None \<and> run_company_id run \<noteq> company_id
          then Inl (HTTPException 404 ''Payroll run not found.'')
          else
            let sys = system_rows code_of regime_of rid db;
                codes = sort (remdups (map sy_code sys @ map lg_code legacy))
            in bind_res (compare_codes dec (by_code sy_code sys) (by_code lg_code legacy) codes) (\<lambda>rows.
                 Inr (report_of run rows)))"

section \<open>The rows of a report\<close>

lemma HEADS_distinct: "distinct HEADS"
  by (simp add: HEADS_def)

lemma map_of_heads: "h \<in> set HEADS \<Longrightarrow> map_of (map (\<lambda>h. (h, f h)) HEADS) h = Some (f h)"
  by (simp add: map_of_map_restrict)

lemma compare_code_row:
  assumes "compare_code dec sys leg code = Inr row"
  shows "ev_code row = code"
    "ev_heads row = head_variances (or_missing no_system_row sys code) (or_missing no_legacy_row leg code)"
    "ev_status row = ''MATCHED'' \<longleftrightarrow> sys code \<noteq> None \<and> leg code \<noteq> None \<and>
       (\<forall>h \<in> set HEADS. amount (sy_amounts (or_missing no_system_row sys code)) h =
          amount (lg_amounts (or_missing no_legacy_row leg code)) h)"
  using assms
  by (auto simp: compare_code_def Let_def bind_res_Inr_iff head_variances_def variance_def list_all_iff split: if_splits)

text \<open>The amount of a head on each side of the row of a code.\<close>

definition legacy_at :: "(string \<Rightarrow> legacy_row option) \<Rightarrow> string \<Rightarrow> string \<Rightarrow> int" where
  "legacy_at leg h c = amount (lg_amounts (or_missing no_legacy_row leg c)) h"

definition system_at :: "(string \<Rightarrow> system_row option) \<Rightarrow> string \<Rightarrow> string \<Rightarrow> int" where
  "system_at sys h c = amount (sy_amounts (or_missing no_system_row sys c)) h"

lemma compare_codes_rows:
  "compare_codes dec sys leg codes = Inr rows \<Longrightarrow>
     map ev_code rows = codes \<and>
     (h \<in> set HEADS \<longrightarrow> total_of hv_legacy rows h = (\<Sum>c\<leftarrow>codes. legacy_at leg h c) \<and>
        total_of hv_payroll rows h = (\<Sum>c\<leftarrow>codes. system_at sys h c)) \<and>
     (filter (\<lambda>r. ev_status r \<noteq> ''MATCHED'') rows = [] \<longleftrightarrow>
        (\<forall>c \<in> set codes. sys c \<noteq> None \<and> leg c \<noteq> None \<and> (\<forall>h \<in> set HEADS. system_at sys h c = legacy_at leg h c)))"
proof (induction codes arbitrary: rows)
  case (Cons c codes)
  obtain row rest where row: "compare_code dec sys leg c = Inr row" and rest: "compare_codes dec sys leg codes = Inr rest"
    and rows: "rows = row # rest" using Cons.prems by (auto simp: bind_res_Inr_iff)
  note r = compare_code_row [OF row]
  have "map_of (ev_heads row) h = Some (variance (system_at sys h c) (legacy_at leg h c))" if "h \<in> set HEADS"
    using map_of_heads [OF that, of "\<lambda>h. variance (system_at sys h c) (legacy_at leg h c)"]
    by (simp add: r(2) head_variances_def system_at_def legacy_at_def)
  then have heads: "h \<in> set HEADS \<longrightarrow> total_of hv_legacy rows h = legacy_at leg h c + total_of hv_legacy rest h \<and>
      total_of hv_payroll rows h = system_at sys h c + total_of hv_payroll rest h"
    by (simp add: rows total_of_def variance_def Let_def)
  have status: "ev_status row = ''MATCHED'' \<longleftrightarrow> sys c \<noteq> None \<and> leg c \<noteq> None \<and> (\<forall>h \<in> set HEADS. system_at sys h c = legacy_at leg h c)"
    unfolding r(3) system_at_def legacy_at_def by (rule refl)
  show ?case using Cons.IH [OF rest] heads status r(1) by (auto simp: rows)
qed (simp add: total_of_def)

lemma by_code_in: "by_code f xs c = Some x \<Longrightarrow> x \<in> set xs \<and> f x = c"
  by (auto simp: by_code_def dest!: map_of_SomeD)

lemma dom_by_code: "dom (by_code f xs) = f ` set xs"
  by (simp add: by_code_def dom_map_of_conv_image_fst image_image)

lemma by_code_None: "by_code f xs c = None \<longleftrightarrow> c \<notin> f ` set xs"
  using dom_by_code [of f xs] by (auto simp: domIff)

lemma by_code_distinct:
  assumes "distinct (map f xs)" "x \<in> set xs"
  shows "by_code f xs (f x) = Some x"
proof -
  have "by_code f xs (f x) \<noteq> None" using assms(2) by (auto simp: by_code_None)
  then obtain y where y: "by_code f xs (f x) = Some y" by blast
  then have "y = x" using by_code_in [OF y] assms by (auto simp: distinct_map dest: inj_onD)
  then show ?thesis using y by simp
qed

text \<open>Summing over all codes is summing over the rows, when no two rows share a code.\<close>

lemma sum_by_code:
  assumes "distinct (map f xs)" "distinct codes" "f ` set xs \<subseteq> set codes" "\<And>c. g (none c) = (0::int)"
  shows "(\<Sum>c\<leftarrow>codes. g (or_missing none (by_code f xs) c)) = (\<Sum>x\<leftarrow>xs. g x)"
proof -
  let ?at = "\<lambda>c. g (or_missing none (by_code f xs) c)"
  have outside: "?at c = 0" if "c \<notin> f ` set xs" for c
    using that assms(4) by (simp add: or_missing_def by_code_None [symmetric])
  have "(\<Sum>c\<leftarrow>codes. ?at c) = (\<Sum>c \<in> set codes. ?at c)" using assms(2) by (simp add: sum_list_distinct_conv_sum_set)
  also have "\<dots> = (\<Sum>c \<in> f ` set xs. ?at c)"
    by (rule sum.mono_neutral_right) (use assms(3) outside in auto)
  also have "\<dots> = (\<Sum>x \<in> set xs. ?at (f x))"
    using assms(1) by (intro sum.reindex_cong [where l = f]) (auto simp: distinct_map)
  also have "\<dots> = (\<Sum>x \<in> set xs. g x)"
    by (rule sum.cong) (simp_all add: or_missing_def by_code_distinct [OF assms(1)])
  also have "\<dots> = (\<Sum>x\<leftarrow>xs. g x)"
    using assms(1) by (simp add: sum_list_distinct_conv_sum_set distinct_map)
  finally show ?thesis .
qed

lemma agreement:
  "(\<forall>c \<in> dom sys \<union> dom leg. sys c \<noteq> None \<and> leg c \<noteq> None \<and> (\<forall>h \<in> H. system_at sys h c = legacy_at leg h c)) \<longleftrightarrow>
     dom sys = dom leg \<and>
     (\<forall>c s l. sys c = Some s \<longrightarrow> leg c = Some l \<longrightarrow> (\<forall>h \<in> H. amount (sy_amounts s) h = amount (lg_amounts l) h))"
  (is "?both \<longleftrightarrow> ?doms \<and> ?agree")
proof
  assume b: ?both
  have ?doms
  proof (rule set_eqI)
    fix c show "c \<in> dom sys \<longleftrightarrow> c \<in> dom leg"
      using bspec [OF b, of c] by (cases "c \<in> dom sys \<union> dom leg") (simp_all add: domIff)
  qed
  moreover have ?agree
  proof (intro allI impI ballI)
    fix c s l h assume c: "sys c = Some s" "leg c = Some l" "h \<in> H"
    then have "system_at sys h c = legacy_at leg h c" using b by blast
    then show "amount (sy_amounts s) h = amount (lg_amounts l) h"
      using c by (simp add: system_at_def legacy_at_def or_missing_def)
  qed
  ultimately show "?doms \<and> ?agree" ..
next
  assume d: "?doms \<and> ?agree"
  show ?both
  proof
    fix c assume "c \<in> dom sys \<union> dom leg"
    then obtain s l where c: "sys c = Some s" "leg c = Some l" using d by blast
    then show "sys c \<noteq> None \<and> leg c \<noteq> None \<and> (\<forall>h \<in> H. system_at sys h c = legacy_at leg h c)"
      using d by (simp add: system_at_def legacy_at_def or_missing_def)
  qed
qed

lemma compare_rows_Inr:
  assumes "compare_rows dec code_of regime_of rid company_id legacy db = Inr rep"
  obtains run rows where "run_id run = rid" "rep = report_of run rows"
    "compare_codes dec (by_code sy_code (system_rows code_of regime_of rid db)) (by_code lg_code legacy)
       (sort (remdups (map sy_code (system_rows code_of regime_of rid db) @ map lg_code legacy))) = Inr rows"
proof (cases "find (\<lambda>r. run_id r = rid) (db_runs db)")
  case (Some run)
  then have "run_id run = rid" by (auto simp: find_Some_iff)
  then show ?thesis using assms Some that
    by (auto simp: compare_rows_def Let_def bind_res_Inr_iff split: if_splits)
qed (use assms in \<open>simp add: compare_rows_def\<close>)

lemma amount_Nil [simp]: "amount [] h = 0"
  by (simp add: amount_def)

lemma report_head:
  assumes "h \<in> set HEADS"
  shows "map_of (cm_heads (report_of run rows)) h =
    Some (variance (total_of hv_payroll rows h) (total_of hv_legacy rows h))"
  using map_of_heads [OF assms, of "\<lambda>h. variance (total_of hv_payroll rows h) (total_of hv_legacy rows h)"]
  by (simp add: report_of_def Let_def)

text \<open>Of the rows with one code, the last.\<close>

fun last_rows :: "('a \<Rightarrow> string) \<Rightarrow> 'a list \<Rightarrow> 'a list" where
  "last_rows f [] = []"
| "last_rows f (x # xs) = (if f x \<in> f ` set xs then last_rows f xs else x # last_rows f xs)"

lemma last_rows_codes: "f ` set (last_rows f xs) = f ` set xs"
  by (induction xs) auto

lemma last_rows_distinct: "distinct (map f (last_rows f xs))"
  by (induction xs) (simp_all add: last_rows_codes)

lemma last_rows_all: "distinct (map f xs) \<Longrightarrow> last_rows f xs = xs"
  by (induction xs) auto

lemma by_code_Cons: "by_code f (x # xs) c = (case by_code f xs c of None \<Rightarrow> if f x = c then Some x else None | Some y \<Rightarrow> Some y)"
  by (simp add: by_code_def map_add_def split: option.split)

lemma by_code_last_rows: "by_code f (last_rows f xs) = by_code f xs"
proof
  fix c show "by_code f (last_rows f xs) c = by_code f xs c"
  proof (induction xs)
    case (Cons x xs)
    have "by_code f xs (f x) \<noteq> None" if "f x \<in> f ` set xs" using that by (simp add: by_code_None)
    then show ?case using Cons by (auto simp: by_code_Cons split: option.splits)
  qed simp
qed

lemma sum_last_rows:
  assumes "distinct codes" "f ` set xs \<subseteq> set codes" "\<And>c. g (none c) = (0::int)"
  shows "(\<Sum>c\<leftarrow>codes. g (or_missing none (by_code f xs) c)) = (\<Sum>x\<leftarrow>last_rows f xs. g x)"
proof -
  have "f ` set (last_rows f xs) \<subseteq> set codes" using assms(2) by (simp only: last_rows_codes)
  from sum_by_code [where g = g and none = none, OF last_rows_distinct assms(1) this assms(3)]
  show ?thesis by (simp only: by_code_last_rows)
qed

text \<open>
  C15: nothing is lost between the two payrolls. The report of each head carries the sum of the
  head over the legacy rows, the sum over the rows of the run, of several rows with one code the last,
  and their exact difference in paise: over all rows, when no two legacy rows or no two employees of
  the run share a code. Every code has one line, and the lines are the matched ones and those with a
  variance.
\<close>

theorem comparison_conserves:
  assumes "compare_rows dec code_of regime_of rid company_id legacy db = Inr rep" "h \<in> set HEADS"
    "sys = system_rows code_of regime_of rid db"
  shows "\<exists>v. map_of (cm_heads rep) h = Some v \<and>
    hv_legacy v = (\<Sum>l\<leftarrow>last_rows lg_code legacy. amount (lg_amounts l) h) \<and>
    hv_payroll v = (\<Sum>s\<leftarrow>last_rows sy_code sys. amount (sy_amounts s) h) \<and>
    hv_variance v = hv_payroll v - hv_legacy v \<and>
    (distinct (map lg_code legacy) \<longrightarrow> last_rows lg_code legacy = legacy) \<and>
    (distinct (map sy_code sys) \<longrightarrow> last_rows sy_code sys = sys) \<and>
    cm_total_employees rep = card (lg_code ` set legacy \<union> sy_code ` set sys) \<and>
    cm_matched rep + cm_with_variance rep = cm_total_employees rep"
proof -
  let ?codes = "sort (remdups (map sy_code sys @ map lg_code legacy))"
  obtain run rows where rep: "rep = report_of run rows"
    and rows: "compare_codes dec (by_code sy_code sys) (by_code lg_code legacy) ?codes = Inr rows"
    using compare_rows_Inr [OF assms(1)] unfolding assms(3) by blast
  note r = compare_codes_rows [OF rows, of h]
  have codes: "distinct ?codes" "set ?codes = sy_code ` set sys \<union> lg_code ` set legacy" by auto
  have legacy: "(\<Sum>c\<leftarrow>?codes. legacy_at (by_code lg_code legacy) h c) = (\<Sum>l\<leftarrow>last_rows lg_code legacy. amount (lg_amounts l) h)"
    unfolding legacy_at_def
    by (rule sum_last_rows [OF codes(1), where g = "\<lambda>l. amount (lg_amounts l) h"])
      (use codes(2) in \<open>auto simp: no_legacy_row_def\<close>)
  have system: "(\<Sum>c\<leftarrow>?codes. system_at (by_code sy_code sys) h c) = (\<Sum>s\<leftarrow>last_rows sy_code sys. amount (sy_amounts s) h)"
    unfolding system_at_def
    by (rule sum_last_rows [OF codes(1), where g = "\<lambda>s. amount (sy_amounts s) h"])
      (use codes(2) in \<open>auto simp: no_system_row_def\<close>)
  have "length rows = length (map ev_code rows)" by simp
  also have "\<dots> = card (set ?codes)" using r codes(1) by (metis distinct_card)
  finally have lines: "length rows = card (lg_code ` set legacy \<union> sy_code ` set sys)"
    using codes(2) by (simp add: Un_commute)
  have "length (filter (\<lambda>r. ev_status r = ''MATCHED'') rows) + length (filter (\<lambda>r. ev_status r \<noteq> ''MATCHED'') rows) = length rows"
    by (rule sum_length_filter_compl)
  then show ?thesis
    using report_head [OF assms(2), of run rows] r assms(2) legacy system lines last_rows_all [of lg_code legacy]
      last_rows_all [of sy_code sys]
    by (simp add: rep variance_def Let_def) (simp add: report_of_def Let_def)
qed

text \<open>
  The verdict is exact. A report counts no employee with a variance exactly when both payrolls
  name the same codes and agree on every head of every code; the total variance is then zero.
\<close>

theorem comparison_exact:
  assumes "compare_rows dec code_of regime_of rid company_id legacy db = Inr rep"
    "sys = by_code sy_code (system_rows code_of regime_of rid db)" "leg = by_code lg_code legacy"
  shows "(cm_with_variance rep = 0 \<longleftrightarrow> dom sys = dom leg \<and>
      (\<forall>c s l. sys c = Some s \<longrightarrow> leg c = Some l \<longrightarrow> (\<forall>h \<in> set HEADS. amount (sy_amounts s) h = amount (lg_amounts l) h))) \<and>
    (cm_with_variance rep = 0 \<longrightarrow> cm_total_variance rep = 0)"
proof -
  let ?sys = "system_rows code_of regime_of rid db"
  let ?codes = "sort (remdups (map sy_code ?sys @ map lg_code legacy))"
  obtain run rows where rep: "rep = report_of run rows"
    and rows: "compare_codes dec sys leg ?codes = Inr rows"
    using compare_rows_Inr [OF assms(1)] assms(2,3) by metis
  have codes: "set ?codes = dom sys \<union> dom leg"
    by (simp add: assms(2,3) dom_by_code)
  have verdict: "cm_with_variance rep = 0 \<longleftrightarrow>
      (\<forall>c \<in> set ?codes. sys c \<noteq> None \<and> leg c \<noteq> None \<and> (\<forall>h \<in> set HEADS. system_at sys h c = legacy_at leg h c))"
    using compare_codes_rows [OF rows] by (simp add: rep report_of_def Let_def)
  moreover have "\<dots> \<longleftrightarrow> dom sys = dom leg \<and>
      (\<forall>c s l. sys c = Some s \<longrightarrow> leg c = Some l \<longrightarrow> (\<forall>h \<in> set HEADS. amount (sy_amounts s) h = amount (lg_amounts l) h))"
    unfolding codes by (rule agreement)
  moreover have "cm_total_variance rep = 0" if zero: "cm_with_variance rep = 0"
  proof -
    have "total_of hv_payroll rows h = total_of hv_legacy rows h" if h: "h \<in> set HEADS" for h
    proof -
      have same: "map (system_at sys h) ?codes = map (legacy_at leg h) ?codes"
        using zero h unfolding verdict by (intro map_cong refl) blast
      show ?thesis using compare_codes_rows [OF rows, of h] h unfolding same by metis
    qed
    then have "\<forall>h \<in> set HEADS. \<bar>hv_variance (variance (total_of hv_payroll rows h) (total_of hv_legacy rows h))\<bar> = 0"
      by (simp add: variance_def Let_def)
    then show ?thesis by (simp add: rep report_of_def Let_def comp_def cong: map_cong)
  qed
  ultimately show ?thesis by blast
qed

text \<open>Of legacy rows with one code only the last is compared; the amounts of the others vanish.\<close>

lemma duplicate_legacy_rows_lost:
  "by_code lg_code (rows @ [l]) (lg_code l) = Some l"
  by (simp add: by_code_def)

section \<open>A sample comparison\<close>

definition sample_decimal :: "string \<Rightarrow> rat option" where
  "sample_decimal s = (if s = ''0'' then Some 0 else if s = ''1200.50'' then Some (2401/2) else None)"

definition sample_raw_row :: raw_row where
  "sample_raw_row =
     [(''Employee Code'', Some '' E6 ''), (''gross'', Some ''1,200.50''), (''basic'', None), (''pf'', None), (''esi'', None),
      (''pt'', None), (''lwf'', None), (''tds'', None), (''net-pay'', Some ''Rs.1,200.50'')]"

definition sample_legacy :: legacy_row where
  "sample_legacy =
     \<lparr> lg_code = ''E6'', lg_line = 2,
       lg_amounts = [(''gross'', 120050), (''basic'', 0), (''pf'', 0), (''esi'', 0), (''pt'', 0), (''lwf'', 0), (''tds'', 0),
                     (''net_pay'', 120050)],
       lg_lop_days = None, lg_paid_days = None, lg_tax_regime = None, lg_regime = None, lg_pf_ceiling = None \<rparr>"

text \<open>A file whose amounts carry separators and a currency prefix is read in exact paise.\<close>

lemma sample_file:
  "parse_legacy_file sample_decimal (map fst sample_raw_row) [sample_raw_row] = Inr [sample_legacy]"
  by code_simp

definition sample_compared_db :: "int \<Rightarrow> payroll_db" where
  "sample_compared_db net =
     empty_db\<lparr> db_runs := [sample_run_row 1 PAID],
       db_employees := [(sample_employee 6)\<lparr> em_first_name := [], em_last_name := [], em_role := [] \<rparr>],
       db_run_employees := [sample_pay_row 6 net] \<rparr>"

definition sample_comparison :: "comparison_report result" where
  "sample_comparison =
     compare_rows sample_decimal (\<lambda>_. ''E6'') (\<lambda>_. None) 1 (Some 1) [sample_legacy] (sample_compared_db 120050)"

lemma sample_system_rows: "map sy_code (system_rows (\<lambda>_. ''E6'') (\<lambda>_. None) 1 (sample_compared_db n)) = [''E6'']"
  by (simp add: system_rows_def sample_compared_db_def sample_pay_row_def sample_employee_def system_row_of_def Let_def
      empty_db_def List.map_filter_simps)

lemma sample_comparison_matched: "case sample_comparison of Inr rep \<Rightarrow> cm_with_variance rep = 0 | Inl e \<Rightarrow> False"
  by code_simp

theorem comparison_conserves_witness:
  "\<exists>rep v. sample_comparison = Inr rep \<and> map_of (cm_heads rep) ''gross'' = Some v \<and> hv_legacy v = 120050"
proof -
  obtain rep where rep: "sample_comparison = Inr rep"
    using sample_comparison_matched by (auto split: sum.splits)
  have "\<exists>v. map_of (cm_heads rep) ''gross'' = Some v \<and> hv_legacy v = (\<Sum>l\<leftarrow>[sample_legacy]. amount (lg_amounts l) ''gross'')"
    using comparison_conserves [OF rep [unfolded sample_comparison_def] _ refl, of "''gross''"]
    by (auto simp: HEADS_def)
  then show ?thesis using rep by (auto simp: sample_legacy_def amount_def)
qed

theorem comparison_exact_witness:
  "\<exists>rep. sample_comparison = Inr rep \<and> cm_with_variance rep = 0 \<and> cm_total_variance rep = 0"
proof -
  obtain rep where rep: "sample_comparison = Inr rep" and zero: "cm_with_variance rep = 0"
    using sample_comparison_matched by (auto split: sum.splits)
  show ?thesis using comparison_exact [OF rep [unfolded sample_comparison_def] refl refl] rep zero by blast
qed

text \<open>An employee with no paid day is compared as one with thirty.\<close>

definition absent_employee_rows :: "system_row list" where
  "absent_employee_rows =
     system_rows (\<lambda>_. ''E6'') (\<lambda>_. None) 1
       ((sample_compared_db 0)\<lparr> db_run_employees := [(sample_pay_row 6 0)\<lparr> re_paid_days := 0, re_lop_days := 30 \<rparr>] \<rparr>)"

lemma absent_employee_has_thirty_days: "map sy_paid_days absent_employee_rows = [30]"
  by (simp add: absent_employee_rows_def system_rows_def sample_compared_db_def sample_pay_row_def sample_employee_def
      system_row_of_def Let_def empty_db_def List.map_filter_simps)

end
