(* ===== verification/Spec2Isabelle.thy ===== *)
theory Spec2Isabelle
  imports Bank_Feed Compensation Leave Run_Liveness Paid_Runs Refresh_Tokens Idempotency Accounting Pay_Components Helpdesk Parallel_Comparison
begin

text \<open>
  Verification library of the payroll engine of the repository: the services of
  \<open>app/services/payroll\<close>, the payroll permissions of \<open>app/api/payroll/permissions.py\<close>,
  the model classes they use, and the sessions in which they run: the login lockout and the block
  list of \<open>app/core/redis_client.py\<close>, the access tokens of \<open>app/middleware/auth.py\<close> and the
  refresh tokens of \<open>app/services/token_service.py\<close>.

  \<^bold>\<open>The program.\<close> A tenant (company) has employees with compensations and salary
  structures. For a payroll period a run is created, calculated, submitted, approved by a second
  person, locked and paid. The calculation reads attendance, variable inputs, arrears, loans and the
  statutory configuration and writes one row and one payslip per employee. A payment batch pays the
  rows through a bank file and is reconciled with the answer of the bank; a journal books the payslips.
  Every request carries an access token, which the middleware checks against a key-value store; the
  same store counts failed logins and keeps the results of requests with an idempotency key.

  \<^bold>\<open>State.\<close> The database is the record \<open>payroll_db\<close> of \<open>Models\<close>, one list of
  rows per table; a row is a record of the columns that the modelled code reads or writes. An
  operation takes the database and returns its result, \<open>Inl\<close> of the exception that the
  service raises or \<open>Inr\<close> of its value, with the committed database: what an exception rolls
  back is not in it, what was committed before the exception is. Identifiers and points in time are
  numbers; a fresh identifier is larger than all of its table. The clock, the uuid generator, the
  text of a uuid, Python's parser and power function, and the parsers of uploaded files are arguments.

  \<^bold>\<open>Numbers.\<close> Python's ints are \<open>int\<close>. A Decimal is a rational, and each operation of
  the Decimal context rounds to 28 digits with ROUND_HALF_EVEN (\<open>dadd\<close>, \<open>dmul\<close>,
  \<open>ddiv\<close> of \<open>Decimal_Ctx\<close>), so that sums of paise below \<open>10 ^ 27\<close> are exact and
  ratios are not. A float is used by the code only for amounts that it represents exactly or rounds
  to the same paisa: below \<open>2 ^ 50\<close> paise. No model needs fuel: every loop runs over rows,
  except the listing of pay components, which calls itself through the seeding; it is a
  \<open>partial_function\<close>, and a theorem says when it returns.

  \<^bold>\<open>Theories.\<close>
  \<^item> \<open>Prelude\<close>, \<open>Decimal_Ctx\<close>, \<open>Py_Strings\<close>, \<open>Dates\<close>: exceptions and
    results, the two ways of reading a query, the Decimal context, string methods, calendar dates.
  \<^item> \<open>Money\<close> (\<open>money.py\<close>), \<open>Formula\<close> (\<open>formula_evaluator.py\<close>),
    \<open>Global_Payroll\<close> (\<open>global_payroll.py\<close>).
  \<^item> \<open>Pf\<close>, \<open>Esi\<close>, \<open>Labour_Code\<close>, \<open>Tds\<close>, \<open>State_Rules\<close>: the calculations
    of \<open>statutory_service.py\<close>; their theorems are bounds, monotonicity, splits without loss and
    ceilings.
  \<^item> \<open>Models\<close>, \<open>Maker_Checker\<close>: the tables, the audit log, dual control and roles.
  \<^item> \<open>Run_Lifecycle\<close>, \<open>Run_Machine\<close>: the handlers of a run (\<open>run_service.py\<close>) and
    the transition system of all requests on all runs; the theorems are invariants of every trace,
    and the refinement of an abstract life cycle.
  \<^item> \<open>Advance\<close>, \<open>Arrear\<close>, \<open>Pay_Heads\<close>, \<open>Run_Statutory\<close>, \<open>Run_Calc\<close>:
    \<open>execute_run_calculation\<close> in the order of the code; \<open>Run_Totals\<close> and
    \<open>Run_Pay\<close> prove what a finished calculation guarantees.
  \<^item> \<open>Payment_Batch\<close>, \<open>Bank_Feed\<close> (\<open>payment_batch_service.py\<close>): dual control of
    bank files, their control total, and the reconciliation of bank feeds.
  \<^item> \<open>Compensation\<close> (\<open>compensation_service.py\<close>): one active salary per employee along
    every trace, and revisions.
  \<^item> \<open>Attendance_Sync\<close> (\<open>attendance_to_payroll_sync_service.py\<close>): the variable inputs
    that a locked attendance generates.
  \<^item> \<open>Periods\<close> (\<open>cycle_service.py\<close>, \<open>period_service.py\<close>, entity calendars of
    \<open>run_service.py\<close>): the table of periods along every trace of requests.
  \<^item> \<open>Variable_Inputs\<close> (\<open>variable_input_service.py\<close>): manual inputs, which cannot touch those
    that attendance locked.
  \<^item> \<open>Full_Final\<close> (\<open>full_and_final_service.py\<close>, \<open>fnf_calculation_service.py\<close>): gratuity,
    the net payable and dual control of settlements.
  \<^item> \<open>Transfers\<close> (\<open>run_service.py\<close>): employees that move between legal entities of a tenant.
  \<^item> \<open>Leave\<close> (\<open>leave_service.py\<close>, \<open>leave_repository.py\<close>, the cut-off of
    \<open>validation_service.py\<close>): the ledger of leave days, and the recovery of leave that is
    approved after the cut-off.
  \<^item> \<open>Run_Liveness\<close>: what a run can still do, its way from a calculation to the payment;
    \<open>Paid_Runs\<close>: what no request on runs or payment batches changes once it is paid.
  \<^item> \<open>Accounting\<close> (\<open>accounting_service.py\<close>): journals that balance, their exports, expenses
    posted once and the reconciliation with an external ledger.
  \<^item> \<open>Pay_Components\<close> (\<open>pay_component_service.py\<close>): the catalogue, its well-formed
    rows along every trace, and the termination of its listing.
  \<^item> \<open>Parallel_Comparison\<close> (\<open>parallel_comparison_service.py\<close>): the comparison of a run with a
    legacy file: what its sums are made of, and that its verdict is exact.
  \<^item> \<open>Redis_Client\<close>, \<open>Lockout\<close> (\<open>redis_client.py\<close>): the client over a server that is a
    parameter with the contract of an expiring map (the locale \<open>expiring_server\<close>), the in-memory
    fallback that keeps the same contract, and the progressive lockout proved once over it.
  \<^item> \<open>Sessions\<close> (\<open>auth.py\<close>), \<open>Refresh_Tokens\<close> (\<open>token_service.py\<close>,
    \<open>auth_repository.py\<close>): revoked access tokens, rotation, reuse detection and its grace time.
  \<^item> \<open>Idempotency\<close> (\<open>idempotency_service.py\<close>): a repeated submission answers the stored result.
  \<^item> \<open>Helpdesk\<close> (\<open>helpdesk_service.py\<close>, \<open>helpdesk_repository.py\<close>,
    \<open>helpdesk_sla_service.py\<close>): the workflow of tickets, who may move and read them, and the
    separation of tenants.
  \<^item> \<open>Machines\<close>: the locale of transition systems that the traces instantiate.

  \<^bold>\<open>Not modelled.\<close> Listings, reports, statutory returns and PDF documents (views over stored
  rows); HTTP routing; the Redis server, its distributed lock and the cache of active accounts; password
  hashing and the signature of tokens; the earlier float export of journals; the editing of statutory
  rule tables; the legacy pay cycle;
  the modules of the application other than payroll (recruitment, onboarding, connect, AI,
  performance, administration), whose rows the payroll only reads.
\<close>

end
